(* ===== verification/Prelude.thy ===== *)
theory Prelude
  imports Main "HOL-Library.Word"
begin

text \<open>
  Shared vocabulary of the development: the errors and results of the store layer, the
  transaction bracket, the SQL statements the store issues (as functions on lists of rows),
  Go's machine integers and string functions, and the interface locales the components use.

  A table is the list of its rows in insertion order.  A statement that reads is a function of
  the table, a statement that writes returns the new table, and a statement that violates a
  constraint returns the SQLSTATE Postgres reports.
\<close>

named_theorems table_simps \<open>rewriting table statements: lookup, update, totals\<close>
named_theorems go_simps \<open>definitions of the Go and Postgres primitives\<close>

section \<open>Errors, results, transactions\<close>

text \<open>
  The sentinel errors of the store package, errors built with \<open>fmt.Errorf\<close> (by their text),
  and errors the database raises (by SQLSTATE).
\<close>

datatype err =
    ErrNotFound
  | ErrConflict
  | ErrDropQuotaExceeded
  | ErrDropNodeCapacity
  | ErrDropNodeUnavailable
  | ErrMsg string
  | PgError string

type_synonym 'a res = "err + 'a"

abbreviation unique_violation :: err where "unique_violation \<equiv> PgError ''23505''"
abbreviation foreign_key_violation :: err where "foreign_key_violation \<equiv> PgError ''23503''"
abbreviation check_violation :: err where "check_violation \<equiv> PgError ''23514''"
abbreviation out_of_range :: err where "out_of_range \<equiv> PgError ''22003''"

definition is_ok :: "'a res \<Rightarrow> bool" where
  "is_ok r = (case r of Inl _ \<Rightarrow> False | Inr _ \<Rightarrow> True)"

lemma is_ok_simps [simp]: "is_ok (Inr x)" "\<not> is_ok (Inl e)"
  by (simp_all add: is_ok_def)

text \<open>
  \<open>BeginTx ... defer Rollback ... Commit\<close>: a body that returns an error leaves the database
  as it was when the transaction began.
\<close>

definition in_tx :: "('s \<Rightarrow> 'a res \<times> 's) \<Rightarrow> 's \<Rightarrow> 'a res \<times> 's" where
  "in_tx body s = (case body s of (Inl e, _) \<Rightarrow> (Inl e, s) | (Inr x, s') \<Rightarrow> (Inr x, s'))"

lemma in_tx_ok: "body s = (Inr x, s') \<Longrightarrow> in_tx body s = (Inr x, s')"
  by (simp add: in_tx_def)

lemma in_tx_err: "body s = (Inl e, s') \<Longrightarrow> in_tx body s = (Inl e, s)"
  by (simp add: in_tx_def)

lemma in_tx_okD: "in_tx body s = (Inr x, s') \<Longrightarrow> body s = (Inr x, s')"
  by (auto simp: in_tx_def split: prod.splits sum.splits)

lemma in_tx_errD: "in_tx body s = (Inl e, s') \<Longrightarrow> s' = s"
  by (auto simp: in_tx_def split: prod.splits sum.splits)

lemma in_tx_cases:
  obtains (err) e where "in_tx body s = (Inl e, s)"
  | (ok) x s' where "body s = (Inr x, s')" "in_tx body s = (Inr x, s')"
  by (cases "body s"; cases "fst (body s)") (auto simp: in_tx_def)

lemma in_tx_inv:
  assumes "J s" and "\<And>x s'. body s = (Inr x, s') \<Longrightarrow> J s'"
  shows "J (snd (in_tx body s))"
  by (cases rule: in_tx_cases [of body s]) (use assms in auto)

text \<open>\<open>x, err := f(); if err != nil { return err }\<close> inside a body that threads the database.\<close>

definition seq :: "'a res \<times> 's \<Rightarrow> ('a \<Rightarrow> 's \<Rightarrow> 'b res \<times> 's) \<Rightarrow> 'b res \<times> 's" where
  "seq r k = (case r of (Inl e, s) \<Rightarrow> (Inl e, s) | (Inr x, s) \<Rightarrow> k x s)"

lemma seq_simps [simp]: "seq (Inl e, s) k = (Inl e, s)" "seq (Inr x, s) k = k x s"
  by (simp_all add: seq_def)

lemma seq_okD: "seq r k = (Inr y, s') \<Longrightarrow> \<exists>x s. r = (Inr x, s) \<and> k x s = (Inr y, s')"
  by (auto simp: seq_def split: prod.splits sum.splits)

lemma seq_okE:
  assumes "seq r k = (Inr y, s')"
  obtains x s where "r = (Inr x, s)" "k x s = (Inr y, s')"
  using seq_okD [OF assms] by blast

section \<open>SQL statements on a table\<close>

text \<open>\<open>UPDATE t SET f WHERE p\<close>, \<open>DELETE FROM t WHERE p\<close>, \<open>count(*)\<close>, \<open>EXISTS\<close>, \<open>sum(w)\<close>.\<close>

definition upd_rows :: "('r \<Rightarrow> bool) \<Rightarrow> ('r \<Rightarrow> 'r) \<Rightarrow> 'r list \<Rightarrow> 'r list" where
  "upd_rows p f t = map (\<lambda>r. if p r then f r else r) t"

definition del_rows :: "('r \<Rightarrow> bool) \<Rightarrow> 'r list \<Rightarrow> 'r list" where
  "del_rows p t = filter (\<lambda>r. \<not> p r) t"

definition row_count :: "('r \<Rightarrow> bool) \<Rightarrow> 'r list \<Rightarrow> int" where
  "row_count p t = int (length (filter p t))"

definition has_row :: "('r \<Rightarrow> bool) \<Rightarrow> 'r list \<Rightarrow> bool" where
  "has_row p t = list_ex p t"

definition total_of :: "('r \<Rightarrow> int) \<Rightarrow> 'r list \<Rightarrow> int" where
  "total_of w t = sum_list (map w t)"

text \<open>
  \<open>ORDER BY k\<close> ascending and descending; rows with equal keys keep the order of the table
  (Postgres leaves that order open).
\<close>

definition order_asc :: "('r \<Rightarrow> int) \<Rightarrow> 'r list \<Rightarrow> 'r list" where
  "order_asc k t = sort_key k t"

definition order_desc :: "('r \<Rightarrow> int) \<Rightarrow> 'r list \<Rightarrow> 'r list" where
  "order_desc k t = sort_key (\<lambda>r. - k r) t"

definition limit_rows :: "int \<Rightarrow> 'r list \<Rightarrow> 'r list" where
  "limit_rows n t = take (nat n) t"

definition first_row :: "'r list \<Rightarrow> 'r option" where
  "first_row t = (case t of [] \<Rightarrow> None | r # _ \<Rightarrow> Some r)"

text \<open>\<open>COALESCE(NULLIF(new, ''), old)\<close> on text columns.\<close>

definition keep_if_empty :: "string \<Rightarrow> string \<Rightarrow> string" where
  "keep_if_empty new old = (if new = '''' then old else new)"

subsection \<open>Lookup\<close>

lemma find_upd_same [table_simps]:
  assumes "\<And>r. key (f r) = key r"
  shows "find (\<lambda>r. key r = k) (upd_rows (\<lambda>r. key r = k) f t)
    = map_option f (find (\<lambda>r. key r = k) t)"
  using assms by (induction t) (auto simp: upd_rows_def)

lemma find_upd_other [table_simps]:
  assumes "\<And>r. key (f r) = key r" and "k \<noteq> k'"
  shows "find (\<lambda>r. key r = k) (upd_rows (\<lambda>r. key r = k') f t) = find (\<lambda>r. key r = k) t"
  using assms by (induction t) (auto simp: upd_rows_def)

lemma find_append [table_simps]:
  "find p (t @ u) = (case find p t of None \<Rightarrow> find p u | Some r \<Rightarrow> Some r)"
  by (induction t) auto

lemma find_SomeD: "find p t = Some r \<Longrightarrow> p r \<and> r \<in> set t"
  by (induction t) (auto split: if_splits)

lemma find_NoneD: "find p t = None \<Longrightarrow> r \<in> set t \<Longrightarrow> \<not> p r"
  by (induction t) (auto split: if_splits)

lemma find_key_unique:
  assumes "distinct (map key t)" and "r \<in> set t" and "key r = k"
  shows "find (\<lambda>r. key r = k) t = Some r"
  using assms by (induction t) (auto simp: image_iff)

lemma map_key_upd [table_simps]:
  assumes "\<And>r. key (f r) = key r"
  shows "map key (upd_rows p f t) = map key t"
  using assms by (simp add: upd_rows_def)

lemma set_upd_rows: "r \<in> set (upd_rows p f t) \<longleftrightarrow> (\<exists>r0\<in>set t. r = (if p r0 then f r0 else r0))"
  by (auto simp: upd_rows_def)

lemma upd_rows_id: "(\<And>r. r \<in> set t \<Longrightarrow> p r \<Longrightarrow> f r = r) \<Longrightarrow> upd_rows p f t = t"
  by (simp add: upd_rows_def map_idI)

lemma find_del_key [table_simps]: "find (\<lambda>r. key r = k) (del_rows (\<lambda>r. key r = k) t) = None"
  by (auto simp: del_rows_def find_None_iff)

lemma find_del_other [table_simps]: "(\<And>r. p r \<Longrightarrow> \<not> q r) \<Longrightarrow> find p (del_rows q t) = find p t"
  by (induction t) (auto simp: del_rows_def)

lemma has_row_iff [table_simps]: "has_row p t \<longleftrightarrow> (\<exists>r\<in>set t. p r)"
  by (simp add: has_row_def list_ex_iff)

lemma row_count_0: "row_count p t = 0 \<longleftrightarrow> (\<forall>r\<in>set t. \<not> p r)"
  by (auto simp: row_count_def filter_empty_conv)

lemma row_count_nonneg [simp]: "0 \<le> row_count p t"
  by (simp add: row_count_def)

lemma row_count_pos: "0 < row_count p t \<longleftrightarrow> (\<exists>r\<in>set t. p r)"
  using row_count_0 [of p t] row_count_nonneg [of p t] by (auto simp: order_less_le)

subsection \<open>Totals\<close>

lemma total_simps [simp]:
  "total_of w [] = 0" "total_of w (r # t) = w r + total_of w t" "total_of w (t @ u) = total_of w t + total_of w u"
  by (simp_all add: total_of_def)

lemma total_nonneg: "(\<And>r. r \<in> set t \<Longrightarrow> 0 \<le> w r) \<Longrightarrow> 0 \<le> total_of w t"
  by (induction t) (auto simp: total_of_def)

lemma total_ge_member: "r \<in> set t \<Longrightarrow> (\<And>x. x \<in> set t \<Longrightarrow> 0 \<le> w x) \<Longrightarrow> w r \<le> total_of w t"
proof (induction t)
  case Nil
  then show ?case by simp
next
  case (Cons x t)
  have rest: "0 \<le> total_of w t" using Cons.prems by (intro total_nonneg) auto
  show ?case
  proof (cases "r = x")
    case True
    with rest show ?thesis by simp
  next
    case False
    with Cons.prems Cons.IH have "w r \<le> total_of w t" by auto
    with Cons.prems(2) [of x] show ?thesis by simp
  qed
qed

lemma total_cong: "(\<And>r. r \<in> set t \<Longrightarrow> w r = w' r) \<Longrightarrow> total_of w t = total_of w' t"
  by (simp add: total_of_def cong: map_cong)

text \<open>Updating the one row with key \<open>k\<close> changes a total by that row's change of weight.\<close>

lemma total_upd_key:
  assumes "distinct (map key t)" and "find (\<lambda>r. key r = k) t = Some r0"
  shows "total_of w (upd_rows (\<lambda>r. key r = k) f t) = total_of w t - w r0 + w (f r0)"
  using assms
proof (induction t)
  case Nil
  then show ?case by simp
next
  case (Cons x t)
  show ?case
  proof (cases "key x = k")
    case True
    then have "\<forall>r\<in>set t. key r \<noteq> k" using Cons.prems(1) by (auto simp: image_iff)
    then have "upd_rows (\<lambda>r. key r = k) f t = t" by (auto intro: upd_rows_id)
    then have "upd_rows (\<lambda>r. key r = k) f (x # t) = f x # t" using True by (simp add: upd_rows_def)
    with True Cons.prems(2) show ?thesis by simp
  next
    case False
    with Cons.prems have IH: "total_of w (upd_rows (\<lambda>r. key r = k) f t) = total_of w t - w r0 + w (f r0)"
      by (intro Cons.IH) auto
    have "upd_rows (\<lambda>r. key r = k) f (x # t) = x # upd_rows (\<lambda>r. key r = k) f t"
      using False by (simp add: upd_rows_def)
    with IH show ?thesis by simp
  qed
qed

lemma total_upd_same:
  assumes "\<And>r. r \<in> set t \<Longrightarrow> p r \<Longrightarrow> w (f r) = w r"
  shows "total_of w (upd_rows p f t) = total_of w t"
  using assms by (induction t) (auto simp: upd_rows_def)

lemma row_count_total: "row_count p t = total_of (\<lambda>r. if p r then 1 else 0) t"
  by (induction t) (auto simp: row_count_def)

lemma filter_upd_other:
  assumes "\<And>r. r \<in> set t \<Longrightarrow> p r \<Longrightarrow> \<not> q r \<and> \<not> q (f r)"
  shows "filter q (upd_rows p f t) = filter q t"
  using assms by (induction t) (auto simp: upd_rows_def)

subsection \<open>Views\<close>

text \<open>
  A view is what a property reads of a row: a statement that keeps every row's view keeps what
  depends on the views.
\<close>

lemma total_view:
  assumes "map v t' = map v t" and "\<And>r r'. v r' = v r \<Longrightarrow> w r' = w r"
  shows "total_of w t' = total_of w t"
  using assms(1)
proof (induction t arbitrary: t')
  case Nil
  then show ?case by simp
next
  case (Cons x t)
  then obtain y u where t': "t' = y # u" "v y = v x" "map v u = map v t" by auto
  have "w y = w x" using t'(2) by (rule assms(2))
  with Cons.IH [OF t'(3)] t'(1) show ?case by simp
qed

lemma all_view:
  assumes "map v t' = map v t" and "\<And>r r'. v r' = v r \<Longrightarrow> p r \<Longrightarrow> p' r'" and "\<forall>r\<in>set t. p r"
  shows "\<forall>r\<in>set t'. p' r"
proof
  fix r' assume "r' \<in> set t'"
  then have "v r' \<in> set (map v t)" unfolding assms(1) [symmetric] by simp
  then obtain r where "r \<in> set t" "v r' = v r" by auto
  with assms(2,3) show "p' r'" by blast
qed

lemma map_view:
  assumes "map v t' = map v t" and "\<And>r. k r = h (v r)"
  shows "map k t' = map k t"
proof -
  have *: "map k u = map h (map v u)" for u by (simp add: assms(2))
  show ?thesis unfolding * by (simp only: assms(1))
qed

lemma map_view_upd:
  "(\<And>r. r \<in> set t \<Longrightarrow> p r \<Longrightarrow> v (f r) = v r) \<Longrightarrow> map v (upd_rows p f t) = map v t"
  by (auto simp: upd_rows_def)

lemma key_row_unique:
  assumes "distinct (map key t)" and "find (\<lambda>r. key r = i) t = Some u" and "r \<in> set t" and "key r = i"
  shows "r = u"
  using find_key_unique [OF assms(1,3,4)] assms(2) by simp

section \<open>Integers\<close>

text \<open>
  Go's \<open>int64\<close> arithmetic wraps around (\<open>wrap64\<close>); Postgres' \<open>bigint\<close> arithmetic raises
  SQLSTATE 22003 instead (\<open>pg_bigint\<close>).
\<close>

definition in_i64 :: "int \<Rightarrow> bool" where
  "in_i64 x \<longleftrightarrow> - (2 ^ 63) \<le> x \<and> x < 2 ^ 63"

definition wrap64 :: "int \<Rightarrow> int" where
  "wrap64 x = (x + 2 ^ 63) mod 2 ^ 64 - 2 ^ 63"

definition pg_bigint :: "int \<Rightarrow> int res" where
  "pg_bigint x = (if in_i64 x then Inr x else Inl out_of_range)"

lemma wrap64_word: "wrap64 x = sint (word_of_int x :: 64 word)"
  by (simp add: wrap64_def sint_sbintrunc' signed_take_bit_eq_take_bit_shift take_bit_eq_mod)

lemma wrap64_id [simp]: "in_i64 x \<Longrightarrow> wrap64 x = x"
  by (simp add: wrap64_def in_i64_def)

lemma wrap64_range: "in_i64 (wrap64 x)"
proof -
  have "0 \<le> (x + 2 ^ 63) mod 2 ^ 64" "(x + 2 ^ 63) mod 2 ^ 64 < (2::int) ^ 64"
    by simp_all
  then show ?thesis by (simp add: wrap64_def in_i64_def)
qed

lemma pg_bigint_okD: "pg_bigint x = Inr y \<Longrightarrow> y = x \<and> in_i64 x"
  by (simp add: pg_bigint_def split: if_splits)

section \<open>Strings\<close>

text \<open>
  \<open>strings.TrimSpace\<close>, \<open>strings.ToLower\<close> and SQL \<open>lower\<close> on the ASCII range: text is a list
  of bytes, and letters and white space outside ASCII are left alone.
\<close>

definition is_space :: "char \<Rightarrow> bool" where
  "is_space c = (let n = (of_char c :: nat) in (9 \<le> n \<and> n \<le> 13) \<or> n = 32)"

definition TrimSpace :: "string \<Rightarrow> string" where
  "TrimSpace s = rev (dropWhile is_space (rev (dropWhile is_space s)))"

definition lower_char :: "char \<Rightarrow> char" where
  "lower_char c = (let n = (of_char c :: nat) in if 65 \<le> n \<and> n \<le> 90 then char_of (n + 32) else c)"

definition ToLower :: "string \<Rightarrow> string" where
  "ToLower s = map lower_char s"

lemma dropWhile_idem: "dropWhile p (dropWhile p xs) = dropWhile p xs"
  by (induction xs) auto

lemma lower_char_idem [simp]: "lower_char (lower_char c) = lower_char c"
proof -
  have lt: "(of_char c :: nat) < 256" by simp
  show ?thesis
  proof (cases "65 \<le> (of_char c :: nat) \<and> (of_char c :: nat) \<le> 90")
    case True
    then have "(of_char c :: nat) + 32 < 256" by simp
    then have "(of_char (char_of ((of_char c :: nat) + 32)) :: nat) = of_char c + 32"
      by (simp add: of_char_of take_bit_eq_mod)
    with True show ?thesis by (simp add: lower_char_def Let_def)
  next
    case False
    then show ?thesis by (auto simp: lower_char_def Let_def)
  qed
qed

lemma ToLower_idem [simp]: "ToLower (ToLower s) = ToLower s"
  by (simp add: ToLower_def)

end
