(* ===== verification/Contracts.thy ===== *)
theory Contracts
  imports Prelude
begin

text \<open>
  The interfaces between components, as locales.  \<open>invariant_system\<close> and
  \<open>ordered_system\<close> are the contract of a family of operations that all keep an invariant
  (and never lower an observable); \<open>ledger\<close> is the contract of a counter kept beside a table:
  the upload and file tables are its clients, the quota and node counters its providers.
\<close>

section \<open>Systems of operations\<close>

locale invariant_system =
  fixes step :: "'s \<Rightarrow> 's \<Rightarrow> bool" and inv :: "'s \<Rightarrow> bool"
  assumes step_inv: "inv s \<Longrightarrow> step s t \<Longrightarrow> inv t"
begin

lemma reach_inv: "step\<^sup>*\<^sup>* s t \<Longrightarrow> inv s \<Longrightarrow> inv t"
  by (induction rule: rtranclp_induct) (auto intro: step_inv)

lemma trace_inv:
  assumes "inv (hd ss)" and "\<And>i. Suc i < length ss \<Longrightarrow> step (ss ! i) (ss ! Suc i)"
    and "i < length ss"
  shows "inv (ss ! i)"
  using assms(3)
proof (induction i)
  case 0
  with assms(1) show ?case by (simp add: hd_conv_nth)
next
  case (Suc i)
  then have "inv (ss ! i)" by simp
  with assms(2) [of i] Suc.prems show ?case by (auto intro: step_inv)
qed

end

locale ordered_system = invariant_system step inv
  for step :: "'s \<Rightarrow> 's \<Rightarrow> bool" and inv :: "'s \<Rightarrow> bool" +
  fixes obs :: "'s \<Rightarrow> 'v::preorder"
  assumes step_obs: "inv s \<Longrightarrow> step s t \<Longrightarrow> obs s \<le> obs t"
begin

lemma reach_obs: "step\<^sup>*\<^sup>* s t \<Longrightarrow> inv s \<Longrightarrow> obs s \<le> obs t"
proof (induction rule: rtranclp_induct)
  case base
  show ?case by simp
next
  case (step t u)
  then have "inv t" by (auto intro: reach_inv)
  with step show ?case by (blast intro: order_trans step_obs)
qed

end

section \<open>Counters kept beside a table\<close>

text \<open>
  \<open>balanced bal w t\<close>: every account's counter is the total weight of the rows charged to it.
\<close>

definition balanced :: "('k \<Rightarrow> int) \<Rightarrow> ('k \<Rightarrow> 'r \<Rightarrow> int) \<Rightarrow> 'r list \<Rightarrow> bool" where
  "balanced bal w t \<longleftrightarrow> (\<forall>k. bal k = total_of (w k) t)"

definition charges :: "('k \<Rightarrow> 'r \<Rightarrow> int) \<Rightarrow> 'r list \<Rightarrow> bool" where
  "charges w t \<longleftrightarrow> (\<forall>k. \<forall>r\<in>set t. 0 \<le> w k r)"

lemma balanced_D: "balanced bal w t \<Longrightarrow> bal k = total_of (w k) t"
  by (simp add: balanced_def)

lemma balanced_nonneg: "balanced bal w t \<Longrightarrow> charges w t \<Longrightarrow> 0 \<le> bal k"
  by (simp add: balanced_def charges_def total_nonneg)

lemma balanced_ge: "balanced bal w t \<Longrightarrow> charges w t \<Longrightarrow> r \<in> set t \<Longrightarrow> w k r \<le> bal k"
  by (simp add: balanced_def charges_def total_ge_member)

text \<open>A statement that leaves the counters alone and the weight of every row is harmless.\<close>

lemma balanced_frame:
  assumes "balanced bal w t" and "\<And>k. bal' k = bal k"
    and "\<And>k r. r \<in> set t \<Longrightarrow> p r \<Longrightarrow> w k (f r) = w k r"
  shows "balanced bal' w (upd_rows p f t)"
  using assms by (simp add: balanced_def total_upd_same)

lemma balanced_append_free:
  assumes "balanced bal w t" and "\<And>k. bal' k = bal k" and "\<And>k. w k r = 0"
  shows "balanced bal' w (t @ [r])"
  using assms by (simp add: balanced_def)

lemma balanced_upd_key:
  assumes "balanced bal w t" and "\<And>k. bal' k = bal k"
    and "distinct (map key t)" and "find (\<lambda>r. key r = i) t = Some r0" and "\<And>k. w k (f r0) = w k r0"
  shows "balanced bal' w (upd_rows (\<lambda>r. key r = i) f t)"
  using assms(1,2,5) by (simp add: balanced_def total_upd_key [OF assms(3,4)])

lemma charges_upd:
  assumes "charges w t" and "\<And>k r. r \<in> set t \<Longrightarrow> p r \<Longrightarrow> 0 \<le> w k (f r)"
  shows "charges w (upd_rows p f t)"
  using assms by (auto simp: charges_def set_upd_rows)

locale ledger =
  fixes bal :: "'s \<Rightarrow> 'k \<Rightarrow> int"
    and acct :: "'s \<Rightarrow> 'k \<Rightarrow> bool"
    and post :: "'k \<Rightarrow> int \<Rightarrow> 's \<Rightarrow> 's res"
  assumes bal_post: "post k d s = Inr s' \<Longrightarrow> acct s k \<Longrightarrow> 0 \<le> bal s k + d \<Longrightarrow> bal s' k = bal s k + d"
    and bal_post_other: "post k d s = Inr s' \<Longrightarrow> k' \<noteq> k \<Longrightarrow> bal s' k' = bal s k'"
begin

lemma post_keep:
  assumes "balanced (bal s) w t" and "charges w t" and "acct s k" and "post k 0 s = Inr s'"
  shows "balanced (bal s') w t"
  unfolding balanced_def
proof
  fix k'
  have "0 \<le> bal s k" using assms(1,2) by (rule balanced_nonneg)
  then show "bal s' k' = total_of (w k') t"
    using assms bal_post [OF assms(4)] bal_post_other [OF assms(4), of k']
    by (cases "k' = k") (simp_all add: balanced_D)
qed

text \<open>Opening a row together with posting its weight keeps the counters balanced.\<close>

lemma post_append:
  assumes "balanced (bal s) w t" and "charges w t" and "acct s k"
    and "post k d s = Inr s'" and "w k r = d" and "0 \<le> d" and "\<And>k'. k' \<noteq> k \<Longrightarrow> w k' r = 0"
  shows "balanced (bal s') w (t @ [r])"
  unfolding balanced_def
proof
  fix k'
  show "bal s' k' = total_of (w k') (t @ [r])"
  proof (cases "k' = k")
    case True
    have "0 \<le> bal s k" using assms(1,2) by (rule balanced_nonneg)
    with assms True show ?thesis by (simp add: bal_post [OF assms(4)] balanced_D)
  next
    case False
    with assms show ?thesis by (simp add: bal_post_other [OF assms(4)] balanced_D)
  qed
qed

text \<open>Changing one row together with posting the change of its weight does too.\<close>

lemma post_update:
  assumes bal: "balanced (bal s) w t" and ch: "charges w t"
    and row: "distinct (map key t)" "find (\<lambda>r. key r = i) t = Some r0"
    and acct: "acct s k" and post: "post k d s = Inr s'"
    and d: "w k (f r0) = w k r0 + d" "0 \<le> w k (f r0)"
    and other: "\<And>k'. k' \<noteq> k \<Longrightarrow> w k' (f r0) = w k' r0"
  shows "balanced (bal s') w (upd_rows (\<lambda>r. key r = i) f t)"
  unfolding balanced_def
proof
  fix k'
  have mem: "r0 \<in> set t" using row(2) by (auto dest: find_SomeD)
  have upd: "total_of (w k') (upd_rows (\<lambda>r. key r = i) f t) = total_of (w k') t - w k' r0 + w k' (f r0)"
    by (rule total_upd_key [OF row])
  show "bal s' k' = total_of (w k') (upd_rows (\<lambda>r. key r = i) f t)"
  proof (cases "k' = k")
    case True
    have "w k r0 \<le> bal s k" using bal ch mem by (rule balanced_ge)
    with d have "bal s' k = bal s k + d" by (intro bal_post [OF post acct]) simp
    with True upd d bal show ?thesis by (simp add: balanced_D)
  next
    case False
    with upd other bal show ?thesis by (simp add: bal_post_other [OF post] balanced_D)
  qed
qed

end

end
