(* ===== verification/Model.thy ===== *)
theory Model
  imports Prelude
begin

text \<open>
  The data model: the string constants and row types of \<open>internal/store/models.go\<close> and the
  database the store works on, one table per field, with the constraints the migrations declare.

  Text columns that the code writes with \<open>NULLIF(x,'')\<close> and reads with \<open>COALESCE(x,'')\<close> hold the
  empty string for SQL NULL.  Times are integers (Unix time), identifiers are strings, and JSON
  columns are the text of the document (the empty string for NULL).
\<close>

type_synonym id = string
type_synonym time = int

section \<open>Constants\<close>

abbreviation OrgPlanBasic :: string where "OrgPlanBasic \<equiv> ''basic''"
abbreviation OrgPlanStarter :: string where "OrgPlanStarter \<equiv> ''starter''"
abbreviation OrgPlanPro :: string where "OrgPlanPro \<equiv> ''pro''"
abbreviation OrgPlanBusiness :: string where "OrgPlanBusiness \<equiv> ''business''"
abbreviation OrgPlanEnterprise :: string where "OrgPlanEnterprise \<equiv> ''enterprise''"

abbreviation OrgBillingActive :: string where "OrgBillingActive \<equiv> ''active''"

abbreviation OrgVerificationUnverified :: string where "OrgVerificationUnverified \<equiv> ''unverified''"
abbreviation OrgVerificationVerified :: string where "OrgVerificationVerified \<equiv> ''verified''"
abbreviation OrgVerificationRejected :: string where "OrgVerificationRejected \<equiv> ''rejected''"

abbreviation OrgRoleOwner :: string where "OrgRoleOwner \<equiv> ''owner''"
abbreviation OrgRoleNodeOperator :: string where "OrgRoleNodeOperator \<equiv> ''node_operator''"
abbreviation OrgRoleMember :: string where "OrgRoleMember \<equiv> ''member''"

abbreviation SeatTierFree :: string where "SeatTierFree \<equiv> ''free''"
abbreviation SeatTierStarter :: string where "SeatTierStarter \<equiv> ''starter''"
abbreviation SeatTierPro :: string where "SeatTierPro \<equiv> ''pro''"
abbreviation SeatTierBusiness :: string where "SeatTierBusiness \<equiv> ''business''"
abbreviation SeatTierEnterprise :: string where "SeatTierEnterprise \<equiv> ''enterprise''"

abbreviation MemberStatusActive :: string where "MemberStatusActive \<equiv> ''active''"
abbreviation MemberStatusInvited :: string where "MemberStatusInvited \<equiv> ''invited''"
abbreviation MemberStatusRemoved :: string where "MemberStatusRemoved \<equiv> ''removed''"

abbreviation NodeAccessPublic :: string where "NodeAccessPublic \<equiv> ''public''"
abbreviation NodeAccessPrivate :: string where "NodeAccessPrivate \<equiv> ''private''"

abbreviation DeploymentProfileStandard :: string where "DeploymentProfileStandard \<equiv> ''standard''"
abbreviation DeploymentProfileShield :: string where "DeploymentProfileShield \<equiv> ''shield''"
abbreviation DeploymentProfileSentinel :: string where "DeploymentProfileSentinel \<equiv> ''sentinel''"

abbreviation OrgNodeTypePublic :: string where "OrgNodeTypePublic \<equiv> ''public''"
abbreviation OrgNodeTypeBYOC :: string where "OrgNodeTypeBYOC \<equiv> ''byoc''"
abbreviation OrgNodeTypeManaged :: string where "OrgNodeTypeManaged \<equiv> ''managed''"

abbreviation OrgNodeVisibilityPrivateOrg :: string where "OrgNodeVisibilityPrivateOrg \<equiv> ''private_org''"
abbreviation OrgNodeVisibilityPublicNetwork :: string where "OrgNodeVisibilityPublicNetwork \<equiv> ''public_network''"

abbreviation OrgNodeManagedByOrg :: string where "OrgNodeManagedByOrg \<equiv> ''org''"
abbreviation OrgNodeManagedByErebrus :: string where "OrgNodeManagedByErebrus \<equiv> ''erebrus''"

abbreviation OrgNodeStatusPending :: string where "OrgNodeStatusPending \<equiv> ''pending''"
abbreviation OrgNodeStatusProvisioning :: string where "OrgNodeStatusProvisioning \<equiv> ''provisioning''"
abbreviation OrgNodeStatusActive :: string where "OrgNodeStatusActive \<equiv> ''active''"
abbreviation OrgNodeStatusDegraded :: string where "OrgNodeStatusDegraded \<equiv> ''degraded''"
abbreviation OrgNodeStatusDisabled :: string where "OrgNodeStatusDisabled \<equiv> ''disabled''"
abbreviation OrgNodeStatusError :: string where "OrgNodeStatusError \<equiv> ''error''"

abbreviation ServiceTypeVPN :: string where "ServiceTypeVPN \<equiv> ''vpn''"
abbreviation ServiceTypeCommunityFirewall :: string where "ServiceTypeCommunityFirewall \<equiv> ''community_firewall''"
abbreviation ServiceTypeErebrusFirewall :: string where "ServiceTypeErebrusFirewall \<equiv> ''erebrus_firewall''"
abbreviation ServiceTypeDrop :: string where "ServiceTypeDrop \<equiv> ''drop''"

abbreviation ServiceNameErebrus :: string where "ServiceNameErebrus \<equiv> ''erebrus''"
abbreviation ServiceNameErebrusShield :: string where "ServiceNameErebrusShield \<equiv> ''erebrus_shield''"
abbreviation ServiceNameErebrusSentinel :: string where "ServiceNameErebrusSentinel \<equiv> ''erebrus_sentinel''"

abbreviation ServiceProviderWireguard :: string where "ServiceProviderWireguard \<equiv> ''wireguard''"
abbreviation ServiceProviderAdGuardHome :: string where "ServiceProviderAdGuardHome \<equiv> ''adguard_home''"
abbreviation ServiceProviderUnboundErebrus :: string where "ServiceProviderUnboundErebrus \<equiv> ''unbound_erebrus''"

abbreviation ServiceStatusActive :: string where "ServiceStatusActive \<equiv> ''active''"
abbreviation ServiceStatusDisabled :: string where "ServiceStatusDisabled \<equiv> ''disabled''"
abbreviation ServiceStatusUnlicensed :: string where "ServiceStatusUnlicensed \<equiv> ''unlicensed''"

abbreviation ServiceVisibilityVPNOnly :: string where "ServiceVisibilityVPNOnly \<equiv> ''vpn_only''"
abbreviation ServiceVisibilityOrgOnly :: string where "ServiceVisibilityOrgOnly \<equiv> ''org_only''"

abbreviation TokenScopeNodeRegistration :: string where "TokenScopeNodeRegistration \<equiv> ''node_registration''"
abbreviation TokenScopeFirewallSetup :: string where "TokenScopeFirewallSetup \<equiv> ''firewall_setup''"
abbreviation TokenScopeServiceSetup :: string where "TokenScopeServiceSetup \<equiv> ''service_setup''"

abbreviation SentinelLicenseAvailable :: string where "SentinelLicenseAvailable \<equiv> ''available''"
abbreviation SentinelLicenseAttached :: string where "SentinelLicenseAttached \<equiv> ''attached''"
abbreviation SentinelLicenseIncluded :: string where "SentinelLicenseIncluded \<equiv> ''included''"

abbreviation DropScopePublic :: string where "DropScopePublic \<equiv> ''public''"
abbreviation DropScopePrivateOrg :: string where "DropScopePrivateOrg \<equiv> ''private_org''"

abbreviation DropVisibilityPublic :: string where "DropVisibilityPublic \<equiv> ''public''"
abbreviation DropVisibilityPrivate :: string where "DropVisibilityPrivate \<equiv> ''private''"

abbreviation DropUploadReserved :: string where "DropUploadReserved \<equiv> ''reserved''"
abbreviation DropUploadUploading :: string where "DropUploadUploading \<equiv> ''uploading''"
abbreviation DropUploadCommitted :: string where "DropUploadCommitted \<equiv> ''committed''"
abbreviation DropUploadFailed :: string where "DropUploadFailed \<equiv> ''failed''"
abbreviation DropUploadExpired :: string where "DropUploadExpired \<equiv> ''expired''"

abbreviation DropFileActive :: string where "DropFileActive \<equiv> ''active''"
abbreviation DropFileDeletePending :: string where "DropFileDeletePending \<equiv> ''delete_pending''"
abbreviation DropFileDeleted :: string where "DropFileDeleted \<equiv> ''deleted''"

abbreviation DropPinPinned :: string where "DropPinPinned \<equiv> ''pinned''"
abbreviation DropPinUnpinPending :: string where "DropPinUnpinPending \<equiv> ''unpin_pending''"
abbreviation DropPinUnpinned :: string where "DropPinUnpinned \<equiv> ''unpinned''"
abbreviation DropPinError :: string where "DropPinError \<equiv> ''error''"

abbreviation DropStateDisabled :: string where "DropStateDisabled \<equiv> ''disabled''"
abbreviation DropStateStarting :: string where "DropStateStarting \<equiv> ''starting''"
abbreviation DropStateActive :: string where "DropStateActive \<equiv> ''active''"
abbreviation DropStateDegraded :: string where "DropStateDegraded \<equiv> ''degraded''"
abbreviation DropStateFull :: string where "DropStateFull \<equiv> ''full''"
abbreviation DropStateUnreachable :: string where "DropStateUnreachable \<equiv> ''unreachable''"

abbreviation DropTierFree :: string where "DropTierFree \<equiv> ''free''"
abbreviation DropTierStarter :: string where "DropTierStarter \<equiv> ''starter''"
abbreviation DropTierPro :: string where "DropTierPro \<equiv> ''pro''"
abbreviation DropTierBusiness :: string where "DropTierBusiness \<equiv> ''business''"
abbreviation DropTierEnterprise :: string where "DropTierEnterprise \<equiv> ''enterprise''"

abbreviation DropPrincipalUser :: string where "DropPrincipalUser \<equiv> ''user''"

definition DropQuotaFreeBytes :: int where "DropQuotaFreeBytes = 500000000"
definition DropQuotaStarterBytes :: int where "DropQuotaStarterBytes = 1000000000"
definition DropQuotaProBytes :: int where "DropQuotaProBytes = 5000000000"
definition DropQuotaBusinessBytes :: int where "DropQuotaBusinessBytes = 10000000000"
definition DropMaxFileBytes :: int where "DropMaxFileBytes = 1000000000"

section \<open>Rows\<close>

record user =
  us_id :: id
  us_wallet_address :: string
  us_chain :: string
  us_role :: string
  us_email :: string
  us_email_verified :: bool
  us_name :: string
  us_profile_picture :: string
  us_xp_earned :: int
  us_xp_claimed :: int
  us_tier :: int
  us_referral_code :: string
  us_referred_by :: string
  us_created_at :: time

record org =
  o_id :: id
  o_name :: string
  o_slug :: string
  o_plan :: string
  o_billing_status :: string
  o_verification_status :: string
  o_public_profile_enabled :: bool
  o_owner_user_id :: id
  o_created_at :: time
  o_updated_at :: time

record org_entitlement =
  oe_org_id :: id
  oe_plan :: string
  oe_paid_seats_included :: int
  oe_managed_vpn_nodes_included :: int
  oe_shield_instances_included :: int
  oe_sentinel_licenses_included :: int
  oe_public_node_access_tier :: string
  oe_support_tier :: string
  oe_audit_logs_enabled :: bool
  oe_advanced_analytics_enabled :: bool

record org_profile =
  op_org_id :: id
  op_legal_name :: string
  op_display_name :: string
  op_description :: string
  op_logo_url :: string
  op_website_url :: string
  op_public_email :: string
  op_billing_email :: string
  op_support_email :: string
  op_country :: string
  op_timezone :: string
  op_created_at :: time
  op_updated_at :: time

record member =
  m_id :: id
  m_org_id :: id
  m_user_id :: id
  m_role :: string
  m_seat_tier :: string
  m_status :: string
  m_created_at :: time
  m_updated_at :: time

record org_invite =
  oi_id :: id
  oi_org_id :: id
  oi_email :: string
  oi_role :: string
  oi_seat_tier :: string
  oi_invited_by :: string
  oi_status :: string
  oi_created_at :: time

record node =
  n_id :: id
  n_peer_id :: string
  n_did :: string
  n_wallet_address :: string
  n_chain :: string
  n_org_id :: string
  n_access_mode :: string
  n_min_tier :: int
  n_name :: string
  n_region :: string
  n_zone :: string
  n_ip :: string
  n_ip_hash :: string
  n_spec :: string
  n_capabilities :: string
  n_endpoints :: string
  n_protocols :: "string list"
  n_status :: string
  n_load :: string
  n_speedtest :: string
  n_rx_bytes :: int
  n_tx_bytes :: int
  n_version :: string
  n_deployment_profile :: string
  n_api_base_url :: string
  n_node_key :: string
  n_last_heartbeat :: "time option"
  n_last_peer_handshake :: "time option"
  n_created_at :: time

record org_node =
  on_id :: id
  on_org_id :: id
  on_node_id :: string
  on_node_name :: string
  on_deployment_profile :: string
  on_node_type :: string
  on_visibility :: string
  on_managed_by :: string
  on_region :: string
  on_zone :: string
  on_status :: string
  on_api_public_url :: string
  on_last_seen_at :: "time option"
  on_created_by :: string
  on_created_at :: time
  on_updated_at :: time

record org_node_service =
  sv_id :: id
  sv_org_id :: id
  sv_node_id :: string
  sv_service_type :: string
  sv_service_name :: string
  sv_service_provider :: string
  sv_service_status :: string
  sv_visibility :: string
  sv_config_ref :: string
  sv_access_url :: string
  sv_license_id :: string
  sv_created_by :: string
  sv_created_at :: time
  sv_updated_at :: time

record registration_token =
  rt_id :: id
  rt_org_id :: id
  rt_token_hash :: string
  rt_peer_id :: string
  rt_scopes :: "string list"
  rt_expires_at :: time
  rt_created_by :: id
  rt_used_at :: "time option"
  rt_revoked_at :: "time option"
  rt_created_at :: time

record sentinel_license =
  sl_id :: id
  sl_org_id :: id
  sl_node_id :: string
  sl_status :: string
  sl_source :: string
  sl_created_at :: time
  sl_updated_at :: time

record api_key =
  ak_id :: id
  ak_org_id :: id
  ak_name :: string
  ak_prefix :: string
  ak_key_hash :: string
  ak_created_at :: time
  ak_last_used_at :: "time option"
  ak_revoked_at :: "time option"

record client =
  wc_id :: id
  wc_user_id :: id
  wc_org_id :: string
  wc_node_id :: id
  wc_name :: string
  wc_wg_public_key :: string
  wc_wg_allowed_ip :: string
  wc_status :: string
  wc_rx_bytes :: int
  wc_tx_bytes :: int
  wc_last_handshake :: "time option"
  wc_created_at :: time

record usage_day =
  ud_client_id :: id
  ud_day :: int
  ud_rx_bytes :: int
  ud_tx_bytes :: int

record firewall_rule =
  fr_id :: id
  fr_org_id :: id
  fr_node_id :: string
  fr_firewall_service_id :: id
  fr_rule_type :: string
  fr_target :: string
  fr_action :: string
  fr_scope :: string
  fr_enabled :: bool
  fr_created_by :: id
  fr_created_at :: time
  fr_updated_at :: time

record firewall_credential =
  fc_node_id :: string
  fc_admin_user :: string
  fc_secret :: string
  fc_admin_url :: string
  fc_updated_at :: time

record flow_id =
  fl_flow_id :: id
  fl_wallet_address :: string
  fl_chain :: string
  fl_created_at :: time
  fl_expires_at :: time

record node_drop_status =
  ns_node_id :: string
  ns_enabled :: bool
  ns_accepts_public_uploads :: bool
  ns_webui_available :: bool
  ns_state :: string
  ns_kubo_version :: string
  ns_repo_size_bytes :: int
  ns_storage_max_bytes :: int
  ns_num_objects :: int
  ns_reserved_bytes :: int
  ns_last_reported_at :: "time option"

record drop_tier_limit =
  tl_tier :: string
  tl_public_storage_bytes :: int
  tl_max_file_bytes :: int

record drop_quota_usage =
  dq_principal_type :: string
  dq_principal_id :: string
  dq_used_bytes :: int
  dq_reserved_bytes :: int

record drop_upload =
  up_id :: id
  up_owner_user_id :: id
  up_org_id :: string
  up_entitlement_org_id :: string
  up_node_id :: string
  up_storage_scope :: string
  up_visibility :: string
  up_filename :: string
  up_content_type :: string
  up_declared_size_bytes :: int
  up_reserved_bytes :: int
  up_sha256 :: string
  up_encrypted :: bool
  up_encryption_metadata :: string
  up_status :: string
  up_idempotency_key :: string
  up_cid :: string
  up_error :: string
  up_expires_at :: time
  up_created_at :: time
  up_updated_at :: time

record drop_file =
  df_id :: id
  df_upload_id :: string
  df_owner_user_id :: id
  df_org_id :: string
  df_entitlement_org_id :: string
  df_node_id :: string
  df_storage_scope :: string
  df_cid :: string
  df_filename :: string
  df_content_type :: string
  df_size_bytes :: int
  df_visibility :: string
  df_encrypted :: bool
  df_encryption_metadata :: string
  df_status :: string
  df_created_at :: time
  df_deleted_at :: "time option"

record drop_pin =
  dp_id :: id
  dp_file_id :: id
  dp_node_id :: string
  dp_cid :: string
  dp_status :: string
  dp_pinned_at :: "time option"
  dp_updated_at :: time

record drop_crypto_profile =
  cp_user_id :: id
  cp_version :: int
  cp_public_key :: string
  cp_encrypted_vault :: string
  cp_kdf_metadata :: string

record social_account =
  sa_user_id :: id
  sa_provider :: string
  sa_provider_id :: string
  sa_handle :: string
  sa_verified_at :: time

record email_otp =
  eo_id :: id
  eo_user_id :: id
  eo_email :: string
  eo_code_hash :: string
  eo_attempts :: int
  eo_expires_at :: time
  eo_created_at :: time

record login_otp =
  lo_email :: string
  lo_code_hash :: string
  lo_attempts :: int
  lo_expires_at :: time
  lo_created_at :: time

record deletion_request =
  dr_id :: id
  dr_user_id :: string
  dr_wallet_address :: string
  dr_email :: string
  dr_name :: string
  dr_status :: string
  dr_requested_at :: time
  dr_fulfilled_at :: "time option"
  dr_created_at :: time

text \<open>
  The \<open>meta\<close> documents of XP events and perks are flat objects of strings; an empty
  \<open>xe_dedup_key\<close> is SQL NULL.
\<close>

record xp_event =
  xe_user_id :: id
  xe_kind :: string
  xe_points :: int
  xe_meta :: "(string \<times> string) list"
  xe_dedup_key :: string
  xe_created_at :: time

record perk =
  pk_id :: id
  pk_name :: string
  pk_type :: string
  pk_min_tier :: int
  pk_meta :: string
  pk_is_active :: bool

record user_perk =
  up_user_id :: id
  up_perk_id :: id
  up_granted_at :: time
  up_meta :: string

record activity_entry =
  ae_id :: id
  ae_user_id :: string
  ae_action :: string
  ae_target :: string
  ae_ip :: string
  ae_user_agent :: string
  ae_device :: string
  ae_app :: string
  ae_created_at :: time

record plan =
  pl_id :: id
  pl_name :: string
  pl_period_days :: int
  pl_max_clients :: int
  pl_is_active :: bool
  pl_sort_order :: int

record subscription =
  sb_id :: id
  sb_user_id :: id
  sb_plan_id :: id
  sb_source :: string
  sb_status :: string
  sb_current_period_end :: "time option"
  sb_created_at :: time

record platform_setting =
  ps_key :: string
  ps_value :: string
  ps_description :: string

record api_usage =
  au_org_id :: id
  au_day :: int
  au_calls :: int

section \<open>The database\<close>

record db =
  users :: "user list"
  orgs :: "org list"
  org_profiles :: "org_profile list"
  org_entitlements :: "org_entitlement list"
  org_members :: "member list"
  org_invites :: "org_invite list"
  nodes :: "node list"
  org_nodes :: "org_node list"
  org_node_services :: "org_node_service list"
  node_registration_tokens :: "registration_token list"
  sentinel_licenses :: "sentinel_license list"
  api_keys :: "api_key list"
  vpn_clients :: "client list"
  usage_daily :: "usage_day list"
  firewall_rules :: "firewall_rule list"
  node_firewall_credentials :: "firewall_credential list"
  flow_ids :: "flow_id list"
  node_drop_statuses :: "node_drop_status list"
  drop_tier_limits :: "drop_tier_limit list"
  drop_quota_usages :: "drop_quota_usage list"
  drop_uploads :: "drop_upload list"
  drop_files :: "drop_file list"
  drop_pins :: "drop_pin list"
  drop_crypto_profiles :: "drop_crypto_profile list"
  social_accounts :: "social_account list"
  email_otps :: "email_otp list"
  email_login_otps :: "login_otp list"
  deletion_requests :: "deletion_request list"
  xp_events :: "xp_event list"
  perks :: "perk list"
  user_perks :: "user_perk list"
  activity_log :: "activity_entry list"
  plans :: "plan list"
  subscriptions :: "subscription list"
  platform_settings :: "platform_setting list"
  api_usage_daily :: "api_usage list"

text \<open>The database right after the migrations: only the seeded tier limits.\<close>

definition seeded_tier_limits :: "drop_tier_limit list" where
  "seeded_tier_limits =
    [\<lparr>tl_tier = ''free'', tl_public_storage_bytes = 500000000, tl_max_file_bytes = 1000000000\<rparr>,
     \<lparr>tl_tier = ''starter'', tl_public_storage_bytes = 1000000000, tl_max_file_bytes = 1000000000\<rparr>,
     \<lparr>tl_tier = ''pro'', tl_public_storage_bytes = 5000000000, tl_max_file_bytes = 1000000000\<rparr>,
     \<lparr>tl_tier = ''business'', tl_public_storage_bytes = 10000000000, tl_max_file_bytes = 1000000000\<rparr>,
     \<lparr>tl_tier = ''enterprise'', tl_public_storage_bytes = 10000000000, tl_max_file_bytes = 1000000000\<rparr>]"

definition empty_db :: db where
  "empty_db = \<lparr>users = [], orgs = [], org_profiles = [], org_entitlements = [], org_members = [],
     org_invites = [], nodes = [], org_nodes = [], org_node_services = [],
     node_registration_tokens = [], sentinel_licenses = [], api_keys = [], vpn_clients = [],
     usage_daily = [], firewall_rules = [], node_firewall_credentials = [], flow_ids = [], node_drop_statuses = [], drop_tier_limits = seeded_tier_limits,
     drop_quota_usages = [], drop_uploads = [], drop_files = [], drop_pins = [],
     drop_crypto_profiles = [], social_accounts = [], email_otps = [], email_login_otps = [],
     deletion_requests = [], xp_events = [], perks = [], user_perks = [], activity_log = [], plans = [],
     subscriptions = [], platform_settings = [], api_usage_daily = []\<rparr>"

text \<open>A row of \<open>nodes\<close> with every column an \<open>INSERT\<close> does not name at its default.\<close>

definition new_node :: "time \<Rightarrow> id \<Rightarrow> string \<Rightarrow> string \<Rightarrow> node" where
  "new_node now newID peerID did = \<lparr>n_id = newID, n_peer_id = peerID, n_did = did, n_wallet_address = '''',
     n_chain = '''', n_org_id = '''', n_access_mode = NodeAccessPublic, n_min_tier = 0, n_name = '''',
     n_region = '''', n_zone = '''', n_ip = '''', n_ip_hash = '''', n_spec = ''{}'', n_capabilities = ''{}'',
     n_endpoints = ''{}'', n_protocols = [], n_status = ''offline'', n_load = ''{}'', n_speedtest = ''{}'',
     n_rx_bytes = 0, n_tx_bytes = 0, n_version = '''', n_deployment_profile = DeploymentProfileStandard,
     n_api_base_url = '''', n_node_key = '''', n_last_heartbeat = None, n_last_peer_handshake = None,
     n_created_at = now\<rparr>"

subsection \<open>Constraints\<close>

definition fk_user :: "db \<Rightarrow> id \<Rightarrow> bool" where
  "fk_user s u \<longleftrightarrow> has_row (\<lambda>r. us_id r = u) (users s)"

definition fk_org :: "db \<Rightarrow> id \<Rightarrow> bool" where
  "fk_org s x \<longleftrightarrow> has_row (\<lambda>r. o_id r = x) (orgs s)"

text \<open>A nullable foreign key: NULL references nothing.\<close>

definition fk_org_null :: "db \<Rightarrow> string \<Rightarrow> bool" where
  "fk_org_null s x \<longleftrightarrow> x = '''' \<or> fk_org s x"

definition insert_user :: "user \<Rightarrow> db \<Rightarrow> unit res \<times> db" where
  "insert_user u s =
    (if has_row (\<lambda>r. us_id r = us_id u
         \<or> (us_wallet_address u \<noteq> '''' \<and> us_wallet_address r = us_wallet_address u)
         \<or> (us_email u \<noteq> '''' \<and> us_email r = us_email u)) (users s)
     then (Inl unique_violation, s)
     else (Inr (), s\<lparr>users := users s @ [u]\<rparr>))"

definition insert_org :: "org \<Rightarrow> db \<Rightarrow> unit res \<times> db" where
  "insert_org x s =
    (if has_row (\<lambda>r. o_id r = o_id x \<or> o_slug r = o_slug x) (orgs s) then (Inl unique_violation, s)
     else if \<not> fk_user s (o_owner_user_id x) then (Inl foreign_key_violation, s)
     else (Inr (), s\<lparr>orgs := orgs s @ [x]\<rparr>))"

definition insert_member :: "member \<Rightarrow> db \<Rightarrow> unit res \<times> db" where
  "insert_member m s =
    (if has_row (\<lambda>r. m_id r = m_id m \<or> (m_org_id r = m_org_id m \<and> m_user_id r = m_user_id m))
         (org_members s) then (Inl unique_violation, s)
     else if \<not> fk_org s (m_org_id m) \<or> \<not> fk_user s (m_user_id m) then (Inl foreign_key_violation, s)
     else (Inr (), s\<lparr>org_members := org_members s @ [m]\<rparr>))"

definition insert_upload :: "drop_upload \<Rightarrow> db \<Rightarrow> unit res \<times> db" where
  "insert_upload u s =
    (if has_row (\<lambda>r. up_id r = up_id u
         \<or> (up_owner_user_id r = up_owner_user_id u \<and> up_idempotency_key r = up_idempotency_key u))
         (drop_uploads s) then (Inl unique_violation, s)
     else if \<not> fk_user s (up_owner_user_id u) \<or> \<not> fk_org_null s (up_org_id u)
         \<or> \<not> fk_org_null s (up_entitlement_org_id u) then (Inl foreign_key_violation, s)
     else (Inr (), s\<lparr>drop_uploads := drop_uploads s @ [u]\<rparr>))"

definition insert_file :: "drop_file \<Rightarrow> db \<Rightarrow> unit res \<times> db" where
  "insert_file f s =
    (if has_row (\<lambda>r. df_id r = df_id f) (drop_files s) then (Inl unique_violation, s)
     else if \<not> fk_user s (df_owner_user_id f) \<or> \<not> fk_org_null s (df_org_id f)
         \<or> \<not> fk_org_null s (df_entitlement_org_id f) then (Inl foreign_key_violation, s)
     else (Inr (), s\<lparr>drop_files := drop_files s @ [f]\<rparr>))"

lemmas insert_defs = insert_user_def insert_org_def insert_member_def insert_upload_def insert_file_def
lemmas fk_defs = fk_user_def fk_org_def fk_org_null_def

end
