(* ===== verification/Entitlements.thy ===== *)
theory Entitlements
  imports Model
begin

text \<open>
  Plans, seat tiers and the limits a plan includes (\<open>internal/store/entitlements.go\<close>), with the
  ordered type of tiers they implement.
\<close>

section \<open>The code\<close>

record plan_template =
  pt_plan :: string
  pt_paid_seats_included :: int
  pt_managed_vpn_nodes_included :: int
  pt_shield_instances_included :: int
  pt_sentinel_licenses_included :: int
  pt_public_node_access_tier :: string
  pt_support_tier :: string
  pt_audit_logs_enabled :: bool
  pt_advanced_analytics_enabled :: bool

text \<open>Go's zero value: what a missing key of the template map reads as.\<close>

definition zero_template :: plan_template where
  "zero_template = \<lparr>pt_plan = '''', pt_paid_seats_included = 0, pt_managed_vpn_nodes_included = 0,
     pt_shield_instances_included = 0, pt_sentinel_licenses_included = 0,
     pt_public_node_access_tier = '''', pt_support_tier = '''',
     pt_audit_logs_enabled = False, pt_advanced_analytics_enabled = False\<rparr>"

definition PlanEntitlementTemplates :: "string \<Rightarrow> plan_template option" where
  "PlanEntitlementTemplates plan =
    (if plan = OrgPlanBasic then Some (zero_template
       \<lparr>pt_plan := OrgPlanBasic, pt_public_node_access_tier := ''free'', pt_support_tier := ''community''\<rparr>)
     else if plan = OrgPlanStarter then Some (zero_template
       \<lparr>pt_plan := OrgPlanStarter, pt_paid_seats_included := 1,
        pt_public_node_access_tier := ''starter'', pt_support_tier := ''standard''\<rparr>)
     else if plan = OrgPlanPro then Some (zero_template
       \<lparr>pt_plan := OrgPlanPro, pt_paid_seats_included := 5, pt_managed_vpn_nodes_included := 1,
        pt_shield_instances_included := 1, pt_public_node_access_tier := ''pro'',
        pt_support_tier := ''standard''\<rparr>)
     else if plan = OrgPlanBusiness then Some (zero_template
       \<lparr>pt_plan := OrgPlanBusiness, pt_paid_seats_included := 25, pt_managed_vpn_nodes_included := 3,
        pt_sentinel_licenses_included := 3, pt_public_node_access_tier := ''business'',
        pt_support_tier := ''priority'', pt_audit_logs_enabled := True,
        pt_advanced_analytics_enabled := True\<rparr>)
     else if plan = OrgPlanEnterprise then Some (zero_template
       \<lparr>pt_plan := OrgPlanEnterprise, pt_paid_seats_included := 100000,
        pt_managed_vpn_nodes_included := 100000, pt_shield_instances_included := 100000,
        pt_sentinel_licenses_included := 100000, pt_public_node_access_tier := ''enterprise'',
        pt_support_tier := ''enterprise'', pt_audit_logs_enabled := True,
        pt_advanced_analytics_enabled := True\<rparr>)
     else None)"

definition template_of :: "string \<Rightarrow> plan_template" where
  "template_of plan = (case PlanEntitlementTemplates plan of None \<Rightarrow> zero_template | Some t \<Rightarrow> t)"

definition normalizeOrgPlan :: "string \<Rightarrow> string res" where
  "normalizeOrgPlan plan =
    (if plan = OrgPlanBasic \<or> plan = OrgPlanStarter \<or> plan = OrgPlanPro \<or> plan = OrgPlanBusiness
       \<or> plan = OrgPlanEnterprise then Inr plan
     else Inl (ErrMsg (''invalid plan: '' @ plan)))"

definition normalizeSeatTier :: "string \<Rightarrow> string res" where
  "normalizeSeatTier tier =
    (if tier = SeatTierFree \<or> tier = SeatTierStarter \<or> tier = SeatTierPro \<or> tier = SeatTierBusiness
       \<or> tier = SeatTierEnterprise then Inr tier
     else Inl (ErrMsg (''invalid seat tier: '' @ tier)))"

definition seatTierRank :: "string \<Rightarrow> int" where
  "seatTierRank tier =
    (if tier = SeatTierFree then 0 else if tier = SeatTierStarter then 1
     else if tier = SeatTierPro then 2 else if tier = SeatTierBusiness then 3
     else if tier = SeatTierEnterprise then 4 else -1)"

definition maxSeatTierForPlan :: "string \<Rightarrow> string" where
  "maxSeatTierForPlan plan =
    (if plan = OrgPlanStarter then SeatTierStarter else if plan = OrgPlanPro then SeatTierPro
     else if plan = OrgPlanBusiness then SeatTierBusiness
     else if plan = OrgPlanEnterprise then SeatTierEnterprise else SeatTierFree)"

definition ownerSeatTierForPlan :: "string \<Rightarrow> string" where
  "ownerSeatTierForPlan plan =
    (if plan = OrgPlanStarter then SeatTierStarter else if plan = OrgPlanPro then SeatTierPro
     else if plan = OrgPlanBusiness then SeatTierBusiness
     else if plan = OrgPlanEnterprise then SeatTierEnterprise else SeatTierFree)"

definition SeatTierAllowedForPlan :: "string \<Rightarrow> string \<Rightarrow> bool" where
  "SeatTierAllowedForPlan plan seatTier =
    (if seatTier = SeatTierFree then True
     else 0 < seatTierRank seatTier \<and> seatTierRank seatTier \<le> seatTierRank (maxSeatTierForPlan plan))"

text \<open>The entitlement row written for a plan, by \<open>createOrg\<close>, \<open>SetOrgPlan\<close> and the upsert.\<close>

definition entitlement_row :: "id \<Rightarrow> plan_template \<Rightarrow> org_entitlement" where
  "entitlement_row orgID tpl = \<lparr>oe_org_id = orgID, oe_plan = pt_plan tpl,
     oe_paid_seats_included = pt_paid_seats_included tpl,
     oe_managed_vpn_nodes_included = pt_managed_vpn_nodes_included tpl,
     oe_shield_instances_included = pt_shield_instances_included tpl,
     oe_sentinel_licenses_included = pt_sentinel_licenses_included tpl,
     oe_public_node_access_tier = pt_public_node_access_tier tpl,
     oe_support_tier = pt_support_tier tpl, oe_audit_logs_enabled = pt_audit_logs_enabled tpl,
     oe_advanced_analytics_enabled = pt_advanced_analytics_enabled tpl\<rparr>"

lemma entitlement_row_org [simp]: "oe_org_id (entitlement_row orgID tpl) = orgID"
  by (simp add: entitlement_row_def)

text \<open>\<open>INSERT INTO org_entitlements ... ON CONFLICT (org_id) DO UPDATE\<close>.\<close>

definition upsert_entitlement :: "org_entitlement \<Rightarrow> db \<Rightarrow> unit res \<times> db" where
  "upsert_entitlement e s =
    (if has_row (\<lambda>r. oe_org_id r = oe_org_id e) (org_entitlements s)
     then (Inr (), s\<lparr>org_entitlements := upd_rows (\<lambda>r. oe_org_id r = oe_org_id e) (\<lambda>_. e) (org_entitlements s)\<rparr>)
     else if \<not> fk_org s (oe_org_id e) then (Inl foreign_key_violation, s)
     else (Inr (), s\<lparr>org_entitlements := org_entitlements s @ [e]\<rparr>))"

definition UpsertOrgEntitlements :: "id \<Rightarrow> string \<Rightarrow> db \<Rightarrow> org_entitlement res \<times> db" where
  "UpsertOrgEntitlements orgID plan s =
    (case normalizeOrgPlan plan of Inl e \<Rightarrow> (Inl e, s)
     | Inr plan \<Rightarrow>
       (case PlanEntitlementTemplates plan of
          None \<Rightarrow> (Inl (ErrMsg (''no entitlement template for plan '' @ plan)), s)
        | Some tpl \<Rightarrow>
            seq (upsert_entitlement (entitlement_row orgID tpl) s)
              (\<lambda>_ s'. (Inr (entitlement_row orgID tpl), s'))))"

definition GetOrgEntitlements :: "db \<Rightarrow> id \<Rightarrow> org_entitlement res" where
  "GetOrgEntitlements s orgID =
    (case find (\<lambda>r. oe_org_id r = orgID) (org_entitlements s) of
       None \<Rightarrow> Inl ErrNotFound | Some e \<Rightarrow> Inr e)"

text \<open>A row counts as a used seat: active, and the owner or a member with a paid tier.\<close>

definition seat_used :: "id \<Rightarrow> member \<Rightarrow> bool" where
  "seat_used orgID m \<longleftrightarrow> m_org_id m = orgID \<and> m_status m = MemberStatusActive
     \<and> (m_role m = OrgRoleOwner \<or> m_seat_tier m \<noteq> SeatTierFree)"

definition CountPaidSeatsUsed :: "db \<Rightarrow> id \<Rightarrow> int" where
  "CountPaidSeatsUsed s orgID = row_count (seat_used orgID) (org_members s)"

section \<open>Tiers as an ordered type\<close>

datatype tier = TFree | TStarter | TPro | TBusiness | TEnterprise

fun tier_rank :: "tier \<Rightarrow> nat" where
  "tier_rank TFree = 0" | "tier_rank TStarter = 1" | "tier_rank TPro = 2"
| "tier_rank TBusiness = 3" | "tier_rank TEnterprise = 4"

fun tier_name :: "tier \<Rightarrow> string" where
  "tier_name TFree = ''free''" | "tier_name TStarter = ''starter''" | "tier_name TPro = ''pro''"
| "tier_name TBusiness = ''business''" | "tier_name TEnterprise = ''enterprise''"

lemma tier_rank_inj: "tier_rank a = tier_rank b \<Longrightarrow> a = b"
  by (cases a; cases b) auto

instantiation tier :: linorder
begin
definition less_eq_tier :: "tier \<Rightarrow> tier \<Rightarrow> bool" where "less_eq_tier a b \<longleftrightarrow> tier_rank a \<le> tier_rank b"
definition less_tier :: "tier \<Rightarrow> tier \<Rightarrow> bool" where "less_tier a b \<longleftrightarrow> tier_rank a < tier_rank b"
instance
  by standard (auto simp: less_eq_tier_def less_tier_def intro: tier_rank_inj)
end

definition parse_tier :: "string \<Rightarrow> tier option" where
  "parse_tier x = find (\<lambda>t. tier_name t = x) [TFree, TStarter, TPro, TBusiness, TEnterprise]"

text \<open>The tier a plan pays for; the basic plan (and any unknown one) pays for none.\<close>

definition plan_tier :: "string \<Rightarrow> tier" where
  "plan_tier plan = (case parse_tier plan of None \<Rightarrow> TFree | Some t \<Rightarrow> t)"

lemma parse_tier_name [simp]: "parse_tier (tier_name t) = Some t"
  by (cases t) (simp_all add: parse_tier_def)

lemma parse_tier_Some: "parse_tier x = Some t \<Longrightarrow> x = tier_name t"
  unfolding parse_tier_def by (drule find_SomeD) simp

lemma parse_tier_iff: "parse_tier x = Some t \<longleftrightarrow> x = tier_name t"
  using parse_tier_Some by auto

lemma parse_tier_None:
  "parse_tier x = None \<longleftrightarrow> x \<noteq> ''free'' \<and> x \<noteq> ''starter'' \<and> x \<noteq> ''pro'' \<and> x \<noteq> ''business'' \<and> x \<noteq> ''enterprise''"
  by (simp add: parse_tier_def eq_commute [of x])

lemma seatTierRank_parse:
  "seatTierRank x = (case parse_tier x of None \<Rightarrow> -1 | Some t \<Rightarrow> int (tier_rank t))"
proof (cases "parse_tier x")
  case None
  then show ?thesis using parse_tier_None [THEN iffD1, OF None]
    by (simp add: seatTierRank_def)
next
  case (Some t)
  then have "x = tier_name t" by (rule parse_tier_Some)
  with Some show ?thesis by (cases t) (simp_all add: seatTierRank_def)
qed

lemma seatTierRank_name [simp]: "seatTierRank (tier_name t) = int (tier_rank t)"
  by (simp add: seatTierRank_parse)

lemma maxSeatTierForPlan_tier: "maxSeatTierForPlan plan = tier_name (plan_tier plan)"
proof (cases "parse_tier plan")
  case None
  then show ?thesis using parse_tier_None [THEN iffD1, OF None]
    by (simp add: maxSeatTierForPlan_def plan_tier_def)
next
  case (Some t)
  then have "plan = tier_name t" by (rule parse_tier_Some)
  with Some show ?thesis by (cases t) (simp_all add: maxSeatTierForPlan_def plan_tier_def)
qed

lemma ownerSeatTierForPlan_max: "ownerSeatTierForPlan plan = maxSeatTierForPlan plan"
  by (simp add: ownerSeatTierForPlan_def maxSeatTierForPlan_def)

lemma normalizeSeatTier_parse:
  "normalizeSeatTier x = (case parse_tier x of None \<Rightarrow> Inl (ErrMsg (''invalid seat tier: '' @ x)) | Some t \<Rightarrow> Inr x)"
proof (cases "parse_tier x")
  case None
  then show ?thesis using parse_tier_None [THEN iffD1, OF None]
    by (simp add: normalizeSeatTier_def)
next
  case (Some t)
  then have "x = tier_name t" by (rule parse_tier_Some)
  with Some show ?thesis by (cases t) (simp_all add: normalizeSeatTier_def)
qed

lemma normalizeOrgPlan_ok: "normalizeOrgPlan plan = Inr p \<Longrightarrow> p = plan \<and> PlanEntitlementTemplates plan \<noteq> None"
  by (auto simp: normalizeOrgPlan_def PlanEntitlementTemplates_def split: if_splits)

lemma template_plan: "normalizeOrgPlan plan = Inr p \<Longrightarrow> pt_plan (template_of p) = plan"
  by (auto simp: normalizeOrgPlan_def template_of_def PlanEntitlementTemplates_def split: if_splits)

text \<open>The code's rank comparison is the order of tiers.\<close>

lemma allowed_iff_tier:
  "SeatTierAllowedForPlan plan x \<longleftrightarrow> (\<exists>t. parse_tier x = Some t \<and> t \<le> plan_tier plan)"
proof (cases "parse_tier x")
  case None
  then show ?thesis using parse_tier_None [THEN iffD1, OF None]
    by (simp add: SeatTierAllowedForPlan_def seatTierRank_parse)
next
  case (Some t)
  then have "x = tier_name t" by (rule parse_tier_Some)
  with Some show ?thesis
    by (cases t) (simp_all add: SeatTierAllowedForPlan_def maxSeatTierForPlan_tier less_eq_tier_def
        seatTierRank_parse)
qed

lemma owner_seat_allowed: "SeatTierAllowedForPlan plan (ownerSeatTierForPlan plan)"
  by (simp add: allowed_iff_tier ownerSeatTierForPlan_max maxSeatTierForPlan_tier)

end
