(* ===== verification/Orgs.thy ===== *)
theory Orgs
  imports Entitlements Contracts
begin

text \<open>
  Organizations and their members: \<open>internal/store/orgs.go\<close>.  The functions here are the store
  operations, one definition each, on the tables \<open>orgs\<close>, \<open>org_profiles\<close>,
  \<open>org_entitlements\<close> and \<open>org_members\<close>.  Identifiers and random suffixes the database or the
  uuid package generate are arguments, and so is the current time.
\<close>

section \<open>Roles\<close>

definition normalizeOrgRole :: "string \<Rightarrow> string" where
  "normalizeOrgRole role =
    (let r = ToLower (TrimSpace role)
     in if r = OrgRoleOwner then OrgRoleOwner
        else if r = OrgRoleNodeOperator \<or> r = ''manager'' then OrgRoleNodeOperator
        else OrgRoleMember)"

definition IsOrgPrivileged :: "string \<Rightarrow> bool" where
  "IsOrgPrivileged role \<longleftrightarrow> role = OrgRoleOwner"

definition CanManageOrgNodes :: "string \<Rightarrow> bool" where
  "CanManageOrgNodes role \<longleftrightarrow> role = OrgRoleOwner \<or> role = OrgRoleNodeOperator"

definition MemberHasPaidSeat :: "string \<Rightarrow> string \<Rightarrow> bool" where
  "MemberHasPaidSeat role seatTier \<longleftrightarrow> role = OrgRoleOwner \<or> role = OrgRoleNodeOperator
     \<or> (seatTier \<noteq> '''' \<and> seatTier \<noteq> SeatTierFree)"

section \<open>Reading\<close>

definition GetOrg :: "db \<Rightarrow> id \<Rightarrow> org res" where
  "GetOrg s orgID = (case find (\<lambda>r. o_id r = orgID) (orgs s) of None \<Rightarrow> Inl ErrNotFound | Some x \<Rightarrow> Inr x)"

abbreviation member_at :: "id \<Rightarrow> id \<Rightarrow> member \<Rightarrow> bool" where
  "member_at orgID userID m \<equiv> m_org_id m = orgID \<and> m_user_id m = userID"

abbreviation active_at :: "id \<Rightarrow> id \<Rightarrow> member \<Rightarrow> bool" where
  "active_at orgID userID m \<equiv> m_org_id m = orgID \<and> m_user_id m = userID \<and> m_status m = MemberStatusActive"

definition MemberMembership :: "db \<Rightarrow> id \<Rightarrow> id \<Rightarrow> (string \<times> string) res" where
  "MemberMembership s orgID userID =
    (case find (active_at orgID userID) (org_members s) of
       None \<Rightarrow> Inl ErrNotFound | Some m \<Rightarrow> Inr (m_role m, m_seat_tier m))"

definition MemberRole :: "db \<Rightarrow> id \<Rightarrow> id \<Rightarrow> string res" where
  "MemberRole s orgID userID = map_sum id fst (MemberMembership s orgID userID)"

definition ListOrgsForUser :: "db \<Rightarrow> id \<Rightarrow> (org \<times> string \<times> string) list" where
  "ListOrgsForUser s userID = order_desc (\<lambda>(x, _). o_created_at x)
     [(x, m_role m, m_seat_tier m). x \<leftarrow> orgs s, m \<leftarrow> org_members s,
        m_org_id m = o_id x, m_user_id m = userID, m_status m = MemberStatusActive]"

definition ListMembers :: "db \<Rightarrow> id \<Rightarrow> (member \<times> user) list" where
  "ListMembers s orgID = order_asc (\<lambda>(m, _). m_created_at m)
     [(m, u). m \<leftarrow> org_members s, u \<leftarrow> users s, us_id u = m_user_id m, m_org_id m = orgID,
        m_status m = MemberStatusActive \<or> m_status m = MemberStatusInvited]"

definition ListOrgs :: "db \<Rightarrow> int \<Rightarrow> int \<Rightarrow> org list" where
  "ListOrgs s limit off = limit_rows limit (drop (nat off) (order_desc o_created_at (orgs s)))"

definition CountOrgs :: "db \<Rightarrow> int" where
  "CountOrgs s = int (length (orgs s))"

definition UserOwnsOrgs :: "db \<Rightarrow> id \<Rightarrow> bool" where
  "UserOwnsOrgs s userID \<longleftrightarrow>
     has_row (\<lambda>m. m_user_id m = userID \<and> m_role m = ''owner'' \<and> m_status m = MemberStatusActive) (org_members s)"

definition UserHasActiveOrgMembership :: "db \<Rightarrow> id \<Rightarrow> bool" where
  "UserHasActiveOrgMembership s userID \<longleftrightarrow>
     has_row (\<lambda>m. m_user_id m = userID \<and> m_status m = MemberStatusActive) (org_members s)"

definition UserHasOrgSeat :: "db \<Rightarrow> id \<Rightarrow> id \<Rightarrow> bool" where
  "UserHasOrgSeat s orgID userID \<longleftrightarrow>
     has_row (\<lambda>m. active_at orgID userID m
       \<and> (m_role m = ''owner'' \<or> m_role m = ''node_operator'' \<or> m_seat_tier m \<noteq> ''free'')) (org_members s)"

text \<open>\<open>CASE o.plan WHEN 'starter' THEN 'starter' ... ELSE 'free' END\<close>.\<close>

definition plan_case :: "string \<Rightarrow> string" where
  "plan_case plan = (if plan = ''starter'' \<or> plan = ''pro'' \<or> plan = ''business'' \<or> plan = ''enterprise''
     then plan else ''free'')"

definition vpn_effective_tier :: "member \<Rightarrow> org \<Rightarrow> string" where
  "vpn_effective_tier m x =
    (if m_role m = ''owner'' \<or> m_role m = ''node_operator'' then plan_case (o_plan x)
     else if m_seat_tier m = '''' then ''free'' else m_seat_tier m)"

text \<open>
  The user's active memberships in organizations with active billing.  Ordering by
  \<open>array_position(ARRAY['free',...,'enterprise'], t) DESC NULLS LAST\<close> is ordering by descending
  rank, an unknown tier (rank -1) last.
\<close>

definition active_memberships :: "db \<Rightarrow> id \<Rightarrow> (member \<times> org) list" where
  "active_memberships s userID =
     [(m, x). m \<leftarrow> org_members s, x \<leftarrow> orgs s, o_id x = m_org_id m,
        m_user_id m = userID, m_status m = ''active'', o_billing_status x = OrgBillingActive]"

definition UserOrgVPNPlan :: "db \<Rightarrow> id \<Rightarrow> string" where
  "UserOrgVPNPlan s userID =
    (case first_row (order_desc seatTierRank (map (\<lambda>(m, x). vpn_effective_tier m x) (active_memberships s userID))) of
       None \<Rightarrow> '''' | Some plan \<Rightarrow> plan)"

section \<open>Slugs\<close>

definition slug_char :: "char \<Rightarrow> bool" where
  "slug_char c = (let n = (of_char c :: nat) in (97 \<le> n \<and> n \<le> 122) \<or> (48 \<le> n \<and> n \<le> 57))"

text \<open>\<open>slugSanitizer.ReplaceAllString(s, "-")\<close>: each maximal run of other characters becomes a dash.\<close>

function sanitize :: "string \<Rightarrow> string" where
  "sanitize [] = []"
| "sanitize (c # cs) =
    (if slug_char c then c # sanitize cs else CHR ''-'' # sanitize (dropWhile (\<lambda>c. \<not> slug_char c) cs))"
  by pat_completeness auto
termination
  by (relation "measure length") (auto intro: le_imp_less_Suc length_dropWhile_le)

definition trim_dashes :: "string \<Rightarrow> string" where
  "trim_dashes s = rev (dropWhile (\<lambda>c. c = CHR ''-'') (rev (dropWhile (\<lambda>c. c = CHR ''-'') s)))"

definition or_org :: "string \<Rightarrow> string" where
  "or_org s = (if s = '''' then ''org'' else s)"

definition slug_base :: "string \<Rightarrow> string \<Rightarrow> string" where
  "slug_base requested name =
    (let base = TrimSpace requested;
         base = (if base = '''' then trim_dashes (sanitize (ToLower name)) else base);
         base = or_org base
     in or_org (trim_dashes (sanitize (ToLower base))))"

definition slug_taken :: "db \<Rightarrow> string \<Rightarrow> string \<Rightarrow> bool" where
  "slug_taken s slug excludeOrgID =
    (if excludeOrgID \<noteq> '''' then has_row (\<lambda>x. o_slug x = slug \<and> o_id x \<noteq> excludeOrgID) (orgs s)
     else has_row (\<lambda>x. o_slug x = slug) (orgs s))"

text \<open>The retry loop; \<open>suffix\<close> yields the eight characters of the uuid drawn in each round.\<close>

fun slug_loop :: "db \<Rightarrow> string \<Rightarrow> string \<Rightarrow> (nat \<Rightarrow> string) \<Rightarrow> nat \<Rightarrow> string \<Rightarrow> string res" where
  "slug_loop s base excludeOrgID suffix 0 slug = Inl (ErrMsg ''could not allocate unique slug'')"
| "slug_loop s base excludeOrgID suffix (Suc n) slug =
    (if \<not> slug_taken s slug excludeOrgID then Inr slug
     else if excludeOrgID \<noteq> '''' then Inl (ErrMsg ''slug already taken'')
     else slug_loop s base excludeOrgID suffix n (base @ ''-'' @ suffix n))"

definition resolveOrgSlug :: "db \<Rightarrow> (nat \<Rightarrow> string) \<Rightarrow> string \<Rightarrow> string \<Rightarrow> string \<Rightarrow> string res" where
  "resolveOrgSlug s suffix requested name excludeOrgID =
    (let base = slug_base requested name in slug_loop s base excludeOrgID suffix 5 base)"

section \<open>Creating organizations\<close>

definition new_profile :: "time \<Rightarrow> id \<Rightarrow> string \<Rightarrow> org_profile" where
  "new_profile now orgID name = \<lparr>op_org_id = orgID, op_legal_name = '''', op_display_name = name,
     op_description = '''', op_logo_url = '''', op_website_url = '''', op_public_email = '''',
     op_billing_email = '''', op_support_email = '''', op_country = '''', op_timezone = '''',
     op_created_at = now, op_updated_at = now\<rparr>"

lemma new_profile_org [simp]: "op_org_id (new_profile now orgID name) = orgID"
  by (simp add: new_profile_def)

definition insert_profile :: "org_profile \<Rightarrow> db \<Rightarrow> unit res \<times> db" where
  "insert_profile p s =
    (if has_row (\<lambda>r. op_org_id r = op_org_id p) (org_profiles s) then (Inl unique_violation, s)
     else if \<not> fk_org s (op_org_id p) then (Inl foreign_key_violation, s)
     else (Inr (), s\<lparr>org_profiles := org_profiles s @ [p]\<rparr>))"

definition insert_entitlement :: "org_entitlement \<Rightarrow> db \<Rightarrow> unit res \<times> db" where
  "insert_entitlement e s =
    (if has_row (\<lambda>r. oe_org_id r = oe_org_id e) (org_entitlements s) then (Inl unique_violation, s)
     else if \<not> fk_org s (oe_org_id e) then (Inl foreign_key_violation, s)
     else (Inr (), s\<lparr>org_entitlements := org_entitlements s @ [e]\<rparr>))"

text \<open>What the database and the uuid package supply to one creation.\<close>

record fresh_ids =
  fi_org :: id
  fi_member :: id
  fi_suffix :: "nat \<Rightarrow> string"

definition createOrg_tx :: "time \<Rightarrow> fresh_ids \<Rightarrow> id \<Rightarrow> string \<Rightarrow> string \<Rightarrow> string \<Rightarrow> db \<Rightarrow> org res \<times> db" where
  "createOrg_tx now fi ownerUserID name slug plan s =
    (let x = \<lparr>o_id = fi_org fi, o_name = name, o_slug = slug, o_plan = plan,
               o_billing_status = OrgBillingActive, o_verification_status = OrgVerificationUnverified,
               o_public_profile_enabled = False, o_owner_user_id = ownerUserID,
               o_created_at = now, o_updated_at = now\<rparr>
     in seq (insert_org x s) (\<lambda>_ s.
        seq (insert_profile (new_profile now (o_id x) name) s) (\<lambda>_ s.
        seq (insert_entitlement (entitlement_row (o_id x) (template_of plan)) s) (\<lambda>_ s.
        seq (insert_member \<lparr>m_id = fi_member fi, m_org_id = o_id x, m_user_id = ownerUserID,
               m_role = OrgRoleOwner, m_seat_tier = ownerSeatTierForPlan plan,
               m_status = MemberStatusActive, m_created_at = now, m_updated_at = now\<rparr> s) (\<lambda>_ s.
        (Inr x, s))))))"

definition createOrg :: "time \<Rightarrow> fresh_ids \<Rightarrow> id \<Rightarrow> string \<Rightarrow> string \<Rightarrow> string \<Rightarrow> db \<Rightarrow> org res \<times> db" where
  "createOrg now fi ownerUserID inName inSlug plan s =
    (let name = TrimSpace inName
     in if name = '''' then (Inl (ErrMsg ''name is required''), s)
        else case resolveOrgSlug s (fi_suffix fi) inSlug name '''' of
               Inl e \<Rightarrow> (Inl e, s)
             | Inr slug \<Rightarrow> in_tx (createOrg_tx now fi ownerUserID name slug plan) s)"

definition CreateOrgForUser :: "time \<Rightarrow> fresh_ids \<Rightarrow> id \<Rightarrow> string \<Rightarrow> string \<Rightarrow> db \<Rightarrow> org res \<times> db" where
  "CreateOrgForUser now fi userID inName inSlug s = createOrg now fi userID inName inSlug OrgPlanBasic s"

definition ellipsis :: string where
  "ellipsis = [char_of (226::nat), char_of (128::nat), char_of (166::nat)]"

definition personalOrgName :: "string \<Rightarrow> string" where
  "personalOrgName wallet =
    (let w = TrimSpace wallet
     in if 10 \<le> length w then ''Workspace '' @ take 6 w @ ellipsis @ drop (length w - 4) w
        else if w \<noteq> '''' then ''Workspace '' @ w
        else ''Personal Workspace'')"

definition EnsurePersonalOrg :: "time \<Rightarrow> fresh_ids \<Rightarrow> id \<Rightarrow> string \<Rightarrow> db \<Rightarrow> (org \<times> bool) res \<times> db" where
  "EnsurePersonalOrg now fi userID walletAddress s =
    (case first_row (order_asc o_created_at (filter (\<lambda>x. o_owner_user_id x = userID) (orgs s))) of
       Some x \<Rightarrow> (map_sum id (\<lambda>x. (x, False)) (GetOrg s (o_id x)), s)
     | None \<Rightarrow>
         seq (createOrg now fi userID (personalOrgName walletAddress) '''' OrgPlanBasic s)
           (\<lambda>x s. (Inr (x, True), s)))"

section \<open>Changing organizations\<close>

definition SetOrgPlan_tx :: "time \<Rightarrow> id \<Rightarrow> string \<Rightarrow> db \<Rightarrow> org res \<times> db" where
  "SetOrgPlan_tx now orgID plan s =
    (case find (\<lambda>x. o_id x = orgID) (orgs s) of
       None \<Rightarrow> (Inl ErrNotFound, s)
     | Some x \<Rightarrow>
        (let s = s\<lparr>orgs := upd_rows (\<lambda>x. o_id x = orgID) (\<lambda>x. x\<lparr>o_plan := plan, o_updated_at := now\<rparr>) (orgs s)\<rparr>
         in seq (upsert_entitlement (entitlement_row orgID (template_of plan)) s) (\<lambda>_ s.
            (Inr (x\<lparr>o_plan := plan, o_updated_at := now\<rparr>),
             s\<lparr>org_members := upd_rows
                (\<lambda>m. has_row (\<lambda>x. o_id x = m_org_id m \<and> m_user_id m = o_owner_user_id x) (orgs s)
                     \<and> m_org_id m = orgID \<and> m_status m = ''active'')
                (\<lambda>m. m\<lparr>m_seat_tier := ownerSeatTierForPlan plan, m_updated_at := now\<rparr>) (org_members s)\<rparr>))))"

definition SetOrgPlan :: "time \<Rightarrow> id \<Rightarrow> string \<Rightarrow> db \<Rightarrow> org res \<times> db" where
  "SetOrgPlan now orgID plan s =
    (case normalizeOrgPlan plan of Inl e \<Rightarrow> (Inl e, s) | Inr plan \<Rightarrow> in_tx (SetOrgPlan_tx now orgID plan) s)"

text \<open>
  \<open>DELETE FROM orgs\<close>: members, profile, entitlements, invites, API keys, registration tokens,
  licenses, node records, their services and the rules of those cascade; the references of runtime nodes, VPN clients,
  uploads and files are set to NULL.
\<close>

definition unlink :: "id \<Rightarrow> string \<Rightarrow> string" where
  "unlink orgID x = (if x = orgID then '''' else x)"

definition service_goes :: "id \<Rightarrow> db \<Rightarrow> org_node_service \<Rightarrow> bool" where
  "service_goes orgID s v \<longleftrightarrow> sv_org_id v = orgID
     \<or> has_row (\<lambda>n. on_node_id n = sv_node_id v \<and> on_org_id n = orgID) (org_nodes s)"

definition delete_org_cascade :: "id \<Rightarrow> db \<Rightarrow> db" where
  "delete_org_cascade orgID s = s\<lparr>
     orgs := del_rows (\<lambda>x. o_id x = orgID) (orgs s),
     org_profiles := del_rows (\<lambda>x. op_org_id x = orgID) (org_profiles s),
     org_entitlements := del_rows (\<lambda>x. oe_org_id x = orgID) (org_entitlements s),
     org_members := del_rows (\<lambda>x. m_org_id x = orgID) (org_members s),
     org_invites := del_rows (\<lambda>x. oi_org_id x = orgID) (org_invites s),
     nodes := map (\<lambda>x. x\<lparr>n_org_id := unlink orgID (n_org_id x)\<rparr>) (nodes s),
     org_nodes := del_rows (\<lambda>x. on_org_id x = orgID) (org_nodes s),
     org_node_services := del_rows (service_goes orgID s) (org_node_services s),
     firewall_rules := del_rows (\<lambda>r. fr_org_id r = orgID
        \<or> has_row (\<lambda>v. sv_id v = fr_firewall_service_id r \<and> service_goes orgID s v) (org_node_services s))
        (firewall_rules s),
     node_registration_tokens := del_rows (\<lambda>x. rt_org_id x = orgID) (node_registration_tokens s),
     sentinel_licenses := map (\<lambda>x. if has_row (\<lambda>n. on_node_id n = sl_node_id x \<and> on_org_id n = orgID) (org_nodes s)
          then x\<lparr>sl_node_id := ''''\<rparr> else x)
        (del_rows (\<lambda>x. sl_org_id x = orgID) (sentinel_licenses s)),
     api_keys := del_rows (\<lambda>x. ak_org_id x = orgID) (api_keys s),
     api_usage_daily := del_rows (\<lambda>x. au_org_id x = orgID) (api_usage_daily s),
     vpn_clients := map (\<lambda>x. x\<lparr>wc_org_id := unlink orgID (wc_org_id x)\<rparr>) (vpn_clients s),
     drop_uploads := map (\<lambda>x. x\<lparr>up_org_id := unlink orgID (up_org_id x),
        up_entitlement_org_id := unlink orgID (up_entitlement_org_id x)\<rparr>) (drop_uploads s),
     drop_files := map (\<lambda>x. x\<lparr>df_org_id := unlink orgID (df_org_id x),
        df_entitlement_org_id := unlink orgID (df_entitlement_org_id x)\<rparr>) (drop_files s)\<rparr>"

definition DeleteOrg :: "id \<Rightarrow> db \<Rightarrow> unit res \<times> db" where
  "DeleteOrg orgID s =
    (if \<not> fk_org s orgID then (Inl ErrNotFound, s) else (Inr (), delete_org_cascade orgID s))"

record update_org_input =
  uo_name :: "string option"
  uo_slug :: "string option"
  uo_billing_status :: "string option"
  uo_public_profile_enabled :: "bool option"

definition UpdateOrg :: "time \<Rightarrow> (nat \<Rightarrow> string) \<Rightarrow> id \<Rightarrow> update_org_input \<Rightarrow> db \<Rightarrow> org res \<times> db" where
  "UpdateOrg now suffix orgID inp s =
    (case GetOrg s orgID of Inl e \<Rightarrow> (Inl e, s)
     | Inr cur \<Rightarrow>
       (let name = (case uo_name inp of None \<Rightarrow> o_name cur | Some n \<Rightarrow> TrimSpace n);
            slug = (case uo_slug inp of None \<Rightarrow> Inr (o_slug cur)
                    | Some r \<Rightarrow> (let requested = TrimSpace r
                                in if requested = o_slug cur then Inr (o_slug cur)
                                   else resolveOrgSlug s suffix requested name orgID));
            billing = (case uo_billing_status inp of None \<Rightarrow> o_billing_status cur | Some b \<Rightarrow> TrimSpace b);
            publicProfile = (case uo_public_profile_enabled inp of
                None \<Rightarrow> o_public_profile_enabled cur | Some b \<Rightarrow> b)
        in case slug of Inl e \<Rightarrow> (Inl e, s)
           | Inr slug \<Rightarrow>
             (let upd = (\<lambda>x. x\<lparr>o_name := name, o_slug := slug, o_billing_status := billing,
                               o_public_profile_enabled := publicProfile, o_updated_at := now\<rparr>)
              in if has_row (\<lambda>x. o_slug x = slug \<and> o_id x \<noteq> orgID) (orgs s) then (Inl unique_violation, s)
                 else (Inr (upd cur), s\<lparr>orgs := upd_rows (\<lambda>x. o_id x = orgID) upd (orgs s)\<rparr>))))"

definition SetOrgVerificationStatus :: "time \<Rightarrow> id \<Rightarrow> string \<Rightarrow> db \<Rightarrow> unit res \<times> db" where
  "SetOrgVerificationStatus now orgID status s =
    (let status = TrimSpace status
     in if status \<noteq> OrgVerificationVerified \<and> status \<noteq> OrgVerificationUnverified
           \<and> status \<noteq> OrgVerificationRejected
        then (Inl (ErrMsg ''invalid verification status''), s)
        else if \<not> fk_org s orgID then (Inl ErrNotFound, s)
        else (Inr (), s\<lparr>orgs := upd_rows (\<lambda>x. o_id x = orgID)
               (\<lambda>x. x\<lparr>o_verification_status := status, o_updated_at := now\<rparr>) (orgs s)\<rparr>))"

section \<open>Seats and members\<close>

definition AssignSeat :: "time \<Rightarrow> id \<Rightarrow> id \<Rightarrow> string \<Rightarrow> db \<Rightarrow> unit res \<times> db" where
  "AssignSeat now orgID userID seatTier s =
    (case normalizeSeatTier seatTier of Inl e \<Rightarrow> (Inl e, s)
     | Inr seatTier \<Rightarrow>
       if seatTier = SeatTierFree then (Inl (ErrMsg ''use RevokeSeat to remove a paid seat''), s)
       else case GetOrg s orgID of Inl e \<Rightarrow> (Inl e, s)
       | Inr x \<Rightarrow>
         if \<not> SeatTierAllowedForPlan (o_plan x) seatTier
         then (Inl (ErrMsg (''seat tier '' @ seatTier @ '' is not included in plan '' @ o_plan x)), s)
         else case GetOrgEntitlements s orgID of Inl e \<Rightarrow> (Inl e, s)
         | Inr ent \<Rightarrow>
           (let used = CountPaidSeatsUsed s orgID
            in case find (active_at orgID userID) (org_members s) of
                 None \<Rightarrow> (Inl ErrNotFound, s)
               | Some cur \<Rightarrow>
                   if m_seat_tier cur = seatTier then (Inr (), s)
                   else if m_seat_tier cur = SeatTierFree \<and> used \<ge> oe_paid_seats_included ent
                   then (Inl (ErrMsg ''no paid seats remaining''), s)
                   else (Inr (), s\<lparr>org_members := upd_rows
                          (\<lambda>m. active_at orgID userID m \<and> m_role m \<noteq> ''owner'')
                          (\<lambda>m. m\<lparr>m_seat_tier := seatTier, m_updated_at := now\<rparr>) (org_members s)\<rparr>)))"

definition RevokeSeat :: "time \<Rightarrow> id \<Rightarrow> id \<Rightarrow> db \<Rightarrow> unit res \<times> db" where
  "RevokeSeat now orgID userID s =
    (case find (active_at orgID userID) (org_members s) of
       None \<Rightarrow> (Inl ErrNotFound, s)
     | Some cur \<Rightarrow>
         if m_role cur = OrgRoleOwner then (Inl (ErrMsg ''cannot revoke the owner's seat''), s)
         else (Inr (), s\<lparr>org_members := upd_rows (active_at orgID userID)
                (\<lambda>m. m\<lparr>m_seat_tier := SeatTierFree, m_role := ''member'', m_updated_at := now\<rparr>) (org_members s)\<rparr>))"

definition planSeatTierForOrg :: "string \<Rightarrow> string option" where
  "planSeatTierForOrg plan =
    (if plan = OrgPlanStarter then Some SeatTierStarter else if plan = OrgPlanPro then Some SeatTierPro
     else if plan = OrgPlanBusiness then Some SeatTierBusiness
     else if plan = OrgPlanEnterprise then Some SeatTierEnterprise else None)"

definition allocatePlanSeat :: "db \<Rightarrow> id \<Rightarrow> string res" where
  "allocatePlanSeat s orgID =
    (case GetOrg s orgID of Inl e \<Rightarrow> Inl e
     | Inr x \<Rightarrow>
       (case planSeatTierForOrg (o_plan x) of None \<Rightarrow> Inl (ErrMsg ''manager requires a paid plan'')
        | Some planTier \<Rightarrow>
          (case GetOrgEntitlements s orgID of Inl e \<Rightarrow> Inl e
           | Inr ent \<Rightarrow>
             if CountPaidSeatsUsed s orgID \<ge> oe_paid_seats_included ent
             then Inl (ErrMsg ''no manager seats remaining'') else Inr planTier)))"

definition resolveSeatForRole :: "db \<Rightarrow> id \<Rightarrow> string \<Rightarrow> string \<Rightarrow> string \<Rightarrow> string res" where
  "resolveSeatForRole s orgID newRole prevRole seatTier =
    (let seatTier = (if seatTier = '''' then SeatTierFree else seatTier)
     in if newRole = OrgRoleNodeOperator
        then (if seatTier \<noteq> SeatTierFree then Inr seatTier else allocatePlanSeat s orgID)
        else if prevRole = OrgRoleNodeOperator then Inr SeatTierFree
        else Inr seatTier)"

text \<open>
  \<open>INSERT INTO org_members ... ON CONFLICT (org_id, user_id) DO UPDATE SET role, seat_tier,
  status\<close>; \<open>st\<close> computes the status of a row that is already there.
\<close>

definition upsert_member :: "time \<Rightarrow> (string \<Rightarrow> string) \<Rightarrow> member \<Rightarrow> db \<Rightarrow> member res \<times> db" where
  "upsert_member now st new s =
    (case find (member_at (m_org_id new) (m_user_id new)) (org_members s) of
       Some old \<Rightarrow>
         (let upd = (\<lambda>m. m\<lparr>m_role := m_role new, m_seat_tier := m_seat_tier new,
                           m_status := st (m_status m), m_updated_at := now\<rparr>)
          in (Inr (upd old), s\<lparr>org_members := upd_rows (member_at (m_org_id new) (m_user_id new)) upd (org_members s)\<rparr>))
     | None \<Rightarrow> seq (insert_member new s) (\<lambda>_ s. (Inr new, s)))"

definition InviteMember :: "time \<Rightarrow> id \<Rightarrow> id \<Rightarrow> id \<Rightarrow> string \<Rightarrow> string \<Rightarrow> db \<Rightarrow> member res \<times> db" where
  "InviteMember now newID orgID userID role seatTier s =
    (let role = normalizeOrgRole role;
         seatTier = (case normalizeSeatTier seatTier of Inl _ \<Rightarrow> SeatTierFree | Inr t \<Rightarrow> t);
         prevRole = (case find (member_at orgID userID) (org_members s) of None \<Rightarrow> '''' | Some m \<Rightarrow> m_role m)
     in case resolveSeatForRole s orgID role prevRole seatTier of Inl e \<Rightarrow> (Inl e, s)
        | Inr seatTier \<Rightarrow>
          upsert_member now (\<lambda>old. if old = ''removed'' then MemberStatusInvited else old)
            \<lparr>m_id = newID, m_org_id = orgID, m_user_id = userID, m_role = role, m_seat_tier = seatTier,
             m_status = MemberStatusInvited, m_created_at = now, m_updated_at = now\<rparr> s)"

definition GetMemberByID :: "db \<Rightarrow> id \<Rightarrow> id \<Rightarrow> member res" where
  "GetMemberByID s orgID memberID =
    (case find (\<lambda>m. m_org_id m = orgID \<and> m_id m = memberID \<and> fk_user s (m_user_id m)) (org_members s) of
       None \<Rightarrow> Inl ErrNotFound | Some m \<Rightarrow> Inr m)"

definition PatchMember :: "time \<Rightarrow> id \<Rightarrow> id \<Rightarrow> string \<Rightarrow> string \<Rightarrow> db \<Rightarrow> member res \<times> db" where
  "PatchMember now orgID memberID role seatTier s =
    (case GetMemberByID s orgID memberID of Inl e \<Rightarrow> (Inl e, s)
     | Inr cur \<Rightarrow>
       if m_role cur = OrgRoleOwner then (Inl (ErrMsg ''cannot change owner role here''), s)
       else (let prevRole = m_role cur;
                 newRole = (if role \<noteq> '''' then normalizeOrgRole role else m_role cur);
                 newTier = (if seatTier \<noteq> '''' then normalizeSeatTier seatTier else Inr (m_seat_tier cur))
             in case newTier of Inl e \<Rightarrow> (Inl e, s)
                | Inr tier \<Rightarrow>
                  (case resolveSeatForRole s orgID newRole prevRole tier of Inl e \<Rightarrow> (Inl e, s)
                   | Inr tier \<Rightarrow>
                     (let p = (\<lambda>m. m_org_id m = orgID \<and> m_id m = memberID \<and> m_role m \<noteq> ''owner'');
                          upd = (\<lambda>m. m\<lparr>m_role := newRole, m_seat_tier := tier, m_updated_at := now\<rparr>)
                      in case find p (org_members s) of
                           None \<Rightarrow> (Inl (ErrMsg ''sql: no rows in result set''), s)
                         | Some m \<Rightarrow> (Inr (upd m), s\<lparr>org_members := upd_rows p upd (org_members s)\<rparr>)))))"

definition remove_rows :: "time \<Rightarrow> (member \<Rightarrow> bool) \<Rightarrow> db \<Rightarrow> unit res \<times> db" where
  "remove_rows now p s =
    (if row_count p (org_members s) = 0 then (Inl ErrNotFound, s)
     else (Inr (), s\<lparr>org_members := upd_rows p (\<lambda>m. m\<lparr>m_status := MemberStatusRemoved, m_updated_at := now\<rparr>)
                       (org_members s)\<rparr>))"

definition RemoveMemberByID :: "time \<Rightarrow> id \<Rightarrow> id \<Rightarrow> db \<Rightarrow> unit res \<times> db" where
  "RemoveMemberByID now orgID memberID =
    remove_rows now (\<lambda>m. m_org_id m = orgID \<and> m_id m = memberID \<and> m_role m \<noteq> ''owner'' \<and> m_status m = ''active'')"

definition RemoveMember :: "time \<Rightarrow> id \<Rightarrow> id \<Rightarrow> db \<Rightarrow> unit res \<times> db" where
  "RemoveMember now orgID userID =
    remove_rows now (\<lambda>m. m_org_id m = orgID \<and> m_user_id m = userID \<and> m_role m \<noteq> ''owner'' \<and> m_status m = ''active'')"

definition AddMember :: "time \<Rightarrow> id \<Rightarrow> id \<Rightarrow> id \<Rightarrow> string \<Rightarrow> db \<Rightarrow> unit res \<times> db" where
  "AddMember now newID orgID userID role s =
    (let role = normalizeOrgRole role;
         (prevRole, curTier) = (case find (active_at orgID userID) (org_members s) of
              None \<Rightarrow> ('''', '''') | Some m \<Rightarrow> (m_role m, m_seat_tier m));
         seatTier = (if curTier = '''' then SeatTierFree else curTier)
     in case resolveSeatForRole s orgID role prevRole seatTier of Inl e \<Rightarrow> (Inl e, s)
        | Inr seatTier \<Rightarrow>
          seq (upsert_member now (\<lambda>_. ''active'')
            \<lparr>m_id = newID, m_org_id = orgID, m_user_id = userID, m_role = role, m_seat_tier = seatTier,
             m_status = MemberStatusActive, m_created_at = now, m_updated_at = now\<rparr> s) (\<lambda>_ s. (Inr (), s)))"

definition TransferOrgOwnership_tx :: "time \<Rightarrow> id \<Rightarrow> id \<Rightarrow> id \<Rightarrow> db \<Rightarrow> unit res \<times> db" where
  "TransferOrgOwnership_tx now orgID fromUserID toUserID s =
    (case find (active_at orgID fromUserID) (org_members s) of
       None \<Rightarrow> (Inl ErrNotFound, s)
     | Some from \<Rightarrow>
       if m_role from \<noteq> OrgRoleOwner then (Inl ErrNotFound, s)
       else case find (active_at orgID toUserID) (org_members s) of
         None \<Rightarrow> (Inl ErrNotFound, s)
       | Some to \<Rightarrow>
         if m_role to \<noteq> OrgRoleNodeOperator then (Inl ErrNotFound, s)
         else case GetOrg s orgID of Inl e \<Rightarrow> (Inl e, s)
         | Inr x \<Rightarrow>
           (let seat = ownerSeatTierForPlan (o_plan x);
                ms = upd_rows (member_at orgID fromUserID)
                  (\<lambda>m. m\<lparr>m_role := OrgRoleNodeOperator, m_seat_tier := seat, m_updated_at := now\<rparr>) (org_members s);
                ms = upd_rows (member_at orgID toUserID)
                  (\<lambda>m. m\<lparr>m_role := ''owner'', m_seat_tier := seat, m_updated_at := now\<rparr>) ms
            in (Inr (), s\<lparr>org_members := ms,
                  orgs := upd_rows (\<lambda>x. o_id x = orgID)
                    (\<lambda>x. x\<lparr>o_owner_user_id := toUserID, o_updated_at := now\<rparr>) (orgs s)\<rparr>)))"

definition TransferOrgOwnership :: "time \<Rightarrow> id \<Rightarrow> id \<Rightarrow> id \<Rightarrow> db \<Rightarrow> unit res \<times> db" where
  "TransferOrgOwnership now orgID fromUserID toUserID s =
     in_tx (TransferOrgOwnership_tx now orgID fromUserID toUserID) s"

end
