(* ===== verification/DropStore.thy ===== *)
theory DropStore
  imports Orgs "HOL-Library.List_Lexorder" "HOL-Library.Char_ord"
begin

text \<open>
  The store side of Drop: tiers, entitlements, quota and capacity reservations
  (\<open>internal/store/drop.go\<close>), files, pins, deletion and the vault (\<open>drop_files.go\<close>), node health
  and discovery (\<open>drop_node.go\<close>).  Generated identifiers and the time of a call are arguments;
  text is ordered by code point.
\<close>

section \<open>Tiers and entitlements (\<open>drop.go\<close>)\<close>

definition dropTierOrder :: "string list" where
  "dropTierOrder = [DropTierFree, DropTierStarter, DropTierPro, DropTierBusiness, DropTierEnterprise]"

fun index_from :: "int \<Rightarrow> string list \<Rightarrow> string \<Rightarrow> int" where
  "index_from i [] tier = -1"
| "index_from i (t # ts) tier = (if t = tier then i else index_from (i + 1) ts tier)"

definition dropTierRank :: "string \<Rightarrow> int" where
  "dropTierRank tier = index_from 0 dropTierOrder tier"

definition NormalizeDropTier :: "string \<Rightarrow> string" where
  "NormalizeDropTier tier = (if 0 \<le> dropTierRank tier then tier else DropTierFree)"

definition DefaultDropQuotaBytes :: "string \<Rightarrow> int" where
  "DefaultDropQuotaBytes tier =
    (let t = NormalizeDropTier tier
     in if t = DropTierStarter then DropQuotaStarterBytes
        else if t = DropTierPro then DropQuotaProBytes
        else if t = DropTierBusiness \<or> t = DropTierEnterprise then DropQuotaBusinessBytes
        else DropQuotaFreeBytes)"

definition GetDropTierLimit :: "db \<Rightarrow> string \<Rightarrow> drop_tier_limit" where
  "GetDropTierLimit s tier =
    (let tier = NormalizeDropTier tier
     in case find (\<lambda>l. tl_tier l = tier) (drop_tier_limits s) of
          Some l \<Rightarrow> l
        | None \<Rightarrow> \<lparr>tl_tier = tier, tl_public_storage_bytes = DefaultDropQuotaBytes tier,
                    tl_max_file_bytes = DropMaxFileBytes\<rparr>)"

record drop_entitlement =
  de_user_id :: id
  de_tier :: string
  de_entitlement_org_id :: string
  de_seat_tier :: string
  de_public_storage_bytes :: int
  de_max_file_bytes :: int

definition drop_effective_tier :: "member \<Rightarrow> org \<Rightarrow> string" where
  "drop_effective_tier m x =
    (if m_role m = ''owner'' \<or> m_role m = ''node_operator'' then plan_case (o_plan x) else m_seat_tier m)"

definition ResolveDropEntitlement :: "db \<Rightarrow> id \<Rightarrow> drop_entitlement" where
  "ResolveDropEntitlement s userID =
    (let best = first_row (order_desc (\<lambda>(_, t). seatTierRank t)
                  (map (\<lambda>(m, x). (o_id x, drop_effective_tier m x)) (active_memberships s userID)));
         orgID = (case best of None \<Rightarrow> '''' | Some (x, _) \<Rightarrow> x);
         seat = (case best of None \<Rightarrow> SeatTierFree | Some (_, t) \<Rightarrow> NormalizeDropTier t);
         tier = NormalizeDropTier seat;
         limit = GetDropTierLimit s tier
     in \<lparr>de_user_id = userID, de_tier = tier, de_entitlement_org_id = orgID, de_seat_tier = seat,
         de_public_storage_bytes = tl_public_storage_bytes limit,
         de_max_file_bytes = tl_max_file_bytes limit\<rparr>)"

section \<open>The counters\<close>

definition quota_key :: "drop_quota_usage \<Rightarrow> string \<times> string" where
  "quota_key q = (dq_principal_type q, dq_principal_id q)"

definition GetDropQuotaUsage :: "db \<Rightarrow> string \<Rightarrow> string \<Rightarrow> drop_quota_usage" where
  "GetDropQuotaUsage s pt pid =
    (case find (\<lambda>q. quota_key q = (pt, pid)) (drop_quota_usages s) of
       Some q \<Rightarrow> q
     | None \<Rightarrow> \<lparr>dq_principal_type = pt, dq_principal_id = pid, dq_used_bytes = 0, dq_reserved_bytes = 0\<rparr>)"

text \<open>\<open>INSERT ... GREATEST($3,0), GREATEST($4,0) ON CONFLICT DO UPDATE SET x = GREATEST(x + d, 0)\<close>.\<close>

definition adjust_quota :: "string \<times> string \<Rightarrow> int \<Rightarrow> int \<Rightarrow> drop_quota_usage list \<Rightarrow> drop_quota_usage list res" where
  "adjust_quota k usedDelta reservedDelta t =
    (case find (\<lambda>q. quota_key q = k) t of
       None \<Rightarrow> Inr (t @ [\<lparr>dq_principal_type = fst k, dq_principal_id = snd k,
                         dq_used_bytes = max usedDelta 0, dq_reserved_bytes = max reservedDelta 0\<rparr>])
     | Some q \<Rightarrow>
        (case pg_bigint (dq_used_bytes q + usedDelta) of Inl e \<Rightarrow> Inl e
         | Inr used \<Rightarrow>
           (case pg_bigint (dq_reserved_bytes q + reservedDelta) of Inl e \<Rightarrow> Inl e
            | Inr reserved \<Rightarrow> Inr (upd_rows (\<lambda>q. quota_key q = k)
                (\<lambda>q. q\<lparr>dq_used_bytes := max used 0, dq_reserved_bytes := max reserved 0\<rparr>) t))))"

definition adjustQuotaTx :: "string \<Rightarrow> string \<Rightarrow> int \<Rightarrow> int \<Rightarrow> db \<Rightarrow> unit res \<times> db" where
  "adjustQuotaTx pt pid usedDelta reservedDelta s =
    (case adjust_quota (pt, pid) usedDelta reservedDelta (drop_quota_usages s) of
       Inl e \<Rightarrow> (Inl e, s) | Inr t \<Rightarrow> (Inr (), s\<lparr>drop_quota_usages := t\<rparr>))"

text \<open>\<open>INSERT ... ON CONFLICT DO NOTHING\<close>: the row the reservation locks.\<close>

definition ensure_quota_row :: "string \<times> string \<Rightarrow> drop_quota_usage list \<Rightarrow> drop_quota_usage list" where
  "ensure_quota_row k t =
    (if has_row (\<lambda>q. quota_key q = k) t then t
     else t @ [\<lparr>dq_principal_type = fst k, dq_principal_id = snd k, dq_used_bytes = 0, dq_reserved_bytes = 0\<rparr>])"

text \<open>\<open>UPDATE drop_quota_usage SET reserved_bytes = reserved_bytes + $3\<close>, under its CHECK constraint.\<close>

definition hold_quota :: "string \<times> string \<Rightarrow> int \<Rightarrow> drop_quota_usage list \<Rightarrow> drop_quota_usage list res" where
  "hold_quota k bytes t =
    (case find (\<lambda>q. quota_key q = k) t of
       None \<Rightarrow> Inr t
     | Some q \<Rightarrow>
        (case pg_bigint (dq_reserved_bytes q + bytes) of Inl e \<Rightarrow> Inl e
         | Inr r \<Rightarrow> if r < 0 then Inl check_violation
                    else Inr (upd_rows (\<lambda>q. quota_key q = k) (\<lambda>q. q\<lparr>dq_reserved_bytes := r\<rparr>) t)))"

text \<open>The node counter: the reservation's \<open>UPDATE\<close> and the clamped release.\<close>

definition hold_node :: "string \<Rightarrow> int \<Rightarrow> node_drop_status list \<Rightarrow> node_drop_status list res" where
  "hold_node nodeID bytes t =
    (case find (\<lambda>d. ns_node_id d = nodeID) t of
       None \<Rightarrow> Inr t
     | Some d \<Rightarrow>
        (case pg_bigint (ns_reserved_bytes d + bytes) of Inl e \<Rightarrow> Inl e
         | Inr r \<Rightarrow> if r < 0 then Inl check_violation
                    else Inr (upd_rows (\<lambda>d. ns_node_id d = nodeID) (\<lambda>d. d\<lparr>ns_reserved_bytes := r\<rparr>) t)))"

definition release_node :: "string \<Rightarrow> int \<Rightarrow> node_drop_status list \<Rightarrow> node_drop_status list res" where
  "release_node nodeID bytes t =
    (case find (\<lambda>d. ns_node_id d = nodeID) t of
       None \<Rightarrow> Inr t
     | Some d \<Rightarrow>
        (case pg_bigint (ns_reserved_bytes d - bytes) of Inl e \<Rightarrow> Inl e
         | Inr r \<Rightarrow> Inr (upd_rows (\<lambda>d. ns_node_id d = nodeID) (\<lambda>d. d\<lparr>ns_reserved_bytes := max r 0\<rparr>) t)))"

definition release_node_db :: "string \<Rightarrow> int \<Rightarrow> db \<Rightarrow> unit res \<times> db" where
  "release_node_db nodeID bytes s =
    (case release_node nodeID bytes (node_drop_statuses s) of
       Inl e \<Rightarrow> (Inl e, s) | Inr t \<Rightarrow> (Inr (), s\<lparr>node_drop_statuses := t\<rparr>))"

section \<open>Reservations\<close>

record reserve_input =
  ri_user_id :: id
  ri_org_id :: string
  ri_entitlement_org_id :: string
  ri_node_id :: string
  ri_scope :: string
  ri_visibility :: string
  ri_filename :: string
  ri_content_type :: string
  ri_declared_size :: int
  ri_sha256 :: string
  ri_encrypted :: bool
  ri_encryption_metadata :: string
  ri_idempotency_key :: string
  ri_ttl :: int  \<comment> \<open>nanoseconds\<close>

definition upload_open :: "drop_upload \<Rightarrow> bool" where
  "upload_open u \<longleftrightarrow> up_status u = DropUploadReserved \<or> up_status u = DropUploadUploading"

definition scanDropUploadByKey :: "db \<Rightarrow> id \<Rightarrow> string \<Rightarrow> drop_upload option" where
  "scanDropUploadByKey s userID key =
    find (\<lambda>u. up_owner_user_id u = userID \<and> up_idempotency_key u = key) (drop_uploads s)"

text \<open>Renaming the key of a terminal attempt, under the unique index on (owner, key).\<close>

definition retire_key :: "time \<Rightarrow> drop_upload \<Rightarrow> db \<Rightarrow> unit res \<times> db" where
  "retire_key now u s =
    (let key = up_idempotency_key u @ '':terminal:'' @ up_id u
     in if has_row (\<lambda>r. up_owner_user_id r = up_owner_user_id u \<and> up_idempotency_key r = key
                       \<and> up_id r \<noteq> up_id u) (drop_uploads s)
        then (Inl unique_violation, s)
        else (Inr (), s\<lparr>drop_uploads := upd_rows (\<lambda>r. up_id r = up_id u)
               (\<lambda>r. r\<lparr>up_idempotency_key := key, up_updated_at := now\<rparr>) (drop_uploads s)\<rparr>))"

definition resolveTierLimitTx :: "db \<Rightarrow> id \<Rightarrow> drop_tier_limit" where
  "resolveTierLimitTx s userID =
    (let ent = ResolveDropEntitlement s userID
     in \<lparr>tl_tier = de_tier ent, tl_public_storage_bytes = de_public_storage_bytes ent,
         tl_max_file_bytes = de_max_file_bytes ent\<rparr>)"

definition reserve_quota :: "reserve_input \<Rightarrow> db \<Rightarrow> unit res \<times> db" where
  "reserve_quota inp s =
    (let lim = resolveTierLimitTx s (ri_user_id inp);
         k = (DropPrincipalUser, ri_user_id inp)
     in if ri_declared_size inp > tl_max_file_bytes lim then (Inl ErrDropQuotaExceeded, s)
        else
          (let t = ensure_quota_row k (drop_quota_usages s);
               s = s\<lparr>drop_quota_usages := t\<rparr>
           in case find (\<lambda>q. quota_key q = k) t of
                None \<Rightarrow> (Inl ErrNotFound, s)
              | Some q \<Rightarrow>
                  if wrap64 (wrap64 (dq_used_bytes q + dq_reserved_bytes q) + ri_declared_size inp)
                       > tl_public_storage_bytes lim
                  then (Inl ErrDropQuotaExceeded, s)
                  else case hold_quota k (ri_declared_size inp) t of
                         Inl e \<Rightarrow> (Inl e, s)
                       | Inr t \<Rightarrow> (Inr (), s\<lparr>drop_quota_usages := t\<rparr>)))"

definition reserveNodeCapacityTx :: "string \<Rightarrow> string \<Rightarrow> int \<Rightarrow> db \<Rightarrow> unit res \<times> db" where
  "reserveNodeCapacityTx nodeID scope bytes s =
    (case (find (\<lambda>d. ns_node_id d = nodeID) (node_drop_statuses s), find (\<lambda>n. n_peer_id n = nodeID) (nodes s)) of
       (Some d, Some n) \<Rightarrow>
         if \<not> ns_enabled d \<or> ns_state d \<noteq> DropStateActive \<or> n_status n \<noteq> ''online''
         then (Inl ErrDropNodeUnavailable, s)
         else if scope = DropScopePublic \<and> \<not> ns_accepts_public_uploads d
         then (Inl ErrDropNodeUnavailable, s)
         else if ns_storage_max_bytes d > 0
               \<and> wrap64 (wrap64 (ns_repo_size_bytes d + ns_reserved_bytes d) + bytes) > ns_storage_max_bytes d
         then (Inl ErrDropNodeCapacity, s)
         else (case hold_node nodeID bytes (node_drop_statuses s) of
                 Inl e \<Rightarrow> (Inl e, s)
               | Inr t \<Rightarrow> (Inr (), s\<lparr>node_drop_statuses := t\<rparr>))
     | _ \<Rightarrow> (Inl ErrDropNodeUnavailable, s))"

text \<open>\<open>if in.TTL <= 0 { in.TTL = 30 * time.Minute }\<close>, then whole seconds.\<close>

definition ttl_seconds :: "int \<Rightarrow> int" where
  "ttl_seconds ttl = (if ttl \<le> 0 then 30 * 60 * 1000000000 else ttl) div 1000000000"

definition new_upload :: "time \<Rightarrow> id \<Rightarrow> reserve_input \<Rightarrow> drop_upload" where
  "new_upload now newID inp = \<lparr>up_id = newID, up_owner_user_id = ri_user_id inp, up_org_id = ri_org_id inp,
     up_entitlement_org_id = ri_entitlement_org_id inp, up_node_id = ri_node_id inp,
     up_storage_scope = ri_scope inp, up_visibility = ri_visibility inp, up_filename = ri_filename inp,
     up_content_type = ri_content_type inp, up_declared_size_bytes = ri_declared_size inp,
     up_reserved_bytes = ri_declared_size inp, up_sha256 = ri_sha256 inp,
     up_encrypted = ri_encrypted inp, up_encryption_metadata = ri_encryption_metadata inp,
     up_status = DropUploadReserved, up_idempotency_key = ri_idempotency_key inp, up_cid = '''',
     up_error = '''', up_expires_at = now + ttl_seconds (ri_ttl inp), up_created_at = now,
     up_updated_at = now\<rparr>"

definition open_reservation :: "time \<Rightarrow> id \<Rightarrow> reserve_input \<Rightarrow> db \<Rightarrow> drop_upload res \<times> db" where
  "open_reservation now newID inp s =
    seq (if ri_scope inp = DropScopePublic then reserve_quota inp s else (Inr (), s)) (\<lambda>_ s.
    seq (reserveNodeCapacityTx (ri_node_id inp) (ri_scope inp) (ri_declared_size inp) s) (\<lambda>_ s.
    seq (insert_upload (new_upload now newID inp) s) (\<lambda>_ s.
    (Inr (new_upload now newID inp), s))))"

definition ReserveDropUpload :: "time \<Rightarrow> id \<Rightarrow> reserve_input \<Rightarrow> db \<Rightarrow> drop_upload res \<times> db" where
  "ReserveDropUpload now newID inp = in_tx (\<lambda>s.
    case scanDropUploadByKey s (ri_user_id inp) (ri_idempotency_key inp) of
      None \<Rightarrow> open_reservation now newID inp s
    | Some u \<Rightarrow>
        if upload_open u \<or> up_status u = DropUploadCommitted then (Inr u, s)
        else seq (retire_key now u s) (\<lambda>_ s. open_reservation now newID inp s))"

definition GetDropUpload :: "db \<Rightarrow> id \<Rightarrow> id \<Rightarrow> drop_upload res" where
  "GetDropUpload s userID uploadID =
    (case find (\<lambda>u. up_id u = uploadID \<and> up_owner_user_id u = userID) (drop_uploads s) of
       None \<Rightarrow> Inl ErrNotFound | Some u \<Rightarrow> Inr u)"

section \<open>Commit, release, expire (\<open>drop_files.go\<close>)\<close>

definition GetDropFileByUpload :: "db \<Rightarrow> id \<Rightarrow> drop_file res" where
  "GetDropFileByUpload s uploadID =
    (case first_row (order_desc df_created_at (filter (\<lambda>f. df_upload_id f = uploadID) (drop_files s))) of
       None \<Rightarrow> Inl ErrNotFound | Some f \<Rightarrow> Inr f)"

definition upsert_pin :: "drop_pin \<Rightarrow> db \<Rightarrow> unit res \<times> db" where
  "upsert_pin p s =
    (if has_row (\<lambda>r. dp_file_id r = dp_file_id p \<and> dp_node_id r = dp_node_id p) (drop_pins s)
     then (Inr (), s\<lparr>drop_pins := upd_rows (\<lambda>r. dp_file_id r = dp_file_id p \<and> dp_node_id r = dp_node_id p)
            (\<lambda>r. r\<lparr>dp_cid := dp_cid p, dp_status := dp_status p, dp_updated_at := dp_updated_at p\<rparr>) (drop_pins s)\<rparr>)
     else if has_row (\<lambda>r. dp_id r = dp_id p) (drop_pins s) then (Inl unique_violation, s)
     else (Inr (), s\<lparr>drop_pins := drop_pins s @ [p]\<rparr>))"

definition file_of_upload :: "time \<Rightarrow> id \<Rightarrow> string \<Rightarrow> int \<Rightarrow> drop_upload \<Rightarrow> drop_file" where
  "file_of_upload now newID cid finalSize u = \<lparr>df_id = newID, df_upload_id = up_id u,
     df_owner_user_id = up_owner_user_id u, df_org_id = up_org_id u,
     df_entitlement_org_id = up_entitlement_org_id u, df_node_id = up_node_id u,
     df_storage_scope = up_storage_scope u, df_cid = cid, df_filename = up_filename u,
     df_content_type = up_content_type u, df_size_bytes = finalSize, df_visibility = up_visibility u,
     df_encrypted = up_encrypted u, df_encryption_metadata = up_encryption_metadata u,
     df_status = DropFileActive, df_created_at = now, df_deleted_at = None\<rparr>"

text \<open>The body of a commit of an open upload.\<close>

definition commit_open :: "time \<Rightarrow> id \<Rightarrow> id \<Rightarrow> drop_upload \<Rightarrow> string \<Rightarrow> int \<Rightarrow> db \<Rightarrow> drop_file res \<times> db" where
  "commit_open now fileID pinID u cid finalSize s =
    (let f = file_of_upload now fileID cid finalSize u
     in seq (insert_file f s) (\<lambda>_ s.
        seq (upsert_pin \<lparr>dp_id = pinID, dp_file_id = fileID, dp_node_id = up_node_id u, dp_cid = cid,
               dp_status = DropPinPinned, dp_pinned_at = Some now, dp_updated_at = now\<rparr> s) (\<lambda>_ s.
        (let s = s\<lparr>drop_uploads := upd_rows (\<lambda>r. up_id r = up_id u)
               (\<lambda>r. r\<lparr>up_status := DropUploadCommitted, up_cid := cid, up_updated_at := now\<rparr>) (drop_uploads s)\<rparr>
         in seq (if up_storage_scope u = DropScopePublic
                 then adjustQuotaTx DropPrincipalUser (up_owner_user_id u) finalSize (- up_reserved_bytes u) s
                 else (Inr (), s)) (\<lambda>_ s.
            seq (release_node_db (up_node_id u) (up_reserved_bytes u) s) (\<lambda>_ s.
            (Inr f, s)))))))"

definition CommitDropUpload :: "time \<Rightarrow> id \<Rightarrow> id \<Rightarrow> id \<Rightarrow> id \<Rightarrow> string \<Rightarrow> int \<Rightarrow> db \<Rightarrow> drop_file res \<times> db" where
  "CommitDropUpload now fileID pinID userID uploadID cid finalSize = in_tx (\<lambda>s.
    case find (\<lambda>u. up_id u = uploadID \<and> up_owner_user_id u = userID) (drop_uploads s) of
      None \<Rightarrow> (Inl ErrNotFound, s)
    | Some u \<Rightarrow>
        if up_status u = DropUploadCommitted then (GetDropFileByUpload s uploadID, s)
        else if \<not> upload_open u then (Inl ErrConflict, s)
        else commit_open now fileID pinID u cid
               (if finalSize \<le> 0 then up_declared_size_bytes u else finalSize) s)"

text \<open>The body of a release of an open upload.\<close>

definition release_open :: "time \<Rightarrow> drop_upload \<Rightarrow> string \<Rightarrow> db \<Rightarrow> unit res \<times> db" where
  "release_open now u status s =
    seq (if up_storage_scope u = DropScopePublic
         then adjustQuotaTx DropPrincipalUser (up_owner_user_id u) 0 (- up_reserved_bytes u) s
         else (Inr (), s)) (\<lambda>_ s.
    seq (release_node_db (up_node_id u) (up_reserved_bytes u) s) (\<lambda>_ s.
    (Inr (), s\<lparr>drop_uploads := upd_rows (\<lambda>r. up_id r = up_id u)
       (\<lambda>r. r\<lparr>up_status := (if status = '''' then DropUploadExpired else status),
              up_reserved_bytes := 0, up_updated_at := now\<rparr>) (drop_uploads s)\<rparr>)))"

definition ReleaseDropReservation :: "time \<Rightarrow> id \<Rightarrow> string \<Rightarrow> db \<Rightarrow> unit res \<times> db" where
  "ReleaseDropReservation now uploadID status = in_tx (\<lambda>s.
    case find (\<lambda>u. up_id u = uploadID) (drop_uploads s) of
      None \<Rightarrow> (Inl ErrNotFound, s)
    | Some u \<Rightarrow> if \<not> upload_open u then (Inr (), s) else release_open now u status s)"

definition FailDropUploadWithOrphanPin :: "time \<Rightarrow> id \<Rightarrow> string \<Rightarrow> string \<Rightarrow> db \<Rightarrow> unit res \<times> db" where
  "FailDropUploadWithOrphanPin now uploadID cid message s =
    (let (r, s) = ReleaseDropReservation now uploadID DropUploadFailed s
     in case r of
          Inl e \<Rightarrow> if e \<noteq> ErrNotFound then (Inl e, s) else (Inr (), s)
        | Inr _ \<Rightarrow> (Inr (), s\<lparr>drop_uploads := upd_rows (\<lambda>u. up_id u = uploadID \<and> up_status u = DropUploadFailed)
              (\<lambda>u. u\<lparr>up_cid := cid, up_error := message, up_updated_at := now\<rparr>) (drop_uploads s)\<rparr>))"

definition default_limit :: "int \<Rightarrow> int \<Rightarrow> int" where
  "default_limit d n = (if n \<le> 0 then d else n)"

definition ListPendingDropOrphanPins :: "db \<Rightarrow> int \<Rightarrow> (id \<times> string \<times> string) list" where
  "ListPendingDropOrphanPins s n =
    map (\<lambda>u. (up_id u, up_node_id u, up_cid u))
      (limit_rows (default_limit 50 n) (order_asc up_updated_at
        (filter (\<lambda>u. up_status u = DropUploadFailed \<and> up_cid u \<noteq> '''') (drop_uploads s))))"

definition ClearDropUploadOrphanPin :: "time \<Rightarrow> id \<Rightarrow> db \<Rightarrow> db" where
  "ClearDropUploadOrphanPin now uploadID s =
    s\<lparr>drop_uploads := upd_rows (\<lambda>u. up_id u = uploadID \<and> up_status u = DropUploadFailed)
       (\<lambda>u. u\<lparr>up_cid := '''', up_updated_at := now\<rparr>) (drop_uploads s)\<rparr>"

fun release_all :: "time \<Rightarrow> id list \<Rightarrow> db \<Rightarrow> int \<times> db" where
  "release_all now [] s = (0, s)"
| "release_all now (i # is) s =
    (let (r, s) = ReleaseDropReservation now i DropUploadExpired s;
         (n, s) = release_all now is s
     in (if is_ok r then n + 1 else n, s))"

definition expired_ids :: "time \<Rightarrow> int \<Rightarrow> db \<Rightarrow> id list" where
  "expired_ids now n s = map up_id (limit_rows (default_limit 100 n) (order_asc up_expires_at
     (filter (\<lambda>u. upload_open u \<and> up_expires_at u < now) (drop_uploads s))))"

definition ExpireDropReservations :: "time \<Rightarrow> int \<Rightarrow> db \<Rightarrow> int \<times> db" where
  "ExpireDropReservations now n s = release_all now (expired_ids now n s) s"

section \<open>Files and deletion\<close>

definition ListDropFilesByUser :: "db \<Rightarrow> id \<Rightarrow> drop_file list" where
  "ListDropFilesByUser s userID = order_desc df_created_at
     (filter (\<lambda>f. df_owner_user_id f = userID \<and> df_status f \<noteq> DropFileDeleted) (drop_files s))"

definition ListDropFilesByOrg :: "db \<Rightarrow> id \<Rightarrow> drop_file list" where
  "ListDropFilesByOrg s orgID = order_desc df_created_at
     (filter (\<lambda>f. df_org_id f = orgID \<and> df_status f \<noteq> DropFileDeleted) (drop_files s))"

definition GetDropFile :: "db \<Rightarrow> id \<Rightarrow> drop_file res" where
  "GetDropFile s fileID =
    (case find (\<lambda>f. df_id f = fileID) (drop_files s) of None \<Rightarrow> Inl ErrNotFound | Some f \<Rightarrow> Inr f)"

definition SetDropFileVisibility :: "id \<Rightarrow> id \<Rightarrow> string \<Rightarrow> db \<Rightarrow> drop_file res \<times> db" where
  "SetDropFileVisibility fileID userID visibility s =
    (case find (\<lambda>f. df_id f = fileID \<and> df_owner_user_id f = userID \<and> df_status f = DropFileActive) (drop_files s) of
       None \<Rightarrow> (Inl ErrNotFound, s)
     | Some f \<Rightarrow> (Inr (f\<lparr>df_visibility := visibility\<rparr>),
          s\<lparr>drop_files := upd_rows (\<lambda>f. df_id f = fileID \<and> df_owner_user_id f = userID \<and> df_status f = DropFileActive)
             (\<lambda>f. f\<lparr>df_visibility := visibility\<rparr>) (drop_files s)\<rparr>))"

definition OrgDropUsage :: "db \<Rightarrow> id \<Rightarrow> int \<times> int" where
  "OrgDropUsage s orgID =
    (let fs = filter (\<lambda>f. df_org_id f = orgID \<and> df_status f \<noteq> DropFileDeleted) (drop_files s)
     in (total_of df_size_bytes fs, int (length fs)))"

definition CountActivePinRefs :: "db \<Rightarrow> string \<Rightarrow> string \<Rightarrow> string \<Rightarrow> int" where
  "CountActivePinRefs s nodeID cid excludeFileID =
    row_count (\<lambda>f. df_node_id f = nodeID \<and> df_cid f = cid \<and> df_status f = DropFileActive
      \<and> df_id f \<noteq> (if excludeFileID = '''' then ''00000000-0000-0000-0000-000000000000'' else excludeFileID))
      (drop_files s)"

definition ListPendingDropUnpins :: "db \<Rightarrow> int \<Rightarrow> (id \<times> string \<times> string) list" where
  "ListPendingDropUnpins s n =
    map (\<lambda>(f, p). (df_id f, df_node_id f, df_cid f))
      (limit_rows (default_limit 50 n) (order_asc (\<lambda>(f, p). dp_updated_at p)
        [(f, p). f \<leftarrow> drop_files s, p \<leftarrow> drop_pins s, dp_file_id p = df_id f,
           df_status f = DropFileDeletePending, dp_status p = DropPinUnpinPending \<or> dp_status p = DropPinError]))"

definition file_live :: "drop_file \<Rightarrow> bool" where
  "file_live f \<longleftrightarrow> df_status f \<noteq> DropFileDeleted \<and> df_status f \<noteq> DropFileDeletePending"

definition other_refs :: "db \<Rightarrow> drop_file \<Rightarrow> int" where
  "other_refs s f = row_count (\<lambda>g. df_node_id g = df_node_id f \<and> df_cid g = df_cid f \<and> file_live g
     \<and> df_id g \<noteq> df_id f) (drop_files s)"

definition MarkDropFileDeletePending :: "time \<Rightarrow> id \<Rightarrow> db \<Rightarrow> (bool \<times> drop_file) res \<times> db" where
  "MarkDropFileDeletePending now fileID = in_tx (\<lambda>s.
    case find (\<lambda>f. df_id f = fileID) (drop_files s) of
      None \<Rightarrow> (Inl ErrNotFound, s)
    | Some f \<Rightarrow>
        if df_status f = DropFileDeleted then (Inr (False, f), s)
        else if df_status f = DropFileDeletePending
        then (let st = (case find (\<lambda>p. dp_file_id p = df_id f) (drop_pins s) of
                          None \<Rightarrow> DropPinUnpinned | Some p \<Rightarrow> dp_status p)
              in (Inr (st = DropPinUnpinPending \<or> st = DropPinError, f), s))
        else
          seq (if df_storage_scope f = DropScopePublic
               then adjustQuotaTx DropPrincipalUser (df_owner_user_id f) (- df_size_bytes f) 0 s
               else (Inr (), s)) (\<lambda>_ s.
            (let refs = other_refs s f;
                 s = s\<lparr>drop_files := upd_rows (\<lambda>g. df_id g = df_id f)
                        (\<lambda>g. g\<lparr>df_status := DropFileDeletePending, df_deleted_at := Some now\<rparr>) (drop_files s)\<rparr>;
                 st = (if refs > 0 then DropPinUnpinned else DropPinUnpinPending);
                 s = s\<lparr>drop_pins := upd_rows (\<lambda>p. dp_file_id p = df_id f)
                        (\<lambda>p. p\<lparr>dp_status := st, dp_updated_at := now\<rparr>) (drop_pins s)\<rparr>
             in (Inr (refs = 0, f), s))))"

definition FinalizeDropFileDeletion :: "time \<Rightarrow> id \<Rightarrow> bool \<Rightarrow> db \<Rightarrow> db" where
  "FinalizeDropFileDeletion now fileID unpinned s =
    (let st = (if unpinned then DropPinUnpinned else DropPinError);
         s = s\<lparr>drop_pins := upd_rows (\<lambda>p. dp_file_id p = fileID)
                (\<lambda>p. p\<lparr>dp_status := st, dp_updated_at := now\<rparr>) (drop_pins s)\<rparr>
     in if unpinned
        then s\<lparr>drop_files := upd_rows (\<lambda>f. df_id f = fileID \<and> df_status f = DropFileDeletePending)
                (\<lambda>f. f\<lparr>df_status := DropFileDeleted\<rparr>) (drop_files s)\<rparr>
        else s)"

section \<open>The vault\<close>

definition GetDropCryptoProfile :: "db \<Rightarrow> id \<Rightarrow> drop_crypto_profile res" where
  "GetDropCryptoProfile s userID =
    (case find (\<lambda>p. cp_user_id p = userID) (drop_crypto_profiles s) of None \<Rightarrow> Inl ErrNotFound | Some p \<Rightarrow> Inr p)"

definition vault_version :: "db \<Rightarrow> id \<Rightarrow> int" where
  "vault_version s userID =
    (case find (\<lambda>p. cp_user_id p = userID) (drop_crypto_profiles s) of None \<Rightarrow> 0 | Some p \<Rightarrow> cp_version p)"

text \<open>The version column is a 32-bit \<open>integer\<close>.\<close>

definition PutDropCryptoProfile :: "id \<Rightarrow> string \<Rightarrow> string \<Rightarrow> string \<Rightarrow> int \<Rightarrow> db \<Rightarrow> drop_crypto_profile res \<times> db" where
  "PutDropCryptoProfile userID publicKey encryptedVault kdf expectedVersion = in_tx (\<lambda>s.
    let current = vault_version s userID
    in if current \<noteq> expectedVersion then (Inl ErrConflict, s)
       else if current + 1 > 2147483647 then (Inl out_of_range, s)
       else
         (let p = \<lparr>cp_user_id = userID, cp_version = current + 1, cp_public_key = publicKey,
                   cp_encrypted_vault = encryptedVault, cp_kdf_metadata = kdf\<rparr>
          in if has_row (\<lambda>r. cp_user_id r = userID) (drop_crypto_profiles s)
             then (Inr p, s\<lparr>drop_crypto_profiles := upd_rows (\<lambda>r. cp_user_id r = userID) (\<lambda>_. p) (drop_crypto_profiles s)\<rparr>)
             else if \<not> fk_user s userID then (Inl foreign_key_violation, s)
             else (Inr p, s\<lparr>drop_crypto_profiles := drop_crypto_profiles s @ [p]\<rparr>)))"

section \<open>Node health and discovery (\<open>drop_node.go\<close>)\<close>

definition NormalizeDropState :: "string \<Rightarrow> string" where
  "NormalizeDropState state =
    (let x = ToLower (TrimSpace state)
     in if x = DropStateStarting \<or> x = DropStateActive \<or> x = DropStateDegraded \<or> x = DropStateFull
           \<or> x = DropStateUnreachable then x else DropStateDisabled)"

definition ApplyDropCapability :: "time \<Rightarrow> string \<Rightarrow> bool \<Rightarrow> bool \<Rightarrow> bool \<Rightarrow> db \<Rightarrow> db" where
  "ApplyDropCapability now nodeID enabled acceptsPublic webui s =
    (let initialState = (if enabled then DropStateStarting else DropStateDisabled)
     in if has_row (\<lambda>d. ns_node_id d = nodeID) (node_drop_statuses s)
        then s\<lparr>node_drop_statuses := upd_rows (\<lambda>d. ns_node_id d = nodeID)
               (\<lambda>d. d\<lparr>ns_enabled := enabled, ns_accepts_public_uploads := acceptsPublic,
                      ns_webui_available := webui,
                      ns_state := (if \<not> enabled then initialState else ns_state d),
                      ns_last_reported_at := Some now\<rparr>) (node_drop_statuses s)\<rparr>
        else s\<lparr>node_drop_statuses := node_drop_statuses s @
               [\<lparr>ns_node_id = nodeID, ns_enabled = enabled, ns_accepts_public_uploads = acceptsPublic,
                 ns_webui_available = webui, ns_state = initialState, ns_kubo_version = '''',
                 ns_repo_size_bytes = 0, ns_storage_max_bytes = 0, ns_num_objects = 0,
                 ns_reserved_bytes = 0, ns_last_reported_at = Some now\<rparr>]\<rparr>)"

definition ApplyDropStatus :: "time \<Rightarrow> string \<Rightarrow> string \<Rightarrow> string \<Rightarrow> int \<Rightarrow> int \<Rightarrow> int \<Rightarrow> db \<Rightarrow> db" where
  "ApplyDropStatus now nodeID state kuboVersion repoSize storageMax numObjects s =
    (let st = NormalizeDropState state
     in if has_row (\<lambda>d. ns_node_id d = nodeID) (node_drop_statuses s)
        then s\<lparr>node_drop_statuses := upd_rows (\<lambda>d. ns_node_id d = nodeID)
               (\<lambda>d. d\<lparr>ns_enabled := True, ns_state := st, ns_kubo_version := kuboVersion,
                      ns_repo_size_bytes := repoSize, ns_storage_max_bytes := storageMax,
                      ns_num_objects := numObjects, ns_last_reported_at := Some now\<rparr>) (node_drop_statuses s)\<rparr>
        else s\<lparr>node_drop_statuses := node_drop_statuses s @
               [\<lparr>ns_node_id = nodeID, ns_enabled = True, ns_accepts_public_uploads = False,
                 ns_webui_available = False, ns_state = st, ns_kubo_version = kuboVersion,
                 ns_repo_size_bytes = repoSize, ns_storage_max_bytes = storageMax,
                 ns_num_objects = numObjects, ns_reserved_bytes = 0, ns_last_reported_at = Some now\<rparr>]\<rparr>)"

definition DropPinnedNodes :: "db \<Rightarrow> string \<Rightarrow> string \<Rightarrow> string list" where
  "DropPinnedNodes s cid preferNodeID =
    sort_key (\<lambda>d. if d = preferNodeID then 0 else 1 :: nat) (sort
      [ns_node_id d. p \<leftarrow> drop_pins s, d \<leftarrow> node_drop_statuses s, ns_node_id d = dp_node_id p,
         dp_cid p = cid, dp_status p = ''pinned'', ns_enabled d,
         ns_state d = ''active'' \<or> ns_state d = ''degraded''])"

definition GetNodeDropStatus :: "db \<Rightarrow> string \<Rightarrow> node_drop_status res" where
  "GetNodeDropStatus s nodeID =
    (case find (\<lambda>d. ns_node_id d = nodeID) (node_drop_statuses s) of None \<Rightarrow> Inl ErrNotFound | Some d \<Rightarrow> Inr d)"

abbreviation DropCapacityUnknown :: string where "DropCapacityUnknown \<equiv> ''unknown''"
abbreviation DropCapacityAvailable :: string where "DropCapacityAvailable \<equiv> ''available''"
abbreviation DropCapacityLimited :: string where "DropCapacityLimited \<equiv> ''limited''"
abbreviation DropCapacityFull :: string where "DropCapacityFull \<equiv> ''full''"

record drop_node_info =
  di_node_id :: string
  di_org_id :: string
  di_name :: string
  di_region :: string
  di_access_mode :: string
  di_deployment_profile :: string
  di_online :: bool
  di_accepting_uploads :: bool
  di_state :: string
  di_accepts_public_uploads :: bool
  di_webui_available :: bool
  di_capacity :: string

definition coarseCapacity :: "int \<Rightarrow> int \<Rightarrow> int \<Rightarrow> string" where
  "coarseCapacity storageMax repoSize reserved =
    (if storageMax \<le> 0 then DropCapacityUnknown
     else let avail = wrap64 (wrap64 (storageMax - repoSize) - reserved)
          in if avail \<le> 0 then DropCapacityFull
             else if wrap64 (avail * 10) < storageMax then DropCapacityLimited
             else DropCapacityAvailable)"

definition drop_node_view :: "string \<Rightarrow> node_drop_status \<Rightarrow> node \<Rightarrow> drop_node_info" where
  "drop_node_view scope d n =
    (let cap = coarseCapacity (ns_storage_max_bytes d) (ns_repo_size_bytes d) (ns_reserved_bytes d);
         online = (n_status n = ''online'')
     in \<lparr>di_node_id = n_peer_id n, di_org_id = n_org_id n, di_name = n_name n, di_region = n_region n,
         di_access_mode = n_access_mode n, di_deployment_profile = n_deployment_profile n,
         di_online = online,
         di_accepting_uploads = (online \<and> ns_state d = DropStateActive \<and> cap \<noteq> DropCapacityFull
            \<and> (scope = DropScopePrivateOrg \<or> ns_accepts_public_uploads d)),
         di_state = ns_state d, di_accepts_public_uploads = ns_accepts_public_uploads d,
         di_webui_available = ns_webui_available d, di_capacity = cap\<rparr>)"

definition ListDropNodes :: "db \<Rightarrow> string \<Rightarrow> string \<Rightarrow> drop_node_info list" where
  "ListDropNodes s scope orgID =
    sort_key di_region (sort_key di_name
      [drop_node_view scope d n. d \<leftarrow> node_drop_statuses s, n \<leftarrow> nodes s, n_peer_id n = ns_node_id d,
         ns_enabled d, ns_state d = ''active'' \<or> ns_state d = ''degraded'' \<or> ns_state d = ''full'',
         if scope = DropScopePrivateOrg then n_org_id n = orgID
         else n_access_mode n = ''public'' \<and> n_status n = ''online'' \<and> ns_accepts_public_uploads d])"

definition AvailableDropCapacityBytes :: "node_drop_status \<Rightarrow> int" where
  "AvailableDropCapacityBytes d =
    (if ns_storage_max_bytes d \<le> 0 then -1
     else let avail = wrap64 (wrap64 (ns_storage_max_bytes d - ns_repo_size_bytes d) - ns_reserved_bytes d)
          in if avail < 0 then 0 else avail)"

end
