(* ===== verification/DropInv.thy ===== *)
theory DropInv
  imports DropStore
begin

text \<open>
  The accounting of Drop: at every moment the quota and node counters are the totals of the
  rows they stand for.  The counters provide the interface \<open>ledger\<close>, the upload and file tables
  are its clients, and the operations of \<open>DropStore\<close> form an \<open>invariant_system\<close>.
\<close>

section \<open>The counters as ledgers\<close>

abbreviation user_key :: "id \<Rightarrow> string \<times> string" where "user_key u \<equiv> (DropPrincipalUser, u)"

definition used_of :: "drop_quota_usage list \<Rightarrow> id \<Rightarrow> int" where
  "used_of t u = (case find (\<lambda>q. quota_key q = user_key u) t of None \<Rightarrow> 0 | Some q \<Rightarrow> dq_used_bytes q)"

definition held_of :: "drop_quota_usage list \<Rightarrow> id \<Rightarrow> int" where
  "held_of t u = (case find (\<lambda>q. quota_key q = user_key u) t of None \<Rightarrow> 0 | Some q \<Rightarrow> dq_reserved_bytes q)"

definition node_held_of :: "node_drop_status list \<Rightarrow> string \<Rightarrow> int" where
  "node_held_of t n = (case find (\<lambda>d. ns_node_id d = n) t of None \<Rightarrow> 0 | Some d \<Rightarrow> ns_reserved_bytes d)"

definition has_quota :: "drop_quota_usage list \<Rightarrow> id \<Rightarrow> bool" where
  "has_quota t u = (find (\<lambda>q. quota_key q = user_key u) t \<noteq> None)"

definition has_node :: "node_drop_status list \<Rightarrow> string \<Rightarrow> bool" where
  "has_node t n = (find (\<lambda>d. ns_node_id d = n) t \<noteq> None)"

lemmas counter_defs = used_of_def held_of_def node_held_of_def has_quota_def has_node_def

lemma quota_key_upd [simp]:
  "quota_key (q\<lparr>dq_used_bytes := a\<rparr>) = quota_key q" "quota_key (q\<lparr>dq_reserved_bytes := b\<rparr>) = quota_key q"
  by (simp_all add: quota_key_def)

lemma quota_key_new [simp]:
  "quota_key \<lparr>dq_principal_type = a, dq_principal_id = b, dq_used_bytes = x, dq_reserved_bytes = y\<rparr> = (a, b)"
  by (simp add: quota_key_def)

lemma adjust_quota_find:
  assumes "adjust_quota k a b t = Inr t'"
  shows "find (\<lambda>q. quota_key q = k') t' =
    (if k' = k then Some (case find (\<lambda>q. quota_key q = k) t of
         None \<Rightarrow> \<lparr>dq_principal_type = fst k, dq_principal_id = snd k, dq_used_bytes = max a 0, dq_reserved_bytes = max b 0\<rparr>
       | Some q \<Rightarrow> q\<lparr>dq_used_bytes := max (dq_used_bytes q + a) 0, dq_reserved_bytes := max (dq_reserved_bytes q + b) 0\<rparr>)
     else find (\<lambda>q. quota_key q = k') t)"
proof (cases "find (\<lambda>q. quota_key q = k) t")
  case None
  with assms show ?thesis by (auto simp: adjust_quota_def find_append split: option.splits)
next
  case (Some q)
  with assms show ?thesis
    by (auto simp: adjust_quota_def find_upd_same find_upd_other split: sum.splits dest!: pg_bigint_okD)
qed

lemma hold_quota_find:
  assumes "hold_quota k b t = Inr t'"
  shows "find (\<lambda>q. quota_key q = k') t' =
    (if k' = k then map_option (\<lambda>q. q\<lparr>dq_reserved_bytes := dq_reserved_bytes q + b\<rparr>) (find (\<lambda>q. quota_key q = k) t)
     else find (\<lambda>q. quota_key q = k') t)"
  using assms by (auto simp: hold_quota_def find_upd_same find_upd_other
      split: option.splits sum.splits if_splits dest!: pg_bigint_okD)

lemma hold_node_find:
  assumes "hold_node n b t = Inr t'"
  shows "find (\<lambda>d. ns_node_id d = n') t' =
    (if n' = n then map_option (\<lambda>d. d\<lparr>ns_reserved_bytes := ns_reserved_bytes d + b\<rparr>) (find (\<lambda>d. ns_node_id d = n) t)
     else find (\<lambda>d. ns_node_id d = n') t)"
  using assms by (auto simp: hold_node_def find_upd_same find_upd_other
      split: option.splits sum.splits if_splits dest!: pg_bigint_okD)

lemma release_node_find:
  assumes "release_node n b t = Inr t'"
  shows "find (\<lambda>d. ns_node_id d = n') t' =
    (if n' = n then map_option (\<lambda>d. d\<lparr>ns_reserved_bytes := max (ns_reserved_bytes d - b) 0\<rparr>) (find (\<lambda>d. ns_node_id d = n) t)
     else find (\<lambda>d. ns_node_id d = n') t)"
  using assms by (auto simp: release_node_def find_upd_same find_upd_other
      split: option.splits sum.splits if_splits dest!: pg_bigint_okD)

lemmas counter_finds = adjust_quota_find hold_quota_find hold_node_find release_node_find

interpretation used: ledger used_of "\<lambda>_ _. True" "\<lambda>u d t. adjust_quota (user_key u) d b t" for b
  by unfold_locales (auto simp: used_of_def adjust_quota_find split: option.splits)

interpretation held: ledger held_of "\<lambda>_ _. True" "\<lambda>u d t. adjust_quota (user_key u) a d t" for a
  by unfold_locales (auto simp: held_of_def adjust_quota_find split: option.splits)

interpretation quota_hold: ledger held_of has_quota "\<lambda>u d t. hold_quota (user_key u) d t"
  by unfold_locales (auto simp: held_of_def has_quota_def hold_quota_find split: option.splits)

interpretation node_hold: ledger node_held_of has_node hold_node
  by unfold_locales (auto simp: node_held_of_def has_node_def hold_node_find split: option.splits)

interpretation node_release: ledger node_held_of has_node "\<lambda>n d t. release_node n (- d) t"
  by unfold_locales (auto simp: node_held_of_def has_node_def release_node_find split: option.splits)

section \<open>The invariant\<close>

text \<open>What a row is charged: a live public file to its owner's used bytes, an open public upload
  to its owner's reserved bytes, an open upload to its node's reserved bytes.\<close>

definition w_file :: "id \<Rightarrow> drop_file \<Rightarrow> int" where
  "w_file u f = (if df_owner_user_id f = u \<and> df_storage_scope f = DropScopePublic \<and> file_live f
     then df_size_bytes f else 0)"

definition w_hold :: "id \<Rightarrow> drop_upload \<Rightarrow> int" where
  "w_hold u r = (if up_owner_user_id r = u \<and> up_storage_scope r = DropScopePublic \<and> upload_open r
     then up_reserved_bytes r else 0)"

definition w_node :: "string \<Rightarrow> drop_upload \<Rightarrow> int" where
  "w_node n r = (if up_node_id r = n \<and> upload_open r then up_reserved_bytes r else 0)"

text \<open>Sizes are \<open>bigint\<close>s and not negative; an open upload's node has a status row.\<close>

definition size_ok :: "int \<Rightarrow> bool" where
  "size_ok x \<longleftrightarrow> 0 \<le> x \<and> in_i64 x"

definition upload_ok :: "node_drop_status list \<Rightarrow> drop_upload \<Rightarrow> bool" where
  "upload_ok ns r \<longleftrightarrow> size_ok (up_reserved_bytes r) \<and> size_ok (up_declared_size_bytes r)
     \<and> (upload_open r \<longrightarrow> has_node ns (up_node_id r))"

definition quota_ok :: "drop_quota_usage \<Rightarrow> bool" where
  "quota_ok q \<longleftrightarrow> size_ok (dq_used_bytes q) \<and> size_ok (dq_reserved_bytes q)"

definition rows_ok :: "db \<Rightarrow> bool" where
  "rows_ok s \<longleftrightarrow> distinct (map up_id (drop_uploads s)) \<and> distinct (map df_id (drop_files s))
     \<and> (\<forall>r\<in>set (drop_uploads s). upload_ok (node_drop_statuses s) r)
     \<and> (\<forall>f\<in>set (drop_files s). size_ok (df_size_bytes f))
     \<and> (\<forall>q\<in>set (drop_quota_usages s). quota_ok q)
     \<and> (\<forall>d\<in>set (node_drop_statuses s). size_ok (ns_reserved_bytes d))"

definition books_ok :: "db \<Rightarrow> bool" where
  "books_ok s \<longleftrightarrow> balanced (used_of (drop_quota_usages s)) w_file (drop_files s)
     \<and> balanced (held_of (drop_quota_usages s)) w_hold (drop_uploads s)
     \<and> balanced (node_held_of (node_drop_statuses s)) w_node (drop_uploads s)"

definition drop_inv :: "db \<Rightarrow> bool" where
  "drop_inv s \<longleftrightarrow> rows_ok s \<and> books_ok s"

lemmas weight_defs = w_file_def w_hold_def w_node_def
lemmas row_defs = upload_ok_def quota_ok_def size_ok_def

lemma size_ok_0 [simp]: "size_ok 0"
  by (simp add: size_ok_def in_i64_def)

lemma charges_uploads:
  "\<forall>r\<in>set us. upload_ok ns r \<Longrightarrow> charges w_hold us" "\<forall>r\<in>set us. upload_ok ns r \<Longrightarrow> charges w_node us"
  by (auto simp: charges_def weight_defs row_defs)

lemma charges_files: "\<forall>f\<in>set fs. size_ok (df_size_bytes f) \<Longrightarrow> charges w_file fs"
  by (auto simp: charges_def weight_defs size_ok_def)

subsection \<open>The rows of the counters stay sound\<close>

lemma adjust_quota_ok:
  assumes "adjust_quota k a b t = Inr t'" and "\<forall>q\<in>set t. quota_ok q" and "in_i64 a" "in_i64 b"
  shows "\<forall>q\<in>set t'. quota_ok q"
proof (cases "find (\<lambda>q. quota_key q = k) t")
  case None
  with assms show ?thesis by (auto simp: adjust_quota_def row_defs in_i64_def max_def)
next
  case (Some q)
  with assms show ?thesis
    by (auto simp: adjust_quota_def set_upd_rows row_defs in_i64_def pg_bigint_def max_def split: sum.splits if_splits)
qed

lemma hold_quota_ok:
  assumes "hold_quota k b t = Inr t'" and "\<forall>q\<in>set t. quota_ok q"
  shows "\<forall>q\<in>set t'. quota_ok q"
  using assms by (auto simp: hold_quota_def set_upd_rows row_defs in_i64_def pg_bigint_def
      split: option.splits sum.splits if_splits)

lemma hold_node_ok:
  assumes "hold_node n b t = Inr t'" and "\<forall>d\<in>set t. size_ok (ns_reserved_bytes d)"
  shows "\<forall>d\<in>set t'. size_ok (ns_reserved_bytes d)"
  using assms by (auto simp: hold_node_def set_upd_rows row_defs in_i64_def pg_bigint_def
      split: option.splits sum.splits if_splits)

lemma release_node_ok:
  assumes "release_node n b t = Inr t'" and "\<forall>d\<in>set t. size_ok (ns_reserved_bytes d)"
  shows "\<forall>d\<in>set t'. size_ok (ns_reserved_bytes d)"
  using assms by (auto simp: release_node_def set_upd_rows row_defs in_i64_def pg_bigint_def max_def
      split: option.splits sum.splits if_splits)

lemma has_node_kept:
  "hold_node n b t = Inr t' \<Longrightarrow> has_node t' m = has_node t m"
  "release_node n b t = Inr t' \<Longrightarrow> has_node t' m = has_node t m"
  by (auto simp: has_node_def hold_node_find release_node_find)

lemma upload_ok_kept:
  "(\<And>n. has_node ns' n = has_node ns n) \<Longrightarrow> upload_ok ns' r = upload_ok ns r"
  by (simp add: upload_ok_def)

subsection \<open>Opening and closing an upload\<close>

lemma close_held:
  assumes bal: "balanced (held_of qs) w_hold us" and ch: "charges w_hold us"
    and row: "distinct (map up_id us)" "find (\<lambda>r. up_id r = i) us = Some u" "upload_open u"
    and closed: "\<And>k. w_hold k (f u) = 0"
    and post: "if up_storage_scope u = DropScopePublic
      then adjust_quota (user_key (up_owner_user_id u)) a (- up_reserved_bytes u) qs = Inr qs' else qs' = qs"
  shows "balanced (held_of qs') w_hold (upd_rows (\<lambda>r. up_id r = i) f us)"
proof (cases "up_storage_scope u = DropScopePublic")
  case True
  with post have "adjust_quota (user_key (up_owner_user_id u)) a (- up_reserved_bytes u) qs = Inr qs'" by simp
  moreover have "w_hold k u = (if k = up_owner_user_id u then up_reserved_bytes u else 0)" for k
    using True row(3) by (simp add: w_hold_def)
  ultimately show ?thesis
    by (intro held.post_update [OF bal ch row(1,2)]) (auto simp: closed)
next
  case False
  then have "\<And>k. w_hold k u = 0" by (simp add: w_hold_def)
  with False post show ?thesis
    by (intro balanced_upd_key [OF bal _ row(1,2)]) (simp_all add: closed)
qed

lemma close_node:
  assumes bal: "balanced (node_held_of ns) w_node us" and ch: "charges w_node us"
    and row: "distinct (map up_id us)" "find (\<lambda>r. up_id r = i) us = Some u" "upload_open u"
    and closed: "\<And>k. w_node k (f u) = 0"
    and post: "release_node (up_node_id u) (up_reserved_bytes u) ns = Inr ns'" "has_node ns (up_node_id u)"
  shows "balanced (node_held_of ns') w_node (upd_rows (\<lambda>r. up_id r = i) f us)"
proof -
  have "w_node k u = (if k = up_node_id u then up_reserved_bytes u else 0)" for k
    using row(3) by (simp add: w_node_def)
  then show ?thesis
    by (intro node_release.post_update [OF bal ch row(1,2) post(2), of "- up_reserved_bytes u"])
      (use post(1) closed in auto)
qed

lemma upload_ok_upd:
  assumes "\<forall>r\<in>set us. upload_ok ns r" and "\<And>n. has_node ns' n = has_node ns n"
    and "\<And>r. r \<in> set us \<Longrightarrow> p r \<Longrightarrow> upload_ok ns (f r)"
  shows "\<forall>r\<in>set (upd_rows p f us). upload_ok ns' r"
proof -
  have "upload_ok ns' r = upload_ok ns r" for r using assms(2) by (rule upload_ok_kept)
  with assms(1,3) show ?thesis by (auto simp: set_upd_rows)
qed

lemma release_node_db_okE:
  assumes "release_node_db n b s = (Inr x, s')"
  obtains ns' where "release_node n b (node_drop_statuses s) = Inr ns'" "s' = s\<lparr>node_drop_statuses := ns'\<rparr>"
  using assms by (auto simp: release_node_db_def split: sum.splits)

lemma adjustQuotaTx_okE:
  assumes "adjustQuotaTx pt pid a b s = (Inr x, s')"
  obtains qs' where "adjust_quota (pt, pid) a b (drop_quota_usages s) = Inr qs'" "s' = s\<lparr>drop_quota_usages := qs'\<rparr>"
  using assms by (auto simp: adjustQuotaTx_def split: sum.splits)

lemma inv_okD:
  assumes "drop_inv s"
  shows "distinct (map up_id (drop_uploads s))" "distinct (map df_id (drop_files s))"
    "\<forall>r\<in>set (drop_uploads s). upload_ok (node_drop_statuses s) r"
    "\<forall>f\<in>set (drop_files s). size_ok (df_size_bytes f)"
    "\<forall>q\<in>set (drop_quota_usages s). quota_ok q"
    "\<forall>d\<in>set (node_drop_statuses s). size_ok (ns_reserved_bytes d)"
    "balanced (used_of (drop_quota_usages s)) w_file (drop_files s)"
    "balanced (held_of (drop_quota_usages s)) w_hold (drop_uploads s)"
    "balanced (node_held_of (node_drop_statuses s)) w_node (drop_uploads s)"
    "charges w_hold (drop_uploads s)" "charges w_node (drop_uploads s)" "charges w_file (drop_files s)"
  using assms charges_uploads charges_files by (auto simp: drop_inv_def rows_ok_def books_ok_def)

text \<open>The common part of commit and release: the quota hold of \<open>u\<close> is returned.\<close>

definition return_hold :: "int \<Rightarrow> drop_upload \<Rightarrow> drop_quota_usage list \<Rightarrow> drop_quota_usage list \<Rightarrow> bool" where
  "return_hold a u qs qs' \<longleftrightarrow> (if up_storage_scope u = DropScopePublic
      then adjust_quota (user_key (up_owner_user_id u)) a (- up_reserved_bytes u) qs = Inr qs' else qs' = qs)"

lemma return_hold_ok:
  assumes "return_hold a u qs qs'" and "\<forall>q\<in>set qs. quota_ok q" and "in_i64 a" and "size_ok (up_reserved_bytes u)"
  shows "\<forall>q\<in>set qs'. quota_ok q"
proof -
  have "in_i64 (- up_reserved_bytes u)" using assms(4) by (auto simp: size_ok_def in_i64_def)
  with assms show ?thesis unfolding return_hold_def
    by (metis adjust_quota_ok)
qed

definition closed_upload :: "time \<Rightarrow> string \<Rightarrow> drop_upload \<Rightarrow> drop_upload" where
  "closed_upload now status r = r\<lparr>up_status := (if status = '''' then DropUploadExpired else status),
     up_reserved_bytes := 0, up_updated_at := now\<rparr>"

lemma closed_upload_simps [simp]:
  "up_id (closed_upload now st r) = up_id r" "up_reserved_bytes (closed_upload now st r) = 0"
  "up_owner_user_id (closed_upload now st r) = up_owner_user_id r" "up_node_id (closed_upload now st r) = up_node_id r"
  "up_declared_size_bytes (closed_upload now st r) = up_declared_size_bytes r"
  by (simp_all add: closed_upload_def)

lemma release_open_okE:
  assumes "release_open now u status s = (Inr x, s')"
  obtains qs' ns' where
    "return_hold 0 u (drop_quota_usages s) qs'"
    "release_node (up_node_id u) (up_reserved_bytes u) (node_drop_statuses s) = Inr ns'"
    "s' = s\<lparr>drop_quota_usages := qs', node_drop_statuses := ns', drop_uploads := upd_rows (\<lambda>r. up_id r = up_id u)
       (closed_upload now status) (drop_uploads s)\<rparr>"
  using assms unfolding release_open_def closed_upload_def [abs_def]
  by (elim seq_okE release_node_db_okE, simp split: if_splits)
    (auto elim!: adjustQuotaTx_okE simp: return_hold_def)

lemma release_open_inv:
  assumes inv: "drop_inv s" and row: "find (\<lambda>r. up_id r = i) (drop_uploads s) = Some u" "upload_open u"
    and rel: "release_open now u status s = (Inr x, s')"
  shows "drop_inv s'"
proof -
  note I = inv_okD [OF inv]
  have i: "up_id u = i" and mem: "u \<in> set (drop_uploads s)" using find_SomeD [OF row(1)] by auto
  have uok: "upload_ok (node_drop_statuses s) u" using I(3) mem by blast
  from rel obtain qs' ns' where
    q: "return_hold 0 u (drop_quota_usages s) qs'" and
    n: "release_node (up_node_id u) (up_reserved_bytes u) (node_drop_statuses s) = Inr ns'" and
    s': "s' = s\<lparr>drop_quota_usages := qs', node_drop_statuses := ns', drop_uploads := upd_rows (\<lambda>r. up_id r = i)
       (closed_upload now status) (drop_uploads s)\<rparr>"
    by (rule release_open_okE) (auto simp: i)
  have node: "has_node (node_drop_statuses s) (up_node_id u)" using uok row(2) by (simp add: upload_ok_def)
  have held: "balanced (held_of qs') w_hold (upd_rows (\<lambda>r. up_id r = i) (closed_upload now status) (drop_uploads s))"
    by (rule close_held [OF I(8,10,1) row]) (use q in \<open>simp_all add: return_hold_def w_hold_def\<close>)
  have nodes: "balanced (node_held_of ns') w_node (upd_rows (\<lambda>r. up_id r = i) (closed_upload now status) (drop_uploads s))"
    by (rule close_node [OF I(9,11,1) row _ n node]) (simp add: w_node_def)
  have used: "balanced (used_of qs') w_file (drop_files s)"
    using q I(7) used.post_keep [OF I(7,12)] by (auto simp: return_hold_def split: if_splits)
  have ups: "\<forall>r\<in>set (upd_rows (\<lambda>r. up_id r = i) (closed_upload now status) (drop_uploads s)). upload_ok ns' r"
    using uok node key_row_unique [OF I(1) row(1)]
    by (intro upload_ok_upd [OF I(3) has_node_kept(2) [OF n]]) (auto simp: upload_ok_def)
  show ?thesis
    using I held nodes used ups return_hold_ok [OF q I(5)] release_node_ok [OF n I(6)] uok
    by (simp add: s' drop_inv_def rows_ok_def books_ok_def map_key_upd upload_ok_def in_i64_def)
qed

subsection \<open>Commit\<close>

definition committed_upload :: "time \<Rightarrow> string \<Rightarrow> drop_upload \<Rightarrow> drop_upload" where
  "committed_upload now cid r = r\<lparr>up_status := DropUploadCommitted, up_cid := cid, up_updated_at := now\<rparr>"

lemma committed_upload_simps [simp]:
  "up_id (committed_upload now cid r) = up_id r" "upload_open (committed_upload now cid r) = False"
  "up_reserved_bytes (committed_upload now cid r) = up_reserved_bytes r"
  "up_declared_size_bytes (committed_upload now cid r) = up_declared_size_bytes r"
  by (simp_all add: committed_upload_def upload_open_def)

lemma file_of_upload_simps [simp]:
  "df_id (file_of_upload now i cid n u) = i" "df_size_bytes (file_of_upload now i cid n u) = n"
  "df_owner_user_id (file_of_upload now i cid n u) = up_owner_user_id u"
  "df_storage_scope (file_of_upload now i cid n u) = up_storage_scope u"
  "df_node_id (file_of_upload now i cid n u) = up_node_id u" "df_cid (file_of_upload now i cid n u) = cid"
  "df_upload_id (file_of_upload now i cid n u) = up_id u" "df_status (file_of_upload now i cid n u) = DropFileActive"
  "file_live (file_of_upload now i cid n u)"
  by (simp_all add: file_of_upload_def file_live_def)

lemma insert_file_okE:
  assumes "insert_file f s = (Inr x, s')"
  obtains "df_id f \<notin> df_id ` set (drop_files s)" "s' = s\<lparr>drop_files := drop_files s @ [f]\<rparr>"
proof -
  from assms have "df_id f \<notin> df_id ` set (drop_files s)" "s' = s\<lparr>drop_files := drop_files s @ [f]\<rparr>"
    by (auto simp: insert_file_def has_row_iff image_iff split: if_splits)
  then show ?thesis by (rule that)
qed

lemma upsert_pin_okE:
  assumes "upsert_pin p s = (Inr x, s')"
  obtains ps where "s' = s\<lparr>drop_pins := ps\<rparr>"
  using assms by (auto simp: upsert_pin_def split: if_splits)

lemma commit_open_okE:
  assumes "commit_open now fileID pinID u cid n s = (Inr f, s')"
  obtains qs' ns' ps' where
    "f = file_of_upload now fileID cid n u" "fileID \<notin> df_id ` set (drop_files s)"
    "return_hold n u (drop_quota_usages s) qs'"
    "release_node (up_node_id u) (up_reserved_bytes u) (node_drop_statuses s) = Inr ns'"
    "s' = s\<lparr>drop_files := drop_files s @ [f], drop_pins := ps', drop_quota_usages := qs',
       node_drop_statuses := ns', drop_uploads := upd_rows (\<lambda>r. up_id r = up_id u)
       (committed_upload now cid) (drop_uploads s)\<rparr>"
proof -
  let ?f = "file_of_upload now fileID cid n u"
  let ?us = "upd_rows (\<lambda>r. up_id r = up_id u) (committed_upload now cid) (drop_uploads s)"
  from assms obtain x1 s1 x2 s2 x3 s3 x4 where
    1: "insert_file ?f s = (Inr x1, s1)" and
    2: "upsert_pin \<lparr>dp_id = pinID, dp_file_id = fileID, dp_node_id = up_node_id u, dp_cid = cid,
          dp_status = DropPinPinned, dp_pinned_at = Some now, dp_updated_at = now\<rparr> s1 = (Inr x2, s2)" and
    3: "(if up_storage_scope u = DropScopePublic
         then adjustQuotaTx DropPrincipalUser (up_owner_user_id u) n (- up_reserved_bytes u)
           (s2\<lparr>drop_uploads := upd_rows (\<lambda>r. up_id r = up_id u) (committed_upload now cid) (drop_uploads s2)\<rparr>)
         else (Inr (), s2\<lparr>drop_uploads := upd_rows (\<lambda>r. up_id r = up_id u) (committed_upload now cid) (drop_uploads s2)\<rparr>))
         = (Inr x3, s3)" and
    4: "release_node_db (up_node_id u) (up_reserved_bytes u) s3 = (Inr x4, s')" and f: "f = ?f"
    unfolding commit_open_def committed_upload_def [abs_def] Let_def
    by (elim seq_okE) (auto simp del: fun_upd_apply)
  from 1 have fresh: "fileID \<notin> df_id ` set (drop_files s)" and s1: "s1 = s\<lparr>drop_files := drop_files s @ [?f]\<rparr>"
    by (auto elim: insert_file_okE)
  from 2 obtain ps where s2: "s2 = s1\<lparr>drop_pins := ps\<rparr>" by (rule upsert_pin_okE)
  from 3 s1 s2 obtain qs where q: "return_hold n u (drop_quota_usages s) qs"
    and s3: "s3 = s\<lparr>drop_files := drop_files s @ [?f], drop_pins := ps, drop_quota_usages := qs, drop_uploads := ?us\<rparr>"
    by (cases "up_storage_scope u = DropScopePublic") (auto elim!: adjustQuotaTx_okE simp: return_hold_def)
  from 4 obtain ns where "release_node (up_node_id u) (up_reserved_bytes u) (node_drop_statuses s) = Inr ns"
    "s' = s3\<lparr>node_drop_statuses := ns\<rparr>"
    by (rule release_node_db_okE) (simp add: s3)
  with f fresh q s3 show ?thesis by (intro that [of qs ns ps]) simp_all
qed

lemma commit_open_inv:
  assumes inv: "drop_inv s" and row: "find (\<lambda>r. up_id r = up_id u) (drop_uploads s) = Some u" "upload_open u"
    and size: "size_ok n" and com: "commit_open now fileID pinID u cid n s = (Inr f, s')"
  shows "drop_inv s'"
proof -
  note I = inv_okD [OF inv]
  have mem: "u \<in> set (drop_uploads s)" using find_SomeD [OF row(1)] by auto
  have uok: "upload_ok (node_drop_statuses s) u" using I(3) mem by blast
  from com obtain qs' ns' ps' where f: "f = file_of_upload now fileID cid n u"
    and fresh: "fileID \<notin> df_id ` set (drop_files s)" and q: "return_hold n u (drop_quota_usages s) qs'"
    and n: "release_node (up_node_id u) (up_reserved_bytes u) (node_drop_statuses s) = Inr ns'" and
    s': "s' = s\<lparr>drop_files := drop_files s @ [f], drop_pins := ps', drop_quota_usages := qs',
       node_drop_statuses := ns', drop_uploads := upd_rows (\<lambda>r. up_id r = up_id u) (committed_upload now cid) (drop_uploads s)\<rparr>"
    by (rule commit_open_okE)
  have node: "has_node (node_drop_statuses s) (up_node_id u)" using uok row(2) by (simp add: upload_ok_def)
  have held: "balanced (held_of qs') w_hold (upd_rows (\<lambda>r. up_id r = up_id u) (committed_upload now cid) (drop_uploads s))"
    by (rule close_held [OF I(8,10,1) row]) (use q in \<open>simp_all add: return_hold_def w_hold_def\<close>)
  have nodes: "balanced (node_held_of ns') w_node (upd_rows (\<lambda>r. up_id r = up_id u) (committed_upload now cid) (drop_uploads s))"
    by (rule close_node [OF I(9,11,1) row _ n node]) (simp add: w_node_def)
  have used: "balanced (used_of qs') w_file (drop_files s @ [f])"
  proof (cases "up_storage_scope u = DropScopePublic")
    case True
    with q have "adjust_quota (user_key (up_owner_user_id u)) n (- up_reserved_bytes u) (drop_quota_usages s) = Inr qs'"
      by (simp add: return_hold_def)
    from used.post_append [OF I(7,12) _ this] True size f show ?thesis by (simp add: w_file_def size_ok_def)
  next
    case False
    with q f I(7) show ?thesis by (intro balanced_append_free) (auto simp: return_hold_def w_file_def)
  qed
  have ups: "\<forall>r\<in>set (upd_rows (\<lambda>r. up_id r = up_id u) (committed_upload now cid) (drop_uploads s)). upload_ok ns' r"
    using I(3) by (intro upload_ok_upd [OF I(3) has_node_kept(2) [OF n]]) (auto simp: upload_ok_def)
  show ?thesis
    using I held nodes used ups return_hold_ok [OF q I(5)] release_node_ok [OF n I(6)] uok f fresh size
    by (simp add: s' drop_inv_def rows_ok_def books_ok_def map_key_upd upload_ok_def size_ok_def)
qed

subsection \<open>Reservation\<close>

lemma held_ensure [simp]: "held_of (ensure_quota_row k t) u = held_of t u"
  and used_ensure [simp]: "used_of (ensure_quota_row k t) u = used_of t u"
  by (auto simp: ensure_quota_row_def counter_defs find_append split: option.splits)

lemma ensure_quota_ok: "\<forall>q\<in>set t. quota_ok q \<Longrightarrow> \<forall>q\<in>set (ensure_quota_row k t). quota_ok q"
  by (auto simp: ensure_quota_row_def quota_ok_def)

lemma used_hold_quota: "hold_quota (user_key k) b t = Inr t' \<Longrightarrow> used_of t' u = used_of t u"
  by (auto simp: used_of_def hold_quota_find split: option.splits)

text \<open>What a successful reservation checked and did, on the tables.\<close>

lemma reserve_quota_okE:
  assumes "reserve_quota inp s = (Inr x, s')"
  obtains qs' where "hold_quota (user_key (ri_user_id inp)) (ri_declared_size inp)
      (ensure_quota_row (user_key (ri_user_id inp)) (drop_quota_usages s)) = Inr qs'"
    "s' = s\<lparr>drop_quota_usages := qs'\<rparr>"
    "has_quota (ensure_quota_row (user_key (ri_user_id inp)) (drop_quota_usages s)) (ri_user_id inp)"
    "ri_declared_size inp \<le> tl_max_file_bytes (resolveTierLimitTx s (ri_user_id inp))"
    "wrap64 (wrap64 (used_of (drop_quota_usages s) (ri_user_id inp) + held_of (drop_quota_usages s) (ri_user_id inp))
       + ri_declared_size inp) \<le> tl_public_storage_bytes (resolveTierLimitTx s (ri_user_id inp))"
proof -
  let ?t = "ensure_quota_row (user_key (ri_user_id inp)) (drop_quota_usages s)"
  from assms obtain q where q: "find (\<lambda>q. quota_key q = user_key (ri_user_id inp)) ?t = Some q"
    by (auto simp: reserve_quota_def Let_def split: if_splits option.splits)
  have eq: "dq_used_bytes q = used_of (drop_quota_usages s) (ri_user_id inp)"
    "dq_reserved_bytes q = held_of (drop_quota_usages s) (ri_user_id inp)"
    using q used_ensure [of "user_key (ri_user_id inp)" "drop_quota_usages s" "ri_user_id inp"]
      held_ensure [of "user_key (ri_user_id inp)" "drop_quota_usages s" "ri_user_id inp"]
    by (auto simp: counter_defs split: option.splits)
  from assms q obtain qs' where "hold_quota (user_key (ri_user_id inp)) (ri_declared_size inp) ?t = Inr qs'"
    "s' = s\<lparr>drop_quota_usages := qs'\<rparr>"
    by (auto simp: reserve_quota_def Let_def split: if_splits sum.splits)
  moreover have "has_quota ?t (ri_user_id inp)" using q by (simp add: has_quota_def)
  moreover from assms q have "ri_declared_size inp \<le> tl_max_file_bytes (resolveTierLimitTx s (ri_user_id inp))"
    "wrap64 (wrap64 (used_of (drop_quota_usages s) (ri_user_id inp) + held_of (drop_quota_usages s) (ri_user_id inp))
       + ri_declared_size inp) \<le> tl_public_storage_bytes (resolveTierLimitTx s (ri_user_id inp))"
    by (auto simp: reserve_quota_def Let_def eq split: if_splits)
  ultimately show ?thesis by (rule that)
qed

lemma reserveNode_okE:
  assumes "reserveNodeCapacityTx nodeID scope b s = (Inr x, s')"
  obtains d n ns' where "find (\<lambda>d. ns_node_id d = nodeID) (node_drop_statuses s) = Some d"
    "find (\<lambda>n. n_peer_id n = nodeID) (nodes s) = Some n"
    "hold_node nodeID b (node_drop_statuses s) = Inr ns'" "s' = s\<lparr>node_drop_statuses := ns'\<rparr>"
    "ns_enabled d" "ns_state d = DropStateActive" "n_status n = ''online''"
    "scope = DropScopePublic \<longrightarrow> ns_accepts_public_uploads d"
    "0 < ns_storage_max_bytes d \<longrightarrow>
       wrap64 (wrap64 (ns_repo_size_bytes d + ns_reserved_bytes d) + b) \<le> ns_storage_max_bytes d"
  using assms that by (auto simp: reserveNodeCapacityTx_def not_less split: option.splits if_splits sum.splits)

lemma insert_upload_okE:
  assumes "insert_upload u s = (Inr x, s')"
  obtains "up_id u \<notin> up_id ` set (drop_uploads s)" "s' = s\<lparr>drop_uploads := drop_uploads s @ [u]\<rparr>"
proof -
  from assms have "up_id u \<notin> up_id ` set (drop_uploads s)" "s' = s\<lparr>drop_uploads := drop_uploads s @ [u]\<rparr>"
    by (auto simp: insert_upload_def has_row_iff image_iff split: if_splits)
  then show ?thesis by (rule that)
qed

lemma new_upload_simps [simp]:
  "up_id (new_upload now i inp) = i" "up_owner_user_id (new_upload now i inp) = ri_user_id inp"
  "up_node_id (new_upload now i inp) = ri_node_id inp" "up_storage_scope (new_upload now i inp) = ri_scope inp"
  "up_reserved_bytes (new_upload now i inp) = ri_declared_size inp"
  "up_declared_size_bytes (new_upload now i inp) = ri_declared_size inp"
  "up_idempotency_key (new_upload now i inp) = ri_idempotency_key inp"
  "up_status (new_upload now i inp) = DropUploadReserved" "upload_open (new_upload now i inp)"
  by (simp_all add: new_upload_def upload_open_def)

lemma reserve_quota_inv:
  assumes inv: "rows_ok s" "balanced (used_of (drop_quota_usages s)) w_file (drop_files s)"
    and bal: "balanced (held_of (drop_quota_usages s)) w_hold us" and ch: "charges w_hold us"
    and size: "0 \<le> ri_declared_size inp" and scope: "ri_scope inp = DropScopePublic"
    and ok: "reserve_quota inp s = (Inr x, s')"
  shows "rows_ok s'" "balanced (used_of (drop_quota_usages s')) w_file (drop_files s')"
    "balanced (held_of (drop_quota_usages s')) w_hold (us @ [new_upload now i inp])"
proof -
  let ?k = "user_key (ri_user_id inp)"
  let ?t = "ensure_quota_row ?k (drop_quota_usages s)"
  from ok obtain qs' where h: "hold_quota ?k (ri_declared_size inp) ?t = Inr qs'"
    and s': "s' = s\<lparr>drop_quota_usages := qs'\<rparr>" and row: "has_quota ?t (ri_user_id inp)"
    by (rule reserve_quota_okE)
  have "\<forall>q\<in>set qs'. quota_ok q"
    using inv(1) by (intro hold_quota_ok [OF h] ensure_quota_ok) (simp add: rows_ok_def)
  with inv(1) show "rows_ok s'" by (simp add: s' rows_ok_def)
  show "balanced (used_of (drop_quota_usages s')) w_file (drop_files s')"
    using inv(2) by (simp add: s' balanced_def used_hold_quota [OF h])
  have "balanced (held_of ?t) w_hold us" using bal by (simp add: balanced_def)
  from quota_hold.post_append [OF this ch row h] size scope
  show "balanced (held_of (drop_quota_usages s')) w_hold (us @ [new_upload now i inp])"
    by (simp add: s' w_hold_def)
qed

lemma reserveNode_inv:
  assumes inv: "rows_ok s" and bal: "balanced (node_held_of (node_drop_statuses s)) w_node us"
    and ch: "charges w_node us" and size: "0 \<le> ri_declared_size inp"
    and ok: "reserveNodeCapacityTx (ri_node_id inp) scope (ri_declared_size inp) s = (Inr x, s')"
  shows "rows_ok s'" "balanced (node_held_of (node_drop_statuses s')) w_node (us @ [new_upload now i inp])"
    "has_node (node_drop_statuses s') (ri_node_id inp)" "drop_uploads s' = drop_uploads s"
    "drop_quota_usages s' = drop_quota_usages s" "drop_files s' = drop_files s"
proof -
  from ok obtain d n ns' where d: "find (\<lambda>d. ns_node_id d = ri_node_id inp) (node_drop_statuses s) = Some d"
    and h: "hold_node (ri_node_id inp) (ri_declared_size inp) (node_drop_statuses s) = Inr ns'"
    and s': "s' = s\<lparr>node_drop_statuses := ns'\<rparr>"
    by (rule reserveNode_okE)
  have known: "has_node (node_drop_statuses s) (ri_node_id inp)" using d by (simp add: has_node_def)
  have node: "has_node ns' m = has_node (node_drop_statuses s) m" for m by (rule has_node_kept(1) [OF h])
  have "\<forall>d\<in>set ns'. size_ok (ns_reserved_bytes d)"
    using inv by (intro hold_node_ok [OF h]) (simp add: rows_ok_def)
  with inv show "rows_ok s'" using upload_ok_kept [OF node] by (simp add: s' rows_ok_def)
  show "balanced (node_held_of (node_drop_statuses s')) w_node (us @ [new_upload now i inp])"
    using node_hold.post_append [OF bal ch known h, where r = "new_upload now i inp"] size
    by (simp add: s' w_node_def)
  show "has_node (node_drop_statuses s') (ri_node_id inp)" using known node by (simp add: s')
qed (use ok in \<open>auto elim: reserveNode_okE\<close>)

lemma open_reservation_inv:
  assumes inv: "drop_inv s" and size: "size_ok (ri_declared_size inp)"
    and ok: "open_reservation now i inp s = (Inr u, s')"
  shows "drop_inv s'"
proof -
  note I = inv_okD [OF inv]
  have nn: "0 \<le> ri_declared_size inp" using size by (simp add: size_ok_def)
  let ?u = "new_upload now i inp"
  from ok obtain x1 s1 x2 s2 x3 where
    1: "(if ri_scope inp = DropScopePublic then reserve_quota inp s else (Inr (), s)) = (Inr x1, s1)" and
    2: "reserveNodeCapacityTx (ri_node_id inp) (ri_scope inp) (ri_declared_size inp) s1 = (Inr x2, s2)" and
    3: "insert_upload ?u s2 = (Inr x3, s')"
    unfolding open_reservation_def by (elim seq_okE) simp
  have r0: "rows_ok s" using inv by (simp add: drop_inv_def)
  have s1: "drop_uploads s1 = drop_uploads s" "node_drop_statuses s1 = node_drop_statuses s" "drop_files s1 = drop_files s"
    using 1 by (auto split: if_splits elim!: reserve_quota_okE)
  have q: "rows_ok s1 \<and> balanced (used_of (drop_quota_usages s1)) w_file (drop_files s1)
      \<and> balanced (held_of (drop_quota_usages s1)) w_hold (drop_uploads s @ [?u])"
  proof (cases "ri_scope inp = DropScopePublic")
    case True
    with 1 have "reserve_quota inp s = (Inr x1, s1)" by simp
    from reserve_quota_inv [OF r0 I(7,8,10) nn True this] show ?thesis by blast
  next
    case False
    with 1 have "s1 = s" by simp
    with False r0 I(7,8) show ?thesis by (auto intro!: balanced_append_free simp: w_hold_def)
  qed
  have n: "rows_ok s2" "balanced (node_held_of (node_drop_statuses s2)) w_node (drop_uploads s @ [?u])"
    "has_node (node_drop_statuses s2) (ri_node_id inp)" "drop_uploads s2 = drop_uploads s"
    "drop_quota_usages s2 = drop_quota_usages s1" "drop_files s2 = drop_files s1"
    using reserveNode_inv [OF _ _ I(11) nn 2] q I(9) s1 by simp_all
  from 3 have fresh: "i \<notin> up_id ` set (drop_uploads s2)" and s': "s' = s2\<lparr>drop_uploads := drop_uploads s2 @ [?u]\<rparr>"
    by (auto elim: insert_upload_okE)
  show ?thesis
    using n q fresh size by (simp add: s' drop_inv_def rows_ok_def books_ok_def upload_ok_def)
qed

subsection \<open>Statements that do not touch the books\<close>

definition upload_view :: "drop_upload \<Rightarrow> id \<times> id \<times> string \<times> string \<times> int \<times> int \<times> bool" where
  "upload_view r = (up_id r, up_owner_user_id r, up_node_id r, up_storage_scope r, up_reserved_bytes r,
     up_declared_size_bytes r, upload_open r)"

definition file_view :: "drop_file \<Rightarrow> id \<times> id \<times> string \<times> int \<times> bool" where
  "file_view f = (df_id f, df_owner_user_id f, df_storage_scope f, df_size_bytes f, file_live f)"

lemma balanced_view:
  assumes "balanced bal w t" and "\<And>k. bal' k = bal k" and "map v t' = map v t"
    and "\<And>k r r'. v r' = v r \<Longrightarrow> w k r' = w k r"
  shows "balanced bal' w t'"
proof -
  have "total_of (w k) t' = total_of (w k) t" for k by (rule total_view [OF assms(3)]) (rule assms(4))
  with assms(1,2) show ?thesis by (simp add: balanced_def)
qed

lemma drop_inv_frame:
  assumes inv: "drop_inv s"
    and ups: "map upload_view (drop_uploads s') = map upload_view (drop_uploads s)"
    and files: "map file_view (drop_files s') = map file_view (drop_files s)"
    and quotas: "drop_quota_usages s' = drop_quota_usages s"
    and held: "\<And>n. node_held_of (node_drop_statuses s') n = node_held_of (node_drop_statuses s) n"
    and known: "\<And>n. has_node (node_drop_statuses s) n \<Longrightarrow> has_node (node_drop_statuses s') n"
    and sizes: "\<forall>d\<in>set (node_drop_statuses s'). size_ok (ns_reserved_bytes d)"
  shows "drop_inv s'"
proof -
  note I = inv_okD [OF inv]
  have "map up_id (drop_uploads s') = map up_id (drop_uploads s)"
    by (rule map_view [OF ups, of _ fst]) (simp add: upload_view_def)
  moreover have "map df_id (drop_files s') = map df_id (drop_files s)"
    by (rule map_view [OF files, of _ fst]) (simp add: file_view_def)
  moreover have "\<forall>r\<in>set (drop_uploads s'). upload_ok (node_drop_statuses s') r"
    by (rule all_view [OF ups _ I(3)]) (auto simp: upload_view_def upload_ok_def known)
  moreover have "\<forall>f\<in>set (drop_files s'). size_ok (df_size_bytes f)"
    by (rule all_view [OF files _ I(4)]) (auto simp: file_view_def)
  moreover have "balanced (used_of (drop_quota_usages s')) w_file (drop_files s')"
    by (rule balanced_view [OF I(7) _ files]) (auto simp: file_view_def w_file_def quotas)
  moreover have "balanced (held_of (drop_quota_usages s')) w_hold (drop_uploads s')"
    by (rule balanced_view [OF I(8) _ ups]) (auto simp: upload_view_def w_hold_def quotas)
  moreover have "balanced (node_held_of (node_drop_statuses s')) w_node (drop_uploads s')"
    by (rule balanced_view [OF I(9) _ ups]) (auto simp: upload_view_def w_node_def held)
  ultimately show ?thesis
    using I sizes by (simp add: drop_inv_def rows_ok_def books_ok_def quotas)
qed

text \<open>The common case: the node table and the quota table are as before.\<close>

lemma drop_inv_frame_rows:
  assumes "drop_inv s"
    and "map upload_view (drop_uploads s') = map upload_view (drop_uploads s)"
    and "map file_view (drop_files s') = map file_view (drop_files s)"
    and "drop_quota_usages s' = drop_quota_usages s" and "node_drop_statuses s' = node_drop_statuses s"
  shows "drop_inv s'"
  by (rule drop_inv_frame [OF assms(1-4)]) (use assms(5) inv_okD [OF assms(1)] in auto)

section \<open>Every operation keeps the invariant\<close>

lemma retire_key_okE:
  assumes "retire_key now u s = (Inr x, s')"
  obtains "s' = s\<lparr>drop_uploads := upd_rows (\<lambda>r. up_id r = up_id u)
     (\<lambda>r. r\<lparr>up_idempotency_key := up_idempotency_key u @ '':terminal:'' @ up_id u, up_updated_at := now\<rparr>) (drop_uploads s)\<rparr>"
  using assms by (auto simp: retire_key_def Let_def split: if_splits)

lemma retire_key_inv: "drop_inv s \<Longrightarrow> retire_key now u s = (Inr x, s') \<Longrightarrow> drop_inv s'"
  by (erule retire_key_okE, erule drop_inv_frame_rows)
    (auto intro!: map_view_upd simp: upload_view_def upload_open_def)

lemma ReserveDropUpload_inv:
  assumes inv: "drop_inv s" and size: "size_ok (ri_declared_size inp)"
  shows "drop_inv (snd (ReserveDropUpload now i inp s))"
  unfolding ReserveDropUpload_def
proof (rule in_tx_inv [of drop_inv, OF inv])
  fix u s'
  assume ok: "(case scanDropUploadByKey s (ri_user_id inp) (ri_idempotency_key inp) of
      None \<Rightarrow> open_reservation now i inp s
    | Some u \<Rightarrow> if upload_open u \<or> up_status u = DropUploadCommitted then (Inr u, s)
        else seq (retire_key now u s) (\<lambda>_ s. open_reservation now i inp s)) = (Inr u, s')"
  show "drop_inv s'"
  proof (cases "scanDropUploadByKey s (ri_user_id inp) (ri_idempotency_key inp)")
    case None
    with ok show ?thesis by (auto intro: open_reservation_inv [OF inv size])
  next
    case (Some old)
    with ok inv show ?thesis
      by (auto split: if_splits elim!: seq_okE intro: open_reservation_inv [OF _ size] dest: retire_key_inv)
  qed
qed

lemma CommitDropUpload_inv:
  assumes inv: "drop_inv s" and size: "in_i64 finalSize"
  shows "drop_inv (snd (CommitDropUpload now fileID pinID userID uploadID cid finalSize s))"
  unfolding CommitDropUpload_def
proof (rule in_tx_inv [of drop_inv, OF inv])
  fix f s'
  assume ok: "(case find (\<lambda>u. up_id u = uploadID \<and> up_owner_user_id u = userID) (drop_uploads s) of
      None \<Rightarrow> (Inl ErrNotFound, s)
    | Some u \<Rightarrow> if up_status u = DropUploadCommitted then (GetDropFileByUpload s uploadID, s)
        else if \<not> upload_open u then (Inl ErrConflict, s)
        else commit_open now fileID pinID u cid
               (if finalSize \<le> 0 then up_declared_size_bytes u else finalSize) s) = (Inr f, s')"
  then obtain u where u: "find (\<lambda>u. up_id u = uploadID \<and> up_owner_user_id u = userID) (drop_uploads s) = Some u"
    by (auto split: option.splits)
  then have mem: "u \<in> set (drop_uploads s)" by (auto dest: find_SomeD)
  then have row: "find (\<lambda>r. up_id r = up_id u) (drop_uploads s) = Some u"
    using inv_okD(1) [OF inv] by (intro find_key_unique) auto
  have "size_ok (if finalSize \<le> 0 then up_declared_size_bytes u else finalSize)"
    using inv_okD(3) [OF inv] mem size by (auto simp: upload_ok_def size_ok_def)
  from commit_open_inv [OF inv row _ this] u ok inv show "drop_inv s'"
    by (auto split: if_splits)
qed

lemma ReleaseDropReservation_inv:
  assumes inv: "drop_inv s"
  shows "drop_inv (snd (ReleaseDropReservation now uploadID status s))"
  unfolding ReleaseDropReservation_def
  by (rule in_tx_inv [of drop_inv, OF inv])
    (auto split: option.splits if_splits intro: inv release_open_inv [OF inv])

lemma FailDropUpload_inv:
  assumes "drop_inv s"
  shows "drop_inv (snd (FailDropUploadWithOrphanPin now uploadID cid message s))"
proof -
  have "drop_inv (snd (ReleaseDropReservation now uploadID DropUploadFailed s))"
    using assms by (rule ReleaseDropReservation_inv)
  then show ?thesis
    by (cases "ReleaseDropReservation now uploadID DropUploadFailed s")
      (auto simp: FailDropUploadWithOrphanPin_def upload_view_def upload_open_def
        elim!: drop_inv_frame_rows intro!: map_view_upd split: sum.splits)
qed

lemma ClearDropUploadOrphanPin_inv: "drop_inv s \<Longrightarrow> drop_inv (ClearDropUploadOrphanPin now uploadID s)"
  by (erule drop_inv_frame_rows)
    (auto simp: ClearDropUploadOrphanPin_def upload_view_def upload_open_def intro!: map_view_upd)

lemma release_all_inv: "drop_inv s \<Longrightarrow> drop_inv (snd (release_all now ids s))"
proof (induction ids arbitrary: s)
  case (Cons i ids)
  have "drop_inv (snd (ReleaseDropReservation now i DropUploadExpired s))"
    using Cons.prems by (rule ReleaseDropReservation_inv)
  from Cons.IH [OF this] show ?case by (simp add: split_beta)
qed simp

lemma ExpireDropReservations_inv: "drop_inv s \<Longrightarrow> drop_inv (snd (ExpireDropReservations now n s))"
  by (simp add: ExpireDropReservations_def release_all_inv)

lemma SetDropFileVisibility_inv: "drop_inv s \<Longrightarrow> drop_inv (snd (SetDropFileVisibility fileID userID v s))"
  by (erule drop_inv_frame_rows)
    (auto simp: SetDropFileVisibility_def file_view_def file_live_def intro!: map_view_upd split: option.splits)

lemma FinalizeDropFileDeletion_inv: "drop_inv s \<Longrightarrow> drop_inv (FinalizeDropFileDeletion now fileID unpinned s)"
  by (erule drop_inv_frame_rows)
    (auto simp: FinalizeDropFileDeletion_def file_view_def file_live_def Let_def intro!: map_view_upd)

lemma PutDropCryptoProfile_inv: "drop_inv s \<Longrightarrow> drop_inv (snd (PutDropCryptoProfile userID pk ev kdf n s))"
  unfolding PutDropCryptoProfile_def
  by (rule in_tx_inv [of drop_inv], assumption)
    (auto simp: Let_def split: if_splits elim!: drop_inv_frame_rows)

text \<open>Marking a file for deletion takes its size off the owner's used bytes, once.\<close>

lemma mark_file_inv:
  assumes inv: "drop_inv s" and row: "find (\<lambda>f. df_id f = i) (drop_files s) = Some f" and live: "file_live f"
    and q: "if df_storage_scope f = DropScopePublic
      then adjust_quota (user_key (df_owner_user_id f)) (- df_size_bytes f) 0 (drop_quota_usages s) = Inr qs'
      else qs' = drop_quota_usages s"
    and s': "s' = s\<lparr>drop_quota_usages := qs', drop_files := upd_rows (\<lambda>g. df_id g = i)
       (\<lambda>g. g\<lparr>df_status := DropFileDeletePending, df_deleted_at := Some now\<rparr>) (drop_files s), drop_pins := ps\<rparr>"
  shows "drop_inv s'"
proof -
  note I = inv_okD [OF inv]
  let ?f = "\<lambda>g. g\<lparr>df_status := DropFileDeletePending, df_deleted_at := Some now\<rparr>"
  have mem: "f \<in> set (drop_files s)" using find_SomeD [OF row] by auto
  have zero: "w_file k (?f g) = 0" for k g by (simp add: w_file_def file_live_def)
  have size: "size_ok (df_size_bytes f)" using I(4) mem by blast
  have used: "balanced (used_of qs') w_file (upd_rows (\<lambda>g. df_id g = i) ?f (drop_files s))"
  proof (cases "df_storage_scope f = DropScopePublic")
    case True
    with q have post: "adjust_quota (user_key (df_owner_user_id f)) (- df_size_bytes f) 0 (drop_quota_usages s) = Inr qs'"
      by simp
    have w: "w_file k f = (if k = df_owner_user_id f then df_size_bytes f else 0)" for k
      using True live by (simp add: w_file_def)
    show ?thesis by (rule used.post_update [OF I(7,12,2) row TrueI post]) (simp_all add: zero w)
  next
    case False
    then have "\<And>k. w_file k f = 0" by (simp add: w_file_def)
    with False q show ?thesis by (intro balanced_upd_key [OF I(7) _ I(2) row]) (simp_all add: zero)
  qed
  have held: "balanced (held_of qs') w_hold (drop_uploads s)"
    using q I(8) held.post_keep [OF I(8,10)] by (auto split: if_splits)
  have neg: "in_i64 (- df_size_bytes f)" using size by (auto simp: size_ok_def in_i64_def)
  have quotas: "\<forall>q\<in>set qs'. quota_ok q"
    using q I(5) adjust_quota_ok [OF _ I(5) neg, of _ 0] by (auto simp: in_i64_def split: if_splits)
  have "\<forall>g\<in>set (upd_rows (\<lambda>g. df_id g = i) ?f (drop_files s)). size_ok (df_size_bytes g)"
    using I(4) by (auto simp: set_upd_rows)
  with I used held quotas show ?thesis
    by (simp add: s' drop_inv_def rows_ok_def books_ok_def map_key_upd)
qed

lemma MarkDropFileDeletePending_inv:
  assumes inv: "drop_inv s"
  shows "drop_inv (snd (MarkDropFileDeletePending now fileID s))"
  unfolding MarkDropFileDeletePending_def
proof (rule in_tx_inv [of drop_inv, OF inv], goal_cases)
  case (1 x s')
  then obtain f where row: "find (\<lambda>f. df_id f = fileID) (drop_files s) = Some f" by (auto split: option.splits)
  then have id: "df_id f = fileID" by (auto dest: find_SomeD)
  show ?case
  proof (cases "file_live f")
    case False
    with 1 row inv show ?thesis by (auto simp: file_live_def Let_def split: if_splits)
  next
    case True
    then have live: "df_status f \<noteq> DropFileDeleted" "df_status f \<noteq> DropFileDeletePending"
      by (simp_all add: file_live_def)
    show ?thesis
    proof (cases "df_storage_scope f = DropScopePublic")
      case pub: True
      with 1 row live obtain x1 s1 where
        a: "adjustQuotaTx DropPrincipalUser (df_owner_user_id f) (- df_size_bytes f) 0 s = (Inr x1, s1)"
        and s': "drop_inv s' \<longleftrightarrow> drop_inv (s1\<lparr>drop_files := upd_rows (\<lambda>g. df_id g = df_id f)
          (\<lambda>g. g\<lparr>df_status := DropFileDeletePending, df_deleted_at := Some now\<rparr>) (drop_files s1),
          drop_pins := drop_pins s'\<rparr>)"
        by (auto elim!: seq_okE simp: Let_def)
      from a obtain qs' where "adjust_quota (user_key (df_owner_user_id f)) (- df_size_bytes f) 0 (drop_quota_usages s) = Inr qs'"
        "s1 = s\<lparr>drop_quota_usages := qs'\<rparr>" by (rule adjustQuotaTx_okE)
      with s' mark_file_inv [OF inv row True, of qs'] pub id show ?thesis by simp
    next
      case priv: False
      with 1 row live mark_file_inv [OF inv row True, of "drop_quota_usages s"] id show ?thesis
        by (auto simp: Let_def)
    qed
  qed
qed

lemma node_upd_kept:
  assumes "\<And>d. ns_node_id (f d) = ns_node_id d" and "\<And>d. ns_reserved_bytes (f d) = ns_reserved_bytes d"
  shows "node_held_of (upd_rows (\<lambda>d. ns_node_id d = m) f t) n = node_held_of t n"
    "has_node (upd_rows (\<lambda>d. ns_node_id d = m) f t) n = has_node t n"
proof -
  have "find (\<lambda>d. ns_node_id d = n) (upd_rows (\<lambda>d. ns_node_id d = m) f t)
      = (if n = m then map_option f (find (\<lambda>d. ns_node_id d = n) t) else find (\<lambda>d. ns_node_id d = n) t)"
    using assms(1) by (simp add: find_upd_same find_upd_other)
  then show "node_held_of (upd_rows (\<lambda>d. ns_node_id d = m) f t) n = node_held_of t n"
    "has_node (upd_rows (\<lambda>d. ns_node_id d = m) f t) n = has_node t n"
    using assms(2) by (auto simp: node_held_of_def has_node_def split: option.splits)
qed

lemma node_append_kept:
  assumes "ns_reserved_bytes d = 0" and "\<not> has_row (\<lambda>x. ns_node_id x = ns_node_id d) t"
  shows "node_held_of (t @ [d]) n = node_held_of t n" "has_node t n \<Longrightarrow> has_node (t @ [d]) n"
  using assms by (auto simp: node_held_of_def has_node_def find_append split: option.splits)

lemma ApplyDropCapability_inv:
  assumes inv: "drop_inv s"
  shows "drop_inv (ApplyDropCapability now nodeID enabled acc web s)"
  by (rule drop_inv_frame [OF inv])
    (use inv_okD(6) [OF inv] in \<open>auto simp: ApplyDropCapability_def Let_def node_upd_kept node_append_kept set_upd_rows\<close>)

lemma ApplyDropStatus_inv:
  assumes inv: "drop_inv s"
  shows "drop_inv (ApplyDropStatus now nodeID state kubo repo smax objs s)"
  by (rule drop_inv_frame [OF inv])
    (use inv_okD(6) [OF inv] in \<open>auto simp: ApplyDropStatus_def Let_def node_upd_kept node_append_kept set_upd_rows\<close>)

lemma DeleteOrg_drop_inv:
  assumes inv: "drop_inv s"
  shows "drop_inv (snd (DeleteOrg orgID s))"
  by (rule drop_inv_frame_rows [OF inv])
    (auto simp: DeleteOrg_def delete_org_cascade_def upload_view_def file_view_def upload_open_def file_live_def)

lemma drop_inv_empty: "drop_inv empty_db"
  by (simp add: drop_inv_def rows_ok_def books_ok_def empty_db_def balanced_def counter_defs total_of_def)

section \<open>The system\<close>

text \<open>
  One step: a call of a store operation with any arguments its callers can pass (sizes are
  \<open>int64\<close>s, a release never asks for the status \<open>committed\<close>, and the reservation handler refuses a declared size that is not positive), or any
  statement of the rest of the gateway, which leaves the four Drop tables alone.
\<close>

inductive drop_step :: "db \<Rightarrow> db \<Rightarrow> bool" where
  reserve: "size_ok (ri_declared_size inp) \<Longrightarrow> drop_step s (snd (ReserveDropUpload now i inp s))"
| commit: "in_i64 n \<Longrightarrow> drop_step s (snd (CommitDropUpload now fi pi userID uploadID cid n s))"
| release: "status \<noteq> DropUploadCommitted \<Longrightarrow> drop_step s (snd (ReleaseDropReservation now uploadID status s))"
| fail: "drop_step s (snd (FailDropUploadWithOrphanPin now uploadID cid message s))"
| clear: "drop_step s (ClearDropUploadOrphanPin now uploadID s)"
| expire: "drop_step s (snd (ExpireDropReservations now lim s))"
| visibility: "drop_step s (snd (SetDropFileVisibility fileID userID v s))"
| mark: "drop_step s (snd (MarkDropFileDeletePending now fileID s))"
| finalize: "drop_step s (FinalizeDropFileDeletion now fileID unpinned s)"
| vault: "drop_step s (snd (PutDropCryptoProfile userID pk ev kdf v s))"
| capability: "drop_step s (ApplyDropCapability now nodeID enabled acc web s)"
| status: "drop_step s (ApplyDropStatus now nodeID state kubo repo smax objs s)"
| delete_org: "drop_step s (snd (DeleteOrg orgID s))"
| elsewhere: "drop_uploads s' = drop_uploads s \<Longrightarrow> drop_files s' = drop_files s \<Longrightarrow>
    drop_quota_usages s' = drop_quota_usages s \<Longrightarrow> node_drop_statuses s' = node_drop_statuses s \<Longrightarrow>
    drop_crypto_profiles s' = drop_crypto_profiles s \<Longrightarrow> drop_step s s'"

lemmas op_invs = ReserveDropUpload_inv CommitDropUpload_inv ReleaseDropReservation_inv FailDropUpload_inv
  ClearDropUploadOrphanPin_inv ExpireDropReservations_inv SetDropFileVisibility_inv
  MarkDropFileDeletePending_inv FinalizeDropFileDeletion_inv PutDropCryptoProfile_inv
  ApplyDropCapability_inv ApplyDropStatus_inv DeleteOrg_drop_inv

lemma drop_inv_elsewhere:
  assumes "drop_inv s" and "drop_uploads s' = drop_uploads s" "drop_files s' = drop_files s"
    "drop_quota_usages s' = drop_quota_usages s" "node_drop_statuses s' = node_drop_statuses s"
  shows "drop_inv s'"
  by (rule drop_inv_frame_rows [OF assms(1)]) (simp_all add: assms(2-5))

lemma drop_step_inv: "drop_inv s \<Longrightarrow> drop_step s s' \<Longrightarrow> drop_inv s'"
  by (erule drop_step.cases) (auto intro: op_invs drop_inv_elsewhere)

interpretation drops: invariant_system drop_step drop_inv
  by unfold_locales (rule drop_step_inv)

text \<open>The version of a user's vault never goes down.\<close>

lemma vault_version_frame:
  "drop_crypto_profiles s' = drop_crypto_profiles s \<Longrightarrow> vault_version s' u = vault_version s u"
  by (simp add: vault_version_def)

lemma vault_put:
  "vault_version (snd (PutDropCryptoProfile userID pk ev kdf n s)) u = vault_version s u
   \<or> u = userID \<and> n = vault_version s u \<and> vault_version (snd (PutDropCryptoProfile userID pk ev kdf n s)) u = n + 1"
proof (cases rule: in_tx_cases [of "\<lambda>s. let current = vault_version s userID
    in if current \<noteq> n then (Inl ErrConflict, s)
       else if current + 1 > 2147483647 then (Inl out_of_range, s)
       else
         (let p = \<lparr>cp_user_id = userID, cp_version = current + 1, cp_public_key = pk,
                   cp_encrypted_vault = ev, cp_kdf_metadata = kdf\<rparr>
          in if has_row (\<lambda>r. cp_user_id r = userID) (drop_crypto_profiles s)
             then (Inr p, s\<lparr>drop_crypto_profiles := upd_rows (\<lambda>r. cp_user_id r = userID) (\<lambda>_. p) (drop_crypto_profiles s)\<rparr>)
             else if \<not> fk_user s userID then (Inl foreign_key_violation, s)
             else (Inr p, s\<lparr>drop_crypto_profiles := drop_crypto_profiles s @ [p]\<rparr>))" s])
  case (err e)
  then show ?thesis by (simp add: PutDropCryptoProfile_def)
next
  case (ok p s')
  have upd: "find (\<lambda>r. cp_user_id r = u) (upd_rows (\<lambda>r. cp_user_id r = userID) (\<lambda>_. p) t)
      = (if u = userID then map_option (\<lambda>_. p) (find (\<lambda>r. cp_user_id r = u) t) else find (\<lambda>r. cp_user_id r = u) t)"
    if "cp_user_id p = userID" for p and t :: "drop_crypto_profile list"
    using that by (induction t) (auto simp: upd_rows_def)
  have none: "\<not> has_row (\<lambda>r. cp_user_id r = userID) t \<Longrightarrow> find (\<lambda>r. cp_user_id r = userID) t = None"
    for t :: "drop_crypto_profile list" by (simp add: has_row_iff find_None_iff)
  have some: "has_row (\<lambda>r. cp_user_id r = userID) t \<Longrightarrow> \<exists>r. find (\<lambda>r. cp_user_id r = userID) t = Some r"
    for t :: "drop_crypto_profile list"
    by (cases "find (\<lambda>r. cp_user_id r = userID) t") (auto simp: has_row_iff find_None_iff)
  from ok show ?thesis
    by (auto simp: PutDropCryptoProfile_def Let_def vault_version_def upd find_append
        split: if_splits option.splits dest!: none some)
qed

end
