(* ===== verification/DropSafety.thy ===== *)
theory DropSafety
  imports DropInv
begin

text \<open>
  What the Drop store guarantees: the accounting at every reachable state, that a reservation
  never oversubscribes a user or a node, idempotence of the retried operations, that expiry and
  release return what a reservation took, and when a physical unpin is safe.
\<close>

section \<open>A concrete database for the witnesses\<close>

definition demo_user :: user where
  "demo_user = \<lparr>us_id = ''u1'', us_wallet_address = ''0xabc'', us_chain = ''evm'', us_role = ''user'',
     us_email = '''', us_email_verified = False, us_name = ''Ann'', us_profile_picture = '''', us_xp_earned = 0,
     us_xp_claimed = 0, us_tier = 0, us_referral_code = '''', us_referred_by = '''', us_created_at = 0\<rparr>"

definition demo_node :: node where
  "demo_node = (new_node 0 ''i1'' ''n1'' ''did'')\<lparr>n_name := ''a'', n_region := ''eu'', n_status := ''online''\<rparr>"

definition demo0 :: db where
  "demo0 = empty_db\<lparr>users := [demo_user], nodes := [demo_node]\<rparr>"

definition demo1 :: db where
  "demo1 = ApplyDropStatus 1 ''n1'' ''active'' '''' 10 1000 0 (ApplyDropCapability 0 ''n1'' True True False demo0)"

definition demo_input :: reserve_input where
  "demo_input = \<lparr>ri_user_id = ''u1'', ri_org_id = '''', ri_entitlement_org_id = '''', ri_node_id = ''n1'',
     ri_scope = ''public'', ri_visibility = ''public'', ri_filename = ''f'', ri_content_type = ''t'',
     ri_declared_size = 100, ri_sha256 = '''', ri_encrypted = False, ri_encryption_metadata = '''',
     ri_idempotency_key = ''k'', ri_ttl = 0\<rparr>"

definition demo2 :: db where
  "demo2 = snd (ReserveDropUpload 5 ''up1'' demo_input demo1)"

definition demo3 :: db where
  "demo3 = snd (CommitDropUpload 6 ''f1'' ''p1'' ''u1'' ''up1'' ''cid'' 90 demo2)"

lemma demo_values:
  "map up_status (drop_uploads demo2) = [''reserved'']" "map df_size_bytes (drop_files demo3) = [90]"
  by code_simp+

section \<open>The accounting at every reachable state\<close>

lemma demo_reach: "drop_step\<^sup>*\<^sup>* empty_db demo3"
proof -
  have 0: "drop_step empty_db demo0" by (rule drop_step.elsewhere) (simp_all add: demo0_def)
  have 1: "drop_step demo0 (ApplyDropCapability 0 ''n1'' True True False demo0)" by (rule drop_step.capability)
  have 2: "drop_step (ApplyDropCapability 0 ''n1'' True True False demo0) demo1"
    unfolding demo1_def by (rule drop_step.status)
  have 3: "drop_step demo1 demo2"
    unfolding demo2_def by (rule drop_step.reserve) (simp add: demo_input_def size_ok_def in_i64_def)
  have 4: "drop_step demo2 demo3"
    unfolding demo3_def by (rule drop_step.commit) (simp add: in_i64_def)
  from 0 1 2 3 4 show ?thesis by (meson converse_rtranclp_into_rtranclp rtranclp.rtrancl_refl)
qed

lemma total_filter: "total_of (\<lambda>r. if p r then w r else 0) t = total_of w (filter p t)"
  by (induction t) auto

lemma quota_view:
  "dq_used_bytes (GetDropQuotaUsage s DropPrincipalUser u) = used_of (drop_quota_usages s) u"
  "dq_reserved_bytes (GetDropQuotaUsage s DropPrincipalUser u) = held_of (drop_quota_usages s) u"
  by (simp_all add: GetDropQuotaUsage_def counter_defs split: option.split)

lemma node_view: "GetNodeDropStatus s n = Inr d \<Longrightarrow> ns_reserved_bytes d = node_held_of (node_drop_statuses s) n"
  by (simp add: GetNodeDropStatus_def node_held_of_def split: option.splits)

lemma books_filter:
  assumes "drop_inv s"
  shows "used_of (drop_quota_usages s) u = total_of df_size_bytes
      (filter (\<lambda>f. df_owner_user_id f = u \<and> df_storage_scope f = DropScopePublic \<and> file_live f) (drop_files s))"
    "held_of (drop_quota_usages s) u = total_of up_reserved_bytes
      (filter (\<lambda>r. up_owner_user_id r = u \<and> up_storage_scope r = DropScopePublic \<and> upload_open r) (drop_uploads s))"
    "node_held_of (node_drop_statuses s) n = total_of up_reserved_bytes
      (filter (\<lambda>r. up_node_id r = n \<and> upload_open r) (drop_uploads s))"
  using balanced_D [OF inv_okD(7) [OF assms], of u] balanced_D [OF inv_okD(8) [OF assms], of u]
    balanced_D [OF inv_okD(9) [OF assms], of n]
  by (simp_all add: total_filter w_file_def [abs_def] w_hold_def [abs_def] w_node_def [abs_def])



section \<open>Reservations never oversubscribe\<close>

lemma reserve_fresh_okE:
  assumes "ReserveDropUpload now i inp s = (Inr u, s')" and "i \<notin> up_id ` set (drop_uploads s)" and "up_id u = i"
  obtains s0 s1 s2 x1 x2 x3 where "drop_quota_usages s0 = drop_quota_usages s" "node_drop_statuses s0 = node_drop_statuses s"
    "nodes s0 = nodes s" "org_members s0 = org_members s" "orgs s0 = orgs s" "drop_tier_limits s0 = drop_tier_limits s"
    "(if ri_scope inp = DropScopePublic then reserve_quota inp s0 else (Inr (), s0)) = (Inr x1, s1)"
    "reserveNodeCapacityTx (ri_node_id inp) (ri_scope inp) (ri_declared_size inp) s1 = (Inr x2, s2)"
    "insert_upload (new_upload now i inp) s2 = (Inr x3, s')" "u = new_upload now i inp"
proof -
  from assms(1) have ok: "(case scanDropUploadByKey s (ri_user_id inp) (ri_idempotency_key inp) of
      None \<Rightarrow> open_reservation now i inp s
    | Some u \<Rightarrow> if upload_open u \<or> up_status u = DropUploadCommitted then (Inr u, s)
        else seq (retire_key now u s) (\<lambda>_ s. open_reservation now i inp s)) = (Inr u, s')"
    unfolding ReserveDropUpload_def by (rule in_tx_okD)
  have "\<exists>s0. open_reservation now i inp s0 = (Inr u, s') \<and> drop_quota_usages s0 = drop_quota_usages s
     \<and> node_drop_statuses s0 = node_drop_statuses s \<and> nodes s0 = nodes s \<and> org_members s0 = org_members s
     \<and> orgs s0 = orgs s \<and> drop_tier_limits s0 = drop_tier_limits s"
  proof (cases "scanDropUploadByKey s (ri_user_id inp) (ri_idempotency_key inp)")
    case None
    with ok show ?thesis by auto
  next
    case (Some old)
    then have "old \<in> set (drop_uploads s)" by (auto simp: scanDropUploadByKey_def dest: find_SomeD)
    with assms(2,3) have "old \<noteq> u" by auto
    with ok Some obtain x s0 where r: "retire_key now old s = (Inr x, s0)" and o: "open_reservation now i inp s0 = (Inr u, s')"
      by (auto split: if_splits elim!: seq_okE)
    from r o show ?thesis by (auto elim!: retire_key_okE)
  qed
  then obtain s0 where o: "open_reservation now i inp s0 = (Inr u, s')" and s0: "drop_quota_usages s0 = drop_quota_usages s"
    "node_drop_statuses s0 = node_drop_statuses s" "nodes s0 = nodes s" "org_members s0 = org_members s"
    "orgs s0 = orgs s" "drop_tier_limits s0 = drop_tier_limits s"
    by (elim exE conjE)
  from o [unfolded open_reservation_def] obtain x1 s1 where
    1: "(if ri_scope inp = DropScopePublic then reserve_quota inp s0 else (Inr (), s0)) = (Inr x1, s1)" and
    r1: "seq (reserveNodeCapacityTx (ri_node_id inp) (ri_scope inp) (ri_declared_size inp) s1) (\<lambda>_ s.
      seq (insert_upload (new_upload now i inp) s) (\<lambda>_ s. (Inr (new_upload now i inp), s))) = (Inr u, s')"
    by (rule seq_okE)
  from r1 obtain x2 s2 where
    2: "reserveNodeCapacityTx (ri_node_id inp) (ri_scope inp) (ri_declared_size inp) s1 = (Inr x2, s2)" and
    r2: "seq (insert_upload (new_upload now i inp) s2) (\<lambda>_ s. (Inr (new_upload now i inp), s)) = (Inr u, s')"
    by (rule seq_okE)
  from r2 obtain x3 s3 where "insert_upload (new_upload now i inp) s2 = (Inr x3, s3)"
    "(Inr (new_upload now i inp) :: drop_upload res, s3) = (Inr u, s')"
    by (rule seq_okE)
  then have 3: "insert_upload (new_upload now i inp) s2 = (Inr x3, s')" and 4: "u = new_upload now i inp"
    by simp_all
  show ?thesis by (rule that [OF s0 1 2 3 4])
qed

lemma resolve_cong:
  assumes "org_members s0 = org_members s" "orgs s0 = orgs s" "drop_tier_limits s0 = drop_tier_limits s"
  shows "ResolveDropEntitlement s0 u = ResolveDropEntitlement s u"
  by (simp add: ResolveDropEntitlement_def active_memberships_def GetDropTierLimit_def assms)

lemma held_hold_quota:
  "hold_quota (user_key u) b t = Inr t' \<Longrightarrow> has_quota t u \<Longrightarrow> held_of t' u = held_of t u + b"
  by (auto simp: held_of_def has_quota_def hold_quota_find split: option.splits)

lemma held_range:
  assumes "drop_inv s"
  shows "size_ok (used_of (drop_quota_usages s) u)" "size_ok (held_of (drop_quota_usages s) u)"
  using inv_okD(5) [OF assms] by (auto simp: used_of_def held_of_def quota_ok_def split: option.splits dest!: find_SomeD)

lemma tier_limit_view:
  "tl_max_file_bytes (resolveTierLimitTx s u) = de_max_file_bytes (ResolveDropEntitlement s u)"
  "tl_public_storage_bytes (resolveTierLimitTx s u) = de_public_storage_bytes (ResolveDropEntitlement s u)"
  by (simp_all add: resolveTierLimitTx_def Let_def)

text \<open>
  C4. A new public reservation fits: afterwards the user's used and reserved bytes together are
  within the storage of the user's tier, the declared size is within the per-file ceiling, and the
  counters moved by exactly the declared size.  (The sum is assumed to be an \<open>int64\<close>: the code
  adds in wrapping arithmetic.)
\<close>

theorem reserve_within_quota:
  assumes ok: "ReserveDropUpload now i inp s = (Inr u, s')"
    and new: "i \<notin> up_id ` set (drop_uploads s)" "up_id u = i"
    and pub: "ri_scope inp = DropScopePublic" and inv: "drop_inv s" and size: "size_ok (ri_declared_size inp)"
    and small: "dq_used_bytes (GetDropQuotaUsage s DropPrincipalUser (ri_user_id inp))
      + dq_reserved_bytes (GetDropQuotaUsage s DropPrincipalUser (ri_user_id inp)) + ri_declared_size inp < 2 ^ 63"
  shows "dq_used_bytes (GetDropQuotaUsage s' DropPrincipalUser (ri_user_id inp))
      + dq_reserved_bytes (GetDropQuotaUsage s' DropPrincipalUser (ri_user_id inp))
      \<le> de_public_storage_bytes (ResolveDropEntitlement s (ri_user_id inp))
    \<and> ri_declared_size inp \<le> de_max_file_bytes (ResolveDropEntitlement s (ri_user_id inp))
    \<and> dq_reserved_bytes (GetDropQuotaUsage s' DropPrincipalUser (ri_user_id inp))
      = dq_reserved_bytes (GetDropQuotaUsage s DropPrincipalUser (ri_user_id inp)) + ri_declared_size inp"
proof -
  let ?u = "ri_user_id inp"
  from ok new obtain s0 s1 s2 x1 x2 x3 where s0: "drop_quota_usages s0 = drop_quota_usages s"
    "node_drop_statuses s0 = node_drop_statuses s" "nodes s0 = nodes s"
    "org_members s0 = org_members s" "orgs s0 = orgs s" "drop_tier_limits s0 = drop_tier_limits s"
    and a: "(if ri_scope inp = DropScopePublic then reserve_quota inp s0 else (Inr (), s0)) = (Inr x1, s1)"
    and b: "reserveNodeCapacityTx (ri_node_id inp) (ri_scope inp) (ri_declared_size inp) s1 = (Inr x2, s2)"
    and c: "insert_upload (new_upload now i inp) s2 = (Inr x3, s')" and "u = new_upload now i inp"
    by (rule reserve_fresh_okE)
  from a pub have a': "reserve_quota inp s0 = (Inr x1, s1)" by simp
  obtain qs' where h: "hold_quota (user_key ?u) (ri_declared_size inp) (ensure_quota_row (user_key ?u) (drop_quota_usages s)) = Inr qs'"
    and s1: "s1 = s0\<lparr>drop_quota_usages := qs'\<rparr>" and row: "has_quota (ensure_quota_row (user_key ?u) (drop_quota_usages s)) ?u"
    and f: "ri_declared_size inp \<le> tl_max_file_bytes (resolveTierLimitTx s0 ?u)"
    and q: "wrap64 (wrap64 (used_of (drop_quota_usages s) ?u + held_of (drop_quota_usages s) ?u) + ri_declared_size inp)
      \<le> tl_public_storage_bytes (resolveTierLimitTx s0 ?u)"
    by (rule reserve_quota_okE [OF a', unfolded s0(1)])
  have s2: "drop_quota_usages s2 = qs'" using b s1 by (auto elim: reserveNode_okE)
  have s': "drop_quota_usages s' = qs'" using c s2 by (auto elim: insert_upload_okE)
  have lim: "resolveTierLimitTx s0 ?u = resolveTierLimitTx s ?u"
    using resolve_cong [OF s0(4-6)] by (simp add: resolveTierLimitTx_def Let_def)
  have r: "size_ok (used_of (drop_quota_usages s) ?u)" "size_ok (held_of (drop_quota_usages s) ?u)"
    using inv by (rule held_range)+
  have w: "wrap64 (wrap64 (used_of (drop_quota_usages s) ?u + held_of (drop_quota_usages s) ?u) + ri_declared_size inp)
      = used_of (drop_quota_usages s) ?u + held_of (drop_quota_usages s) ?u + ri_declared_size inp"
    using r size small by (simp add: quota_view size_ok_def in_i64_def)
  show ?thesis
    using q f w held_hold_quota [OF h row] used_hold_quota [OF h]
    by (simp add: quota_view s' lim tier_limit_view)
qed

lemma demo1_inv: "drop_inv demo1"
  unfolding demo1_def demo0_def
  by (intro ApplyDropStatus_inv ApplyDropCapability_inv drop_inv_elsewhere [OF drop_inv_empty]) simp_all

theorem reserve_within_quota_witness:
  "dq_used_bytes (GetDropQuotaUsage demo2 DropPrincipalUser ''u1'')
      + dq_reserved_bytes (GetDropQuotaUsage demo2 DropPrincipalUser ''u1'')
      \<le> de_public_storage_bytes (ResolveDropEntitlement demo1 ''u1'')
   \<and> dq_reserved_bytes (GetDropQuotaUsage demo2 DropPrincipalUser ''u1'') = 100"
proof -
  have ok: "ReserveDropUpload 5 ''up1'' demo_input demo1 = (Inr (new_upload 5 ''up1'' demo_input), demo2)"
    unfolding demo2_def by code_simp
  have fresh: "''up1'' \<notin> up_id ` set (drop_uploads demo1)" by code_simp
  have id: "ri_user_id demo_input = ''u1''" "ri_scope demo_input = DropScopePublic" "ri_declared_size demo_input = 100"
    by (simp_all add: demo_input_def)
  have zero: "dq_used_bytes (GetDropQuotaUsage demo1 DropPrincipalUser ''u1'') = 0"
    "dq_reserved_bytes (GetDropQuotaUsage demo1 DropPrincipalUser ''u1'') = 0"
    by code_simp+
  show ?thesis
    using reserve_within_quota [OF ok fresh _ id(2) demo1_inv] id zero by (simp add: size_ok_def in_i64_def)
qed



definition huge_input :: reserve_input where
  "huge_input = demo_input\<lparr>ri_scope := ''private_org'', ri_visibility := ''private'', ri_encrypted := True,
     ri_declared_size := 2 ^ 63 - 5\<rparr>"

text \<open>
  The capacity check adds in wrapping \<open>int64\<close> arithmetic, and private-organization uploads
  have no per-file ceiling: a declared size near \<open>2^63\<close> passes the check on a node with 990 free
  bytes and is reserved in full.
\<close>

theorem capacity_overflow:
  "case ReserveDropUpload 5 ''up1'' huge_input demo1 of
     (Inr u, s') \<Rightarrow> (case GetNodeDropStatus s' ''n1'' of
        Inr d \<Rightarrow> ns_storage_max_bytes d = 1000 \<and> ns_reserved_bytes d = 2 ^ 63 - 5 | Inl _ \<Rightarrow> False)
   | _ \<Rightarrow> False"
  by code_simp

section \<open>Retried operations\<close>

lemma insert_upload_find:
  assumes "insert_upload u s = (Inr x, s')"
  shows "scanDropUploadByKey s' (up_owner_user_id u) (up_idempotency_key u) = Some u"
proof -
  from assms have none: "\<forall>r\<in>set (drop_uploads s). \<not> (up_owner_user_id r = up_owner_user_id u \<and> up_idempotency_key r = up_idempotency_key u)"
    and s': "s' = s\<lparr>drop_uploads := drop_uploads s @ [u]\<rparr>"
    by (auto simp: insert_upload_def has_row_iff split: if_splits)
  from none have "find (\<lambda>r. up_owner_user_id r = up_owner_user_id u \<and> up_idempotency_key r = up_idempotency_key u) (drop_uploads s) = None"
    by (simp add: find_None_iff)
  then show ?thesis by (simp add: scanDropUploadByKey_def s' find_append)
qed

lemma open_reservation_find:
  assumes "open_reservation now i inp s = (Inr u, s')"
  shows "scanDropUploadByKey s' (ri_user_id inp) (ri_idempotency_key inp) = Some u \<and> upload_open u"
proof -
  from assms [unfolded open_reservation_def] obtain x1 s1 where
    r1: "seq (reserveNodeCapacityTx (ri_node_id inp) (ri_scope inp) (ri_declared_size inp) s1) (\<lambda>_ s.
      seq (insert_upload (new_upload now i inp) s) (\<lambda>_ s. (Inr (new_upload now i inp), s))) = (Inr u, s')"
    by (rule seq_okE)
  from r1 obtain x2 s2 where
    r2: "seq (insert_upload (new_upload now i inp) s2) (\<lambda>_ s. (Inr (new_upload now i inp), s)) = (Inr u, s')"
    by (rule seq_okE)
  from r2 obtain x3 s3 where "insert_upload (new_upload now i inp) s2 = (Inr x3, s3)"
    and u: "(Inr (new_upload now i inp) :: drop_upload res, s3) = (Inr u, s')"
    by (rule seq_okE)
  from insert_upload_find [OF this(1)] u show ?thesis by auto
qed

text \<open>
  Retrying a reservation is safe: after a successful call, a second one with the same user
  and idempotency key, at any time and with any other arguments, returns the same upload and
  changes nothing, so it takes no second hold.
\<close>

theorem reserve_idempotent:
  assumes ok: "ReserveDropUpload now i inp s = (Inr u, s')"
    and same: "ri_user_id inp' = ri_user_id inp" "ri_idempotency_key inp' = ri_idempotency_key inp"
  shows "ReserveDropUpload now' i' inp' s' = (Inr u, s')"
proof -
  from ok have body: "(case scanDropUploadByKey s (ri_user_id inp) (ri_idempotency_key inp) of
      None \<Rightarrow> open_reservation now i inp s
    | Some u \<Rightarrow> if upload_open u \<or> up_status u = DropUploadCommitted then (Inr u, s)
        else seq (retire_key now u s) (\<lambda>_ s. open_reservation now i inp s)) = (Inr u, s')"
    unfolding ReserveDropUpload_def by (rule in_tx_okD)
  have "scanDropUploadByKey s' (ri_user_id inp) (ri_idempotency_key inp) = Some u
      \<and> (upload_open u \<or> up_status u = DropUploadCommitted)"
  proof (cases "scanDropUploadByKey s (ri_user_id inp) (ri_idempotency_key inp)")
    case None
    with body open_reservation_find [of now i inp s u s'] show ?thesis by simp
  next
    case (Some old)
    with body show ?thesis
      by (auto split: if_splits elim!: seq_okE dest: open_reservation_find)
  qed
  then show ?thesis by (simp add: ReserveDropUpload_def in_tx_def same)
qed

theorem reserve_idempotent_witness:
  "ReserveDropUpload 9 ''up2'' demo_input demo2 = (Inr (new_upload 5 ''up1'' demo_input), demo2)"
proof -
  have "ReserveDropUpload 5 ''up1'' demo_input demo1 = (Inr (new_upload 5 ''up1'' demo_input), demo2)"
    unfolding demo2_def by code_simp
  then show ?thesis by (rule reserve_idempotent) simp_all
qed

section \<open>Uploads and their files\<close>

definition upload_committed :: "drop_upload \<Rightarrow> bool" where
  "upload_committed u \<longleftrightarrow> up_status u = DropUploadCommitted"

lemma open_not_committed: "upload_open u \<Longrightarrow> \<not> upload_committed u"
  by (auto simp: upload_open_def upload_committed_def)

lemma closed_not_committed: "status \<noteq> DropUploadCommitted \<Longrightarrow> \<not> upload_committed (closed_upload now status u)"
  by (simp add: closed_upload_def upload_committed_def)

lemma committed_committed [simp]: "upload_committed (committed_upload now cid u)"
  by (simp add: committed_upload_def upload_committed_def)

definition committed_ids :: "drop_upload list \<Rightarrow> id list" where
  "committed_ids us = map up_id (filter upload_committed us)"

definition linked :: "db \<Rightarrow> bool" where
  "linked s \<longleftrightarrow> distinct (map up_id (drop_uploads s)) \<and> distinct (map df_upload_id (drop_files s))
     \<and> df_upload_id ` set (drop_files s) = set (committed_ids (drop_uploads s))"

definition status_view :: "drop_upload \<Rightarrow> id \<times> bool" where
  "status_view u = (up_id u, upload_committed u)"

lemma committed_ids_view: "committed_ids us = map fst (filter snd (map status_view us))"
  by (induction us) (simp_all add: committed_ids_def status_view_def)

lemma linked_view:
  assumes "linked s" and ups: "map status_view (drop_uploads s') = map status_view (drop_uploads s)"
    and files: "map df_upload_id (drop_files s') = map df_upload_id (drop_files s)"
  shows "linked s'"
proof -
  have "map up_id (drop_uploads s') = map up_id (drop_uploads s)"
    by (rule map_view [OF ups, of _ fst]) (simp add: status_view_def)
  moreover have "df_upload_id ` set (drop_files s') = df_upload_id ` set (drop_files s)"
    using arg_cong [OF files, of set] by simp
  moreover have "committed_ids (drop_uploads s') = committed_ids (drop_uploads s)"
    by (simp add: committed_ids_view ups)
  ultimately show ?thesis using assms(1) by (simp add: linked_def files)
qed

lemma status_view_other: "up_id (f u) = up_id u \<Longrightarrow> up_status (f u) = up_status u \<Longrightarrow> status_view (f u) = status_view u"
  by (simp add: status_view_def upload_committed_def)

text \<open>Closing an open upload without committing it.\<close>

lemma status_view_upd:
  assumes "distinct (map up_id us)" and "find (\<lambda>r. up_id r = i) us = Some u" and "upload_open u"
    and "\<And>r. up_id (f r) = up_id r" and "\<not> upload_committed (f u)"
  shows "map status_view (upd_rows (\<lambda>r. up_id r = i) f us) = map status_view us"
proof (rule map_view_upd)
  fix r assume "r \<in> set us" "up_id r = i"
  with assms(1,2) have "r = u" by (intro key_row_unique [of up_id])
  with assms(3-5) show "status_view (f r) = status_view r" by (simp add: status_view_def open_not_committed)
qed

lemma release_linked:
  assumes lk: "linked s" and st: "status \<noteq> DropUploadCommitted"
  shows "linked (snd (ReleaseDropReservation now uploadID status s))"
  unfolding ReleaseDropReservation_def
proof (rule in_tx_inv [of linked, OF lk], goal_cases)
  case (1 x s')
  then obtain u where row: "find (\<lambda>u. up_id u = uploadID) (drop_uploads s) = Some u" by (auto split: option.splits)
  then have id: "up_id u = uploadID" by (auto dest: find_SomeD)
  show ?case
  proof (cases "upload_open u")
    case False
    with 1 row lk show ?thesis by simp
  next
    case True
    with 1 row have "release_open now u status s = (Inr x, s')" by simp
    then obtain qs' ns' where s': "s' = s\<lparr>drop_quota_usages := qs', node_drop_statuses := ns',
        drop_uploads := upd_rows (\<lambda>r. up_id r = up_id u) (closed_upload now status) (drop_uploads s)\<rparr>"
      by (rule release_open_okE)
    have "distinct (map up_id (drop_uploads s))" using lk by (simp add: linked_def)
    from status_view_upd [OF this row True, of "closed_upload now status"] closed_not_committed [OF st]
    show ?thesis by (intro linked_view [OF lk]) (simp_all add: s' id closed_not_committed)
  qed
qed

lemma committed_ids_upd:
  assumes "u \<in> set us"
  shows "set (committed_ids (upd_rows (\<lambda>r. up_id r = up_id u) (committed_upload now cid) us))
    = insert (up_id u) (set (committed_ids us))"
proof -
  have "set (committed_ids (upd_rows (\<lambda>r. up_id r = i) (committed_upload now cid) t))
      = (if i \<in> up_id ` set t then {i} else {}) \<union> set (committed_ids t)" for i t
    by (induction t) (auto simp: committed_ids_def upd_rows_def)
  with assms show ?thesis by simp
qed

lemma commit_linked:
  assumes lk: "linked s"
  shows "linked (snd (CommitDropUpload now fi pi userID uploadID cid n s))"
  unfolding CommitDropUpload_def
proof (rule in_tx_inv [of linked, OF lk], goal_cases)
  case (1 f s')
  then obtain u where row: "find (\<lambda>u. up_id u = uploadID \<and> up_owner_user_id u = userID) (drop_uploads s) = Some u"
    by (auto split: option.splits)
  then have mem: "u \<in> set (drop_uploads s)" by (auto dest: find_SomeD)
  have d: "distinct (map up_id (drop_uploads s))" using lk by (simp add: linked_def)
  show ?case
  proof (cases "upload_open u")
    case False
    with 1 row lk show ?thesis by (auto split: if_splits)
  next
    case True
    with 1 row obtain n' where "commit_open now fi pi u cid n' s = (Inr f, s')"
      by (auto simp: upload_open_def split: if_splits)
    then obtain qs' ns' ps' where f: "f = file_of_upload now fi cid n' u" and
      s': "s' = s\<lparr>drop_files := drop_files s @ [f], drop_pins := ps', drop_quota_usages := qs',
        node_drop_statuses := ns', drop_uploads := upd_rows (\<lambda>r. up_id r = up_id u) (committed_upload now cid) (drop_uploads s)\<rparr>"
      by (rule commit_open_okE)
    have "up_id u \<notin> set (committed_ids (drop_uploads s))"
    proof
      assume "up_id u \<in> set (committed_ids (drop_uploads s))"
      then obtain r where "r \<in> set (drop_uploads s)" "up_id r = up_id u" "upload_committed r"
        by (auto simp: committed_ids_def)
      then have "r = u" by (intro key_row_unique [OF d find_key_unique [OF d mem refl]])
      with \<open>upload_committed r\<close> True show False by (simp add: open_not_committed)
    qed
    with lk committed_ids_upd [OF mem, of now cid] show ?thesis
      by (auto simp: s' f linked_def map_key_upd)
  qed
qed

lemma upd_same_status:
  "(\<And>r. up_id (f r) = up_id r) \<Longrightarrow> (\<And>r. up_status (f r) = up_status r) \<Longrightarrow>
    map status_view (upd_rows p f us) = map status_view us"
  by (rule map_view_upd) (simp add: status_view_def upload_committed_def)

lemma upd_same_file:
  "(\<And>r. df_upload_id (f r) = df_upload_id r) \<Longrightarrow> map df_upload_id (upd_rows p f fs) = map df_upload_id fs"
  by (rule map_view_upd)

lemma linked_rows:
  assumes "linked s" and "map status_view (drop_uploads s') = map status_view (drop_uploads s)"
    and "drop_files s' = drop_files s"
  shows "linked s'"
  by (rule linked_view [OF assms(1,2)]) (simp add: assms(3))

lemma fail_linked:
  assumes "linked s"
  shows "linked (snd (FailDropUploadWithOrphanPin now i cid msg s))"
proof -
  have "linked (snd (ReleaseDropReservation now i DropUploadFailed s))"
    by (rule release_linked [OF assms]) simp
  then show ?thesis
    by (cases "ReleaseDropReservation now i DropUploadFailed s")
      (auto simp: FailDropUploadWithOrphanPin_def upd_same_status elim!: linked_rows split: sum.splits)
qed

lemma clear_linked: "linked s \<Longrightarrow> linked (ClearDropUploadOrphanPin now i s)"
  by (erule linked_rows) (simp_all add: ClearDropUploadOrphanPin_def upd_same_status)

lemma release_all_linked: "linked s \<Longrightarrow> linked (snd (release_all now ids s))"
proof (induction ids arbitrary: s)
  case (Cons i ids)
  have "linked (snd (ReleaseDropReservation now i DropUploadExpired s))"
    by (rule release_linked [OF Cons.prems]) simp
  from Cons.IH [OF this] show ?case by (simp add: split_beta)
qed simp

lemma expire_linked: "linked s \<Longrightarrow> linked (snd (ExpireDropReservations now n s))"
  by (simp add: ExpireDropReservations_def release_all_linked)

lemma visibility_linked: "linked s \<Longrightarrow> linked (snd (SetDropFileVisibility fileID userID v s))"
  by (erule linked_view) (auto simp: SetDropFileVisibility_def upd_same_file split: option.splits)

lemma finalize_linked: "linked s \<Longrightarrow> linked (FinalizeDropFileDeletion now fileID unpinned s)"
  by (erule linked_view) (auto simp: FinalizeDropFileDeletion_def upd_same_file Let_def)

lemma vault_linked: "linked s \<Longrightarrow> linked (snd (PutDropCryptoProfile userID pk ev kdf n s))"
  unfolding PutDropCryptoProfile_def
  by (rule in_tx_inv [of linked], assumption) (auto simp: Let_def split: if_splits elim!: linked_view)

lemma node_status_linked:
  "linked s \<Longrightarrow> linked (ApplyDropCapability now nodeID enabled acc web s)"
  "linked s \<Longrightarrow> linked (ApplyDropStatus now nodeID state kubo repo smax objs s)"
  by (erule linked_view; simp add: ApplyDropCapability_def ApplyDropStatus_def Let_def)+

lemma delete_org_linked: "linked s \<Longrightarrow> linked (snd (DeleteOrg orgID s))"
  by (erule linked_view)
    (auto simp: DeleteOrg_def delete_org_cascade_def status_view_def upload_committed_def)

lemma mark_linked: "linked s \<Longrightarrow> linked (snd (MarkDropFileDeletePending now fileID s))"
  unfolding MarkDropFileDeletePending_def
  by (rule in_tx_inv [of linked], assumption)
    (auto simp: Let_def upd_same_file split: option.splits if_splits elim!: linked_view seq_okE adjustQuotaTx_okE)

lemma open_reservation_linked:
  assumes lk: "linked s" and ok: "open_reservation now i inp s = (Inr u, s')"
  shows "linked s'"
proof -
  from ok [unfolded open_reservation_def] obtain x1 s1 where
    1: "(if ri_scope inp = DropScopePublic then reserve_quota inp s else (Inr (), s)) = (Inr x1, s1)" and
    r1: "seq (reserveNodeCapacityTx (ri_node_id inp) (ri_scope inp) (ri_declared_size inp) s1) (\<lambda>_ s.
      seq (insert_upload (new_upload now i inp) s) (\<lambda>_ s. (Inr (new_upload now i inp), s))) = (Inr u, s')"
    by (rule seq_okE)
  from r1 obtain x2 s2 where
    2: "reserveNodeCapacityTx (ri_node_id inp) (ri_scope inp) (ri_declared_size inp) s1 = (Inr x2, s2)" and
    r2: "seq (insert_upload (new_upload now i inp) s2) (\<lambda>_ s. (Inr (new_upload now i inp), s)) = (Inr u, s')"
    by (rule seq_okE)
  from r2 obtain x3 s3 where 3: "insert_upload (new_upload now i inp) s2 = (Inr x3, s3)"
    and "(Inr (new_upload now i inp) :: drop_upload res, s3) = (Inr u, s')"
    by (rule seq_okE)
  then have s3: "s3 = s'" by simp
  have same: "drop_uploads s2 = drop_uploads s" "drop_files s2 = drop_files s"
    using 1 2 by (auto split: if_splits elim!: reserve_quota_okE reserveNode_okE)
  from 3 s3 have new: "i \<notin> up_id ` set (drop_uploads s2)"
    and s': "s' = s2\<lparr>drop_uploads := drop_uploads s2 @ [new_upload now i inp]\<rparr>"
    by (auto elim: insert_upload_okE)
  have "\<not> upload_committed (new_upload now i inp)" by (rule open_not_committed) simp
  with new lk show ?thesis by (simp add: s' same linked_def committed_ids_def)
qed

lemma retire_linked: "linked s \<Longrightarrow> retire_key now u s = (Inr x, s') \<Longrightarrow> linked s'"
  by (erule retire_key_okE, erule linked_rows) (simp_all add: upd_same_status)

lemma reserve_linked: "linked s \<Longrightarrow> linked (snd (ReserveDropUpload now i inp s))"
  unfolding ReserveDropUpload_def
  by (rule in_tx_inv [of linked], assumption)
    (auto split: option.splits if_splits elim!: seq_okE dest: retire_linked intro: open_reservation_linked)

lemmas op_linked = reserve_linked commit_linked release_linked fail_linked clear_linked expire_linked
  visibility_linked mark_linked finalize_linked vault_linked node_status_linked delete_org_linked

lemma drop_step_linked: "linked s \<Longrightarrow> drop_step s s' \<Longrightarrow> linked s'"
  by (erule drop_step.cases) (auto intro: op_linked linked_rows)

interpretation links: invariant_system drop_step linked
  by unfold_locales (rule drop_step_linked)

lemma linked_empty: "linked empty_db"
  by (simp add: linked_def empty_db_def committed_ids_def)

lemma filter_key_single:
  "distinct (map key t) \<Longrightarrow> r \<in> set t \<Longrightarrow> filter (\<lambda>x. key x = key r) t = [r]"
  by (induction t) (auto simp: filter_empty_conv image_iff)

lemma find_upd_owner:
  assumes "find (\<lambda>u. up_id u = i \<and> up_owner_user_id u = o') us = Some u"
  shows "find (\<lambda>u. up_id u = i \<and> up_owner_user_id u = o') (upd_rows (\<lambda>r. up_id r = i) (committed_upload now cid) us)
    = Some (committed_upload now cid u)"
  using assms by (induction us) (auto simp: upd_rows_def committed_upload_def split: if_splits)

lemma GetDropFileByUpload_append:
  assumes "distinct (map df_upload_id (drop_files s))" and "f \<in> set (drop_files s)"
  shows "GetDropFileByUpload s (df_upload_id f) = Inr f"
  by (simp add: GetDropFileByUpload_def filter_key_single [OF assms] order_desc_def first_row_def)

lemma commit_okE:
  assumes "CommitDropUpload now fi pi userID uploadID cid n s = (Inr f, s')"
  obtains (again) u where "find (\<lambda>u. up_id u = uploadID \<and> up_owner_user_id u = userID) (drop_uploads s) = Some u"
      "upload_committed u" "GetDropFileByUpload s uploadID = Inr f" "s' = s"
  | (first) u where "find (\<lambda>u. up_id u = uploadID \<and> up_owner_user_id u = userID) (drop_uploads s) = Some u"
      "upload_open u" "commit_open now fi pi u cid (if n \<le> 0 then up_declared_size_bytes u else n) s = (Inr f, s')"
proof -
  from assms [unfolded CommitDropUpload_def, THEN in_tx_okD] show ?thesis
    by (cases "find (\<lambda>u. up_id u = uploadID \<and> up_owner_user_id u = userID) (drop_uploads s)")
      (auto simp: upload_committed_def split: if_splits intro: first again)
qed


lemma demo2_reach: "drop_step\<^sup>*\<^sup>* empty_db demo2"
proof -
  have 0: "drop_step empty_db demo0" by (rule drop_step.elsewhere) (simp_all add: demo0_def)
  have 1: "drop_step demo0 (ApplyDropCapability 0 ''n1'' True True False demo0)" by (rule drop_step.capability)
  have 2: "drop_step (ApplyDropCapability 0 ''n1'' True True False demo0) demo1"
    unfolding demo1_def by (rule drop_step.status)
  have 3: "drop_step demo1 demo2"
    unfolding demo2_def by (rule drop_step.reserve) (simp add: demo_input_def size_ok_def in_i64_def)
  from 0 1 2 3 show ?thesis by (meson converse_rtranclp_into_rtranclp rtranclp.rtrancl_refl)
qed

definition demo_file :: drop_file where
  "demo_file = file_of_upload 6 ''f1'' ''cid'' 90 (new_upload 5 ''up1'' demo_input)"


text \<open>
  Every file of a reachable state belongs to exactly one committed upload, and every committed
  upload has exactly one file.
\<close>

theorem one_file_per_commit:
  assumes "drop_step\<^sup>*\<^sup>* empty_db s"
  shows "(\<forall>f\<in>set (drop_files s). \<exists>u\<in>set (drop_uploads s). up_id u = df_upload_id f \<and> up_status u = DropUploadCommitted)
    \<and> (\<forall>u\<in>set (drop_uploads s). up_status u = DropUploadCommitted \<longrightarrow>
        (\<exists>f. GetDropFileByUpload s (up_id u) = Inr f \<and> filter (\<lambda>g. df_upload_id g = up_id u) (drop_files s) = [f]))"
proof (intro conjI ballI impI)
  have lk: "linked s" using assms linked_empty by (rule links.reach_inv)
  fix f assume "f \<in> set (drop_files s)"
  then have "df_upload_id f \<in> df_upload_id ` set (drop_files s)" by simp
  also have "\<dots> = set (committed_ids (drop_uploads s))" using lk by (simp add: linked_def)
  finally show "\<exists>u\<in>set (drop_uploads s). up_id u = df_upload_id f \<and> up_status u = DropUploadCommitted"
    by (auto simp: committed_ids_def upload_committed_def)
next
  have lk: "linked s" using assms linked_empty by (rule links.reach_inv)
  fix u assume "u \<in> set (drop_uploads s)" "up_status u = DropUploadCommitted"
  then have "up_id u \<in> set (committed_ids (drop_uploads s))" by (simp add: committed_ids_def upload_committed_def)
  also have "\<dots> = df_upload_id ` set (drop_files s)" using lk by (simp add: linked_def)
  finally obtain f where f: "f \<in> set (drop_files s)" "df_upload_id f = up_id u" by auto
  have d: "distinct (map df_upload_id (drop_files s))" using lk by (simp add: linked_def)
  from filter_key_single [OF d f(1)] GetDropFileByUpload_append [OF d f(1)] f(2)
  show "\<exists>f. GetDropFileByUpload s (up_id u) = Inr f \<and> filter (\<lambda>g. df_upload_id g = up_id u) (drop_files s) = [f]"
    by simp
qed

theorem one_file_per_commit_witness:
  "\<exists>u f. u \<in> set (drop_uploads demo3) \<and> up_status u = DropUploadCommitted
     \<and> GetDropFileByUpload demo3 (up_id u) = Inr f
     \<and> filter (\<lambda>g. df_upload_id g = up_id u) (drop_files demo3) = [f]"
proof -
  have ids: "map up_status (drop_uploads demo3) = [DropUploadCommitted]" by code_simp
  then obtain u where u: "u \<in> set (drop_uploads demo3)" "up_status u = DropUploadCommitted" by auto
  then show ?thesis using one_file_per_commit [OF demo_reach, THEN conjunct2] by blast
qed

end
