(* ===== verification/DropLife.thy ===== *)
theory DropLife
  imports DropSafety
begin

text \<open>
  The life of an upload and of a file: what commit, release, expiry and deletion do to the
  counters, and when a physical unpin may be issued.
\<close>

section \<open>Releasing never fails\<close>

lemma adjust_quota_total:
  assumes "\<forall>q\<in>set t. quota_ok q" and "size_ok x"
  shows "\<exists>t'. adjust_quota k 0 (- x) t = Inr t'"
proof (cases "find (\<lambda>q. quota_key q = k) t")
  case None
  then show ?thesis by (simp add: adjust_quota_def)
next
  case (Some q)
  with assms(1) have "quota_ok q" by (auto dest: find_SomeD)
  with assms(2) have "in_i64 (dq_used_bytes q)" "in_i64 (dq_reserved_bytes q - x)"
    by (auto simp: row_defs in_i64_def)
  with Some show ?thesis by (simp add: adjust_quota_def pg_bigint_def)
qed

lemma release_node_total:
  assumes "\<forall>d\<in>set t. size_ok (ns_reserved_bytes d)" and "size_ok x"
  shows "\<exists>t'. release_node n x t = Inr t'"
proof (cases "find (\<lambda>d. ns_node_id d = n) t")
  case None
  then show ?thesis by (simp add: release_node_def)
next
  case (Some d)
  with assms(1) have "size_ok (ns_reserved_bytes d)" by (auto dest: find_SomeD)
  with assms(2) have "in_i64 (ns_reserved_bytes d - x)" by (auto simp: size_ok_def in_i64_def)
  with Some show ?thesis by (simp add: release_node_def pg_bigint_def)
qed

lemma release_open_total:
  assumes inv: "drop_inv s" and mem: "u \<in> set (drop_uploads s)"
  shows "\<exists>s'. release_open now u st s = (Inr (), s')"
proof -
  have u: "size_ok (up_reserved_bytes u)" using inv_okD(3) [OF inv] mem by (auto simp: upload_ok_def)
  obtain qs where q: "adjust_quota (user_key (up_owner_user_id u)) 0 (- up_reserved_bytes u) (drop_quota_usages s) = Inr qs"
    using adjust_quota_total [OF inv_okD(5) [OF inv] u] by blast
  obtain ns where n: "release_node (up_node_id u) (up_reserved_bytes u) (node_drop_statuses s) = Inr ns"
    using release_node_total [OF inv_okD(6) [OF inv] u] by blast
  show ?thesis
    by (cases "up_storage_scope u = DropScopePublic")
      (simp_all add: release_open_def adjustQuotaTx_def release_node_db_def q n)
qed

text \<open>How closing an upload moves the counters.\<close>

lemma return_hold_counters:
  assumes inv: "drop_inv s" and mem: "u \<in> set (drop_uploads s)" "upload_open u" and n: "0 \<le> n"
    and q: "return_hold n u (drop_quota_usages s) qs'"
  shows "used_of qs' k = used_of (drop_quota_usages s) k
      + (if k = up_owner_user_id u \<and> up_storage_scope u = DropScopePublic then n else 0)"
    and "held_of qs' k = held_of (drop_quota_usages s) k
      - (if k = up_owner_user_id u \<and> up_storage_scope u = DropScopePublic then up_reserved_bytes u else 0)"
proof -
  have ge: "w_hold (up_owner_user_id u) u \<le> held_of (drop_quota_usages s) (up_owner_user_id u)"
    using balanced_ge [OF inv_okD(8,10) [OF inv] mem(1)] .
  have nn: "0 \<le> used_of (drop_quota_usages s) k" for k using held_range(1) [OF inv] by (simp add: size_ok_def)
  note post = q [unfolded return_hold_def]
  show "used_of qs' k = used_of (drop_quota_usages s) k
      + (if k = up_owner_user_id u \<and> up_storage_scope u = DropScopePublic then n else 0)"
    using post nn n used.bal_post [of "up_owner_user_id u" n "- up_reserved_bytes u" "drop_quota_usages s" qs']
      used.bal_post_other [of "up_owner_user_id u" n "- up_reserved_bytes u" "drop_quota_usages s" qs' k]
    by (cases "up_storage_scope u = DropScopePublic"; cases "k = up_owner_user_id u") simp_all
  show "held_of qs' k = held_of (drop_quota_usages s) k
      - (if k = up_owner_user_id u \<and> up_storage_scope u = DropScopePublic then up_reserved_bytes u else 0)"
    using post ge mem(2) held.bal_post [of "up_owner_user_id u" n "- up_reserved_bytes u" "drop_quota_usages s" qs']
      held.bal_post_other [of "up_owner_user_id u" n "- up_reserved_bytes u" "drop_quota_usages s" qs' k]
    by (cases "up_storage_scope u = DropScopePublic"; cases "k = up_owner_user_id u") (simp_all add: w_hold_def)
qed

lemma release_node_counter:
  assumes inv: "drop_inv s" and mem: "u \<in> set (drop_uploads s)" "upload_open u"
    and n: "release_node (up_node_id u) (up_reserved_bytes u) (node_drop_statuses s) = Inr ns'"
  shows "node_held_of ns' m = node_held_of (node_drop_statuses s) m - (if m = up_node_id u then up_reserved_bytes u else 0)"
proof -
  have ge: "w_node (up_node_id u) u \<le> node_held_of (node_drop_statuses s) (up_node_id u)"
    using balanced_ge [OF inv_okD(9,11) [OF inv] mem(1)] .
  have row: "has_node (node_drop_statuses s) (up_node_id u)"
    using inv_okD(3) [OF inv] mem by (auto simp: upload_ok_def)
  show ?thesis
    using ge mem(2) n row node_release.bal_post [of "up_node_id u" "- up_reserved_bytes u" "node_drop_statuses s" ns']
      node_release.bal_post_other [of "up_node_id u" "- up_reserved_bytes u" "node_drop_statuses s" ns' m]
    by (cases "m = up_node_id u") (simp_all add: w_node_def)
qed

lemma reach_drop_inv: "drop_step\<^sup>*\<^sup>* empty_db s \<Longrightarrow> drop_inv s"
  using drop_inv_empty by (rule drops.reach_inv [rotated])

section \<open>Commit\<close>

text \<open>
  Committing an open upload turns the hold into used bytes: the file has the upload's node,
  owner and scope, the returned CID and the final size (the declared size when none is given); a
  public upload moves its reserved bytes out of the owner's quota and the final size in; the node's
  hold is returned; the upload is committed with the CID.
\<close>

theorem commit_converts_hold:
  assumes reach: "drop_step\<^sup>*\<^sup>* empty_db s"
    and u: "GetDropUpload s userID uploadID = Inr u" "up_status u = DropUploadReserved \<or> up_status u = DropUploadUploading"
    and ok: "CommitDropUpload now fi pi userID uploadID cid n s = (Inr f, s')"
  shows "df_owner_user_id f = userID \<and> df_node_id f = up_node_id u \<and> df_storage_scope f = up_storage_scope u
    \<and> df_cid f = cid \<and> df_status f = DropFileActive
    \<and> df_size_bytes f = (if n \<le> 0 then up_declared_size_bytes u else n)
    \<and> GetDropFile s' (df_id f) = Inr f
    \<and> dq_used_bytes (GetDropQuotaUsage s' DropPrincipalUser userID)
        = dq_used_bytes (GetDropQuotaUsage s DropPrincipalUser userID)
          + (if up_storage_scope u = DropScopePublic then df_size_bytes f else 0)
    \<and> dq_reserved_bytes (GetDropQuotaUsage s' DropPrincipalUser userID)
        = dq_reserved_bytes (GetDropQuotaUsage s DropPrincipalUser userID)
          - (if up_storage_scope u = DropScopePublic then up_reserved_bytes u else 0)
    \<and> node_held_of (node_drop_statuses s') (up_node_id u)
        = node_held_of (node_drop_statuses s) (up_node_id u) - up_reserved_bytes u
    \<and> (\<exists>v. GetDropUpload s' userID uploadID = Inr v \<and> up_status v = DropUploadCommitted \<and> up_cid v = cid)"
proof -
  have inv: "drop_inv s" using reach by (rule reach_drop_inv)
  let ?n = "if n \<le> 0 then up_declared_size_bytes u else n"
  have row: "find (\<lambda>u. up_id u = uploadID \<and> up_owner_user_id u = userID) (drop_uploads s) = Some u"
    using u(1) by (simp add: GetDropUpload_def split: option.splits)
  then have mem: "u \<in> set (drop_uploads s)" and id: "up_id u = uploadID" "up_owner_user_id u = userID"
    by (auto dest: find_SomeD)
  have open_u: "upload_open u" using u(2) by (simp add: upload_open_def)
  from ok row open_u have com: "commit_open now fi pi u cid ?n s = (Inr f, s')"
    by (cases rule: commit_okE) (auto dest: open_not_committed)
  then obtain qs' ns' ps' where f: "f = file_of_upload now fi cid ?n u" and fresh: "fi \<notin> df_id ` set (drop_files s)"
    and q: "return_hold ?n u (drop_quota_usages s) qs'"
    and nd: "release_node (up_node_id u) (up_reserved_bytes u) (node_drop_statuses s) = Inr ns'" and
    s': "s' = s\<lparr>drop_files := drop_files s @ [f], drop_pins := ps', drop_quota_usages := qs',
      node_drop_statuses := ns', drop_uploads := upd_rows (\<lambda>r. up_id r = up_id u) (committed_upload now cid) (drop_uploads s)\<rparr>"
    by (rule commit_open_okE)
  have nn: "0 \<le> ?n" using inv_okD(3) [OF inv] mem by (auto simp: upload_ok_def size_ok_def)
  have "GetDropUpload s' userID uploadID = Inr (committed_upload now cid u)"
    using find_upd_owner [OF row] by (simp add: GetDropUpload_def s' id)
  moreover have "find (\<lambda>g. df_id g = fi) (drop_files s) = None"
    using fresh by (auto simp: find_None_iff)
  then have "GetDropFile s' (df_id f) = Inr f" by (simp add: GetDropFile_def s' find_append f)
  ultimately show ?thesis
    using return_hold_counters [OF inv mem open_u nn q] release_node_counter [OF inv mem open_u nd]
    by (simp add: f quota_view s' id committed_upload_def)
qed

theorem commit_converts_hold_witness:
  "dq_used_bytes (GetDropQuotaUsage demo3 DropPrincipalUser ''u1'')
     = dq_used_bytes (GetDropQuotaUsage demo2 DropPrincipalUser ''u1'') + 90"
proof -
  have u: "GetDropUpload demo2 ''u1'' ''up1'' = Inr (new_upload 5 ''up1'' demo_input)" by code_simp
  have ok: "CommitDropUpload 6 ''f1'' ''p1'' ''u1'' ''up1'' ''cid'' 90 demo2 = (Inr demo_file, demo3)"
    unfolding demo3_def by code_simp
  have "up_storage_scope (new_upload 5 ''up1'' demo_input) = DropScopePublic" by (simp add: demo_input_def)
  with commit_converts_hold [OF demo2_reach u _ ok] show ?thesis by simp
qed

section \<open>Release and expiry\<close>

lemma reserve_counters:
  assumes ok: "ReserveDropUpload now i inp s = (Inr u, s')" and new: "i \<notin> up_id ` set (drop_uploads s)" "up_id u = i"
  shows "used_of (drop_quota_usages s') k = used_of (drop_quota_usages s) k"
    and "held_of (drop_quota_usages s') k = held_of (drop_quota_usages s) k
      + (if k = ri_user_id inp \<and> ri_scope inp = DropScopePublic then ri_declared_size inp else 0)"
    and "node_held_of (node_drop_statuses s') m = node_held_of (node_drop_statuses s) m
      + (if m = ri_node_id inp then ri_declared_size inp else 0)"
    and "u = new_upload now i inp" and "u \<in> set (drop_uploads s')"
proof -
  let ?u = "ri_user_id inp"
  from ok new obtain s0 s1 s2 x1 x2 x3 where s0: "drop_quota_usages s0 = drop_quota_usages s"
    "node_drop_statuses s0 = node_drop_statuses s" "nodes s0 = nodes s"
    "org_members s0 = org_members s" "orgs s0 = orgs s" "drop_tier_limits s0 = drop_tier_limits s"
    and a: "(if ri_scope inp = DropScopePublic then reserve_quota inp s0 else (Inr (), s0)) = (Inr x1, s1)"
    and b: "reserveNodeCapacityTx (ri_node_id inp) (ri_scope inp) (ri_declared_size inp) s1 = (Inr x2, s2)"
    and c: "insert_upload (new_upload now i inp) s2 = (Inr x3, s')" and u: "u = new_upload now i inp"
    by (rule reserve_fresh_okE)
  have s': "s' = s2\<lparr>drop_uploads := drop_uploads s2 @ [u]\<rparr>" using c u by (auto elim: insert_upload_okE)
  from b obtain d n ns' where d: "find (\<lambda>d. ns_node_id d = ri_node_id inp) (node_drop_statuses s1) = Some d"
    and h: "hold_node (ri_node_id inp) (ri_declared_size inp) (node_drop_statuses s1) = Inr ns'"
    and s2: "s2 = s1\<lparr>node_drop_statuses := ns'\<rparr>"
    by (rule reserveNode_okE)
  have s1: "node_drop_statuses s1 = node_drop_statuses s"
    using a s0(2) by (auto split: if_splits elim!: reserve_quota_okE)
  show "node_held_of (node_drop_statuses s') m = node_held_of (node_drop_statuses s) m
      + (if m = ri_node_id inp then ri_declared_size inp else 0)"
    using d hold_node_find [OF h, of m] by (simp add: s' s2 s1 node_held_of_def split: option.split)
  have q: "drop_quota_usages s' = drop_quota_usages s1" by (simp add: s' s2)
  have "used_of (drop_quota_usages s1) k = used_of (drop_quota_usages s) k
      \<and> held_of (drop_quota_usages s1) k = held_of (drop_quota_usages s) k
      + (if k = ?u \<and> ri_scope inp = DropScopePublic then ri_declared_size inp else 0)"
  proof (cases "ri_scope inp = DropScopePublic")
    case False
    with a s0(1) show ?thesis by simp
  next
    case True
    with a have "reserve_quota inp s0 = (Inr x1, s1)" by simp
    then obtain qs' where h: "hold_quota (user_key ?u) (ri_declared_size inp) (ensure_quota_row (user_key ?u) (drop_quota_usages s)) = Inr qs'"
      and s1: "s1 = s0\<lparr>drop_quota_usages := qs'\<rparr>" and row: "has_quota (ensure_quota_row (user_key ?u) (drop_quota_usages s)) ?u"
      using s0(1) by (auto elim: reserve_quota_okE)
    have "k \<noteq> ?u \<Longrightarrow> held_of qs' k = held_of (ensure_quota_row (user_key ?u) (drop_quota_usages s)) k"
      by (rule quota_hold.bal_post_other [OF h])
    with held_hold_quota [OF h row] used_hold_quota [OF h] True show ?thesis by (simp add: s1)
  qed
  then show "used_of (drop_quota_usages s') k = used_of (drop_quota_usages s) k"
    "held_of (drop_quota_usages s') k = held_of (drop_quota_usages s) k
      + (if k = ?u \<and> ri_scope inp = DropScopePublic then ri_declared_size inp else 0)"
    by (simp_all add: q)
  show "u = new_upload now i inp" by (rule u)
  show "u \<in> set (drop_uploads s')" by (simp add: s')
qed

lemma release_effect:
  assumes inv: "drop_inv s" and mem: "u \<in> set (drop_uploads s)" "upload_open u"
  obtains s' where "ReleaseDropReservation now (up_id u) st s = (Inr (), s')"
    "drop_uploads s' = upd_rows (\<lambda>r. up_id r = up_id u) (closed_upload now st) (drop_uploads s)"
    "\<And>k. used_of (drop_quota_usages s') k = used_of (drop_quota_usages s) k"
    "\<And>k. held_of (drop_quota_usages s') k = held_of (drop_quota_usages s) k
       - (if k = up_owner_user_id u \<and> up_storage_scope u = DropScopePublic then up_reserved_bytes u else 0)"
    "\<And>m. node_held_of (node_drop_statuses s') m = node_held_of (node_drop_statuses s) m
       - (if m = up_node_id u then up_reserved_bytes u else 0)"
proof -
  obtain s' where r: "release_open now u st s = (Inr (), s')" using release_open_total [OF inv mem(1)] by blast
  then obtain qs' ns' where q: "return_hold 0 u (drop_quota_usages s) qs'"
    and n: "release_node (up_node_id u) (up_reserved_bytes u) (node_drop_statuses s) = Inr ns'" and
    s': "s' = s\<lparr>drop_quota_usages := qs', node_drop_statuses := ns', drop_uploads := upd_rows (\<lambda>r. up_id r = up_id u)
       (closed_upload now st) (drop_uploads s)\<rparr>"
    by (rule release_open_okE)
  have "find (\<lambda>r. up_id r = up_id u) (drop_uploads s) = Some u"
    by (rule find_key_unique [OF inv_okD(1) [OF inv] mem(1) refl])
  then have "ReleaseDropReservation now (up_id u) st s = (Inr (), s')"
    using mem(2) r by (simp add: ReleaseDropReservation_def in_tx_def)
  then show ?thesis
    by (rule that) (use return_hold_counters [OF inv mem order_refl q] release_node_counter [OF inv mem n] in \<open>simp_all add: s'\<close>)
qed

text \<open>
  Releasing a reservation undoes it: in a reachable state, reserving and then releasing (with
  any terminal status) succeeds, brings every quota and node counter back to where it was, and
  leaves the upload closed.
\<close>

theorem release_undoes_reserve:
  assumes reach: "drop_step\<^sup>*\<^sup>* empty_db s" and size: "0 \<le> ri_declared_size inp" "in_i64 (ri_declared_size inp)"
    and ok: "ReserveDropUpload now i inp s = (Inr u, s')" and new: "i \<notin> up_id ` set (drop_uploads s)" "up_id u = i"
    and st: "st = DropUploadFailed \<or> st = DropUploadExpired"
  shows "\<exists>s''. ReleaseDropReservation now' i st s' = (Inr (), s'')
    \<and> (\<forall>k. dq_used_bytes (GetDropQuotaUsage s'' DropPrincipalUser k) = dq_used_bytes (GetDropQuotaUsage s DropPrincipalUser k)
         \<and> dq_reserved_bytes (GetDropQuotaUsage s'' DropPrincipalUser k) = dq_reserved_bytes (GetDropQuotaUsage s DropPrincipalUser k))
    \<and> (\<forall>m. node_held_of (node_drop_statuses s'') m = node_held_of (node_drop_statuses s) m)
    \<and> (\<forall>r\<in>set (drop_uploads s''). up_id r = i \<longrightarrow> up_status r = st \<and> up_reserved_bytes r = 0)"
proof -
  have "drop_inv s'"
    using ReserveDropUpload_inv [OF reach_drop_inv [OF reach], of inp now i] size ok by (simp add: size_ok_def)
  moreover note rc = reserve_counters [OF ok new]
  moreover have "upload_open u" by (simp add: rc(4))
  ultimately obtain s'' where r: "ReleaseDropReservation now' (up_id u) st s' = (Inr (), s'')"
    "drop_uploads s'' = upd_rows (\<lambda>r. up_id r = up_id u) (closed_upload now' st) (drop_uploads s')"
    "\<And>k. used_of (drop_quota_usages s'') k = used_of (drop_quota_usages s') k"
    "\<And>k. held_of (drop_quota_usages s'') k = held_of (drop_quota_usages s') k
       - (if k = up_owner_user_id u \<and> up_storage_scope u = DropScopePublic then up_reserved_bytes u else 0)"
    "\<And>m. node_held_of (node_drop_statuses s'') m = node_held_of (node_drop_statuses s') m
       - (if m = up_node_id u then up_reserved_bytes u else 0)"
    using release_effect by blast
  have "up_status (closed_upload now' st r) = st" for r using st by (auto simp: closed_upload_def)
  note closed = this
  have "\<forall>r\<in>set (drop_uploads s''). up_id r = i \<longrightarrow> up_status r = st \<and> up_reserved_bytes r = 0"
  proof (intro ballI impI)
    fix r' assume "r' \<in> set (drop_uploads s'')" and i: "up_id r' = i"
    then obtain r0 where "r' = (if up_id r0 = i then closed_upload now' st r0 else r0)"
      unfolding r(2) new(2) set_upd_rows by blast
    with i closed show "up_status r' = st \<and> up_reserved_bytes r' = 0" by (cases "up_id r0 = i") auto
  qed
  with r rc show ?thesis by (simp add: quota_view new(2))
qed

lemma demo1_reach: "drop_step\<^sup>*\<^sup>* empty_db demo1"
proof -
  have 0: "drop_step empty_db demo0" by (rule drop_step.elsewhere) (simp_all add: demo0_def)
  have 1: "drop_step demo0 (ApplyDropCapability 0 ''n1'' True True False demo0)" by (rule drop_step.capability)
  have 2: "drop_step (ApplyDropCapability 0 ''n1'' True True False demo0) demo1"
    unfolding demo1_def by (rule drop_step.status)
  from 0 1 2 show ?thesis by (meson converse_rtranclp_into_rtranclp rtranclp.rtrancl_refl)
qed

theorem release_undoes_reserve_witness:
  "\<exists>s''. ReleaseDropReservation 8 ''up1'' DropUploadExpired demo2 = (Inr (), s'')
     \<and> node_held_of (node_drop_statuses s'') ''n1'' = node_held_of (node_drop_statuses demo1) ''n1''"
proof -
  have ok: "ReserveDropUpload 5 ''up1'' demo_input demo1 = (Inr (new_upload 5 ''up1'' demo_input), demo2)"
    unfolding demo2_def by code_simp
  have fresh: "''up1'' \<notin> up_id ` set (drop_uploads demo1)" by code_simp
  have "ri_declared_size demo_input = 100" by (simp add: demo_input_def)
  then show ?thesis
    using release_undoes_reserve [OF demo1_reach _ _ ok fresh, of DropUploadExpired 8] by (auto simp: in_i64_def)
qed

subsection \<open>Expiry\<close>

definition overdue :: "time \<Rightarrow> drop_upload \<Rightarrow> bool" where
  "overdue now u \<longleftrightarrow> upload_open u \<and> up_expires_at u < now"

lemma closed_not_overdue: "\<not> overdue now (closed_upload now' DropUploadExpired u)"
  by (simp add: overdue_def closed_upload_def upload_open_def)

lemma release_all_overdue:
  assumes "drop_inv s" and "distinct ids" and "\<forall>i\<in>set ids. \<exists>u\<in>set (drop_uploads s). up_id u = i \<and> overdue now u"
    and "release_all now ids s = (n, s')"
  shows "n = int (length ids) \<and> row_count (overdue now) (drop_uploads s') = row_count (overdue now) (drop_uploads s) - n"
  using assms
proof (induction ids arbitrary: s n)
  case Nil
  then show ?case by simp
next
  case (Cons i ids)
  from Cons.prems(3) obtain u where u: "u \<in> set (drop_uploads s)" "up_id u = i" "overdue now u" by auto
  then have "upload_open u" by (simp add: overdue_def)
  with Cons.prems(1) u obtain s1 where r: "ReleaseDropReservation now i DropUploadExpired s = (Inr (), s1)"
    and ups: "drop_uploads s1 = upd_rows (\<lambda>r. up_id r = i) (closed_upload now DropUploadExpired) (drop_uploads s)"
    by (metis release_effect)
  obtain m where m: "release_all now ids s1 = (m, s')" "n = m + 1"
    using Cons.prems(4) r by (cases "release_all now ids s1") simp
  have inv1: "drop_inv s1" using ReleaseDropReservation_inv [OF Cons.prems(1), of now i DropUploadExpired] r by simp
  have d: "distinct (map up_id (drop_uploads s))" using Cons.prems(1) by (rule inv_okD)
  have "find (\<lambda>r. up_id r = i) (drop_uploads s) = Some u" by (rule find_key_unique [OF d u(1,2)])
  from total_upd_key [OF d this, of "\<lambda>r. if overdue now r then 1 else 0" "closed_upload now DropUploadExpired"]
  have cnt: "row_count (overdue now) (drop_uploads s1) = row_count (overdue now) (drop_uploads s) - 1"
    using u(3) by (simp add: ups row_count_total closed_not_overdue)
  have "\<forall>j\<in>set ids. \<exists>v\<in>set (drop_uploads s1). up_id v = j \<and> overdue now v"
  proof
    fix j assume j: "j \<in> set ids"
    with Cons.prems(3) obtain v where v: "v \<in> set (drop_uploads s)" "up_id v = j" "overdue now v" by auto
    moreover have "j \<noteq> i" using j Cons.prems(2) by auto
    ultimately have "v \<in> set (drop_uploads s1)" by (auto simp: ups set_upd_rows)
    with v show "\<exists>v\<in>set (drop_uploads s1). up_id v = j \<and> overdue now v" by blast
  qed
  with Cons.IH [OF inv1 _ _ m(1)] Cons.prems(2) cnt m(2) show ?case by auto
qed

lemma expired_ids_ok:
  assumes "distinct (map up_id (drop_uploads s))"
  shows "distinct (expired_ids now n s)"
    and "\<forall>i\<in>set (expired_ids now n s). \<exists>u\<in>set (drop_uploads s). up_id u = i \<and> overdue now u"
    and "int (length (expired_ids now n s)) = min (default_limit 100 n) (row_count (overdue now) (drop_uploads s))"
proof -
  let ?xs = "filter (overdue now) (drop_uploads s)"
  have eq: "expired_ids now n s = map up_id (take (nat (default_limit 100 n)) (sort_key up_expires_at ?xs))"
    by (simp add: expired_ids_def limit_rows_def order_asc_def overdue_def [abs_def])
  have "distinct (map up_id ?xs)" using assms by (simp add: distinct_map_filter)
  then have "distinct (map up_id (sort_key up_expires_at ?xs))"
    by (metis distinct_map distinct_sort set_sort)
  then have "distinct (take (nat (default_limit 100 n)) (map up_id (sort_key up_expires_at ?xs)))"
    by (rule distinct_take)
  then show "distinct (expired_ids now n s)" by (simp add: eq take_map)
  show "\<forall>i\<in>set (expired_ids now n s). \<exists>u\<in>set (drop_uploads s). up_id u = i \<and> overdue now u"
    by (auto simp: eq dest!: in_set_takeD)
  have "0 < default_limit 100 n" by (simp add: default_limit_def)
  then show "int (length (expired_ids now n s)) = min (default_limit 100 n) (row_count (overdue now) (drop_uploads s))"
    by (simp add: eq row_count_def of_nat_min min.commute)
qed

text \<open>
  C20. Expiry releases everything that is due: in a reachable state a run releases every overdue
  reservation up to its limit (no release fails), reports how many it released, and the number
  of overdue reservations drops by exactly that much, to none when the limit is not reached.
\<close>

theorem expire_releases_overdue:
  assumes reach: "drop_step\<^sup>*\<^sup>* empty_db s" and run: "ExpireDropReservations now n s = (k, s')"
  shows "k = min (default_limit 100 n) (row_count (overdue now) (drop_uploads s))
    \<and> row_count (overdue now) (drop_uploads s') = row_count (overdue now) (drop_uploads s) - k"
proof -
  have inv: "drop_inv s" using reach by (rule reach_drop_inv)
  note ids = expired_ids_ok [OF inv_okD(1) [OF inv], of now n]
  from release_all_overdue [OF inv ids(1,2)] run ids(3) show ?thesis
    by (simp add: ExpireDropReservations_def)
qed

theorem expire_releases_overdue_witness:
  "fst (ExpireDropReservations 5000 0 demo2) = 1
   \<and> row_count (overdue 5000) (drop_uploads (snd (ExpireDropReservations 5000 0 demo2))) = 0"
proof -
  have "row_count (overdue 5000) (drop_uploads demo2) = 1" by code_simp
  with expire_releases_overdue [OF demo2_reach surjective_pairing, of 5000 0] show ?thesis
    by (simp add: default_limit_def)
qed

section \<open>Orphan pins\<close>

text \<open>
  A failed finalize leaves a cleanup job: when the upload is still open (reserved or
  uploading), failing it with the CID the node pinned closes it, and the job is listed as a pending
  orphan pin (given a limit that covers the pending jobs).
\<close>

theorem fail_records_orphan:
  assumes reach: "drop_step\<^sup>*\<^sup>* empty_db s" and u: "u \<in> set (drop_uploads s)"
      "up_status u = DropUploadReserved \<or> up_status u = DropUploadUploading"
    and cid: "cid \<noteq> ''''" and run: "FailDropUploadWithOrphanPin now (up_id u) cid msg s = (r, s')"
    and lim: "int (length (drop_uploads s')) \<le> n" "0 < n"
  shows "r = Inr () \<and> (up_id u, up_node_id u, cid) \<in> set (ListPendingDropOrphanPins s' n)"
proof -
  have op: "upload_open u" using u(2) by (simp add: upload_open_def)
  from release_effect [OF reach_drop_inv [OF reach] u(1) op] obtain s1 where
    r: "ReleaseDropReservation now (up_id u) DropUploadFailed s = (Inr (), s1)"
    and ups: "drop_uploads s1 = upd_rows (\<lambda>r. up_id r = up_id u) (closed_upload now DropUploadFailed) (drop_uploads s)"
    by metis
  let ?f = "\<lambda>u. u\<lparr>up_cid := cid, up_error := msg, up_updated_at := now\<rparr>"
  have s': "r = Inr ()" "drop_uploads s' = upd_rows (\<lambda>v. up_id v = up_id u \<and> up_status v = DropUploadFailed) ?f (drop_uploads s1)"
    using run r by (auto simp: FailDropUploadWithOrphanPin_def)
  let ?v = "?f (closed_upload now DropUploadFailed u)"
  have "closed_upload now DropUploadFailed u \<in> set (drop_uploads s1)"
    using u(1) unfolding ups set_upd_rows by (intro bexI [of _ u]) simp_all
  then have v: "?v \<in> set (drop_uploads s')"
    unfolding s'(2) set_upd_rows
    by (intro bexI [of _ "closed_upload now DropUploadFailed u"]) (simp_all add: closed_upload_def)
  let ?xs = "filter (\<lambda>u. up_status u = DropUploadFailed \<and> up_cid u \<noteq> '''') (drop_uploads s')"
  have "length ?xs \<le> length (drop_uploads s')" by (rule length_filter_le)
  also have "\<dots> \<le> nat n" using lim by linarith
  finally have "length (sort_key up_updated_at ?xs) \<le> nat (default_limit 50 n)"
    using lim(2) by (simp add: default_limit_def)
  then have all: "limit_rows (default_limit 50 n) (order_asc up_updated_at ?xs) = sort_key up_updated_at ?xs"
    by (simp add: limit_rows_def order_asc_def)
  have "?v \<in> set ?xs" using v cid by (simp add: closed_upload_def)
  then have "(up_id ?v, up_node_id ?v, up_cid ?v) \<in> (\<lambda>u. (up_id u, up_node_id u, up_cid u)) ` set ?xs"
    by (rule imageI)
  then have "(up_id ?v, up_node_id ?v, up_cid ?v) \<in> set (ListPendingDropOrphanPins s' n)"
    unfolding ListPendingDropOrphanPins_def all by simp
  with s'(1) show ?thesis by simp
qed

theorem fail_records_orphan_witness:
  "(''up1'', ''n1'', ''cid'') \<in> set (ListPendingDropOrphanPins (snd (FailDropUploadWithOrphanPin 7 ''up1'' ''cid'' ''e'' demo2)) 50)"
proof -
  let ?u = "new_upload 5 ''up1'' demo_input"
  have "?u \<in> set (drop_uploads demo2)"
    using reserve_counters(5) [of 5 "''up1''" demo_input demo1 ?u demo2] unfolding demo2_def by code_simp
  moreover have "int (length (drop_uploads (snd (FailDropUploadWithOrphanPin 7 (up_id ?u) ''cid'' ''e'' demo2)))) \<le> 50"
    by code_simp
  moreover have "up_node_id ?u = ''n1''" by (simp add: demo_input_def)
  ultimately show ?thesis
    using fail_records_orphan [OF demo2_reach, of ?u "''cid''" 7 "''e''" _ _ 50, OF _ _ _ surjective_pairing] by simp
qed

text \<open>
  The cleanup job is lost when the reservation expired first: the upload is then
  \<open>expired\<close>, failing it succeeds without a trace, and the pinned CID is in no list of pending
  work.
\<close>

theorem orphan_lost_after_expiry:
  "case ExpireDropReservations 5000 0 demo2 of (_, s) \<Rightarrow>
     (case FailDropUploadWithOrphanPin 5001 ''up1'' ''cid'' ''e'' s of (r, s') \<Rightarrow>
        r = Inr () \<and> ListPendingDropOrphanPins s' 50 = [] \<and> ListPendingDropUnpins s' 50 = [])"
  by code_simp

section \<open>Deletion\<close>

lemma other_refs_0:
  "other_refs s f = 0 \<longleftrightarrow> (\<forall>g\<in>set (drop_files s). df_node_id g = df_node_id f \<and> df_cid g = df_cid f \<and> file_live g
     \<longrightarrow> df_id g = df_id f)"
  by (auto simp: other_refs_def row_count_0)

lemma other_refs_cong: "drop_files s' = drop_files s \<Longrightarrow> other_refs s' f = other_refs s f"
  by (simp add: other_refs_def)

text \<open>What marking a live file does, on the tables.\<close>

lemma mark_live_okE:
  assumes row: "find (\<lambda>f. df_id f = i) (drop_files s) = Some f" and live: "file_live f"
    and ok: "MarkDropFileDeletePending now i s = (Inr (b, g), s')"
  obtains qs' ps' where "g = f" "b \<longleftrightarrow> other_refs s f = 0"
    "if df_storage_scope f = DropScopePublic
      then adjust_quota (user_key (df_owner_user_id f)) (- df_size_bytes f) 0 (drop_quota_usages s) = Inr qs'
      else qs' = drop_quota_usages s"
    "s' = s\<lparr>drop_quota_usages := qs', drop_files := upd_rows (\<lambda>g. df_id g = i)
       (\<lambda>g. g\<lparr>df_status := DropFileDeletePending, df_deleted_at := Some now\<rparr>) (drop_files s), drop_pins := ps'\<rparr>"
proof -
  have id: "df_id f = i" using row by (auto dest: find_SomeD)
  have ne: "df_status f \<noteq> DropFileDeleted" "df_status f \<noteq> DropFileDeletePending"
    using live by (simp_all add: file_live_def)
  note body = ok [unfolded MarkDropFileDeletePending_def, THEN in_tx_okD]
  show ?thesis
  proof (cases "df_storage_scope f = DropScopePublic")
    case True
    from body row ne True obtain x s1 where a: "adjustQuotaTx DropPrincipalUser (df_owner_user_id f) (- df_size_bytes f) 0 s = (Inr x, s1)"
      by (auto elim!: seq_okE)
    from a obtain qs where q: "adjust_quota (user_key (df_owner_user_id f)) (- df_size_bytes f) 0 (drop_quota_usages s) = Inr qs"
      and s1: "s1 = s\<lparr>drop_quota_usages := qs\<rparr>" by (rule adjustQuotaTx_okE)
    have refs: "other_refs (s\<lparr>drop_quota_usages := qs\<rparr>) f = other_refs s f" by (rule other_refs_cong) simp
    from body row ne True a s1 q show ?thesis
      by (intro that [of qs "drop_pins s'"]) (auto simp: Let_def id refs)
  next
    case False
    with body row ne show ?thesis
      by (intro that [of "drop_quota_usages s" "drop_pins s'"]) (auto simp: Let_def id)
  qed
qed

text \<open>
  C17. Deleting a live file: a physical unpin is asked for exactly when no other live file on the
  node refers to the CID; a public file's size leaves the owner's used bytes; the file is
  delete-pending; and deleting it again changes nothing, so the bytes are released once.
\<close>

theorem mark_unpin_iff_last_reference:
  assumes reach: "drop_step\<^sup>*\<^sup>* empty_db s" and fl: "GetDropFile s i = Inr f" "df_status f = DropFileActive"
    and ok: "MarkDropFileDeletePending now i s = (Inr (b, g), s')"
  shows "(b \<longleftrightarrow> (\<forall>g\<in>set (drop_files s). df_node_id g = df_node_id f \<and> df_cid g = df_cid f \<and> file_live g \<longrightarrow> df_id g = i))
    \<and> dq_used_bytes (GetDropQuotaUsage s' DropPrincipalUser (df_owner_user_id f))
        = dq_used_bytes (GetDropQuotaUsage s DropPrincipalUser (df_owner_user_id f))
          - (if df_storage_scope f = DropScopePublic then df_size_bytes f else 0)
    \<and> (\<exists>h. GetDropFile s' i = Inr h \<and> df_status h = DropFileDeletePending)
    \<and> snd (MarkDropFileDeletePending now' i s') = s'"
proof -
  have inv: "drop_inv s" using reach by (rule reach_drop_inv)
  have row: "find (\<lambda>f. df_id f = i) (drop_files s) = Some f" using fl(1) by (simp add: GetDropFile_def split: option.splits)
  then have id: "df_id f = i" and mem: "f \<in> set (drop_files s)" by (auto dest: find_SomeD)
  have live: "file_live f" using fl(2) by (simp add: file_live_def)
  from mark_live_okE [OF row live ok] obtain qs' ps' where b: "b \<longleftrightarrow> other_refs s f = 0" and
    q: "if df_storage_scope f = DropScopePublic
      then adjust_quota (user_key (df_owner_user_id f)) (- df_size_bytes f) 0 (drop_quota_usages s) = Inr qs'
      else qs' = drop_quota_usages s" and
    s': "s' = s\<lparr>drop_quota_usages := qs', drop_files := upd_rows (\<lambda>g. df_id g = i)
       (\<lambda>g. g\<lparr>df_status := DropFileDeletePending, df_deleted_at := Some now\<rparr>) (drop_files s), drop_pins := ps'\<rparr>"
    by metis
  have ge: "w_file (df_owner_user_id f) f \<le> used_of (drop_quota_usages s) (df_owner_user_id f)"
    using balanced_ge [OF inv_okD(7,12) [OF inv] mem] .
  have used: "used_of qs' (df_owner_user_id f) = used_of (drop_quota_usages s) (df_owner_user_id f)
      - (if df_storage_scope f = DropScopePublic then df_size_bytes f else 0)"
    using q ge live used.bal_post [of "df_owner_user_id f" "- df_size_bytes f" 0 "drop_quota_usages s" qs']
    by (cases "df_storage_scope f = DropScopePublic") (simp_all add: w_file_def)
  let ?h = "f\<lparr>df_status := DropFileDeletePending, df_deleted_at := Some now\<rparr>"
  have h: "find (\<lambda>f. df_id f = i) (drop_files s') = Some ?h"
    using row find_upd_same [of df_id "\<lambda>g. g\<lparr>df_status := DropFileDeletePending, df_deleted_at := Some now\<rparr>" i "drop_files s"]
    by (simp add: s')
  then have again: "snd (MarkDropFileDeletePending now' i s') = s'"
    by (simp add: MarkDropFileDeletePending_def in_tx_def Let_def)
  from h have "\<exists>h. GetDropFile s' i = Inr h \<and> df_status h = DropFileDeletePending"
    by (simp add: GetDropFile_def)
  moreover have "dq_used_bytes (GetDropQuotaUsage s' DropPrincipalUser (df_owner_user_id f))
        = dq_used_bytes (GetDropQuotaUsage s DropPrincipalUser (df_owner_user_id f))
          - (if df_storage_scope f = DropScopePublic then df_size_bytes f else 0)"
    by (simp add: quota_view s' used)
  ultimately show ?thesis using b other_refs_0 [of s f] again by (simp only: id)
qed

definition demo4 :: db where
  "demo4 = snd (MarkDropFileDeletePending 10 ''f1'' demo3)"

theorem mark_unpin_iff_last_reference_witness:
  "dq_used_bytes (GetDropQuotaUsage demo4 DropPrincipalUser ''u1'') = 0
   \<and> snd (MarkDropFileDeletePending 11 ''f1'' demo4) = demo4"
proof -
  have fl: "GetDropFile demo3 ''f1'' = Inr demo_file" by code_simp
  have ok: "MarkDropFileDeletePending 10 ''f1'' demo3 = (Inr (True, demo_file), demo4)"
    unfolding demo4_def by code_simp
  have v: "df_owner_user_id demo_file = ''u1''" "df_size_bytes demo_file = 90" "df_storage_scope demo_file = DropScopePublic"
    "df_status demo_file = DropFileActive"
    by (simp_all add: demo_file_def demo_input_def new_upload_def file_of_upload_def)
  have "dq_used_bytes (GetDropQuotaUsage demo3 DropPrincipalUser ''u1'') = 90" by code_simp
  with mark_unpin_iff_last_reference [OF demo_reach fl v(4) ok, of 11] v show ?thesis by simp
qed

definition demo5 :: db where
  "demo5 = snd (CommitDropUpload 12 ''f2'' ''p2'' ''u1'' ''up2'' ''cid'' 90
     (snd (ReserveDropUpload 11 ''up2'' (demo_input\<lparr>ri_idempotency_key := ''k2''\<rparr>) demo4)))"

text \<open>
  The answer to a repeated deletion is not re-checked: after the only reference is marked
  and its unpin is still pending, a second upload of the same content commits, and marking the
  first file again still asks for the unpin although a live file on the node now needs the CID.
\<close>

theorem mark_again_stale_unpin:
  "CountActivePinRefs demo5 ''n1'' ''cid'' '''' = 1
   \<and> (case MarkDropFileDeletePending 13 ''f1'' demo5 of (Inr (b, _), _) \<Rightarrow> b | _ \<Rightarrow> False)"
  by code_simp

section \<open>The vault\<close>



lemma seq_keep:
  assumes "obs (snd r) = obs s" and "\<And>x t. obs t = obs s \<Longrightarrow> obs (snd (k x t)) = obs s"
  shows "obs (snd (seq r k)) = obs s"
  using assms by (cases r; cases "fst r") auto

lemma in_tx_keep: "(\<And>x t. body s = (Inr x, t) \<Longrightarrow> obs t = obs s) \<Longrightarrow> obs (snd (in_tx body s)) = obs s"
  by (rule in_tx_inv [of "\<lambda>t. obs t = obs s"]) simp_all

text \<open>The vault table is touched by nothing but the vault.\<close>

abbreviation vaults :: "db \<Rightarrow> drop_crypto_profile list" where "vaults \<equiv> drop_crypto_profiles"

lemma reserve_vaults: "vaults (snd (ReserveDropUpload now i inp s)) = vaults s"
proof -
  have open_r: "vaults t = vaults s" if "open_reservation now i inp r = (Inr u, t)" "vaults r = vaults s" for r t u
    using that unfolding open_reservation_def
    by (elim seq_okE) (auto split: if_splits elim!: reserve_quota_okE reserveNode_okE insert_upload_okE)
  show ?thesis
    unfolding ReserveDropUpload_def
    by (rule in_tx_keep) (auto split: option.splits if_splits elim!: seq_okE retire_key_okE dest: open_r)
qed

lemma commit_vaults: "vaults (snd (CommitDropUpload now fi pi userID uploadID cid n s)) = vaults s"
  unfolding CommitDropUpload_def
  by (rule in_tx_keep) (auto split: option.splits if_splits elim!: commit_open_okE)

lemma release_vaults: "vaults (snd (ReleaseDropReservation now uploadID st s)) = vaults s"
  unfolding ReleaseDropReservation_def
  by (rule in_tx_keep) (auto split: option.splits if_splits elim!: release_open_okE)

lemma fail_vaults: "vaults (snd (FailDropUploadWithOrphanPin now uploadID cid msg s)) = vaults s"
  using release_vaults [of now uploadID DropUploadFailed s]
  by (auto simp: FailDropUploadWithOrphanPin_def split: prod.splits sum.splits)

lemma release_all_vaults: "vaults (snd (release_all now ids s)) = vaults s"
proof (induction ids arbitrary: s)
  case (Cons i ids)
  then show ?case using release_vaults [of now i DropUploadExpired s] by (simp add: split_beta)
qed simp

lemma mark_vaults: "vaults (snd (MarkDropFileDeletePending now fileID s)) = vaults s"
  unfolding MarkDropFileDeletePending_def
  by (rule in_tx_keep) (auto simp: Let_def split: option.splits if_splits elim!: seq_okE adjustQuotaTx_okE)

lemma other_vaults:
  "vaults (ClearDropUploadOrphanPin now uploadID s) = vaults s"
  "vaults (snd (ExpireDropReservations now n s)) = vaults s"
  "vaults (snd (SetDropFileVisibility fileID userID v s)) = vaults s"
  "vaults (FinalizeDropFileDeletion now fileID unpinned s) = vaults s"
  "vaults (ApplyDropCapability now nodeID enabled acc web s) = vaults s"
  "vaults (ApplyDropStatus now nodeID state kubo repo smax objs s) = vaults s"
  "vaults (snd (DeleteOrg orgID s)) = vaults s"
  by (simp_all add: ClearDropUploadOrphanPin_def ExpireDropReservations_def release_all_vaults
      SetDropFileVisibility_def FinalizeDropFileDeletion_def ApplyDropCapability_def ApplyDropStatus_def
      DeleteOrg_def delete_org_cascade_def Let_def split: option.split)

lemmas op_vaults = reserve_vaults commit_vaults release_vaults fail_vaults mark_vaults other_vaults

lemma drop_step_vault: "drop_step s s' \<Longrightarrow> vault_version s u \<le> vault_version s' u"
proof (erule drop_step.cases, goal_cases)
  case (10 t userID pk ev kdf v)
  then show ?case using vault_put [of userID pk ev kdf v s u] by auto
qed (simp_all add: vault_version_def op_vaults)

interpretation vault: ordered_system drop_step drop_inv "\<lambda>s. vault_version s u" for u
  by unfold_locales (auto intro: drop_step_vault)

text \<open>
  A user's vault is never rolled back: along every run of the gateway the stored version
  only grows.
\<close>

theorem vault_never_rolled_back:
  assumes "drop_step\<^sup>*\<^sup>* s t" and "drop_inv s"
  shows "vault_version s u \<le> vault_version t u"
  using assms by (rule vault.reach_obs)

theorem vault_never_rolled_back_witness:
  "vault_version demo0 ''u1'' \<le> vault_version (snd (PutDropCryptoProfile ''u1'' ''pk'' ''v'' '''' 0 demo0)) ''u1''"
proof -
  have "drop_step demo0 (snd (PutDropCryptoProfile ''u1'' ''pk'' ''v'' '''' 0 demo0))" by (rule drop_step.vault)
  then have "drop_step\<^sup>*\<^sup>* demo0 (snd (PutDropCryptoProfile ''u1'' ''pk'' ''v'' '''' 0 demo0))" by simp
  moreover have "drop_inv demo0" by (rule drop_inv_elsewhere [OF drop_inv_empty]) (simp_all add: demo0_def)
  ultimately show ?thesis by (rule vault_never_rolled_back)
qed

end
