(* ===== verification/DropTiers.thy ===== *)
theory DropTiers
  imports DropSafety
begin

text \<open>
  Which tier a user's Drop storage has, how it relates to the VPN plan, and what node discovery
  promises to the reservation that follows it.
\<close>

section \<open>Tiers\<close>

lemma dropTierRank_seat: "dropTierRank x = seatTierRank x"
  by (simp add: dropTierRank_def dropTierOrder_def seatTierRank_def eq_commute [of x])

lemma NormalizeDropTier_tier: "NormalizeDropTier x = tier_name (plan_tier x)"
proof (cases "parse_tier x")
  case None
  then show ?thesis by (simp add: NormalizeDropTier_def dropTierRank_seat seatTierRank_parse plan_tier_def)
next
  case (Some t)
  then show ?thesis
    by (simp add: NormalizeDropTier_def dropTierRank_seat seatTierRank_parse plan_tier_def parse_tier_iff)
qed

lemma plan_tier_name [simp]: "plan_tier (tier_name t) = t"
  by (simp add: plan_tier_def)

lemma plan_case_tier: "plan_case x = tier_name (plan_tier x)"
proof (cases "parse_tier x")
  case None
  then show ?thesis using parse_tier_None [THEN iffD1, OF None] by (simp add: plan_case_def plan_tier_def)
next
  case (Some t)
  then have "x = tier_name t" by (rule parse_tier_Some)
  with Some show ?thesis by (cases t) (simp_all add: plan_case_def plan_tier_def)
qed

lemma rank_mono:
  assumes "seatTierRank x \<le> seatTierRank y"
  shows "plan_tier x \<le> plan_tier y"
  using assms by (auto simp: seatTierRank_parse plan_tier_def less_eq_tier_def split: option.splits)

text \<open>The tier a membership is worth: the plan's for the owner and operators, else the seat's.\<close>

definition membership_tier :: "member \<times> org \<Rightarrow> tier" where
  "membership_tier = (\<lambda>(m, x). if CanManageOrgNodes (m_role m) then plan_tier (o_plan x) else plan_tier (m_seat_tier m))"

lemma effective_tiers:
  "plan_tier (drop_effective_tier m x) = membership_tier (m, x)"
  "plan_tier (vpn_effective_tier m x) = membership_tier (m, x)"
  by (auto simp: drop_effective_tier_def vpn_effective_tier_def membership_tier_def CanManageOrgNodes_def
      plan_case_tier plan_tier_def parse_tier_def)

lemma first_order_desc:
  assumes "first_row (order_desc k t) = Some r"
  shows "r \<in> set t \<and> (\<forall>x\<in>set t. k x \<le> k r)"
proof -
  let ?u = "sort_key (\<lambda>r. - k r) t"
  from assms obtain u where u: "?u = r # u" by (auto simp: first_row_def order_desc_def split: list.splits)
  have st: "set t = set (r # u)" by (metis set_sort u)
  have "sorted (map (\<lambda>r. - k r) (r # u))" by (metis sorted_sort_key u)
  then show ?thesis unfolding st by auto
qed

lemma first_order_desc_None: "first_row (order_desc k t) = None \<longleftrightarrow> t = []"
proof -
  have "order_desc k t = [] \<longleftrightarrow> t = []"
    by (metis order_desc_def length_0_conv length_sort)
  then show ?thesis by (cases "order_desc k t") (auto simp: first_row_def)
qed

text \<open>The best of a list of memberships by rank is their best tier.\<close>

lemma best_tier:
  assumes "\<And>m x. plan_tier (eff m x) = membership_tier (m, x)"
    and "first_row (order_desc (\<lambda>p. seatTierRank (t p)) (map g ms)) = Some r"
    and "\<And>m x. t (g (m, x)) = eff m x"
  shows "plan_tier (t r) = Max (insert TFree (membership_tier ` set ms))"
proof -
  have top: "r \<in> set (map g ms)" "\<forall>p\<in>set (map g ms). seatTierRank (t p) \<le> seatTierRank (t r)"
    using first_order_desc [OF assms(2)] by auto
  have tier: "plan_tier (t (g mx)) = membership_tier mx" for mx
    by (cases mx) (simp add: assms(1,3))
  have upper: "membership_tier mx \<le> plan_tier (t r)" if "mx \<in> set ms" for mx
  proof -
    have "seatTierRank (t (g mx)) \<le> seatTierRank (t r)" using top(2) that by auto
    from rank_mono [OF this] show ?thesis by (simp add: tier)
  qed
  have free: "TFree \<le> y" for y by (simp add: less_eq_tier_def)
  have mem: "plan_tier (t r) \<in> membership_tier ` set ms" using top(1) by (auto simp: tier)
  show ?thesis
    by (rule Max_eqI [symmetric]) (use upper free mem in auto)
qed

lemma best_drop:
  "(case first_row (order_desc (\<lambda>(_, t). seatTierRank t)
       (map (\<lambda>(m, x). (o_id x, drop_effective_tier m x)) (active_memberships s u))) of
     None \<Rightarrow> SeatTierFree | Some (_, t) \<Rightarrow> NormalizeDropTier t)
   = tier_name (Max (insert TFree (membership_tier ` set (active_memberships s u))))"
proof -
  let ?g = "\<lambda>(m, x). (o_id x, drop_effective_tier m x)"
  let ?ms = "active_memberships s u"
  let ?best = "first_row (order_desc (\<lambda>p. seatTierRank (snd p)) (map ?g ?ms))"
  have eq: "(\<lambda>(_, t). seatTierRank t) = (\<lambda>p. seatTierRank (snd p))" by auto
  show ?thesis
  proof (cases ?best)
    case None
    then have "?ms = []" by (simp add: first_order_desc_None)
    with None show ?thesis by (simp add: eq)
  next
    case (Some r)
    have "plan_tier (snd r) = Max (insert TFree (membership_tier ` set ?ms))"
      by (rule best_tier [OF effective_tiers(1) Some]) simp
    with Some show ?thesis by (cases r) (simp add: NormalizeDropTier_tier eq)
  qed
qed

lemma best_vpn:
  "plan_tier (UserOrgVPNPlan s u) = Max (insert TFree (membership_tier ` set (active_memberships s u)))"
proof (cases "first_row (order_desc seatTierRank (map (\<lambda>(m, x). vpn_effective_tier m x) (active_memberships s u)))")
  case None
  then have "active_memberships s u = []" by (simp add: first_order_desc_None)
  then show ?thesis by (simp add: UserOrgVPNPlan_def first_row_def order_desc_def plan_tier_def parse_tier_def)
next
  case (Some r)
  have "plan_tier r = Max (insert TFree (membership_tier ` set (active_memberships s u)))"
    by (rule best_tier [where t = "\<lambda>x. x", OF effective_tiers(2)]) (use Some in auto)
  with Some show ?thesis by (simp add: UserOrgVPNPlan_def)
qed

lemma Normalize_name [simp]: "NormalizeDropTier (tier_name t) = tier_name t"
  by (simp add: NormalizeDropTier_tier)

text \<open>
  The Drop entitlement is the best the user's organizations give: the tier is the maximum,
  over the active memberships in organizations with active billing, of the plan's tier (for owners
  and node operators) or the seat's tier, and \<open>free\<close> for a user with none; quota and file ceiling
  are those of that tier.
\<close>

theorem drop_tier_is_best_membership:
  "de_tier (ResolveDropEntitlement s u)
     = tier_name (Max (insert TFree (membership_tier ` set (active_memberships s u))))
   \<and> de_public_storage_bytes (ResolveDropEntitlement s u)
     = tl_public_storage_bytes (GetDropTierLimit s (de_tier (ResolveDropEntitlement s u)))
   \<and> de_max_file_bytes (ResolveDropEntitlement s u)
     = tl_max_file_bytes (GetDropTierLimit s (de_tier (ResolveDropEntitlement s u)))"
  by (simp add: ResolveDropEntitlement_def Let_def best_drop)

text \<open>
  The two resolvers of a user's organization entitlement agree: the tier of the VPN plan is
  the tier of the Drop entitlement.
\<close>

theorem vpn_plan_agrees_with_drop_tier:
  "NormalizeDropTier (UserOrgVPNPlan s u) = de_tier (ResolveDropEntitlement s u)"
  by (simp add: ResolveDropEntitlement_def Let_def best_drop best_vpn NormalizeDropTier_tier [of "UserOrgVPNPlan s u"])

text \<open>
  A better tier never has less storage: on the limits the migration seeds, and on the
  built-in ones used when a row is missing, the quota grows with the tier.
\<close>

theorem quota_monotone_in_tier:
  assumes "drop_tier_limits s = seeded_tier_limits \<or> drop_tier_limits s = []" and "a \<le> b"
  shows "tl_public_storage_bytes (GetDropTierLimit s (tier_name a)) \<le> tl_public_storage_bytes (GetDropTierLimit s (tier_name b))
    \<and> DropQuotaFreeBytes \<le> tl_public_storage_bytes (GetDropTierLimit s (tier_name a))"
proof -
  have v: "tl_public_storage_bytes (GetDropTierLimit s (tier_name t)) =
      (case t of TFree \<Rightarrow> 500000000 | TStarter \<Rightarrow> 1000000000 | TPro \<Rightarrow> 5000000000 | _ \<Rightarrow> 10000000000)" for t
    using assms(1)
    by (cases t) (auto simp: GetDropTierLimit_def seeded_tier_limits_def DefaultDropQuotaBytes_def
        Normalize_name [of TFree, simplified] Normalize_name [of TStarter, simplified]
        Normalize_name [of TPro, simplified] Normalize_name [of TBusiness, simplified]
        Normalize_name [of TEnterprise, simplified]
        DropQuotaFreeBytes_def DropQuotaStarterBytes_def DropQuotaProBytes_def DropQuotaBusinessBytes_def)
  from assms(2) show ?thesis
    unfolding v by (cases a; cases b) (simp_all add: less_eq_tier_def DropQuotaFreeBytes_def)
qed

theorem quota_monotone_in_tier_witness:
  "tl_public_storage_bytes (GetDropTierLimit demo0 ''starter'') \<le> tl_public_storage_bytes (GetDropTierLimit demo0 ''pro'')"
proof -
  have "drop_tier_limits demo0 = seeded_tier_limits" by (simp add: demo0_def empty_db_def)
  with quota_monotone_in_tier [of demo0 TStarter TPro] show ?thesis by (simp add: less_eq_tier_def)
qed

section \<open>Discovery\<close>

text \<open>
  The coarse capacity a client sees is the node's remaining capacity: \<open>unknown\<close> exactly when
  the remaining capacity is reported as -1, \<open>full\<close> exactly when it is 0, \<open>limited\<close> exactly when
  less than a tenth of the maximum is left.
\<close>

theorem coarse_capacity_buckets:
  assumes "in_i64 (ns_storage_max_bytes d - ns_repo_size_bytes d)"
    and "in_i64 (ns_storage_max_bytes d - ns_repo_size_bytes d - ns_reserved_bytes d)"
    and "in_i64 (10 * (ns_storage_max_bytes d - ns_repo_size_bytes d - ns_reserved_bytes d))"
  shows "let c = coarseCapacity (ns_storage_max_bytes d) (ns_repo_size_bytes d) (ns_reserved_bytes d);
             a = AvailableDropCapacityBytes d
         in (c = DropCapacityUnknown \<longleftrightarrow> a = -1) \<and> (c = DropCapacityFull \<longleftrightarrow> a = 0)
          \<and> (c = DropCapacityLimited \<longleftrightarrow> 0 < a \<and> 10 * a < ns_storage_max_bytes d)
          \<and> (c = DropCapacityAvailable \<longleftrightarrow> 0 < a \<and> ns_storage_max_bytes d \<le> 10 * a)"
proof -
  let ?m = "ns_storage_max_bytes d"
  define a where "a = ns_storage_max_bytes d - ns_repo_size_bytes d - ns_reserved_bytes d"
  have w: "wrap64 (wrap64 (?m - ns_repo_size_bytes d) - ns_reserved_bytes d) = a" "wrap64 (a * 10) = 10 * a"
    using assms by (simp_all add: a_def [symmetric] mult.commute [of a])
  have c: "coarseCapacity ?m (ns_repo_size_bytes d) (ns_reserved_bytes d) =
      (if ?m \<le> 0 then DropCapacityUnknown else if a \<le> 0 then DropCapacityFull
       else if 10 * a < ?m then DropCapacityLimited else DropCapacityAvailable)"
    by (simp add: coarseCapacity_def Let_def w)
  have av: "AvailableDropCapacityBytes d = (if ?m \<le> 0 then -1 else if a < 0 then 0 else a)"
    by (simp add: AvailableDropCapacityBytes_def Let_def w)
  consider "?m \<le> 0" | "0 < ?m" "a \<le> 0" | "0 < ?m" "0 < a" "10 * a < ?m" | "0 < ?m" "0 < a" "?m \<le> 10 * a"
    by linarith
  then show ?thesis by cases (simp_all add: c av Let_def)
qed

theorem coarse_capacity_buckets_witness:
  "\<exists>d. GetNodeDropStatus demo1 ''n1'' = Inr d \<and> AvailableDropCapacityBytes d = 990
     \<and> coarseCapacity (ns_storage_max_bytes d) (ns_repo_size_bytes d) (ns_reserved_bytes d) = DropCapacityAvailable"
proof -
  define d where "d = hd (node_drop_statuses demo1)"
  have g: "GetNodeDropStatus demo1 ''n1'' = Inr d" unfolding d_def by code_simp
  have v: "ns_storage_max_bytes d = 1000" "ns_repo_size_bytes d = 10" "ns_reserved_bytes d = 0"
    unfolding d_def by code_simp+
  have "coarseCapacity (ns_storage_max_bytes d) (ns_repo_size_bytes d) (ns_reserved_bytes d) = DropCapacityAvailable"
    using coarse_capacity_buckets [of d] v by (simp add: in_i64_def AvailableDropCapacityBytes_def Let_def)
  moreover have "AvailableDropCapacityBytes d = 990" using v by (simp add: AvailableDropCapacityBytes_def wrap64_def Let_def)
  ultimately show ?thesis using g by blast
qed

lemma listed_node:
  assumes "di \<in> set (ListDropNodes s scope orgID)"
  obtains d n where "d \<in> set (node_drop_statuses s)" "n \<in> set (nodes s)" "n_peer_id n = ns_node_id d"
    "di = drop_node_view scope d n" "ns_enabled d"
    "if scope = DropScopePrivateOrg then n_org_id n = orgID
     else n_access_mode n = ''public'' \<and> n_status n = ''online'' \<and> ns_accepts_public_uploads d"
  using assms by (auto simp: ListDropNodes_def split: if_splits)

text \<open>
  Discovery never hides a private node's files behind the public list: what is listed for an
  organization belongs to it, and what is listed publicly is an online public node that accepts
  public uploads.
\<close>

theorem discovery_respects_scope:
  assumes "di \<in> set (ListDropNodes s scope orgID)"
  shows "if scope = DropScopePrivateOrg then di_org_id di = orgID
     else di_access_mode di = NodeAccessPublic \<and> di_online di \<and> di_accepts_public_uploads di"
  using assms by (rule listed_node) (simp add: drop_node_view_def Let_def split: if_splits)

theorem discovery_respects_scope_witness:
  "\<exists>di. di \<in> set (ListDropNodes demo1 DropScopePublic '''') \<and> di_access_mode di = NodeAccessPublic \<and> di_online di"
proof -
  have "ListDropNodes demo1 DropScopePublic '''' \<noteq> []" by code_simp
  then obtain di where "di \<in> set (ListDropNodes demo1 DropScopePublic '''')" by fastforce
  moreover from discovery_respects_scope [OF this] have "di_access_mode di = NodeAccessPublic \<and> di_online di" by simp
  ultimately show ?thesis by blast
qed

text \<open>
  What discovery advertises can be reserved: a node listed as accepting uploads, at a moment
  when nothing else changes it, takes a reservation of any size within its remaining capacity
  (of any size when its capacity is unknown).
\<close>

theorem advertised_node_accepts:
  assumes listed: "di \<in> set (ListDropNodes s scope orgID)" "di_accepting_uploads di"
    and keys: "distinct (map ns_node_id (node_drop_statuses s))" "distinct (map n_peer_id (nodes s))"
    and st: "GetNodeDropStatus s (di_node_id di) = Inr d" "size_ok (ns_reserved_bytes d)" "size_ok (ns_repo_size_bytes d)"
      "in_i64 (ns_repo_size_bytes d + ns_reserved_bytes d)" "in_i64 (ns_storage_max_bytes d)"
    and scope: "scope = DropScopePublic \<or> scope = DropScopePrivateOrg"
    and b: "0 < b" "in_i64 (ns_reserved_bytes d + b)"
      "AvailableDropCapacityBytes d = -1 \<or> b \<le> AvailableDropCapacityBytes d"
  shows "fst (reserveNodeCapacityTx (di_node_id di) scope b s) = Inr ()"
proof -
  from listed(1) obtain e n where e: "e \<in> set (node_drop_statuses s)" and n: "n \<in> set (nodes s)"
    and join: "n_peer_id n = ns_node_id e" and di: "di = drop_node_view scope e n" and en: "ns_enabled e"
    by (rule listed_node)
  have id: "di_node_id di = ns_node_id e" by (simp add: di drop_node_view_def join Let_def)
  have fe: "find (\<lambda>x. ns_node_id x = ns_node_id e) (node_drop_statuses s) = Some e"
    by (rule find_key_unique [OF keys(1) e refl])
  have fn: "find (\<lambda>x. n_peer_id x = ns_node_id e) (nodes s) = Some n"
    by (rule find_key_unique [OF keys(2) n join])
  have ed: "e = d" using st(1) fe by (simp add: GetNodeDropStatus_def id)
  have acc: "n_status n = ''online''" "ns_state d = DropStateActive"
    "scope = DropScopePrivateOrg \<or> ns_accepts_public_uploads d"
    using listed(2) ed by (auto simp: di drop_node_view_def Let_def)
  have cap: "wrap64 (wrap64 (ns_repo_size_bytes d + ns_reserved_bytes d) + b) \<le> ns_storage_max_bytes d"
    if pos: "0 < ns_storage_max_bytes d"
  proof -
    have "in_i64 (ns_storage_max_bytes d - ns_repo_size_bytes d)"
      "in_i64 (ns_storage_max_bytes d - ns_repo_size_bytes d - ns_reserved_bytes d)"
      using pos st(2-5) by (auto simp: size_ok_def in_i64_def)
    then have "AvailableDropCapacityBytes d =
        (let a = ns_storage_max_bytes d - ns_repo_size_bytes d - ns_reserved_bytes d in if a < 0 then 0 else a)"
      using pos by (simp add: AvailableDropCapacityBytes_def Let_def)
    with b have le: "ns_repo_size_bytes d + ns_reserved_bytes d + b \<le> ns_storage_max_bytes d"
      by (auto simp: Let_def split: if_splits)
    have "in_i64 (ns_repo_size_bytes d + ns_reserved_bytes d + b)"
      using le st b(1) by (auto simp: size_ok_def in_i64_def)
    with le st(4) show ?thesis by simp
  qed
  have hold: "hold_node (ns_node_id e) b (node_drop_statuses s) \<noteq> Inl x" for x
    using fe ed b(1,2) st(2) by (simp add: hold_node_def pg_bigint_def size_ok_def)
  then obtain t where "hold_node (ns_node_id e) b (node_drop_statuses s) = Inr t"
    by (cases "hold_node (ns_node_id e) b (node_drop_statuses s)") auto
  with fe fn ed en acc cap scope show ?thesis
    by (auto simp: reserveNodeCapacityTx_def id not_less)
qed

theorem advertised_node_accepts_witness:
  "fst (reserveNodeCapacityTx ''n1'' DropScopePublic 990 demo1) = Inr ()"
proof -
  let ?d = "\<lparr>ns_node_id = ''n1'', ns_enabled = True, ns_accepts_public_uploads = True, ns_webui_available = False,
    ns_state = ''active'', ns_kubo_version = '''', ns_repo_size_bytes = 10, ns_storage_max_bytes = 1000,
    ns_num_objects = 0, ns_reserved_bytes = 0, ns_last_reported_at = Some 1\<rparr>"
  let ?di = "drop_node_view DropScopePublic ?d demo_node"
  have listed: "?di \<in> set (ListDropNodes demo1 DropScopePublic '''')" by code_simp
  have acc: "di_accepting_uploads ?di" by code_simp
  have id: "di_node_id ?di = ''n1''" by code_simp
  have keys: "distinct (map ns_node_id (node_drop_statuses demo1))" "distinct (map n_peer_id (nodes demo1))"
    by code_simp+
  have st: "GetNodeDropStatus demo1 (di_node_id ?di) = Inr ?d" unfolding id by code_simp
  show ?thesis
    using advertised_node_accepts [OF listed acc keys st, of 990] id
    by (simp add: size_ok_def in_i64_def AvailableDropCapacityBytes_def Let_def)
qed

end
