(* ===== verification/OrgSafety.thy ===== *)
theory OrgSafety
  imports Orgs
begin

text \<open>
  What the organization operations guarantee: every organization keeps exactly one owner,
  new organizations are complete and have a free, well-formed slug, entitlements follow the plan,
  paid seats stay within the plan's number, and deletion leaves no dangling reference.
\<close>

section \<open>Exactly one owner\<close>

definition owner_row :: "id \<Rightarrow> member \<Rightarrow> bool" where
  "owner_row orgID m \<longleftrightarrow> m_org_id m = orgID \<and> m_role m = OrgRoleOwner"

definition member_key :: "member \<Rightarrow> id \<times> id" where
  "member_key m = (m_org_id m, m_user_id m)"

definition member_view :: "member \<Rightarrow> id \<times> id \<times> string \<times> string" where
  "member_view m = (m_org_id m, m_user_id m, m_role m, m_status m)"

text \<open>The owner rows of an organization are one active row, of the user the organization names.\<close>

definition one_owner :: "member list \<Rightarrow> org \<Rightarrow> bool" where
  "one_owner t x \<longleftrightarrow> map member_view (filter (owner_row (o_id x)) t)
     = [(o_id x, o_owner_user_id x, OrgRoleOwner, MemberStatusActive)]"

definition owner_inv :: "db \<Rightarrow> bool" where
  "owner_inv s \<longleftrightarrow> distinct (map o_id (orgs s)) \<and> distinct (map member_key (org_members s))
     \<and> (\<forall>m\<in>set (org_members s). fk_org s (m_org_id m)) \<and> (\<forall>x\<in>set (orgs s). one_owner (org_members s) x)"

lemma filter_view:
  assumes "map v t' = map v t" and "\<And>r r'. v r' = v r \<Longrightarrow> q r' = q r"
  shows "map v (filter q t') = map v (filter q t)"
  using assms(1)
proof (induction t arbitrary: t')
  case Nil
  then show ?case by simp
next
  case (Cons x t)
  then obtain y u where t': "t' = y # u" "v y = v x" "map v u = map v t" by auto
  have "q y = q x" using t'(2) by (rule assms(2))
  with Cons.IH [OF t'(3)] t' show ?case by simp
qed

lemma one_owner_view: "map member_view t' = map member_view t \<Longrightarrow> one_owner t' x = one_owner t x"
  using filter_view [of member_view t' t "owner_row (o_id x)"]
  by (simp add: one_owner_def owner_row_def member_view_def)

lemma key_view: "map member_view t' = map member_view t \<Longrightarrow> map member_key t' = map member_key t"
  by (erule map_view [of _ _ _ _ "\<lambda>(a, b, _). (a, b)"]) (simp add: member_key_def member_view_def)

lemma one_owner_cong: "o_id y = o_id x \<Longrightarrow> o_owner_user_id y = o_owner_user_id x \<Longrightarrow> one_owner t y = one_owner t x"
  by (simp add: one_owner_def)

lemma fk_org_ids: "fk_org s y \<longleftrightarrow> y \<in> set (map o_id (orgs s))"
  by (auto simp: fk_org_def has_row_iff)

text \<open>Updates of the organizations that keep identity and owner, and of members that keep the view.\<close>

lemma owner_inv_frame:
  assumes inv: "owner_inv s" and mem: "map member_view (org_members s') = map member_view (org_members s)"
    and os: "map (\<lambda>x. (o_id x, o_owner_user_id x)) (orgs s') = map (\<lambda>x. (o_id x, o_owner_user_id x)) (orgs s)"
  shows "owner_inv s'"
proof -
  let ?v = "\<lambda>x. (o_id x, o_owner_user_id x)"
  have ids: "map o_id (orgs s') = map o_id (orgs s)"
    using arg_cong [OF os, of "map fst"] by (simp add: comp_def)
  have fk: "fk_org s' y = fk_org s y" for y by (simp add: fk_org_ids ids del: set_map)
  have org_ids: "set (map m_org_id (org_members s')) = set (map m_org_id (org_members s))"
    using arg_cong [OF mem, of "\<lambda>l. set (map fst l)"] by (simp add: member_view_def comp_def image_image)
  have fks: "\<forall>m\<in>set (org_members s'). fk_org s' (m_org_id m)"
  proof
    fix m assume "m \<in> set (org_members s')"
    then have "m_org_id m \<in> set (map m_org_id (org_members s))" unfolding org_ids [symmetric] by simp
    with inv show "fk_org s' (m_org_id m)" by (auto simp: owner_inv_def fk)
  qed
  have one: "one_owner (org_members s') x" if "x \<in> set (orgs s')" for x
  proof -
    have "?v x \<in> set (map ?v (orgs s))" unfolding os [symmetric] using that by auto
    then obtain y where y: "y \<in> set (orgs s)" "o_id x = o_id y" "o_owner_user_id x = o_owner_user_id y" by auto
    with inv have "one_owner (org_members s) y" by (simp add: owner_inv_def)
    then show ?thesis by (simp add: one_owner_view [OF mem] one_owner_cong [OF y(2,3)])
  qed
  show ?thesis using inv fks one by (simp add: owner_inv_def ids key_view [OF mem])
qed

text \<open>Updates of members that touch no owner row and make none.\<close>

lemma owner_inv_upd:
  assumes inv: "owner_inv s"
    and f: "\<And>m. m_org_id (f m) = m_org_id m" "\<And>m. m_user_id (f m) = m_user_id m"
    and no: "\<And>m. m \<in> set (org_members s) \<Longrightarrow> p m \<Longrightarrow> m_role m \<noteq> OrgRoleOwner \<and> m_role (f m) \<noteq> OrgRoleOwner"
  shows "owner_inv (s\<lparr>org_members := upd_rows p f (org_members s)\<rparr>)"
proof -
  have "map member_key (upd_rows p f (org_members s)) = map member_key (org_members s)"
    using f by (simp add: map_key_upd member_key_def)
  moreover have "one_owner (upd_rows p f (org_members s)) x = one_owner (org_members s) x" for x
    using no f by (simp add: one_owner_def filter_upd_other owner_row_def)
  moreover have "\<forall>m\<in>set (upd_rows p f (org_members s)). fk_org s (m_org_id m)"
    using inv f by (auto simp: owner_inv_def set_upd_rows)
  ultimately show ?thesis using inv by (simp add: owner_inv_def fk_org_def)
qed

text \<open>The row of a user in an organization is unique.\<close>

lemma member_unique:
  assumes "owner_inv s" and "m \<in> set (org_members s)" "m' \<in> set (org_members s)"
    and "m_org_id m = m_org_id m'" "m_user_id m = m_user_id m'"
  shows "m = m'"
  using assms by (auto simp: owner_inv_def distinct_map inj_on_def member_key_def)

lemma AssignSeat_owner: "owner_inv s \<Longrightarrow> owner_inv (snd (AssignSeat now orgID userID seat s))"
  by (erule owner_inv_frame)
    (auto simp: AssignSeat_def Let_def member_view_def upd_rows_def split: sum.splits option.splits if_splits)

lemma RevokeSeat_owner:
  assumes inv: "owner_inv s"
  shows "owner_inv (snd (RevokeSeat now orgID userID s))"
proof (cases "find (active_at orgID userID) (org_members s)")
  case None
  with inv show ?thesis by (simp add: RevokeSeat_def)
next
  case (Some cur)
  then have cur: "cur \<in> set (org_members s)" "active_at orgID userID cur" by (auto dest: find_SomeD)
  show ?thesis
  proof (cases "m_role cur = OrgRoleOwner")
    case True
    with Some inv show ?thesis by (simp add: RevokeSeat_def)
  next
    case False
    have "m_role m \<noteq> OrgRoleOwner" if "m \<in> set (org_members s)" "active_at orgID userID m" for m
      using member_unique [OF inv that(1) cur(1)] that(2) cur(2) False by auto
    with Some False show ?thesis by (simp add: RevokeSeat_def) (rule owner_inv_upd [OF inv], auto)
  qed
qed

lemma PatchMember_owner:
  assumes inv: "owner_inv s" and role: "normalizeOrgRole role \<noteq> OrgRoleOwner"
  shows "owner_inv (snd (PatchMember now orgID memberID role seat s))"
proof (cases "GetMemberByID s orgID memberID")
  case (Inl e)
  with inv show ?thesis by (simp add: PatchMember_def)
next
  case (Inr cur)
  show ?thesis
  proof (cases "m_role cur = OrgRoleOwner")
    case True
    with Inr inv show ?thesis by (simp add: PatchMember_def)
  next
    case False
    have "(if role \<noteq> '''' then normalizeOrgRole role else m_role cur) \<noteq> OrgRoleOwner" using False role by simp
    then show ?thesis
      using Inr False inv
      by (auto simp: PatchMember_def Let_def split: sum.splits option.splits intro!: owner_inv_upd [OF inv])
  qed
qed

lemma remove_rows_owner:
  assumes inv: "owner_inv s" and p: "\<And>m. p m \<Longrightarrow> m_role m \<noteq> OrgRoleOwner"
  shows "owner_inv (snd (remove_rows now p s))"
  using inv p by (auto simp: remove_rows_def intro!: owner_inv_upd [OF inv])

lemma RemoveMember_owner:
  "owner_inv s \<Longrightarrow> owner_inv (snd (RemoveMember now orgID userID s))"
  "owner_inv s \<Longrightarrow> owner_inv (snd (RemoveMemberByID now orgID memberID s))"
  by (auto simp: RemoveMember_def RemoveMemberByID_def intro!: remove_rows_owner)

text \<open>The upserts of an invite or an added member, when the user is not the owner.\<close>

definition not_owner :: "db \<Rightarrow> id \<Rightarrow> id \<Rightarrow> bool" where
  "not_owner s orgID userID \<longleftrightarrow> \<not> has_row (\<lambda>m. member_at orgID userID m \<and> m_role m = OrgRoleOwner) (org_members s)"

lemma upsert_member_owner:
  assumes inv: "owner_inv s" and new: "m_role new \<noteq> OrgRoleOwner" and no: "not_owner s (m_org_id new) (m_user_id new)"
  shows "owner_inv (snd (upsert_member now st new s))"
proof (cases "find (member_at (m_org_id new) (m_user_id new)) (org_members s)")
  case (Some old)
  then show ?thesis using new no
    by (auto simp: upsert_member_def Let_def not_owner_def has_row_iff intro!: owner_inv_upd [OF inv])
next
  case None
  show ?thesis
  proof (cases "insert_member new s")
    case (Pair r s1)
    show ?thesis
    proof (cases r)
      case (Inl e)
      with None Pair inv show ?thesis by (auto simp: upsert_member_def insert_member_def split: if_splits)
    next
      case (Inr u)
      with Pair have "s1 = s\<lparr>org_members := org_members s @ [new]\<rparr>" "fk_org s (m_org_id new)"
        "member_key new \<notin> member_key ` set (org_members s)"
        by (auto simp: insert_member_def has_row_iff member_key_def split: if_splits)
      moreover have "\<not> owner_row y new" for y using new by (simp add: owner_row_def)
      ultimately show ?thesis using None Pair Inr inv
        by (simp add: upsert_member_def owner_inv_def one_owner_def fk_org_def)
    qed
  qed
qed

lemma InviteMember_owner:
  assumes "owner_inv s" and "normalizeOrgRole role \<noteq> OrgRoleOwner" and "not_owner s orgID userID"
  shows "owner_inv (snd (InviteMember now newID orgID userID role seat s))"
  using assms by (auto simp: InviteMember_def Let_def split: sum.split intro!: upsert_member_owner)

lemma AddMember_owner:
  assumes "owner_inv s" and "normalizeOrgRole role \<noteq> OrgRoleOwner" and "not_owner s orgID userID"
  shows "owner_inv (snd (AddMember now newID orgID userID role s))"
proof -
  have k: "owner_inv (snd (seq (upsert_member now st new s) (\<lambda>_ s. (Inr (), s))))"
    if "m_role new \<noteq> OrgRoleOwner" "not_owner s (m_org_id new) (m_user_id new)" for st new
    using upsert_member_owner [OF assms(1) that, of now st]
    by (cases "upsert_member now st new s"; cases "fst (upsert_member now st new s)") auto
  show ?thesis
    using assms by (auto simp: AddMember_def Let_def split: sum.split option.split intro!: k)
qed

lemma map_upd_keep: "(\<And>x. v (f x) = v x) \<Longrightarrow> map v (upd_rows p f t) = map v t"
  by (rule map_view_upd)

lemma UpdateOrg_owner: "owner_inv s \<Longrightarrow> owner_inv (snd (UpdateOrg now suffix orgID inp s))"
  by (erule owner_inv_frame) (auto simp: UpdateOrg_def Let_def map_upd_keep split: sum.split)

lemma SetOrgVerificationStatus_owner: "owner_inv s \<Longrightarrow> owner_inv (snd (SetOrgVerificationStatus now orgID st s))"
  by (erule owner_inv_frame) (auto simp: SetOrgVerificationStatus_def Let_def map_upd_keep)

lemma upsert_entitlement_okE:
  assumes "upsert_entitlement e s = (Inr x, s')"
  obtains es where "s' = s\<lparr>org_entitlements := es\<rparr>" "find (\<lambda>r. oe_org_id r = oe_org_id e) es = Some e"
    "\<And>y. y \<noteq> oe_org_id e \<Longrightarrow> find (\<lambda>r. oe_org_id r = y) es = find (\<lambda>r. oe_org_id r = y) (org_entitlements s)"
proof (cases "has_row (\<lambda>r. oe_org_id r = oe_org_id e) (org_entitlements s)")
  case True
  let ?t = "org_entitlements s"
  let ?es = "upd_rows (\<lambda>r. oe_org_id r = oe_org_id e) (\<lambda>_. e) ?t"
  have "find (\<lambda>r. oe_org_id r = oe_org_id e) (upd_rows (\<lambda>r. oe_org_id r = oe_org_id e) (\<lambda>_. e) t) = Some e"
    if "\<exists>r\<in>set t. oe_org_id r = oe_org_id e" for t
    using that by (induction t) (auto simp: upd_rows_def)
  moreover have "find (\<lambda>r. oe_org_id r = y) (upd_rows (\<lambda>r. oe_org_id r = oe_org_id e) (\<lambda>_. e) t)
      = find (\<lambda>r. oe_org_id r = y) t" if "y \<noteq> oe_org_id e" for y t
    using that by (induction t) (auto simp: upd_rows_def)
  moreover have "s' = s\<lparr>org_entitlements := ?es\<rparr>" using assms True by (simp add: upsert_entitlement_def)
  ultimately show ?thesis using True by (intro that [of ?es]) (auto simp: has_row_iff)
next
  case False
  then have "find (\<lambda>r. oe_org_id r = oe_org_id e) (org_entitlements s) = None"
    by (simp add: has_row_iff find_None_iff)
  with assms False show ?thesis
    by (intro that [of "org_entitlements s @ [e]"])
      (auto simp: upsert_entitlement_def find_append split: if_splits option.splits)
qed

lemma SetOrgPlan_owner:
  assumes inv: "owner_inv s"
  shows "owner_inv (snd (SetOrgPlan now orgID plan s))"
proof (cases "normalizeOrgPlan plan")
  case (Inl e)
  with inv show ?thesis by (simp add: SetOrgPlan_def)
next
  case (Inr p)
  have "owner_inv (snd (in_tx (SetOrgPlan_tx now orgID p) s))"
  proof (rule in_tx_inv [of owner_inv, OF inv])
    fix x s' assume "SetOrgPlan_tx now orgID p s = (Inr x, s')"
    then show "owner_inv s'"
      by (intro owner_inv_frame [OF inv])
        (auto simp: SetOrgPlan_tx_def Let_def map_upd_keep member_view_def split: option.splits
          elim!: seq_okE upsert_entitlement_okE)
  qed
  with Inr show ?thesis by (simp add: SetOrgPlan_def)
qed

lemma DeleteOrg_owner:
  assumes inv: "owner_inv s"
  shows "owner_inv (snd (DeleteOrg orgID s))"
proof -
  have "filter (owner_row y) (del_rows (\<lambda>m. m_org_id m = orgID) t) = filter (owner_row y) t" if "y \<noteq> orgID" for y t
    using that by (induction t) (auto simp: del_rows_def owner_row_def)
  with inv show ?thesis
    by (auto simp: DeleteOrg_def delete_org_cascade_def owner_inv_def one_owner_def del_rows_def fk_org_def has_row_iff
        distinct_map_filter) metis
qed

subsection \<open>Transfer\<close>

lemma TransferOrgOwnership_okE:
  assumes "TransferOrgOwnership now orgID fromU toU s = (Inr x, s')"
  obtains a b y seat where
    "find (active_at orgID fromU) (org_members s) = Some a" "m_role a = OrgRoleOwner"
    "find (active_at orgID toU) (org_members s) = Some b" "m_role b = OrgRoleNodeOperator"
    "GetOrg s orgID = Inr y" "seat = ownerSeatTierForPlan (o_plan y)"
    "s' = s\<lparr>org_members := upd_rows (member_at orgID toU)
         (\<lambda>m. m\<lparr>m_role := ''owner'', m_seat_tier := seat, m_updated_at := now\<rparr>)
         (upd_rows (member_at orgID fromU)
            (\<lambda>m. m\<lparr>m_role := OrgRoleNodeOperator, m_seat_tier := seat, m_updated_at := now\<rparr>) (org_members s)),
       orgs := upd_rows (\<lambda>x. o_id x = orgID) (\<lambda>x. x\<lparr>o_owner_user_id := toU, o_updated_at := now\<rparr>) (orgs s)\<rparr>"
proof -
  note body = assms [unfolded TransferOrgOwnership_def, THEN in_tx_okD, unfolded TransferOrgOwnership_tx_def]
  from body obtain a where a: "find (active_at orgID fromU) (org_members s) = Some a" "m_role a = OrgRoleOwner"
    by (auto split: option.splits if_splits)
  from body a obtain b where b: "find (active_at orgID toU) (org_members s) = Some b" "m_role b = OrgRoleNodeOperator"
    by (auto split: option.splits if_splits)
  from body a b obtain y where y: "GetOrg s orgID = Inr y"
    by (auto split: sum.splits)
  from body a b y show ?thesis by (intro that [of a b y]) (auto simp: Let_def)
qed

lemma filter_to_single:
  assumes "distinct (map key t)" and "m \<in> set t" and "q m" and "\<And>r. r \<in> set t \<Longrightarrow> q r \<Longrightarrow> key r = key m"
  shows "filter q t = [m]"
proof -
  have inj: "inj_on key (set t)" using assms(1) by (simp add: distinct_map)
  have "q r \<longleftrightarrow> key r = key m" if "r \<in> set t" for r
    using assms(3,4) inj_onD [OF inj _ that assms(2)] that by metis
  then have "filter q t = filter (\<lambda>r. key r = key m) t" by (simp cong: filter_cong)
  also have "\<dots> = [m]"
    using assms(1,2) by (induction t) (auto simp: filter_empty_conv image_iff)
  finally show ?thesis .
qed

lemma TransferOrgOwnership_owner:
  assumes inv: "owner_inv s"
  shows "owner_inv (snd (TransferOrgOwnership now orgID fromU toU s))"
proof (cases "TransferOrgOwnership now orgID fromU toU s")
  case (Pair r s')
  show ?thesis
  proof (cases r)
    case (Inl e)
    with Pair inv show ?thesis by (auto simp: TransferOrgOwnership_def dest: in_tx_errD)
  next
    case (Inr x)
    with Pair have ok: "TransferOrgOwnership now orgID fromU toU s = (Inr x, s')" by simp
    then obtain a b y seat where
      fr: "find (active_at orgID fromU) (org_members s) = Some a" "m_role a = OrgRoleOwner" and
      tob: "find (active_at orgID toU) (org_members s) = Some b" "m_role b = OrgRoleNodeOperator" and
      s': "s' = s\<lparr>org_members := upd_rows (member_at orgID toU)
         (\<lambda>m. m\<lparr>m_role := ''owner'', m_seat_tier := seat, m_updated_at := now\<rparr>)
         (upd_rows (member_at orgID fromU)
            (\<lambda>m. m\<lparr>m_role := OrgRoleNodeOperator, m_seat_tier := seat, m_updated_at := now\<rparr>) (org_members s)),
       orgs := upd_rows (\<lambda>x. o_id x = orgID) (\<lambda>x. x\<lparr>o_owner_user_id := toU, o_updated_at := now\<rparr>) (orgs s)\<rparr>"
      by (rule TransferOrgOwnership_okE)
    let ?t = "org_members s" and ?t' = "org_members s'"
    have F: "a \<in> set ?t" "m_org_id a = orgID" "m_user_id a = fromU" using fr(1) by (auto dest: find_SomeD)
    have T: "b \<in> set ?t" "m_org_id b = orgID" "m_user_id b = toU" "m_status b = MemberStatusActive"
      using tob(1) by (auto dest: find_SomeD)
    have ne: "fromU \<noteq> toU" using member_unique [OF inv F(1) T(1)] F T fr(2) tob(2) by auto
    have org_known: "fk_org s orgID" using inv F by (auto simp: owner_inv_def)
    then obtain z where z: "z \<in> set (orgs s)" "o_id z = orgID" by (auto simp: fk_org_def has_row_iff)
    have "one_owner ?t z" using inv z(1) by (simp add: owner_inv_def)
    then have single: "filter (owner_row orgID) ?t = [a]"
    proof -
      from \<open>one_owner ?t z\<close> obtain o1 where o1: "filter (owner_row orgID) ?t = [o1]"
        by (auto simp: one_owner_def z(2))
      have "a \<in> set (filter (owner_row orgID) ?t)" using F fr(2) by (simp add: owner_row_def)
      with o1 show ?thesis by simp
    qed
    have only: "m = a" if "m \<in> set ?t" "owner_row orgID m" for m
    proof -
      have "m \<in> set (filter (owner_row orgID) ?t)" using that by simp
      then show ?thesis by (simp add: single)
    qed
    define g where "g m = (if member_at orgID toU m then m\<lparr>m_role := ''owner'', m_seat_tier := seat, m_updated_at := now\<rparr>
      else if member_at orgID fromU m then m\<lparr>m_role := OrgRoleNodeOperator, m_seat_tier := seat, m_updated_at := now\<rparr> else m)" for m
    have t': "?t' = map g ?t" using ne by (auto simp: s' upd_rows_def g_def)
    have key: "member_key (g m) = member_key m" for m by (simp add: g_def member_key_def)
    have keys: "map member_key ?t' = map member_key ?t" by (simp add: t' key)
    then have dk: "distinct (map member_key ?t')" using inv by (simp add: owner_inv_def)
    have own: "owner_row orgID (g m) \<longleftrightarrow> m = b" if m: "m \<in> set ?t" for m
    proof
      assume o: "owner_row orgID (g m)"
      then have "member_at orgID toU m"
        using only [OF m] F ne by (auto simp: g_def owner_row_def split: if_splits)
      then show "m = b" using member_unique [OF inv m T(1)] T by simp
    next
      assume "m = b"
      then show "owner_row orgID (g m)" using T by (simp add: g_def owner_row_def)
    qed
    have "filter (owner_row orgID) ?t' = [g b]"
      by (rule filter_to_single [OF dk]) (use T(1) own in \<open>auto simp: t'\<close>)
    then have here: "map member_view (filter (owner_row orgID) ?t') = [(orgID, toU, OrgRoleOwner, MemberStatusActive)]"
      using T by (simp add: g_def member_view_def)
    have other: "filter (owner_row y) ?t' = filter (owner_row y) ?t" if "y \<noteq> orgID" for y
    proof -
      have keep: "filter (owner_row y) (upd_rows (member_at orgID u) f t) = filter (owner_row y) t"
        if "\<And>m. m_org_id (f m) = m_org_id m" for u f t
        using that \<open>y \<noteq> orgID\<close> by (intro filter_upd_other) (auto simp: owner_row_def)
      show ?thesis by (simp add: s' keep)
    qed
    have "one_owner ?t' x" if "x \<in> set (orgs s')" for x
    proof -
      from that obtain x0 where x0: "x0 \<in> set (orgs s)"
        "x = (if o_id x0 = orgID then x0\<lparr>o_owner_user_id := toU, o_updated_at := now\<rparr> else x0)"
        by (auto simp: s' set_upd_rows)
      have "one_owner ?t x0" using inv x0(1) by (simp add: owner_inv_def)
      with x0(2) here other show ?thesis by (cases "o_id x0 = orgID") (auto simp: one_owner_def)
    qed
    moreover have "map o_id (orgs s') = map o_id (orgs s)" by (simp add: s' map_key_upd)
    moreover have "fk_org s' y = fk_org s y" for y
      by (simp add: fk_org_ids s' map_key_upd)
    moreover have "\<forall>m\<in>set ?t'. fk_org s (m_org_id m)"
      using inv by (auto simp: t' g_def owner_inv_def)
    ultimately show ?thesis using inv dk by (simp add: Pair Inr owner_inv_def)
  qed
qed

subsection \<open>Creation\<close>

lemma createOrg_okE:
  assumes "createOrg now fi ownerU inName inSlug plan s = (Inr x, s')"
  obtains slug where "TrimSpace inName \<noteq> ''''" "resolveOrgSlug s (fi_suffix fi) inSlug (TrimSpace inName) '''' = Inr slug"
    "x = \<lparr>o_id = fi_org fi, o_name = TrimSpace inName, o_slug = slug, o_plan = plan,
       o_billing_status = OrgBillingActive, o_verification_status = OrgVerificationUnverified,
       o_public_profile_enabled = False, o_owner_user_id = ownerU, o_created_at = now, o_updated_at = now\<rparr>"
    "\<not> fk_org s (fi_org fi)" "\<not> has_row (\<lambda>r. o_slug r = slug) (orgs s)"
    "\<not> has_row (\<lambda>r. oe_org_id r = fi_org fi) (org_entitlements s)"
    "\<not> has_row (member_at (fi_org fi) ownerU) (org_members s)"
    "s' = s\<lparr>orgs := orgs s @ [x], org_profiles := org_profiles s @ [new_profile now (fi_org fi) (TrimSpace inName)],
       org_entitlements := org_entitlements s @ [entitlement_row (fi_org fi) (template_of plan)],
       org_members := org_members s @ [\<lparr>m_id = fi_member fi, m_org_id = fi_org fi, m_user_id = ownerU,
         m_role = OrgRoleOwner, m_seat_tier = ownerSeatTierForPlan plan, m_status = MemberStatusActive,
         m_created_at = now, m_updated_at = now\<rparr>]\<rparr>"
proof -
  from assms obtain slug where n: "TrimSpace inName \<noteq> ''''"
    and sl: "resolveOrgSlug s (fi_suffix fi) inSlug (TrimSpace inName) '''' = Inr slug"
    and tx: "in_tx (createOrg_tx now fi ownerU (TrimSpace inName) slug plan) s = (Inr x, s')"
    by (auto simp: createOrg_def Let_def split: if_splits sum.splits)
  let ?x = "\<lparr>o_id = fi_org fi, o_name = TrimSpace inName, o_slug = slug, o_plan = plan,
       o_billing_status = OrgBillingActive, o_verification_status = OrgVerificationUnverified,
       o_public_profile_enabled = False, o_owner_user_id = ownerU, o_created_at = now, o_updated_at = now\<rparr>"
  let ?m = "\<lparr>m_id = fi_member fi, m_org_id = fi_org fi, m_user_id = ownerU,
         m_role = OrgRoleOwner, m_seat_tier = ownerSeatTierForPlan plan, m_status = MemberStatusActive,
         m_created_at = now, m_updated_at = now\<rparr>"
  note body = in_tx_okD [OF tx, unfolded createOrg_tx_def Let_def]
  from body obtain u1 s1 where 1: "insert_org ?x s = (Inr u1, s1)" and
    r1: "seq (insert_profile (new_profile now (o_id ?x) (TrimSpace inName)) s1) (\<lambda>_ s.
        seq (insert_entitlement (entitlement_row (o_id ?x) (template_of plan)) s) (\<lambda>_ s.
        seq (insert_member \<lparr>m_id = fi_member fi, m_org_id = o_id ?x, m_user_id = ownerU, m_role = OrgRoleOwner,
          m_seat_tier = ownerSeatTierForPlan plan, m_status = MemberStatusActive, m_created_at = now,
          m_updated_at = now\<rparr> s) (\<lambda>_ s. (Inr ?x, s)))) = (Inr x, s')"
    by (rule seq_okE)
  from r1 obtain u2 s2 where 2: "insert_profile (new_profile now (o_id ?x) (TrimSpace inName)) s1 = (Inr u2, s2)" and
    r2: "seq (insert_entitlement (entitlement_row (o_id ?x) (template_of plan)) s2) (\<lambda>_ s.
        seq (insert_member \<lparr>m_id = fi_member fi, m_org_id = o_id ?x, m_user_id = ownerU, m_role = OrgRoleOwner,
          m_seat_tier = ownerSeatTierForPlan plan, m_status = MemberStatusActive, m_created_at = now,
          m_updated_at = now\<rparr> s) (\<lambda>_ s. (Inr ?x, s))) = (Inr x, s')"
    by (rule seq_okE)
  from r2 obtain u3 s3 where 3: "insert_entitlement (entitlement_row (o_id ?x) (template_of plan)) s2 = (Inr u3, s3)" and
    r3: "seq (insert_member \<lparr>m_id = fi_member fi, m_org_id = o_id ?x, m_user_id = ownerU, m_role = OrgRoleOwner,
          m_seat_tier = ownerSeatTierForPlan plan, m_status = MemberStatusActive, m_created_at = now,
          m_updated_at = now\<rparr> s3) (\<lambda>_ s. (Inr ?x, s)) = (Inr x, s')"
    by (rule seq_okE)
  from r3 obtain u4 s4 where 4: "insert_member ?m s3 = (Inr u4, s4)" and x: "x = ?x" and s4: "s4 = s'"
    by (elim seq_okE) simp
  from 1 have a: "\<not> fk_org s (fi_org fi)" "\<not> has_row (\<lambda>r. o_slug r = slug) (orgs s)" "s1 = s\<lparr>orgs := orgs s @ [?x]\<rparr>"
    by (auto simp: insert_org_def fk_org_def has_row_iff split: if_splits)
  from 2 have b: "s2 = s1\<lparr>org_profiles := org_profiles s1 @ [new_profile now (fi_org fi) (TrimSpace inName)]\<rparr>"
    by (simp add: insert_profile_def split: if_splits)
  from 3 have c: "\<not> has_row (\<lambda>r. oe_org_id r = fi_org fi) (org_entitlements s2)"
    "s3 = s2\<lparr>org_entitlements := org_entitlements s2 @ [entitlement_row (fi_org fi) (template_of plan)]\<rparr>"
    by (simp_all add: insert_entitlement_def split: if_splits)
  from 4 have d: "\<not> has_row (member_at (fi_org fi) ownerU) (org_members s3)" "s4 = s3\<lparr>org_members := org_members s3 @ [?m]\<rparr>"
    by (auto simp: insert_member_def has_row_iff split: if_splits)
  show ?thesis
    using a(3) b c d by (intro that [OF n sl x a(1,2)]) (simp_all add: x s4 [symmetric])
qed

lemma createOrg_owner:
  assumes inv: "owner_inv s"
  shows "owner_inv (snd (createOrg now fi ownerU inName inSlug plan s))"
proof (cases "createOrg now fi ownerU inName inSlug plan s")
  case (Pair r s')
  show ?thesis
  proof (cases r)
    case (Inl e)
    with Pair have "s' = s"
      by (auto simp: createOrg_def Let_def split: if_splits sum.splits dest: in_tx_errD)
    with Pair inv show ?thesis by simp
  next
    case (Inr x)
    with Pair have ok: "createOrg now fi ownerU inName inSlug plan s = (Inr x, s')" by simp
    from ok show ?thesis
    proof (rule createOrg_okE, goal_cases)
      case (1 slug)
      let ?m = "\<lparr>m_id = fi_member fi, m_org_id = fi_org fi, m_user_id = ownerU,
         m_role = OrgRoleOwner, m_seat_tier = ownerSeatTierForPlan plan, m_status = MemberStatusActive,
         m_created_at = now, m_updated_at = now\<rparr>"
      have x: "o_id x = fi_org fi" "o_owner_user_id x = ownerU" using 1(3) by simp_all
      have none: "filter (owner_row (fi_org fi)) (org_members s) = []"
        using inv 1(4) by (auto simp: owner_inv_def owner_row_def filter_empty_conv)
      have new: "one_owner (org_members s @ [?m]) x"
        by (simp add: one_owner_def x none) (simp add: owner_row_def member_view_def)
      have old: "one_owner (org_members s @ [?m]) y" if "y \<in> set (orgs s)" for y
      proof -
        have "o_id y \<noteq> fi_org fi" using that 1(4) by (auto simp: fk_org_def has_row_iff)
        with inv that show ?thesis by (simp add: owner_inv_def one_owner_def owner_row_def)
      qed
      have fk: "fk_org (s\<lparr>orgs := orgs s @ [x], org_profiles := p, org_entitlements := e, org_members := m\<rparr>) y
          \<longleftrightarrow> fk_org s y \<or> y = fi_org fi" for p e m y by (auto simp: fk_org_def has_row_iff x)
      have fresh: "member_key ?m \<notin> member_key ` set (org_members s)"
        using 1(7) by (auto simp: has_row_iff member_key_def)
      have "o_id x \<notin> o_id ` set (orgs s)" using 1(4) by (auto simp: x fk_org_def has_row_iff)
      with inv new old fk fresh show ?case
        by (simp add: Pair 1(8) owner_inv_def)
    qed
  qed
qed

subsection \<open>The system\<close>

text \<open>
  One step: any call of an organization operation, where an invited or added member and a patched
  role do not become owner and do not overwrite the owner's row (what the handlers are meant to
  guard), or any other statement that leaves organizations and members alone.
\<close>

inductive org_step :: "db \<Rightarrow> db \<Rightarrow> bool" where
  create: "org_step s (snd (createOrg now fi ownerU name slug plan s))"
| set_plan: "org_step s (snd (SetOrgPlan now orgID plan s))"
| delete: "org_step s (snd (DeleteOrg orgID s))"
| update: "org_step s (snd (UpdateOrg now suffix orgID inp s))"
| verify: "org_step s (snd (SetOrgVerificationStatus now orgID st s))"
| assign: "org_step s (snd (AssignSeat now orgID userID seat s))"
| revoke: "org_step s (snd (RevokeSeat now orgID userID s))"
| patch: "normalizeOrgRole role \<noteq> OrgRoleOwner \<Longrightarrow> org_step s (snd (PatchMember now orgID memberID role seat s))"
| invite: "normalizeOrgRole role \<noteq> OrgRoleOwner \<Longrightarrow> not_owner s orgID userID \<Longrightarrow>
    org_step s (snd (InviteMember now newID orgID userID role seat s))"
| add: "normalizeOrgRole role \<noteq> OrgRoleOwner \<Longrightarrow> not_owner s orgID userID \<Longrightarrow>
    org_step s (snd (AddMember now newID orgID userID role s))"
| remove: "org_step s (snd (RemoveMember now orgID userID s))"
| remove_id: "org_step s (snd (RemoveMemberByID now orgID memberID s))"
| transfer: "org_step s (snd (TransferOrgOwnership now orgID fromU toU s))"
| elsewhere: "orgs s' = orgs s \<Longrightarrow> org_members s' = org_members s \<Longrightarrow> org_step s s'"

lemmas op_owner = createOrg_owner SetOrgPlan_owner DeleteOrg_owner UpdateOrg_owner SetOrgVerificationStatus_owner
  AssignSeat_owner RevokeSeat_owner PatchMember_owner InviteMember_owner AddMember_owner RemoveMember_owner
  TransferOrgOwnership_owner

lemma owner_inv_elsewhere: "owner_inv s \<Longrightarrow> orgs s' = orgs s \<Longrightarrow> org_members s' = org_members s \<Longrightarrow> owner_inv s'"
  by (erule owner_inv_frame) simp_all

lemma org_step_owner: "owner_inv s \<Longrightarrow> org_step s s' \<Longrightarrow> owner_inv s'"
  by (erule org_step.cases) (auto intro: op_owner owner_inv_elsewhere)

interpretation owners: invariant_system org_step owner_inv
  by unfold_locales (rule org_step_owner)

lemma owner_inv_empty: "owner_inv empty_db"
  by (simp add: owner_inv_def empty_db_def)

lemma reach_owner_inv: "org_step\<^sup>*\<^sup>* empty_db s \<Longrightarrow> owner_inv s"
  using owner_inv_empty by (rule owners.reach_inv [rotated])

subsection \<open>A concrete organization for the witnesses\<close>

definition ann :: user where
  "ann = \<lparr>us_id = ''u1'', us_wallet_address = ''0xabc'', us_chain = ''evm'', us_role = ''user'', us_email = '''',
     us_email_verified = False, us_name = ''Ann'', us_profile_picture = '''', us_xp_earned = 0,
     us_xp_claimed = 0, us_tier = 0, us_referral_code = '''', us_referred_by = '''', us_created_at = 0\<rparr>"

definition org0 :: db where
  "org0 = empty_db\<lparr>users := [ann, ann\<lparr>us_id := ''u2'', us_wallet_address := ''0xdef''\<rparr>]\<rparr>"

definition fresh0 :: fresh_ids where
  "fresh0 = \<lparr>fi_org = ''o1'', fi_member = ''m1'', fi_suffix = (\<lambda>_. ''deadbeef'')\<rparr>"

definition org1 :: db where
  "org1 = snd (createOrg 1 fresh0 ''u1'' '' Acme Labs '' '''' OrgPlanPro org0)"

definition acme :: org where
  "acme = \<lparr>o_id = ''o1'', o_name = ''Acme Labs'', o_slug = ''acme-labs'', o_plan = ''pro'', o_billing_status = ''active'',
     o_verification_status = ''unverified'', o_public_profile_enabled = False, o_owner_user_id = ''u1'',
     o_created_at = 1, o_updated_at = 1\<rparr>"

definition org2 :: db where
  "org2 = snd (AddMember 2 ''m2'' ''o1'' ''u2'' ''node_operator'' org1)"

lemma org1_create: "createOrg 1 fresh0 ''u1'' '' Acme Labs '' '''' OrgPlanPro org0 = (Inr acme, org1)"
  unfolding org1_def by code_simp

lemma org1_reach: "org_step\<^sup>*\<^sup>* empty_db org1"
proof -
  have 0: "org_step empty_db org0" by (rule org_step.elsewhere) (simp_all add: org0_def)
  have 1: "org_step org0 org1" unfolding org1_def by (rule org_step.create)
  from 0 1 show ?thesis by (meson converse_rtranclp_into_rtranclp rtranclp.rtrancl_refl)
qed

lemma org2_reach: "org_step\<^sup>*\<^sup>* empty_db org2"
proof -
  have "normalizeOrgRole ''node_operator'' \<noteq> OrgRoleOwner" by code_simp
  moreover have "not_owner org1 ''o1'' ''u2''" by code_simp
  ultimately have "org_step org1 org2" unfolding org2_def by (rule org_step.add)
  with org1_reach show ?thesis by (rule rtranclp.rtrancl_into_rtrancl)
qed



text \<open>
  Ownership transfer swaps the two roles: after a successful transfer the new owner is the
  former node operator, the former owner is a node operator with the plan's seat, and the
  organization names the new owner.
\<close>

theorem transfer_swaps_roles:
  assumes reach: "org_step\<^sup>*\<^sup>* empty_db s" and ok: "TransferOrgOwnership now orgID fromU toU s = (Inr x, s')"
  shows "MemberRole s orgID fromU = Inr OrgRoleOwner \<and> MemberRole s orgID toU = Inr OrgRoleNodeOperator
    \<and> MemberRole s' orgID toU = Inr OrgRoleOwner \<and> MemberRole s' orgID fromU = Inr OrgRoleNodeOperator
    \<and> (\<exists>y. GetOrg s' orgID = Inr y \<and> o_owner_user_id y = toU)"
proof -
  have inv: "owner_inv s" using reach by (rule reach_owner_inv)
  from ok obtain a b y seat where
    a: "find (active_at orgID fromU) (org_members s) = Some a" "m_role a = OrgRoleOwner" and
    b: "find (active_at orgID toU) (org_members s) = Some b" "m_role b = OrgRoleNodeOperator" and
    y: "GetOrg s orgID = Inr y" and
    s': "s' = s\<lparr>org_members := upd_rows (member_at orgID toU)
         (\<lambda>m. m\<lparr>m_role := ''owner'', m_seat_tier := seat, m_updated_at := now\<rparr>)
         (upd_rows (member_at orgID fromU)
            (\<lambda>m. m\<lparr>m_role := OrgRoleNodeOperator, m_seat_tier := seat, m_updated_at := now\<rparr>) (org_members s)),
       orgs := upd_rows (\<lambda>x. o_id x = orgID) (\<lambda>x. x\<lparr>o_owner_user_id := toU, o_updated_at := now\<rparr>) (orgs s)\<rparr>"
    by (rule TransferOrgOwnership_okE)
  have ne: "fromU \<noteq> toU"
    using a b by auto
  have upd: "find (active_at orgID u) (upd_rows (member_at orgID v) f t)
      = (if u = v then map_option f (find (active_at orgID u) t) else find (active_at orgID u) t)"
    if "\<And>m. m_org_id (f m) = m_org_id m" "\<And>m. m_user_id (f m) = m_user_id m" "\<And>m. m_status (f m) = m_status m"
    for u v f t using that by (induction t) (auto simp: upd_rows_def)
  have org: "find (\<lambda>x. o_id x = orgID) (upd_rows (\<lambda>x. o_id x = orgID) (\<lambda>x. x\<lparr>o_owner_user_id := toU, o_updated_at := now\<rparr>) (orgs s))
      = map_option (\<lambda>x. x\<lparr>o_owner_user_id := toU, o_updated_at := now\<rparr>) (find (\<lambda>x. o_id x = orgID) (orgs s))"
    by (rule find_upd_same) simp
  show ?thesis
    using a b y ne org by (auto simp: s' MemberRole_def MemberMembership_def GetOrg_def upd split: option.splits)
qed

theorem transfer_swaps_roles_witness:
  "MemberRole (snd (TransferOrgOwnership 3 ''o1'' ''u1'' ''u2'' org2)) ''o1'' ''u2'' = Inr OrgRoleOwner"
proof -
  have ok: "TransferOrgOwnership 3 ''o1'' ''u1'' ''u2'' org2 = (Inr (), snd (TransferOrgOwnership 3 ''o1'' ''u1'' ''u2'' org2))"
    by code_simp
  from transfer_swaps_roles [OF org2_reach ok] show ?thesis by simp
qed

section \<open>Slugs\<close>

definition slug_ok :: "string \<Rightarrow> bool" where
  "slug_ok x \<longleftrightarrow> x \<noteq> '''' \<and> (\<forall>c\<in>set x. slug_char c \<or> c = CHR ''-'') \<and> hd x \<noteq> CHR ''-'' \<and> last x \<noteq> CHR ''-''"

lemma sanitize_chars: "\<forall>c\<in>set (sanitize x). slug_char c \<or> c = CHR ''-''"
  by (induction x rule: sanitize.induct) auto

lemma trim_dashes_ok:
  assumes "trim_dashes x \<noteq> []"
  shows "hd (trim_dashes x) \<noteq> CHR ''-'' \<and> last (trim_dashes x) \<noteq> CHR ''-'' \<and> set (trim_dashes x) \<subseteq> set x"
proof -
  let ?P = "\<lambda>c. c = CHR ''-''"
  let ?u = "dropWhile ?P x"
  have t: "trim_dashes x = rev (dropWhile ?P (rev ?u))" by (simp add: trim_dashes_def)
  have ne: "dropWhile ?P (rev ?u) \<noteq> []" using assms t by auto
  have "?u = trim_dashes x @ rev (takeWhile ?P (rev ?u))"
    by (metis rev_append rev_rev_ident t takeWhile_dropWhile_id)
  then have "hd ?u = hd (trim_dashes x)" "?u \<noteq> []" using assms by (metis hd_append2, force)
  moreover from this(2) have "\<not> ?P (hd ?u)" by (rule hd_dropWhile)
  moreover have "\<not> ?P (hd (dropWhile ?P (rev ?u)))" using ne by (rule hd_dropWhile)
  moreover have "last (trim_dashes x) = hd (dropWhile ?P (rev ?u))" using ne by (simp add: t last_rev)
  moreover have "set (trim_dashes x) \<subseteq> set x" by (auto simp: t dest!: set_dropWhileD)
  ultimately show ?thesis by simp
qed

lemma slug_base_ok: "slug_ok (slug_base requested name)"
proof -
  have ok: "slug_ok (or_org (trim_dashes (sanitize y)))" for y
  proof (cases "trim_dashes (sanitize y) = []")
    case True
    then show ?thesis by (simp add: or_org_def slug_ok_def slug_char_def)
  next
    case False
    with trim_dashes_ok [OF False] sanitize_chars [of y] show ?thesis
      by (auto simp: or_org_def slug_ok_def)
  qed
  show ?thesis by (simp add: slug_base_def Let_def ok)
qed

lemma slug_loop_ok:
  assumes "slug_loop s base ex suffix n slug = Inr r" and "\<And>k. slug_ok (suffix k)" and "slug_ok base" and "slug_ok slug"
  shows "\<not> slug_taken s r ex \<and> slug_ok r"
  using assms
proof (induction n arbitrary: slug)
  case 0
  then show ?case by simp
next
  case (Suc n)
  have "slug_ok (base @ ''-'' @ suffix n)"
    using Suc.prems(2) [of n] Suc.prems(3) by (auto simp: slug_ok_def)
  with Suc show ?case by (auto split: if_splits)
qed

section \<open>What the operations establish\<close>

text \<open>
  A created organization is complete: it has the trimmed, non-empty name, a well-formed slug
  that no organization had, the entitlements of its plan, a profile, and its creator as active
  owner on the plan's seat.  (The uuid suffix the slug loop draws is assumed to be well-formed.)
\<close>

theorem create_org_complete:
  assumes ok: "createOrg now fi u name slug plan s = (Inr x, s')"
    and plan: "normalizeOrgPlan plan = Inr plan" and suf: "\<And>k. slug_ok (fi_suffix fi k)"
  shows "GetOrg s' (o_id x) = Inr x \<and> o_name x = TrimSpace name \<and> o_name x \<noteq> '''' \<and> o_plan x = plan
    \<and> slug_ok (o_slug x) \<and> (\<forall>y\<in>set (orgs s). o_slug y \<noteq> o_slug x)
    \<and> (\<exists>e. GetOrgEntitlements s' (o_id x) = Inr e \<and> oe_plan e = plan
        \<and> oe_paid_seats_included e = pt_paid_seats_included (template_of plan))
    \<and> MemberMembership s' (o_id x) u = Inr (OrgRoleOwner, ownerSeatTierForPlan plan)"
  using ok
proof (rule createOrg_okE, goal_cases)
  case (1 sl)
  have id: "o_id x = fi_org fi" by (simp add: 1(3))
  have sl: "slug_ok sl \<and> \<not> slug_taken s sl ''''"
    using slug_loop_ok [OF 1(2) [unfolded resolveOrgSlug_def Let_def] suf slug_base_ok slug_base_ok] by simp
  have o: "find (\<lambda>r. o_id r = fi_org fi) (orgs s) = None"
    using 1(4) by (simp add: fk_org_def has_row_iff find_None_iff)
  have e: "find (\<lambda>r. oe_org_id r = fi_org fi) (org_entitlements s) = None"
    using 1(6) by (simp add: has_row_iff find_None_iff)
  have m: "find (active_at (fi_org fi) u) (org_members s) = None"
    using 1(7) by (auto simp: has_row_iff find_None_iff)
  have "pt_plan (template_of plan) = plan" using plan by (rule template_plan)
  moreover have "GetOrg s' (fi_org fi) = Inr x" by (simp add: GetOrg_def 1(8) find_append o id)
  moreover have "GetOrgEntitlements s' (fi_org fi) = Inr (entitlement_row (fi_org fi) (template_of plan))"
    by (simp add: GetOrgEntitlements_def 1(8) find_append e)
  moreover have "MemberMembership s' (fi_org fi) u = Inr (OrgRoleOwner, ownerSeatTierForPlan plan)"
    by (simp add: MemberMembership_def 1(8) find_append m)
  ultimately show ?case
    using sl 1(1) by (auto simp: 1(3) slug_taken_def has_row_iff entitlement_row_def)
qed

theorem create_org_complete_witness:
  "MemberMembership org1 ''o1'' ''u1'' = Inr (OrgRoleOwner, SeatTierPro) \<and> slug_ok ''acme-labs''"
proof -
  have "normalizeOrgPlan OrgPlanPro = Inr OrgPlanPro" by code_simp
  moreover have "slug_ok (fi_suffix fresh0 k)" for k by (simp add: fresh0_def slug_ok_def slug_char_def)
  ultimately show ?thesis
    using create_org_complete [OF org1_create] by (simp add: acme_def ownerSeatTierForPlan_def)
qed

text \<open>
  A plan change is complete: after it, the organization has the plan, its entitlements are
  exactly the plan's template, and the owner sits on the plan's seat, while everybody else's role,
  seat and status are as before.
\<close>

theorem set_plan_updates_entitlements:
  assumes reach: "org_step\<^sup>*\<^sup>* empty_db s" and ok: "SetOrgPlan now orgID plan s = (Inr x, s')"
  shows "o_plan x = plan \<and> GetOrg s' orgID = Inr x
    \<and> GetOrgEntitlements s' orgID = Inr (entitlement_row orgID (template_of plan))
    \<and> MemberMembership s' orgID (o_owner_user_id x) = Inr (OrgRoleOwner, ownerSeatTierForPlan plan)
    \<and> (\<forall>o' u. (o', u) \<noteq> (orgID, o_owner_user_id x) \<longrightarrow> MemberMembership s' o' u = MemberMembership s o' u)"
proof -
  have inv: "owner_inv s" using reach by (rule reach_owner_inv)
  from ok have norm: "normalizeOrgPlan plan = Inr plan"
    by (auto simp: SetOrgPlan_def dest: normalizeOrgPlan_ok split: sum.splits)
  with ok have tx: "SetOrgPlan_tx now orgID plan s = (Inr x, s')"
    by (auto simp: SetOrgPlan_def dest: in_tx_okD)
  then obtain y where y: "find (\<lambda>x. o_id x = orgID) (orgs s) = Some y" by (auto simp: SetOrgPlan_tx_def split: option.splits)
  let ?f = "\<lambda>x. x\<lparr>o_plan := plan, o_updated_at := now\<rparr>"
  let ?os = "upd_rows (\<lambda>x. o_id x = orgID) ?f (orgs s)"
  let ?s1 = "s\<lparr>orgs := ?os\<rparr>"
  let ?p = "\<lambda>m. has_row (\<lambda>x. o_id x = m_org_id m \<and> m_user_id m = o_owner_user_id x) ?os \<and> m_org_id m = orgID \<and> m_status m = ''active''"
  let ?g = "\<lambda>m. m\<lparr>m_seat_tier := ownerSeatTierForPlan plan, m_updated_at := now\<rparr>"
  from tx y obtain u s2 where up: "upsert_entitlement (entitlement_row orgID (template_of plan)) ?s1 = (Inr u, s2)"
    and fin: "x = ?f y \<and> s' = s2\<lparr>org_members := upd_rows
        (\<lambda>m. has_row (\<lambda>x. o_id x = m_org_id m \<and> m_user_id m = o_owner_user_id x) (orgs s2)
             \<and> m_org_id m = orgID \<and> m_status m = ''active'') ?g (org_members s2)\<rparr>"
    by (auto simp: SetOrgPlan_tx_def Let_def elim!: seq_okE)
  from up obtain es where s2: "s2 = ?s1\<lparr>org_entitlements := es\<rparr>"
    and es: "find (\<lambda>r. oe_org_id r = orgID) es = Some (entitlement_row orgID (template_of plan))"
    by (rule upsert_entitlement_okE) auto
  have x: "x = ?f y" and s': "s' = ?s1\<lparr>org_entitlements := es, org_members := upd_rows ?p ?g (org_members s)\<rparr>"
    using fin s2 by simp_all
  have yin: "y \<in> set (orgs s)" "o_id y = orgID" using find_SomeD [OF y] by auto
  have d: "distinct (map o_id (orgs s))" using inv by (simp add: owner_inv_def)
  have owner: "?p m \<longleftrightarrow> active_at orgID (o_owner_user_id y) m" for m
  proof -
    have "has_row (\<lambda>x. o_id x = orgID \<and> v = o_owner_user_id x) ?os \<longleftrightarrow> v = o_owner_user_id y" for v
    proof
      assume "has_row (\<lambda>x. o_id x = orgID \<and> v = o_owner_user_id x) ?os"
      then obtain z where z: "z \<in> set ?os" "o_id z = orgID" "v = o_owner_user_id z" by (auto simp: has_row_iff)
      then obtain z0 where "z0 \<in> set (orgs s)" "z = (if o_id z0 = orgID then ?f z0 else z0)"
        unfolding set_upd_rows by blast
      with z have z0: "z0 \<in> set (orgs s)" "o_id z0 = orgID" "v = o_owner_user_id z0" by (auto split: if_splits)
      with key_row_unique [OF d y z0(1,2)] show "v = o_owner_user_id y" by simp
    next
      assume "v = o_owner_user_id y"
      moreover have "?f y \<in> set ?os" unfolding set_upd_rows using yin by (intro bexI [of _ y]) simp_all
      ultimately show "has_row (\<lambda>x. o_id x = orgID \<and> v = o_owner_user_id x) ?os"
        using yin unfolding has_row_iff by (intro bexI [of _ "?f y"]) simp_all
    qed
    then show ?thesis by auto
  qed
  have upd: "find (active_at o' u) (upd_rows ?p ?g t) =
      (if (o', u) = (orgID, o_owner_user_id y) then map_option ?g (find (active_at o' u) t) else find (active_at o' u) t)"
    for o' u t unfolding owner by (induction t) (auto simp: upd_rows_def)
  have org: "find (\<lambda>x. o_id x = orgID) ?os = Some (?f y)" using find_upd_same [of o_id ?f orgID "orgs s"] y by simp
  have own: "MemberRole s orgID (o_owner_user_id y) = Inr OrgRoleOwner"
  proof -
    have "one_owner (org_members s) y" using inv yin(1) by (simp add: owner_inv_def)
    then obtain m where m: "filter (owner_row orgID) (org_members s) = [m]" "m_user_id m = o_owner_user_id y" "m_status m = MemberStatusActive"
      by (auto simp: one_owner_def member_view_def yin(2))
    have "m \<in> set (filter (owner_row orgID) (org_members s))" by (simp add: m(1))
    then have mm: "m \<in> set (org_members s)" "m_org_id m = orgID" "m_role m = OrgRoleOwner" by (auto simp: owner_row_def)
    then have "find (active_at orgID (o_owner_user_id y)) (org_members s) \<noteq> None" using m by (auto simp: find_None_iff)
    then obtain r where r: "find (active_at orgID (o_owner_user_id y)) (org_members s) = Some r" by auto
    have "r = m" using find_SomeD [OF r] mm m by (intro member_unique [OF inv]) simp_all
    with r mm show ?thesis by (simp add: MemberRole_def MemberMembership_def)
  qed
  show ?thesis
    using own org es by (auto simp: x s' GetOrg_def GetOrgEntitlements_def MemberMembership_def MemberRole_def upd
        split: option.splits)
qed

theorem set_plan_updates_entitlements_witness:
  "MemberMembership (snd (SetOrgPlan 4 ''o1'' OrgPlanBusiness org2)) ''o1'' ''u1'' = Inr (OrgRoleOwner, SeatTierBusiness)"
proof -
  have ok: "SetOrgPlan 4 ''o1'' OrgPlanBusiness org2 =
      (Inr (acme\<lparr>o_plan := ''business'', o_updated_at := 4\<rparr>), snd (SetOrgPlan 4 ''o1'' OrgPlanBusiness org2))"
    by code_simp
  from set_plan_updates_entitlements [OF org2_reach ok] show ?thesis by (simp add: acme_def ownerSeatTierForPlan_def)
qed

section \<open>Seats\<close>

lemma row_count_upd_le: "row_count q (upd_rows p f t) \<le> row_count q t + row_count (\<lambda>r. p r \<and> \<not> q r) t"
  by (induction t) (auto simp: row_count_def upd_rows_def)

lemma row_count_key_le:
  assumes "distinct (map key t)" and "\<And>r. p r \<Longrightarrow> key r = k"
  shows "row_count p t \<le> 1"
proof -
  have "row_count p t \<le> row_count (\<lambda>r. key r = k) t"
    using assms(2) by (induction t) (auto simp: row_count_def)
  also have "\<dots> \<le> 1"
    using assms(1)
  proof (induction t)
    case (Cons x t)
    then show ?case
    proof (cases "key x = k")
      case True
      then have "filter (\<lambda>r. key r = k) t = []" using Cons.prems by (auto simp: filter_empty_conv image_iff)
      with True show ?thesis by (simp add: row_count_def)
    qed (simp add: row_count_def)
  qed (simp add: row_count_def)
  finally show ?thesis .
qed

text \<open>
  C22. Assigning a seat respects the plan: on success the tier is one the plan includes and the
  organization uses at most as many paid seats as its entitlements include, or no more than it
  did before.
\<close>

theorem assign_seat_within_plan:
  assumes reach: "org_step\<^sup>*\<^sup>* empty_db s" and ok: "AssignSeat now orgID userID seat s = (Inr (), s')"
    and x: "GetOrg s orgID = Inr x" and e: "GetOrgEntitlements s orgID = Inr e"
  shows "SeatTierAllowedForPlan (o_plan x) seat
    \<and> CountPaidSeatsUsed s' orgID \<le> max (CountPaidSeatsUsed s orgID) (oe_paid_seats_included e)"
proof -
  have inv: "owner_inv s" using reach by (rule reach_owner_inv)
  let ?p = "\<lambda>m. active_at orgID userID m \<and> m_role m \<noteq> ''owner''"
  let ?f = "\<lambda>m. m\<lparr>m_seat_tier := seat, m_updated_at := now\<rparr>"
  from ok have tier: "normalizeSeatTier seat = Inr seat" "seat \<noteq> SeatTierFree"
    by (auto simp: AssignSeat_def normalizeSeatTier_def split: sum.splits if_splits)
  have allowed: "SeatTierAllowedForPlan (o_plan x) seat"
    using ok tier x by (auto simp: AssignSeat_def split: if_splits)
  from ok tier x e allowed obtain cur where cur: "find (active_at orgID userID) (org_members s) = Some cur"
    and how: "s' = s \<or> (m_seat_tier cur = SeatTierFree \<longrightarrow> CountPaidSeatsUsed s orgID < oe_paid_seats_included e)
      \<and> s' = s\<lparr>org_members := upd_rows ?p ?f (org_members s)\<rparr>"
    by (auto simp: AssignSeat_def Let_def not_le split: option.splits if_splits)
  have mem: "cur \<in> set (org_members s)" "active_at orgID userID cur" using find_SomeD [OF cur] by auto
  have "CountPaidSeatsUsed s' orgID \<le> max (CountPaidSeatsUsed s orgID) (oe_paid_seats_included e)"
  proof (cases "s' = s")
    case False
    with how have free: "m_seat_tier cur = SeatTierFree \<longrightarrow> CountPaidSeatsUsed s orgID < oe_paid_seats_included e"
      and s': "s' = s\<lparr>org_members := upd_rows ?p ?f (org_members s)\<rparr>" by auto
    let ?n = "row_count (\<lambda>m. ?p m \<and> \<not> seat_used orgID m) (org_members s)"
    have le: "CountPaidSeatsUsed s' orgID \<le> CountPaidSeatsUsed s orgID + ?n"
      using row_count_upd_le [of "seat_used orgID" ?p ?f "org_members s"] by (simp add: CountPaidSeatsUsed_def s')
    have d: "distinct (map member_key (org_members s))" using inv by (simp add: owner_inv_def)
    have one: "?n \<le> 1" by (rule row_count_key_le [OF d, of _ "(orgID, userID)"]) (simp add: member_key_def)
    show ?thesis
    proof (cases "m_seat_tier cur = SeatTierFree")
      case True
      with free le one show ?thesis by simp
    next
      case paid: False
      have "\<not> (?p m \<and> \<not> seat_used orgID m)" if m: "m \<in> set (org_members s)" for m
      proof
        assume pm: "?p m \<and> \<not> seat_used orgID m"
        with m mem have "m = cur" by (intro member_unique [OF inv]) auto
        with pm mem(2) paid show False by (simp add: seat_used_def)
      qed
      then have "?n = 0" by (simp add: row_count_0)
      with le show ?thesis by simp
    qed
  qed simp
  with allowed show ?thesis by simp
qed

definition org3 :: db where
  "org3 = snd (AddMember 2 ''m2'' ''o1'' ''u2'' ''member'' org1)"

lemma org3_reach: "org_step\<^sup>*\<^sup>* empty_db org3"
proof -
  have "normalizeOrgRole ''member'' \<noteq> OrgRoleOwner" by code_simp
  moreover have "not_owner org1 ''o1'' ''u2''" by code_simp
  ultimately have "org_step org1 org3" unfolding org3_def by (rule org_step.add)
  with org1_reach show ?thesis by (rule rtranclp.rtrancl_into_rtrancl)
qed

theorem assign_seat_within_plan_witness:
  "CountPaidSeatsUsed (snd (AssignSeat 5 ''o1'' ''u2'' SeatTierPro org3)) ''o1'' \<le> 5"
proof -
  have ok: "AssignSeat 5 ''o1'' ''u2'' SeatTierPro org3 = (Inr (), snd (AssignSeat 5 ''o1'' ''u2'' SeatTierPro org3))"
    by code_simp
  have x: "GetOrg org3 ''o1'' = Inr acme" by code_simp
  have e: "GetOrgEntitlements org3 ''o1'' = Inr (entitlement_row ''o1'' (template_of OrgPlanPro))" by code_simp
  have n: "CountPaidSeatsUsed org3 ''o1'' = 1" by code_simp
  have m: "oe_paid_seats_included (entitlement_row ''o1'' (template_of OrgPlanPro)) = 5" by code_simp
  from assign_seat_within_plan [OF org3_reach ok x e] n m show ?thesis by simp
qed

text \<open>
  The string comparison of the code is the order of tiers: a seat tier is allowed on a plan
  exactly when it names one of the five tiers and that tier is at most the plan's.
\<close>

theorem seat_allowed_iff_tier_le:
  "SeatTierAllowedForPlan plan seat \<longleftrightarrow> (\<exists>t. tier_name t = seat \<and> t \<le> plan_tier plan)"
  by (auto simp: allowed_iff_tier parse_tier_iff)

definition basic_org :: db where
  "basic_org = snd (createOrg 1 fresh0 ''u1'' ''Acme'' '''' OrgPlanBasic org0)"

text \<open>
  The seat limit is checked by \<open>AssignSeat\<close> only: inviting (and patching) takes the requested
  tier as it is, so an organization on the basic plan, with no paid seat, gives a member an
  enterprise seat; \<open>AssignSeat\<close> refuses the same tier.
\<close>

theorem invite_bypasses_seat_limit:
  "GetOrgEntitlements basic_org ''o1'' = Inr (entitlement_row ''o1'' (template_of OrgPlanBasic))
   \<and> \<not> SeatTierAllowedForPlan OrgPlanBasic SeatTierEnterprise
   \<and> (case InviteMember 2 ''m2'' ''o1'' ''u2'' ''member'' SeatTierEnterprise basic_org of
        (Inr m, _) \<Rightarrow> m_seat_tier m = SeatTierEnterprise | _ \<Rightarrow> False)"
  by code_simp

text \<open>
  The store does not protect the owner's row from an upsert: inviting the owner's own account
  turns the owner row into an invited-role row, and no owner is left.
\<close>

theorem invite_demotes_owner:
  "case InviteMember 2 ''m9'' ''o1'' ''u1'' ''member'' ''free'' org1 of
     (r, s') \<Rightarrow> is_ok r \<and> MemberRole org1 ''o1'' ''u1'' = Inr OrgRoleOwner
       \<and> MemberRole s' ''o1'' ''u1'' = Inr OrgRoleMember
       \<and> \<not> has_row (\<lambda>m. m_org_id m = ''o1'' \<and> m_role m = OrgRoleOwner) (org_members s')"
  by code_simp

section \<open>Deletion\<close>

text \<open>
  Deleting an organization leaves nothing dangling: no member, profile, entitlement or invite
  of it remains, nodes, uploads and files no longer refer to it, and every other organization and
  its members are untouched.
\<close>

theorem delete_org_no_dangling:
  assumes ok: "DeleteOrg orgID s = (Inr (), s')" and id: "orgID \<noteq> ''''"
  shows "GetOrg s' orgID = Inl ErrNotFound \<and> GetOrgEntitlements s' orgID = Inl ErrNotFound
    \<and> (\<forall>m\<in>set (org_members s'). m_org_id m \<noteq> orgID) \<and> (\<forall>i\<in>set (org_invites s'). oi_org_id i \<noteq> orgID)
    \<and> (\<forall>n\<in>set (nodes s'). n_org_id n \<noteq> orgID)
    \<and> (\<forall>u\<in>set (drop_uploads s'). up_org_id u \<noteq> orgID \<and> up_entitlement_org_id u \<noteq> orgID)
    \<and> (\<forall>f\<in>set (drop_files s'). df_org_id f \<noteq> orgID \<and> df_entitlement_org_id f \<noteq> orgID)
    \<and> (\<forall>y u. y \<noteq> orgID \<longrightarrow> GetOrg s' y = GetOrg s y \<and> MemberMembership s' y u = MemberMembership s y u)"
proof -
  have s': "s' = delete_org_cascade orgID s" using ok by (auto simp: DeleteOrg_def split: if_splits)
  have un: "unlink orgID v \<noteq> orgID" for v using id by (simp add: unlink_def)
  have org: "GetOrg s' y = GetOrg s y" if "y \<noteq> orgID" for y
    using find_del_other [of "\<lambda>x. o_id x = y" "\<lambda>x. o_id x = orgID" "orgs s"] that
    by (simp add: s' delete_org_cascade_def GetOrg_def)
  have mem: "MemberMembership s' y u = MemberMembership s y u" if "y \<noteq> orgID" for y u
    using find_del_other [of "active_at y u" "\<lambda>x. m_org_id x = orgID" "org_members s"] that
    by (simp add: s' delete_org_cascade_def MemberMembership_def)
  have "GetOrg s' orgID = Inl ErrNotFound \<and> GetOrgEntitlements s' orgID = Inl ErrNotFound"
    by (simp add: s' delete_org_cascade_def GetOrg_def GetOrgEntitlements_def find_del_key)
  with org mem un show ?thesis
    by (simp add: s' delete_org_cascade_def) (simp add: del_rows_def)
qed

theorem delete_org_no_dangling_witness:
  "GetOrg (snd (DeleteOrg ''o1'' org2)) ''o1'' = Inl ErrNotFound
   \<and> \<not> has_row (\<lambda>m. m_org_id m = ''o1'') (org_members (snd (DeleteOrg ''o1'' org2)))"
proof -
  have ok: "DeleteOrg ''o1'' org2 = (Inr (), snd (DeleteOrg ''o1'' org2))" by code_simp
  from delete_org_no_dangling [OF ok] show ?thesis by (simp add: has_row_iff)
qed

end
