(* ===== verification/GoText.thy ===== *)
theory GoText
  imports Model
begin

text \<open>
  Text as Go sees it: UTF-8 decoding of byte strings (\<open>unicode/utf8\<close>), \<open>strings.Map\<close> over runes,
  \<open>url.PathEscape\<close>, and the pieces of the Drop API that are pure text: the patterns for content
  identifiers and digests, scope names, and the \<open>Content-Disposition\<close> header of
  \<open>internal/api/drop.go\<close>.
\<close>

section \<open>Runes\<close>

abbreviation byte :: "char \<Rightarrow> nat" where "byte c \<equiv> of_char c"

definition rune_error :: nat where "rune_error = 65533"

definition cont :: "nat \<Rightarrow> bool" where "cont b \<longleftrightarrow> 128 \<le> b \<and> b \<le> 191"

text \<open>
  \<open>utf8.DecodeRuneInString\<close>: the first rune and its width; a byte that starts no valid encoding is
  \<open>RuneError\<close> of width 1.
\<close>

definition decode_rune :: "nat list \<Rightarrow> nat \<times> nat" where
  "decode_rune bs =
    (case bs of [] \<Rightarrow> (rune_error, 0)
     | b0 # r1 \<Rightarrow>
       if b0 < 128 then (b0, 1)
       else (case r1 of [] \<Rightarrow> (rune_error, 1)
        | b1 # r2 \<Rightarrow>
          if 194 \<le> b0 \<and> b0 \<le> 223 \<and> cont b1 then ((b0 - 192) * 64 + (b1 - 128), 2)
          else (case r2 of [] \<Rightarrow> (rune_error, 1)
           | b2 # r3 \<Rightarrow>
             if 224 \<le> b0 \<and> b0 \<le> 239 \<and> cont b1 \<and> (b0 = 224 \<longrightarrow> 160 \<le> b1) \<and> (b0 = 237 \<longrightarrow> b1 \<le> 159) \<and> cont b2
             then ((b0 - 224) * 4096 + (b1 - 128) * 64 + (b2 - 128), 3)
             else (case r3 of [] \<Rightarrow> (rune_error, 1)
              | b3 # _ \<Rightarrow>
                if 240 \<le> b0 \<and> b0 \<le> 244 \<and> cont b1 \<and> (b0 = 240 \<longrightarrow> 144 \<le> b1) \<and> (b0 = 244 \<longrightarrow> b1 \<le> 143)
                   \<and> cont b2 \<and> cont b3
                then ((b0 - 240) * 262144 + (b1 - 128) * 4096 + (b2 - 128) * 64 + (b3 - 128), 4)
                else (rune_error, 1)))))"

function runes_of :: "nat list \<Rightarrow> nat list" where
  "runes_of [] = []"
| "runes_of (b # bs) =
    (case decode_rune (b # bs) of (r, w) \<Rightarrow> r # runes_of (drop (w - 1) bs))"
  by pat_completeness auto
termination
  by (relation "measure length") (auto simp: less_Suc_eq_le)

definition encode_rune :: "nat \<Rightarrow> nat list" where
  "encode_rune r =
    (if r < 128 then [r]
     else if r < 2048 then [192 + r div 64, 128 + r mod 64]
     else if r < 65536 then [224 + r div 4096, 128 + r div 64 mod 64, 128 + r mod 64]
     else [240 + r div 262144, 128 + r div 4096 mod 64, 128 + r div 64 mod 64, 128 + r mod 64])"

definition runes :: "string \<Rightarrow> nat list" where
  "runes s = runes_of (map byte s)"

definition of_runes :: "nat list \<Rightarrow> string" where
  "of_runes rs = map char_of (concat (map encode_rune rs))"

text \<open>\<open>strings.Map\<close>: a rune mapped to a negative value is dropped.\<close>

definition strings_Map :: "(nat \<Rightarrow> nat option) \<Rightarrow> string \<Rightarrow> string" where
  "strings_Map f s = of_runes (List.map_filter f (runes s))"

section \<open>Patterns\<close>

definition is_digit :: "char \<Rightarrow> bool" where "is_digit c \<longleftrightarrow> 48 \<le> byte c \<and> byte c \<le> 57"
definition is_alpha :: "char \<Rightarrow> bool" where
  "is_alpha c \<longleftrightarrow> (65 \<le> byte c \<and> byte c \<le> 90) \<or> (97 \<le> byte c \<and> byte c \<le> 122)"
definition is_alnum :: "char \<Rightarrow> bool" where "is_alnum c \<longleftrightarrow> is_digit c \<or> is_alpha c"
definition is_hex :: "char \<Rightarrow> bool" where
  "is_hex c \<longleftrightarrow> is_digit c \<or> (65 \<le> byte c \<and> byte c \<le> 70) \<or> (97 \<le> byte c \<and> byte c \<le> 102)"

text \<open>\<open>^[A-Za-z0-9]{20,120}$\<close> and \<open>^[A-Fa-f0-9]{64}$\<close>.\<close>

definition validCID :: "string \<Rightarrow> bool" where
  "validCID cid \<longleftrightarrow> 20 \<le> length cid \<and> length cid \<le> 120 \<and> list_all is_alnum cid"

definition sha256Pattern :: "string \<Rightarrow> bool" where
  "sha256Pattern s \<longleftrightarrow> length s = 64 \<and> list_all is_hex s"

definition normalizeDropScope :: "string \<Rightarrow> string option" where
  "normalizeDropScope scope =
    (let x = ToLower (TrimSpace scope)
     in if x = '''' \<or> x = DropScopePublic then Some DropScopePublic
        else if x = ''private'' \<or> x = DropScopePrivateOrg then Some DropScopePrivateOrg
        else None)"

definition publicDropScope :: "string \<Rightarrow> string" where
  "publicDropScope scope = (if scope = DropScopePrivateOrg then ''private'' else DropScopePublic)"

definition publicDropFileStatus :: "string \<Rightarrow> string" where
  "publicDropFileStatus status = (if status = DropFileActive then ''available'' else status)"

definition dropAvail :: "int \<Rightarrow> int" where "dropAvail n = (if n < 0 then 0 else n)"

section \<open>The download header\<close>

text \<open>\<open>url.PathEscape\<close>: unreserved characters and \<open>$ & + = : @\<close> stay, the rest is percent-encoded.\<close>

definition path_safe :: "char \<Rightarrow> bool" where
  "path_safe c \<longleftrightarrow> is_alnum c \<or> c \<in> set ''-_.~$&+=:@''"

definition hex_digit :: "nat \<Rightarrow> char" where
  "hex_digit n = (if n < 10 then char_of (48 + n) else char_of (55 + n))"

definition PathEscape :: "string \<Rightarrow> string" where
  "PathEscape s = concat (map (\<lambda>c. if path_safe c then [c]
     else [CHR ''%'', hex_digit (byte c div 16), hex_digit (byte c mod 16)]) s)"

definition drop_controls :: "nat \<Rightarrow> nat option" where
  "drop_controls r = (if r < 32 \<or> r = 127 then None else Some r)"

definition ascii_only :: "nat \<Rightarrow> nat option" where
  "ascii_only r = (if r > 126 \<or> r = 34 \<or> r = 92 then Some 95 else Some r)"

definition contentDisposition :: "string \<Rightarrow> string" where
  "contentDisposition name =
    (let clean = strings_Map drop_controls name;
         clean = (if clean = '''' then ''download'' else clean);
         ascii = strings_Map ascii_only clean
     in ''attachment; filename='' @ [char_of (34::nat)] @ ascii @ [char_of (34::nat)]
        @ ''; filename*=UTF-8'' @ replicate 2 (char_of (39::nat)) @ PathEscape clean)"

section \<open>The header cannot be split or escaped\<close>

definition header_safe :: "char \<Rightarrow> bool" where
  "header_safe c \<longleftrightarrow> 32 \<le> byte c \<and> byte c \<le> 126 \<and> byte c \<noteq> 34 \<and> byte c \<noteq> 92"

lemma decode_rune_low: "decode_rune (b # bs) = (r, w) \<Longrightarrow> r = b \<and> b < 128 \<and> w = 1 \<or> 128 \<le> r"
  by (auto simp: decode_rune_def rune_error_def cont_def Let_def split: if_splits list.splits)

lemma runes_of_ne: "bs \<noteq> [] \<Longrightarrow> runes_of bs \<noteq> []"
  by (cases bs) (auto split: prod.splits)

lemma runes_of_low:
  assumes "\<forall>b\<in>set bs. 32 \<le> b" shows "\<forall>r\<in>set (runes_of bs). 32 \<le> r"
  using assms
proof (induction bs rule: runes_of.induct)
  case (2 b bs)
  obtain r w where d: "decode_rune (b # bs) = (r, w)" by fastforce
  have "\<forall>x\<in>set (drop (w - 1) bs). 32 \<le> x" using 2(2) by (meson in_set_dropD list.set_intros(2))
  with 2(1) d have "\<forall>x\<in>set (runes_of (drop (w - 1) bs)). 32 \<le> x" by simp
  moreover have "32 \<le> r" using decode_rune_low [OF d] 2(2) by auto
  ultimately show ?case using d by simp
qed simp

lemma encode_rune_low: "32 \<le> r \<Longrightarrow> b \<in> set (encode_rune r) \<Longrightarrow> 32 \<le> b"
  by (auto simp: encode_rune_def split: if_splits)

lemma of_runes_ascii: "\<forall>r\<in>set rs. r < 128 \<Longrightarrow> of_runes rs = map char_of rs"
  by (induction rs) (auto simp: of_runes_def encode_rune_def)

lemma runes_of_ascii: "\<forall>b\<in>set bs. b < 128 \<Longrightarrow> runes_of bs = bs"
proof (induction bs rule: runes_of.induct)
  case (2 b bs)
  have d: "decode_rune (b # bs) = (b, 1)" using 2(2) by (simp add: decode_rune_def)
  from 2(1) [OF d [symmetric]] 2(2) d show ?case by simp
qed simp

lemma byte_of_runes: "32 \<le> byte c" if "c \<in> set (of_runes rs)" "\<forall>r\<in>set rs. 32 \<le> r \<and> r < 1114112"
proof -
  from that obtain r b where r: "r \<in> set rs" "b \<in> set (encode_rune r)" "c = char_of b"
    by (auto simp: of_runes_def)
  have "r < 1114112" using r(1) that(2) by blast
  then have "b < 256" using r(2) by (auto simp: encode_rune_def split: if_splits)
  moreover have "32 \<le> b" using encode_rune_low [OF _ r(2)] that(2) r(1) by blast
  ultimately show ?thesis using r(3) by (simp add: of_char_of take_bit_eq_mod)
qed

lemma decode_rune_high: "decode_rune bs = (r, w) \<Longrightarrow> r < 1114112"
  by (auto simp: decode_rune_def rune_error_def cont_def split: if_splits list.splits)

lemma runes_of_high: "\<forall>r\<in>set (runes_of bs). r < 1114112"
proof (induction bs rule: runes_of.induct)
  case (2 b bs)
  obtain r w where d: "decode_rune (b # bs) = (r, w)" by fastforce
  from 2 [OF d [symmetric]] decode_rune_high [OF d] d show ?case by simp
qed simp

lemma clean_runes:
  "\<forall>r\<in>set (runes (strings_Map drop_controls name)). 32 \<le> r"
proof -
  have "\<forall>r\<in>set (List.map_filter drop_controls (runes name)). 32 \<le> r \<and> r < 1114112"
    using runes_of_high [of "map byte name"]
    by (auto simp: map_filter_def drop_controls_def runes_def split: if_splits)
  then have "\<forall>b\<in>set (map byte (strings_Map drop_controls name)). (32::nat) \<le> b"
    using byte_of_runes unfolding strings_Map_def by auto
  then show ?thesis unfolding runes_def by (rule runes_of_low)
qed

lemma ascii_part:
  assumes "\<forall>r\<in>set (runes s). 32 \<le> r" and "s \<noteq> ''''"
  shows "strings_Map ascii_only s \<noteq> '''' \<and> list_all header_safe (strings_Map ascii_only s)"
proof -
  let ?rs = "List.map_filter ascii_only (runes s)"
  have mf: "?rs = map (\<lambda>r. the (ascii_only r)) (runes s)"
    by (induction "runes s") (auto simp: map_filter_def ascii_only_def)
  have small: "\<forall>r\<in>set ?rs. 32 \<le> r \<and> r \<le> 126 \<and> r \<noteq> 34 \<and> r \<noteq> 92"
    using assms(1) by (auto simp: mf ascii_only_def)
  then have "\<forall>r\<in>set ?rs. r < 128" by auto
  then have eq: "strings_Map ascii_only s = map char_of ?rs"
    unfolding strings_Map_def by (rule of_runes_ascii)
  have "runes s \<noteq> []" using runes_of_ne [of "map byte s"] assms(2) by (simp add: runes_def)
  then have "?rs \<noteq> []" by (simp add: mf)
  moreover have hs: "header_safe (char_of r)" if "32 \<le> r \<and> r \<le> 126 \<and> r \<noteq> 34 \<and> r \<noteq> 92" for r :: nat
    using that by (simp add: header_safe_def of_char_of take_bit_eq_mod)
  have "list_all header_safe (map char_of ?rs)"
    unfolding list_all_iff set_map by (intro ballI, elim imageE) (use hs small in blast)
  ultimately show ?thesis by (simp add: eq)
qed

lemma header_safe_Map:
  assumes "list_all header_safe s"
  shows "strings_Map drop_controls s = s" and "strings_Map ascii_only s = s"
proof -
  have b: "\<forall>b\<in>set (map byte s). 32 \<le> b \<and> b \<le> (126::nat) \<and> b \<noteq> 34 \<and> b \<noteq> 92"
    using assms by (auto simp: list_all_iff header_safe_def)
  then have "\<forall>b\<in>set (map byte s). b < (128::nat)" by auto
  then have r: "runes s = map byte s" unfolding runes_def by (rule runes_of_ascii)
  have "List.map_filter drop_controls (runes s) = runes s" "List.map_filter ascii_only (runes s) = runes s"
    unfolding r using b by (induction s) (auto simp: map_filter_def drop_controls_def ascii_only_def)
  moreover have "of_runes (map byte s) = s"
    by (subst of_runes_ascii) (use b in \<open>auto intro!: map_idI simp: comp_def\<close>)
  ultimately show "strings_Map drop_controls s = s" "strings_Map ascii_only s = s"
    by (simp_all add: strings_Map_def r)
qed

lemma PathEscape_safe: "list_all (\<lambda>c. path_safe c \<or> c = CHR ''%'') (PathEscape s)"
proof -
  have h: "path_safe (hex_digit n)" if "n < 16" for n
    using that by (auto simp: hex_digit_def path_safe_def is_alnum_def is_digit_def is_alpha_def of_char_of take_bit_eq_mod)
  have "(of_char c :: nat) div 16 < 16" "(of_char c :: nat) mod 16 < 16" for c
    by (auto simp: less_mult_imp_div_less)
  with h show ?thesis by (auto simp: PathEscape_def list_all_iff)
qed

text \<open>
  A download header is well formed whatever the file is called: it is \<open>attachment\<close>, one quoted
  name of printable ASCII without quotes or backslashes, and one percent-encoded name, so a file
  name with line breaks or quotes cannot split the header or end the quoted string; and a name
  that needs no cleaning is quoted unchanged.
\<close>

theorem content_disposition_safe:
  "\<exists>ascii esc. contentDisposition name = ''attachment; filename='' @ [char_of (34::nat)] @ ascii
       @ [char_of (34::nat)] @ ''; filename*=UTF-8'' @ replicate 2 (char_of (39::nat)) @ esc
     \<and> ascii \<noteq> '''' \<and> list_all header_safe ascii
     \<and> list_all (\<lambda>c. path_safe c \<or> c = CHR ''%'') esc
     \<and> (list_all header_safe name \<and> name \<noteq> '''' \<longrightarrow> ascii = name \<and> esc = PathEscape name)"
proof -
  let ?c = "strings_Map drop_controls name"
  let ?clean = "if ?c = '''' then ''download'' else ?c"
  have dl: "list_all header_safe ''download''" by code_simp
  have low: "\<forall>r\<in>set (runes ?clean). 32 \<le> r"
  proof (cases "?c = ''''")
    case True
    have "\<forall>r\<in>set (runes ''download''). 32 \<le> r" by code_simp
    with True show ?thesis by simp
  qed (simp add: clean_runes)
  have a: "strings_Map ascii_only ?clean \<noteq> '''' \<and> list_all header_safe (strings_Map ascii_only ?clean)"
    by (rule ascii_part [OF low]) simp
  have p: "list_all header_safe name \<and> name \<noteq> '''' \<longrightarrow> strings_Map ascii_only ?clean = name \<and> PathEscape ?clean = PathEscape name"
    by (simp add: header_safe_Map)
  show ?thesis
    by (rule exI [of _ "strings_Map ascii_only ?clean"], rule exI [of _ "PathEscape ?clean"])
      (use a p PathEscape_safe [of ?clean] in \<open>simp add: contentDisposition_def Let_def\<close>)
qed

theorem content_disposition_safe_witness:
  "contentDisposition ''a b.txt'' = ''attachment; filename='' @ [char_of (34::nat)] @ ''a b.txt''
       @ [char_of (34::nat)] @ ''; filename*=UTF-8'' @ replicate 2 (char_of (39::nat)) @ ''a%20b.txt''"
proof -
  have s: "list_all header_safe ''a b.txt''" and e: "PathEscape ''a b.txt'' = ''a%20b.txt''" by code_simp+
  from content_disposition_safe [of "''a b.txt''"] s show ?thesis by (auto simp: e)
qed

end
