(* ===== verification/DropClient.thy ===== *)
theory DropClient
  imports GoText
begin

text \<open>
  The streaming client for a node's private Drop surface: \<open>internal/dropclient/client.go\<close>.

  The transport (\<open>net/http\<close> and the node behind it) is a field of the client: it is handed the
  request and the body reader, reads from the body as it likes, and yields a response or an error
  together with what is left of the reader.  The JSON decoders of the two result types are
  fields too.  A byte source is the list of the chunks successive reads deliver.
\<close>

section \<open>Byte-limited readers\<close>

datatype read_end = More | Eof | LimitErr | Panic

text \<open>One \<open>Read\<close> with a buffer of \<open>n\<close> bytes.\<close>

fun src_read :: "nat \<Rightarrow> string list \<Rightarrow> string \<times> read_end \<times> string list" where
  "src_read n [] = ('''', Eof, [])"
| "src_read n (c # cs) = (take n c, More, if drop n c = '''' then cs else drop n c # cs)"

record limit_reader =
  lr_src :: "string list"
  lr_remaining :: int
  lr_exceeded :: bool

text \<open>\<open>limitReader.Read\<close>.\<close>

definition limit_read :: "nat \<Rightarrow> limit_reader \<Rightarrow> string \<times> read_end \<times> limit_reader" where
  "limit_read n l =
    (if lr_remaining l < 0 then
       (case src_read n (lr_src l) of (b, e, cs) \<Rightarrow> (b, e, l\<lparr>lr_src := cs\<rparr>))
     else if lr_remaining l = 0 then
       (case src_read 1 (lr_src l) of (b, e, cs) \<Rightarrow>
          if b \<noteq> '''' then ('''', LimitErr, l\<lparr>lr_src := cs, lr_exceeded := True\<rparr>)
          else ('''', Eof, l\<lparr>lr_src := cs\<rparr>))
     else
       (case src_read (if int n > lr_remaining l then nat (lr_remaining l) else n) (lr_src l) of (b, e, cs) \<Rightarrow>
          (b, e, l\<lparr>lr_src := cs, lr_remaining := lr_remaining l - int (length b)\<rparr>)))"

text \<open>\<open>limitReadCloser.Read\<close>: here a negative limit makes the slice expression panic.\<close>

record limit_read_closer =
  lc_src :: "string list"
  lc_remaining :: int

definition closer_read :: "nat \<Rightarrow> limit_read_closer \<Rightarrow> string \<times> read_end \<times> limit_read_closer" where
  "closer_read n l =
    (if lc_remaining l = 0 then
       (case src_read 1 (lc_src l) of (b, e, cs) \<Rightarrow>
          if b \<noteq> '''' then ('''', LimitErr, l\<lparr>lc_src := cs\<rparr>) else ('''', e, l\<lparr>lc_src := cs\<rparr>))
     else if lc_remaining l < 0 then ('''', Panic, l)
     else
       (case src_read (if int n > lc_remaining l then nat (lc_remaining l) else n) (lc_src l) of (b, e, cs) \<Rightarrow>
          (b, e, l\<lparr>lc_src := cs, lc_remaining := lc_remaining l - int (length b)\<rparr>)))"

text \<open>\<open>io.Copy\<close>: reads until the end or an error; the buffer has \<open>Suc k\<close> bytes.\<close>

definition src_size :: "string list \<Rightarrow> nat" where
  "src_size cs = sum_list (map (\<lambda>c. length c + 1) cs)"

lemma src_read_size: "src_read (Suc n) cs = (b, More, cs') \<Longrightarrow> src_size cs' < src_size cs"
  by (cases cs) (auto simp: src_size_def split: if_splits)

lemma limit_read_pos:
  assumes "0 < lr_remaining l"
  shows "limit_read (Suc k) l =
    (case src_read (Suc (min k (nat (lr_remaining l) - 1))) (lr_src l) of (b, e, cs) \<Rightarrow>
       (b, e, l\<lparr>lr_src := cs, lr_remaining := lr_remaining l - int (length b)\<rparr>))"
proof -
  have "(if int (Suc k) > lr_remaining l then nat (lr_remaining l) else Suc k) = Suc (min k (nat (lr_remaining l) - 1))"
    using assms by (simp add: min_def) linarith
  with assms show ?thesis unfolding limit_read_def by simp
qed

lemma limit_read_size:
  assumes r: "limit_read (Suc k) l = (b, More, l')" shows "src_size (lr_src l') < src_size (lr_src l)"
proof -
  consider "lr_remaining l < 0" | "lr_remaining l = 0" | "0 < lr_remaining l" by linarith
  then show ?thesis
  proof cases
    case 1
    with r show ?thesis by (auto simp: limit_read_def split: prod.splits dest: src_read_size)
  next
    case 2
    with r show ?thesis by (auto simp: limit_read_def split: prod.splits if_splits)
  next
    case 3
    from r show ?thesis unfolding limit_read_pos [OF 3] by (auto split: prod.splits dest: src_read_size)
  qed
qed

function copy_limit :: "nat \<Rightarrow> limit_reader \<Rightarrow> string \<times> read_end \<times> limit_reader" where
  "copy_limit k l =
    (case limit_read (Suc k) l of (b, e, l') \<Rightarrow>
       if e = More then (case copy_limit k l' of (bs, e', l'') \<Rightarrow> (b @ bs, e', l'')) else (b, e, l'))"
  by pat_completeness auto
termination
  by (relation "measure (\<lambda>(k, l). src_size (lr_src l))") (auto intro: limit_read_size [OF sym])

declare copy_limit.simps [simp del]

definition chunked :: "string list \<Rightarrow> bool" where
  "chunked cs \<longleftrightarrow> list_all (\<lambda>c. c \<noteq> '''') cs"

lemma src_read_chunked:
  assumes "chunked cs" "src_read (Suc n) cs = (b, e, cs')"
  shows "chunked cs' \<and> concat cs = b @ concat cs' \<and> length b \<le> Suc n
     \<and> (e = Eof \<and> cs = [] \<and> b = '''' \<and> cs' = [] \<or> e = More \<and> b \<noteq> '''')"
  using assms by (cases cs) (auto simp: chunked_def)

lemma copy_limit_spec:
  assumes "chunked (lr_src l)" and "0 \<le> lr_remaining l" and "copy_limit k l = (bs, e, l')"
  shows "bs = take (nat (lr_remaining l)) (concat (lr_src l))
    \<and> e = (if nat (lr_remaining l) < length (concat (lr_src l)) then LimitErr else Eof)
    \<and> (lr_exceeded l' \<longleftrightarrow> lr_exceeded l \<or> e = LimitErr)"
  using assms
proof (induction k l arbitrary: bs e l' rule: copy_limit.induct)
  case (1 k l)
  show ?case
  proof (cases "lr_remaining l = 0")
    case True
    obtain b e0 cs where s: "src_read 1 (lr_src l) = (b, e0, cs)" by (cases "src_read 1 (lr_src l)")
    from src_read_chunked [OF 1(2), of 0] s
    have c: "concat (lr_src l) = b @ concat cs" "b = '''' \<longrightarrow> concat cs = ''''" by auto
    from 1(4) True s c show ?thesis
      by (subst (asm) copy_limit.simps) (auto simp: limit_read_def split: if_splits)
  next
    case False
    with 1(3) have pos: "0 < lr_remaining l" by simp
    let ?n = "min k (nat (lr_remaining l) - 1)"
    obtain b e0 cs where s: "src_read (Suc ?n) (lr_src l) = (b, e0, cs)" by (cases "src_read (Suc ?n) (lr_src l)")
    define l1 where "l1 = l\<lparr>lr_src := cs, lr_remaining := lr_remaining l - int (length b)\<rparr>"
    have r: "limit_read (Suc k) l = (b, e0, l1)" unfolding limit_read_pos [OF pos] s by (simp add: l1_def)
    from src_read_chunked [OF 1(2) s]
    have c: "chunked cs" "concat (lr_src l) = b @ concat cs" "length b \<le> Suc ?n"
      "e0 = Eof \<and> lr_src l = [] \<and> b = '''' \<and> cs = [] \<or> e0 = More \<and> b \<noteq> ''''" by auto
    have le: "int (length b) \<le> lr_remaining l" using c(3) pos by linarith
    show ?thesis
    proof (cases "e0 = More")
      case True
      obtain b2 e2 l2 where rec: "copy_limit k l1 = (b2, e2, l2)" by (cases "copy_limit k l1")
      from 1(4) r True rec have eq: "bs = b @ b2" "e = e2" "l' = l2"
        by (subst (asm) copy_limit.simps, simp)+
      have "0 \<le> lr_remaining l1" "chunked (lr_src l1)" using le c(1) by (simp_all add: l1_def)
      from 1(1) [OF r [symmetric] refl True this(2,1) rec] le c(2) eq
      show ?thesis by (simp add: l1_def nat_diff_distrib') linarith
    next
      case False
      with c(4) have z: "e0 = Eof" "b = ''''" "lr_src l = []" by auto
      from 1(4) r z have "bs = ''''" "e = Eof" "l' = l1" by (subst (asm) copy_limit.simps, simp)+
      with z show ?thesis by (simp add: l1_def)
    qed
  qed
qed

text \<open>
  C40. The upload stream is cut at the byte limit and nowhere else: whatever chunks the caller's
  body arrives in and whatever buffer copies it, exactly the first \<open>maxBytes\<close> bytes are forwarded,
  a body that fits is forwarded whole and ends normally, and a longer one ends in
  \<open>ErrByteLimitExceeded\<close>, recorded in the reader.
\<close>

theorem upload_stream_capped:
  assumes "chunked body" and "0 \<le> maxBytes"
    and "copy_limit k \<lparr>lr_src = body, lr_remaining = maxBytes, lr_exceeded = False\<rparr> = (sent, e, l')"
  shows "sent = take (nat maxBytes) (concat body) \<and> int (length sent) \<le> maxBytes
    \<and> (int (length (concat body)) \<le> maxBytes \<longrightarrow> sent = concat body \<and> e = Eof \<and> \<not> lr_exceeded l')
    \<and> (maxBytes < int (length (concat body)) \<longrightarrow> e = LimitErr \<and> lr_exceeded l')"
  using copy_limit_spec [of "\<lparr>lr_src = body, lr_remaining = maxBytes, lr_exceeded = False\<rparr>" k sent e l'] assms
  by auto

theorem upload_stream_capped_witness:
  "fst (copy_limit 1 \<lparr>lr_src = [''ab'', ''cdef''], lr_remaining = 5, lr_exceeded = False\<rparr>) = ''abcde''"
  using upload_stream_capped [of "[''ab'', ''cdef'']" 5 1]
  by (cases "copy_limit 1 \<lparr>lr_src = [''ab'', ''cdef''], lr_remaining = 5, lr_exceeded = False\<rparr>")
     (simp add: chunked_def)

section \<open>Requests\<close>

definition PurposeStatus :: string where "PurposeStatus = ''drop_status''"
definition PurposeUpload :: string where "PurposeUpload = ''drop_upload''"
definition PurposeRead :: string where "PurposeRead = ''drop_read''"
definition PurposePinCheck :: string where "PurposePinCheck = ''drop_pin_check''"
definition PurposeUnpin :: string where "PurposeUnpin = ''drop_unpin''"
definition PurposeWebUI :: string where "PurposeWebUI = ''drop_webui''"

datatype client_err =
    ErrByteLimitExceeded
  | ErrObjectNotFound
  | TransportErr string
  | StatusErr int string
  | DecodeErr

record http_req =
  rq_method :: string
  rq_url :: string
  rq_content_length :: int
  rq_headers :: "(string \<times> string) list"

record http_resp =
  rs_status :: int
  rs_content_type :: string
  rs_chunks :: "string list"

record status_result =
  sr_state :: string
  sr_kubo_version :: string
  sr_repo_size_bytes :: int
  sr_storage_max_bytes :: int
  sr_num_objects :: int

record upload_result =
  ur_cid :: string
  ur_size_bytes :: int

record drop_client =
  dc_http :: "http_req \<Rightarrow> limit_reader option \<Rightarrow> (string + http_resp) \<times> limit_reader option"
  dc_json_status :: "string \<Rightarrow> status_result option"
  dc_json_upload :: "string \<Rightarrow> upload_result option"

fun dec_nat :: "nat \<Rightarrow> string" where
  "dec_nat n = (if n < 10 then [char_of (48 + n)] else dec_nat (n div 10) @ [char_of (48 + n mod 10)])"

declare dec_nat.simps [simp del]

text \<open>\<open>fmt.Sprintf("%d", n)\<close>.\<close>

definition dec_int :: "int \<Rightarrow> string" where
  "dec_int n = (if n < 0 then CHR ''-'' # dec_nat (nat (- n)) else dec_nat (nat n))"

text \<open>\<open>strings.TrimRight(s, "/")\<close>.\<close>

definition trim_slashes :: "string \<Rightarrow> string" where
  "trim_slashes s = rev (dropWhile (\<lambda>c. c = CHR ''/'') (rev s))"

definition doStream :: "drop_client \<Rightarrow> string \<Rightarrow> string \<Rightarrow> string \<Rightarrow> string \<Rightarrow> string \<Rightarrow> limit_reader option \<Rightarrow> int
    \<Rightarrow> (string \<times> string) list \<Rightarrow> (string + http_resp) \<times> limit_reader option" where
  "doStream c method baseURL path token nodeKey body len headers =
    dc_http c \<lparr>rq_method = method, rq_url = trim_slashes baseURL @ path,
       rq_content_length = (if 0 \<le> len then len else 0),
       rq_headers =
         (if token \<noteq> '''' then [(''Authorization'', ''Bearer '' @ token)] else [])
         @ (if nodeKey \<noteq> '''' then [(''X-Erebrus-Node-Key'', nodeKey)] else [])
         @ (if body \<noteq> None \<and> method \<noteq> ''GET'' then [(''Content-Type'', ''application/octet-stream'')] else [])
         @ headers\<rparr> body"

definition do_call :: "drop_client \<Rightarrow> string \<Rightarrow> string \<Rightarrow> string \<Rightarrow> string \<Rightarrow> string \<Rightarrow> string + http_resp" where
  "do_call c method baseURL path token nodeKey =
     fst (doStream c method baseURL path token nodeKey None (-1) [])"

definition success :: "http_resp \<Rightarrow> bool" where
  "success r \<longleftrightarrow> \<not> (rs_status r < 200 \<or> rs_status r \<ge> 300)"

definition statusError :: "http_resp \<Rightarrow> client_err" where
  "statusError r = StatusErr (rs_status r) (TrimSpace (take 512 (concat (rs_chunks r))))"

text \<open>The body as the JSON decoder sees it, cut at \<open>1<<16\<close> bytes.\<close>

definition json_body :: "http_resp \<Rightarrow> string" where
  "json_body r = take 65536 (concat (rs_chunks r))"

definition client_Status :: "drop_client \<Rightarrow> string \<Rightarrow> string \<Rightarrow> string \<Rightarrow> client_err + status_result" where
  "client_Status c baseURL token nodeKey =
    (case do_call c ''GET'' baseURL ''/api/v2/drop/status'' token nodeKey of
       Inl e \<Rightarrow> Inl (TransportErr e)
     | Inr r \<Rightarrow>
        if \<not> success r then Inl (statusError r)
        else (case dc_json_status c (json_body r) of None \<Rightarrow> Inl DecodeErr | Some v \<Rightarrow> Inr v))"

definition PutUploadContent :: "drop_client \<Rightarrow> string \<Rightarrow> string \<Rightarrow> string \<Rightarrow> string \<Rightarrow> string \<Rightarrow> string list
    \<Rightarrow> int \<Rightarrow> int \<Rightarrow> client_err + upload_result" where
  "PutUploadContent c baseURL token nodeKey uploadID sha256 src len maxBytes =
    (let limited = \<lparr>lr_src = src, lr_remaining = maxBytes, lr_exceeded = False\<rparr>;
         headers = (''X-Erebrus-Declared-Size'', dec_int len)
                   # (if sha256 \<noteq> '''' then [(''X-Erebrus-SHA256'', sha256)] else [])
     in case doStream c ''PUT'' baseURL (''/api/v2/drop/uploads/'' @ uploadID) token nodeKey (Some limited) len headers of
          (Inl e, limited) \<Rightarrow>
            (if (case limited of None \<Rightarrow> False | Some l \<Rightarrow> lr_exceeded l) then Inl ErrByteLimitExceeded
             else Inl (TransportErr e))
        | (Inr r, _) \<Rightarrow>
            if \<not> success r then Inl (statusError r)
            else (case dc_json_upload c (json_body r) of None \<Rightarrow> Inl DecodeErr | Some v \<Rightarrow> Inr v))"

definition GetObject :: "drop_client \<Rightarrow> string \<Rightarrow> string \<Rightarrow> string \<Rightarrow> string \<Rightarrow> int
    \<Rightarrow> client_err + limit_read_closer \<times> string" where
  "GetObject c baseURL token nodeKey cid maxBytes =
    (case do_call c ''GET'' baseURL (''/api/v2/drop/objects/'' @ cid) token nodeKey of
       Inl e \<Rightarrow> Inl (TransportErr e)
     | Inr r \<Rightarrow>
        if rs_status r = 404 then Inl ErrObjectNotFound
        else if \<not> success r then Inl (statusError r)
        else Inr (\<lparr>lc_src = rs_chunks r, lc_remaining = maxBytes\<rparr>, rs_content_type r))"

definition PinCheck :: "drop_client \<Rightarrow> string \<Rightarrow> string \<Rightarrow> string \<Rightarrow> string \<Rightarrow> client_err + bool" where
  "PinCheck c baseURL token nodeKey cid =
    (case do_call c ''GET'' baseURL (''/api/v2/drop/pins/'' @ cid) token nodeKey of
       Inl e \<Rightarrow> Inl (TransportErr e)
     | Inr r \<Rightarrow>
        if rs_status r = 404 then Inr False
        else if \<not> success r then Inl (statusError r) else Inr True)"

definition Unpin :: "drop_client \<Rightarrow> string \<Rightarrow> string \<Rightarrow> string \<Rightarrow> string \<Rightarrow> client_err option" where
  "Unpin c baseURL token nodeKey cid =
    (case do_call c ''DELETE'' baseURL (''/api/v2/drop/pins/'' @ cid) token nodeKey of
       Inl e \<Rightarrow> Some (TransportErr e)
     | Inr r \<Rightarrow> if rs_status r = 404 \<or> success r then None else Some (statusError r))"

end
