(* ===== verification/Api.thy ===== *)
theory Api
  imports DropStore DropClient
begin

text \<open>
  What the HTTP handlers share: responses, the authenticated caller, the membership guards of
  \<open>internal/api/orgs.go\<close> and \<open>firewall.go\<close>, and the node lookups of \<open>internal/store/nodes.go\<close> they use.

  A handler is a function from the request and the database to a response and a database.  The
  uniform error envelope of \<open>fail\<close> is \<open>Fail\<close> with the status code and message; \<open>Ok\<close> carries the
  status code and the payload.  A request body is \<open>None\<close> when \<open>ShouldBindJSON\<close> rejects it.
\<close>

datatype 'a resp = Fail int string | Ok int 'a

text \<open>What \<open>authUser\<close> puts in the context.\<close>

record caller =
  cl_user_id :: id
  cl_role :: string

type_synonym failure = "int \<times> string"

definition refuse :: "failure \<Rightarrow> 'a resp" where
  "refuse f = Fail (fst f) (snd f)"

section \<open>Membership guards\<close>

definition orgMember :: "db \<Rightarrow> caller \<Rightarrow> id \<Rightarrow> failure + string" where
  "orgMember s cl orgID =
    (case MemberRole s orgID (cl_user_id cl) of
       Inl e \<Rightarrow> if e = ErrNotFound then Inl (403, ''not a member of this org'')
               else Inl (500, ''membership check failed'')
     | Inr role \<Rightarrow> Inr role)"

definition orgOwner :: "db \<Rightarrow> caller \<Rightarrow> id \<Rightarrow> failure option" where
  "orgOwner s cl orgID =
    (case orgMember s cl orgID of Inl f \<Rightarrow> Some f
     | Inr role \<Rightarrow> if role \<noteq> OrgRoleOwner then Some (403, ''owner role required'') else None)"

definition orgPrivileged :: "db \<Rightarrow> caller \<Rightarrow> id \<Rightarrow> failure + string" where
  "orgPrivileged s cl orgID =
    (case orgMember s cl orgID of Inl f \<Rightarrow> Inl f
     | Inr role \<Rightarrow> if \<not> IsOrgPrivileged role then Inl (403, ''owner role required'') else Inr role)"

definition orgCanManageNodes :: "db \<Rightarrow> caller \<Rightarrow> id \<Rightarrow> failure + string" where
  "orgCanManageNodes s cl orgID =
    (case orgMember s cl orgID of Inl f \<Rightarrow> Inl f
     | Inr role \<Rightarrow> if \<not> CanManageOrgNodes role then Inl (403, ''node management role required'') else Inr role)"

definition orgMemberWithSeat :: "db \<Rightarrow> caller \<Rightarrow> id \<Rightarrow> failure + string \<times> string" where
  "orgMemberWithSeat s cl orgID =
    (case MemberMembership s orgID (cl_user_id cl) of
       Inl e \<Rightarrow> if e = ErrNotFound then Inl (403, ''not a member of this org'')
               else Inl (500, ''membership check failed'')
     | Inr m \<Rightarrow> Inr m)"

definition requireNodeOperator :: "db \<Rightarrow> caller \<Rightarrow> id \<Rightarrow> failure + string" where
  "requireNodeOperator s cl orgID =
    (case orgMember s cl orgID of Inl f \<Rightarrow> Inl f
     | Inr role \<Rightarrow> if role \<noteq> OrgRoleOwner \<and> role \<noteq> OrgRoleNodeOperator then Inl (403, ''insufficient role'')
                  else Inr role)"

lemma MemberRole_errD: "MemberRole s orgID u = Inl e \<Longrightarrow> e = ErrNotFound"
  by (auto simp: MemberRole_def MemberMembership_def split: option.splits)

lemma orgPrivileged_owner: "orgPrivileged s cl orgID = Inr role \<longleftrightarrow>
    role = OrgRoleOwner \<and> MemberRole s orgID (cl_user_id cl) = Inr OrgRoleOwner"
  by (auto simp: orgPrivileged_def orgMember_def IsOrgPrivileged_def split: sum.splits)

lemma orgOwner_owner: "orgOwner s cl orgID = None \<longleftrightarrow> MemberRole s orgID (cl_user_id cl) = Inr OrgRoleOwner"
  by (auto simp: orgOwner_def orgMember_def split: sum.splits if_splits)

lemma orgPrivileged_refused:
  "MemberRole s orgID (cl_user_id cl) \<noteq> Inr OrgRoleOwner \<Longrightarrow>
    orgPrivileged s cl orgID = Inl (403, ''not a member of this org'') \<or>
    orgPrivileged s cl orgID = Inl (403, ''owner role required'')"
  by (auto simp: orgPrivileged_def orgMember_def IsOrgPrivileged_def dest: MemberRole_errD split: sum.splits)

lemma orgOwner_refused:
  "MemberRole s orgID (cl_user_id cl) \<noteq> Inr OrgRoleOwner \<Longrightarrow>
    orgOwner s cl orgID = Some (403, ''not a member of this org'') \<or>
    orgOwner s cl orgID = Some (403, ''owner role required'')"
  by (auto simp: orgOwner_def orgMember_def dest: MemberRole_errD split: sum.splits)

section \<open>Node lookups (\<open>nodes.go\<close>)\<close>

definition GetNode :: "db \<Rightarrow> string \<Rightarrow> node res" where
  "GetNode s peerID =
    (case find (\<lambda>n. n_peer_id n = peerID) (nodes s) of None \<Rightarrow> Inl ErrNotFound | Some n \<Rightarrow> Inr n)"

definition ResolvePeerID :: "db \<Rightarrow> string \<Rightarrow> string res" where
  "ResolvePeerID s peerID =
    (case find (\<lambda>n. n_peer_id n = peerID) (nodes s) of None \<Rightarrow> Inl ErrNotFound | Some n \<Rightarrow> Inr (n_peer_id n))"

definition GetNodePeerID :: "db \<Rightarrow> string \<Rightarrow> string res" where
  "GetNodePeerID s ref = ResolvePeerID s ref"

definition NodeAPI :: "db \<Rightarrow> string \<Rightarrow> (string \<times> string \<times> string) res" where
  "NodeAPI s ref =
    (case find (\<lambda>n. n_peer_id n = ref) (nodes s) of None \<Rightarrow> Inl ErrNotFound
     | Some n \<Rightarrow> Inr (n_api_base_url n, n_node_key n, n_status n))"

end
