(* ===== verification/DropApi.thy ===== *)
theory DropApi
  imports Api
begin

text \<open>
  The Drop handlers of \<open>internal/api/drop.go\<close> and the pin reconciler of \<open>cmd/gateway/main.go\<close>.

  Calls to nodes take time: \<open>during\<close> is what other requests do to the database between the
  moment a handler calls a node and the moment it goes on.  A handler that can remove content
  from nodes also returns the unpin calls it issued, as (node, content identifier) pairs.
  Metrics and the activity log are left out.
\<close>

section \<open>Environment and views\<close>

record node_env =
  ne_client :: drop_client
  ne_token :: "string \<Rightarrow> string \<Rightarrow> string option"  \<comment> \<open>\<open>IssueGatewayCall\<close>: peer, purpose\<close>

text \<open>
  Response bodies: a key that repeats another (\<open>upload_id\<close>, \<open>file_id\<close>, \<open>declared_size_bytes\<close>,
  \<open>public_quota_bytes\<close>) and constant keys are kept once or left out.
\<close>

record upload_body =
  ub_id :: id
  ub_node_id :: string
  ub_scope :: string
  ub_visibility :: string
  ub_filename :: string
  ub_size_bytes :: int
  ub_status :: string
  ub_cid :: string
  ub_expires_at :: time

definition dropUploadView :: "drop_upload \<Rightarrow> upload_body" where
  "dropUploadView u = \<lparr>ub_id = up_id u, ub_node_id = up_node_id u,
     ub_scope = publicDropScope (up_storage_scope u), ub_visibility = up_visibility u,
     ub_filename = up_filename u, ub_size_bytes = up_declared_size_bytes u,
     ub_status = up_status u, ub_cid = up_cid u, ub_expires_at = up_expires_at u\<rparr>"

record file_body =
  fb_id :: id
  fb_node_id :: string
  fb_org_id :: string
  fb_scope :: string
  fb_filename :: string
  fb_content_type :: string
  fb_size_bytes :: int
  fb_visibility :: string
  fb_encrypted :: bool
  fb_can_decrypt :: bool
  fb_status :: string
  fb_created_at :: time
  fb_cid :: "string option"
  fb_encryption_metadata :: "string option"

definition dropFileView :: "drop_file \<Rightarrow> bool \<Rightarrow> file_body" where
  "dropFileView f owner = \<lparr>fb_id = df_id f, fb_node_id = df_node_id f, fb_org_id = df_org_id f,
     fb_scope = publicDropScope (df_storage_scope f), fb_filename = df_filename f,
     fb_content_type = df_content_type f, fb_size_bytes = df_size_bytes f,
     fb_visibility = df_visibility f, fb_encrypted = df_encrypted f, fb_can_decrypt = owner,
     fb_status = publicDropFileStatus (df_status f), fb_created_at = df_created_at f,
     fb_cid = (if owner then Some (df_cid f) else None),
     fb_encryption_metadata =
       (if owner \<and> df_encryption_metadata f \<noteq> '''' then Some (df_encryption_metadata f) else None)\<rparr>"

definition renderDropFile :: "drop_file \<Rightarrow> bool \<Rightarrow> file_body" where
  "renderDropFile f owner = dropFileView f owner"

section \<open>Nodes\<close>

definition dropNodeEndpoint :: "node_env \<Rightarrow> db \<Rightarrow> string \<Rightarrow> string \<Rightarrow> failure + string \<times> string \<times> string" where
  "dropNodeEndpoint env s peerID purpose =
    (case NodeAPI s peerID of
       Inl e \<Rightarrow> if e = ErrNotFound then Inl (503, ''drop node unavailable'') else Inl (500, ''failed to resolve node'')
     | Inr (baseURL, nodeKey, _) \<Rightarrow>
        if baseURL = '''' then Inl (503, ''drop node unavailable'')
        else (case ne_token env peerID purpose of
                None \<Rightarrow> Inl (500, ''failed to authorize node call'')
              | Some tok \<Rightarrow> Inr (baseURL, nodeKey, tok)))"

definition revalidateDropNode :: "db \<Rightarrow> string \<Rightarrow> string \<Rightarrow> bool \<Rightarrow> failure option" where
  "revalidateDropNode s peerID scope write =
    (case GetNode s peerID of Inl _ \<Rightarrow> Some (503, ''drop node is offline'')
     | Inr n \<Rightarrow>
       if n_status n \<noteq> ''online'' then Some (503, ''drop node is offline'')
       else case GetNodeDropStatus s peerID of
         Inl e \<Rightarrow> if e = ErrNotFound then Some (503, ''drop not available on node'')
                  else Some (500, ''node status check failed'')
       | Inr st \<Rightarrow>
         (let usable = (ns_state st = DropStateActive
                \<or> (\<not> write \<and> (ns_state st = DropStateDegraded \<or> ns_state st = DropStateFull)))
          in if \<not> ns_enabled st \<or> \<not> usable then Some (503, ''drop not available on node'')
             else if write \<and> scope = DropScopePublic \<and> \<not> ns_accepts_public_uploads st
             then Some (503, ''node not accepting public uploads'')
             else None))"

definition handleDropNodes :: "caller \<Rightarrow> string \<Rightarrow> string \<Rightarrow> db \<Rightarrow> (drop_node_info list \<times> string) resp" where
  "handleDropNodes cl scopeQuery orgID s =
    (case normalizeDropScope scopeQuery of None \<Rightarrow> Fail 400 ''scope must be public or private''
     | Some scope \<Rightarrow>
       if scope = DropScopePrivateOrg then
         (if orgID = '''' then Fail 400 ''org_id required for private scope''
          else case MemberRole s orgID (cl_user_id cl) of
            Inl e \<Rightarrow> if e = ErrNotFound then Fail 403 ''not a member of this org''
                     else Fail 500 ''membership check failed''
          | Inr _ \<Rightarrow> Ok 200 (ListDropNodes s scope orgID, publicDropScope scope))
       else Ok 200 (ListDropNodes s DropScopePublic orgID, publicDropScope DropScopePublic))"

section \<open>Uploads\<close>

record reserve_req =
  dr_node_id :: string
  dr_scope :: string
  dr_visibility :: string
  dr_filename :: string
  dr_content_type :: string
  dr_size_bytes :: int
  dr_legacy_size :: int
  dr_sha256 :: string
  dr_encrypted :: bool
  dr_encryption_metadata :: string
  dr_org_id :: string
  dr_idempotency_key :: string

definition req_size :: "reserve_req \<Rightarrow> int" where
  "req_size req = (if dr_size_bytes req = 0 then dr_legacy_size req else dr_size_bytes req)"

definition req_visibility :: "reserve_req \<Rightarrow> string" where
  "req_visibility req =
    (if dr_visibility req \<noteq> DropVisibilityPublic then DropVisibilityPrivate else dr_visibility req)"

text \<open>The checks before the node is looked up.\<close>

definition validate_reserve :: "reserve_req \<Rightarrow> failure + string" where
  "validate_reserve req =
    (if dr_node_id req = '''' \<or> req_size req \<le> 0 then Inl (400, ''node_id and positive size_bytes required'')
     else if dr_idempotency_key req = '''' \<or> length (dr_idempotency_key req) > 128
     then Inl (400, ''idempotency_key must contain 1 to 128 characters'')
     else if length (dr_node_id req) > 128 \<or> length (dr_filename req) > 255 \<or> length (dr_content_type req) > 255
     then Inl (400, ''upload metadata is too long'')
     else case normalizeDropScope (dr_scope req) of None \<Rightarrow> Inl (400, ''scope must be public or private'')
     | Some scope \<Rightarrow>
        if dr_sha256 req \<noteq> '''' \<and> \<not> sha256Pattern (dr_sha256 req)
        then Inl (400, ''sha256 must be a 64-character hexadecimal digest'')
        else Inr scope)"

text \<open>The switch on the scope: who may store where, and with which provenance.\<close>

definition reserve_target :: "db \<Rightarrow> caller \<Rightarrow> reserve_req \<Rightarrow> string \<Rightarrow> node \<Rightarrow> failure + reserve_input" where
  "reserve_target s cl req scope n =
    (let inp = \<lparr>ri_user_id = cl_user_id cl, ri_org_id = '''', ri_entitlement_org_id = '''',
           ri_node_id = dr_node_id req, ri_scope = scope, ri_visibility = req_visibility req,
           ri_filename = dr_filename req, ri_content_type = dr_content_type req,
           ri_declared_size = req_size req, ri_sha256 = dr_sha256 req, ri_encrypted = dr_encrypted req,
           ri_encryption_metadata = dr_encryption_metadata req,
           ri_idempotency_key = dr_idempotency_key req, ri_ttl = 0\<rparr>
     in if scope = DropScopePrivateOrg then
          (if dr_org_id req = '''' then Inl (400, ''org_id required for private_org scope'')
           else case MemberRole s (dr_org_id req) (cl_user_id cl) of
             Inl e \<Rightarrow> if e = ErrNotFound then Inl (403, ''not a member of this org'')
                      else Inl (500, ''membership check failed'')
           | Inr _ \<Rightarrow>
               if n_org_id n \<noteq> dr_org_id req then Inl (403, ''node does not belong to this org'')
               else Inr (inp\<lparr>ri_org_id := dr_org_id req\<rparr>))
        else if n_access_mode n \<noteq> NodeAccessPublic then Inl (403, ''node is not public'')
        else Inr (inp\<lparr>ri_entitlement_org_id := de_entitlement_org_id (ResolveDropEntitlement s (cl_user_id cl))\<rparr>))"

definition reserve_failure :: "err \<Rightarrow> failure" where
  "reserve_failure e =
    (if e = ErrDropQuotaExceeded then (409, ''storage quota exceeded'')
     else if e = ErrDropNodeCapacity then (507, ''node storage capacity exhausted'')
     else if e = ErrDropNodeUnavailable then (503, ''drop node unavailable'')
     else (500, ''failed to reserve upload''))"

definition handleDropReserveUpload :: "time \<Rightarrow> id \<Rightarrow> caller \<Rightarrow> reserve_req option \<Rightarrow> db \<Rightarrow> upload_body resp \<times> db" where
  "handleDropReserveUpload now newID cl body s =
    (case body of None \<Rightarrow> (Fail 400 ''invalid request body'', s)
     | Some req \<Rightarrow>
       (case validate_reserve req of Inl f \<Rightarrow> (refuse f, s)
        | Inr scope \<Rightarrow>
          (case GetNode s (dr_node_id req) of
             Inl e \<Rightarrow> if e = ErrNotFound then (Fail 404 ''node not found'', s)
                      else (Fail 500 ''failed to load node'', s)
           | Inr n \<Rightarrow>
             (case reserve_target s cl req scope n of Inl f \<Rightarrow> (refuse f, s)
              | Inr inp \<Rightarrow>
                if ri_visibility inp = DropVisibilityPrivate \<and> (\<not> ri_encrypted inp \<or> ri_encryption_metadata inp = '''')
                then (Fail 400 ''private files require client-side encryption metadata'', s)
                else if ri_visibility inp = DropVisibilityPublic \<and> ri_encrypted inp
                then (Fail 400 ''public files must be uploaded as plaintext'', s)
                else case revalidateDropNode s (dr_node_id req) scope True of Some f \<Rightarrow> (refuse f, s)
                | None \<Rightarrow>
                  (case ReserveDropUpload now newID inp s of
                     (Inl e, s) \<Rightarrow> (refuse (reserve_failure e), s)
                   | (Inr up, s) \<Rightarrow> (Ok 201 (dropUploadView up), s))))))"

text \<open>What follows the transfer: release on failure, commit, or the cleanup job.\<close>

definition finish_upload :: "time \<Rightarrow> id \<Rightarrow> id \<Rightarrow> caller \<Rightarrow> id \<Rightarrow> client_err + upload_result \<Rightarrow> db \<Rightarrow> file_body resp \<times> db" where
  "finish_upload now fileID pinID cl uploadID result s =
    (case result of
       Inl e \<Rightarrow>
         (if e = ErrByteLimitExceeded then Fail 413 ''upload exceeds declared size''
          else Fail 502 ''node upload failed'',
          snd (ReleaseDropReservation now uploadID DropUploadFailed s))
     | Inr r \<Rightarrow>
         if \<not> validCID (ur_cid r) then
           (Fail 502 ''node returned invalid cid'',
            snd (ReleaseDropReservation now uploadID DropUploadFailed s))
         else case CommitDropUpload now fileID pinID (cl_user_id cl) uploadID (ur_cid r) (ur_size_bytes r) s of
           (Inl _, s) \<Rightarrow>
             (Fail 500 ''failed to finalize upload'',
              snd (FailDropUploadWithOrphanPin now uploadID (ur_cid r) ''metadata commit failed'' s))
         | (Inr f, s) \<Rightarrow> (Ok 200 (dropFileView f True), s))"

definition handleDropUploadContent ::
  "node_env \<Rightarrow> (db \<Rightarrow> db) \<Rightarrow> time \<Rightarrow> id \<Rightarrow> id \<Rightarrow> caller \<Rightarrow> id \<Rightarrow> string list \<Rightarrow> db \<Rightarrow> file_body resp \<times> db" where
  "handleDropUploadContent env during now fileID pinID cl uploadID body s =
    (case GetDropUpload s (cl_user_id cl) uploadID of
       Inl e \<Rightarrow> if e = ErrNotFound then (Fail 404 ''upload not found'', s) else (Fail 500 ''failed to load upload'', s)
     | Inr up \<Rightarrow>
       if up_status up = DropUploadCommitted then
         (case GetDropFileByUpload s uploadID of
            Inl _ \<Rightarrow> (Fail 500 ''failed to load committed upload'', s)
          | Inr f \<Rightarrow> (Ok 200 (dropFileView f True), s))
       else if \<not> upload_open up then (Fail 409 ''upload is not accepting content'', s)
       else case revalidateDropNode s (up_node_id up) (up_storage_scope up) True of Some f \<Rightarrow> (refuse f, s)
       | None \<Rightarrow>
         (case dropNodeEndpoint env s (up_node_id up) PurposeUpload of Inl f \<Rightarrow> (refuse f, s)
          | Inr (baseURL, nodeKey, tok) \<Rightarrow>
            (let maxBytes = (if up_declared_size_bytes up \<le> 0 then DropMaxFileBytes else up_declared_size_bytes up);
                 result = PutUploadContent (ne_client env) baseURL tok nodeKey uploadID (up_sha256 up) body
                            (up_declared_size_bytes up) maxBytes
             in finish_upload now fileID pinID cl uploadID result (during s))))"

definition handleDropUploadStatus :: "caller \<Rightarrow> id \<Rightarrow> db \<Rightarrow> upload_body resp" where
  "handleDropUploadStatus cl uploadID s =
    (case GetDropUpload s (cl_user_id cl) uploadID of
       Inl e \<Rightarrow> if e = ErrNotFound then Fail 404 ''upload not found'' else Fail 500 ''failed to load upload''
     | Inr up \<Rightarrow> Ok 200 (dropUploadView up))"

section \<open>Files\<close>

text \<open>\<open>loadAuthorizedFile\<close>: the file and whether the caller owns it.\<close>

definition loadAuthorizedFile :: "caller \<Rightarrow> id \<Rightarrow> db \<Rightarrow> failure + drop_file \<times> bool" where
  "loadAuthorizedFile cl fileID s =
    (case GetDropFile s fileID of
       Inl e \<Rightarrow> if e = ErrNotFound then Inl (404, ''file not found'') else Inl (500, ''failed to load file'')
     | Inr f \<Rightarrow>
        if df_owner_user_id f = cl_user_id cl then Inr (f, True)
        else if cl_role cl = ''admin'' then Inr (f, False)
        else if df_org_id f \<noteq> '''' \<and>
                (case MemberRole s (df_org_id f) (cl_user_id cl) of Inl _ \<Rightarrow> False
                 | Inr role \<Rightarrow> role = OrgRoleOwner \<or> role = OrgRoleNodeOperator)
        then Inr (f, False)
        else Inl (403, ''not allowed to access this file''))"

definition canDeleteDropFile :: "caller \<Rightarrow> drop_file \<Rightarrow> db \<Rightarrow> bool" where
  "canDeleteDropFile cl f s =
    (if df_owner_user_id f = cl_user_id cl \<or> cl_role cl = ''admin'' then True
     else if df_org_id f \<noteq> '''' then
       (case MemberRole s (df_org_id f) (cl_user_id cl) of Inl _ \<Rightarrow> False
        | Inr role \<Rightarrow> role = OrgRoleOwner \<or> role = OrgRoleNodeOperator)
     else False)"

definition handleDropListFiles :: "caller \<Rightarrow> db \<Rightarrow> file_body list resp" where
  "handleDropListFiles cl s = Ok 200 (map (\<lambda>f. renderDropFile f True) (ListDropFilesByUser s (cl_user_id cl)))"

definition handleDropGetFile :: "caller \<Rightarrow> id \<Rightarrow> db \<Rightarrow> file_body resp" where
  "handleDropGetFile cl fileID s =
    (case loadAuthorizedFile cl fileID s of Inl f \<Rightarrow> refuse f
     | Inr (f, owner) \<Rightarrow> Ok 200 (renderDropFile f owner))"

definition handleDropPatchFile :: "caller \<Rightarrow> id \<Rightarrow> string option \<Rightarrow> db \<Rightarrow> file_body resp \<times> db" where
  "handleDropPatchFile cl fileID body s =
    (case body of None \<Rightarrow> (Fail 400 ''invalid request body'', s)
     | Some visibility \<Rightarrow>
       if visibility \<noteq> DropVisibilityPublic \<and> visibility \<noteq> DropVisibilityPrivate
       then (Fail 400 ''visibility must be public or private'', s)
       else case GetDropFile s fileID of
         Inl e \<Rightarrow> if e = ErrNotFound then (Fail 404 ''file not found'', s) else (Fail 500 ''failed to load file'', s)
       | Inr cur \<Rightarrow>
           if df_owner_user_id cur \<noteq> cl_user_id cl then (Fail 404 ''file not found'', s)
           else if visibility = DropVisibilityPublic \<and> df_encrypted cur
           then (Fail 400 ''encrypted files cannot be made public'', s)
           else (case SetDropFileVisibility fileID (cl_user_id cl) visibility s of
                   (Inl e, s) \<Rightarrow> (if e = ErrNotFound then Fail 404 ''file not found''
                                  else Fail 500 ''failed to update file'', s)
                 | (Inr f, s) \<Rightarrow> (Ok 200 (renderDropFile f True), s)))"

datatype delete_status = StatusDeleted | StatusDeletePending

text \<open>The unpin call of a delete: \<open>None\<close> when no node was called, else whether it succeeded.\<close>

definition unpin_on_node :: "node_env \<Rightarrow> db \<Rightarrow> string \<Rightarrow> string \<Rightarrow> bool option" where
  "unpin_on_node env s nodeID cid =
    (case (NodeAPI s nodeID, ne_token env nodeID PurposeUnpin) of
       (Inr (baseURL, nodeKey, _), Some tok) \<Rightarrow>
         if baseURL = '''' then None
         else Some (Unpin (ne_client env) baseURL tok nodeKey cid = None)
     | _ \<Rightarrow> None)"

definition handleDropDeleteFile ::
  "node_env \<Rightarrow> (db \<Rightarrow> db) \<Rightarrow> time \<Rightarrow> caller \<Rightarrow> id \<Rightarrow> db \<Rightarrow> delete_status resp \<times> db \<times> (string \<times> string) list" where
  "handleDropDeleteFile env during now cl fileID s =
    (case GetDropFile s fileID of
       Inl e \<Rightarrow> ((if e = ErrNotFound then Fail 404 ''file not found'' else Fail 500 ''failed to load file''), s, [])
     | Inr f \<Rightarrow>
       if \<not> canDeleteDropFile cl f s then (Fail 403 ''not allowed to delete this file'', s, [])
       else case MarkDropFileDeletePending now fileID s of
         (Inl _, s) \<Rightarrow> (Fail 500 ''failed to delete file'', s, [])
       | (Inr (unpinNeeded, _), s) \<Rightarrow>
         (let s = during s;
              call = (if unpinNeeded \<and> validCID (df_cid f) then Some (unpin_on_node env s (df_node_id f) (df_cid f)) else None);
              unpinned = (case call of None \<Rightarrow> True | Some None \<Rightarrow> False | Some (Some okay) \<Rightarrow> okay);
              issued = (case call of Some (Some _) \<Rightarrow> [(df_node_id f, df_cid f)] | _ \<Rightarrow> []);
              s = FinalizeDropFileDeletion now fileID unpinned s
          in (if \<not> unpinned then Ok 202 StatusDeletePending else Ok 200 StatusDeleted, s, issued)))"

section \<open>Downloads\<close>

record download =
  dl_content_type :: string
  dl_disposition :: string
  dl_nosniff :: string
  dl_body :: limit_read_closer

text \<open>The loop over the candidate nodes: the first object found, and whether a source failed.\<close>

fun try_sources :: "node_env \<Rightarrow> db \<Rightarrow> string \<Rightarrow> int \<Rightarrow> string list \<Rightarrow> bool
    \<Rightarrow> (limit_read_closer \<times> string) option \<times> bool" where
  "try_sources env s cid maxBytes [] anyErr = (None, anyErr)"
| "try_sources env s cid maxBytes (nodeID # rest) anyErr =
    (case NodeAPI s nodeID of Inl _ \<Rightarrow> try_sources env s cid maxBytes rest True
     | Inr (baseURL, nodeKey, _) \<Rightarrow>
       if baseURL = '''' then try_sources env s cid maxBytes rest True
       else (case ne_token env nodeID PurposeRead of None \<Rightarrow> try_sources env s cid maxBytes rest True
        | Some tok \<Rightarrow>
          (case GetObject (ne_client env) baseURL tok nodeKey cid maxBytes of
             Inl e \<Rightarrow> try_sources env s cid maxBytes rest (anyErr \<or> e \<noteq> ErrObjectNotFound)
           | Inr found \<Rightarrow> (Some found, anyErr))))"

definition stream_sources :: "db \<Rightarrow> drop_file \<Rightarrow> string list" where
  "stream_sources s f =
    (let candidates = DropPinnedNodes s (df_cid f) (df_node_id f)
     in if candidates = [] then [df_node_id f] else candidates)"

definition streamDropContent :: "node_env \<Rightarrow> db \<Rightarrow> drop_file \<Rightarrow> download resp" where
  "streamDropContent env s f =
    (if \<not> validCID (df_cid f) then Fail 422 ''invalid object reference''
     else
       (let maxBytes = (if df_size_bytes f \<le> 0 then DropMaxFileBytes else df_size_bytes f)
        in case try_sources env s (df_cid f) maxBytes (stream_sources s f) False of
             (None, anyErr) \<Rightarrow>
               if anyErr then Fail 502 ''node download failed'' else Fail 404 ''object not found on node''
           | (Some (rc, ctype), _) \<Rightarrow>
               Ok 200 \<lparr>dl_content_type =
                   (if df_encrypted f then ''application/octet-stream''
                    else if df_content_type f \<noteq> '''' then df_content_type f
                    else if ctype \<noteq> '''' then ctype else ''application/octet-stream''),
                 dl_disposition = contentDisposition (df_filename f), dl_nosniff = ''nosniff'', dl_body = rc\<rparr>))"

definition handleDropFileContent :: "node_env \<Rightarrow> caller \<Rightarrow> id \<Rightarrow> db \<Rightarrow> download resp" where
  "handleDropFileContent env cl fileID s =
    (case loadAuthorizedFile cl fileID s of Inl f \<Rightarrow> refuse f
     | Inr (f, _) \<Rightarrow> streamDropContent env s f)"

section \<open>Public shares\<close>

definition loadPublicDropFile :: "id \<Rightarrow> db \<Rightarrow> failure + drop_file" where
  "loadPublicDropFile fileID s =
    (case GetDropFile s fileID of
       Inl e \<Rightarrow> if e = ErrNotFound then Inl (404, ''not found'') else Inl (500, ''failed to load file'')
     | Inr f \<Rightarrow>
        if df_visibility f \<noteq> DropVisibilityPublic \<or> df_encrypted f \<or> df_status f \<noteq> DropFileActive
        then Inl (404, ''not found'') else Inr f)"

record public_body =
  pb_id :: id
  pb_cid :: string
  pb_filename :: string
  pb_size_bytes :: int
  pb_content_type :: string
  pb_encrypted :: bool
  pb_created_at :: time
  pb_content_url :: string

definition handleDropPublicGet :: "id \<Rightarrow> db \<Rightarrow> public_body resp" where
  "handleDropPublicGet fileID s =
    (case loadPublicDropFile fileID s of Inl f \<Rightarrow> refuse f
     | Inr f \<Rightarrow> Ok 200 \<lparr>pb_id = df_id f, pb_cid = df_cid f, pb_filename = df_filename f,
         pb_size_bytes = df_size_bytes f, pb_content_type = df_content_type f,
         pb_encrypted = df_encrypted f, pb_created_at = df_created_at f,
         pb_content_url = ''/api/v2/drop/public/'' @ df_id f @ ''/content''\<rparr>)"

definition handleDropPublicContent :: "node_env \<Rightarrow> id \<Rightarrow> db \<Rightarrow> download resp" where
  "handleDropPublicContent env fileID s =
    (case loadPublicDropFile fileID s of Inl f \<Rightarrow> refuse f | Inr f \<Rightarrow> streamDropContent env s f)"

section \<open>Usage and organization views\<close>

record usage_body =
  gb_tier :: string
  gb_entitlement_org_id :: string
  gb_limit_bytes :: int
  gb_max_file_bytes :: int
  gb_used_bytes :: int
  gb_reserved_bytes :: int
  gb_available_bytes :: int

definition handleDropUsage :: "caller \<Rightarrow> db \<Rightarrow> usage_body resp" where
  "handleDropUsage cl s =
    (let ent = ResolveDropEntitlement s (cl_user_id cl);
         usage = GetDropQuotaUsage s DropPrincipalUser (cl_user_id cl)
     in Ok 200 \<lparr>gb_tier = de_tier ent, gb_entitlement_org_id = de_entitlement_org_id ent,
          gb_limit_bytes = de_public_storage_bytes ent, gb_max_file_bytes = de_max_file_bytes ent,
          gb_used_bytes = dq_used_bytes usage, gb_reserved_bytes = dq_reserved_bytes usage,
          gb_available_bytes =
            dropAvail (wrap64 (wrap64 (de_public_storage_bytes ent - dq_used_bytes usage) - dq_reserved_bytes usage))\<rparr>)"

definition handleOrgDropFiles :: "caller \<Rightarrow> id \<Rightarrow> db \<Rightarrow> file_body list resp" where
  "handleOrgDropFiles cl orgID s =
    (case orgMember s cl orgID of Inl f \<Rightarrow> refuse f
     | Inr role \<Rightarrow> Ok 200
         (map (\<lambda>f. dropFileView f (df_owner_user_id f = cl_user_id cl))
           (filter (\<lambda>f. \<not> (role \<noteq> OrgRoleOwner \<and> role \<noteq> OrgRoleNodeOperator \<and> df_owner_user_id f \<noteq> cl_user_id cl))
             (ListDropFilesByOrg s orgID))))"

definition handleOrgDropUsage :: "caller \<Rightarrow> id \<Rightarrow> db \<Rightarrow> (int \<times> int) resp" where
  "handleOrgDropUsage cl orgID s =
    (case orgMember s cl orgID of Inl f \<Rightarrow> refuse f | Inr _ \<Rightarrow> Ok 200 (OrgDropUsage s orgID))"

section \<open>The vault\<close>

record vault_req =
  vr_version :: int
  vr_kdf :: string
  vr_iterations :: int
  vr_salt :: string
  vr_iv :: string
  vr_ciphertext :: string

text \<open>The JSON codec (\<open>encoding/json\<close>): the stored backup, its key-derivation part, and back.\<close>

record vault_codec =
  vc_marshal :: "vault_req \<Rightarrow> string"
  vc_kdf :: "string \<Rightarrow> int \<Rightarrow> string \<Rightarrow> string"
  vc_unmarshal :: "string \<Rightarrow> vault_req option"

definition handleDropGetVault :: "vault_codec \<Rightarrow> caller \<Rightarrow> db \<Rightarrow> vault_req option resp" where
  "handleDropGetVault vc cl s =
    (case GetDropCryptoProfile s (cl_user_id cl) of
       Inl e \<Rightarrow> if e = ErrNotFound then Ok 200 None else Fail 500 ''failed to load vault''
     | Inr p \<Rightarrow> (case vc_unmarshal vc (cp_encrypted_vault p) of
          None \<Rightarrow> Fail 500 ''stored vault is invalid'' | Some v \<Rightarrow> Ok 200 (Some v)))"

definition put_vault :: "vault_codec \<Rightarrow> caller \<Rightarrow> vault_req \<Rightarrow> int \<Rightarrow> db \<Rightarrow> vault_req resp \<times> db" where
  "put_vault vc cl req expected s =
    (case PutDropCryptoProfile (cl_user_id cl) '''' (vc_marshal vc req)
            (vc_kdf vc (vr_kdf req) (vr_iterations req) (vr_salt req)) expected s of
       (Inl e, s) \<Rightarrow> ((if e = ErrConflict then Fail 409 ''vault version conflict; reload and retry''
                      else Fail 500 ''failed to save vault''), s)
     | (Inr _, s) \<Rightarrow> (Ok 200 req, s))"

definition handleDropPutVault :: "vault_codec \<Rightarrow> (db \<Rightarrow> db) \<Rightarrow> caller \<Rightarrow> vault_req option \<Rightarrow> db \<Rightarrow> vault_req resp \<times> db" where
  "handleDropPutVault vc during cl body s =
    (case body of None \<Rightarrow> (Fail 400 ''invalid request body'', s)
     | Some req \<Rightarrow>
       if vr_version req \<le> 0 \<or> vr_kdf req = '''' \<or> vr_iterations req \<le> 0 \<or> vr_salt req = ''''
          \<or> vr_iv req = '''' \<or> vr_ciphertext req = ''''
       then (Fail 400 ''complete encrypted vault backup required'', s)
       else if length (vc_marshal vc req) > 1048576 then (Fail 413 ''vault too large'', s)
       else (case GetDropCryptoProfile s (cl_user_id cl) of
               Inr cur \<Rightarrow> put_vault vc cl req (cp_version cur) (during s)
             | Inl e \<Rightarrow> if e \<noteq> ErrNotFound then (Fail 500 ''failed to load vault'', s)
                        else put_vault vc cl req 0 (during s)))"

section \<open>The reconciler (\<open>cmd/gateway/main.go\<close>)\<close>

definition reconcile_unpin :: "node_env \<Rightarrow> db \<Rightarrow> string \<Rightarrow> string \<Rightarrow> bool option" where
  "reconcile_unpin env s nodeID cid = unpin_on_node env s nodeID cid"

text \<open>One delete job: the new database and the unpin calls issued.\<close>

definition reconcile_file :: "node_env \<Rightarrow> (db \<Rightarrow> db) \<Rightarrow> time \<Rightarrow> id \<times> string \<times> string \<Rightarrow> db \<Rightarrow> db \<times> (string \<times> string) list" where
  "reconcile_file env during now job s =
    (case job of (fileID, nodeID, cid) \<Rightarrow>
       if CountActivePinRefs s nodeID cid fileID > 0 then (FinalizeDropFileDeletion now fileID True s, [])
       else (let s = during s in
         case reconcile_unpin env s nodeID cid of
           None \<Rightarrow> (s, [])
         | Some okay \<Rightarrow> (if okay then FinalizeDropFileDeletion now fileID True s else s, [(nodeID, cid)])))"

definition reconcile_orphan :: "node_env \<Rightarrow> (db \<Rightarrow> db) \<Rightarrow> time \<Rightarrow> id \<times> string \<times> string \<Rightarrow> db \<Rightarrow> db \<times> (string \<times> string) list" where
  "reconcile_orphan env during now job s =
    (case job of (uploadID, nodeID, cid) \<Rightarrow>
       if CountActivePinRefs s nodeID cid '''' > 0 then (ClearDropUploadOrphanPin now uploadID s, [])
       else (let s = during s in
         case reconcile_unpin env s nodeID cid of
           None \<Rightarrow> (s, [])
         | Some okay \<Rightarrow> (if okay then ClearDropUploadOrphanPin now uploadID s else s, [(nodeID, cid)])))"

fun reconcile_jobs :: "('j \<Rightarrow> db \<Rightarrow> db \<times> 'c list) \<Rightarrow> 'j list \<Rightarrow> db \<Rightarrow> db \<times> 'c list" where
  "reconcile_jobs step [] s = (s, [])"
| "reconcile_jobs step (j # js) s =
    (case step j s of (s, calls) \<Rightarrow> case reconcile_jobs step js s of (s, later) \<Rightarrow> (s, calls @ later))"

definition reconcileDropPins :: "node_env \<Rightarrow> (db \<Rightarrow> db) \<Rightarrow> time \<Rightarrow> db \<Rightarrow> db \<times> (string \<times> string) list" where
  "reconcileDropPins env during now s =
    (case reconcile_jobs (reconcile_file env during now) (ListPendingDropUnpins s 20) s of (s, files) \<Rightarrow>
     case reconcile_jobs (reconcile_orphan env during now) (ListPendingDropOrphanPins s 20) s of (s, orphans) \<Rightarrow>
       (s, files @ orphans))"

end
