(* ===== verification/DropApiSafety.thy ===== *)
theory DropApiSafety
  imports DropApi DropLife DropTiers
begin

text \<open>
  What the Drop handlers guarantee: their effect on the database is a sequence of store
  operations, so the invariants of the store hold through the API, whatever other requests do
  while a node is being called; who may see and remove what; and what may be unpinned.
\<close>

section \<open>Handlers are sequences of store operations\<close>

definition others :: "(db \<Rightarrow> db) \<Rightarrow> bool" where
  "others during \<longleftrightarrow> (\<forall>s. drop_step\<^sup>*\<^sup>* s (during s))"

text \<open>The JSON decoder yields \<open>int64\<close> sizes.\<close>

definition i64_codec :: "node_env \<Rightarrow> bool" where
  "i64_codec env \<longleftrightarrow> (\<forall>x r. dc_json_upload (ne_client env) x = Some r \<longrightarrow> in_i64 (ur_size_bytes r))"

lemma put_size:
  assumes "i64_codec env" "PutUploadContent (ne_client env) a b c d e f g h = Inr r"
  shows "in_i64 (ur_size_bytes r)"
  using assms by (auto simp: PutUploadContent_def i64_codec_def Let_def split: sum.splits prod.splits if_splits option.splits)

lemma reserve_target_size: "reserve_target s cl req scope n = Inr inp \<Longrightarrow> ri_declared_size inp = req_size req"
  by (auto simp: reserve_target_def Let_def split: if_splits sum.splits)

lemma validate_reserve_size: "validate_reserve req = Inr scope \<Longrightarrow> 0 < req_size req"
  by (auto simp: validate_reserve_def split: if_splits option.splits)

lemma reserve_handler_steps:
  assumes "\<And>req. body = Some req \<Longrightarrow> in_i64 (req_size req)"
  shows "drop_step\<^sup>*\<^sup>* s (snd (handleDropReserveUpload now newID cl body s))"
proof -
  have "snd (handleDropReserveUpload now newID cl body s) = s \<or>
    (\<exists>inp. size_ok (ri_declared_size inp) \<and>
       snd (handleDropReserveUpload now newID cl body s) = snd (ReserveDropUpload now newID inp s))"
    using assms by (auto simp: handleDropReserveUpload_def size_ok_def dest: reserve_target_size validate_reserve_size
        split: option.splits sum.splits prod.splits if_splits) (metis reserve_target_size validate_reserve_size less_imp_le snd_conv)+
  then show ?thesis by (metis r_into_rtranclp rtranclp.rtrancl_refl drop_step.reserve)
qed

lemmas then_step = rtranclp.rtrancl_into_rtrancl [of drop_step]

lemma finish_upload_steps:
  assumes "\<And>r. result = Inr r \<Longrightarrow> in_i64 (ur_size_bytes r)"
  shows "drop_step\<^sup>*\<^sup>* s (snd (finish_upload now fileID pinID cl uploadID result s))"
proof (cases result)
  case (Inl e)
  have "drop_step s (snd (ReleaseDropReservation now uploadID DropUploadFailed s))" by (rule drop_step.release) simp
  with Inl show ?thesis by (simp add: finish_upload_def r_into_rtranclp)
next
  case (Inr r)
  have rel: "drop_step s (snd (ReleaseDropReservation now uploadID DropUploadFailed s))" by (rule drop_step.release) simp
  obtain x s' where c: "CommitDropUpload now fileID pinID (cl_user_id cl) uploadID (ur_cid r) (ur_size_bytes r) s = (x, s')"
    by fastforce
  have com: "drop_step s s'"
    using drop_step.commit [OF assms [OF Inr], of s now fileID pinID "cl_user_id cl" uploadID "ur_cid r"] c by simp
  have f: "drop_step\<^sup>*\<^sup>* s (snd (FailDropUploadWithOrphanPin now uploadID (ur_cid r) msg s'))" for msg
    by (rule then_step [OF r_into_rtranclp, OF com drop_step.fail])
  show ?thesis using Inr rel com f by (auto simp: finish_upload_def c split: sum.split)
qed

lemma upload_handler_steps:
  assumes du: "others during" and codec: "i64_codec env"
  shows "drop_step\<^sup>*\<^sup>* s (snd (handleDropUploadContent env during now fileID pinID cl uploadID body s))"
proof -
  have d: "drop_step\<^sup>*\<^sup>* s (during s)" using du by (simp add: others_def)
  have "drop_step\<^sup>*\<^sup>* s (snd (finish_upload now fileID pinID cl uploadID
      (PutUploadContent (ne_client env) a b c uploadID e body g h) (during s)))" for a b c e g h
    by (rule rtranclp_trans [OF d finish_upload_steps]) (rule put_size [OF codec])
  then show ?thesis by (simp add: handleDropUploadContent_def Let_def split: sum.split option.split prod.split)
qed

lemma patch_handler_steps: "drop_step\<^sup>*\<^sup>* s (snd (handleDropPatchFile cl fileID body s))"
proof -
  have "snd (handleDropPatchFile cl fileID body s) = s \<or>
    (\<exists>u v. snd (handleDropPatchFile cl fileID body s) = snd (SetDropFileVisibility fileID u v s))"
    by (auto simp: handleDropPatchFile_def split: option.splits sum.splits prod.splits) (metis snd_conv)+
  then show ?thesis by (metis r_into_rtranclp rtranclp.rtrancl_refl drop_step.visibility)
qed

lemma delete_handler_steps:
  assumes du: "others during"
  shows "drop_step\<^sup>*\<^sup>* s (fst (snd (handleDropDeleteFile env during now cl fileID s)))"
proof -
  have m: "drop_step s s'" if "MarkDropFileDeletePending now fileID s = (r, s')" for r s'
    using drop_step.mark [of s now fileID] that by simp
  have "fst (snd (handleDropDeleteFile env during now cl fileID s)) = s \<or>
    (\<exists>r s'. MarkDropFileDeletePending now fileID s = (r, s') \<and>
       (fst (snd (handleDropDeleteFile env during now cl fileID s)) = s' \<or>
        (\<exists>b. fst (snd (handleDropDeleteFile env during now cl fileID s)) = FinalizeDropFileDeletion now fileID b (during s'))))"
    by (auto simp: handleDropDeleteFile_def Let_def split: sum.splits prod.splits)
  then show ?thesis
  proof (elim disjE exE conjE)
    fix r s' b assume "MarkDropFileDeletePending now fileID s = (r, s')"
      and eq: "fst (snd (handleDropDeleteFile env during now cl fileID s)) = FinalizeDropFileDeletion now fileID b (during s')"
    then have "drop_step\<^sup>*\<^sup>* s (during s')" using m du
      by (metis converse_rtranclp_into_rtranclp others_def)
    then show ?thesis unfolding eq by (rule then_step) (rule drop_step.finalize)
  qed (use m in \<open>auto\<close>)
qed

lemma vault_handler_steps:
  assumes "others during" shows "drop_step\<^sup>*\<^sup>* s (snd (handleDropPutVault vc during cl body s))"
proof -
  have d: "drop_step\<^sup>*\<^sup>* s (during s)" using assms by (simp add: others_def)
  have p: "drop_step\<^sup>*\<^sup>* s (snd (put_vault vc cl req n (during s)))" for req n
  proof -
    have "snd (put_vault vc cl req n (during s)) = snd (PutDropCryptoProfile (cl_user_id cl) '''' (vc_marshal vc req)
            (vc_kdf vc (vr_kdf req) (vr_iterations req) (vr_salt req)) n (during s))"
      by (simp add: put_vault_def split: sum.split prod.split)
    then show ?thesis using then_step [OF d drop_step.vault] by simp
  qed
  show ?thesis by (simp add: handleDropPutVault_def p split: option.split sum.split)
qed

lemma reconcile_jobs_steps:
  assumes "\<And>j s. drop_step\<^sup>*\<^sup>* s (fst (step j s))"
  shows "drop_step\<^sup>*\<^sup>* s (fst (reconcile_jobs step js s))"
proof (induction js arbitrary: s)
  case (Cons j js)
  obtain s1 c1 where a: "step j s = (s1, c1)" by fastforce
  obtain s2 c2 where b: "reconcile_jobs step js s1 = (s2, c2)" by fastforce
  from assms [of s j] Cons.IH [of s1] a b show ?case by simp
qed simp

lemma reconcile_steps:
  assumes du: "others during" shows "drop_step\<^sup>*\<^sup>* s (fst (reconcileDropPins env during now s))"
proof -
  have d: "drop_step\<^sup>*\<^sup>* s (during s)" for s using du by (simp add: others_def)
  have f: "drop_step\<^sup>*\<^sup>* s (fst (reconcile_file env during now j s))" for j s
    using drop_step.finalize d then_step [OF d drop_step.finalize]
    by (auto simp: reconcile_file_def Let_def split: prod.split option.split)
  have g: "drop_step\<^sup>*\<^sup>* s (fst (reconcile_orphan env during now j s))" for j s
    using drop_step.clear d then_step [OF d drop_step.clear]
    by (auto simp: reconcile_orphan_def Let_def split: prod.split option.split)
  obtain s1 c1 where a: "reconcile_jobs (reconcile_file env during now) (ListPendingDropUnpins s 20) s = (s1, c1)" by fastforce
  obtain s2 c2 where b: "reconcile_jobs (reconcile_orphan env during now) (ListPendingDropOrphanPins s1 20) s1 = (s2, c2)" by fastforce
  have "drop_step\<^sup>*\<^sup>* s s1" using reconcile_jobs_steps [of "reconcile_file env during now"] f a by (metis fst_conv)
  moreover have "drop_step\<^sup>*\<^sup>* s1 s2" using reconcile_jobs_steps [of "reconcile_orphan env during now"] g b by (metis fst_conv)
  ultimately show ?thesis by (simp add: reconcileDropPins_def a b)
qed


section \<open>A node for the witnesses\<close>

definition demo_cid :: string where "demo_cid = ''bafyaaaaaaaaaaaaaaaaaaaa''"

definition demo_env :: node_env where
  "demo_env = \<lparr>ne_client = \<lparr>dc_http = (\<lambda>req l. (Inr \<lparr>rs_status = 200, rs_content_type = ''text/plain'',
        rs_chunks = [''data'']\<rparr>, map_option (\<lambda>l. snd (snd (copy_limit 31 l))) l)),
       dc_json_status = (\<lambda>_. None), dc_json_upload = (\<lambda>_. Some \<lparr>ur_cid = demo_cid, ur_size_bytes = 4\<rparr>)\<rparr>,
     ne_token = (\<lambda>peer purpose. Some (peer @ purpose))\<rparr>"

definition api0 :: db where
  "api0 = demo1\<lparr>nodes := map (\<lambda>n. n\<lparr>n_api_base_url := ''http://n/''\<rparr>) (nodes demo1)\<rparr>"

definition ann_caller :: caller where "ann_caller = \<lparr>cl_user_id = ''u1'', cl_role = ''user''\<rparr>"

definition demo_req :: reserve_req where
  "demo_req = \<lparr>dr_node_id = ''n1'', dr_scope = ''public'', dr_visibility = ''public'', dr_filename = ''f'',
     dr_content_type = ''t'', dr_size_bytes = 4, dr_legacy_size = 0, dr_sha256 = '''', dr_encrypted = False,
     dr_encryption_metadata = '''', dr_org_id = '''', dr_idempotency_key = ''k''\<rparr>"

definition api1 :: db where
  "api1 = snd (handleDropReserveUpload 5 ''up1'' ann_caller (Some demo_req) api0)"

definition api2 :: db where
  "api2 = snd (handleDropUploadContent demo_env (\<lambda>s. s) 6 ''f1'' ''p1'' ann_caller ''up1'' [''data''] api1)"

lemma demo_env_i64: "i64_codec demo_env"
  by (simp add: i64_codec_def demo_env_def in_i64_def)

lemma demo_put: "PutUploadContent (ne_client demo_env) b t k i h src n m = Inr \<lparr>ur_cid = demo_cid, ur_size_bytes = 4\<rparr>"
  by (simp add: PutUploadContent_def doStream_def demo_env_def success_def Let_def)

lemma demo_guards:
  "revalidateDropNode api1 ''n1'' ''public'' True = None"
  "dropNodeEndpoint demo_env api1 ''n1'' PurposeUpload = Inr (''http://n/'', '''', ''n1drop_upload'')"
  by code_simp+

lemma demo_upload: "GetDropUpload api1 ''u1'' ''up1'' = Inr (hd (drop_uploads api1))"
  "up_status (hd (drop_uploads api1)) = ''reserved''" "up_node_id (hd (drop_uploads api1)) = ''n1''"
  "up_storage_scope (hd (drop_uploads api1)) = ''public''"
  by code_simp+

lemma api2_eq: "handleDropUploadContent demo_env (\<lambda>s. s) 6 ''f1'' ''p1'' ann_caller ''up1'' [''data''] api1
    = finish_upload 6 ''f1'' ''p1'' ann_caller ''up1'' (Inr \<lparr>ur_cid = demo_cid, ur_size_bytes = 4\<rparr>) api1"
  using demo_upload by (simp add: handleDropUploadContent_def demo_put demo_guards upload_open_def ann_caller_def Let_def)

lemma api2_finish: "api2 = snd (finish_upload 6 ''f1'' ''p1'' ann_caller ''up1'' (Inr \<lparr>ur_cid = demo_cid, ur_size_bytes = 4\<rparr>) api1)"
  by (simp add: api2_def api2_eq)

lemma api_values:
  "map up_status (drop_uploads api2) = [''committed'']" "map df_size_bytes (drop_files api2) = [4]"
  "map df_status (drop_files api2) = [''active'']"
  unfolding api2_finish by code_simp+


section \<open>Who may see and remove a file\<close>

definition may_handle :: "caller \<Rightarrow> drop_file \<Rightarrow> db \<Rightarrow> bool" where
  "may_handle cl f s \<longleftrightarrow> df_owner_user_id f = cl_user_id cl \<or> cl_role cl = ''admin''
     \<or> (df_org_id f \<noteq> '''' \<and> (MemberRole s (df_org_id f) (cl_user_id cl) = Inr OrgRoleOwner
          \<or> MemberRole s (df_org_id f) (cl_user_id cl) = Inr OrgRoleNodeOperator))"

lemma canDelete_iff: "canDeleteDropFile cl f s \<longleftrightarrow> may_handle cl f s"
  by (auto simp: canDeleteDropFile_def may_handle_def split: sum.splits)

lemma loadAuthorized_iff:
  assumes "GetDropFile s fileID = Inr f"
  shows "loadAuthorizedFile cl fileID s =
    (if may_handle cl f s then Inr (f, df_owner_user_id f = cl_user_id cl)
     else Inl (403, ''not allowed to access this file''))"
  using assms by (auto simp: loadAuthorizedFile_def may_handle_def split: sum.splits)


definition eve :: caller where "eve = \<lparr>cl_user_id = ''u2'', cl_role = ''user''\<rparr>"

lemma api2_file: "GetDropFile api2 ''f1'' = Inr (hd (drop_files api2))"
  unfolding api2_finish by code_simp


section \<open>Public shares\<close>

definition shareable :: "drop_file \<Rightarrow> bool" where
  "shareable f \<longleftrightarrow> df_visibility f = DropVisibilityPublic \<and> \<not> df_encrypted f \<and> df_status f = DropFileActive"

lemma loadPublic_cases:
  "(\<exists>f. GetDropFile s fileID = Inr f \<and> shareable f \<and> loadPublicDropFile fileID s = Inr f)
   \<or> loadPublicDropFile fileID s = Inl (404, ''not found'')
     \<and> (\<forall>f. GetDropFile s fileID = Inr f \<longrightarrow> \<not> shareable f)"
  by (auto simp: loadPublicDropFile_def shareable_def GetDropFile_def split: sum.splits option.splits)

lemma find_upd_field:
  assumes "\<And>r. key (f r) = key r" and "find (\<lambda>r. key r = k) t = Some r"
  shows "find (\<lambda>r. key r = k) (upd_rows p f t) = Some (if p r then f r else r)"
  using assms(2) by (induction t) (auto simp: upd_rows_def assms(1) split: if_splits)

lemma finalize_inactive:
  assumes "GetDropFile s fileID = Inr f" "df_status f \<noteq> DropFileActive"
  shows "\<exists>g. GetDropFile (FinalizeDropFileDeletion now fileID b s) fileID = Inr g \<and> df_status g \<noteq> DropFileActive"
  using assms find_upd_field [of df_id "\<lambda>f. f\<lparr>df_status := DropFileDeleted\<rparr>" fileID "drop_files s" f]
  by (cases b) (auto simp: GetDropFile_def FinalizeDropFileDeletion_def Let_def split: option.splits)

lemma adjustQuotaTx_files: "adjustQuotaTx pt pid a b s = (r, s') \<Longrightarrow> drop_files s' = drop_files s"
  by (auto simp: adjustQuotaTx_def split: sum.splits)

lemma mark_inactive:
  assumes "MarkDropFileDeletePending now fileID s = (Inr x, s')"
  shows "\<exists>g. GetDropFile s' fileID = Inr g \<and> df_status g \<noteq> DropFileActive"
proof -
  note u = in_tx_okD [OF assms [unfolded MarkDropFileDeletePending_def]]
  then obtain f where f: "find (\<lambda>f. df_id f = fileID) (drop_files s) = Some f" by (auto split: option.splits)
  have id: "df_id f = fileID" using find_SomeD [OF f] by simp
  show ?thesis
  proof (cases "df_status f = DropFileDeleted \<or> df_status f = DropFileDeletePending")
    case True
    with u f have "s' = s" by (auto simp: Let_def)
    with f True show ?thesis by (auto simp: GetDropFile_def)
  next
    case False
    let ?p = "\<lambda>g. g\<lparr>df_status := DropFileDeletePending, df_deleted_at := Some now\<rparr>"
    from u f False have "drop_files s' = upd_rows (\<lambda>g. df_id g = fileID) ?p (drop_files s)"
      by (auto simp: Let_def id elim!: seq_okE dest: adjustQuotaTx_files split: if_splits)
    then have "GetDropFile s' fileID = Inr (?p f)"
      using find_upd_field [of df_id ?p fileID "drop_files s" f "\<lambda>g. df_id g = fileID"] f id by (simp add: GetDropFile_def)
    then show ?thesis by simp
  qed
qed

text \<open>
  What a share link serves: metadata and content of a file are served without authentication
  exactly when the file is active, public and unencrypted, any other identifier gets the same
  404 whether the file exists or not, and once its deletion has been accepted a file is never
  served again (until some later write to it).
\<close>

theorem public_share_only_plain:
  "((\<exists>b. handleDropPublicGet fileID s = Ok 200 b) \<longleftrightarrow> (\<exists>f. GetDropFile s fileID = Inr f \<and> shareable f))
   \<and> (\<not> (\<exists>f. GetDropFile s fileID = Inr f \<and> shareable f) \<longrightarrow>
        handleDropPublicGet fileID s = Fail 404 ''not found'' \<and> handleDropPublicContent env fileID s = Fail 404 ''not found'')
   \<and> (\<forall>c st s' calls. handleDropDeleteFile env (\<lambda>s. s) now cl fileID s = (Ok c st, s', calls) \<longrightarrow>
        handleDropPublicGet fileID s' = Fail 404 ''not found'')"
proof (intro conjI allI impI)
  show "(\<exists>b. handleDropPublicGet fileID s = Ok 200 b) \<longleftrightarrow> (\<exists>f. GetDropFile s fileID = Inr f \<and> shareable f)"
    using loadPublic_cases [of s fileID] by (auto simp: handleDropPublicGet_def refuse_def)
next
  assume "\<not> (\<exists>f. GetDropFile s fileID = Inr f \<and> shareable f)"
  then have "loadPublicDropFile fileID s = Inl (404, ''not found'')" using loadPublic_cases [of s fileID] by blast
  then show "handleDropPublicGet fileID s = Fail 404 ''not found''" "handleDropPublicContent env fileID s = Fail 404 ''not found''"
    by (simp_all add: handleDropPublicGet_def handleDropPublicContent_def refuse_def)
next
  fix c st s' calls assume "handleDropDeleteFile env (\<lambda>s. s) now cl fileID s = (Ok c st, s', calls)"
  then obtain x s1 b where m: "MarkDropFileDeletePending now fileID s = (Inr x, s1)" "s' = FinalizeDropFileDeletion now fileID b s1"
    by (auto simp: handleDropDeleteFile_def Let_def split: sum.splits if_splits prod.splits)
  from mark_inactive [OF m(1)] obtain g where g: "GetDropFile s1 fileID = Inr g" "df_status g \<noteq> DropFileActive" by blast
  from finalize_inactive [OF g, of now b] m(2)
  have "\<not> (\<exists>f. GetDropFile s' fileID = Inr f \<and> shareable f)" by (auto simp: shareable_def)
  then show "handleDropPublicGet fileID s' = Fail 404 ''not found''"
    using loadPublic_cases [of s' fileID] by (auto simp: handleDropPublicGet_def refuse_def)
qed

theorem public_share_only_plain_witness:
  "(\<exists>b. handleDropPublicGet ''f1'' api2 = Ok 200 b) \<and> handleDropPublicGet ''f2'' api2 = Fail 404 ''not found''"
proof -
  have a: "shareable (hd (drop_files api2))" and b: "GetDropFile api2 ''f2'' = Inl ErrNotFound"
    unfolding api2_finish by code_simp+
  from public_share_only_plain [of "''f1''" api2] a api2_file have "\<exists>b. handleDropPublicGet ''f1'' api2 = Ok 200 b" by blast
  moreover from public_share_only_plain [of "''f2''" api2] b have "handleDropPublicGet ''f2'' api2 = Fail 404 ''not found''" by simp
  ultimately show ?thesis by blast
qed

section \<open>What a reservation request is granted\<close>

lemma ReserveDropUpload_row:
  assumes "ReserveDropUpload now i inp s = (Inr u, s')" and "i \<notin> up_id ` set (drop_uploads s)" and "up_id u = i"
  shows "u = new_upload now i inp \<and> u \<in> set (drop_uploads s')"
  using assms by (rule reserve_fresh_okE) (auto elim!: insert_upload_okE)

definition well_reserved :: "caller \<Rightarrow> db \<Rightarrow> drop_upload \<Rightarrow> bool" where
  "well_reserved cl s u \<longleftrightarrow>
     up_owner_user_id u = cl_user_id cl \<and> 0 < up_declared_size_bytes u
     \<and> (up_visibility u = DropVisibilityPublic \<and> \<not> up_encrypted u
        \<or> up_visibility u = DropVisibilityPrivate \<and> up_encrypted u \<and> up_encryption_metadata u \<noteq> '''')
     \<and> (\<exists>n d. GetNode s (up_node_id u) = Inr n \<and> n_status n = ''online''
          \<and> GetNodeDropStatus s (up_node_id u) = Inr d \<and> ns_enabled d \<and> ns_state d = DropStateActive
          \<and> (up_storage_scope u = DropScopePublic \<and> n_access_mode n = NodeAccessPublic \<and> ns_accepts_public_uploads d
             \<or> up_storage_scope u = DropScopePrivateOrg \<and> n_org_id n = up_org_id u
                \<and> is_ok (MemberRole s (up_org_id u) (cl_user_id cl))))"

text \<open>
  What the API lets into the store: when a reservation request opens a new upload, the upload is
  the caller's, has a positive size, is encrypted with metadata exactly when it is private, and
  is in a scope the caller may use: a public one on a public node, or the caller's organization's
  on a node of that organization; the node is online, enabled and active.  A refused request
  leaves the database as it was.
\<close>

theorem reserve_request_safe:
  assumes h: "handleDropReserveUpload now newID cl (Some req) s = (r, s')"
    and fresh: "newID \<notin> up_id ` set (drop_uploads s)"
  shows "(\<forall>c m. r = Fail c m \<longrightarrow> s' = s)
    \<and> (\<forall>c b. r = Ok c b \<and> ub_id b = newID \<longrightarrow>
        (\<exists>u. b = dropUploadView u \<and> u \<in> set (drop_uploads s') \<and> up_id u = newID \<and> well_reserved cl s u))"
proof -
  have tx: "x = Inl e \<Longrightarrow> t = s" if "ReserveDropUpload now newID inp s = (x, t)" for inp x t e
    using that unfolding ReserveDropUpload_def by (auto dest: in_tx_errD)
  show ?thesis
  proof (cases r)
    case (Fail c m)
    with h show ?thesis
      by (auto simp: handleDropReserveUpload_def refuse_def dest: tx split: sum.splits option.splits if_splits prod.splits)
  next
    case (Ok c b)
    from h Ok obtain scope n inp u where st:
      "validate_reserve req = Inr scope" "GetNode s (dr_node_id req) = Inr n" "reserve_target s cl req scope n = Inr inp"
      "\<not> (ri_visibility inp = DropVisibilityPrivate \<and> (\<not> ri_encrypted inp \<or> ri_encryption_metadata inp = ''''))"
      "\<not> (ri_visibility inp = DropVisibilityPublic \<and> ri_encrypted inp)"
      "revalidateDropNode s (dr_node_id req) scope True = None"
      "ReserveDropUpload now newID inp s = (Inr u, s')" "b = dropUploadView u"
      by (auto simp: handleDropReserveUpload_def refuse_def split: sum.splits option.splits if_splits prod.splits)
    have inp: "ri_user_id inp = cl_user_id cl" "ri_node_id inp = dr_node_id req" "ri_scope inp = scope"
      "ri_visibility inp = req_visibility req" "ri_declared_size inp = req_size req"
      using st(3) by (auto simp: reserve_target_def Let_def split: if_splits sum.splits)
    have vis: "req_visibility req = DropVisibilityPublic \<or> req_visibility req = DropVisibilityPrivate"
      by (auto simp: req_visibility_def)
    have scope: "scope = DropScopePublic \<and> n_access_mode n = NodeAccessPublic
        \<or> scope = DropScopePrivateOrg \<and> n_org_id n = ri_org_id inp \<and> is_ok (MemberRole s (ri_org_id inp) (cl_user_id cl))"
      using st(1,3) by (auto simp: reserve_target_def validate_reserve_def normalizeDropScope_def Let_def is_ok_def
          split: if_splits sum.splits option.splits)
    from st(2,6) obtain d where d: "n_status n = ''online''" "GetNodeDropStatus s (dr_node_id req) = Inr d"
      "ns_enabled d" "ns_state d = DropStateActive" "scope = DropScopePublic \<longrightarrow> ns_accepts_public_uploads d"
      by (auto simp: revalidateDropNode_def Let_def split: sum.splits if_splits)
    have new: "u = new_upload now newID inp \<and> u \<in> set (drop_uploads s')" if "up_id u = newID"
      by (rule ReserveDropUpload_row [OF st(7) fresh that])
    have "well_reserved cl s (new_upload now newID inp)"
      unfolding well_reserved_def using st(2,4,5) inp vis scope d validate_reserve_size [OF st(1)]
      by (auto simp: new_upload_def)
    with Ok st(8) new show ?thesis by (auto simp: dropUploadView_def)
  qed
qed

theorem reserve_request_safe_witness:
  "\<exists>u. u \<in> set (drop_uploads api1) \<and> up_id u = ''up1'' \<and> well_reserved ann_caller api0 u"
proof -
  obtain r where r: "handleDropReserveUpload 5 ''up1'' ann_caller (Some demo_req) api0 = (r, api1)"
    unfolding api1_def by (metis prod.collapse)
  have fresh: "''up1'' \<notin> up_id ` set (drop_uploads api0)" by code_simp
  have "(case fst (handleDropReserveUpload 5 ''up1'' ann_caller (Some demo_req) api0) of Ok c b \<Rightarrow> ub_id b = ''up1'' | _ \<Rightarrow> False)"
    by code_simp
  with r obtain c b where "r = Ok c b" "ub_id b = ''up1''" by (auto split: resp.splits)
  with reserve_request_safe [OF r fresh] show ?thesis by blast
qed

section \<open>What is unpinned\<close>

definition live_content :: "db \<Rightarrow> string \<Rightarrow> string \<Rightarrow> bool" where
  "live_content s nodeID cid \<longleftrightarrow>
     has_row (\<lambda>f. df_node_id f = nodeID \<and> df_cid f = cid \<and> df_status f = DropFileActive) (drop_files s)"

definition real_ids :: "db \<Rightarrow> bool" where
  "real_ids s \<longleftrightarrow> distinct (map df_id (drop_files s))
     \<and> list_all (\<lambda>f. df_id f \<noteq> '''' \<and> df_id f \<noteq> ''00000000-0000-0000-0000-000000000000'') (drop_files s)"

lemma no_refs_not_live:
  assumes "real_ids s" and "CountActivePinRefs s n c i \<le> 0"
    and "\<And>f. f \<in> set (drop_files s) \<Longrightarrow> df_id f = i \<Longrightarrow> df_status f \<noteq> DropFileActive"
  shows "\<not> live_content s n c"
  using assms by (fastforce simp: live_content_def has_row_iff CountActivePinRefs_def real_ids_def list_all_iff
      not_less [symmetric] row_count_pos split: if_splits)

text \<open>Rows that are not active stay so, and no row becomes active, in a reconciler run.\<close>

definition shrinks :: "db \<Rightarrow> db \<Rightarrow> bool" where
  "shrinks s s' \<longleftrightarrow> (\<exists>p f. drop_files s' = upd_rows p f (drop_files s) \<and> (\<forall>r. df_id (f r) = df_id r
     \<and> df_node_id (f r) = df_node_id r \<and> df_cid (f r) = df_cid r
     \<and> (p r \<longrightarrow> df_status r \<noteq> DropFileActive \<and> df_status (f r) \<noteq> DropFileActive)))"

lemma shrinks_refl: "drop_files s' = drop_files s \<Longrightarrow> shrinks s s'"
  unfolding shrinks_def by (rule exI [of _ "\<lambda>_. False"], rule exI [of _ "\<lambda>r. r"]) (simp add: upd_rows_def)

lemma shrinks_row:
  assumes "shrinks s s'" and "f' \<in> set (drop_files s')"
  shows "\<exists>f\<in>set (drop_files s). df_id f = df_id f' \<and> df_node_id f = df_node_id f' \<and> df_cid f = df_cid f'
     \<and> (df_status f' = DropFileActive \<longleftrightarrow> df_status f = DropFileActive)"
  using assms by (auto simp: shrinks_def set_upd_rows split: if_splits) fastforce+

lemma shrinks_row':
  assumes "shrinks s s'" and "f \<in> set (drop_files s)"
  shows "\<exists>f'\<in>set (drop_files s'). df_id f' = df_id f \<and> df_node_id f' = df_node_id f \<and> df_cid f' = df_cid f
     \<and> (df_status f' = DropFileActive \<longleftrightarrow> df_status f = DropFileActive)"
proof -
  from assms(1) obtain p g where pg: "drop_files s' = upd_rows p g (drop_files s)" and
    k: "\<And>r. df_id (g r) = df_id r \<and> df_node_id (g r) = df_node_id r \<and> df_cid (g r) = df_cid r
     \<and> (p r \<longrightarrow> df_status r \<noteq> DropFileActive \<and> df_status (g r) \<noteq> DropFileActive)" unfolding shrinks_def by blast
  have "(if p f then g f else f) \<in> set (drop_files s')" unfolding pg set_upd_rows using assms(2) by blast
  with k [of f] show ?thesis by (intro bexI) (auto split: if_splits)
qed

lemma shrinks_live: "shrinks s s' \<Longrightarrow> live_content s' n c \<longleftrightarrow> live_content s n c"
  unfolding live_content_def has_row_iff using shrinks_row shrinks_row' by metis

lemma shrinks_ids: "shrinks s s' \<Longrightarrow> map df_id (drop_files s') = map df_id (drop_files s)"
  by (auto simp: shrinks_def upd_rows_def)

lemma real_ids_map: "real_ids s \<longleftrightarrow> distinct (map df_id (drop_files s))
    \<and> list_all (\<lambda>i. i \<noteq> '''' \<and> i \<noteq> ''00000000-0000-0000-0000-000000000000'') (map df_id (drop_files s))"
  by (simp add: real_ids_def list.pred_map comp_def)

lemma shrinks_real: "shrinks s s' \<Longrightarrow> real_ids s' \<longleftrightarrow> real_ids s"
  by (simp only: real_ids_map shrinks_ids)

lemma finalize_shrinks: "shrinks s (FinalizeDropFileDeletion now i b s)"
proof (cases b)
  case True
  then have "drop_files (FinalizeDropFileDeletion now i b s) =
      upd_rows (\<lambda>f. df_id f = i \<and> df_status f = DropFileDeletePending) (\<lambda>f. f\<lparr>df_status := DropFileDeleted\<rparr>) (drop_files s)"
    by (simp add: FinalizeDropFileDeletion_def Let_def)
  then show ?thesis unfolding shrinks_def by (intro exI conjI) (assumption, simp)
qed (simp add: FinalizeDropFileDeletion_def Let_def shrinks_refl)

lemma reconcile_jobs_calls:
  assumes "\<And>j s. j \<in> set js \<Longrightarrow> J s \<Longrightarrow> J (fst (step j s)) \<and> list_all good (snd (step j s))" and "J s"
  shows "J (fst (reconcile_jobs step js s)) \<and> list_all good (snd (reconcile_jobs step js s))"
  using assms
proof (induction js arbitrary: s)
  case (Cons j js)
  obtain s1 c1 where a: "step j s = (s1, c1)" by fastforce
  obtain s2 c2 where b: "reconcile_jobs step js s1 = (s2, c2)" by fastforce
  have 1: "J s1 \<and> list_all good c1" using Cons.prems(1) [of j s] Cons.prems(2) a by simp
  have "J s2 \<and> list_all good c2" using Cons.IH [of s1] Cons.prems(1) 1 b by simp
  with 1 a b show ?case by simp
qed simp

text \<open>Compared with the start of the run: the same live content, and the jobs' files are not active.\<close>

definition settled :: "db \<Rightarrow> id set \<Rightarrow> db \<Rightarrow> bool" where
  "settled s0 I s \<longleftrightarrow> real_ids s \<and> (\<forall>n c. live_content s n c = live_content s0 n c)
     \<and> (\<forall>f\<in>set (drop_files s). df_id f \<in> I \<longrightarrow> df_status f \<noteq> DropFileActive)"

lemma settled_shrinks: "settled s0 I s \<Longrightarrow> shrinks s s' \<Longrightarrow> settled s0 I s'"
  unfolding settled_def by (auto simp: shrinks_real shrinks_live dest!: shrinks_row)

lemma clear_shrinks: "shrinks s (ClearDropUploadOrphanPin now i s)"
  by (rule shrinks_refl) (simp add: ClearDropUploadOrphanPin_def)

lemma reconcile_file_calls:
  assumes "settled s0 I s" and "fst j \<in> I"
  shows "settled s0 I (fst (reconcile_file env (\<lambda>s. s) now j s))
    \<and> list_all (\<lambda>(n, c). \<not> live_content s0 n c) (snd (reconcile_file env (\<lambda>s. s) now j s))"
proof -
  obtain i n c where j: "j = (i, n, c)" by (cases j) auto
  have nl: "\<not> live_content s0 n c" if "\<not> CountActivePinRefs s n c i > 0"
    using no_refs_not_live [of s n c i] assms that by (auto simp: settled_def j)
  show ?thesis using assms(1) nl settled_shrinks [OF assms(1) finalize_shrinks]
    by (auto simp: reconcile_file_def j split: option.split)
qed

lemma reconcile_orphan_calls:
  assumes "settled s0 I s"
  shows "settled s0 I (fst (reconcile_orphan env (\<lambda>s. s) now j s))
    \<and> list_all (\<lambda>(n, c). \<not> live_content s0 n c) (snd (reconcile_orphan env (\<lambda>s. s) now j s))"
proof -
  obtain i n c where j: "j = (i, n, c)" by (cases j) auto
  have nl: "\<not> live_content s0 n c" if "\<not> CountActivePinRefs s n c '''' > 0"
    using no_refs_not_live [of s n c "''''"] assms that
    by (auto simp: settled_def j real_ids_def list_all_iff)
  show ?thesis using assms nl settled_shrinks [OF assms clear_shrinks]
    by (auto simp: reconcile_orphan_def j split: option.split)
qed

lemma pending_jobs:
  assumes "real_ids s" and "j \<in> set (ListPendingDropUnpins s k)" and "f \<in> set (drop_files s)" "df_id f = fst j"
  shows "df_status f \<noteq> DropFileActive"
proof -
  from assms(2) obtain g where g: "g \<in> set (drop_files s)" "fst j = df_id g" "df_status g = DropFileDeletePending"
    by (auto simp: ListPendingDropUnpins_def limit_rows_def order_asc_def dest!: in_set_takeD split: if_splits)
  have "inj_on df_id (set (drop_files s))" using assms(1) by (simp add: real_ids_def distinct_map)
  then have "f = g" by (rule inj_onD) (use g assms(3,4) in simp_all)
  with g show ?thesis by simp
qed


lemma demo_unpin: "Unpin (ne_client demo_env) b t k c = None"
  by (simp add: Unpin_def do_call_def doStream_def demo_env_def success_def)

definition api3 :: db where
  "api3 = FinalizeDropFileDeletion 11 ''f1'' False (snd (MarkDropFileDeletePending 10 ''f1'' api2))"


section \<open>A delete races an upload of the same content\<close>

definition same_input :: reserve_input where
  "same_input = \<lparr>ri_user_id = ''u1'', ri_org_id = '''', ri_entitlement_org_id = '''', ri_node_id = ''n1'',
     ri_scope = ''public'', ri_visibility = ''public'', ri_filename = ''g'', ri_content_type = ''t'',
     ri_declared_size = 4, ri_sha256 = '''', ri_encrypted = False, ri_encryption_metadata = '''',
     ri_idempotency_key = ''k2'', ri_ttl = 0\<rparr>"

definition race0 :: db where "race0 = snd (ReserveDropUpload 7 ''up2'' same_input api2)"

definition race1 :: db where "race1 = snd (MarkDropFileDeletePending 10 ''f1'' race0)"

text \<open>Another request commits a second file with the same content.\<close>

definition other_commit :: "db \<Rightarrow> db" where
  "other_commit s = snd (CommitDropUpload 10 ''f2'' ''p2'' ''u1'' ''up2'' demo_cid 4 s)"

lemma other_commit_step: "drop_step s (other_commit s)"
  unfolding other_commit_def by (rule drop_step.commit) (simp add: in_i64_def)

lemma race_file:
  "GetDropFile race0 ''f1'' = Inr (hd (drop_files race0))" "df_owner_user_id (hd (drop_files race0)) = ''u1''"
  "df_node_id (hd (drop_files race0)) = ''n1''" "df_cid (hd (drop_files race0)) = demo_cid"
  unfolding race0_def api2_finish by code_simp+

lemma race_mark: "fst (MarkDropFileDeletePending 10 ''f1'' race0) = Inr (True, hd (drop_files race0))"
  unfolding race0_def api2_finish by code_simp

lemma race_node: "NodeAPI (other_commit race1) ''n1'' = Inr (''http://n/'', '''', ''online'')"
  unfolding race1_def race0_def api2_finish by code_simp

lemma race_live: "live_content (FinalizeDropFileDeletion 10 ''f1'' True (other_commit race1)) ''n1'' demo_cid"
  unfolding race1_def race0_def api2_finish by code_simp

lemma demo_cid_valid: "validCID demo_cid"
  by code_simp

text \<open>
  A delete can remove content that a file committed in the meantime needs: the decision to unpin
  is taken when the file is marked, the advisory lock on the content is released with that
  transaction and a commit does not take it, so a second upload of the same content that commits
  before the node call is left active with its content unpinned.
\<close>

theorem delete_races_commit:
  "\<exists>s'. handleDropDeleteFile demo_env other_commit 10 ann_caller ''f1'' race0
      = (Ok 200 StatusDeleted, s', [(''n1'', demo_cid)])
    \<and> live_content s' ''n1'' demo_cid"
proof -
  have m: "MarkDropFileDeletePending 10 ''f1'' race0 = (Inr (True, hd (drop_files race0)), race1)"
    using race_mark by (metis prod.collapse race1_def)
  have u: "unpin_on_node demo_env (other_commit race1) ''n1'' demo_cid = Some True"
    using race_node demo_unpin by (simp add: unpin_on_node_def) (simp add: demo_env_def)
  have "handleDropDeleteFile demo_env other_commit 10 ann_caller ''f1'' race0
      = (Ok 200 StatusDeleted, FinalizeDropFileDeletion 10 ''f1'' True (other_commit race1), [(''n1'', demo_cid)])"
    using race_file demo_cid_valid m u
    by (simp add: handleDropDeleteFile_def canDeleteDropFile_def ann_caller_def Let_def)
  with race_live show ?thesis by simp
qed

section \<open>The vault handler\<close>

lemma put_current:
  "fst (PutDropCryptoProfile u pk ev kdf (vault_version s u) s) \<noteq> Inl ErrConflict"
  by (auto simp: PutDropCryptoProfile_def in_tx_def Let_def)

text \<open>
  The vault's optimistic lock never protects a client from a stale copy: the handler compares the
  stored version with the one it has just read itself, not with one the client sends, so without
  interference 409 is never answered, and a second device's backup is replaced by a complete
  backup from a client that never saw it.
\<close>

theorem vault_put_never_conflicts:
  "fst (handleDropPutVault vc (\<lambda>s. s) cl body s) \<noteq> Fail 409 ''vault version conflict; reload and retry''"
proof -
  have p: "fst (put_vault vc cl req (vault_version s (cl_user_id cl)) s) \<noteq> Fail 409 ''vault version conflict; reload and retry''" for req
  proof -
    obtain r s' where "PutDropCryptoProfile (cl_user_id cl) '''' (vc_marshal vc req)
        (vc_kdf vc (vr_kdf req) (vr_iterations req) (vr_salt req)) (vault_version s (cl_user_id cl)) s = (r, s')" by fastforce
    with put_current [of "cl_user_id cl" "''''" "vc_marshal vc req" "vc_kdf vc (vr_kdf req) (vr_iterations req) (vr_salt req)" s]
    show ?thesis by (auto simp: put_vault_def split: sum.split)
  qed
  show ?thesis
  proof (cases "GetDropCryptoProfile s (cl_user_id cl)")
    case (Inl e)
    then have "e = ErrNotFound" "vault_version s (cl_user_id cl) = 0"
      by (auto simp: GetDropCryptoProfile_def vault_version_def split: option.splits)
    with Inl p show ?thesis by (auto simp: handleDropPutVault_def split: option.split)
  next
    case (Inr cur)
    then have "vault_version s (cl_user_id cl) = cp_version cur"
      by (auto simp: GetDropCryptoProfile_def vault_version_def split: option.splits)
    with Inr p show ?thesis by (auto simp: handleDropPutVault_def split: option.split)
  qed
qed

end
