(* ===== verification/Nodes.thy ===== *)
theory Nodes
  imports Api
begin

text \<open>
  The node registry: \<open>internal/store/nodes.go\<close>, the status synchronisation of \<open>org_nodes.go\<close> and
  the access checks of \<open>node_metrics.go\<close>.  A node has two rows: its runtime row in \<open>nodes\<close>, written by
  registration, \<open>hello\<close> and heartbeats, and its control-plane row in \<open>org_nodes\<close>, keyed by the same
  peer id.
\<close>

section \<open>Lookups and access\<close>

abbreviation invalid_text :: err where "invalid_text \<equiv> PgError ''22P02''"

definition NodeInternalID :: "db \<Rightarrow> string \<Rightarrow> id res" where
  "NodeInternalID s peerID =
    (case find (\<lambda>n. n_peer_id n = peerID) (nodes s) of None \<Rightarrow> Inl ErrNotFound | Some n \<Rightarrow> Inr (n_id n))"

definition NodeKeyMatches :: "db \<Rightarrow> string \<Rightarrow> string \<Rightarrow> bool res" where
  "NodeKeyMatches s peerID nodeKey =
    (let peerID = TrimSpace peerID; nodeKey = TrimSpace nodeKey
     in if peerID = '''' \<or> nodeKey = '''' then Inr False
        else case find (\<lambda>n. n_peer_id n = peerID) (nodes s) of
               None \<Rightarrow> Inl ErrNotFound | Some n \<Rightarrow> Inr (n_node_key n = nodeKey))"

definition NodeOperatedBy :: "db \<Rightarrow> string \<Rightarrow> id \<Rightarrow> bool" where
  "NodeOperatedBy s nodeID userID \<longleftrightarrow>
    has_row (\<lambda>n. n_peer_id n = nodeID \<and> has_row (active_at (n_org_id n) userID) (org_members s)) (nodes s)"

definition UserCanProvisionNode :: "db \<Rightarrow> string \<Rightarrow> id \<Rightarrow> bool res" where
  "UserCanProvisionNode s nodeID userID =
    (case find (\<lambda>n. n_peer_id n = nodeID) (nodes s) of None \<Rightarrow> Inl ErrNotFound
     | Some n \<Rightarrow>
       if n_access_mode n \<noteq> NodeAccessPrivate then Inr True
       else if n_org_id n = '''' then Inr False
       else Inr (has_row (active_at (n_org_id n) userID) (org_members s)))"

definition matches_filter :: "string \<Rightarrow> string \<Rightarrow> bool" where
  "matches_filter want have \<longleftrightarrow> want = '''' \<or> have = want"

definition by_place :: "node list \<Rightarrow> node list" where
  "by_place ns = sort_key n_region (sort_key n_zone (sort_key n_name ns))"

definition ListNodes :: "db \<Rightarrow> string \<Rightarrow> string \<Rightarrow> string \<Rightarrow> node list" where
  "ListNodes s status region zone = by_place (filter (\<lambda>n. matches_filter status (n_status n)
     \<and> matches_filter region (n_region n) \<and> matches_filter zone (n_zone n)) (nodes s))"

definition ListDiscoverableNodes :: "db \<Rightarrow> string \<Rightarrow> string \<Rightarrow> string \<Rightarrow> int \<Rightarrow> node list" where
  "ListDiscoverableNodes s status region zone callerTier =
     by_place (filter (\<lambda>n. n_access_mode n = ''public'' \<and> n_min_tier n \<le> callerTier
     \<and> matches_filter status (n_status n) \<and> matches_filter region (n_region n)
     \<and> matches_filter zone (n_zone n)) (nodes s))"

definition NodesByOrg :: "db \<Rightarrow> id \<Rightarrow> node list" where
  "NodesByOrg s orgID = order_desc n_created_at (filter (\<lambda>n. n_org_id n = orgID) (nodes s))"

definition OrgNodes :: "db \<Rightarrow> id \<Rightarrow> node list" where
  "OrgNodes s userID = order_desc n_created_at
     (filter (\<lambda>n. has_row (active_at (n_org_id n) userID) (org_members s)) (nodes s))"

definition CountNodesByStatus :: "db \<Rightarrow> string \<Rightarrow> int option" where
  "CountNodesByStatus s st =
    (let n = row_count (\<lambda>n. n_status n = st) (nodes s) in if n = 0 then None else Some n)"

section \<open>The control-plane status\<close>

definition RuntimeToOrgNodeStatus :: "string \<Rightarrow> string" where
  "RuntimeToOrgNodeStatus runtimeStatus =
    (let r = ToLower (TrimSpace runtimeStatus)
     in if r = ''online'' then OrgNodeStatusActive else OrgNodeStatusDegraded)"

text \<open>The states runtime synchronisation leaves alone.\<close>

definition held_status :: "string \<Rightarrow> bool" where
  "held_status st \<longleftrightarrow> st = OrgNodeStatusDisabled \<or> st = OrgNodeStatusError
     \<or> st = OrgNodeStatusPending \<or> st = OrgNodeStatusProvisioning"

definition SyncOrgNodeStatusFromRuntime :: "time \<Rightarrow> string \<Rightarrow> string \<Rightarrow> db \<Rightarrow> db" where
  "SyncOrgNodeStatusFromRuntime now peerID runtimeStatus s = s\<lparr>org_nodes :=
     upd_rows (\<lambda>x. on_node_id x = peerID \<and> \<not> held_status (on_status x))
       (\<lambda>x. x\<lparr>on_status := RuntimeToOrgNodeStatus runtimeStatus, on_updated_at := now\<rparr>) (org_nodes s)\<rparr>"

definition SyncAllOrgNodeStatusesFromRuntime :: "time \<Rightarrow> db \<Rightarrow> db" where
  "SyncAllOrgNodeStatusesFromRuntime now s = s\<lparr>org_nodes := map (\<lambda>x.
     case find (\<lambda>n. n_peer_id n = on_node_id x) (nodes s) of None \<Rightarrow> x
     | Some n \<Rightarrow> if held_status (on_status x) then x
                else x\<lparr>on_status := (if n_status n = ''online'' then OrgNodeStatusActive else OrgNodeStatusDegraded),
                       on_updated_at := now\<rparr>) (org_nodes s)\<rparr>"

definition TouchOrgNodeHeartbeat :: "time \<Rightarrow> string \<Rightarrow> time \<Rightarrow> db \<Rightarrow> db" where
  "TouchOrgNodeHeartbeat now nodeID at s = s\<lparr>org_nodes := upd_rows (\<lambda>x. on_node_id x = nodeID)
     (\<lambda>x. x\<lparr>on_last_seen_at := Some at, on_status := ''active'', on_updated_at := now\<rparr>) (org_nodes s)\<rparr>"

section \<open>Runtime reports\<close>

record hello_update =
  hu_peer_id :: string
  hu_ip :: string
  hu_ip_hash :: string
  hu_version :: string
  hu_region :: string
  hu_zone :: string
  hu_access_mode :: string
  hu_spec :: string
  hu_capabilities :: string
  hu_endpoints :: string
  hu_protocols :: "string list"

text \<open>The JSON parameters are cast with \<open>::jsonb\<close>, which refuses the empty text.\<close>

definition ApplyHello :: "time \<Rightarrow> hello_update \<Rightarrow> db \<Rightarrow> unit res \<times> db" where
  "ApplyHello now h s =
    (let access = (if hu_access_mode h \<noteq> '''' \<and> hu_access_mode h \<noteq> NodeAccessPublic
                      \<and> hu_access_mode h \<noteq> NodeAccessPrivate then '''' else hu_access_mode h)
     in if hu_spec h = '''' \<or> hu_capabilities h = '''' \<or> hu_endpoints h = '''' then (Inl invalid_text, s)
        else (Inr (), s\<lparr>nodes := upd_rows (\<lambda>n. n_peer_id n = hu_peer_id h)
          (\<lambda>n. n\<lparr>n_ip := hu_ip h, n_ip_hash := hu_ip_hash h, n_version := hu_version h,
                n_region := keep_if_empty (hu_region h) (n_region n),
                n_zone := keep_if_empty (hu_zone h) (n_zone n),
                n_access_mode := keep_if_empty access (n_access_mode n),
                n_spec := hu_spec h, n_capabilities := hu_capabilities h, n_endpoints := hu_endpoints h,
                n_protocols := hu_protocols h, n_status := ''online'', n_last_heartbeat := Some now\<rparr>)
          (nodes s)\<rparr>))"

definition ApplyHeartbeat :: "time \<Rightarrow> string \<Rightarrow> string \<Rightarrow> string \<Rightarrow> string \<Rightarrow> int \<Rightarrow> int \<Rightarrow> string \<Rightarrow> db \<Rightarrow> unit res \<times> db" where
  "ApplyHeartbeat now peerID status load speedtest rx tx version s =
    (if load = '''' \<or> speedtest = '''' then (Inl invalid_text, s)
     else (Inr (), s\<lparr>nodes := upd_rows (\<lambda>n. n_peer_id n = peerID)
       (\<lambda>n. n\<lparr>n_status := status, n_load := load, n_speedtest := speedtest, n_rx_bytes := rx, n_tx_bytes := tx,
             n_version := keep_if_empty version (n_version n), n_last_heartbeat := Some now\<rparr>) (nodes s)\<rparr>))"

definition ApplyNodeHeartbeat :: "time \<Rightarrow> string \<Rightarrow> string \<Rightarrow> string \<Rightarrow> string \<Rightarrow> int \<Rightarrow> int \<Rightarrow> string \<Rightarrow> db \<Rightarrow> unit res \<times> db" where
  "ApplyNodeHeartbeat now peerID status load speedtest rx tx version s =
    seq (ApplyHeartbeat now peerID status load speedtest rx tx version s)
      (\<lambda>_ s. (Inr (), TouchOrgNodeHeartbeat now peerID now s))"

section \<open>Administration\<close>

definition upd_node :: "string \<Rightarrow> (node \<Rightarrow> node) \<Rightarrow> db \<Rightarrow> unit res \<times> db" where
  "upd_node ref f s =
    (if row_count (\<lambda>n. n_peer_id n = ref) (nodes s) = 0 then (Inl ErrNotFound, s)
     else (Inr (), s\<lparr>nodes := upd_rows (\<lambda>n. n_peer_id n = ref) f (nodes s)\<rparr>))"

text \<open>\<open>min_tier\<close> is a 32-bit column.\<close>

definition SetNodeMinTier :: "string \<Rightarrow> int \<Rightarrow> db \<Rightarrow> unit res \<times> db" where
  "SetNodeMinTier ref minTier s =
    (if minTier < - (2 ^ 31) \<or> 2 ^ 31 \<le> minTier then (Inl out_of_range, s)
     else upd_node ref (\<lambda>n. n\<lparr>n_min_tier := minTier\<rparr>) s)"

definition SetNodeOrg :: "string \<Rightarrow> string \<Rightarrow> db \<Rightarrow> unit res \<times> db" where
  "SetNodeOrg ref orgID s =
    (if has_row (\<lambda>n. n_peer_id n = ref) (nodes s) \<and> \<not> fk_org_null s orgID then (Inl foreign_key_violation, s)
     else upd_node ref (\<lambda>n. n\<lparr>n_org_id := orgID\<rparr>) s)"

definition SetNodeAccessMode :: "string \<Rightarrow> string \<Rightarrow> db \<Rightarrow> unit res \<times> db" where
  "SetNodeAccessMode ref mode s =
    (if mode \<noteq> NodeAccessPublic \<and> mode \<noteq> NodeAccessPrivate then (Inl (ErrMsg ''invalid access_mode''), s)
     else upd_node ref (\<lambda>n. n\<lparr>n_access_mode := mode\<rparr>) s)"

definition SetNodeStatus :: "time \<Rightarrow> string \<Rightarrow> string \<Rightarrow> db \<Rightarrow> db" where
  "SetNodeStatus now peerID status s = SyncOrgNodeStatusFromRuntime now peerID status
     (s\<lparr>nodes := upd_rows (\<lambda>n. n_peer_id n = peerID) (\<lambda>n. n\<lparr>n_status := status\<rparr>) (nodes s)\<rparr>)"

definition stale :: "time \<Rightarrow> time \<Rightarrow> node \<Rightarrow> bool" where
  "stale now within n \<longleftrightarrow> n_status n \<noteq> ''offline''
     \<and> (case n_last_heartbeat n of None \<Rightarrow> True | Some t \<Rightarrow> t < now - within)"

definition MarkStaleNodesOffline :: "time \<Rightarrow> time \<Rightarrow> db \<Rightarrow> int \<times> db" where
  "MarkStaleNodesOffline now within s =
    (row_count (stale now within) (nodes s),
     SyncAllOrgNodeStatusesFromRuntime now
       (s\<lparr>nodes := upd_rows (stale now within) (\<lambda>n. n\<lparr>n_status := ''offline''\<rparr>) (nodes s)\<rparr>))"

end
