(* ===== verification/OrgNodes.thy ===== *)
theory OrgNodes
  imports Nodes
begin

text \<open>
  Organization nodes, their services, Sentinel licenses, registration tokens and plan-included
  resources: \<open>org_nodes.go\<close>, \<open>sentinel_licenses.go\<close>, \<open>registration_tokens.go\<close>, \<open>provisioning.go\<close> and
  \<open>CountShieldInstancesUsed\<close> of \<open>entitlements.go\<close>.

  Operations that insert several rows draw identifiers from \<open>uuid\<close>, a function of the database at the
  moment of the insert; \<open>fmt.Errorf\<close> wrapping with \<open>%w\<close> is dropped, since callers only use \<open>errors.Is\<close>.
\<close>

section \<open>Control-plane records\<close>

definition NormalizeDeploymentProfile :: "string \<Rightarrow> string" where
  "NormalizeDeploymentProfile profile =
    (let p = ToLower (TrimSpace profile)
     in if p = DeploymentProfileShield \<or> p = DeploymentProfileSentinel \<or> p = DeploymentProfileStandard
        then p else DeploymentProfileStandard)"

definition defaultIfEmpty :: "string \<Rightarrow> string \<Rightarrow> string" where
  "defaultIfEmpty v fallback = (if TrimSpace v = '''' then fallback else TrimSpace v)"

record org_node_input =
  ni_org_id :: id
  ni_node_id :: string
  ni_node_name :: string
  ni_deployment_profile :: string
  ni_node_type :: string
  ni_visibility :: string
  ni_managed_by :: string
  ni_region :: string
  ni_zone :: string
  ni_status :: string
  ni_api_public_url :: string
  ni_created_by :: string

definition insert_org_node :: "org_node \<Rightarrow> db \<Rightarrow> unit res \<times> db" where
  "insert_org_node x s =
    (if has_row (\<lambda>r. on_id r = on_id x \<or> on_node_id r = on_node_id x) (org_nodes s) then (Inl unique_violation, s)
     else if \<not> fk_org s (on_org_id x) \<or> (on_created_by x \<noteq> '''' \<and> \<not> fk_user s (on_created_by x))
     then (Inl foreign_key_violation, s)
     else (Inr (), s\<lparr>org_nodes := org_nodes s @ [x]\<rparr>))"

definition UpsertOrgNode :: "time \<Rightarrow> id \<Rightarrow> org_node_input \<Rightarrow> db \<Rightarrow> org_node res \<times> db" where
  "UpsertOrgNode now newID inp s =
    (let x = \<lparr>on_id = newID, on_org_id = ni_org_id inp, on_node_id = ni_node_id inp,
          on_node_name = ni_node_name inp,
          on_deployment_profile = defaultIfEmpty (ni_deployment_profile inp) DeploymentProfileStandard,
          on_node_type = defaultIfEmpty (ni_node_type inp) OrgNodeTypeBYOC,
          on_visibility = defaultIfEmpty (ni_visibility inp) OrgNodeVisibilityPrivateOrg,
          on_managed_by = defaultIfEmpty (ni_managed_by inp) OrgNodeManagedByOrg,
          on_region = ni_region inp, on_zone = ni_zone inp,
          on_status = defaultIfEmpty (ni_status inp) OrgNodeStatusActive,
          on_api_public_url = ni_api_public_url inp, on_last_seen_at = None,
          on_created_by = ni_created_by inp, on_created_at = now, on_updated_at = now\<rparr>
     in case find (\<lambda>r. on_node_id r = on_node_id x) (org_nodes s) of
          None \<Rightarrow> seq (insert_org_node x s) (\<lambda>_ s. (Inr x, s))
        | Some old \<Rightarrow>
          if \<not> fk_org s (on_org_id x) then (Inl foreign_key_violation, s)
          else (let upd = (\<lambda>r. r\<lparr>on_org_id := on_org_id x, on_node_name := keep_if_empty (on_node_name x) (on_node_name r),
                 on_deployment_profile := on_deployment_profile x, on_node_type := on_node_type x,
                 on_visibility := on_visibility x, on_managed_by := on_managed_by x,
                 on_region := keep_if_empty (on_region x) (on_region r), on_zone := keep_if_empty (on_zone x) (on_zone r),
                 on_status := on_status x,
                 on_api_public_url := keep_if_empty (on_api_public_url x) (on_api_public_url r), on_updated_at := now\<rparr>)
             in (Inr (upd old), s\<lparr>org_nodes := upd_rows (\<lambda>r. on_node_id r = on_node_id x) upd (org_nodes s)\<rparr>)))"

definition GetOrgNode :: "db \<Rightarrow> id \<Rightarrow> string \<Rightarrow> org_node res" where
  "GetOrgNode s orgID nodeID =
    (case find (\<lambda>x. on_org_id x = orgID \<and> on_node_id x = nodeID) (org_nodes s) of
       None \<Rightarrow> Inl ErrNotFound | Some x \<Rightarrow> Inr x)"

text \<open>The \<open>LEFT JOIN\<close>: a record with the status, access mode and heartbeat of its runtime row, if any.\<close>

definition ListOrgNodes :: "db \<Rightarrow> id \<Rightarrow> (org_node \<times> string \<times> string \<times> time option) list" where
  "ListOrgNodes s orgID =
    map (\<lambda>x. case find (\<lambda>n. n_peer_id n = on_node_id x) (nodes s) of
               None \<Rightarrow> (x, '''', '''', None)
             | Some n \<Rightarrow> (x, n_status n, n_access_mode n, n_last_heartbeat n))
      (order_desc on_created_at (filter (\<lambda>x. on_org_id x = orgID) (org_nodes s)))"

record update_org_node_input =
  un_node_name :: "string option"
  un_status :: "string option"
  un_region :: "string option"
  un_zone :: "string option"
  un_api_public_url :: "string option"

definition patched :: "string option \<Rightarrow> string \<Rightarrow> string" where
  "patched new old = (case new of None \<Rightarrow> old | Some v \<Rightarrow> TrimSpace v)"

definition UpdateOrgNode :: "time \<Rightarrow> id \<Rightarrow> string \<Rightarrow> update_org_node_input \<Rightarrow> db \<Rightarrow> org_node res \<times> db" where
  "UpdateOrgNode now orgID nodeID inp s =
    (case GetOrgNode s orgID nodeID of Inl e \<Rightarrow> (Inl e, s)
     | Inr cur \<Rightarrow>
       (let upd = (\<lambda>x. x\<lparr>on_node_name := patched (un_node_name inp) (on_node_name cur),
              on_status := patched (un_status inp) (on_status cur), on_region := patched (un_region inp) (on_region cur),
              on_zone := patched (un_zone inp) (on_zone cur),
              on_api_public_url := patched (un_api_public_url inp) (on_api_public_url cur), on_updated_at := now\<rparr>)
        in (Inr (upd cur), s\<lparr>org_nodes := upd_rows (\<lambda>x. on_org_id x = orgID \<and> on_node_id x = nodeID) upd (org_nodes s)\<rparr>)))"

section \<open>Services\<close>

record attach_input =
  at_org_id :: id
  at_node_id :: string
  at_service_type :: string
  at_service_name :: string
  at_service_provider :: string
  at_visibility :: string
  at_config_ref :: string
  at_access_url :: string
  at_license_id :: string
  at_created_by :: string

text \<open>\<open>INSERT INTO org_node_services ... ON CONFLICT (node_id, service_type) DO UPDATE SET f\<close>.\<close>

definition upsert_service :: "org_node_service \<Rightarrow> (org_node_service \<Rightarrow> org_node_service) \<Rightarrow> db \<Rightarrow> org_node_service res \<times> db" where
  "upsert_service v f s =
    (let p = (\<lambda>r. sv_node_id r = sv_node_id v \<and> sv_service_type r = sv_service_type v)
     in case find p (org_node_services s) of
          Some old \<Rightarrow> (Inr (f old), s\<lparr>org_node_services := upd_rows p f (org_node_services s)\<rparr>)
        | None \<Rightarrow>
          if has_row (\<lambda>r. sv_id r = sv_id v) (org_node_services s) then (Inl unique_violation, s)
          else if \<not> fk_org s (sv_org_id v) \<or> \<not> has_row (\<lambda>x. on_node_id x = sv_node_id v) (org_nodes s)
               \<or> (sv_created_by v \<noteq> '''' \<and> \<not> fk_user s (sv_created_by v))
          then (Inl foreign_key_violation, s)
          else (Inr v, s\<lparr>org_node_services := org_node_services s @ [v]\<rparr>))"

definition AttachServiceToNode :: "time \<Rightarrow> id \<Rightarrow> attach_input \<Rightarrow> db \<Rightarrow> org_node_service res \<times> db" where
  "AttachServiceToNode now newID inp s =
    (case GetOrgNode s (at_org_id inp) (at_node_id inp) of Inl e \<Rightarrow> (Inl e, s)
     | Inr _ \<Rightarrow>
       upsert_service \<lparr>sv_id = newID, sv_org_id = at_org_id inp, sv_node_id = at_node_id inp,
          sv_service_type = at_service_type inp, sv_service_name = at_service_name inp,
          sv_service_provider = at_service_provider inp, sv_service_status = ServiceStatusActive,
          sv_visibility = at_visibility inp, sv_config_ref = at_config_ref inp, sv_access_url = at_access_url inp,
          sv_license_id = at_license_id inp, sv_created_by = at_created_by inp,
          sv_created_at = now, sv_updated_at = now\<rparr>
        (\<lambda>r. r\<lparr>sv_service_name := at_service_name inp, sv_service_provider := at_service_provider inp,
              sv_service_status := ServiceStatusActive, sv_visibility := at_visibility inp,
              sv_config_ref := keep_if_empty (at_config_ref inp) (sv_config_ref r),
              sv_access_url := keep_if_empty (at_access_url inp) (sv_access_url r),
              sv_license_id := keep_if_empty (at_license_id inp) (sv_license_id r), sv_updated_at := now\<rparr>) s)"

definition service_at :: "id \<Rightarrow> string \<Rightarrow> id \<Rightarrow> org_node_service \<Rightarrow> bool" where
  "service_at orgID nodeID serviceID v \<longleftrightarrow> sv_org_id v = orgID \<and> sv_node_id v = nodeID \<and> sv_id v = serviceID"

definition GetOrgNodeService :: "db \<Rightarrow> id \<Rightarrow> string \<Rightarrow> id \<Rightarrow> org_node_service res" where
  "GetOrgNodeService s orgID nodeID serviceID =
    (case find (service_at orgID nodeID serviceID) (org_node_services s) of None \<Rightarrow> Inl ErrNotFound | Some v \<Rightarrow> Inr v)"

record update_service_input =
  us_service_status :: "string option"
  us_visibility :: "string option"
  us_config_ref :: "string option"
  us_access_url :: "string option"

definition UpdateOrgNodeService :: "time \<Rightarrow> id \<Rightarrow> string \<Rightarrow> id \<Rightarrow> update_service_input \<Rightarrow> db \<Rightarrow> org_node_service res \<times> db" where
  "UpdateOrgNodeService now orgID nodeID serviceID inp s =
    (case GetOrgNodeService s orgID nodeID serviceID of Inl e \<Rightarrow> (Inl e, s)
     | Inr cur \<Rightarrow>
       (let upd = (\<lambda>v. v\<lparr>sv_service_status := patched (us_service_status inp) (sv_service_status cur),
              sv_visibility := patched (us_visibility inp) (sv_visibility cur),
              sv_config_ref := patched (us_config_ref inp) (sv_config_ref cur),
              sv_access_url := patched (us_access_url inp) (sv_access_url cur), sv_updated_at := now\<rparr>)
        in (Inr (upd cur), s\<lparr>org_node_services := upd_rows (service_at orgID nodeID serviceID) upd (org_node_services s)\<rparr>)))"

definition DeleteOrgNodeService :: "time \<Rightarrow> id \<Rightarrow> string \<Rightarrow> id \<Rightarrow> db \<Rightarrow> unit res \<times> db" where
  "DeleteOrgNodeService now orgID nodeID serviceID s =
    (if row_count (service_at orgID nodeID serviceID) (org_node_services s) = 0 then (Inl ErrNotFound, s)
     else (Inr (), s\<lparr>org_node_services := upd_rows (service_at orgID nodeID serviceID)
            (\<lambda>v. v\<lparr>sv_service_status := ServiceStatusDisabled, sv_updated_at := now\<rparr>) (org_node_services s)\<rparr>))"

definition ListOrgNodeServices :: "db \<Rightarrow> id \<Rightarrow> string \<Rightarrow> org_node_service list" where
  "ListOrgNodeServices s orgID nodeID = order_asc sv_created_at
     (filter (\<lambda>v. sv_org_id v = orgID \<and> sv_node_id v = nodeID) (org_node_services s))"

definition DeploymentProfileAllowsService :: "string \<Rightarrow> string \<Rightarrow> bool" where
  "DeploymentProfileAllowsService profile serviceType =
    (if serviceType = ServiceTypeDrop then
       profile = DeploymentProfileStandard \<or> profile = DeploymentProfileShield \<or> profile = DeploymentProfileSentinel
     else if profile = DeploymentProfileStandard then serviceType = ServiceTypeVPN
     else if profile = DeploymentProfileShield
       then serviceType = ServiceTypeVPN \<or> serviceType = ServiceTypeCommunityFirewall
     else if profile = DeploymentProfileSentinel
       then serviceType = ServiceTypeVPN \<or> serviceType = ServiceTypeErebrusFirewall
     else False)"

definition CountShieldInstancesUsed :: "db \<Rightarrow> id \<Rightarrow> int" where
  "CountShieldInstancesUsed s orgID = row_count (\<lambda>v. sv_org_id v = orgID
     \<and> sv_service_type v = ServiceTypeCommunityFirewall \<and> sv_service_status v \<noteq> ServiceStatusDisabled) (org_node_services s)"

section \<open>Sentinel licenses\<close>

fun CreateSentinelLicenses :: "time \<Rightarrow> (db \<Rightarrow> id) \<Rightarrow> id \<Rightarrow> nat \<Rightarrow> string \<Rightarrow> db \<Rightarrow> unit res \<times> db" where
  "CreateSentinelLicenses now uuid orgID 0 source s = (Inr (), s)"
| "CreateSentinelLicenses now uuid orgID (Suc n) source s =
    (if has_row (\<lambda>l. sl_id l = uuid s) (sentinel_licenses s) then (Inl unique_violation, s)
     else if \<not> fk_org s orgID then (Inl foreign_key_violation, s)
     else CreateSentinelLicenses now uuid orgID n source
       (s\<lparr>sentinel_licenses := sentinel_licenses s @ [\<lparr>sl_id = uuid s, sl_org_id = orgID, sl_node_id = '''',
          sl_status = SentinelLicenseAvailable, sl_source = source, sl_created_at = now, sl_updated_at = now\<rparr>]\<rparr>))"

definition available :: "id \<Rightarrow> sentinel_license \<Rightarrow> bool" where
  "available orgID l \<longleftrightarrow> sl_org_id l = orgID \<and> sl_status l = SentinelLicenseAvailable"

definition CountAvailableSentinelLicenses :: "db \<Rightarrow> id \<Rightarrow> int" where
  "CountAvailableSentinelLicenses s orgID = row_count (available orgID) (sentinel_licenses s)"

definition AttachSentinelLicense_tx :: "time \<Rightarrow> id \<Rightarrow> string \<Rightarrow> db \<Rightarrow> sentinel_license res \<times> db" where
  "AttachSentinelLicense_tx now orgID nodeID s =
    (case first_row (order_asc sl_created_at (filter (available orgID) (sentinel_licenses s))) of
       None \<Rightarrow> (Inl ErrNotFound, s)
     | Some l \<Rightarrow>
       if \<not> has_row (\<lambda>x. on_node_id x = nodeID) (org_nodes s) then (Inl foreign_key_violation, s)
       else (let upd = (\<lambda>l. l\<lparr>sl_node_id := nodeID, sl_status := SentinelLicenseAttached, sl_updated_at := now\<rparr>)
             in (Inr (upd l), s\<lparr>sentinel_licenses := upd_rows (\<lambda>r. sl_id r = sl_id l) upd (sentinel_licenses s)\<rparr>)))"

definition AttachSentinelLicense :: "time \<Rightarrow> id \<Rightarrow> string \<Rightarrow> db \<Rightarrow> sentinel_license res \<times> db" where
  "AttachSentinelLicense now orgID nodeID s = in_tx (AttachSentinelLicense_tx now orgID nodeID) s"

definition ListSentinelLicenses :: "db \<Rightarrow> id \<Rightarrow> sentinel_license list" where
  "ListSentinelLicenses s orgID = order_asc sl_created_at (filter (\<lambda>l. sl_org_id l = orgID) (sentinel_licenses s))"

definition ValidateServiceEntitlement :: "db \<Rightarrow> id \<Rightarrow> string \<Rightarrow> string \<Rightarrow> err option" where
  "ValidateServiceEntitlement s orgID nodeID serviceType =
    (case GetOrgNode s orgID nodeID of Inl e \<Rightarrow> Some e
     | Inr x \<Rightarrow>
       if \<not> DeploymentProfileAllowsService (on_deployment_profile x) serviceType
       then Some (ErrMsg (''deployment profile '' @ on_deployment_profile x @ '' does not support service '' @ serviceType))
       else case GetOrgEntitlements s orgID of Inl e \<Rightarrow> Some e
       | Inr ent \<Rightarrow>
         if serviceType = ServiceTypeCommunityFirewall \<and> oe_shield_instances_included ent \<le> 0
         then Some (ErrMsg ''plan does not include Shield instances'')
         else if serviceType = ServiceTypeCommunityFirewall
              \<and> CountShieldInstancesUsed s orgID \<ge> oe_shield_instances_included ent
         then Some (ErrMsg ''no Shield instances remaining'')
         else if serviceType = ServiceTypeErebrusFirewall \<and> CountAvailableSentinelLicenses s orgID \<le> 0
         then Some (ErrMsg ''no Sentinel licenses available'')
         else if has_row (\<lambda>v. sv_service_type v = serviceType \<and> sv_service_status v \<noteq> ServiceStatusDisabled)
                (ListOrgNodeServices s orgID nodeID)
         then Some (ErrMsg ''service already attached'')
         else None)"

end
