(* ===== verification/Wallet.thy ===== *)
theory Wallet
  imports DropClient
begin

text \<open>
  Wallet signatures: \<open>internal/wallet/verify.go\<close>.  The decoders of \<open>encoding/hex\<close> and
  \<open>encoding/base64\<close> are modelled; public-key recovery (\<open>go-ethereum\<close>), base58 and Ed25519
  verification are parameters.
\<close>

section \<open>Decoders\<close>

definition hex_val :: "char \<Rightarrow> nat option" where
  "hex_val c =
    (if is_digit c then Some (byte c - 48)
     else if 97 \<le> byte c \<and> byte c \<le> 102 then Some (byte c - 87)
     else if 65 \<le> byte c \<and> byte c \<le> 70 then Some (byte c - 55) else None)"

text \<open>\<open>hex.DecodeString\<close>.\<close>

fun hex_decode :: "string \<Rightarrow> string option" where
  "hex_decode [] = Some []"
| "hex_decode [c] = None"
| "hex_decode (a # b # cs) =
    (case (hex_val a, hex_val b, hex_decode cs) of
       (Some x, Some y, Some rest) \<Rightarrow> Some (char_of (16 * x + y) # rest)
     | _ \<Rightarrow> None)"

definition b64_val :: "char \<Rightarrow> nat option" where
  "b64_val c =
    (if 65 \<le> byte c \<and> byte c \<le> 90 then Some (byte c - 65)
     else if 97 \<le> byte c \<and> byte c \<le> 122 then Some (byte c - 71)
     else if is_digit c then Some (byte c + 4)
     else if c = CHR ''+'' then Some 62 else if c = CHR ''/'' then Some 63 else None)"

text \<open>\<open>base64.StdEncoding.DecodeString\<close>: quanta of four characters, line breaks skipped, padding only at
  the end.\<close>

fun b64_quanta :: "string \<Rightarrow> string option" where
  "b64_quanta [] = Some []"
| "b64_quanta (a # b # c # d # cs) =
    (case (b64_val a, b64_val b) of
       (Some x, Some y) \<Rightarrow>
         if cs = [] \<and> c = CHR ''='' \<and> d = CHR ''='' then Some [char_of (4 * x + y div 16)]
         else (case b64_val c of None \<Rightarrow> None
           | Some z \<Rightarrow>
             if cs = [] \<and> d = CHR ''='' then Some [char_of (4 * x + y div 16), char_of (y mod 16 * 16 + z div 4)]
             else (case (b64_val d, b64_quanta cs) of
                (Some w, Some rest) \<Rightarrow>
                  Some (char_of (4 * x + y div 16) # char_of (y mod 16 * 16 + z div 4) # char_of (z mod 4 * 64 + w) # rest)
              | _ \<Rightarrow> None))
     | _ \<Rightarrow> None)"
| "b64_quanta _ = None"

definition base64_decode :: "string \<Rightarrow> string option" where
  "base64_decode s = b64_quanta (filter (\<lambda>c. byte c \<noteq> 10 \<and> byte c \<noteq> 13) s)"

definition trim_0x :: "string \<Rightarrow> string" where
  "trim_0x s = (if take 2 s = ''0x'' then drop 2 s else s)"

section \<open>Chains\<close>

abbreviation ChainEVM :: string where "ChainEVM \<equiv> ''evm''"
abbreviation ChainSOL :: string where "ChainSOL \<equiv> ''sol''"
abbreviation NodeChainSolana :: string where "NodeChainSolana \<equiv> ''SOLANA''"
abbreviation NodeChainEthereum :: string where "NodeChainEthereum \<equiv> ''ETHEREUM''"

definition ToUpper :: "string \<Rightarrow> string" where
  "ToUpper s = map (\<lambda>c. if 97 \<le> byte c \<and> byte c \<le> 122 then char_of (byte c - 32 :: nat) else c) s"

definition ParseNodeChain :: "string \<Rightarrow> (string \<times> string) option" where
  "ParseNodeChain chain =
    (let c = ToUpper (TrimSpace chain)
     in if c = '''' \<or> c = ''SOL'' \<or> c = ''SOLANA'' then Some (NodeChainSolana, ChainSOL)
        else if c = ''EVM'' \<or> c = ''ETH'' \<or> c = ''ETHEREUM'' then Some (NodeChainEthereum, ChainEVM)
        else None)"

section \<open>Verification\<close>

text \<open>
  \<open>wl_recover\<close> hashes the prefixed message with Keccak-256, recovers the signing key and yields its address
  (\<open>Keccak256Hash\<close>, \<open>SigToPub\<close>, \<open>PubkeyToAddress\<close>).
\<close>

record wallet_lib =
  wl_recover :: "string \<Rightarrow> string \<Rightarrow> string option"
  wl_base58 :: "string \<Rightarrow> string option"
  wl_ed25519 :: "string \<Rightarrow> string \<Rightarrow> string \<Rightarrow> bool"

definition eth_prefixed :: "string \<Rightarrow> string" where
  "eth_prefixed message = char_of (25::nat) # ''Ethereum Signed Message:'' @ [char_of (10::nat)]
     @ dec_nat (length message) @ message"

definition VerifyEVM :: "wallet_lib \<Rightarrow> string \<Rightarrow> string \<Rightarrow> string option" where
  "VerifyEVM lib message signature =
    (case hex_decode (trim_0x signature) of None \<Rightarrow> None
     | Some sig \<Rightarrow>
       if length sig \<noteq> 65 then None
       else (let v = byte (sig ! 64) :: nat;
                 sig = (if v = 27 \<or> v = 28 then sig[64 := char_of (v - 27)] else sig)
             in wl_recover lib (eth_prefixed message) sig))"

definition decodeFlexible :: "wallet_lib \<Rightarrow> string \<Rightarrow> string option" where
  "decodeFlexible lib s =
    (case hex_decode (trim_0x s) of Some b \<Rightarrow> Some b
     | None \<Rightarrow> (case wl_base58 lib s of Some b \<Rightarrow> Some b | None \<Rightarrow> base64_decode s))"

definition VerifySolana :: "wallet_lib \<Rightarrow> string \<Rightarrow> string \<Rightarrow> string \<Rightarrow> string option" where
  "VerifySolana lib message signature publicKey =
    (case wl_base58 lib publicKey of None \<Rightarrow> None
     | Some pub \<Rightarrow>
       if length pub \<noteq> 32 then None
       else (case decodeFlexible lib signature of None \<Rightarrow> None
         | Some sig \<Rightarrow> if \<not> wl_ed25519 lib pub message sig then None else Some publicKey))"

definition wallet_Verify :: "wallet_lib \<Rightarrow> string \<Rightarrow> string \<Rightarrow> string \<Rightarrow> string \<Rightarrow> string option" where
  "wallet_Verify lib chain message signature publicKey =
    (let key = (case ParseNodeChain chain of Some (_, k) \<Rightarrow> Some k
                | None \<Rightarrow> if chain = ChainEVM then Some ChainEVM else if chain = ChainSOL then Some ChainSOL else None)
     in if key = Some ChainEVM then VerifyEVM lib message signature
        else if key = Some ChainSOL then VerifySolana lib message signature publicKey
        else None)"

end
