(* ===== verification/Enrollment.thy ===== *)
theory Enrollment
  imports OrgNodes Wallet
begin

text \<open>
  How a node joins an organization: registration tokens (\<open>registration_tokens.go\<close>), login and
  enrollment challenges (\<open>flowid.go\<close>), \<open>RegisterOrgNodeFromRuntime\<close> of \<open>org_nodes.go\<close> with the services its
  profile brings (\<open>provisioning.go\<close>), and the handlers of \<open>internal/api/nodes.go\<close> and \<open>org_nodes.go\<close>.

  SHA-256 and the issue of PASETO tokens are parameters; random values are arguments, absent when the
  random source fails.
\<close>

section \<open>Challenges\<close>

definition CreateFlowID :: "time \<Rightarrow> id \<Rightarrow> string \<Rightarrow> string \<Rightarrow> time \<Rightarrow> db \<Rightarrow> unit res \<times> db" where
  "CreateFlowID now flowID wallet chain ttl s =
    (if has_row (\<lambda>f. fl_flow_id f = flowID) (flow_ids s) then (Inl unique_violation, s)
     else (Inr (), s\<lparr>flow_ids := flow_ids s @ [\<lparr>fl_flow_id = flowID, fl_wallet_address = wallet, fl_chain = chain,
            fl_created_at = now, fl_expires_at = now + ttl\<rparr>]\<rparr>))"

definition DeleteFlowID :: "id \<Rightarrow> db \<Rightarrow> db" where
  "DeleteFlowID flowID s = s\<lparr>flow_ids := del_rows (\<lambda>f. fl_flow_id f = flowID) (flow_ids s)\<rparr>"

definition GetFlowID :: "time \<Rightarrow> id \<Rightarrow> db \<Rightarrow> flow_id res \<times> db" where
  "GetFlowID now flowID s =
    (case find (\<lambda>f. fl_flow_id f = flowID) (flow_ids s) of None \<Rightarrow> (Inl ErrNotFound, s)
     | Some f \<Rightarrow> if now > fl_expires_at f then (Inl ErrNotFound, DeleteFlowID flowID s) else (Inr f, s))"

definition PurgeExpiredFlowIDs :: "time \<Rightarrow> db \<Rightarrow> db" where
  "PurgeExpiredFlowIDs now s = s\<lparr>flow_ids := del_rows (\<lambda>f. fl_expires_at f < now) (flow_ids s)\<rparr>"

section \<open>Registration tokens\<close>

definition maxRegistrationTokenTTL :: time where "maxRegistrationTokenTTL = 7 * 24 * 3600"

definition isValidRegistrationScope :: "string \<Rightarrow> bool" where
  "isValidRegistrationScope scope \<longleftrightarrow>
     scope = TokenScopeNodeRegistration \<or> scope = TokenScopeFirewallSetup \<or> scope = TokenScopeServiceSetup"

definition scopeAllowed :: "string list \<Rightarrow> string \<Rightarrow> bool" where
  "scopeAllowed scopes required \<longleftrightarrow> list_ex (\<lambda>sc. sc = required) scopes"

definition CreateNodeRegistrationToken :: "(string \<Rightarrow> string) \<Rightarrow> time \<Rightarrow> id \<Rightarrow> string option \<Rightarrow> id \<Rightarrow> id \<Rightarrow> string
    \<Rightarrow> string list \<Rightarrow> time \<Rightarrow> db \<Rightarrow> (string \<times> registration_token) res \<times> db" where
  "CreateNodeRegistrationToken hash now newID secret orgID createdBy peerID scopes expiresAt s =
    (if scopes = [] then (Inl (ErrMsg ''at least one scope is required''), s)
     else case find (\<lambda>sc. \<not> isValidRegistrationScope sc) scopes of
       Some sc \<Rightarrow> (Inl (ErrMsg (''invalid scope: '' @ sc)), s)
     | None \<Rightarrow>
       if \<not> expiresAt > now then (Inl (ErrMsg ''expires_at must be in the future''), s)
       else (case secret of None \<Rightarrow> (Inl (ErrMsg ''rand''), s)
         | Some plain \<Rightarrow>
           (let t = \<lparr>rt_id = newID, rt_org_id = orgID, rt_token_hash = hash plain, rt_peer_id = peerID,
                 rt_scopes = scopes,
                 rt_expires_at = (if expiresAt > now + maxRegistrationTokenTTL then now + maxRegistrationTokenTTL else expiresAt),
                 rt_created_by = createdBy, rt_used_at = None, rt_revoked_at = None, rt_created_at = now\<rparr>
            in if has_row (\<lambda>r. rt_id r = newID \<or> rt_token_hash r = hash plain) (node_registration_tokens s)
               then (Inl unique_violation, s)
               else if \<not> fk_org s orgID \<or> \<not> fk_user s createdBy then (Inl foreign_key_violation, s)
               else (Inr (plain, t), s\<lparr>node_registration_tokens := node_registration_tokens s @ [t]\<rparr>))))"

definition LookupNodeRegistrationToken :: "(string \<Rightarrow> string) \<Rightarrow> time \<Rightarrow> db \<Rightarrow> string \<Rightarrow> string
    \<Rightarrow> (id \<times> id \<times> string \<times> string list) res" where
  "LookupNodeRegistrationToken hash now s token requiredScope =
    (let token = TrimSpace token
     in if token = '''' then Inl ErrNotFound
        else case find (\<lambda>t. rt_token_hash t = hash token) (node_registration_tokens s) of None \<Rightarrow> Inl ErrNotFound
        | Some t \<Rightarrow>
          if rt_revoked_at t \<noteq> None then Inl ErrNotFound
          else if now > rt_expires_at t then Inl ErrNotFound
          else if requiredScope \<noteq> '''' \<and> \<not> scopeAllowed (rt_scopes t) requiredScope then Inl ErrNotFound
          else Inr (rt_org_id t, rt_id t, rt_peer_id t, rt_scopes t))"

definition MarkNodeRegistrationTokenUsed :: "time \<Rightarrow> id \<Rightarrow> db \<Rightarrow> db" where
  "MarkNodeRegistrationTokenUsed now tokenID s = s\<lparr>node_registration_tokens :=
     upd_rows (\<lambda>t. rt_id t = tokenID \<and> rt_used_at t = None) (\<lambda>t. t\<lparr>rt_used_at := Some now\<rparr>) (node_registration_tokens s)\<rparr>"

section \<open>Services a plan or profile brings\<close>

definition service_input :: "id \<Rightarrow> string \<Rightarrow> string \<Rightarrow> string \<Rightarrow> string \<Rightarrow> string \<Rightarrow> attach_input" where
  "service_input orgID nodeID ty name provider visibility = \<lparr>at_org_id = orgID, at_node_id = nodeID,
     at_service_type = ty, at_service_name = name, at_service_provider = provider, at_visibility = visibility,
     at_config_ref = '''', at_access_url = '''', at_license_id = '''', at_created_by = ''''\<rparr>"

definition attachVPNService :: "time \<Rightarrow> (db \<Rightarrow> id) \<Rightarrow> id \<Rightarrow> string \<Rightarrow> db \<Rightarrow> unit res \<times> db" where
  "attachVPNService now uuid orgID nodeID s =
    seq (AttachServiceToNode now (uuid s) (service_input orgID nodeID ServiceTypeVPN ServiceNameErebrus
      ServiceProviderWireguard ServiceVisibilityOrgOnly) s) (\<lambda>_ s. (Inr (), s))"

definition attachShieldService :: "time \<Rightarrow> (db \<Rightarrow> id) \<Rightarrow> id \<Rightarrow> string \<Rightarrow> db \<Rightarrow> unit res \<times> db" where
  "attachShieldService now uuid orgID nodeID s =
    seq (AttachServiceToNode now (uuid s) (service_input orgID nodeID ServiceTypeCommunityFirewall
      ServiceNameErebrusShield ServiceProviderAdGuardHome ServiceVisibilityVPNOnly) s) (\<lambda>_ s. (Inr (), s))"

definition sentinel_input :: "id \<Rightarrow> string \<Rightarrow> attach_input" where
  "sentinel_input orgID nodeID = service_input orgID nodeID ServiceTypeErebrusFirewall
     ServiceNameErebrusSentinel ServiceProviderUnboundErebrus ServiceVisibilityVPNOnly"

definition attachSentinelService :: "time \<Rightarrow> (db \<Rightarrow> id) \<Rightarrow> id \<Rightarrow> string \<Rightarrow> db \<Rightarrow> unit res \<times> db" where
  "attachSentinelService now uuid orgID nodeID s =
    (if has_row (\<lambda>v. sv_service_type v = ServiceTypeErebrusFirewall \<and> sv_service_status v \<noteq> ServiceStatusDisabled)
          (ListOrgNodeServices s orgID nodeID) then (Inr (), s)
     else seq (AttachSentinelLicense now orgID nodeID s) (\<lambda>lic s.
          seq (AttachServiceToNode now (uuid s) ((sentinel_input orgID nodeID)\<lparr>at_license_id := sl_id lic\<rparr>) s)
            (\<lambda>_ s. (Inr (), s))))"

definition attachProfileServices :: "time \<Rightarrow> (db \<Rightarrow> id) \<Rightarrow> id \<Rightarrow> string \<Rightarrow> string \<Rightarrow> db \<Rightarrow> unit res \<times> db" where
  "attachProfileServices now uuid orgID nodeID profile s =
    (if profile = DeploymentProfileShield then attachShieldService now uuid orgID nodeID s
     else if profile = DeploymentProfileSentinel then
       (case attachSentinelService now uuid orgID nodeID s of
          (Inr _, s) \<Rightarrow> (Inr (), s)
        | (Inl e, s) \<Rightarrow>
          if e = ErrNotFound then
            seq (AttachServiceToNode now (uuid s) (sentinel_input orgID nodeID) s) (\<lambda>_ s.
              (Inr (), s\<lparr>org_node_services := upd_rows
                 (\<lambda>v. sv_org_id v = orgID \<and> sv_node_id v = nodeID \<and> sv_service_type v = ServiceTypeErebrusFirewall)
                 (\<lambda>v. v\<lparr>sv_service_status := ServiceStatusUnlicensed, sv_updated_at := now\<rparr>) (org_node_services s)\<rparr>))
          else (Inl e, s))
     else (Inr (), s))"

section \<open>Registration\<close>

record node_registration =
  nr_peer_id :: string
  nr_did :: string
  nr_wallet :: string
  nr_chain :: string
  nr_name :: string
  nr_region :: string
  nr_zone :: string
  nr_api_base_url :: string
  nr_node_key :: string
  nr_access_mode :: string
  nr_deployment_profile :: string

text \<open>The key the node is registered with: the one it presents, or a new one.\<close>

definition agreed_key :: "string option \<Rightarrow> string \<Rightarrow> node option \<Rightarrow> id \<Rightarrow> string res" where
  "agreed_key fresh presented existing orgID =
    (let new = (if presented \<noteq> '''' then Inr presented
                else case fresh of None \<Rightarrow> Inl (ErrMsg ''rand'') | Some k \<Rightarrow> Inr k)
     in case existing of None \<Rightarrow> new
        | Some n \<Rightarrow>
          if n_org_id n \<noteq> orgID then Inl ErrConflict
          else if n_node_key n \<noteq> '''' then
            (if presented = '''' then Inl ErrConflict
             else if n_node_key n \<noteq> presented then Inl ErrConflict else Inr presented)
          else new)"

definition register_runtime :: "time \<Rightarrow> id \<Rightarrow> id \<Rightarrow> node_registration \<Rightarrow> string \<Rightarrow> db \<Rightarrow> unit res \<times> db" where
  "register_runtime now newID orgID r nodeKey s =
    (let access = (if nr_access_mode r \<noteq> NodeAccessPrivate then NodeAccessPublic else nr_access_mode r);
         profile = NormalizeDeploymentProfile (nr_deployment_profile r);
         p = (\<lambda>n. n_peer_id n = nr_peer_id r)
     in if has_row p (nodes s) then
          (Inr (), s\<lparr>nodes := upd_rows (\<lambda>n. p n \<and> n_org_id n = orgID)
             (\<lambda>n. n\<lparr>n_did := nr_did r, n_wallet_address := keep_if_empty (nr_wallet r) (n_wallet_address n),
                 n_chain := keep_if_empty (nr_chain r) (n_chain n), n_org_id := orgID,
                 n_name := keep_if_empty (nr_name r) (n_name n), n_region := keep_if_empty (nr_region r) (n_region n),
                 n_zone := keep_if_empty (nr_zone r) (n_zone n),
                 n_api_base_url := keep_if_empty (nr_api_base_url r) (n_api_base_url n), n_node_key := nodeKey,
                 n_access_mode := access, n_deployment_profile := profile\<rparr>) (nodes s)\<rparr>)
        else if has_row (\<lambda>n. n_id n = newID) (nodes s) then (Inl unique_violation, s)
        else if \<not> fk_org_null s orgID then (Inl foreign_key_violation, s)
        else (Inr (), s\<lparr>nodes := nodes s @ [(new_node now newID (nr_peer_id r) (nr_did r))
             \<lparr>n_wallet_address := nr_wallet r, n_chain := nr_chain r, n_org_id := orgID, n_name := nr_name r,
              n_region := nr_region r, n_zone := nr_zone r, n_api_base_url := nr_api_base_url r,
              n_node_key := nodeKey, n_access_mode := access, n_deployment_profile := profile\<rparr>]\<rparr>))"

definition register_record :: "time \<Rightarrow> id \<Rightarrow> id \<Rightarrow> node_registration \<Rightarrow> db \<Rightarrow> unit res \<times> db" where
  "register_record now newID orgID r s =
    (let public = (nr_access_mode r = NodeAccessPublic);
         nodeType = (if public then OrgNodeTypePublic else OrgNodeTypeBYOC);
         visibility = (if public then OrgNodeVisibilityPublicNetwork else OrgNodeVisibilityPrivateOrg);
         profile = NormalizeDeploymentProfile (nr_deployment_profile r)
     in case find (\<lambda>x. on_node_id x = nr_peer_id r) (org_nodes s) of
          Some x \<Rightarrow>
            if on_org_id x \<noteq> orgID then (Inl ErrConflict, s)
            else (Inr (), s\<lparr>org_nodes := upd_rows (\<lambda>x. on_node_id x = nr_peer_id r \<and> on_org_id x = orgID)
              (\<lambda>x. x\<lparr>on_node_name := keep_if_empty (nr_name r) (on_node_name x),
                 on_deployment_profile := keep_if_empty profile (on_deployment_profile x), on_node_type := nodeType,
                 on_visibility := visibility, on_region := keep_if_empty (nr_region r) (on_region x),
                 on_zone := keep_if_empty (nr_zone r) (on_zone x), on_status := OrgNodeStatusActive,
                 on_api_public_url := keep_if_empty (nr_api_base_url r) (on_api_public_url x),
                 on_updated_at := now\<rparr>) (org_nodes s)\<rparr>)
        | None \<Rightarrow>
            insert_org_node \<lparr>on_id = newID, on_org_id = orgID, on_node_id = nr_peer_id r, on_node_name = nr_name r,
              on_deployment_profile = profile, on_node_type = nodeType, on_visibility = visibility,
              on_managed_by = OrgNodeManagedByOrg, on_region = nr_region r, on_zone = nr_zone r,
              on_status = OrgNodeStatusActive, on_api_public_url = nr_api_base_url r, on_last_seen_at = None,
              on_created_by = '''', on_created_at = now, on_updated_at = now\<rparr> s)"

definition register_vpn_service :: "time \<Rightarrow> id \<Rightarrow> id \<Rightarrow> string \<Rightarrow> db \<Rightarrow> unit res \<times> db" where
  "register_vpn_service now newID orgID peerID s =
    seq (upsert_service \<lparr>sv_id = newID, sv_org_id = orgID, sv_node_id = peerID, sv_service_type = ServiceTypeVPN,
        sv_service_name = ServiceNameErebrus, sv_service_provider = ServiceProviderWireguard,
        sv_service_status = ServiceStatusActive, sv_visibility = ServiceVisibilityOrgOnly, sv_config_ref = '''',
        sv_access_url = '''', sv_license_id = '''', sv_created_by = '''', sv_created_at = now, sv_updated_at = now\<rparr>
      (\<lambda>v. v\<lparr>sv_service_status := ServiceStatusActive, sv_updated_at := now\<rparr>) s) (\<lambda>_ s. (Inr (), s))"

definition register_tx :: "time \<Rightarrow> (db \<Rightarrow> id) \<Rightarrow> string option \<Rightarrow> id \<Rightarrow> id \<Rightarrow> node_registration \<Rightarrow> db \<Rightarrow> string res \<times> db" where
  "register_tx now uuid freshKey orgID tokenID r s =
    (case agreed_key freshKey (TrimSpace (nr_node_key r)) (find (\<lambda>n. n_peer_id n = nr_peer_id r) (nodes s)) orgID of
       Inl e \<Rightarrow> (Inl e, s)
     | Inr nodeKey \<Rightarrow>
       seq (register_runtime now (uuid s) orgID r nodeKey s) (\<lambda>_ s.
       seq (register_record now (uuid s) orgID r s) (\<lambda>_ s.
       seq (register_vpn_service now (uuid s) orgID (nr_peer_id r) s) (\<lambda>_ s.
       (Inr nodeKey, MarkNodeRegistrationTokenUsed now tokenID s)))))"

definition RegisterOrgNodeFromRuntime :: "time \<Rightarrow> (db \<Rightarrow> id) \<Rightarrow> string option \<Rightarrow> id \<Rightarrow> id \<Rightarrow> node_registration \<Rightarrow> db
    \<Rightarrow> (string \<times> string) res \<times> db" where
  "RegisterOrgNodeFromRuntime now uuid freshKey orgID tokenID r s =
    seq (in_tx (register_tx now uuid freshKey orgID tokenID r) s) (\<lambda>nodeKey s.
    seq (attachProfileServices now uuid orgID (nr_peer_id r) (NormalizeDeploymentProfile (nr_deployment_profile r)) s)
      (\<lambda>_ s. (Inr (nr_peer_id r, nodeKey), s)))"

end
