(* ===== verification/NodeApi.thy ===== *)
theory NodeApi
  imports Enrollment
begin

text \<open>
  The node handlers of \<open>internal/api/nodes.go\<close>, \<open>org_nodes.go\<close>, \<open>operator.go\<close> and the REST heartbeat of
  \<open>firewall.go\<close>.  Discovery caching, metrics and the WebSocket upgrade are left out.
\<close>

section \<open>Registration tokens and enrollment\<close>

record enroll_env =
  ee_hash :: "string \<Rightarrow> string"  \<comment> \<open>hex SHA-256\<close>
  ee_wallet :: wallet_lib
  ee_issue_node :: "string \<Rightarrow> string option"  \<comment> \<open>\<open>IssueNode\<close>\<close>

definition error_text :: "err \<Rightarrow> string" where
  "error_text e = (case e of ErrMsg m \<Rightarrow> m | ErrNotFound \<Rightarrow> ''not found'' | ErrConflict \<Rightarrow> ''conflict'' | _ \<Rightarrow> ''database error'')"

text \<open>A zero \<open>expires_at\<close> means the request has none; \<open>time.Duration(ttl_hours)*time.Hour\<close> is 64-bit nanoseconds.\<close>

record token_req =
  tr_peer_id :: string
  tr_scopes :: "string list"
  tr_expires_at :: "time option"
  tr_ttl_hours :: int

definition handleCreateNodeRegistrationToken :: "(string \<Rightarrow> string) \<Rightarrow> time \<Rightarrow> id \<Rightarrow> string option \<Rightarrow> caller \<Rightarrow> id
    \<Rightarrow> token_req option \<Rightarrow> db \<Rightarrow> (string \<times> registration_token) resp \<times> db" where
  "handleCreateNodeRegistrationToken hash now newID secret cl orgID body s =
    (case orgCanManageNodes s cl orgID of Inl f \<Rightarrow> (refuse f, s)
     | Inr _ \<Rightarrow>
       (case body of None \<Rightarrow> (Fail 400 ''invalid body'', s)
        | Some req \<Rightarrow>
          (let scopes = (if tr_scopes req = [] then [TokenScopeNodeRegistration] else tr_scopes req);
               hours = (if tr_ttl_hours req \<le> 0 then 24 else tr_ttl_hours req);
               expiresAt = (case tr_expires_at req of Some t \<Rightarrow> t
                 | None \<Rightarrow> now + wrap64 (hours * 3600000000000) div 1000000000)
           in case CreateNodeRegistrationToken hash now newID secret orgID (cl_user_id cl) (TrimSpace (tr_peer_id req))
                     scopes expiresAt s of
                (Inl e, s) \<Rightarrow> (Fail 400 (error_text e), s)
              | (Inr t, s) \<Rightarrow> (Ok 201 t, s))))"

record register_req =
  rr_registration_token :: string
  rr_peer_id :: string
  rr_flow_id :: id
  rr_signature :: string
  rr_public_key :: string
  rr_wallet_address :: string
  rr_chain :: string
  rr_did :: string
  rr_name :: string
  rr_region :: string
  rr_zone :: string
  rr_api_base_url :: string
  rr_node_key :: string
  rr_access_mode :: string
  rr_deployment_profile :: string

datatype enroll_reply =
    Challenge id string
  | Enrolled string string string  \<comment> \<open>node token, peer id, node key\<close>

definition nodeChallengeMessage :: "id \<Rightarrow> string" where
  "nodeChallengeMessage flowID = ''Erebrus Node Enrollment Challenge: '' @ flowID"

definition EqualFold :: "string \<Rightarrow> string \<Rightarrow> bool" where
  "EqualFold a b \<longleftrightarrow> ToLower a = ToLower b"

definition flowIDTTL :: time where "flowIDTTL = 600"

definition enroll_challenge :: "time \<Rightarrow> id \<Rightarrow> id \<Rightarrow> string \<Rightarrow> register_req \<Rightarrow> db \<Rightarrow> enroll_reply resp \<times> db" where
  "enroll_challenge now flowID orgID tokenPeerID req s =
    (let peerID = TrimSpace (rr_peer_id req)
     in if peerID = '''' then (Fail 400 ''peer_id required'', s)
        else if tokenPeerID \<noteq> '''' \<and> tokenPeerID \<noteq> peerID
        then (Fail 401 ''registration token is bound to another node'', s)
        else (case CreateFlowID now flowID peerID orgID flowIDTTL s of
                (Inl _, s) \<Rightarrow> (Fail 500 ''failed to create challenge'', s)
              | (Inr _, s) \<Rightarrow> (Ok 200 (Challenge flowID (nodeChallengeMessage flowID)), s)))"

text \<open>The checks of step 2; success is the chain label the node is stored with.\<close>

definition check_response :: "wallet_lib \<Rightarrow> id \<Rightarrow> register_req \<Rightarrow> flow_id \<Rightarrow> failure + string" where
  "check_response lib orgID req flow =
    (if fl_chain flow \<noteq> orgID then Inl (401, ''enrollment flow org mismatch'')
     else if \<not> EqualFold (TrimSpace (fl_wallet_address flow)) (TrimSpace (rr_peer_id req))
     then Inl (401, ''peer_id does not match challenge'')
     else case ParseNodeChain (rr_chain req) of
       None \<Rightarrow> Inl (400, ''unsupported chain (expected SOLANA or ETHEREUM)'')
     | Some (nodeChain, verifyChain) \<Rightarrow>
       (case wallet_Verify lib verifyChain (nodeChallengeMessage (fl_flow_id flow)) (rr_signature req) (rr_public_key req) of
          None \<Rightarrow> Inl (401, ''signature does not match node wallet'')
        | Some recovered \<Rightarrow>
          if \<not> EqualFold (TrimSpace recovered) (TrimSpace (rr_wallet_address req))
          then Inl (401, ''signature does not match node wallet'') else Inr nodeChain))"

definition enroll_register :: "enroll_env \<Rightarrow> time \<Rightarrow> (db \<Rightarrow> id) \<Rightarrow> string option \<Rightarrow> id \<Rightarrow> id \<Rightarrow> string \<Rightarrow> register_req
    \<Rightarrow> string \<Rightarrow> db \<Rightarrow> enroll_reply resp \<times> db" where
  "enroll_register env now uuid freshKey orgID tokenID tokenPeerID req nodeChain s =
    (let peerID = TrimSpace (rr_peer_id req);
         access = (if rr_access_mode req \<noteq> NodeAccessPrivate then NodeAccessPublic else rr_access_mode req)
     in if tokenPeerID \<noteq> '''' \<and> tokenPeerID \<noteq> peerID
        then (Fail 401 ''registration token is bound to another node'', s)
        else case RegisterOrgNodeFromRuntime now uuid freshKey orgID tokenID
            \<lparr>nr_peer_id = peerID, nr_did = rr_did req, nr_wallet = rr_wallet_address req, nr_chain = nodeChain,
             nr_name = rr_name req, nr_region = rr_region req, nr_zone = rr_zone req,
             nr_api_base_url = rr_api_base_url req, nr_node_key = TrimSpace (rr_node_key req),
             nr_access_mode = access, nr_deployment_profile = rr_deployment_profile req\<rparr> s of
          (Inl e, s) \<Rightarrow> (if e = ErrConflict then Fail 401 ''node already registered or invalid node_key''
                         else Fail 500 ''failed to register node'', s)
        | (Inr (peerID, nodeKey), s) \<Rightarrow>
            (case ee_issue_node env peerID of None \<Rightarrow> (Fail 500 ''failed to issue node token'', s)
             | Some tok \<Rightarrow> (Ok 200 (Enrolled tok peerID nodeKey), s)))"

definition enroll_response :: "enroll_env \<Rightarrow> time \<Rightarrow> (db \<Rightarrow> id) \<Rightarrow> string option \<Rightarrow> id \<Rightarrow> id \<Rightarrow> string \<Rightarrow> register_req
    \<Rightarrow> db \<Rightarrow> enroll_reply resp \<times> db" where
  "enroll_response env now uuid freshKey orgID tokenID tokenPeerID req s =
    (if rr_peer_id req = '''' \<or> rr_did req = '''' \<or> rr_wallet_address req = '''' \<or> rr_chain req = ''''
     then (Fail 400 ''peer_id, did, wallet_address and chain required'', s)
     else case GetFlowID now (rr_flow_id req) s of
       (Inl _, s) \<Rightarrow> (Fail 401 ''flow id not found or expired'', s)
     | (Inr flow, s) \<Rightarrow>
       (case check_response (ee_wallet env) orgID req flow of Inl f \<Rightarrow> (refuse f, s)
        | Inr nodeChain \<Rightarrow>
            enroll_register env now uuid freshKey orgID tokenID tokenPeerID req nodeChain
              (DeleteFlowID (rr_flow_id req) s)))"

definition handleNodeRegister :: "enroll_env \<Rightarrow> time \<Rightarrow> id \<Rightarrow> (db \<Rightarrow> id) \<Rightarrow> string option \<Rightarrow> register_req option \<Rightarrow> db
    \<Rightarrow> enroll_reply resp \<times> db" where
  "handleNodeRegister env now newFlow uuid freshKey body s =
    (case body of None \<Rightarrow> (Fail 400 ''invalid body'', s)
     | Some req \<Rightarrow>
       (let token = TrimSpace (rr_registration_token req)
        in if token = '''' then (Fail 400 ''registration_token required'', s)
           else case LookupNodeRegistrationToken (ee_hash env) now s token TokenScopeNodeRegistration of
             Inl e \<Rightarrow> (if e = ErrNotFound then Fail 401 ''invalid registration token''
                       else Fail 500 ''token lookup failed'', s)
           | Inr (orgID, tokenID, tokenPeerID, _) \<Rightarrow>
               if rr_signature req = '''' then enroll_challenge now newFlow orgID tokenPeerID req s
               else enroll_response env now uuid freshKey orgID tokenID tokenPeerID req s))"

text \<open>The key is the bearer token, or the \<open>X-Erebrus-Node-Key\<close> header.\<close>

definition handleNodeTokenRefresh :: "enroll_env \<Rightarrow> string option \<Rightarrow> string \<Rightarrow> string \<Rightarrow> db \<Rightarrow> (string \<times> string) resp" where
  "handleNodeTokenRefresh env body bearer header s =
    (case body of None \<Rightarrow> Fail 400 ''invalid body''
     | Some peer \<Rightarrow>
       (let peerID = TrimSpace peer;
            nodeKey = (if TrimSpace bearer = '''' then TrimSpace header else TrimSpace bearer)
        in if peerID = '''' then Fail 400 ''peer_id required''
           else if nodeKey = '''' then Fail 401 ''node_key required''
           else case NodeKeyMatches s peerID nodeKey of
             Inl e \<Rightarrow> if e = ErrNotFound then Fail 404 ''node not found'' else Fail 500 ''node lookup failed''
           | Inr matches \<Rightarrow>
             if \<not> matches then Fail 401 ''invalid node_key''
             else (case ee_issue_node env peerID of None \<Rightarrow> Fail 500 ''failed to issue node token''
               | Some tok \<Rightarrow> Ok 200 (tok, peerID))))"

section \<open>Organization nodes\<close>

definition handleListOrgNodes :: "caller \<Rightarrow> id \<Rightarrow> db \<Rightarrow> (org_node \<times> string \<times> string \<times> time option) list resp" where
  "handleListOrgNodes cl orgID s =
    (case orgMember s cl orgID of Inl f \<Rightarrow> refuse f | Inr _ \<Rightarrow> Ok 200 (ListOrgNodes s orgID))"

definition handleGetOrgNode :: "caller \<Rightarrow> id \<Rightarrow> string \<Rightarrow> db \<Rightarrow> org_node resp" where
  "handleGetOrgNode cl orgID nodeID s =
    (case orgMember s cl orgID of Inl f \<Rightarrow> refuse f
     | Inr _ \<Rightarrow> (case GetOrgNode s orgID nodeID of
          Inl e \<Rightarrow> if e = ErrNotFound then Fail 404 ''node not found'' else Fail 500 ''failed to load node''
        | Inr x \<Rightarrow> Ok 200 x))"

definition handlePatchOrgNode :: "time \<Rightarrow> caller \<Rightarrow> id \<Rightarrow> string \<Rightarrow> update_org_node_input option \<Rightarrow> db \<Rightarrow> org_node resp \<times> db" where
  "handlePatchOrgNode now cl orgID nodeID body s =
    (case requireNodeOperator s cl orgID of Inl f \<Rightarrow> (refuse f, s)
     | Inr _ \<Rightarrow>
       (case body of None \<Rightarrow> (Fail 400 ''invalid body'', s)
        | Some req \<Rightarrow>
          (case UpdateOrgNode now orgID nodeID req s of
             (Inl e, s) \<Rightarrow> (if e = ErrNotFound then Fail 404 ''node not found'' else Fail 500 ''failed to update node'', s)
           | (Inr x, s) \<Rightarrow> (Ok 200 x, s))))"

record org_register_req =
  og_token :: string
  og_registration_token :: string
  og_registration :: node_registration  \<comment> \<open>the remaining fields; the handler passes no profile\<close>

definition handleOrgNodeRegister :: "(string \<Rightarrow> string) \<Rightarrow> time \<Rightarrow> (db \<Rightarrow> id) \<Rightarrow> string option \<Rightarrow> caller \<Rightarrow> id
    \<Rightarrow> org_register_req option \<Rightarrow> db \<Rightarrow> (string \<times> string) resp \<times> db" where
  "handleOrgNodeRegister hash now uuid freshKey cl orgID body s =
    (case requireNodeOperator s cl orgID of Inl f \<Rightarrow> (refuse f, s)
     | Inr _ \<Rightarrow>
       (case body of None \<Rightarrow> (Fail 400 ''invalid body'', s)
        | Some req \<Rightarrow>
          (let r = og_registration req;
               token = (if TrimSpace (og_token req) = '''' then TrimSpace (og_registration_token req) else TrimSpace (og_token req))
           in if token = '''' \<or> nr_peer_id r = '''' \<or> nr_did r = ''''
              then (Fail 400 ''token, peer_id, and did are required'', s)
              else case LookupNodeRegistrationToken hash now s token TokenScopeNodeRegistration of
                Inl e \<Rightarrow> (Fail 401 ''invalid registration token'', s)
              | Inr (resolvedOrg, tokenID, tokenPeerID, _) \<Rightarrow>
                if resolvedOrg \<noteq> orgID then (Fail 401 ''invalid registration token'', s)
                else if tokenPeerID \<noteq> '''' \<and> tokenPeerID \<noteq> TrimSpace (nr_peer_id r)
                then (Fail 401 ''registration token is bound to another node'', s)
                else (case RegisterOrgNodeFromRuntime now uuid freshKey orgID tokenID
                         (r\<lparr>nr_peer_id := TrimSpace (nr_peer_id r), nr_deployment_profile := ''''\<rparr>) s of
                   (Inl e, s) \<Rightarrow> (if e = ErrConflict then Fail 409 ''node already registered or invalid node_key''
                                  else Fail 500 ''failed to register node'', s)
                 | (Inr (peerID, nodeKey), s) \<Rightarrow> (Ok 201 (peerID, nodeKey), s)))))"

section \<open>Services\<close>

definition handleListOrgNodeServices :: "caller \<Rightarrow> id \<Rightarrow> string \<Rightarrow> db \<Rightarrow> org_node_service list resp" where
  "handleListOrgNodeServices cl orgID nodeID s =
    (case orgMember s cl orgID of Inl f \<Rightarrow> refuse f | Inr _ \<Rightarrow> Ok 200 (ListOrgNodeServices s orgID nodeID))"

definition handlePatchOrgNodeService :: "time \<Rightarrow> caller \<Rightarrow> id \<Rightarrow> string \<Rightarrow> id \<Rightarrow> update_service_input option \<Rightarrow> db
    \<Rightarrow> org_node_service resp \<times> db" where
  "handlePatchOrgNodeService now cl orgID nodeID serviceID body s =
    (case requireNodeOperator s cl orgID of Inl f \<Rightarrow> (refuse f, s)
     | Inr _ \<Rightarrow>
       (case body of None \<Rightarrow> (Fail 400 ''invalid body'', s)
        | Some req \<Rightarrow>
          (case UpdateOrgNodeService now orgID nodeID serviceID req s of
             (Inl e, s) \<Rightarrow> (if e = ErrNotFound then Fail 404 ''service not found'' else Fail 500 ''failed to update service'', s)
           | (Inr v, s) \<Rightarrow> (Ok 200 v, s))))"

definition handleDeleteOrgNodeService :: "time \<Rightarrow> caller \<Rightarrow> id \<Rightarrow> string \<Rightarrow> id \<Rightarrow> db \<Rightarrow> unit resp \<times> db" where
  "handleDeleteOrgNodeService now cl orgID nodeID serviceID s =
    (case requireNodeOperator s cl orgID of Inl f \<Rightarrow> (refuse f, s)
     | Inr _ \<Rightarrow>
       (case DeleteOrgNodeService now orgID nodeID serviceID s of
          (Inl e, s) \<Rightarrow> (if e = ErrNotFound then Fail 404 ''service not found'' else Fail 500 ''failed to delete service'', s)
        | (Inr _, s) \<Rightarrow> (Ok 204 (), s)))"

definition handleAttachOrgNodeService :: "time \<Rightarrow> id \<Rightarrow> caller \<Rightarrow> id \<Rightarrow> string \<Rightarrow> attach_input option \<Rightarrow> db
    \<Rightarrow> org_node_service resp \<times> db" where
  "handleAttachOrgNodeService now newID cl orgID nodeID body s =
    (case requireNodeOperator s cl orgID of Inl f \<Rightarrow> (refuse f, s)
     | Inr _ \<Rightarrow>
       (case body of None \<Rightarrow> (Fail 400 ''service_type is required'', s)
        | Some req \<Rightarrow>
          if at_service_type req = '''' then (Fail 400 ''service_type is required'', s)
          else (case ValidateServiceEntitlement s orgID nodeID (at_service_type req) of
             Some e \<Rightarrow> (Fail 400 (error_text e), s)
           | None \<Rightarrow>
             (case AttachServiceToNode now newID (req\<lparr>at_org_id := orgID, at_node_id := nodeID, at_license_id := '''',
                      at_created_by := cl_user_id cl\<rparr>) s of
                (Inl _, s) \<Rightarrow> (Fail 500 ''failed to attach service'', s)
              | (Inr v, s) \<Rightarrow> (Ok 201 v, s)))))"

section \<open>Operators and heartbeats\<close>

record operator_patch =
  pt_org_id :: "string option"
  pt_access_mode :: "string option"

definition patch_operator_org :: "caller \<Rightarrow> string \<Rightarrow> string option \<Rightarrow> db \<Rightarrow> failure option \<times> db" where
  "patch_operator_org cl nodeID req s =
    (case req of None \<Rightarrow> (None, s)
     | Some x \<Rightarrow>
       (let newOrg = TrimSpace x
        in if newOrg \<noteq> '''' \<and> (case MemberRole s newOrg (cl_user_id cl) of Inl _ \<Rightarrow> True
                              | Inr role \<Rightarrow> \<not> IsOrgPrivileged role)
           then (Some (403, ''not admin of target org''), s)
           else (case SetNodeOrg nodeID newOrg s of
                   (Inl _, s) \<Rightarrow> (Some (500, ''failed to update org''), s) | (Inr _, s) \<Rightarrow> (None, s))))"

definition patch_operator_mode :: "string \<Rightarrow> string option \<Rightarrow> db \<Rightarrow> failure option \<times> db" where
  "patch_operator_mode nodeID req s =
    (case req of None \<Rightarrow> (None, s)
     | Some x \<Rightarrow>
       (let mode = TrimSpace x
        in if mode \<noteq> NodeAccessPublic \<and> mode \<noteq> NodeAccessPrivate
           then (Some (400, ''access_mode must be public or private''), s)
           else (case SetNodeAccessMode nodeID mode s of
                   (Inl _, s) \<Rightarrow> (Some (500, ''failed to update access_mode''), s) | (Inr _, s) \<Rightarrow> (None, s))))"

definition handlePatchOperatorNode :: "caller \<Rightarrow> string \<Rightarrow> operator_patch option \<Rightarrow> db \<Rightarrow> node resp \<times> db" where
  "handlePatchOperatorNode cl nodeID body s =
    (case GetNode s nodeID of
       Inl e \<Rightarrow> (if e = ErrNotFound then Fail 404 ''node not found'' else Fail 500 ''failed to load node'', s)
     | Inr n \<Rightarrow>
       if (case MemberRole s (n_org_id n) (cl_user_id cl) of Inl _ \<Rightarrow> True | Inr role \<Rightarrow> \<not> IsOrgPrivileged role)
       then (Fail 403 ''org admin role required'', s)
       else (case body of None \<Rightarrow> (Fail 400 ''invalid body'', s)
        | Some req \<Rightarrow>
          (case patch_operator_org cl nodeID (pt_org_id req) s of (Some f, s) \<Rightarrow> (refuse f, s)
           | (None, s) \<Rightarrow>
             (case patch_operator_mode nodeID (pt_access_mode req) s of (Some f, s) \<Rightarrow> (refuse f, s)
              | (None, s) \<Rightarrow>
                (case GetNode s nodeID of Inl _ \<Rightarrow> (Fail 500 ''failed to reload node'', s)
                 | Inr n \<Rightarrow> (Ok 200 n, s))))))"

definition handleAdminSetNodeMinTier :: "string \<Rightarrow> int option \<Rightarrow> db \<Rightarrow> int resp \<times> db" where
  "handleAdminSetNodeMinTier nodeID body s =
    (case body of None \<Rightarrow> (Fail 400 ''min_tier must be >= 0'', s)
     | Some minTier \<Rightarrow>
       if minTier < 0 then (Fail 400 ''min_tier must be >= 0'', s)
       else (case SetNodeMinTier nodeID minTier s of
          (Inl e, s) \<Rightarrow> (if e = ErrNotFound then Fail 404 ''node not found'' else Fail 500 ''failed to set min_tier'', s)
        | (Inr _, s) \<Rightarrow> (Ok 200 minTier, s)))"

record claims =
  ca_role :: string
  ca_node_id :: string
  ca_peer_id :: string

definition nodeTokenPeerID :: "claims option \<Rightarrow> string" where
  "nodeTokenPeerID c =
    (case c of None \<Rightarrow> '''' | Some c \<Rightarrow> if ca_peer_id c \<noteq> '''' then ca_peer_id c else ca_node_id c)"

record heartbeat_req =
  hb_status :: string
  hb_load :: string
  hb_speedtest :: string
  hb_rx_bytes :: int
  hb_tx_bytes :: int
  hb_version :: string

text \<open>\<open>verified\<close> is what \<open>tokens.Verify\<close> makes of the bearer token; an absent JSON field is the empty text.\<close>

definition handleNodeHeartbeat :: "time \<Rightarrow> claims option \<Rightarrow> string \<Rightarrow> heartbeat_req option \<Rightarrow> db \<Rightarrow> unit resp \<times> db" where
  "handleNodeHeartbeat now verified param body s =
    (let peerID = nodeTokenPeerID verified
     in if (case verified of None \<Rightarrow> True | Some c \<Rightarrow> ca_role c \<noteq> ''node'') \<or> peerID = ''''
        then (Fail 401 ''valid node token required'', s)
        else if param \<noteq> '''' \<and> param \<noteq> peerID then (Fail 403 ''node id mismatch'', s)
        else (case body of None \<Rightarrow> (Fail 400 ''invalid body'', s)
          | Some req \<Rightarrow>
            (case ApplyNodeHeartbeat now peerID (if hb_status req = '''' then ''online'' else hb_status req)
                    (hb_load req) (hb_speedtest req) (hb_rx_bytes req) (hb_tx_bytes req) (hb_version req) s of
               (Inl e, s) \<Rightarrow> (if e = ErrNotFound then Fail 404 ''node not found'' else Fail 500 ''heartbeat failed'', s)
             | (Inr _, s) \<Rightarrow> (Ok 204 (), s))))"

end
