(* ===== verification/NodeSafety.thy ===== *)
theory NodeSafety
  imports NodeApi
begin

text \<open>
  What the enrollment component guarantees (who gets a node token, that no node is taken over, what a
  registration token is good for), how licenses are consumed, the liveness sweep; and where the code
  departs from its intent.
\<close>

section \<open>Enrollment\<close>

lemma Lookup_okD:
  assumes "LookupNodeRegistrationToken hash now s token scope = Inr (orgID, tid, peer, scopes)"
  obtains t where "t \<in> set (node_registration_tokens s)" "rt_token_hash t = hash (TrimSpace token)"
    "rt_org_id t = orgID" "rt_id t = tid" "rt_peer_id t = peer" "rt_scopes t = scopes"
    "rt_revoked_at t = None" "now \<le> rt_expires_at t" "scope = '''' \<or> scope \<in> set (rt_scopes t)"
  using assms by (auto simp: LookupNodeRegistrationToken_def Let_def scopeAllowed_def list_ex_iff
      split: option.splits if_splits dest: find_SomeD)

lemma GetFlowID_okD:
  assumes "GetFlowID now fid s = (Inr f, s')"
  shows "f \<in> set (flow_ids s) \<and> fl_flow_id f = fid \<and> now \<le> fl_expires_at f \<and> s' = s"
  using assms by (auto simp: GetFlowID_def split: option.splits if_splits dest: find_SomeD)

lemma flow_ids_attach: "flow_ids (snd (upsert_service v f s)) = flow_ids s"
  by (simp add: upsert_service_def Let_def split: option.splits)

lemma flow_ids_seq: "flow_ids (snd r) = F \<Longrightarrow> (\<And>x s. flow_ids (snd (k x s)) = flow_ids s) \<Longrightarrow> flow_ids (snd (seq r k)) = F"
  by (auto simp: seq_def split: prod.splits sum.splits)

lemma flow_ids_Attach: "flow_ids (snd (AttachServiceToNode now i inp s)) = flow_ids s"
  by (simp add: AttachServiceToNode_def flow_ids_attach split: sum.splits)

lemma flow_ids_license: "flow_ids (snd (AttachSentinelLicense now orgID nodeID s)) = flow_ids s"
  by (auto simp: AttachSentinelLicense_def AttachSentinelLicense_tx_def in_tx_def Let_def split: option.splits)

lemma flow_ids_sentinel: "flow_ids (snd (attachSentinelService now uuid orgID nodeID s)) = flow_ids s"
  unfolding attachSentinelService_def by (auto intro!: flow_ids_seq simp: flow_ids_license flow_ids_Attach)

lemma flow_ids_profile: "flow_ids (snd (attachProfileServices now uuid orgID nodeID profile s)) = flow_ids s"
proof -
  have "flow_ids t = flow_ids s" if "attachSentinelService now uuid orgID nodeID s = (r, t)" for r t
    using flow_ids_sentinel [of now uuid orgID nodeID s] that by simp
  then show ?thesis
    unfolding attachProfileServices_def attachShieldService_def
    by (auto intro!: flow_ids_seq simp: flow_ids_Attach split: prod.splits sum.splits)
qed

lemma flow_ids_insert: "flow_ids (snd (insert_org_node x s)) = flow_ids s"
  by (simp add: insert_org_node_def)

lemma flow_ids_register: "flow_ids (snd (RegisterOrgNodeFromRuntime now uuid k orgID tid r s)) = flow_ids s"
proof -
  have "flow_ids (snd (register_tx now uuid k orgID tid r s)) = flow_ids s"
    unfolding register_tx_def register_runtime_def register_record_def register_vpn_service_def Let_def
    by (auto intro!: flow_ids_seq simp: flow_ids_attach flow_ids_insert MarkNodeRegistrationTokenUsed_def
        split: sum.splits option.splits)
  then have "flow_ids (snd (in_tx (register_tx now uuid k orgID tid r) s)) = flow_ids s"
    by (auto simp: in_tx_def split: prod.splits sum.splits)
  then show ?thesis
    unfolding RegisterOrgNodeFromRuntime_def
    by (auto intro!: flow_ids_seq simp: flow_ids_profile)
qed

text \<open>
  What a node must present to be enrolled at \<open>now\<close>: a valid token of the organization with the
  registration scope, not bound to another node, and the answer, signed by the wallet it names, to a
  challenge issued to that peer for that organization that has not expired.
\<close>

definition valid_token :: "(string \<Rightarrow> string) \<Rightarrow> time \<Rightarrow> register_req \<Rightarrow> registration_token \<Rightarrow> bool" where
  "valid_token hash now req t \<longleftrightarrow> rt_token_hash t = hash (TrimSpace (TrimSpace (rr_registration_token req)))
     \<and> rt_revoked_at t = None \<and> now \<le> rt_expires_at t \<and> TokenScopeNodeRegistration \<in> set (rt_scopes t)
     \<and> (rt_peer_id t = '''' \<or> rt_peer_id t = TrimSpace (rr_peer_id req))"

definition answers_challenge :: "wallet_lib \<Rightarrow> time \<Rightarrow> id \<Rightarrow> register_req \<Rightarrow> flow_id \<Rightarrow> bool" where
  "answers_challenge lib now orgID req f \<longleftrightarrow> fl_flow_id f = rr_flow_id req \<and> now \<le> fl_expires_at f \<and> fl_chain f = orgID
     \<and> EqualFold (TrimSpace (fl_wallet_address f)) (TrimSpace (rr_peer_id req))
     \<and> (case ParseNodeChain (rr_chain req) of None \<Rightarrow> False | Some (_, ch) \<Rightarrow>
         (case wallet_Verify lib ch (nodeChallengeMessage (fl_flow_id f)) (rr_signature req) (rr_public_key req) of
            None \<Rightarrow> False | Some w \<Rightarrow> EqualFold (TrimSpace w) (TrimSpace (rr_wallet_address req))))"

lemma check_response_okD:
  "check_response lib orgID req f = Inr ch \<Longrightarrow> fl_flow_id f = rr_flow_id req \<Longrightarrow> now \<le> fl_expires_at f
    \<Longrightarrow> answers_challenge lib now orgID req f"
  by (auto simp: check_response_def answers_challenge_def split: if_splits option.splits)

lemma Register_okD: "RegisterOrgNodeFromRuntime now uuid k orgID tid r s = (Inr (p, nk), s')
    \<Longrightarrow> p = nr_peer_id r \<and> flow_ids s' = flow_ids s"
  using flow_ids_register [of now uuid k orgID tid r s]
  by (auto simp: RegisterOrgNodeFromRuntime_def elim!: seq_okE)

lemma enroll_register_okD:
  assumes "enroll_register env now uuid k orgID tid tpeer req ch s = (Ok 200 (Enrolled tok p nk), s')"
  shows "(tpeer = '''' \<or> tpeer = TrimSpace (rr_peer_id req)) \<and> p = TrimSpace (rr_peer_id req)
    \<and> ee_issue_node env p = Some tok \<and> flow_ids s' = flow_ids s"
  using assms
  by (auto simp: enroll_register_def Let_def split: if_splits prod.splits sum.splits option.splits dest!: Register_okD)

text \<open>
  C7. Only an authentic node is enrolled.  A node token is issued only for the peer the request
  names, to a request that carries a valid registration token and answers a live challenge with the
  wallet's signature; and the challenge cannot be answered twice, for it is gone afterwards.
\<close>

theorem enrollment_authentic:
  assumes "handleNodeRegister env now newFlow uuid freshKey (Some req) s = (Ok 200 (Enrolled tok p nk), s')"
  shows "p = TrimSpace (rr_peer_id req) \<and> ee_issue_node env p = Some tok
    \<and> (\<exists>t f. t \<in> set (node_registration_tokens s) \<and> valid_token (ee_hash env) now req t
         \<and> f \<in> set (flow_ids s) \<and> answers_challenge (ee_wallet env) now (rt_org_id t) req f)
    \<and> \<not> has_row (\<lambda>f. fl_flow_id f = rr_flow_id req) (flow_ids s')"
proof -
  let ?tok = "TrimSpace (rr_registration_token req)"
  from assms obtain orgID tid tpeer sc where
    look: "LookupNodeRegistrationToken (ee_hash env) now s ?tok TokenScopeNodeRegistration = Inr (orgID, tid, tpeer, sc)"
    and resp: "enroll_response env now uuid freshKey orgID tid tpeer req s = (Ok 200 (Enrolled tok p nk), s')"
    by (auto simp: handleNodeRegister_def enroll_challenge_def Let_def split: if_splits sum.splits prod.splits)
  from resp obtain f ch where f: "GetFlowID now (rr_flow_id req) s = (Inr f, s)"
    and c: "check_response (ee_wallet env) orgID req f = Inr ch"
    and r: "enroll_register env now uuid freshKey orgID tid tpeer req ch (DeleteFlowID (rr_flow_id req) s)
        = (Ok 200 (Enrolled tok p nk), s')"
    using GetFlowID_okD
    by (auto simp: enroll_response_def refuse_def split: if_splits prod.splits sum.splits) (metis (no_types, lifting))
  from GetFlowID_okD [OF f] check_response_okD [OF c]
  have ans: "f \<in> set (flow_ids s)" "answers_challenge (ee_wallet env) now orgID req f" by auto
  from look obtain t where t: "t \<in> set (node_registration_tokens s)" "rt_org_id t = orgID"
    "valid_token (ee_hash env) now req t"
    by (rule Lookup_okD) (use enroll_register_okD [OF r] in \<open>auto simp: valid_token_def\<close>)
  have "\<not> has_row (\<lambda>f. fl_flow_id f = rr_flow_id req) (flow_ids s')"
    using enroll_register_okD [OF r] by (auto simp: DeleteFlowID_def del_rows_def has_row_iff)
  with enroll_register_okD [OF r] ans t show ?thesis by blast
qed

section \<open>Registration\<close>

lemma find_peer: "distinct (map n_peer_id (nodes s)) \<Longrightarrow> n \<in> set (nodes s) \<Longrightarrow> n_peer_id n = p
    \<Longrightarrow> find (\<lambda>x. n_peer_id x = p) (nodes s) = Some n"
  by (rule find_key_unique)

text \<open>
  C8. A registration never takes a node over.  When the peer id is already registered to another
  organization, or is registered with a key that the request does not present, the registration is a
  conflict and nothing in the database changes.
\<close>

theorem registration_no_takeover:
  assumes "distinct (map n_peer_id (nodes s))" and "n \<in> set (nodes s)" and "n_peer_id n = nr_peer_id r"
    and "n_org_id n \<noteq> orgID \<or> (n_node_key n \<noteq> '''' \<and> n_node_key n \<noteq> TrimSpace (nr_node_key r))"
  shows "RegisterOrgNodeFromRuntime now uuid freshKey orgID tokenID r s = (Inl ErrConflict, s)"
proof -
  have f: "find (\<lambda>x. n_peer_id x = nr_peer_id r) (nodes s) = Some n" by (rule find_peer [OF assms(1-3)])
  have "agreed_key freshKey (TrimSpace (nr_node_key r)) (Some n) orgID = Inl ErrConflict"
    using assms(4) by (auto simp: agreed_key_def)
  then show ?thesis by (simp add: RegisterOrgNodeFromRuntime_def in_tx_def register_tx_def f)
qed

text \<open>
  A node whose organization is deleted can never be registered again: its runtime row stays
  without an organization, and every later registration of its peer id is a conflict.
\<close>

theorem orphaned_node_locked_out:
  assumes "distinct (map n_peer_id (nodes s))" and "n \<in> set (nodes s)" and "n_org_id n = gone" and "orgID \<noteq> ''''"
    and "nr_peer_id r = n_peer_id n"
  shows "RegisterOrgNodeFromRuntime now uuid freshKey orgID tokenID r (delete_org_cascade gone s)
    = (Inl ErrConflict, delete_org_cascade gone s)"
proof (rule registration_no_takeover)
  let ?s = "delete_org_cascade gone s"
  have "map n_peer_id (nodes ?s) = map n_peer_id (nodes s)"
    by (simp add: delete_org_cascade_def comp_def)
  with assms(1) show "distinct (map n_peer_id (nodes ?s))" by simp
  show "n\<lparr>n_org_id := ''''\<rparr> \<in> set (nodes ?s)"
    using assms(2,3) by (auto simp: delete_org_cascade_def unlink_def intro!: image_eqI [of _ _ n])
qed (use assms in simp_all)

section \<open>Registration tokens\<close>

text \<open>
  A registration token is good for what it was made for.  The plain text handed out resolves to
  the organization, peer and scopes it was created with, for each of its scopes and until its expiry,
  which is at most seven days away; after it, it resolves to nothing.
\<close>

theorem registration_token_roundtrip:
  assumes "CreateNodeRegistrationToken hash now newID (Some plain) orgID by peer scopes expiresAt s = (Inr (out, t), s')"
    and "TrimSpace plain = plain" and "plain \<noteq> ''''"
  shows "out = plain \<and> now < rt_expires_at t \<and> rt_expires_at t \<le> now + 7 * 24 * 3600
    \<and> LookupNodeRegistrationToken hash later s' plain scope =
      (if later \<le> rt_expires_at t \<and> (scope = '''' \<or> scope \<in> set scopes) then Inr (orgID, newID, peer, scopes)
       else Inl ErrNotFound)"
proof -
  from assms(1) have t: "out = plain" "s' = s\<lparr>node_registration_tokens := node_registration_tokens s @ [t]\<rparr>"
      "rt_token_hash t = hash plain" "rt_org_id t = orgID" "rt_id t = newID" "rt_peer_id t = peer" "rt_scopes t = scopes"
      "rt_revoked_at t = None" "now < rt_expires_at t" "rt_expires_at t \<le> now + maxRegistrationTokenTTL"
      and fresh: "\<not> has_row (\<lambda>r. rt_id r = newID \<or> rt_token_hash r = hash plain) (node_registration_tokens s)"
    by (auto simp: CreateNodeRegistrationToken_def Let_def maxRegistrationTokenTTL_def split: if_splits option.splits)
  from fresh have "find (\<lambda>r. rt_token_hash r = hash plain) (node_registration_tokens s) = None"
    by (auto simp: has_row_iff find_None_iff)
  with t(2,3) have f: "find (\<lambda>r. rt_token_hash r = hash plain) (node_registration_tokens s') = Some t"
    by (simp add: find_append)
  show ?thesis
    using t assms(2,3) f
    by (auto simp: LookupNodeRegistrationToken_def Let_def scopeAllowed_def list_ex_iff maxRegistrationTokenTTL_def)
qed

section \<open>Licenses\<close>

lemma first_row_in: "first_row (order_asc k t) = Some x \<Longrightarrow> x \<in> set t"
  by (auto simp: first_row_def order_asc_def split: list.splits)
    (metis list.set_intros(1) set_sort)

text \<open>
  Attaching a Sentinel license consumes exactly one: it was available to the organization, it is
  now attached to the node, one fewer is available, and no other license is touched.
\<close>

theorem license_attached_once:
  assumes "distinct (map sl_id (sentinel_licenses s))" and "AttachSentinelLicense now orgID nodeID s = (Inr l, s')"
  shows "has_row (\<lambda>x. sl_id x = sl_id l \<and> available orgID x) (sentinel_licenses s)
    \<and> sl_status l = SentinelLicenseAttached \<and> sl_node_id l = nodeID
    \<and> CountAvailableSentinelLicenses s' orgID = CountAvailableSentinelLicenses s orgID - 1
    \<and> filter (\<lambda>x. sl_id x \<noteq> sl_id l) (sentinel_licenses s') = filter (\<lambda>x. sl_id x \<noteq> sl_id l) (sentinel_licenses s)"
proof -
  from assms(2) obtain l0 where l0: "first_row (order_asc sl_created_at (filter (available orgID) (sentinel_licenses s))) = Some l0"
    and l: "l = l0\<lparr>sl_node_id := nodeID, sl_status := SentinelLicenseAttached, sl_updated_at := now\<rparr>"
    and s': "s' = s\<lparr>sentinel_licenses := upd_rows (\<lambda>r. sl_id r = sl_id l0)
        (\<lambda>l. l\<lparr>sl_node_id := nodeID, sl_status := SentinelLicenseAttached, sl_updated_at := now\<rparr>) (sentinel_licenses s)\<rparr>"
    by (auto simp: AttachSentinelLicense_def AttachSentinelLicense_tx_def Let_def dest!: in_tx_okD split: option.splits if_splits)
  have l0_in: "l0 \<in> set (sentinel_licenses s)" "available orgID l0" using first_row_in [OF l0] by auto
  have f: "find (\<lambda>r. sl_id r = sl_id l0) (sentinel_licenses s) = Some l0" by (rule find_key_unique [OF assms(1) l0_in(1) refl])
  have "CountAvailableSentinelLicenses s' orgID = CountAvailableSentinelLicenses s orgID - 1"
    unfolding CountAvailableSentinelLicenses_def row_count_total s'
    using total_upd_key [OF assms(1) f] l0_in(2) by (simp add: available_def)
  moreover have "filter (\<lambda>x. sl_id x \<noteq> sl_id l0) (sentinel_licenses s') = filter (\<lambda>x. sl_id x \<noteq> sl_id l0) (sentinel_licenses s)"
    unfolding s' by (simp add: filter_upd_other)
  ultimately show ?thesis using l l0_in by (auto simp: has_row_iff)
qed

section \<open>The liveness sweep\<close>

text \<open>
  The sweep leaves no stale node: after it every node that is not offline has reported within the
  window, so discovery of online nodes offers only such nodes; the control-plane status of nodes that
  are not held follows; and sweeping again at the same moment changes nothing.
\<close>

theorem sweep_leaves_no_stale_node:
  "case MarkStaleNodesOffline now within s of (k, s') \<Rightarrow>
     \<not> has_row (stale now within) (nodes s')
     \<and> list_all (\<lambda>n. \<not> stale now within n) (ListDiscoverableNodes s' ''online'' region zone tier)
     \<and> MarkStaleNodesOffline now within s' = (0, s')"
proof -
  define ns where "ns = upd_rows (stale now within) (\<lambda>n. n\<lparr>n_status := ''offline''\<rparr>) (nodes s)"
  let ?s1 = "s\<lparr>nodes := ns\<rparr>"
  let ?s' = "SyncAllOrgNodeStatusesFromRuntime now ?s1"
  have none: "\<forall>n\<in>set ns. \<not> stale now within n"
  proof -
    have "\<not> stale now within (if stale now within r then r\<lparr>n_status := ''offline''\<rparr> else r)" for r
      by (cases "stale now within r") (simp_all add: stale_def)
    then show ?thesis by (auto simp only: ns_def set_upd_rows)
  qed
  have nodes': "nodes ?s' = ns" by (simp add: SyncAllOrgNodeStatusesFromRuntime_def)
  have id: "upd_rows (stale now within) f ns = ns" for f by (rule upd_rows_id) (use none in blast)
  have "SyncAllOrgNodeStatusesFromRuntime now ?s' = ?s'"
    by (auto simp: SyncAllOrgNodeStatusesFromRuntime_def split: option.splits)
  then have "MarkStaleNodesOffline now within ?s' = (0, ?s')"
    using none by (simp add: MarkStaleNodesOffline_def nodes' id row_count_0) (simp add: SyncAllOrgNodeStatusesFromRuntime_def)
  moreover have "set (by_place t) = set t" for t by (simp add: by_place_def)
  then have "list_all (\<lambda>n. \<not> stale now within n) (ListDiscoverableNodes ?s' ''online'' region zone tier)"
    using none by (simp add: list_all_iff ListDiscoverableNodes_def nodes')
  ultimately show ?thesis
    using none by (simp add: MarkStaleNodesOffline_def ns_def [symmetric] nodes' has_row_iff)
qed

section \<open>Departures\<close>

text \<open>
  A heartbeat re-activates a disabled node.  Synchronisation from the runtime leaves a node that
  its organization disabled alone, but a heartbeat of that node makes it active again.
\<close>

theorem heartbeat_revives_disabled_node:
  assumes "x \<in> set (org_nodes s)" and "on_node_id x = peer" and "on_status x = OrgNodeStatusDisabled"
    and "load \<noteq> ''''" and "speedtest \<noteq> ''''"
  shows "x \<in> set (org_nodes (SyncOrgNodeStatusFromRuntime now peer ''online'' s))
    \<and> has_row (\<lambda>y. on_id y = on_id x \<and> on_status y = OrgNodeStatusActive)
        (org_nodes (snd (ApplyNodeHeartbeat now peer st load speedtest rx tx v s)))"
proof -
  have "x\<lparr>on_last_seen_at := Some now, on_status := ''active'', on_updated_at := now\<rparr>
      \<in> set (org_nodes (snd (ApplyNodeHeartbeat now peer st load speedtest rx tx v s)))"
    using assms by (auto simp: ApplyNodeHeartbeat_def ApplyHeartbeat_def TouchOrgNodeHeartbeat_def set_upd_rows)
  moreover have "x \<in> set (org_nodes (SyncOrgNodeStatusFromRuntime now peer ''online'' s))"
    using assms by (auto simp: SyncOrgNodeStatusFromRuntime_def held_status_def set_upd_rows)
  ultimately show ?thesis 
    by (auto simp: has_row_iff
        intro: bexI [of _ "x\<lparr>on_last_seen_at := Some now, on_status := ''active'', on_updated_at := now\<rparr>"])
qed

section \<open>A small world\<close>

text \<open>One organization on the Basic plan with its owner, a registration token and a challenge for peer \<open>p1\<close>.\<close>

definition reg_token :: registration_token where
  "reg_token = \<lparr>rt_id = ''t1'', rt_org_id = ''o1'', rt_token_hash = ''secret'', rt_peer_id = ''p1'',
     rt_scopes = [TokenScopeNodeRegistration], rt_expires_at = 1000, rt_created_by = ''u1'', rt_used_at = None,
     rt_revoked_at = None, rt_created_at = 0\<rparr>"

definition reg_flow :: flow_id where
  "reg_flow = \<lparr>fl_flow_id = ''f1'', fl_wallet_address = ''p1'', fl_chain = ''o1'', fl_created_at = 0, fl_expires_at = 600\<rparr>"

definition reg_license :: sentinel_license where
  "reg_license = \<lparr>sl_id = ''l1'', sl_org_id = ''o1'', sl_node_id = '''', sl_status = SentinelLicenseAvailable,
     sl_source = ''included'', sl_created_at = 0, sl_updated_at = 0\<rparr>"

definition reg_node :: "string \<Rightarrow> org_node" where
  "reg_node p = \<lparr>on_id = p, on_org_id = ''o1'', on_node_id = p, on_node_name = '''',
     on_deployment_profile = DeploymentProfileSentinel, on_node_type = OrgNodeTypeBYOC,
     on_visibility = OrgNodeVisibilityPrivateOrg, on_managed_by = OrgNodeManagedByOrg, on_region = '''', on_zone = '''',
     on_status = OrgNodeStatusDisabled, on_api_public_url = '''', on_last_seen_at = None, on_created_by = '''',
     on_created_at = 0, on_updated_at = 0\<rparr>"

definition reg_world :: db where
  "reg_world = empty_db\<lparr>
     users := [\<lparr>us_id = ''u1'', us_wallet_address = '''', us_chain = '''', us_role = ''user'', us_email = '''',
        us_email_verified = False, us_name = '''', us_profile_picture = '''', us_xp_earned = 0, us_xp_claimed = 0,
        us_tier = 0, us_referral_code = '''', us_referred_by = '''', us_created_at = 0\<rparr>],
     orgs := [\<lparr>o_id = ''o1'', o_name = '''', o_slug = ''o'', o_plan = OrgPlanBasic, o_billing_status = OrgBillingActive,
        o_verification_status = '''', o_public_profile_enabled = False, o_owner_user_id = ''u1'',
        o_created_at = 0, o_updated_at = 0\<rparr>],
     org_entitlements := [\<lparr>oe_org_id = ''o1'', oe_plan = OrgPlanBasic, oe_paid_seats_included = 0,
        oe_managed_vpn_nodes_included = 0, oe_shield_instances_included = 0, oe_sentinel_licenses_included = 0,
        oe_public_node_access_tier = '''', oe_support_tier = '''', oe_audit_logs_enabled = False,
        oe_advanced_analytics_enabled = False\<rparr>],
     org_members := [\<lparr>m_id = ''m1'', m_org_id = ''o1'', m_user_id = ''u1'', m_role = OrgRoleOwner,
        m_seat_tier = SeatTierFree, m_status = MemberStatusActive, m_created_at = 0, m_updated_at = 0\<rparr>],
     node_registration_tokens := [reg_token], flow_ids := [reg_flow]\<rparr>"

definition reg_env :: enroll_env where
  "reg_env = \<lparr>ee_hash = (\<lambda>x. x), ee_wallet = \<lparr>wl_recover = (\<lambda>_ _. None), wl_base58 = (\<lambda>s. Some (replicate 32 CHR ''k'')),
     wl_ed25519 = (\<lambda>_ _ _. True)\<rparr>, ee_issue_node = (\<lambda>p. Some (''tok'' @ p))\<rparr>"

definition reg_uuid :: "db \<Rightarrow> id" where
  "reg_uuid s = dec_nat (length (nodes s) + length (org_nodes s) + length (org_node_services s))"

definition reg_req :: register_req where
  "reg_req = \<lparr>rr_registration_token = '' secret '', rr_peer_id = ''p1'', rr_flow_id = ''f1'', rr_signature = ''00'',
     rr_public_key = ''w'', rr_wallet_address = ''w'', rr_chain = ''SOL'', rr_did = ''d'', rr_name = '''', rr_region = '''',
     rr_zone = '''', rr_api_base_url = '''', rr_node_key = ''key'', rr_access_mode = '''',
     rr_deployment_profile = ''shield''\<rparr>"

text \<open>The world after the node has enrolled.\<close>

definition reg_service :: "id \<Rightarrow> string \<Rightarrow> string \<Rightarrow> string \<Rightarrow> string \<Rightarrow> org_node_service" where
  "reg_service i ty name provider vis = \<lparr>sv_id = i, sv_org_id = ''o1'', sv_node_id = ''p1'', sv_service_type = ty,
     sv_service_name = name, sv_service_provider = provider, sv_service_status = ServiceStatusActive,
     sv_visibility = vis, sv_config_ref = '''', sv_access_url = '''', sv_license_id = '''', sv_created_by = '''',
     sv_created_at = 5, sv_updated_at = 5\<rparr>"

definition reg_done :: db where
  "reg_done = reg_world\<lparr>
     nodes := [(new_node 5 ''0'' ''p1'' ''d'')\<lparr>n_wallet_address := ''w'', n_chain := ''SOLANA'', n_org_id := ''o1'',
        n_node_key := ''key'', n_deployment_profile := DeploymentProfileShield\<rparr>],
     org_nodes := [(reg_node ''p1'')\<lparr>on_id := ''1'', on_deployment_profile := DeploymentProfileShield,
        on_node_type := OrgNodeTypePublic, on_visibility := OrgNodeVisibilityPublicNetwork,
        on_status := OrgNodeStatusActive, on_created_at := 5, on_updated_at := 5\<rparr>],
     org_node_services := [reg_service ''2'' ServiceTypeVPN ServiceNameErebrus ServiceProviderWireguard ServiceVisibilityOrgOnly,
        reg_service ''3'' ServiceTypeCommunityFirewall ServiceNameErebrusShield ServiceProviderAdGuardHome ServiceVisibilityVPNOnly],
     node_registration_tokens := [reg_token\<lparr>rt_used_at := Some 5\<rparr>], flow_ids := []\<rparr>"

lemma reg_done_ok: "handleNodeRegister reg_env 5 ''f2'' reg_uuid None (Some reg_req) reg_world
    = (Ok 200 (Enrolled ''tokp1'' ''p1'' ''key''), reg_done)"
  by code_simp

theorem enrollment_authentic_witness:
  "ee_issue_node reg_env ''p1'' = Some ''tokp1''
   \<and> (\<exists>t f. t \<in> set (node_registration_tokens reg_world) \<and> valid_token (ee_hash reg_env) 5 reg_req t
         \<and> f \<in> set (flow_ids reg_world) \<and> answers_challenge (ee_wallet reg_env) 5 (rt_org_id t) reg_req f)
   \<and> \<not> has_row (\<lambda>f. fl_flow_id f = rr_flow_id reg_req) (flow_ids reg_done)"
  using enrollment_authentic [OF reg_done_ok] by blast

text \<open>
  A plan's limit on Shield instances does not bind registration: a node that registers with the
  \<open>shield\<close> profile gets the active service in an organization whose plan includes none, which the API
  for attaching that service refuses.
\<close>

theorem shield_profile_bypasses_plan:
  "GetOrgEntitlements reg_done ''o1'' = GetOrgEntitlements reg_world ''o1''
   \<and> CountShieldInstancesUsed reg_done ''o1'' = 1
   \<and> (case GetOrgEntitlements reg_done ''o1'' of Inr e \<Rightarrow> oe_shield_instances_included e = 0 | Inl _ \<Rightarrow> False)
   \<and> ValidateServiceEntitlement reg_done ''o1'' ''p1'' ServiceTypeCommunityFirewall
      = Some (ErrMsg ''plan does not include Shield instances'')"
  by (intro conjI; code_simp)

definition reg_node_reg :: "string \<Rightarrow> node_registration" where
  "reg_node_reg k = \<lparr>nr_peer_id = ''p1'', nr_did = ''d'', nr_wallet = '''', nr_chain = '''', nr_name = '''',
     nr_region = '''', nr_zone = '''', nr_api_base_url = '''', nr_node_key = k, nr_access_mode = '''', nr_deployment_profile = ''''\<rparr>"

theorem registration_no_takeover_witness:
  "RegisterOrgNodeFromRuntime 6 reg_uuid None ''o1'' ''t1'' (reg_node_reg ''guess'') reg_done = (Inl ErrConflict, reg_done)"
proof (rule registration_no_takeover)
  show "distinct (map n_peer_id (nodes reg_done))" by code_simp
  show "hd (nodes reg_done) \<in> set (nodes reg_done)" by code_simp
  show "n_peer_id (hd (nodes reg_done)) = nr_peer_id (reg_node_reg ''guess'')" by code_simp
  show "n_org_id (hd (nodes reg_done)) \<noteq> ''o1'' \<or> (n_node_key (hd (nodes reg_done)) \<noteq> ''''
      \<and> n_node_key (hd (nodes reg_done)) \<noteq> TrimSpace (nr_node_key (reg_node_reg ''guess'')))" by code_simp
qed

theorem orphaned_node_locked_out_witness:
  "RegisterOrgNodeFromRuntime 6 reg_uuid None ''o2'' ''t2'' (reg_node_reg ''key'') (delete_org_cascade ''o1'' reg_done)
     = (Inl ErrConflict, delete_org_cascade ''o1'' reg_done)"
proof (rule orphaned_node_locked_out)
  show "distinct (map n_peer_id (nodes reg_done))" by code_simp
  show "hd (nodes reg_done) \<in> set (nodes reg_done)" by code_simp
  show "n_org_id (hd (nodes reg_done)) = ''o1''" "''o2'' \<noteq> ''''" by code_simp+
  show "nr_peer_id (reg_node_reg ''key'') = n_peer_id (hd (nodes reg_done))" by code_simp
qed

definition made_token :: registration_token where
  "made_token = \<lparr>rt_id = ''t9'', rt_org_id = ''o1'', rt_token_hash = ''plain'', rt_peer_id = '''',
     rt_scopes = [TokenScopeServiceSetup], rt_expires_at = 604805, rt_created_by = ''u1'', rt_used_at = None,
     rt_revoked_at = None, rt_created_at = 5\<rparr>"

definition reg_created :: db where
  "reg_created = reg_world\<lparr>node_registration_tokens := [reg_token, made_token]\<rparr>"

theorem registration_token_roundtrip_witness:
  "LookupNodeRegistrationToken (\<lambda>x. x) 9 reg_created ''plain'' TokenScopeServiceSetup
     = Inr (''o1'', ''t9'', '''', [TokenScopeServiceSetup])
   \<and> LookupNodeRegistrationToken (\<lambda>x. x) 700000 reg_created ''plain'' TokenScopeServiceSetup = Inl ErrNotFound"
proof -
  have ok: "CreateNodeRegistrationToken (\<lambda>x. x) 5 ''t9'' (Some ''plain'') ''o1'' ''u1'' '''' [TokenScopeServiceSetup]
      5000000 reg_world = (Inr (''plain'', made_token), reg_created)" by code_simp
  have tr: "TrimSpace ''plain'' = ''plain''" "''plain'' \<noteq> ''''" by code_simp+
  have e: "rt_expires_at made_token = 604805" by (simp add: made_token_def)
  show ?thesis
    using registration_token_roundtrip [OF ok tr, of 9 TokenScopeServiceSetup]
      registration_token_roundtrip [OF ok tr, of 700000 TokenScopeServiceSetup] unfolding e by simp
qed

definition lic_world :: db where
  "lic_world = reg_world\<lparr>org_nodes := [reg_node ''p1'', reg_node ''p2''], sentinel_licenses := [reg_license]\<rparr>"

theorem license_attached_once_witness:
  "\<exists>l s'. AttachSentinelLicense 7 ''o1'' ''p1'' lic_world = (Inr l, s') \<and> sl_node_id l = ''p1''
     \<and> CountAvailableSentinelLicenses s' ''o1'' = CountAvailableSentinelLicenses lic_world ''o1'' - 1"
proof -
  let ?l = "reg_license\<lparr>sl_node_id := ''p1'', sl_status := SentinelLicenseAttached, sl_updated_at := 7\<rparr>"
  let ?r = "AttachSentinelLicense 7 ''o1'' ''p1'' lic_world"
  have d: "distinct (map sl_id (sentinel_licenses lic_world))" by code_simp
  have ok: "?r = (Inr ?l, snd ?r)" by code_simp
  show ?thesis using license_attached_once [OF d ok] ok by blast
qed

theorem heartbeat_revives_disabled_node_witness:
  "has_row (\<lambda>y. on_id y = ''p1'' \<and> on_status y = OrgNodeStatusActive)
     (org_nodes (snd (ApplyNodeHeartbeat 7 ''p1'' ''online'' ''{}'' ''{}'' 0 0 '''' lic_world)))"
proof -
  have "reg_node ''p1'' \<in> set (org_nodes lic_world)" by (simp add: lic_world_def)
  from heartbeat_revives_disabled_node [OF this, of "''p1''" "''{}''" "''{}''" 7 "''online''" 0 0 "''''"]
  show ?thesis by (simp add: reg_node_def)
qed

definition sentinel_attach :: attach_input where
  "sentinel_attach = sentinel_input '''' ''''"

definition attached1 :: db where
  "attached1 = snd (handleAttachOrgNodeService 7 ''v1'' \<lparr>cl_user_id = ''u1'', cl_role = ''user''\<rparr> ''o1'' ''p1'' (Some sentinel_attach) lic_world)"

text \<open>
  Attaching Sentinel through the API consumes no license: with a single license an operator
  attaches the service to two nodes, both active, and the license is still available.
\<close>

theorem attach_api_consumes_no_license:
  "case handleAttachOrgNodeService 8 ''v2'' \<lparr>cl_user_id = ''u1'', cl_role = ''user''\<rparr> ''o1'' ''p2'' (Some sentinel_attach) attached1 of
     (r, s') \<Rightarrow> (case r of Ok st v \<Rightarrow> st = 201 \<and> sv_license_id v = '''' | _ \<Rightarrow> False)
       \<and> map (\<lambda>v. (sv_node_id v, sv_service_type v, sv_service_status v)) (org_node_services s')
          = [(''p1'', ServiceTypeErebrusFirewall, ServiceStatusActive), (''p2'', ServiceTypeErebrusFirewall, ServiceStatusActive)]
       \<and> CountAvailableSentinelLicenses s' ''o1'' = 1"
  by code_simp

end
