(* ===== verification/Vpn.thy ===== *)
theory Vpn
  imports NodeApi Complex_Main
begin

text \<open>
  VPN clients: \<open>internal/store/clients.go\<close>, \<open>OrgClients\<close>, \<open>UserXP\<close>, the node client
  \<open>internal/nodeclient/client.go\<close>, the admission gate of \<open>internal/api/nodes.go\<close> and the provisioning handlers
  of \<open>internal/api/vpn.go\<close> and \<open>orgs.go\<close>.

  The transport to a node is a parameter indexed by the attempt.  Load figures and thresholds are
  rationals (Go: \<open>float64\<close>).  \<open>during\<close> is what other requests do while a node is called.
\<close>

section \<open>Client rows\<close>

abbreviation live_device :: "id \<Rightarrow> id \<Rightarrow> string \<Rightarrow> client \<Rightarrow> bool" where
  "live_device userID nodeID wgPub c \<equiv> wc_user_id c = userID \<and> wc_node_id c = nodeID \<and> wc_wg_public_key c = wgPub"

definition FindClientByUserNodeWGKey :: "db \<Rightarrow> id \<Rightarrow> id \<Rightarrow> string \<Rightarrow> client res" where
  "FindClientByUserNodeWGKey s userID nodeID wgPub =
    (case first_row (order_desc wc_created_at
        (filter (\<lambda>c. live_device userID nodeID wgPub c \<and> wc_status c \<noteq> ''deleting'') (vpn_clients s))) of
       None \<Rightarrow> Inl ErrNotFound | Some c \<Rightarrow> Inr c)"

text \<open>\<open>DELETE FROM vpn_clients WHERE p\<close>: the daily usage rows go with their client.\<close>

definition delete_clients :: "(client \<Rightarrow> bool) \<Rightarrow> db \<Rightarrow> db" where
  "delete_clients p s = s\<lparr>vpn_clients := del_rows p (vpn_clients s),
     usage_daily := del_rows (\<lambda>d. has_row (\<lambda>c. p c \<and> wc_id c = ud_client_id d) (vpn_clients s)) (usage_daily s)\<rparr>"

definition DeletePendingClientsByUserNodeWGKey :: "id \<Rightarrow> id \<Rightarrow> string \<Rightarrow> id \<Rightarrow> db \<Rightarrow> db" where
  "DeletePendingClientsByUserNodeWGKey userID nodeID wgPub keepID s =
     delete_clients (\<lambda>c. live_device userID nodeID wgPub c \<and> wc_status c = ''pending'' \<and> wc_id c \<noteq> keepID) s"

definition CreateClient :: "time \<Rightarrow> id \<Rightarrow> id \<Rightarrow> string \<Rightarrow> id \<Rightarrow> string \<Rightarrow> string \<Rightarrow> db \<Rightarrow> id res \<times> db" where
  "CreateClient now newID userID orgID nodeID name wgPub s =
    (if has_row (\<lambda>c. wc_id c = newID) (vpn_clients s) then (Inl unique_violation, s)
     else if \<not> fk_user s userID \<or> \<not> fk_org_null s orgID \<or> \<not> has_row (\<lambda>n. n_id n = nodeID) (nodes s)
     then (Inl foreign_key_violation, s)
     else (Inr newID, s\<lparr>vpn_clients := vpn_clients s @ [\<lparr>wc_id = newID, wc_user_id = userID, wc_org_id = orgID,
            wc_node_id = nodeID, wc_name = name, wc_wg_public_key = wgPub, wc_wg_allowed_ip = '''',
            wc_status = ''pending'', wc_rx_bytes = 0, wc_tx_bytes = 0, wc_last_handshake = None,
            wc_created_at = now\<rparr>]\<rparr>))"

definition SetClientActive :: "id \<Rightarrow> string \<Rightarrow> db \<Rightarrow> db" where
  "SetClientActive cid allowedIP s = s\<lparr>vpn_clients := upd_rows (\<lambda>c. wc_id c = cid)
     (\<lambda>c. c\<lparr>wc_status := ''active'', wc_wg_allowed_ip := allowedIP\<rparr>) (vpn_clients s)\<rparr>"

definition GetClient :: "db \<Rightarrow> id \<Rightarrow> client res" where
  "GetClient s cid = (case find (\<lambda>c. wc_id c = cid) (vpn_clients s) of None \<Rightarrow> Inl ErrNotFound | Some c \<Rightarrow> Inr c)"

definition ListClientsByUser :: "db \<Rightarrow> id \<Rightarrow> client list" where
  "ListClientsByUser s userID = order_desc wc_created_at (filter (\<lambda>c. wc_user_id c = userID) (vpn_clients s))"

definition OrgClients :: "db \<Rightarrow> id \<Rightarrow> client list" where
  "OrgClients s orgID = order_desc wc_created_at (filter (\<lambda>c. wc_org_id c = orgID) (vpn_clients s))"

definition CountActiveClientsByUser :: "db \<Rightarrow> id \<Rightarrow> int" where
  "CountActiveClientsByUser s userID = row_count (\<lambda>c. wc_user_id c = userID \<and> wc_status c \<noteq> ''deleting'') (vpn_clients s)"

definition DeleteClient :: "id \<Rightarrow> db \<Rightarrow> db" where
  "DeleteClient cid s = delete_clients (\<lambda>c. wc_id c = cid) s"

subsection \<open>Metering\<close>

text \<open>\<open>current_date\<close> is the day number of \<open>now\<close>; the counters are \<open>bigint\<close> columns.\<close>

definition day_of :: "time \<Rightarrow> int" where "day_of now = now div 86400"

definition handshake_max :: "time \<Rightarrow> time option \<Rightarrow> time option" where
  "handshake_max t old = (case old of None \<Rightarrow> Some t | Some u \<Rightarrow> Some (max u t))"

definition add_daily :: "time \<Rightarrow> id \<Rightarrow> int \<Rightarrow> int \<Rightarrow> db \<Rightarrow> unit res \<times> db" where
  "add_daily now cid rx tx s =
    (let p = (\<lambda>d. ud_client_id d = cid \<and> ud_day d = day_of now)
     in case find p (usage_daily s) of
          None \<Rightarrow> (Inr (), s\<lparr>usage_daily := usage_daily s @
             [\<lparr>ud_client_id = cid, ud_day = day_of now, ud_rx_bytes = rx, ud_tx_bytes = tx\<rparr>]\<rparr>)
        | Some d \<Rightarrow>
            if \<not> in_i64 (ud_rx_bytes d + rx) \<or> \<not> in_i64 (ud_tx_bytes d + tx) then (Inl out_of_range, s)
            else (Inr (), s\<lparr>usage_daily := upd_rows p
               (\<lambda>d. d\<lparr>ud_rx_bytes := ud_rx_bytes d + rx, ud_tx_bytes := ud_tx_bytes d + tx\<rparr>) (usage_daily s)\<rparr>))"

definition AddUsage_tx :: "time \<Rightarrow> id \<Rightarrow> int \<Rightarrow> int \<Rightarrow> time \<Rightarrow> db \<Rightarrow> unit res \<times> db" where
  "AddUsage_tx now cid rx tx lastHandshake s =
    (case find (\<lambda>c. wc_id c = cid) (vpn_clients s) of None \<Rightarrow> (Inr (), s)
     | Some c \<Rightarrow>
       if \<not> in_i64 (wc_rx_bytes c + rx) \<or> \<not> in_i64 (wc_tx_bytes c + tx) then (Inl out_of_range, s)
       else
        (let s = s\<lparr>vpn_clients := upd_rows (\<lambda>c. wc_id c = cid)
               (\<lambda>c. c\<lparr>wc_rx_bytes := wc_rx_bytes c + rx, wc_tx_bytes := wc_tx_bytes c + tx,
                     wc_last_handshake := (if lastHandshake > 0 then Some lastHandshake else wc_last_handshake c)\<rparr>)
               (vpn_clients s)\<rparr>
         in seq (add_daily now cid rx tx s) (\<lambda>_ s.
              (Inr (), if lastHandshake > 0 then s\<lparr>nodes := upd_rows (\<lambda>n. n_id n = wc_node_id c)
                    (\<lambda>n. n\<lparr>n_last_peer_handshake := handshake_max lastHandshake (n_last_peer_handshake n)\<rparr>) (nodes s)\<rparr>
                 else s))))"

definition AddUsage :: "time \<Rightarrow> id \<Rightarrow> int \<Rightarrow> int \<Rightarrow> time \<Rightarrow> db \<Rightarrow> unit res \<times> db" where
  "AddUsage now cid rxDelta txDelta lastHandshake s =
    in_tx (AddUsage_tx now cid (if rxDelta < 0 then 0 else rxDelta) (if txDelta < 0 then 0 else txDelta) lastHandshake) s"

definition UserBandwidth :: "db \<Rightarrow> id \<Rightarrow> int \<Rightarrow> int \<times> int" where
  "UserBandwidth s userID since =
    (let ds = [d. d \<leftarrow> usage_daily s, c \<leftarrow> vpn_clients s, wc_id c = ud_client_id d, wc_user_id c = userID, ud_day d \<ge> since]
     in (total_of ud_rx_bytes ds, total_of ud_tx_bytes ds))"

definition TotalBandwidth :: "db \<Rightarrow> int \<Rightarrow> int \<times> int" where
  "TotalBandwidth s since =
    (let ds = filter (\<lambda>d. ud_day d \<ge> since) (usage_daily s) in (total_of ud_rx_bytes ds, total_of ud_tx_bytes ds))"

definition UserXP :: "db \<Rightarrow> id \<Rightarrow> (int \<times> int \<times> int) res" where
  "UserXP s userID =
    (case find (\<lambda>u. us_id u = userID) (users s) of None \<Rightarrow> Inl ErrNotFound
     | Some u \<Rightarrow> Inr (us_xp_earned u, us_xp_claimed u, us_tier u))"

section \<open>The node client\<close>

record peer_request =
  pr_name :: string
  pr_wg_public_key :: string
  pr_wg_preshared_key :: string

record peer_bundle =
  bu_raw :: string
  bu_wg_address :: string

text \<open>
  \<open>nc_do\<close> is one request: attempt, method, URL, token, node key and body, giving a transport
  error or the status and the first \<open>1<<20\<close> bytes of the answer; \<open>nc_address\<close> reads \<open>wireguard.address\<close>
  out of an answer and \<open>nc_encode\<close> writes a request.
\<close>

record node_client =
  nc_do :: "nat \<Rightarrow> string \<Rightarrow> string \<Rightarrow> string \<Rightarrow> string \<Rightarrow> string \<Rightarrow> string + int \<times> string"
  nc_address :: "string \<Rightarrow> string"
  nc_encode :: "peer_request \<Rightarrow> string"

definition peer_url :: "string \<Rightarrow> id \<Rightarrow> string" where
  "peer_url baseURL peerID = trim_slashes baseURL @ ''/api/v2/peers/'' @ peerID"

definition good_status :: "int \<Rightarrow> bool" where "good_status st \<longleftrightarrow> \<not> (st < 200 \<or> st \<ge> 300)"

text \<open>The attempts left; a transport error is retried, any answer ends the loop.\<close>

fun upsert_attempts :: "node_client \<Rightarrow> string \<Rightarrow> string \<Rightarrow> string \<Rightarrow> string \<Rightarrow> nat \<Rightarrow> nat \<Rightarrow> peer_bundle option" where
  "upsert_attempts nc url tok nodeKey body attempt 0 = None"
| "upsert_attempts nc url tok nodeKey body attempt (Suc left) =
    (case nc_do nc attempt ''PUT'' url tok nodeKey body of
       Inl _ \<Rightarrow> upsert_attempts nc url tok nodeKey body (Suc attempt) left
     | Inr (st, raw) \<Rightarrow>
         if \<not> good_status st then None else Some \<lparr>bu_raw = raw, bu_wg_address = nc_address nc raw\<rparr>)"

definition UpsertPeer :: "node_client \<Rightarrow> string \<Rightarrow> string \<Rightarrow> string \<Rightarrow> id \<Rightarrow> peer_request \<Rightarrow> peer_bundle option" where
  "UpsertPeer nc baseURL tok nodeKey peerID req =
     upsert_attempts nc (peer_url baseURL peerID) tok nodeKey (nc_encode nc req) 0 3"

definition Credentials :: "node_client \<Rightarrow> string \<Rightarrow> string \<Rightarrow> string \<Rightarrow> id \<Rightarrow> string option" where
  "Credentials nc baseURL tok nodeKey peerID =
    (case nc_do nc 0 ''GET'' (peer_url baseURL peerID @ ''/credentials'') tok nodeKey '''' of
       Inl _ \<Rightarrow> None | Inr (st, raw) \<Rightarrow> if good_status st then Some raw else None)"

definition DeletePeer :: "node_client \<Rightarrow> string \<Rightarrow> string \<Rightarrow> string \<Rightarrow> id \<Rightarrow> bool" where
  "DeletePeer nc baseURL tok nodeKey peerID =
    (case nc_do nc 0 ''DELETE'' (peer_url baseURL peerID) tok nodeKey '''' of
       Inl _ \<Rightarrow> False | Inr (st, _) \<Rightarrow> st = 404 \<or> good_status st)"

section \<open>Admission\<close>

record platform =
  pv_node_cpu_max :: rat
  pv_node_cpu_soft :: rat
  pv_node_peer_ratio_max :: rat
  pv_node_peer_connected_soft :: int

record parsed_load =
  pl_cpu_pct :: rat
  pl_registered :: int
  pl_connected :: int

text \<open>The decoded load JSON: \<open>cpu_pct\<close>, the two peer counts and the legacy \<open>wg_peers\<close>.\<close>

definition parseLoad :: "(string \<Rightarrow> (rat \<times> int \<times> int \<times> int) option) \<Rightarrow> string \<Rightarrow> parsed_load" where
  "parseLoad decode load =
    (if load = '''' then \<lparr>pl_cpu_pct = 0, pl_registered = 0, pl_connected = 0\<rparr>
     else case decode load of None \<Rightarrow> \<lparr>pl_cpu_pct = 0, pl_registered = 0, pl_connected = 0\<rparr>
     | Some (cpu, registered, conn, legacy) \<Rightarrow>
        \<lparr>pl_cpu_pct = cpu, pl_registered = (if registered = 0 \<and> legacy > 0 then legacy else registered),
         pl_connected = conn\<rparr>)"

definition acceptingClients :: "platform \<Rightarrow> int \<Rightarrow> int \<Rightarrow> rat \<Rightarrow> bool" where
  "acceptingClients cfg registered conn cpuPct =
    (if cpuPct > pv_node_cpu_max cfg then False
     else if registered > 0 \<and> of_int conn / of_int registered \<ge> pv_node_peer_ratio_max cfg then False
     else if cpuPct > pv_node_cpu_soft cfg \<and> conn \<ge> pv_node_peer_connected_soft cfg then False
     else True)"

section \<open>Provisioning\<close>

record vpn_env =
  ve_client :: node_client
  ve_token :: "string \<Rightarrow> string \<Rightarrow> string option"
  ve_platform :: platform
  ve_load :: "string \<Rightarrow> (rat \<times> int \<times> int \<times> int) option"

record provision_req =
  vp_name :: string
  vp_node_id :: string
  vp_wg_public_key :: string
  vp_wg_preshared_key :: string

definition nodeAPICandidates :: "string \<Rightarrow> string list" where
  "nodeAPICandidates baseURL = (let u = trim_slashes (TrimSpace baseURL) in if u = '''' then [] else [u])"

fun upsert_candidates :: "node_client \<Rightarrow> string list \<Rightarrow> string \<Rightarrow> string \<Rightarrow> id \<Rightarrow> peer_request \<Rightarrow> peer_bundle option" where
  "upsert_candidates nc [] tok nodeKey clientID req = None"
| "upsert_candidates nc (u # us) tok nodeKey clientID req =
    (case UpsertPeer nc u tok nodeKey clientID req of Some b \<Rightarrow> Some b
     | None \<Rightarrow> upsert_candidates nc us tok nodeKey clientID req)"

definition upsertPeerWithFallback :: "node_client \<Rightarrow> string \<Rightarrow> string \<Rightarrow> string \<Rightarrow> id \<Rightarrow> peer_request \<Rightarrow> peer_bundle option" where
  "upsertPeerWithFallback nc baseURL tok nodeKey clientID req =
     upsert_candidates nc (nodeAPICandidates baseURL) tok nodeKey clientID req"

definition em_dash :: string where
  "em_dash = [char_of (226::nat), char_of (128::nat), char_of (148::nat)]"

text \<open>The client row to provision: the one this device already has on the node, or a new pending one.\<close>

definition client_for :: "vpn_env \<Rightarrow> time \<Rightarrow> id \<Rightarrow> id \<Rightarrow> string \<Rightarrow> node \<Rightarrow> string \<Rightarrow> string \<Rightarrow> db \<Rightarrow> (failure + id) \<times> db" where
  "client_for env now newID uid org n name wgPub s =
    (case FindClientByUserNodeWGKey s uid (n_id n) wgPub of
       Inr c \<Rightarrow> (Inr (wc_id c), DeletePendingClientsByUserNodeWGKey uid (n_id n) wgPub (wc_id c) s)
     | Inl _ \<Rightarrow>
       (let load = parseLoad (ve_load env) (n_load n)
        in if \<not> acceptingClients (ve_platform env) (pl_registered load) (pl_connected load) (pl_cpu_pct load)
           then (Inl (503, ''node is at capacity '' @ em_dash @ '' try another node''), s)
           else (case CreateClient now newID uid org (n_id n) name wgPub s of
              (Inl _, s) \<Rightarrow> (Inl (500, ''failed to create client''), s)
            | (Inr cid, s) \<Rightarrow> (Inr cid, s))))"

definition provision_on_node :: "vpn_env \<Rightarrow> (db \<Rightarrow> db) \<Rightarrow> node \<Rightarrow> string \<Rightarrow> string \<Rightarrow> id \<Rightarrow> peer_request \<Rightarrow> db \<Rightarrow> string resp \<times> db" where
  "provision_on_node env during n baseURL nodeKey clientID req s =
    (case ve_token env (n_peer_id n) ''peer_upsert'' of None \<Rightarrow> (Fail 500 ''failed to sign gateway call'', s)
     | Some tok \<Rightarrow>
       (case upsertPeerWithFallback (ve_client env) baseURL tok nodeKey clientID req of
          None \<Rightarrow> (Fail 502 (''node unreachable '' @ em_dash @ '' no client created''), DeleteClient clientID (during s))
        | Some b \<Rightarrow> (Ok 201 (bu_raw b), SetClientActive clientID (bu_wg_address b) (during s))))"

definition doProvision :: "vpn_env \<Rightarrow> (db \<Rightarrow> db) \<Rightarrow> time \<Rightarrow> id \<Rightarrow> id \<Rightarrow> string \<Rightarrow> string \<Rightarrow> provision_req \<Rightarrow> db \<Rightarrow> string resp \<times> db" where
  "doProvision env during now newID uid org nodeID req s =
    (case GetNode s nodeID of
       Inl e \<Rightarrow> (if e = ErrNotFound then Fail 404 ''node not found'' else Fail 500 ''failed to resolve node'', s)
     | Inr n \<Rightarrow>
       (case NodeAPI s (n_peer_id n) of
          Inl e \<Rightarrow> (if e = ErrNotFound then Fail 404 ''node not found'' else Fail 500 ''failed to resolve node'', s)
        | Inr (baseURL, nodeKey, status) \<Rightarrow>
          if status = ''draining'' then (Fail 409 ''node is draining'', s)
          else if baseURL = '''' then (Fail 502 ''node has no reachable API endpoint'', s)
          else (case client_for env now newID uid org n (vp_name req) (vp_wg_public_key req) s of
             (Inl f, s) \<Rightarrow> (refuse f, s)
           | (Inr clientID, s) \<Rightarrow>
               provision_on_node env during n baseURL nodeKey clientID
                 \<lparr>pr_name = vp_name req, pr_wg_public_key = vp_wg_public_key req,
                  pr_wg_preshared_key = vp_wg_preshared_key req\<rparr> s)))"

definition complete_req :: "provision_req \<Rightarrow> bool" where
  "complete_req req \<longleftrightarrow> \<not> (vp_name req = '''' \<or> vp_node_id req = '''' \<or> vp_wg_public_key req = '''')"

text \<open>The entitlement check of a user's request: private nodes for members, public ones for holders of an
  active membership.\<close>

definition node_entitlement :: "caller \<Rightarrow> node \<Rightarrow> db \<Rightarrow> failure option" where
  "node_entitlement cl n s =
    (if cl_role cl = ''admin'' then None
     else if n_access_mode n = NodeAccessPrivate then
       (case UserCanProvisionNode s (n_peer_id n) (cl_user_id cl) of Inl _ \<Rightarrow> Some (500, ''node access check failed'')
        | Inr allowed \<Rightarrow> if \<not> allowed then Some (403, ''private node '' @ em_dash @ '' org membership required'') else None)
     else if UserOrgVPNPlan s (cl_user_id cl) = ''''
     then Some (402, ''active organization membership is required to use public nodes'') else None)"

definition callerTierOf :: "db \<Rightarrow> id \<Rightarrow> int" where
  "callerTierOf s uid = (case UserXP s uid of Inl _ \<Rightarrow> 0 | Inr (_, _, tier) \<Rightarrow> tier)"

definition handleProvisionClient :: "vpn_env \<Rightarrow> (db \<Rightarrow> db) \<Rightarrow> time \<Rightarrow> id \<Rightarrow> caller \<Rightarrow> provision_req option \<Rightarrow> db \<Rightarrow> string resp \<times> db" where
  "handleProvisionClient env during now newID cl body s =
    (case body of None \<Rightarrow> (Fail 400 ''name, node_id and wg_public_key are required'', s)
     | Some req \<Rightarrow>
       if \<not> complete_req req then (Fail 400 ''name, node_id and wg_public_key are required'', s)
       else (case GetNode s (vp_node_id req) of
          Inl e \<Rightarrow> (if e = ErrNotFound then Fail 404 ''node not found'' else Fail 500 ''failed to resolve node'', s)
        | Inr n \<Rightarrow>
          (case node_entitlement cl n s of Some f \<Rightarrow> (refuse f, s)
           | None \<Rightarrow>
             if cl_role cl \<noteq> ''admin'' \<and> n_min_tier n > 0 \<and> callerTierOf s (cl_user_id cl) < n_min_tier n
             then (Fail 403 ''node requires a higher tier'', s)
             else doProvision env during now newID (cl_user_id cl) '''' (n_peer_id n) req s)))"

definition handleUserOrgProvisionClient :: "vpn_env \<Rightarrow> (db \<Rightarrow> db) \<Rightarrow> time \<Rightarrow> id \<Rightarrow> caller \<Rightarrow> id \<Rightarrow> provision_req option \<Rightarrow> db
    \<Rightarrow> string resp \<times> db" where
  "handleUserOrgProvisionClient env during now newID cl orgID body s =
    (case orgMember s cl orgID of Inl f \<Rightarrow> (refuse f, s)
     | Inr _ \<Rightarrow>
       (case body of None \<Rightarrow> (Fail 400 ''name, node_id and wg_public_key are required'', s)
        | Some req \<Rightarrow>
          if \<not> complete_req req then (Fail 400 ''name, node_id and wg_public_key are required'', s)
          else (case GetNode s (vp_node_id req) of
             Inl e \<Rightarrow> (if e = ErrNotFound then Fail 404 ''node not found'' else Fail 500 ''failed to resolve node'', s)
           | Inr n \<Rightarrow>
             if n_org_id n \<noteq> orgID then (Fail 403 ''node does not belong to this org'', s)
             else (case node_entitlement cl n s of Some f \<Rightarrow> (refuse f, s)
               | None \<Rightarrow> doProvision env during now newID (cl_user_id cl) orgID (vp_node_id req) req s))))"

text \<open>The API-key route: the organization acts for its owner.\<close>

definition handleOrgProvisionClient :: "vpn_env \<Rightarrow> (db \<Rightarrow> db) \<Rightarrow> time \<Rightarrow> id \<Rightarrow> id \<Rightarrow> provision_req option \<Rightarrow> db
    \<Rightarrow> string resp \<times> db" where
  "handleOrgProvisionClient env during now newID orgID body s =
    (case GetOrg s orgID of Inl _ \<Rightarrow> (Fail 500 ''failed to resolve org'', s)
     | Inr x \<Rightarrow>
       (case body of None \<Rightarrow> (Fail 400 ''name, node_id and wg_public_key are required'', s)
        | Some req \<Rightarrow>
          if \<not> complete_req req then (Fail 400 ''name, node_id and wg_public_key are required'', s)
          else (case GetNode s (vp_node_id req) of
             Inl e \<Rightarrow> (if e = ErrNotFound then Fail 404 ''node not found'' else Fail 500 ''failed to resolve node'', s)
           | Inr n \<Rightarrow>
             if n_org_id n \<noteq> orgID then (Fail 403 ''node does not belong to this org'', s)
             else doProvision env during now newID (o_owner_user_id x) orgID (vp_node_id req) req s)))"

section \<open>Existing clients\<close>

definition ownedClient :: "caller \<Rightarrow> id \<Rightarrow> db \<Rightarrow> failure + client" where
  "ownedClient cl cid s =
    (case GetClient s cid of
       Inl e \<Rightarrow> if e = ErrNotFound then Inl (404, ''client not found'') else Inl (500, ''failed to load client'')
     | Inr c \<Rightarrow> if wc_user_id c \<noteq> cl_user_id cl \<and> cl_role cl \<noteq> ''admin'' then Inl (403, ''not your client'') else Inr c)"

text \<open>The peer a delete asks its node to drop: base URL, token and node key of the call, if one is made.\<close>

definition delete_call :: "vpn_env \<Rightarrow> client \<Rightarrow> db \<Rightarrow> (string \<times> string \<times> string) option" where
  "delete_call env c s =
    (case GetNode s (wc_node_id c) of Inl _ \<Rightarrow> None
     | Inr n \<Rightarrow>
       (case NodeAPI s (wc_node_id c) of Inl _ \<Rightarrow> None
        | Inr (baseURL, nodeKey, _) \<Rightarrow>
          if baseURL = '''' then None
          else (case ve_token env (n_peer_id n) ''peer_delete'' of None \<Rightarrow> None | Some tok \<Rightarrow> Some (baseURL, tok, nodeKey))))"

text \<open>Also returned: the call to the node, whose result is ignored.\<close>

definition handleDeleteClient :: "vpn_env \<Rightarrow> (db \<Rightarrow> db) \<Rightarrow> caller \<Rightarrow> id \<Rightarrow> db
    \<Rightarrow> unit resp \<times> db \<times> (string \<times> string \<times> string) option" where
  "handleDeleteClient env during cl cid s =
    (case ownedClient cl cid s of Inl f \<Rightarrow> (refuse f, s, None)
     | Inr c \<Rightarrow> (Ok 204 (), DeleteClient (wc_id c) (during s), delete_call env c s))"

definition handleClientConfig :: "vpn_env \<Rightarrow> caller \<Rightarrow> id \<Rightarrow> db \<Rightarrow> string resp" where
  "handleClientConfig env cl cid s =
    (case ownedClient cl cid s of Inl f \<Rightarrow> refuse f
     | Inr c \<Rightarrow>
       (case GetNode s (wc_node_id c) of Inl _ \<Rightarrow> Fail 502 ''node unreachable''
        | Inr n \<Rightarrow>
          (case NodeAPI s (wc_node_id c) of Inl _ \<Rightarrow> Fail 502 ''node unreachable''
           | Inr (baseURL, nodeKey, _) \<Rightarrow>
             if baseURL = '''' then Fail 502 ''node unreachable''
             else (case ve_token env (n_peer_id n) ''peer_credentials'' of None \<Rightarrow> Fail 500 ''failed to sign gateway call''
               | Some tok \<Rightarrow>
                 (case Credentials (ve_client env) baseURL tok nodeKey (wc_id c) of
                    None \<Rightarrow> Fail 404 ''credentials not available'' | Some raw \<Rightarrow> Ok 200 raw)))))"

definition handleListClients :: "caller \<Rightarrow> db \<Rightarrow> client list resp" where
  "handleListClients cl s = Ok 200 (ListClientsByUser s (cl_user_id cl))"

definition handleOrgClients :: "caller \<Rightarrow> id \<Rightarrow> db \<Rightarrow> client list resp" where
  "handleOrgClients cl orgID s =
    (case orgMember s cl orgID of Inl f \<Rightarrow> refuse f | Inr _ \<Rightarrow> Ok 200 (OrgClients s orgID))"

definition handleListNodes :: "db \<Rightarrow> string option \<Rightarrow> string \<Rightarrow> string \<Rightarrow> int \<Rightarrow> node list resp" where
  "handleListNodes s status region zone tier =
    Ok 200 (ListDiscoverableNodes s (case status of None \<Rightarrow> ''online'' | Some st \<Rightarrow> st) region zone tier)"

end
