(* ===== verification/VpnSafety.thy ===== *)
theory VpnSafety
  imports Vpn
begin

text \<open>
  What the VPN component guarantees: who may provision where, that a device keeps one client, the
  admission gate, the metering ledger; and where the code departs from its intent.
\<close>

section \<open>Access\<close>

definition may_use_node :: "caller \<Rightarrow> node \<Rightarrow> db \<Rightarrow> bool" where
  "may_use_node cl n s \<longleftrightarrow> cl_role cl = ''admin''
    \<or> (if n_access_mode n = NodeAccessPrivate
       then n_org_id n \<noteq> '''' \<and> has_row (active_at (n_org_id n) (cl_user_id cl)) (org_members s)
       else active_memberships s (cl_user_id cl) \<noteq> [])"

definition meets_tier :: "caller \<Rightarrow> node \<Rightarrow> db \<Rightarrow> bool" where
  "meets_tier cl n s \<longleftrightarrow> cl_role cl = ''admin'' \<or> n_min_tier n \<le> 0 \<or> n_min_tier n \<le> callerTierOf s (cl_user_id cl)"

lemma GetNode_find: "GetNode s p = Inr n \<Longrightarrow> find (\<lambda>x. n_peer_id x = n_peer_id n) (nodes s) = Some n"
  by (auto simp: GetNode_def split: option.splits dest: find_SomeD)

lemma plan_nonempty: "UserOrgVPNPlan s u \<noteq> '''' \<Longrightarrow> active_memberships s u \<noteq> []"
  by (auto simp: UserOrgVPNPlan_def order_desc_def first_row_def)

lemma entitlement_access:
  assumes "GetNode s p = Inr n" and "node_entitlement cl n s = None"
  shows "may_use_node cl n s"
  using assms(2) GetNode_find [OF assms(1)]
  by (auto simp: node_entitlement_def may_use_node_def UserCanProvisionNode_def plan_nonempty
      split: if_splits sum.splits)

lemma entitlement_code: "node_entitlement cl n s = Some f \<Longrightarrow> fst f \<in> {402, 403, 500}"
  by (auto simp: node_entitlement_def split: if_splits sum.splits)

text \<open>
  C9. Nobody is provisioned on a node they may not use.  When the caller is neither an admin, nor an
  active member of the organization of a private node, nor (for a public node) the holder of some
  active membership, or is below the node's minimum tier, the user route refuses, and the database
  is left as it was.
\<close>

theorem provision_access:
  assumes "GetNode s (vp_node_id req) = Inr n" and "\<not> (may_use_node cl n s \<and> meets_tier cl n s)"
  shows "\<exists>code msg. code \<in> {400, 402, 403, 500}
    \<and> handleProvisionClient env during now newID cl (Some req) s = (Fail code msg, s)"
proof (cases "node_entitlement cl n s")
  case (Some f)
  with entitlement_code [OF Some] assms(1) show ?thesis
    by (auto simp: handleProvisionClient_def refuse_def)
next
  case None
  with entitlement_access [OF assms(1)] assms show ?thesis
    by (auto simp: handleProvisionClient_def meets_tier_def)
qed

lemma client_for_found:
  "FindClientByUserNodeWGKey s uid (n_id n) k = Inr c \<Longrightarrow>
    client_for env now newID uid org n name k s = (Inr (wc_id c), DeletePendingClientsByUserNodeWGKey uid (n_id n) k (wc_id c) s)"
  by (simp add: client_for_def)

lemma NodeAPI_of: "GetNode s p = Inr n \<Longrightarrow> NodeAPI s (n_peer_id n) = Inr (n_api_base_url n, n_node_key n, n_status n)"
  by (simp add: NodeAPI_def GetNode_find)

lemma delete_clients_sel [simp]: "vpn_clients (delete_clients p s) = del_rows p (vpn_clients s)"
  "nodes (delete_clients p s) = nodes s"
  by (simp_all add: delete_clients_def)

section \<open>Reconnecting\<close>

text \<open>
  A failed reconnect drops the device's client.  When a device asks again for a node on which it
  has a client, working or not, and the node cannot be reached, the answer is 502 and the client's
  row is deleted, although the request created nothing that had to be rolled back.
\<close>

theorem reconnect_failure_drops_client:
  assumes "GetNode s p = Inr n" and "n_status n \<noteq> ''draining''" and "n_api_base_url n \<noteq> ''''"
    and "FindClientByUserNodeWGKey s uid (n_id n) (vp_wg_public_key req) = Inr c"
    and "ve_token env (n_peer_id n) ''peer_upsert'' = Some tok"
    and "\<forall>attempt m url t k b. nc_do (ve_client env) attempt m url t k b = Inl err"
  shows "case doProvision env during now newID uid org p req s of
      (r, s') \<Rightarrow> r = Fail 502 (''node unreachable '' @ em_dash @ '' no client created'')
        \<and> \<not> has_row (\<lambda>x. wc_id x = wc_id c) (vpn_clients s')"
proof -
  have att: "upsert_attempts (ve_client env) url t k b a l = None" for url t k b a l
    by (induction l arbitrary: a) (simp_all add: assms(6))
  have cand: "upsert_candidates (ve_client env) us t k i r = None" for us t k i r
    by (induction us) (simp_all add: UpsertPeer_def att)
  show ?thesis
    using assms(1-5) NodeAPI_of [OF assms(1)]
    by (simp add: doProvision_def client_for_found provision_on_node_def upsertPeerWithFallback_def cand
        DeleteClient_def has_row_iff del_rows_def)
qed

definition device_of :: "client \<Rightarrow> id \<times> id \<times> string" where
  "device_of c = (wc_user_id c, wc_node_id c, wc_wg_public_key c)"

text \<open>A device has one client per node, pending or active.\<close>

definition one_client_per_device :: "db \<Rightarrow> bool" where
  "one_client_per_device s \<longleftrightarrow> distinct (map wc_id (vpn_clients s)) \<and> distinct (map device_of (vpn_clients s))
     \<and> list_all (\<lambda>c. wc_status c = ''pending'' \<or> wc_status c = ''active'') (vpn_clients s)"

lemma one_client_delete: "one_client_per_device s \<Longrightarrow> one_client_per_device (delete_clients p s)"
  by (auto simp: one_client_per_device_def del_rows_def list_all_iff intro: distinct_map_filter)

lemma one_client_DeleteClient: "one_client_per_device s \<Longrightarrow> one_client_per_device (DeleteClient cid s)"
  by (simp add: DeleteClient_def one_client_delete)

lemma one_client_DeletePending:
  "one_client_per_device s \<Longrightarrow> one_client_per_device (DeletePendingClientsByUserNodeWGKey u n k keep s)"
  by (simp add: DeletePendingClientsByUserNodeWGKey_def one_client_delete)

lemma one_client_SetActive: "one_client_per_device s \<Longrightarrow> one_client_per_device (SetClientActive cid ip s)"
  by (auto simp: one_client_per_device_def SetClientActive_def map_key_upd device_of_def list_all_iff set_upd_rows
      split: if_splits)

lemma first_desc_None: "first_row (order_desc k t) = None \<longleftrightarrow> t = []"
proof -
  have "length (order_desc k t) = length t" by (simp add: order_desc_def)
  then show ?thesis by (auto simp: first_row_def split: list.splits)
qed

lemma FindClient_none: "FindClientByUserNodeWGKey s u n k = Inl e \<Longrightarrow> c \<in> set (vpn_clients s) \<Longrightarrow>
    wc_status c \<noteq> ''deleting'' \<Longrightarrow> \<not> live_device u n k c"
  by (auto simp: FindClientByUserNodeWGKey_def first_desc_None filter_empty_conv split: option.splits)

lemma FindClient_some: "FindClientByUserNodeWGKey s u n k = Inr c \<Longrightarrow> c \<in> set (vpn_clients s)
    \<and> wc_status c \<noteq> ''deleting'' \<and> live_device u n k c"
proof (unfold FindClientByUserNodeWGKey_def first_row_def, goal_cases)
  case 1
  let ?t = "filter (\<lambda>c. live_device u n k c \<and> wc_status c \<noteq> ''deleting'') (vpn_clients s)"
  from 1 have "c \<in> set (order_desc wc_created_at ?t)" by (auto split: list.splits)
  then show ?case by (simp add: order_desc_def)
qed

lemma one_client_Create:
  assumes inv: "one_client_per_device s" and none: "FindClientByUserNodeWGKey s u n k = Inl e"
    and c: "CreateClient now newID u org n name k s = (r, s')"
  shows "one_client_per_device s'"
proof (cases r)
  case (Inl e)
  with c inv show ?thesis by (auto simp: CreateClient_def split: if_splits)
next
  case (Inr i)
  have "(u, n, k) \<notin> device_of ` set (vpn_clients s)"
    using FindClient_none [OF none] inv by (force simp: device_of_def one_client_per_device_def list_all_iff)
  with Inr c inv show ?thesis
    by (auto simp: CreateClient_def one_client_per_device_def has_row_iff device_of_def split: if_splits)
qed

lemma one_client_client_for:
  assumes "one_client_per_device s"
  shows "one_client_per_device (snd (client_for env now newID u org n name k s))"
  using assms by (auto simp: client_for_def Let_def one_client_DeletePending
      dest: one_client_Create split: sum.splits prod.splits)

lemma one_client_on_node:
  assumes "one_client_per_device (during s)" and "one_client_per_device s"
  shows "one_client_per_device (snd (provision_on_node env during n u k cid req s))"
  using assms by (auto simp: provision_on_node_def one_client_DeleteClient one_client_SetActive split: option.splits)


text \<open>
  Reconnecting reuses the client.  A device that already has a client is served under the same
  identifier: no row is created, the node is asked for that peer, and the row is active with the
  address the node returned.
\<close>

theorem reconnect_reuses_client:
  assumes "GetNode s p = Inr n" and "n_status n \<noteq> ''draining''" and "n_api_base_url n \<noteq> ''''"
    and "FindClientByUserNodeWGKey s uid (n_id n) (vp_wg_public_key req) = Inr c"
    and "doProvision env id now newID uid org p req s = (Ok 201 raw, s')"
  shows "wc_id ` set (vpn_clients s') \<subseteq> wc_id ` set (vpn_clients s)
    \<and> has_row (\<lambda>x. wc_id x = wc_id c \<and> wc_status x = ''active'') (vpn_clients s')"
proof -
  let ?s = "DeletePendingClientsByUserNodeWGKey uid (n_id n) (vp_wg_public_key req) (wc_id c) s"
  from assms(5) obtain b where s': "s' = SetClientActive (wc_id c) b ?s"
    using assms(1-4) NodeAPI_of [OF assms(1)]
    by (auto simp: doProvision_def client_for_found provision_on_node_def split: option.splits)
  have "c \<in> set (vpn_clients ?s)"
    using FindClient_some [OF assms(4)] by (simp add: DeletePendingClientsByUserNodeWGKey_def del_rows_def)
  then have "c\<lparr>wc_status := ''active'', wc_wg_allowed_ip := b\<rparr> \<in> set (vpn_clients s')"
    unfolding s' SetClientActive_def by (auto simp: set_upd_rows)
  moreover have "wc_id ` set (vpn_clients s') \<subseteq> wc_id ` set (vpn_clients s)"
  proof -
    have "map wc_id (vpn_clients s') = map wc_id (vpn_clients ?s)" by (simp add: s' SetClientActive_def map_key_upd)
    then have "wc_id ` set (vpn_clients s') = wc_id ` set (vpn_clients ?s)" by (metis list.set_map)
    then show ?thesis by (auto simp: DeletePendingClientsByUserNodeWGKey_def del_rows_def)
  qed
  ultimately show ?thesis
    by (auto simp: has_row_iff intro: bexI [of _ "c\<lparr>wc_status := ''active'', wc_wg_allowed_ip := b\<rparr>"])
qed

section \<open>A small world\<close>

text \<open>One organization with its owner, and its private node of minimum tier 5.\<close>

definition vpn_node :: node where
  "vpn_node = (new_node 0 ''i1'' ''n1'' ''d'')\<lparr>n_org_id := ''o1'', n_access_mode := NodeAccessPrivate,
     n_min_tier := 5, n_status := ''online'', n_api_base_url := ''http://n/''\<rparr>"

definition vpn_world :: db where
  "vpn_world = empty_db\<lparr>
     users := [\<lparr>us_id = ''u1'', us_wallet_address = '''', us_chain = '''', us_role = ''user'', us_email = '''',
        us_email_verified = False, us_name = '''', us_profile_picture = '''', us_xp_earned = 0, us_xp_claimed = 0,
        us_tier = 0, us_referral_code = '''', us_referred_by = '''', us_created_at = 0\<rparr>],
     orgs := [\<lparr>o_id = ''o1'', o_name = '''', o_slug = ''o'', o_plan = OrgPlanPro, o_billing_status = OrgBillingActive,
        o_verification_status = '''', o_public_profile_enabled = False, o_owner_user_id = ''u1'',
        o_created_at = 0, o_updated_at = 0\<rparr>],
     org_members := [\<lparr>m_id = ''m1'', m_org_id = ''o1'', m_user_id = ''u1'', m_role = OrgRoleOwner,
        m_seat_tier = SeatTierPro, m_status = MemberStatusActive, m_created_at = 0, m_updated_at = 0\<rparr>],
     nodes := [vpn_node]\<rparr>"

definition vpn_client_row :: client where
  "vpn_client_row = \<lparr>wc_id = ''c1'', wc_user_id = ''u1'', wc_org_id = '''', wc_node_id = ''i1'', wc_name = ''phone'',
     wc_wg_public_key = ''k'', wc_wg_allowed_ip = ''10.0.0.2'', wc_status = ''active'', wc_rx_bytes = 7, wc_tx_bytes = 0,
     wc_last_handshake = None, wc_created_at = 1\<rparr>"

definition vpn_world1 :: db where
  "vpn_world1 = vpn_world\<lparr>vpn_clients := [vpn_client_row],
     usage_daily := [\<lparr>ud_client_id = ''c1'', ud_day = 0, ud_rx_bytes = 7, ud_tx_bytes = 0\<rparr>]\<rparr>"

definition answering :: "string + int \<times> string \<Rightarrow> vpn_env" where
  "answering r = \<lparr>ve_client = \<lparr>nc_do = (\<lambda>_ _ _ _ _ _. r), nc_address = (\<lambda>_. ''10.0.0.2''), nc_encode = (\<lambda>_. ''{}'')\<rparr>,
     ve_token = (\<lambda>p a. Some (p @ a)),
     ve_platform = \<lparr>pv_node_cpu_max = 90, pv_node_cpu_soft = 70, pv_node_peer_ratio_max = 9 / 10,
        pv_node_peer_connected_soft = 100\<rparr>, ve_load = (\<lambda>_. None)\<rparr>"

definition vpn_req :: provision_req where
  "vpn_req = \<lparr>vp_name = ''phone'', vp_node_id = ''n1'', vp_wg_public_key = ''k'', vp_wg_preshared_key = ''''\<rparr>"

abbreviation u1_caller :: caller where "u1_caller \<equiv> \<lparr>cl_user_id = ''u1'', cl_role = ''user''\<rparr>"

lemma world_GetNode: "GetNode vpn_world ''n1'' = Inr vpn_node" "GetNode vpn_world1 ''n1'' = Inr vpn_node"
  by code_simp+

theorem provision_access_witness:
  "\<exists>code msg. code \<in> {400, 402, 403, 500} \<and> handleProvisionClient (answering (Inl ''down'')) id 1 ''c9'' u1_caller
     (Some vpn_req) vpn_world = (Fail code msg, vpn_world)"
proof (rule provision_access [where n = vpn_node])
  show "GetNode vpn_world (vp_node_id vpn_req) = Inr vpn_node" by (simp add: vpn_req_def world_GetNode)
  show "\<not> (may_use_node u1_caller vpn_node vpn_world \<and> meets_tier u1_caller vpn_node vpn_world)" by code_simp
qed

theorem reconnect_failure_drops_client_witness:
  "case doProvision (answering (Inl ''down'')) id 9 ''c9'' ''u1'' '''' ''n1'' vpn_req vpn_world1 of
      (r, s') \<Rightarrow> r = Fail 502 (''node unreachable '' @ em_dash @ '' no client created'')
        \<and> \<not> has_row (\<lambda>x. wc_id x = wc_id vpn_client_row) (vpn_clients s')"
proof (rule reconnect_failure_drops_client [where n = vpn_node and err = "''down''" and tok = "''n1peer_upsert''"])
  show "GetNode vpn_world1 ''n1'' = Inr vpn_node" by (rule world_GetNode)
  show "n_status vpn_node \<noteq> ''draining''" "n_api_base_url vpn_node \<noteq> ''''" by code_simp+
  show "FindClientByUserNodeWGKey vpn_world1 ''u1'' (n_id vpn_node) (vp_wg_public_key vpn_req) = Inr vpn_client_row"
    by code_simp
  show "ve_token (answering (Inl ''down'')) (n_peer_id vpn_node) ''peer_upsert'' = Some ''n1peer_upsert''" by code_simp
  show "\<forall>attempt m url t k b. nc_do (ve_client (answering (Inl ''down''))) attempt m url t k b = Inl ''down''"
    by (simp add: answering_def)
qed


theorem reconnect_reuses_client_witness:
  "\<exists>raw s'. doProvision (answering (Inr (200, ''{}''))) id 9 ''c9'' ''u1'' '''' ''n1'' vpn_req vpn_world1 = (Ok 201 raw, s')
     \<and> wc_id ` set (vpn_clients s') \<subseteq> wc_id ` set (vpn_clients vpn_world1)
     \<and> has_row (\<lambda>x. wc_id x = wc_id vpn_client_row \<and> wc_status x = ''active'') (vpn_clients s')"
proof -
  let ?r = "doProvision (answering (Inr (200, ''{}''))) id 9 ''c9'' ''u1'' '''' ''n1'' vpn_req vpn_world1"
  have ok: "?r = (Ok 201 ''{}'', snd ?r)" by code_simp
  have "n_status vpn_node \<noteq> ''draining''" "n_api_base_url vpn_node \<noteq> ''''"
    "FindClientByUserNodeWGKey vpn_world1 ''u1'' (n_id vpn_node) (vp_wg_public_key vpn_req) = Inr vpn_client_row"
    by code_simp+
  from reconnect_reuses_client [OF world_GetNode(2) this ok] ok show ?thesis by blast
qed

section \<open>The organization routes\<close>

text \<open>
  The organization routes ignore a node's minimum tier.  Through its organization a member below
  the tier is provisioned on the node that the user route refuses for that tier.
\<close>

theorem org_route_skips_tier:
  "\<not> meets_tier u1_caller vpn_node vpn_world
   \<and> fst (handleProvisionClient (answering (Inr (200, ''{}''))) id 9 ''c9'' u1_caller (Some vpn_req) vpn_world)
      = Fail 403 ''node requires a higher tier''
   \<and> fst (handleUserOrgProvisionClient (answering (Inr (200, ''{}''))) id 9 ''c9'' u1_caller ''o1'' (Some vpn_req) vpn_world)
      = Ok 201 ''{}''
   \<and> fst (handleOrgProvisionClient (answering (Inr (200, ''{}''))) id 9 ''c9'' ''o1'' (Some vpn_req) vpn_world)
      = Ok 201 ''{}''"
  by (intro conjI; code_simp)

section \<open>Deleting and reading a client\<close>

text \<open>
  Deleting a client never tells its node.  The handlers look the client's node up by peer id, but
  the row holds the node's internal id; unless some node's peer id happens to equal it, a delete
  removes the row and sends nothing to the node, whose peer stays, and the configuration of a client
  cannot be read at all.
\<close>

theorem delete_never_reaches_node:
  assumes "\<forall>n\<in>set (nodes s). n_peer_id n \<noteq> wc_node_id c" and "ownedClient cl cid s = Inr c"
  shows "handleDeleteClient env during cl cid s = (Ok 204 (), DeleteClient (wc_id c) (during s), None)
    \<and> handleClientConfig env cl cid s = Fail 502 ''node unreachable''"
proof -
  have "GetNode s (wc_node_id c) = Inl ErrNotFound"
    using assms(1) by (simp add: GetNode_def find_None_iff [THEN iffD2])
  with assms(2) show ?thesis by (simp add: handleDeleteClient_def handleClientConfig_def delete_call_def)
qed

theorem delete_never_reaches_node_witness:
  "handleDeleteClient (answering (Inr (200, ''{}''))) id u1_caller ''c1'' vpn_world1
     = (Ok 204 (), DeleteClient ''c1'' vpn_world1, None)
   \<and> handleClientConfig (answering (Inr (200, ''{}''))) u1_caller ''c1'' vpn_world1 = Fail 502 ''node unreachable''"
proof -
  have o: "ownedClient u1_caller ''c1'' vpn_world1 = Inr vpn_client_row" by code_simp
  have n: "\<forall>n\<in>set (nodes vpn_world1). n_peer_id n \<noteq> wc_node_id vpn_client_row" by code_simp
  have i: "wc_id vpn_client_row = ''c1''" by (simp add: vpn_client_row_def)
  show ?thesis using delete_never_reaches_node [OF n o] unfolding i by simp
qed

section \<open>Admission\<close>

text \<open>
  Admission is monotone: with thresholds that are not negative, a node that accepts new clients
  would accept them at any lower load (less CPU, fewer connected peers, for at least as many
  registered ones), and a node refused at a load is refused at any higher one.
\<close>

theorem admission_monotone:
  assumes "acceptingClients cfg registered conn cpu" and "cpu' \<le> cpu" and "0 \<le> conn'" and "conn' \<le> conn"
    and "registered \<le> registered'" and "0 < registered"
  shows "acceptingClients cfg registered' conn' cpu'"
proof -
  have "of_int conn' / of_int registered' \<le> (of_int conn / of_int registered :: rat)"
    using assms(3-6) by (intro frac_le) auto
  with assms show ?thesis by (auto simp: acceptingClients_def split: if_splits)
qed

definition demo_platform :: platform where
  "demo_platform = \<lparr>pv_node_cpu_max = 90, pv_node_cpu_soft = 70, pv_node_peer_ratio_max = 9 / 10,
     pv_node_peer_connected_soft = 100\<rparr>"

theorem admission_monotone_witness: "acceptingClients demo_platform 200 90 80"
  by (rule admission_monotone [of _ 200 99 80]) (simp_all add: acceptingClients_def demo_platform_def)

section \<open>Metering\<close>

text \<open>
  The ledger: each client's counters are the totals of its daily rows, and every daily row belongs to
  a client.
\<close>

definition daily_of :: "db \<Rightarrow> id \<Rightarrow> usage_day list" where
  "daily_of s cid = filter (\<lambda>d. ud_client_id d = cid) (usage_daily s)"

definition ledger_balanced :: "db \<Rightarrow> bool" where
  "ledger_balanced s \<longleftrightarrow> distinct (map wc_id (vpn_clients s))
     \<and> distinct (map (\<lambda>d. (ud_client_id d, ud_day d)) (usage_daily s))
     \<and> list_all (\<lambda>c. wc_rx_bytes c = total_of ud_rx_bytes (daily_of s (wc_id c))
          \<and> wc_tx_bytes c = total_of ud_tx_bytes (daily_of s (wc_id c))) (vpn_clients s)
     \<and> list_all (\<lambda>d. has_row (\<lambda>c. wc_id c = ud_client_id d) (vpn_clients s)) (usage_daily s)"

lemma ledgerD:
  assumes "ledger_balanced s"
  shows "distinct (map wc_id (vpn_clients s))" "distinct (map (\<lambda>d. (ud_client_id d, ud_day d)) (usage_daily s))"
    "\<And>c. c \<in> set (vpn_clients s) \<Longrightarrow> wc_rx_bytes c = total_of ud_rx_bytes (daily_of s (wc_id c))"
    "\<And>c. c \<in> set (vpn_clients s) \<Longrightarrow> wc_tx_bytes c = total_of ud_tx_bytes (daily_of s (wc_id c))"
    "\<And>d. d \<in> set (usage_daily s) \<Longrightarrow> \<exists>c\<in>set (vpn_clients s). wc_id c = ud_client_id d"
  using assms by (auto simp: ledger_balanced_def list_all_iff has_row_iff)

lemma daily_of_kept:
  assumes "\<And>c'. c' \<in> set (vpn_clients s) \<Longrightarrow> wc_id c' = cid \<Longrightarrow> \<not> p c'"
  shows "daily_of (delete_clients p s) cid = daily_of s cid"
  unfolding daily_of_def delete_clients_def del_rows_def using assms
  by (auto simp: has_row_iff intro!: filter_cong)

lemma ledger_delete:
  assumes "ledger_balanced s"
  shows "ledger_balanced (delete_clients p s)"
proof -
  note L = ledgerD [OF assms]
  have uniq: "c = c'" if "c \<in> set (vpn_clients s)" "c' \<in> set (vpn_clients s)" "wc_id c = wc_id c'" for c c'
    using L(1) that by (auto simp: distinct_map inj_on_def)
  have keep: "daily_of (delete_clients p s) (wc_id c) = daily_of s (wc_id c)"
    if "c \<in> set (vpn_clients s)" "\<not> p c" for c
    by (rule daily_of_kept) (use uniq that in blast)
  have days: "usage_daily (delete_clients p s)
      = filter (\<lambda>d. \<not> has_row (\<lambda>c. p c \<and> wc_id c = ud_client_id d) (vpn_clients s)) (usage_daily s)"
    by (simp add: delete_clients_def del_rows_def)
  have "\<forall>d\<in>set (usage_daily (delete_clients p s)). \<exists>c\<in>set (vpn_clients (delete_clients p s)). wc_id c = ud_client_id d"
    unfolding days using L(5) by (fastforce simp: del_rows_def has_row_iff)
  moreover have "distinct (map (\<lambda>d. (ud_client_id d, ud_day d)) (usage_daily (delete_clients p s)))"
    unfolding days by (rule distinct_map_filter [OF L(2)])
  moreover have "distinct (map wc_id (vpn_clients (delete_clients p s)))"
    by (simp add: del_rows_def distinct_map_filter L(1))
  ultimately show ?thesis
    unfolding ledger_balanced_def list_all_iff has_row_iff using L(3,4) keep by (simp add: del_rows_def)
qed

lemma ledger_create: "ledger_balanced s \<Longrightarrow> ledger_balanced (snd (CreateClient now newID u org n name k s))"
proof -
  assume L: "ledger_balanced s"
  note D = ledgerD [OF L]
  show ?thesis
  proof (cases "\<exists>c\<in>set (vpn_clients s). wc_id c = newID")
    case True
    with L show ?thesis by (auto simp: CreateClient_def has_row_iff)
  next
    case False
    then have none: "daily_of s newID = []" using D(5) by (fastforce simp: daily_of_def filter_empty_conv)
    with False L D(1) show ?thesis
      by (auto simp: CreateClient_def ledger_balanced_def has_row_iff daily_of_def list_all_iff)
  qed
qed

definition client_counters :: "client \<Rightarrow> id \<times> int \<times> int" where
  "client_counters c = (wc_id c, wc_rx_bytes c, wc_tx_bytes c)"

lemma ledger_counters: "ledger_balanced s \<longleftrightarrow> (let cs = map client_counters (vpn_clients s) in
     distinct (map fst cs) \<and> distinct (map (\<lambda>d. (ud_client_id d, ud_day d)) (usage_daily s))
     \<and> (\<forall>(i, r, t)\<in>set cs. r = total_of ud_rx_bytes (daily_of s i) \<and> t = total_of ud_tx_bytes (daily_of s i))
     \<and> ud_client_id ` set (usage_daily s) \<subseteq> fst ` set cs)"
  by (force simp: ledger_balanced_def client_counters_def Let_def list_all_iff has_row_iff comp_def image_iff)

lemma ledger_view: "map client_counters (vpn_clients s') = map client_counters (vpn_clients s) \<Longrightarrow> usage_daily s' = usage_daily s
    \<Longrightarrow> ledger_balanced s' = ledger_balanced s"
  by (simp add: ledger_counters daily_of_def)

lemma ledger_activate: "ledger_balanced s \<Longrightarrow> ledger_balanced (SetClientActive cid ip s)"
  by (subst ledger_view [of _ s]) (auto simp: SetClientActive_def client_counters_def intro: map_view_upd)

text \<open>Adding to the daily row of a client adds to that client's totals only.\<close>

lemma add_daily_ok:
  assumes ok: "add_daily now cid rx tx s = (Inr (), s')"
    and d: "distinct (map (\<lambda>d. (ud_client_id d, ud_day d)) (usage_daily s))"
  shows "distinct (map (\<lambda>d. (ud_client_id d, ud_day d)) (usage_daily s'))"
    and "ud_client_id ` set (usage_daily s') = insert cid (ud_client_id ` set (usage_daily s))"
    and "total_of ud_rx_bytes (daily_of s' i) = total_of ud_rx_bytes (daily_of s i) + (if i = cid then rx else 0)"
    and "total_of ud_tx_bytes (daily_of s' i) = total_of ud_tx_bytes (daily_of s i) + (if i = cid then tx else 0)"
    and "vpn_clients s' = vpn_clients s" "nodes s' = nodes s"
proof -
  let ?k = "\<lambda>d. (ud_client_id d, ud_day d)"
  let ?p = "\<lambda>d. ?k d = (cid, day_of now)"
  let ?f = "\<lambda>d. d\<lparr>ud_rx_bytes := ud_rx_bytes d + rx, ud_tx_bytes := ud_tx_bytes d + tx\<rparr>"
  let ?goal = "distinct (map ?k (usage_daily s')) \<and> ud_client_id ` set (usage_daily s') = insert cid (ud_client_id ` set (usage_daily s))
    \<and> total_of ud_rx_bytes (daily_of s' i) = total_of ud_rx_bytes (daily_of s i) + (if i = cid then rx else 0)
    \<and> total_of ud_tx_bytes (daily_of s' i) = total_of ud_tx_bytes (daily_of s i) + (if i = cid then tx else 0)
    \<and> vpn_clients s' = vpn_clients s \<and> nodes s' = nodes s"
  have ?goal
  proof (cases "find ?p (usage_daily s)")
    case None
    then have "(cid, day_of now) \<notin> ?k ` set (usage_daily s)" by (auto simp: find_None_iff)
    with None ok d show ?thesis by (auto simp: add_daily_def Let_def daily_of_def)
  next
    case (Some r)
    then have r: "?k r = (cid, day_of now)" "r \<in> set (usage_daily s)" by (auto dest: find_SomeD)
    from ok Some have s': "s' = s\<lparr>usage_daily := upd_rows ?p ?f (usage_daily s)\<rparr>"
      by (auto simp: add_daily_def Let_def split: if_splits)
    have sum: "total_of w (filter (\<lambda>d. ud_client_id d = i) (upd_rows ?p ?f t))
        = total_of w (filter (\<lambda>d. ud_client_id d = i) t) + (if i = cid then w (?f r) - w r else 0)"
      if "distinct (map ?k t)" "find ?p t = Some r" "\<And>d. w (?f d) - w d = w (?f r) - w r" for w t
      using that
    proof (induction t)
      case (Cons x t)
      show ?case
      proof (cases "?p x")
        case True
        then have "\<forall>d\<in>set t. \<not> ?p d" using Cons.prems(1) by (auto simp: image_iff)
        then have "upd_rows ?p ?f t = t" by (auto intro: upd_rows_id)
        then have "upd_rows ?p ?f (x # t) = ?f x # t" using True by (simp add: upd_rows_def)
        with True Cons.prems(2) show ?thesis by simp
      next
        case False
        then have "upd_rows ?p ?f (x # t) = x # upd_rows ?p ?f t" by (auto simp: upd_rows_def)
        with Cons.IH Cons.prems False show ?thesis by auto
      qed
    qed simp
    have "map ?k (upd_rows ?p ?f (usage_daily s)) = map ?k (usage_daily s)"
      by (rule map_key_upd [where key = ?k]) simp
    moreover have "map ud_client_id (upd_rows ?p ?f (usage_daily s)) = map ud_client_id (usage_daily s)"
      by (rule map_key_upd) simp
    then have "ud_client_id ` set (upd_rows ?p ?f (usage_daily s)) = ud_client_id ` set (usage_daily s)"
      by (metis list.set_map)
    moreover have "cid \<in> ud_client_id ` set (usage_daily s)" using r by force
    ultimately show ?thesis unfolding s' daily_of_def
      using d sum [OF d Some, of ud_rx_bytes] sum [OF d Some, of ud_tx_bytes] by (auto simp: insert_absorb)
  qed
  then show "distinct (map ?k (usage_daily s'))"
    "ud_client_id ` set (usage_daily s') = insert cid (ud_client_id ` set (usage_daily s))"
    "total_of ud_rx_bytes (daily_of s' i) = total_of ud_rx_bytes (daily_of s i) + (if i = cid then rx else 0)"
    "total_of ud_tx_bytes (daily_of s' i) = total_of ud_tx_bytes (daily_of s i) + (if i = cid then tx else 0)"
    "vpn_clients s' = vpn_clients s" "nodes s' = nodes s" by blast+
qed

lemma AddUsage_cases:
  assumes "AddUsage_tx now cid rx tx hs s = (Inr (), s')"
  obtains (unknown) "s' = s"
  | (counted) s1 where "has_row (\<lambda>c. wc_id c = cid) (vpn_clients s)"
      "map client_counters (vpn_clients s1) = map (\<lambda>c. if wc_id c = cid then (cid, wc_rx_bytes c + rx, wc_tx_bytes c + tx)
         else client_counters c) (vpn_clients s)"
      "usage_daily s1 = usage_daily s" "add_daily now cid rx tx s1 = (Inr (), s'\<lparr>nodes := nodes s1\<rparr>)"
proof (cases "find (\<lambda>c. wc_id c = cid) (vpn_clients s)")
  case None
  with assms unknown show ?thesis by (simp add: AddUsage_tx_def)
next
  case (Some c)
  let ?s1 = "s\<lparr>vpn_clients := upd_rows (\<lambda>c. wc_id c = cid)
               (\<lambda>c. c\<lparr>wc_rx_bytes := wc_rx_bytes c + rx, wc_tx_bytes := wc_tx_bytes c + tx,
                     wc_last_handshake := (if hs > 0 then Some hs else wc_last_handshake c)\<rparr>)
               (vpn_clients s)\<rparr>"
  from assms Some obtain s2 where s2: "add_daily now cid rx tx ?s1 = (Inr (), s2)" "s2\<lparr>nodes := nodes s'\<rparr> = s'"
    by (auto simp: AddUsage_tx_def Let_def split: if_splits elim!: seq_okE)
  have "nodes s2 = nodes s"
    using s2(1) by (auto simp: add_daily_def Let_def split: option.splits if_splits)
  then have "s'\<lparr>nodes := nodes s\<rparr> = s2"
    by (subst s2(2) [symmetric]) (cases s2, simp)
  with s2 have "add_daily now cid rx tx ?s1 = (Inr (), s'\<lparr>nodes := nodes ?s1\<rparr>)" by simp
  moreover have "has_row (\<lambda>c. wc_id c = cid) (vpn_clients s)"
    using Some by (auto simp: has_row_iff dest: find_SomeD)
  moreover have "map client_counters (vpn_clients ?s1) = map (\<lambda>c. if wc_id c = cid
      then (cid, wc_rx_bytes c + rx, wc_tx_bytes c + tx) else client_counters c) (vpn_clients s)"
    by (auto simp: upd_rows_def client_counters_def)
  moreover have "usage_daily ?s1 = usage_daily s" by simp
  ultimately show ?thesis by (intro counted)
qed

lemma ledger_AddUsage_tx:
  assumes L: "ledger_balanced s" and ok: "AddUsage_tx now cid rx tx hs s = (Inr (), s')"
  shows "ledger_balanced s'"
  using ok
proof (cases rule: AddUsage_cases)
  case unknown
  with L show ?thesis by simp
next
  case (counted s1)
  let ?s2 = "s'\<lparr>nodes := nodes s1\<rparr>"
  note D = ledgerD [OF L]
  have days: "daily_of s1 i = daily_of s i" for i by (simp add: daily_of_def counted(3))
  note A = add_daily_ok(1-4) [OF counted(4)] add_daily_ok(5) [OF counted(4)]
  have d: "distinct (map (\<lambda>d. (ud_client_id d, ud_day d)) (usage_daily s1))" using D(2) counted(3) by simp
  have cs: "map client_counters (vpn_clients ?s2) = map (\<lambda>c. if wc_id c = cid
      then (cid, wc_rx_bytes c + rx, wc_tx_bytes c + tx) else client_counters c) (vpn_clients s)"
    using counted(2) A(5) d by simp
  have ids: "map fst (map client_counters (vpn_clients ?s2)) = map wc_id (vpn_clients s)"
    unfolding cs by (auto simp: client_counters_def)
  have sums: "r = total_of ud_rx_bytes (daily_of ?s2 i) \<and> t = total_of ud_tx_bytes (daily_of ?s2 i)"
    if "(i, r, t) \<in> set (map client_counters (vpn_clients ?s2))" for i r t
  proof -
    from that obtain c where c: "c \<in> set (vpn_clients s)"
      "(i, r, t) = (if wc_id c = cid then (cid, wc_rx_bytes c + rx, wc_tx_bytes c + tx) else client_counters c)"
      unfolding cs by auto
    show ?thesis
      using c(2) D(3,4) [OF c(1)] A(3,4) [OF d, of i] days by (simp add: client_counters_def split: if_splits)
  qed
  have "ud_client_id ` set (usage_daily ?s2) \<subseteq> wc_id ` set (vpn_clients s)"
  proof -
    have "ud_client_id ` set (usage_daily ?s2) = insert cid (ud_client_id ` set (usage_daily s))"
      using A(2) [OF d] counted(3) by simp
    moreover have "cid \<in> wc_id ` set (vpn_clients s)" using counted(1) by (auto simp: has_row_iff)
    moreover have "ud_client_id ` set (usage_daily s) \<subseteq> wc_id ` set (vpn_clients s)" 
    proof (rule image_subsetI)
      fix d assume "d \<in> set (usage_daily s)"
      from D(5) [OF this] obtain c where "c \<in> set (vpn_clients s)" "wc_id c = ud_client_id d" by blast
      then show "ud_client_id d \<in> wc_id ` set (vpn_clients s)" by (metis imageI)
    qed
    ultimately show ?thesis by simp
  qed
  then have sub: "ud_client_id ` set (usage_daily ?s2) \<subseteq> fst ` set (map client_counters (vpn_clients ?s2))"
    using ids by (metis list.set_map)
  have "ledger_balanced ?s2"
    unfolding ledger_counters Let_def ids
  proof (intro conjI)
    show "\<forall>(i, r, t)\<in>set (map client_counters (vpn_clients ?s2)).
        r = total_of ud_rx_bytes (daily_of ?s2 i) \<and> t = total_of ud_tx_bytes (daily_of ?s2 i)"
      by (clarify, rule sums)
    show "distinct (map wc_id (vpn_clients s))" by (rule D(1))
    show "distinct (map (\<lambda>d. (ud_client_id d, ud_day d)) (usage_daily ?s2))" by (rule A(1) [OF d])
    show "ud_client_id ` set (usage_daily ?s2) \<subseteq> fst ` set (map client_counters (vpn_clients ?s2))" by (rule sub)
  qed
  moreover have "ledger_balanced ?s2 = ledger_balanced s'" by (rule ledger_view) simp_all
  ultimately show ?thesis by simp
qed

lemma ledger_AddUsage: "ledger_balanced s \<Longrightarrow> ledger_balanced (snd (AddUsage now cid rx tx hs s))"
  unfolding AddUsage_def by (rule in_tx_inv) (auto intro: ledger_AddUsage_tx)

text \<open>What the VPN component does to client rows and their metering; the rest of the program touches neither.\<close>

inductive meter_step :: "db \<Rightarrow> db \<Rightarrow> bool" where
  create: "meter_step s (snd (CreateClient now newID u org n name k s))"
| activate: "meter_step s (SetClientActive cid ip s)"
| usage: "meter_step s (snd (AddUsage now cid rx tx hs s))"
| remove: "meter_step s (DeleteClient cid s)"
| elsewhere: "vpn_clients t = vpn_clients s \<Longrightarrow> usage_daily t = usage_daily s \<Longrightarrow> meter_step s t"
| clear: "meter_step s (DeletePendingClientsByUserNodeWGKey u n k keep s)"

text \<open>
  C15. The metering ledger balances.  However clients are created, activated, metered, abandoned and
  deleted, and whatever deltas nodes report, negative and overflowing ones included, each client's
  cumulative counters are the sums of its daily rows, and no daily row is without its client.
\<close>

theorem metering_ledger_balanced:
  assumes "meter_step\<^sup>*\<^sup>* empty_db s"
  shows "ledger_balanced s"
  using assms
proof (induction rule: rtranclp_induct)
  case base
  show ?case by code_simp
next
  case (step s t)
  from step(2,3) show ?case
    by (cases rule: meter_step.cases) (simp_all add: ledger_create ledger_activate ledger_AddUsage
        DeleteClient_def DeletePendingClientsByUserNodeWGKey_def ledger_delete
        ledger_view [of t s])
qed

definition metered :: db where
  "metered = snd (AddUsage 90000 ''c1'' (-3) 5 0 (snd (AddUsage 100 ''c1'' 4 2 50
     (snd (CreateClient 1 ''c1'' ''u1'' ''o1'' ''i1'' ''phone'' ''k'' vpn_world)))))"

theorem metering_ledger_balanced_witness:
  "ledger_balanced metered \<and> map client_counters (vpn_clients metered) = [(''c1'', 4, 7)] \<and> length (usage_daily metered) = 2"
proof -
  have 0: "meter_step\<^sup>*\<^sup>* empty_db vpn_world"
    by (rule r_into_rtranclp, rule meter_step.elsewhere) code_simp+
  have "meter_step\<^sup>*\<^sup>* empty_db metered" unfolding metered_def
    by (rule rtranclp.rtrancl_into_rtrancl, rule rtranclp.rtrancl_into_rtrancl,
        rule rtranclp.rtrancl_into_rtrancl, rule 0) (rule meter_step.create meter_step.usage)+
  moreover have "map client_counters (vpn_clients metered) = [(''c1'', 4, 7)]" by code_simp
  moreover have "length (usage_daily metered) = 2" by code_simp
  ultimately show ?thesis using metering_ledger_balanced [of metered] by simp
qed

end
