(* ===== verification/Provisioning.thy ===== *)
theory Provisioning
  imports Enrollment
begin

text \<open>
  Plan-included resources: \<open>internal/store/provisioning.go\<close>.  When managed provisioning is enabled, a Pro
  plan brings one managed Shield node and a Business plan three managed Sentinel nodes with a license
  each.  \<open>nodeName\<close> draws the suffix of a managed node id, as \<open>uuid\<close> draws row identifiers.
\<close>

record provisioning_config =
  pc_enabled :: bool
  pc_default_region :: string

definition managedNodeName :: "string \<Rightarrow> string" where
  "managedNodeName profile =
    (if profile = DeploymentProfileShield then ''Erebrus Shield (managed)''
     else if profile = DeploymentProfileSentinel then ''Erebrus Sentinel (managed)''
     else ''Erebrus VPN (managed)'')"

definition managed_by_profile :: "id \<Rightarrow> string \<Rightarrow> org_node \<Rightarrow> bool" where
  "managed_by_profile orgID profile x \<longleftrightarrow> on_org_id x = orgID \<and> on_managed_by x = OrgNodeManagedByErebrus
     \<and> on_deployment_profile x = profile"

definition countManagedNodesByProfile :: "db \<Rightarrow> id \<Rightarrow> string \<Rightarrow> int" where
  "countManagedNodesByProfile s orgID profile = row_count (managed_by_profile orgID profile) (org_nodes s)"

definition listManagedNodesByProfile :: "db \<Rightarrow> id \<Rightarrow> string \<Rightarrow> org_node list" where
  "listManagedNodesByProfile s orgID profile =
     order_asc on_created_at (filter (managed_by_profile orgID profile) (org_nodes s))"

definition managed_input :: "id \<Rightarrow> string \<Rightarrow> string \<Rightarrow> provisioning_config \<Rightarrow> org_node_input" where
  "managed_input orgID nodeID profile cfg = \<lparr>ni_org_id = orgID, ni_node_id = nodeID,
     ni_node_name = managedNodeName profile, ni_deployment_profile = profile, ni_node_type = OrgNodeTypeManaged,
     ni_visibility = OrgNodeVisibilityPrivateOrg, ni_managed_by = OrgNodeManagedByErebrus,
     ni_region = (if pc_default_region cfg = '''' then ''unknown'' else pc_default_region cfg), ni_zone = '''',
     ni_status = (if pc_enabled cfg then OrgNodeStatusProvisioning else OrgNodeStatusPending),
     ni_api_public_url = '''', ni_created_by = ''''\<rparr>"

definition reserveManagedNode :: "time \<Rightarrow> (db \<Rightarrow> id) \<Rightarrow> (db \<Rightarrow> string) \<Rightarrow> id \<Rightarrow> string \<Rightarrow> provisioning_config \<Rightarrow> db
    \<Rightarrow> string res \<times> db" where
  "reserveManagedNode now uuid nodeName orgID profile cfg s =
    (let nodeID = ''managed-'' @ nodeName s
     in seq (UpsertOrgNode now (uuid s) (managed_input orgID nodeID profile cfg) s) (\<lambda>_ s. (Inr nodeID, s)))"

definition ensureSentinelLicenses :: "time \<Rightarrow> (db \<Rightarrow> id) \<Rightarrow> id \<Rightarrow> db \<Rightarrow> unit res \<times> db" where
  "ensureSentinelLicenses now uuid orgID s =
    (case GetOrgEntitlements s orgID of Inl e \<Rightarrow> (Inl e, s)
     | Inr ent \<Rightarrow>
       (let need = oe_sentinel_licenses_included ent - row_count (\<lambda>l. sl_org_id l = orgID) (sentinel_licenses s)
        in if need > 0 then CreateSentinelLicenses now uuid orgID (nat need) SentinelLicenseIncluded s else (Inr (), s)))"

definition provisionProPlan :: "time \<Rightarrow> (db \<Rightarrow> id) \<Rightarrow> (db \<Rightarrow> string) \<Rightarrow> id \<Rightarrow> provisioning_config \<Rightarrow> db \<Rightarrow> unit res \<times> db" where
  "provisionProPlan now uuid nodeName orgID cfg s =
    (if countManagedNodesByProfile s orgID DeploymentProfileShield = 0
     then seq (reserveManagedNode now uuid nodeName orgID DeploymentProfileShield cfg s) (\<lambda>nodeID s.
          seq (attachVPNService now uuid orgID nodeID s) (\<lambda>_ s.
          attachShieldService now uuid orgID nodeID s))
     else (case listManagedNodesByProfile s orgID DeploymentProfileShield of [] \<Rightarrow> (Inr (), s)
       | x # _ \<Rightarrow> seq (attachVPNService now uuid orgID (on_node_id x) s) (\<lambda>_ s.
                   attachShieldService now uuid orgID (on_node_id x) s)))"

text \<open>The two loops of \<open>provisionBusinessPlan\<close>.\<close>

fun add_sentinel_nodes :: "time \<Rightarrow> (db \<Rightarrow> id) \<Rightarrow> (db \<Rightarrow> string) \<Rightarrow> id \<Rightarrow> provisioning_config \<Rightarrow> nat \<Rightarrow> db \<Rightarrow> unit res \<times> db" where
  "add_sentinel_nodes now uuid nodeName orgID cfg 0 s = (Inr (), s)"
| "add_sentinel_nodes now uuid nodeName orgID cfg (Suc n) s =
    seq (reserveManagedNode now uuid nodeName orgID DeploymentProfileSentinel cfg s) (\<lambda>nodeID s.
    seq (attachVPNService now uuid orgID nodeID s) (\<lambda>_ s.
    seq (attachSentinelService now uuid orgID nodeID s) (\<lambda>_ s.
    add_sentinel_nodes now uuid nodeName orgID cfg n s)))"

fun serve_sentinel_nodes :: "time \<Rightarrow> (db \<Rightarrow> id) \<Rightarrow> id \<Rightarrow> org_node list \<Rightarrow> db \<Rightarrow> unit res \<times> db" where
  "serve_sentinel_nodes now uuid orgID [] s = (Inr (), s)"
| "serve_sentinel_nodes now uuid orgID (x # xs) s =
    seq (attachVPNService now uuid orgID (on_node_id x) s) (\<lambda>_ s.
    seq (attachSentinelService now uuid orgID (on_node_id x) s) (\<lambda>_ s.
    serve_sentinel_nodes now uuid orgID xs s))"

definition provisionBusinessPlan :: "time \<Rightarrow> (db \<Rightarrow> id) \<Rightarrow> (db \<Rightarrow> string) \<Rightarrow> id \<Rightarrow> provisioning_config \<Rightarrow> db \<Rightarrow> unit res \<times> db" where
  "provisionBusinessPlan now uuid nodeName orgID cfg s =
    seq (ensureSentinelLicenses now uuid orgID s) (\<lambda>_ s.
    (let existing = listManagedNodesByProfile s orgID DeploymentProfileSentinel
     in seq (add_sentinel_nodes now uuid nodeName orgID cfg (3 - length existing) s) (\<lambda>_ s.
        serve_sentinel_nodes now uuid orgID existing s)))"

definition ProvisionIncludedPlanResources :: "time \<Rightarrow> (db \<Rightarrow> id) \<Rightarrow> (db \<Rightarrow> string) \<Rightarrow> id \<Rightarrow> string \<Rightarrow> provisioning_config \<Rightarrow> db
    \<Rightarrow> unit res \<times> db" where
  "ProvisionIncludedPlanResources now uuid nodeName orgID plan cfg s =
    (if \<not> pc_enabled cfg then (Inr (), s)
     else case normalizeOrgPlan plan of Inl e \<Rightarrow> (Inl e, s)
     | Inr plan \<Rightarrow>
       if plan = OrgPlanPro then provisionProPlan now uuid nodeName orgID cfg s
       else if plan = OrgPlanBusiness then provisionBusinessPlan now uuid nodeName orgID cfg s
       else (Inr (), s))"

definition SetOrgPlanAndProvision :: "time \<Rightarrow> (db \<Rightarrow> id) \<Rightarrow> (db \<Rightarrow> string) \<Rightarrow> id \<Rightarrow> string \<Rightarrow> provisioning_config \<Rightarrow> db
    \<Rightarrow> org res \<times> db" where
  "SetOrgPlanAndProvision now uuid nodeName orgID plan cfg s =
    seq (SetOrgPlan now orgID plan s) (\<lambda>x s.
    seq (ProvisionIncludedPlanResources now uuid nodeName orgID plan cfg s) (\<lambda>_ s. (Inr x, s)))"

definition ReconcileUnlicensedSentinel :: "time \<Rightarrow> id \<Rightarrow> string \<Rightarrow> db \<Rightarrow> db" where
  "ReconcileUnlicensedSentinel now orgID nodeID s =
    (if CountAvailableSentinelLicenses s orgID > 0 then s
     else s\<lparr>org_node_services := upd_rows (\<lambda>v. sv_org_id v = orgID \<and> sv_node_id v = nodeID
            \<and> sv_service_type v = ServiceTypeErebrusFirewall \<and> sv_service_status v \<noteq> ServiceStatusDisabled)
            (\<lambda>v. v\<lparr>sv_service_status := ServiceStatusUnlicensed, sv_updated_at := now\<rparr>) (org_node_services s)\<rparr>)"

section \<open>What provisioning leaves\<close>

lemma org_nodes_Attach: "org_nodes (snd (AttachServiceToNode now i inp s)) = org_nodes s"
  by (simp add: AttachServiceToNode_def upsert_service_def Let_def split: sum.splits option.splits)

lemma org_nodes_attach_tx: "org_nodes (snd (AttachSentinelLicense now orgID nodeID s)) = org_nodes s"
  by (auto simp: AttachSentinelLicense_def AttachSentinelLicense_tx_def in_tx_def Let_def split: option.splits)

lemma org_nodes_seq: "org_nodes (snd r) = F \<Longrightarrow> (\<And>x s. org_nodes (snd (k x s)) = org_nodes s) \<Longrightarrow> org_nodes (snd (seq r k)) = F"
  by (auto simp: seq_def split: prod.splits sum.splits)

lemma org_nodes_services [simp]:
  "org_nodes (snd (attachVPNService now uuid orgID nodeID s)) = org_nodes s"
  "org_nodes (snd (attachShieldService now uuid orgID nodeID s)) = org_nodes s"
  "org_nodes (snd (attachSentinelService now uuid orgID nodeID s)) = org_nodes s"
  by (auto simp: attachVPNService_def attachShieldService_def attachSentinelService_def org_nodes_Attach org_nodes_attach_tx
      intro!: org_nodes_seq)

lemma org_nodes_licenses: "org_nodes (snd (CreateSentinelLicenses now uuid orgID n source s)) = org_nodes s"
  by (induction n arbitrary: s) simp_all

lemma org_nodes_serve: "org_nodes (snd (serve_sentinel_nodes now uuid orgID xs s)) = org_nodes s"
  by (induction xs arbitrary: s) (auto intro!: org_nodes_seq)

lemma profile_texts: "TrimSpace DeploymentProfileShield = DeploymentProfileShield"
  "TrimSpace DeploymentProfileSentinel = DeploymentProfileSentinel" "TrimSpace OrgNodeManagedByErebrus = OrgNodeManagedByErebrus"
  by code_simp+

text \<open>Managed node ids are drawn fresh.\<close>

definition fresh_names :: "(db \<Rightarrow> string) \<Rightarrow> bool" where
  "fresh_names nodeName \<longleftrightarrow> (\<forall>s. \<not> has_row (\<lambda>x. on_node_id x = ''managed-'' @ nodeName s) (org_nodes s))"

lemma count_length: "countManagedNodesByProfile s orgID profile = int (length (listManagedNodesByProfile s orgID profile))"
  by (simp add: countManagedNodesByProfile_def listManagedNodesByProfile_def row_count_def order_asc_def)

lemma Upsert_new:
  assumes "find (\<lambda>r. on_node_id r = ni_node_id inp) (org_nodes s) = None" and "UpsertOrgNode now i inp s = (Inr y, s')"
  shows "s' = s\<lparr>org_nodes := org_nodes s @ [y]\<rparr> \<and> on_org_id y = ni_org_id inp
    \<and> on_managed_by y = defaultIfEmpty (ni_managed_by inp) OrgNodeManagedByOrg
    \<and> on_deployment_profile y = defaultIfEmpty (ni_deployment_profile inp) DeploymentProfileStandard"
proof -
  have ins: "insert_org_node x s = (Inr (), t) \<Longrightarrow> t = s\<lparr>org_nodes := org_nodes s @ [x]\<rparr>" for x t
    by (simp add: insert_org_node_def split: if_splits)
  from assms show ?thesis
    unfolding UpsertOrgNode_def Let_def by (auto elim!: seq_okE dest!: ins)
qed

lemma reserve_counts:
  assumes "fresh_names nodeName" and "reserveManagedNode now uuid nodeName orgID profile cfg s = (Inr i, s')"
    and "profile = DeploymentProfileShield \<or> profile = DeploymentProfileSentinel"
  shows "countManagedNodesByProfile s' orgID profile = countManagedNodesByProfile s orgID profile + 1"
proof -
  have "find (\<lambda>r. on_node_id r = ''managed-'' @ nodeName s) (org_nodes s) = None"
    using assms(1) by (auto simp: fresh_names_def has_row_iff find_None_iff)
  moreover from assms(2) obtain x where
    "UpsertOrgNode now (uuid s) (managed_input orgID (''managed-'' @ nodeName s) profile cfg) s = (Inr x, s')"
    unfolding reserveManagedNode_def Let_def by (auto elim!: seq_okE)
  ultimately have "s' = s\<lparr>org_nodes := org_nodes s @ [x]\<rparr> \<and> on_org_id x = orgID
      \<and> on_managed_by x = OrgNodeManagedByErebrus \<and> on_deployment_profile x = defaultIfEmpty profile DeploymentProfileStandard"
    using Upsert_new [of "managed_input orgID (''managed-'' @ nodeName s) profile cfg" s now "uuid s" x s']
    by (simp add: managed_input_def defaultIfEmpty_def profile_texts)
  with assms(3) show ?thesis
    by (auto simp: countManagedNodesByProfile_def row_count_def managed_by_profile_def defaultIfEmpty_def profile_texts)
qed

lemma count_org_nodes: "org_nodes s' = org_nodes s \<Longrightarrow> countManagedNodesByProfile s' = countManagedNodesByProfile s"
  by (simp add: countManagedNodesByProfile_def fun_eq_iff)

lemma services_count:
  "countManagedNodesByProfile (snd (attachVPNService now uuid orgID nodeID s)) = countManagedNodesByProfile s"
  "countManagedNodesByProfile (snd (attachShieldService now uuid orgID nodeID s)) = countManagedNodesByProfile s"
  "countManagedNodesByProfile (snd (attachSentinelService now uuid orgID nodeID s)) = countManagedNodesByProfile s"
  by (rule count_org_nodes, simp)+

lemma add_sentinel_counts:
  assumes "fresh_names nodeName"
  shows "add_sentinel_nodes now uuid nodeName orgID cfg n s = (Inr (), s') \<Longrightarrow>
    countManagedNodesByProfile s' orgID DeploymentProfileSentinel
      = countManagedNodesByProfile s orgID DeploymentProfileSentinel + int n"
proof (induction n arbitrary: s)
  case (Suc n)
  then obtain i s1 s2 s3 where 1: "reserveManagedNode now uuid nodeName orgID DeploymentProfileSentinel cfg s = (Inr i, s1)"
    and 2: "attachVPNService now uuid orgID i s1 = (Inr (), s2)" "attachSentinelService now uuid orgID i s2 = (Inr (), s3)"
    and 3: "add_sentinel_nodes now uuid nodeName orgID cfg n s3 = (Inr (), s')"
    by (auto elim!: seq_okE)
  have "countManagedNodesByProfile s3 = countManagedNodesByProfile s1"
    using services_count(1) [of now uuid orgID i s1] services_count(3) [of now uuid orgID i s2] 2 by simp
  with Suc.IH [OF 3] reserve_counts [OF assms 1] show ?case by simp
qed simp

lemma snd_of: "f = (a, b) \<Longrightarrow> snd f = b"
  by simp

lemma pro_leaves_node:
  assumes "fresh_names nodeName" and "provisionProPlan now uuid nodeName orgID cfg s = (Inr (), s')"
  shows "countManagedNodesByProfile s' orgID DeploymentProfileShield \<noteq> 0"
proof (cases "countManagedNodesByProfile s orgID DeploymentProfileShield = 0")
  case True
  with assms(2) obtain i s1 s2 where 1: "reserveManagedNode now uuid nodeName orgID DeploymentProfileShield cfg s = (Inr i, s1)"
    and 2: "attachVPNService now uuid orgID i s1 = (Inr (), s2)" "attachShieldService now uuid orgID i s2 = (Inr (), s')"
    by (auto simp: provisionProPlan_def elim!: seq_okE)
  have "countManagedNodesByProfile s' = countManagedNodesByProfile s1"
    using services_count(1) [of now uuid orgID i s1] services_count(2) [of now uuid orgID i s2] 2 by simp
  with reserve_counts [OF assms(1) 1] True show ?thesis by simp
next
  case False
  have "org_nodes (snd (provisionProPlan now uuid nodeName orgID cfg s)) = org_nodes s"
    using False by (auto simp: provisionProPlan_def intro!: org_nodes_seq split: list.splits)
  with assms(2) False show ?thesis using count_org_nodes [of s' s] by simp
qed

lemma business_leaves_nodes:
  assumes "fresh_names nodeName" and "provisionBusinessPlan now uuid nodeName orgID cfg s = (Inr (), s')"
  shows "3 \<le> countManagedNodesByProfile s' orgID DeploymentProfileSentinel"
proof -
  from assms(2) obtain s1 s2 where 1: "ensureSentinelLicenses now uuid orgID s = (Inr (), s1)"
    and 2: "add_sentinel_nodes now uuid nodeName orgID cfg
        (3 - length (listManagedNodesByProfile s1 orgID DeploymentProfileSentinel)) s1 = (Inr (), s2)"
    and 3: "serve_sentinel_nodes now uuid orgID (listManagedNodesByProfile s1 orgID DeploymentProfileSentinel) s2 = (Inr (), s')"
    by (auto simp: provisionBusinessPlan_def Let_def elim!: seq_okE)
  have "org_nodes s' = org_nodes s2" using org_nodes_serve 3 by (metis snd_conv)
  then show ?thesis
    using add_sentinel_counts [OF assms(1) 2] count_length [of s1 orgID DeploymentProfileSentinel] count_org_nodes [of s' s2]
    by simp
qed

text \<open>
  Provisioning is idempotent on nodes.  When plan-included provisioning succeeds, the organization
  has at least the managed nodes its plan includes (one Shield node for Pro, three Sentinel nodes for
  Business), and provisioning again creates none.
\<close>

theorem provisioning_idempotent:
  assumes "fresh_names nodeName" and "ProvisionIncludedPlanResources now uuid nodeName orgID plan cfg s = (Inr (), s')"
  shows "org_nodes (snd (ProvisionIncludedPlanResources later uuid nodeName orgID plan cfg s')) = org_nodes s'
    \<and> (pc_enabled cfg \<and> plan = OrgPlanPro \<longrightarrow> 1 \<le> countManagedNodesByProfile s' orgID DeploymentProfileShield)
    \<and> (pc_enabled cfg \<and> plan = OrgPlanBusiness \<longrightarrow> 3 \<le> countManagedNodesByProfile s' orgID DeploymentProfileSentinel)"
proof -
  have norm: "normalizeOrgPlan OrgPlanPro = Inr OrgPlanPro" "normalizeOrgPlan OrgPlanBusiness = Inr OrgPlanBusiness"
    by code_simp+
  have pro: "org_nodes (snd (provisionProPlan later uuid nodeName orgID cfg s')) = org_nodes s'"
    if "countManagedNodesByProfile s' orgID DeploymentProfileShield \<noteq> 0"
    using that by (auto simp: provisionProPlan_def intro!: org_nodes_seq split: list.splits)
  have bus: "org_nodes (snd (provisionBusinessPlan later uuid nodeName orgID cfg s')) = org_nodes s'"
    if three: "3 \<le> countManagedNodesByProfile s' orgID DeploymentProfileSentinel"
  proof -
    have ens: "org_nodes (snd (ensureSentinelLicenses later uuid orgID s')) = org_nodes s'"
      by (auto simp: ensureSentinelLicenses_def Let_def org_nodes_licenses split: sum.splits)
    have len: "3 - length (listManagedNodesByProfile t orgID DeploymentProfileSentinel) = 0" if "org_nodes t = org_nodes s'" for t
      using three count_length [of t orgID DeploymentProfileSentinel] count_org_nodes [OF that] by simp
    show ?thesis
      unfolding provisionBusinessPlan_def Let_def
      using ens by (auto simp: seq_def len org_nodes_serve split: prod.splits sum.splits)
  qed
  have pos: "1 \<le> countManagedNodesByProfile s' orgID DeploymentProfileShield"
    if "provisionProPlan now uuid nodeName orgID cfg s = (Inr (), s')"
    using pro_leaves_node [OF assms(1) that] row_count_nonneg unfolding countManagedNodesByProfile_def
    by (metis int_one_le_iff_zero_less le_less)
  show ?thesis
    using assms(2) pro bus pos business_leaves_nodes [OF assms(1)] norm
    by (auto simp: ProvisionIncludedPlanResources_def split: if_splits sum.splits)
qed

definition long_name :: "db \<Rightarrow> string" where
  "long_name s = concat (map on_node_id (org_nodes s))"

lemma long_name_fresh: "fresh_names long_name"
proof -
  have "length x \<le> length (concat t)" if "x \<in> set t" for x :: string and t
    using that by (induction t) auto
  then have "length (on_node_id x) < length (''managed-'' @ long_name s)" if "x \<in> set (org_nodes s)" for x s
    using that by (fastforce simp: long_name_def intro: le_imp_less_Suc le_SucI)
  then show ?thesis unfolding fresh_names_def has_row_iff by (metis less_irrefl)
qed

definition pro_world :: db where
  "pro_world = empty_db\<lparr>orgs := [\<lparr>o_id = ''o1'', o_name = '''', o_slug = ''o'', o_plan = OrgPlanPro,
     o_billing_status = OrgBillingActive, o_verification_status = '''', o_public_profile_enabled = False,
     o_owner_user_id = ''u1'', o_created_at = 0, o_updated_at = 0\<rparr>]\<rparr>"

definition row_uuid :: "db \<Rightarrow> id" where
  "row_uuid s = replicate (length (org_nodes s) + length (org_node_services s)) CHR ''i''"

definition pro_result :: "unit res \<times> db" where
  "pro_result = ProvisionIncludedPlanResources 3 row_uuid long_name ''o1'' OrgPlanPro
     \<lparr>pc_enabled = True, pc_default_region = ''eu''\<rparr> pro_world"

theorem provisioning_idempotent_witness:
  "fst pro_result = Inr () \<and> map on_node_id (org_nodes (snd pro_result)) = [''managed-'']
   \<and> org_nodes (snd (ProvisionIncludedPlanResources 9 row_uuid long_name ''o1'' OrgPlanPro
     \<lparr>pc_enabled = True, pc_default_region = ''eu''\<rparr> (snd pro_result))) = org_nodes (snd pro_result)"
proof -
  have ok: "fst pro_result = Inr ()" by code_simp
  have "ProvisionIncludedPlanResources 3 row_uuid long_name ''o1'' OrgPlanPro \<lparr>pc_enabled = True, pc_default_region = ''eu''\<rparr>
      pro_world = (Inr (), snd pro_result)"
    using ok by (simp add: pro_result_def prod_eq_iff)
  note provisioning_idempotent [OF long_name_fresh this, of 9]
  moreover have "map on_node_id (org_nodes (snd pro_result)) = [''managed-'']" by code_simp
  ultimately show ?thesis using ok by blast
qed

end
