(* ===== verification/Firewall.thy ===== *)
theory Firewall
  imports NodeApi
begin

text \<open>
  The firewall of a node: \<open>internal/store/firewall.go\<close>, \<open>firewall_policy.go\<close> and \<open>firewall_credentials.go\<close>.  A
  node has one firewall service, Shield or Sentinel; Sentinel rules are kept by the gateway and sent to
  the node as one policy.
\<close>

abbreviation FirewallRuleDomainAllow :: string where "FirewallRuleDomainAllow \<equiv> ''domain_allow''"
abbreviation FirewallRuleDomainBlock :: string where "FirewallRuleDomainBlock \<equiv> ''domain_block''"
abbreviation FirewallRuleWildcardDomainBlock :: string where "FirewallRuleWildcardDomainBlock \<equiv> ''wildcard_domain_block''"
abbreviation FirewallRuleDNSRewrite :: string where "FirewallRuleDNSRewrite \<equiv> ''dns_rewrite''"
abbreviation FirewallRuleUpstreamResolverConfig :: string where
  "FirewallRuleUpstreamResolverConfig \<equiv> ''upstream_resolver_config''"

abbreviation ServiceStatusDegraded :: string where "ServiceStatusDegraded \<equiv> ''degraded''"
abbreviation ServiceStatusError :: string where "ServiceStatusError \<equiv> ''error''"

section \<open>The service\<close>

record firewall_service =
  fw_service :: org_node_service
  fw_kind :: string

definition firewall_at :: "id \<Rightarrow> string \<Rightarrow> org_node_service \<Rightarrow> bool" where
  "firewall_at orgID nodeID v \<longleftrightarrow> sv_org_id v = orgID \<and> sv_node_id v = nodeID
     \<and> (sv_service_type v = ServiceTypeCommunityFirewall \<or> sv_service_type v = ServiceTypeErebrusFirewall)
     \<and> sv_service_status v \<noteq> ServiceStatusDisabled"

definition GetFirewallService :: "db \<Rightarrow> id \<Rightarrow> string \<Rightarrow> firewall_service res" where
  "GetFirewallService s orgID nodeID =
    (case first_row (order_asc sv_created_at (filter (firewall_at orgID nodeID) (org_node_services s))) of
       None \<Rightarrow> Inl ErrNotFound
     | Some v \<Rightarrow> Inr \<lparr>fw_service = v, fw_kind =
         (if sv_service_type v = ServiceTypeErebrusFirewall then ''sentinel'' else ''shield'')\<rparr>)"

definition UpdateFirewallServiceStatus :: "time \<Rightarrow> id \<Rightarrow> string \<Rightarrow> string \<Rightarrow> string option \<Rightarrow> string option \<Rightarrow> db
    \<Rightarrow> org_node_service res \<times> db" where
  "UpdateFirewallServiceStatus now orgID nodeID status configRef accessURL s =
    (case GetFirewallService s orgID nodeID of Inl e \<Rightarrow> (Inl e, s)
     | Inr fw \<Rightarrow>
       (let cfg = patched configRef (sv_config_ref (fw_service fw));
            url = patched accessURL (sv_access_url (fw_service fw));
            p = service_at orgID nodeID (sv_id (fw_service fw));
            upd = (\<lambda>v. v\<lparr>sv_service_status := status, sv_config_ref := keep_if_empty cfg (sv_config_ref v),
                     sv_access_url := keep_if_empty url (sv_access_url v), sv_updated_at := now\<rparr>)
        in (Inr (upd (fw_service fw)), s\<lparr>org_node_services := upd_rows p upd (org_node_services s)\<rparr>)))"

section \<open>Rules\<close>

definition validateFirewallRuleType :: "string \<Rightarrow> err option" where
  "validateFirewallRuleType ruleType =
    (if ruleType = FirewallRuleDomainAllow \<or> ruleType = FirewallRuleDomainBlock
        \<or> ruleType = FirewallRuleWildcardDomainBlock \<or> ruleType = FirewallRuleDNSRewrite
        \<or> ruleType = FirewallRuleUpstreamResolverConfig then None
     else Some (ErrMsg (''invalid rule_type: '' @ ruleType)))"

record create_rule_input =
  cr_org_id :: id
  cr_node_id :: string
  cr_firewall_service_id :: id
  cr_rule_type :: string
  cr_target :: string
  cr_action :: string
  cr_scope :: string
  cr_enabled :: bool
  cr_created_by :: id

definition CreateFirewallRule :: "time \<Rightarrow> id \<Rightarrow> create_rule_input \<Rightarrow> db \<Rightarrow> firewall_rule res \<times> db" where
  "CreateFirewallRule now newID inp s =
    (case validateFirewallRuleType (cr_rule_type inp) of Some e \<Rightarrow> (Inl e, s)
     | None \<Rightarrow>
       if TrimSpace (cr_target inp) = '''' then (Inl (ErrMsg ''target is required''), s)
       else if has_row (\<lambda>r. fr_id r = newID) (firewall_rules s) then (Inl unique_violation, s)
       else if \<not> fk_org s (cr_org_id inp) \<or> \<not> fk_user s (cr_created_by inp)
            \<or> \<not> has_row (\<lambda>v. sv_id v = cr_firewall_service_id inp) (org_node_services s)
       then (Inl foreign_key_violation, s)
       else (let r = \<lparr>fr_id = newID, fr_org_id = cr_org_id inp, fr_node_id = cr_node_id inp,
                fr_firewall_service_id = cr_firewall_service_id inp, fr_rule_type = cr_rule_type inp,
                fr_target = cr_target inp, fr_action = cr_action inp, fr_scope = cr_scope inp,
                fr_enabled = cr_enabled inp, fr_created_by = cr_created_by inp, fr_created_at = now, fr_updated_at = now\<rparr>
             in (Inr r, s\<lparr>firewall_rules := firewall_rules s @ [r]\<rparr>)))"

definition ListFirewallRules :: "db \<Rightarrow> id \<Rightarrow> string \<Rightarrow> id \<Rightarrow> firewall_rule list" where
  "ListFirewallRules s orgID nodeID serviceID = order_asc fr_created_at (filter (\<lambda>r. fr_org_id r = orgID
     \<and> fr_node_id r = nodeID \<and> fr_firewall_service_id r = serviceID) (firewall_rules s))"

definition rule_at :: "id \<Rightarrow> string \<Rightarrow> id \<Rightarrow> firewall_rule \<Rightarrow> bool" where
  "rule_at orgID nodeID ruleID r \<longleftrightarrow> fr_id r = ruleID \<and> fr_org_id r = orgID \<and> fr_node_id r = nodeID"

definition getFirewallRule :: "db \<Rightarrow> id \<Rightarrow> string \<Rightarrow> id \<Rightarrow> firewall_rule res" where
  "getFirewallRule s orgID nodeID ruleID =
    (case find (rule_at orgID nodeID ruleID) (firewall_rules s) of None \<Rightarrow> Inl ErrNotFound | Some r \<Rightarrow> Inr r)"

record update_rule_input =
  ur_target :: "string option"
  ur_action :: "string option"
  ur_scope :: "string option"
  ur_enabled :: "bool option"

definition UpdateFirewallRule :: "time \<Rightarrow> id \<Rightarrow> string \<Rightarrow> id \<Rightarrow> update_rule_input \<Rightarrow> db \<Rightarrow> firewall_rule res \<times> db" where
  "UpdateFirewallRule now orgID nodeID ruleID inp s =
    (case getFirewallRule s orgID nodeID ruleID of Inl e \<Rightarrow> (Inl e, s)
     | Inr cur \<Rightarrow>
       (let upd = (\<lambda>r. r\<lparr>fr_target := patched (ur_target inp) (fr_target cur),
              fr_action := patched (ur_action inp) (fr_action cur), fr_scope := patched (ur_scope inp) (fr_scope cur),
              fr_enabled := (case ur_enabled inp of None \<Rightarrow> fr_enabled cur | Some b \<Rightarrow> b), fr_updated_at := now\<rparr>)
        in (Inr (upd cur), s\<lparr>firewall_rules := upd_rows (rule_at orgID nodeID ruleID) upd (firewall_rules s)\<rparr>)))"

definition DeleteFirewallRule :: "id \<Rightarrow> string \<Rightarrow> id \<Rightarrow> db \<Rightarrow> unit res \<times> db" where
  "DeleteFirewallRule orgID nodeID ruleID s =
    (if row_count (rule_at orgID nodeID ruleID) (firewall_rules s) = 0 then (Inl ErrNotFound, s)
     else (Inr (), s\<lparr>firewall_rules := del_rows (rule_at orgID nodeID ruleID) (firewall_rules s)\<rparr>))"

section \<open>The policy sent to a node\<close>

record sync_rule =
  sr_rule_type :: string
  sr_target :: string
  sr_action :: string
  sr_value :: string
  sr_enabled :: bool

record sync_payload =
  fp_org_id :: id
  fp_node_id :: string
  fp_service_kind :: string
  fp_rules :: "sync_rule list"
  fp_upstreams :: "string list"
  fp_licensed :: bool
  fp_shield_admin :: string

text \<open>One turn of the loop.\<close>

definition add_sync_rule :: "sync_payload \<Rightarrow> firewall_rule \<Rightarrow> sync_payload" where
  "add_sync_rule out r =
    (if \<not> fr_enabled r then out
     else
       (let sr = \<lparr>sr_rule_type = fr_rule_type r, sr_target = fr_target r, sr_action = fr_action r, sr_value = '''',
                  sr_enabled = True\<rparr>;
            add = (\<lambda>sr. out\<lparr>fp_rules := fp_rules out @ [sr]\<rparr>)
        in if fr_rule_type r = FirewallRuleDNSRewrite
           then add (sr\<lparr>sr_action := ''rewrite'', sr_value := TrimSpace (fr_action r)\<rparr>)
           else if fr_rule_type r = FirewallRuleUpstreamResolverConfig
           then out\<lparr>fp_upstreams := fp_upstreams out @ [TrimSpace (fr_target r)]\<rparr>
           else if fr_rule_type r = FirewallRuleDomainBlock \<or> fr_rule_type r = FirewallRuleWildcardDomainBlock
           then add (sr\<lparr>sr_action := ''block''\<rparr>)
           else if fr_rule_type r = FirewallRuleDomainAllow then add (sr\<lparr>sr_action := ''allow''\<rparr>)
           else out))"

definition BuildFirewallSyncPayload :: "id \<Rightarrow> string \<Rightarrow> firewall_service \<Rightarrow> firewall_rule list \<Rightarrow> sync_payload" where
  "BuildFirewallSyncPayload orgID nodeID fw rules = foldl add_sync_rule
     \<lparr>fp_org_id = orgID, fp_node_id = nodeID, fp_service_kind = fw_kind fw, fp_rules = [], fp_upstreams = [],
      fp_licensed = (sv_service_status (fw_service fw) \<noteq> ServiceStatusUnlicensed),
      fp_shield_admin = (if fw_kind fw = ''shield'' then sv_access_url (fw_service fw) else '''')\<rparr> rules"

section \<open>Reports of the node\<close>

definition ServiceHealthFromNode :: "string \<Rightarrow> string" where
  "ServiceHealthFromNode reported =
    (let r = ToLower (TrimSpace reported)
     in if r = ''active'' then ServiceStatusActive else if r = ''degraded'' then ServiceStatusDegraded
        else if r = ''unreachable'' \<or> r = ''error'' then ServiceStatusError
        else if r = ''unlicensed'' then ServiceStatusUnlicensed else '''')"

definition OrgIDForNode :: "db \<Rightarrow> string \<Rightarrow> id res" where
  "OrgIDForNode s peerID =
    (case find (\<lambda>x. on_node_id x = peerID) (org_nodes s) of
       None \<Rightarrow> Inl (ErrMsg ''sql: no rows in result set'') | Some x \<Rightarrow> Inr (on_org_id x))"

definition report_mappings :: "(string \<times> string) list" where
  "report_mappings = [(''vpn'', ServiceTypeVPN), (''community_firewall'', ServiceTypeCommunityFirewall),
     (''erebrus_firewall'', ServiceTypeErebrusFirewall), (''shield'', ServiceTypeCommunityFirewall),
     (''sentinel'', ServiceTypeErebrusFirewall), (''drop'', ServiceTypeDrop)]"

definition apply_report :: "time \<Rightarrow> id \<Rightarrow> string \<Rightarrow> (string \<times> string) list \<Rightarrow> db \<Rightarrow> string \<times> string \<Rightarrow> db" where
  "apply_report now orgID peerID services s m =
    (case map_of services (fst m) of None \<Rightarrow> s
     | Some raw \<Rightarrow>
       if ServiceHealthFromNode raw = '''' then s
       else s\<lparr>org_node_services := upd_rows (\<lambda>v. sv_org_id v = orgID \<and> sv_node_id v = peerID \<and> sv_service_type v = snd m)
              (\<lambda>v. v\<lparr>sv_service_status := ServiceHealthFromNode raw, sv_updated_at := now\<rparr>) (org_node_services s)\<rparr>)"

definition UpdateNodeServicesFromReport :: "time \<Rightarrow> string \<Rightarrow> (string \<times> string) list \<Rightarrow> db \<Rightarrow> unit res \<times> db" where
  "UpdateNodeServicesFromReport now peerID services s =
    (if services = [] then (Inr (), s)
     else case OrgIDForNode s peerID of Inl e \<Rightarrow> (Inl e, s)
     | Inr orgID \<Rightarrow> (Inr (), foldl (apply_report now orgID peerID services) s report_mappings))"

definition UpdateOrgNodeDeploymentProfile :: "time \<Rightarrow> string \<Rightarrow> string \<Rightarrow> db \<Rightarrow> db" where
  "UpdateOrgNodeDeploymentProfile now peerID profile s =
    (let profile = NormalizeDeploymentProfile profile
     in if profile = DeploymentProfileStandard then s
        else s\<lparr>org_nodes := upd_rows (\<lambda>x. on_node_id x = peerID)
               (\<lambda>x. x\<lparr>on_deployment_profile := profile, on_updated_at := now\<rparr>) (org_nodes s)\<rparr>)"

section \<open>Shield credentials\<close>

definition UpsertFirewallCredential :: "time \<Rightarrow> string \<Rightarrow> string \<Rightarrow> string \<Rightarrow> string \<Rightarrow> db \<Rightarrow> unit res \<times> db" where
  "UpsertFirewallCredential now nodeID adminUser secret adminURL s =
    (let user = (if adminUser = '''' then ''admin'' else adminUser)
     in if has_row (\<lambda>c. fc_node_id c = nodeID) (node_firewall_credentials s)
        then (Inr (), s\<lparr>node_firewall_credentials := upd_rows (\<lambda>c. fc_node_id c = nodeID)
           (\<lambda>c. c\<lparr>fc_admin_user := user, fc_secret := secret, fc_admin_url := keep_if_empty adminURL (fc_admin_url c),
                 fc_updated_at := now\<rparr>) (node_firewall_credentials s)\<rparr>)
        else if \<not> has_row (\<lambda>n. n_peer_id n = nodeID) (nodes s) then (Inl foreign_key_violation, s)
        else (Inr (), s\<lparr>node_firewall_credentials := node_firewall_credentials s @
           [\<lparr>fc_node_id = nodeID, fc_admin_user = user, fc_secret = secret, fc_admin_url = adminURL, fc_updated_at = now\<rparr>]\<rparr>))"

definition GetFirewallCredential :: "db \<Rightarrow> string \<Rightarrow> firewall_credential res" where
  "GetFirewallCredential s nodeID =
    (case find (\<lambda>c. fc_node_id c = nodeID) (node_firewall_credentials s) of None \<Rightarrow> Inl ErrNotFound | Some c \<Rightarrow> Inr c)"

end
