(* ===== verification/Hub.thy ===== *)
theory Hub
  imports Firewall Vpn "HOL-Library.AList"
begin

text \<open>
  The node control plane: \<open>internal/nodehub/hub.go\<close> and \<open>messages.go\<close>, with \<open>NormalizeRegion\<close> of
  \<open>internal/metrics/metrics.go\<close> and the admin command handler of \<open>internal/api/nodes.go\<close>.

  Connections are numbered in the order they are accepted and live in \<open>hb_all\<close>, so that a replaced
  connection that is still being read is a number the map \<open>hb_conns\<close> no longer holds.  Every operation
  under the mutex is one step.  Frames are the values they encode; \<open>json.Marshal\<close> of the parts of a
  report the store keeps verbatim is a field of the message.  Left out: deadlines, pings, logging, the
  per-minute metric samples.
\<close>

section \<open>Messages\<close>

abbreviation ActionDrain :: string where "ActionDrain \<equiv> ''drain''"
abbreviation ActionUndrain :: string where "ActionUndrain \<equiv> ''undrain''"
abbreviation ActionRotateReality :: string where "ActionRotateReality \<equiv> ''rotate_reality''"
abbreviation ActionResyncPeers :: string where "ActionResyncPeers \<equiv> ''resync_peers''"
abbreviation ActionSyncFirewall :: string where "ActionSyncFirewall \<equiv> ''sync_firewall''"
abbreviation ActionRestartFirewall :: string where "ActionRestartFirewall \<equiv> ''restart_firewall''"
abbreviation ActionResetFirewallCredentials :: string where "ActionResetFirewallCredentials \<equiv> ''reset_firewall_credentials''"
abbreviation ActionSetFirewallCredentials :: string where "ActionSetFirewallCredentials \<equiv> ''set_firewall_credentials''"

text \<open>Gateway to node: \<open>hello_ack\<close> with its interval, or a command with action, request id and arguments.\<close>

datatype frame = HelloAck int | Command string string string

record drop_capability =
  dcap_enabled :: bool
  dcap_accepts_public_uploads :: bool
  dcap_webui_available :: bool

record drop_report =
  drep_state :: string
  drep_repo_size_bytes :: int
  drep_storage_max_bytes :: int
  drep_num_objects :: int

record endpoints =
  ep_wireguard_port :: int
  ep_vless_reality_port :: int
  ep_hysteria2_port :: int

record hello =
  he_version :: string
  he_ip_hash :: string
  he_region :: string
  he_zone :: string
  he_ip :: string
  he_access_mode :: string
  he_drop :: "drop_capability option"
  he_endpoints :: endpoints
  he_deployment_profile :: string
  he_services :: "(string \<times> string) list"
  he_spec_json :: string
  he_capabilities_json :: string
  he_endpoints_json :: string

record heartbeat =
  hbt_status :: string
  hbt_load_json :: string
  hbt_speedtest_json :: string
  hbt_rx_bytes :: int
  hbt_tx_bytes :: int
  hbt_versions :: "(string \<times> string) list"
  hbt_services :: "(string \<times> string) list"
  hbt_drop :: "drop_report option"

record peer_usage =
  pu_peer_id :: id
  pu_rx_bytes_delta :: int
  pu_tx_bytes_delta :: int
  pu_last_handshake :: int

text \<open>Node to gateway; \<open>Ignored\<close> is any other type and a body that does not decode.\<close>

datatype message = Hello hello | Heartbeat heartbeat | UsageReport "peer_usage list" | CommandResult | Ignored

section \<open>State\<close>

record conn =
  cn_peer :: string
  cn_region :: string
  cn_send :: "frame list"
  cn_closed :: bool
  cn_reading :: bool

record hub =
  hb_conns :: "(string \<times> nat) list"
  hb_all :: "conn list"
  hb_regions :: "(string \<times> int) list"

definition new_hub :: hub where
  "new_hub = \<lparr>hb_conns = [], hb_all = [], hb_regions = []\<rparr>"

definition sendQueue :: nat where "sendQueue = 16"
definition heartbeatIntervalSec :: int where "heartbeatIntervalSec = 30"

definition NormalizeRegion :: "string \<Rightarrow> string" where
  "NormalizeRegion region =
    (let r = ToLower (TrimSpace region)
     in if r = ''sg'' \<or> r = ''in'' \<or> r = ''eu'' \<or> r = ''us'' then r else ''unknown'')"

definition conn_of :: "hub \<Rightarrow> string \<Rightarrow> nat option" where
  "conn_of h peer = map_of (hb_conns h) peer"

definition Online :: "hub \<Rightarrow> nat" where "Online h = length (hb_conns h)"

definition region_count :: "hub \<Rightarrow> string \<Rightarrow> int" where
  "region_count h r = (case map_of (hb_regions h) r of None \<Rightarrow> 0 | Some n \<Rightarrow> n)"

definition upd_conn :: "nat \<Rightarrow> (conn \<Rightarrow> conn) \<Rightarrow> hub \<Rightarrow> hub" where
  "upd_conn i f h = h\<lparr>hb_all := (hb_all h)[i := f (hb_all h ! i)]\<rparr>"

definition adjustRegionLocked :: "string \<Rightarrow> int \<Rightarrow> hub \<Rightarrow> hub" where
  "adjustRegionLocked region delta h =
    (let r = NormalizeRegion region; n = region_count h r + delta
     in h\<lparr>hb_regions := (if n \<le> 0 then AList.delete r (hb_regions h) else AList.update r n (hb_regions h))\<rparr>)"

section \<open>Connections\<close>

text \<open>\<open>Serve\<close> up to the read loop, and after it.\<close>

definition hub_connect :: "string \<Rightarrow> hub \<Rightarrow> hub" where
  "hub_connect peer h =
    (let k = length (hb_all h);
         h = (case conn_of h peer of None \<Rightarrow> h
              | Some i \<Rightarrow> upd_conn i (\<lambda>c. c\<lparr>cn_closed := True\<rparr>) (adjustRegionLocked (cn_region (hb_all h ! i)) (-1) h));
         h = h\<lparr>hb_all := hb_all h @ [\<lparr>cn_peer = peer, cn_region = '''', cn_send = [], cn_closed = False, cn_reading = True\<rparr>],
               hb_conns := AList.update peer k (hb_conns h)\<rparr>
     in adjustRegionLocked ''unknown'' 1 h)"

definition hub_disconnect :: "time \<Rightarrow> nat \<Rightarrow> hub \<times> db \<Rightarrow> hub \<times> db" where
  "hub_disconnect now i hs =
    (let (h, s) = hs; c = hb_all h ! i; peer = cn_peer c;
         h = (if conn_of h peer = Some i
              then (adjustRegionLocked (cn_region c) (-1) h)\<lparr>hb_conns := AList.delete peer (hb_conns h)\<rparr> else h)
     in (upd_conn i (\<lambda>c. c\<lparr>cn_reading := False\<rparr>) h, SetNodeStatus now peer ''offline'' s))"

definition setRegion :: "nat \<Rightarrow> string \<Rightarrow> hub \<Rightarrow> hub" where
  "setRegion i region h =
    (let r = NormalizeRegion region; old = cn_region (hb_all h ! i)
     in if r = old then h
        else adjustRegionLocked r 1 (upd_conn i (\<lambda>c. c\<lparr>cn_region := r\<rparr>) (adjustRegionLocked old (-1) h)))"

text \<open>
  \<open>select { case c.send <- frame: default: }\<close>: a full queue drops the frame; a closed channel panics,
  which ends the goroutine.
\<close>

datatype send_outcome = Sent | Dropped | Panic

definition send_frame :: "nat \<Rightarrow> frame \<Rightarrow> hub \<Rightarrow> send_outcome \<times> hub" where
  "send_frame i f h =
    (let c = hb_all h ! i
     in if cn_closed c then (Panic, h)
        else if length (cn_send c) < sendQueue then (Sent, upd_conn i (\<lambda>c. c\<lparr>cn_send := cn_send c @ [f]\<rparr>) h)
        else (Dropped, h))"

definition SendCommand :: "string \<Rightarrow> string \<Rightarrow> string \<Rightarrow> string \<Rightarrow> hub \<Rightarrow> send_outcome \<times> hub" where
  "SendCommand peer action args requestID h =
    (case conn_of h peer of None \<Rightarrow> (Dropped, h) | Some i \<Rightarrow> send_frame i (Command action requestID args) h)"

text \<open>The writer takes the next frame.\<close>

definition pop_frame :: "nat \<Rightarrow> hub \<Rightarrow> hub" where
  "pop_frame i h = upd_conn i (\<lambda>c. c\<lparr>cn_send := tl (cn_send c)\<rparr>) h"

section \<open>Reports\<close>

definition normalizeAccessMode :: "string \<Rightarrow> string" where
  "normalizeAccessMode m = (if m = ''public'' \<or> m = ''private'' then m else '''')"

definition protocolsFromEndpoints :: "endpoints \<Rightarrow> string list" where
  "protocolsFromEndpoints e =
    (if ep_wireguard_port e \<noteq> 0 then [''wireguard''] else [])
    @ (if ep_vless_reality_port e \<noteq> 0 then [''vless-reality''] else [])
    @ (if ep_hysteria2_port e \<noteq> 0 then [''hysteria2''] else [])"

definition hello_store :: "time \<Rightarrow> string \<Rightarrow> hello \<Rightarrow> db \<Rightarrow> db" where
  "hello_store now peer h s =
    (let s = snd (ApplyHello now \<lparr>hu_peer_id = peer, hu_ip = he_ip h, hu_ip_hash = he_ip_hash h,
            hu_version = he_version h, hu_region = he_region h, hu_zone = he_zone h,
            hu_access_mode = normalizeAccessMode (he_access_mode h), hu_spec = he_spec_json h,
            hu_capabilities = he_capabilities_json h, hu_endpoints = he_endpoints_json h,
            hu_protocols = protocolsFromEndpoints (he_endpoints h)\<rparr> s);
         s = (if he_deployment_profile h \<noteq> '''' then UpdateOrgNodeDeploymentProfile now peer (he_deployment_profile h) s else s);
         s = snd (UpdateNodeServicesFromReport now peer (he_services h) s)
     in case he_drop h of None \<Rightarrow> s
        | Some d \<Rightarrow> ApplyDropCapability now peer (dcap_enabled d) (dcap_accepts_public_uploads d) (dcap_webui_available d) s)"

definition onHello :: "time \<Rightarrow> nat \<Rightarrow> hello \<Rightarrow> hub \<times> db \<Rightarrow> send_outcome \<times> hub \<times> db" where
  "onHello now i m hs =
    (let (h, s) = hs;
         s = hello_store now (cn_peer (hb_all h ! i)) m s;
         (r, h) = send_frame i (HelloAck heartbeatIntervalSec) (setRegion i (he_region m) h)
     in (r, h, s))"

definition version_of :: "(string \<times> string) list \<Rightarrow> string \<Rightarrow> string" where
  "version_of vs k = (case map_of vs k of None \<Rightarrow> '''' | Some v \<Rightarrow> v)"

definition onHeartbeat :: "time \<Rightarrow> string \<Rightarrow> heartbeat \<Rightarrow> db \<Rightarrow> db" where
  "onHeartbeat now peer m s =
    (case ApplyHeartbeat now peer (if hbt_status m = '''' then ''online'' else hbt_status m) (hbt_load_json m)
            (hbt_speedtest_json m) (hbt_rx_bytes m) (hbt_tx_bytes m) (version_of (hbt_versions m) ''node'') s of
       (Inl _, s) \<Rightarrow> s
     | (Inr _, s) \<Rightarrow>
        (let s = TouchOrgNodeHeartbeat now peer now s;
             s = snd (UpdateNodeServicesFromReport now peer (hbt_services m) s)
         in case hbt_drop m of None \<Rightarrow> s
            | Some d \<Rightarrow> ApplyDropStatus now peer (drep_state d) (version_of (hbt_versions m) ''kubo'')
                 (drep_repo_size_bytes d) (drep_storage_max_bytes d) (drep_num_objects d) s))"

definition onUsage :: "time \<Rightarrow> peer_usage list \<Rightarrow> db \<Rightarrow> db" where
  "onUsage now peers s = foldl (\<lambda>s p. snd (AddUsage now (pu_peer_id p) (pu_rx_bytes_delta p) (pu_tx_bytes_delta p)
     (pu_last_handshake p) s)) s peers"

definition hub_handle :: "time \<Rightarrow> nat \<Rightarrow> message \<Rightarrow> hub \<times> db \<Rightarrow> send_outcome \<times> hub \<times> db" where
  "hub_handle now i m hs =
    (let (h, s) = hs; peer = cn_peer (hb_all h ! i)
     in case m of Hello x \<Rightarrow> onHello now i x hs
        | Heartbeat x \<Rightarrow> (Dropped, h, onHeartbeat now peer x s)
        | UsageReport ps \<Rightarrow> (Dropped, h, onUsage now ps s)
        | CommandResult \<Rightarrow> (Dropped, h, s) | Ignored \<Rightarrow> (Dropped, h, s))"

text \<open>A panic unwinds \<open>Serve\<close> past its clean-up.\<close>

definition hub_frame :: "time \<Rightarrow> nat \<Rightarrow> message \<Rightarrow> hub \<times> db \<Rightarrow> hub \<times> db" where
  "hub_frame now i m hs =
    (case hub_handle now i m hs of
       (Panic, h, s) \<Rightarrow> (upd_conn i (\<lambda>c. c\<lparr>cn_reading := False\<rparr>) h, s)
     | (_, h, s) \<Rightarrow> (h, s))"

section \<open>Admin commands\<close>

definition allowedNodeCommandActions :: "string list" where
  "allowedNodeCommandActions = [ActionDrain, ActionUndrain, ActionRotateReality, ActionResyncPeers, ActionSyncFirewall,
     ActionRestartFirewall, ActionResetFirewallCredentials, ActionSetFirewallCredentials]"

definition handleAdminNodeCommand :: "string \<Rightarrow> string \<Rightarrow> (string \<times> string) option \<Rightarrow> hub \<times> db \<Rightarrow> string resp \<times> hub" where
  "handleAdminNodeCommand requestID param body hs =
    (let (h, s) = hs in
     case body of None \<Rightarrow> (Fail 400 ''action required'', h)
     | Some (action, args) \<Rightarrow>
       if action = '''' then (Fail 400 ''action required'', h)
       else if action \<notin> set allowedNodeCommandActions then (Fail 400 ''invalid action'', h)
       else (case ResolvePeerID s param of
          Inl e \<Rightarrow> (if e = ErrNotFound then Fail 404 ''node not found'' else Fail 500 ''failed to resolve node'', h)
        | Inr peer \<Rightarrow>
          (case SendCommand peer action args requestID h of
             (r, h) \<Rightarrow> (if r \<noteq> Sent then Fail 409 ''node not connected'' else Ok 202 requestID, h))))"

end
