(* ===== verification/HubSafety.thy ===== *)
theory HubSafety
  imports Hub
begin

text \<open>
  The hub as a transition system: which connection is current, that commands are only queued on it,
  that the session counts per region are exact; and what a replaced connection can still do.
\<close>

section \<open>Steps\<close>

text \<open>Every step is one critical section, one received frame, or one frame written.\<close>

inductive hub_step :: "hub \<times> db \<Rightarrow> hub \<times> db \<Rightarrow> bool" where
  connect: "hub_step (h, s) (hub_connect peer h, s)"
| received: "i < length (hb_all h) \<Longrightarrow> cn_reading (hb_all h ! i) \<Longrightarrow> hub_step (h, s) (hub_frame now i m (h, s))"
| stopped: "i < length (hb_all h) \<Longrightarrow> cn_reading (hb_all h ! i) \<Longrightarrow> hub_step (h, s) (hub_disconnect now i (h, s))"
| command: "hub_step (h, s) (snd (SendCommand peer action args req h), s)"
| written: "i < length (hb_all h) \<Longrightarrow> hub_step (h, s) (pop_frame i h, s)"
| elsewhere: "hub_step (h, s) (h, s')"

definition current :: "hub \<Rightarrow> string \<Rightarrow> nat \<Rightarrow> bool" where
  "current h peer i \<longleftrightarrow> conn_of h peer = Some i"

text \<open>The map holds, for each peer, an open connection of that peer that is being read; queues are bounded.\<close>

definition hub_wf :: "hub \<Rightarrow> bool" where
  "hub_wf h \<longleftrightarrow> distinct (map fst (hb_conns h))
     \<and> (\<forall>p i. conn_of h p = Some i \<longrightarrow> i < length (hb_all h) \<and> cn_peer (hb_all h ! i) = p
          \<and> \<not> cn_closed (hb_all h ! i) \<and> cn_reading (hb_all h ! i))
     \<and> (\<forall>c\<in>set (hb_all h). length (cn_send c) \<le> sendQueue)"

lemma upd_conn_simps [simp]: "hb_conns (upd_conn i f h) = hb_conns h" "hb_regions (upd_conn i f h) = hb_regions h"
  "hb_all (upd_conn i f h) = (hb_all h)[i := f (hb_all h ! i)]" "conn_of (upd_conn i f h) = conn_of h"
  by (simp_all add: upd_conn_def conn_of_def fun_eq_iff)

lemma adjust_simps [simp]: "hb_conns (adjustRegionLocked r d h) = hb_conns h" "hb_all (adjustRegionLocked r d h) = hb_all h"
  "conn_of (adjustRegionLocked r d h) = conn_of h"
  by (simp_all add: adjustRegionLocked_def Let_def conn_of_def fun_eq_iff)

lemma wfD:
  assumes "hub_wf h" and "conn_of h p = Some i"
  shows "i < length (hb_all h)" "cn_peer (hb_all h ! i) = p" "\<not> cn_closed (hb_all h ! i)" "cn_reading (hb_all h ! i)"
  using assms by (simp_all add: hub_wf_def)

lemma wf_same_conns:
  assumes "hub_wf h" and "hb_conns h' = hb_conns h" and "length (hb_all h') = length (hb_all h)"
    and "\<And>p i. conn_of h p = Some i \<Longrightarrow> cn_peer (hb_all h' ! i) = cn_peer (hb_all h ! i)
       \<and> cn_closed (hb_all h' ! i) = cn_closed (hb_all h ! i) \<and> cn_reading (hb_all h' ! i) = cn_reading (hb_all h ! i)"
    and "\<forall>c\<in>set (hb_all h'). length (cn_send c) \<le> sendQueue"
  shows "hub_wf h'"
proof -
  have c: "conn_of h' = conn_of h" by (simp add: conn_of_def assms(2) fun_eq_iff)
  show ?thesis unfolding hub_wf_def c assms(2,3) using assms(1,4,5) by (auto simp: hub_wf_def)
qed

lemma wf_adjust: "hub_wf h \<Longrightarrow> hub_wf (adjustRegionLocked r d h)"
  by (rule wf_same_conns [of h]) (auto simp: hub_wf_def)

lemma wf_upd_conn:
  assumes "hub_wf h" and "i < length (hb_all h)" and "length (cn_send (f (hb_all h ! i))) \<le> sendQueue"
    and "\<And>c. cn_peer (f c) = cn_peer c \<and> cn_closed (f c) = cn_closed c \<and> cn_reading (f c) = cn_reading c"
  shows "hub_wf (upd_conn i f h)"
proof (rule wf_same_conns [OF assms(1)])
  show "\<forall>c\<in>set (hb_all (upd_conn i f h)). length (cn_send c) \<le> sendQueue"
    using assms(1,3) set_update_subset_insert [of "hb_all h" i "f (hb_all h ! i)"] by (auto simp: hub_wf_def)
qed (use assms(2,4) in \<open>auto simp: nth_list_update\<close>)

lemma queue_at: "hub_wf h \<Longrightarrow> i < length (hb_all h) \<Longrightarrow> length (cn_send (hb_all h ! i)) \<le> sendQueue"
  by (simp add: hub_wf_def)

lemma wf_send: "hub_wf h \<Longrightarrow> i < length (hb_all h) \<Longrightarrow> hub_wf (snd (send_frame i f h))"
  by (auto simp: send_frame_def Let_def intro!: wf_upd_conn)

lemma wf_setRegion: "hub_wf h \<Longrightarrow> i < length (hb_all h) \<Longrightarrow> hub_wf (setRegion i r h)"
  by (auto simp: setRegion_def Let_def queue_at intro!: wf_adjust wf_upd_conn)

lemma setRegion_simps [simp]: "hb_conns (setRegion i r h) = hb_conns h" "length (hb_all (setRegion i r h)) = length (hb_all h)"
  "conn_of (setRegion i r h) = conn_of h"
  by (simp_all add: setRegion_def Let_def)

lemma wf_drop_reading:
  assumes "hub_wf h" and "\<And>p. conn_of h p \<noteq> Some i"
  shows "hub_wf (upd_conn i (\<lambda>c. c\<lparr>cn_reading := False\<rparr>) h)"
proof (cases "i < length (hb_all h)")
  case True
  show ?thesis
  proof (rule wf_same_conns [OF assms(1)])
    show "\<forall>c\<in>set (hb_all (upd_conn i (\<lambda>c. c\<lparr>cn_reading := False\<rparr>) h)). length (cn_send c) \<le> sendQueue"
      using assms(1) queue_at [OF assms(1) True] set_update_subset_insert [of "hb_all h" i]
      by (fastforce simp: hub_wf_def)
    show "cn_peer (hb_all (upd_conn i (\<lambda>c. c\<lparr>cn_reading := False\<rparr>) h) ! j) = cn_peer (hb_all h ! j) \<and>
      cn_closed (hb_all (upd_conn i (\<lambda>c. c\<lparr>cn_reading := False\<rparr>) h) ! j) = cn_closed (hb_all h ! j) \<and>
      cn_reading (hb_all (upd_conn i (\<lambda>c. c\<lparr>cn_reading := False\<rparr>) h) ! j) = cn_reading (hb_all h ! j)"
      if "conn_of h p = Some j" for p j
      using assms(2) that by (cases "j = i") (auto simp: nth_list_update)
  qed simp_all
next
  case False
  with assms(1) show ?thesis by (simp add: upd_conn_def list_update_beyond not_less)
qed

lemma wf_connect:
  assumes wf: "hub_wf h"
  shows "hub_wf (hub_connect peer h)"
proof -
  let ?k = "length (hb_all h)"
  let ?new = "\<lparr>cn_peer = peer, cn_region = '''', cn_send = [], cn_closed = False, cn_reading = True\<rparr>"
  define h1 where "h1 = (case conn_of h peer of None \<Rightarrow> h
      | Some i \<Rightarrow> upd_conn i (\<lambda>c. c\<lparr>cn_closed := True\<rparr>) (adjustRegionLocked (cn_region (hb_all h ! i)) (-1) h))"
  have h1: "hb_conns h1 = hb_conns h" "length (hb_all h1) = ?k" "conn_of h1 = conn_of h"
    by (simp_all add: h1_def split: option.splits)
  have other: "hb_all h1 ! j = hb_all h ! j" if "conn_of h p = Some j" "p \<noteq> peer" for p j
  proof -
    have "j \<noteq> i" if "conn_of h peer = Some i" for i
      using wfD(2) [OF wf that] wfD(2) [OF wf \<open>conn_of h p = Some j\<close>] \<open>p \<noteq> peer\<close> by auto
    then show ?thesis by (auto simp: h1_def split: option.splits)
  qed
  have queues: "length (cn_send c) \<le> sendQueue" if c: "c \<in> set (hb_all h1)" for c
  proof (cases "conn_of h peer")
    case None
    with c wf show ?thesis by (simp add: h1_def hub_wf_def)
  next
    case (Some i)
    from c have "c \<in> insert ((hb_all h ! i)\<lparr>cn_closed := True\<rparr>) (set (hb_all h))"
      using set_update_subset_insert [of "hb_all h" i "(hb_all h ! i)\<lparr>cn_closed := True\<rparr>"] by (auto simp: h1_def Some)
    with queue_at [OF wf wfD(1) [OF wf Some]] wf show ?thesis by (auto simp: hub_wf_def)
  qed
  have "hub_wf (h1\<lparr>hb_all := hb_all h1 @ [?new], hb_conns := AList.update peer ?k (hb_conns h1)\<rparr>)"
    unfolding hub_wf_def
  proof (intro conjI allI impI)
    show "distinct (map fst (hb_conns (h1\<lparr>hb_all := hb_all h1 @ [?new], hb_conns := AList.update peer ?k (hb_conns h1)\<rparr>)))"
      using wf by (simp add: hub_wf_def h1 distinct_update)
    show "\<forall>c\<in>set (hb_all (h1\<lparr>hb_all := hb_all h1 @ [?new], hb_conns := AList.update peer ?k (hb_conns h1)\<rparr>)).
        length (cn_send c) \<le> sendQueue"
      using queues by auto
  next
    fix p i
    assume "conn_of (h1\<lparr>hb_all := hb_all h1 @ [?new], hb_conns := AList.update peer ?k (hb_conns h1)\<rparr>) p = Some i"
    then have "p = peer \<and> i = ?k \<or> p \<noteq> peer \<and> conn_of h p = Some i"
      by (auto simp: conn_of_def update_conv h1 split: if_splits)
    then show "i < length (hb_all (h1\<lparr>hb_all := hb_all h1 @ [?new], hb_conns := AList.update peer ?k (hb_conns h1)\<rparr>))"
      and "cn_peer (hb_all (h1\<lparr>hb_all := hb_all h1 @ [?new], hb_conns := AList.update peer ?k (hb_conns h1)\<rparr>) ! i) = p"
      and "\<not> cn_closed (hb_all (h1\<lparr>hb_all := hb_all h1 @ [?new], hb_conns := AList.update peer ?k (hb_conns h1)\<rparr>) ! i)"
      and "cn_reading (hb_all (h1\<lparr>hb_all := hb_all h1 @ [?new], hb_conns := AList.update peer ?k (hb_conns h1)\<rparr>) ! i)"
      using wfD [OF wf, of p i] other [of p i] by (auto simp: h1(2) nth_append)
  qed
  then show ?thesis
    unfolding hub_connect_def Let_def h1_def [symmetric] by (rule wf_adjust)
qed

lemma conn_of_delete: "distinct (map fst (hb_conns h)) \<Longrightarrow>
    conn_of (h\<lparr>hb_conns := AList.delete peer (hb_conns h)\<rparr>) p = (if p = peer then None else conn_of h p)"
  by (simp add: conn_of_def delete_conv)

lemma wf_delete: "hub_wf h \<Longrightarrow> hub_wf (h\<lparr>hb_conns := AList.delete peer (hb_conns h)\<rparr>)"
  using conn_of_delete [of h peer] by (auto simp: hub_wf_def distinct_delete split: if_splits)

lemma wf_disconnect:
  assumes wf: "hub_wf h"
  shows "hub_wf (fst (hub_disconnect now i (h, s)))"
proof -
  let ?c = "hb_all h ! i"
  define h1 where "h1 = (if conn_of h (cn_peer ?c) = Some i
      then (adjustRegionLocked (cn_region ?c) (-1) h)\<lparr>hb_conns := AList.delete (cn_peer ?c) (hb_conns h)\<rparr> else h)"
  have wf1: "hub_wf h1"
    using wf_delete [OF wf_adjust [OF wf], of "cn_peer ?c" "cn_region ?c" "-1"] wf by (simp add: h1_def)
  have del: "conn_of ((adjustRegionLocked (cn_region ?c) (-1) h)\<lparr>hb_conns := AList.delete (cn_peer ?c) (hb_conns h)\<rparr>) p
      = (if p = cn_peer ?c then None else conn_of h p)" for p
    using conn_of_delete [of "adjustRegionLocked (cn_region ?c) (-1) h" "cn_peer ?c" p] wf by (simp add: hub_wf_def)
  have "conn_of h1 p \<noteq> Some i" for p
  proof
    assume 1: "conn_of h1 p = Some i"
    have "conn_of h p = Some i"
    proof (cases "conn_of h (cn_peer ?c) = Some i")
      case True
      with 1 del show ?thesis by (simp add: h1_def split: if_splits)
    qed (use 1 in \<open>simp add: h1_def\<close>)
    moreover from this have "p = cn_peer ?c" using wfD(2) [OF wf] by blast
    ultimately show False using 1 del by (simp add: h1_def)
  qed
  from wf_drop_reading [OF wf1 this] show ?thesis
    by (simp add: hub_disconnect_def Let_def h1_def)
qed

lemma closed_not_current: "hub_wf h \<Longrightarrow> cn_closed (hb_all h ! i) \<Longrightarrow> conn_of h p \<noteq> Some i"
  by (auto simp: hub_wf_def)

lemma wf_frame:
  assumes wf: "hub_wf h" and i: "i < length (hb_all h)"
  shows "hub_wf (fst (hub_frame now i m (h, s)))"
proof (cases m)
  case (Hello x)
  let ?h = "setRegion i (he_region x) h"
  have wf1: "hub_wf ?h" and i1: "i < length (hb_all ?h)" using wf_setRegion [OF wf i] i by simp_all
  show ?thesis
  proof (cases "cn_closed (hb_all ?h ! i)")
    case True
    then have "send_frame i (HelloAck heartbeatIntervalSec) ?h = (Panic, ?h)" by (simp add: send_frame_def Let_def)
    with wf_drop_reading [OF wf1 closed_not_current [OF wf1 True]] show ?thesis
      by (simp add: hub_frame_def hub_handle_def Hello onHello_def)
  next
    case False
    then have "fst (send_frame i (HelloAck heartbeatIntervalSec) ?h) \<noteq> Panic" by (simp add: send_frame_def Let_def)
    with wf_send [OF wf1 i1, of "HelloAck heartbeatIntervalSec"] show ?thesis
      by (auto simp: hub_frame_def hub_handle_def Hello onHello_def split: prod.splits send_outcome.splits)
  qed
qed (use wf in \<open>simp_all add: hub_frame_def hub_handle_def\<close>)

lemma wf_command: "hub_wf h \<Longrightarrow> hub_wf (snd (SendCommand peer action args req h))"
  by (auto simp: SendCommand_def wfD(1) wf_send split: option.splits)

lemma wf_pop: "hub_wf h \<Longrightarrow> i < length (hb_all h) \<Longrightarrow> hub_wf (pop_frame i h)"
  unfolding pop_frame_def using queue_at [of h i] by (intro wf_upd_conn) auto

lemma hub_step_wf: "hub_step a b \<Longrightarrow> hub_wf (fst a) \<Longrightarrow> hub_wf (fst b)"
  by (induction rule: hub_step.induct) (simp_all add: wf_connect wf_frame wf_disconnect wf_command wf_pop)


section \<open>Sessions per region\<close>

text \<open>How many current connections have reported region \<open>r\<close>.\<close>

definition in_region :: "hub \<Rightarrow> string \<Rightarrow> nat \<Rightarrow> int" where
  "in_region h r i = (if NormalizeRegion (cn_region (hb_all h ! i)) = r then 1 else 0)"

definition sessions :: "hub \<Rightarrow> string \<Rightarrow> int" where
  "sessions h r = total_of (\<lambda>(p, i). in_region h r i) (hb_conns h)"

lemma total_alist_update:
  "distinct (map fst t) \<Longrightarrow> total_of (\<lambda>(p, i). w i) (AList.update p k t)
    = total_of (\<lambda>(p, i). w i) t - (case map_of t p of None \<Rightarrow> 0 | Some i \<Rightarrow> w i) + w k"
  by (induction t) (auto split: option.splits)

lemma total_alist_delete:
  "distinct (map fst t) \<Longrightarrow> total_of (\<lambda>(p, i). w i) (AList.delete p t)
    = total_of (\<lambda>(p, i). w i) t - (case map_of t p of None \<Rightarrow> 0 | Some i \<Rightarrow> w i)"
proof (induction t)
  case (Cons x t)
  show ?case
  proof (cases "fst x = p")
    case True
    then have "p \<notin> fst ` set t" using Cons.prems by auto
    with True show ?thesis by (cases x) (simp add: AList.delete_idem)
  next
    case False
    with Cons show ?thesis by (cases x) (auto split: option.splits)
  qed
qed simp

lemma region_count_frame [simp]: "region_count (upd_conn i f h) r = region_count h r"
  "region_count (h\<lparr>hb_all := x, hb_conns := y\<rparr>) r = region_count h r" "region_count (h\<lparr>hb_conns := y\<rparr>) r = region_count h r"
  "region_count (h\<lparr>hb_all := x\<rparr>) r = region_count h r"
  by (simp_all add: region_count_def)

lemma count_adjust: "region_count (adjustRegionLocked reg d h) r
    = (if r = NormalizeRegion reg then max 0 (region_count h r + d) else region_count h r)"
  by (auto simp: adjustRegionLocked_def region_count_def Let_def delete_conv update_conv)

lemma sessions_nonneg: "0 \<le> sessions h r"
  by (auto simp: sessions_def in_region_def intro!: total_nonneg)

lemma sessions_current:
  assumes "conn_of h p = Some i" and "NormalizeRegion (cn_region (hb_all h ! i)) = r"
  shows "1 \<le> sessions h r"
proof -
  have "(p, i) \<in> set (hb_conns h)" using assms(1) by (auto simp: conn_of_def dest: map_of_SomeD)
  then have "(\<lambda>(p, i). in_region h r i) (p, i) \<le> sessions h r"
    unfolding sessions_def by (rule total_ge_member) (auto simp: in_region_def)
  with assms(2) show ?thesis by (simp add: in_region_def)
qed

lemma sessions_same:
  assumes "hb_conns h' = hb_conns h"
    and "\<And>p i. conn_of h p = Some i \<Longrightarrow> cn_region (hb_all h' ! i) = cn_region (hb_all h ! i)" and "distinct (map fst (hb_conns h))"
  shows "sessions h' r = sessions h r"
  unfolding sessions_def assms(1)
  by (rule total_cong) (use assms(2,3) in \<open>auto simp: in_region_def conn_of_def\<close>)

definition regions_exact :: "hub \<Rightarrow> bool" where
  "regions_exact h \<longleftrightarrow> hub_wf h \<and> (\<forall>r. region_count h r = sessions h r)"

lemma exact_same:
  assumes "regions_exact h" and "hub_wf h'" and "hb_conns h' = hb_conns h" and "hb_regions h' = hb_regions h"
    and "\<And>p i. conn_of h p = Some i \<Longrightarrow> cn_region (hb_all h' ! i) = cn_region (hb_all h ! i)"
  shows "regions_exact h'"
  using assms sessions_same [OF assms(3,5)] by (simp add: regions_exact_def region_count_def hub_wf_def)

lemma exact_connect:
  assumes ex: "regions_exact h"
  shows "regions_exact (hub_connect peer h)"
proof -
  have wf: "hub_wf h" and cnt: "\<And>r. region_count h r = sessions h r" using ex by (simp_all add: regions_exact_def)
  let ?k = "length (hb_all h)" and ?h' = "hub_connect peer h"
  have conns: "hb_conns ?h' = AList.update peer ?k (hb_conns h)"
    by (simp add: hub_connect_def Let_def split: option.splits)
  have new: "cn_region (hb_all ?h' ! ?k) = ''''"
    by (simp add: hub_connect_def Let_def nth_append split: option.splits)
  have old: "cn_region (hb_all ?h' ! i) = cn_region (hb_all h ! i)" if "i < ?k" for i
    using that by (auto simp: hub_connect_def Let_def nth_append nth_list_update split: option.splits dest: wfD(1) [OF wf])
  have d: "distinct (map fst (hb_conns h))" using wf by (simp add: hub_wf_def)
  have unk: "NormalizeRegion '''' = ''unknown''" "NormalizeRegion ''unknown'' = ''unknown''" by code_simp+
  have "region_count ?h' r = sessions ?h' r" for r
  proof -
    have "sessions ?h' r = total_of (\<lambda>(p, i). in_region ?h' r i) (hb_conns h)
        - (case conn_of h peer of None \<Rightarrow> 0 | Some i \<Rightarrow> in_region ?h' r i) + in_region ?h' r ?k"
      unfolding sessions_def conns conn_of_def by (rule total_alist_update [OF d])
    also have "total_of (\<lambda>(p, i). in_region ?h' r i) (hb_conns h) = sessions h r"
      unfolding sessions_def
      by (rule total_cong) (use wfD(1) [OF wf] old d in \<open>auto simp: in_region_def conn_of_def\<close>)
    finally have s: "sessions ?h' r = sessions h r
        - (case conn_of h peer of None \<Rightarrow> 0 | Some i \<Rightarrow> in_region h r i) + (if r = ''unknown'' then 1 else 0)"
      using old wfD(1) [OF wf] new unk by (auto simp: in_region_def split: option.splits)
    show ?thesis
    proof (cases "conn_of h peer")
      case None
      then have "region_count ?h' r = (if r = ''unknown'' then max 0 (region_count h r + 1) else region_count h r)"
        by (simp add: hub_connect_def Let_def count_adjust unk)
      with s None cnt sessions_nonneg [of h r] show ?thesis by (cases "r = ''unknown''") simp_all
    next
      case (Some i)
      let ?r0 = "NormalizeRegion (cn_region (hb_all h ! i))"
      have c: "region_count ?h' r = (if r = ''unknown'' then max 0 (region_count (adjustRegionLocked (cn_region (hb_all h ! i)) (-1) h) r + 1)
          else region_count (adjustRegionLocked (cn_region (hb_all h ! i)) (-1) h) r)"
        using Some by (simp add: hub_connect_def Let_def count_adjust unk)
      show ?thesis
        unfolding c count_adjust s using Some cnt [of r] sessions_nonneg [of h r] sessions_current [OF Some refl]
        by (auto simp: in_region_def)
    qed
  qed
  with wf_connect [OF wf] show ?thesis by (simp add: regions_exact_def)
qed

lemma exact_setRegion:
  assumes ex: "regions_exact h" and cur: "conn_of h p = Some i"
  shows "regions_exact (setRegion i region h)"
proof -
  have wf: "hub_wf h" and cnt: "\<And>r. region_count h r = sessions h r" using ex by (simp_all add: regions_exact_def)
  let ?h' = "setRegion i region h" and ?r1 = "NormalizeRegion region" and ?old = "cn_region (hb_all h ! i)"
  have idem: "NormalizeRegion (NormalizeRegion x) = NormalizeRegion x" for x
  proof -
    have "NormalizeRegion x \<in> {''sg'', ''in'', ''eu'', ''us'', ''unknown''}" by (simp add: NormalizeRegion_def Let_def)
    moreover have "NormalizeRegion ''sg'' = ''sg''" "NormalizeRegion ''in'' = ''in''" "NormalizeRegion ''eu'' = ''eu''"
      "NormalizeRegion ''us'' = ''us''" "NormalizeRegion ''unknown'' = ''unknown''" by code_simp+
    ultimately show ?thesis by auto
  qed
  show ?thesis
  proof (cases "?r1 = ?old")
    case True
    with ex show ?thesis by (simp add: setRegion_def Let_def)
  next
    case False
    have i: "i < length (hb_all h)" by (rule wfD(1) [OF wf cur])
    have reg: "cn_region (hb_all ?h' ! j) = (if j = i then ?r1 else cn_region (hb_all h ! j))" for j
      using False i by (simp add: setRegion_def Let_def nth_list_update)
    have d: "distinct (map fst (hb_conns h))" using wf by (simp add: hub_wf_def)
    have others: "in_region ?h' r j = in_region h r j" if "(q, j) \<in> set (hb_conns h)" "q \<noteq> p" for q j r
    proof -
      have "conn_of h q = Some j" using that d by (simp add: conn_of_def)
      then have "j \<noteq> i" using wfD(2) [OF wf] cur that(2) by blast
      then show ?thesis by (simp add: in_region_def reg)
    qed
    have total: "total_of (\<lambda>(q, j). w' j) t = total_of (\<lambda>(q, j). w j) t + (case map_of t p of None \<Rightarrow> 0 | Some j \<Rightarrow> w' j - w j)"
      if "distinct (map fst t)" "\<And>q j. (q, j) \<in> set t \<Longrightarrow> q \<noteq> p \<Longrightarrow> w' j = w j" for w w' :: "nat \<Rightarrow> int" and t :: "(string \<times> nat) list"
      using that
    proof (induction t)
      case (Cons x t)
      show ?case
      proof (cases "fst x = p")
        case True
        have "total_of (\<lambda>(q, j). w' j) t = total_of (\<lambda>(q, j). w j) t"
        proof (rule total_cong, clarify)
          fix q j assume m: "(q, j) \<in> set t"
          then have "q \<in> fst ` set t" by force
          moreover have "p \<notin> fst ` set t" using True Cons.prems(1) by auto
          ultimately have "q \<noteq> p" by blast
          with m show "w' j = w j" using Cons.prems(2) [of q j] by simp
        qed
        with True show ?thesis by (cases x) simp
      next
        case False
        with Cons.prems(2) [of "fst x" "snd x"] have "w' (snd x) = w (snd x)" by simp
        moreover have "total_of (\<lambda>(q, j). w' j) t = total_of (\<lambda>(q, j). w j) t
            + (case map_of t p of None \<Rightarrow> 0 | Some j \<Rightarrow> w' j - w j)"
          using Cons.prems by (intro Cons.IH) auto
        ultimately show ?thesis using False by (cases x) simp
      qed
    qed simp
    have "region_count ?h' r = sessions ?h' r" for r
    proof -
      have "sessions ?h' r = sessions h r + (in_region ?h' r i - in_region h r i)"
        using total [OF d, of "in_region ?h' r" "in_region h r", OF others] cur by (simp add: sessions_def conn_of_def)
      moreover have "region_count ?h' r = (if r = ?r1 then max 0 (region_count (adjustRegionLocked ?old (-1) h) r + 1)
          else region_count (adjustRegionLocked ?old (-1) h) r)"
        using False idem [of region]
        by (simp add: setRegion_def Let_def count_adjust)
      ultimately show ?thesis
        unfolding count_adjust using cnt [of r] sessions_nonneg [of h r] sessions_current [OF cur refl] idem [of region]
        by (auto simp: in_region_def reg)
    qed
    with wf_setRegion [OF wf i] show ?thesis by (simp add: regions_exact_def)
  qed
qed

lemma exact_disconnect:
  assumes ex: "regions_exact h"
  shows "regions_exact (fst (hub_disconnect now i (h, s)))"
proof -
  have wf: "hub_wf h" and cnt: "\<And>r. region_count h r = sessions h r" using ex by (simp_all add: regions_exact_def)
  let ?c = "hb_all h ! i" and ?h' = "fst (hub_disconnect now i (h, s))"
  have wf': "hub_wf ?h'" by (rule wf_disconnect [OF wf])
  have reg: "cn_region (hb_all ?h' ! j) = cn_region (hb_all h ! j)" for j
    by (cases "j = i"; cases "i < length (hb_all h)")
      (simp_all add: hub_disconnect_def Let_def nth_list_update list_update_beyond not_less)
  show ?thesis
  proof (cases "conn_of h (cn_peer ?c) = Some i")
    case False
    then show ?thesis by (intro exact_same [OF ex wf']) (simp_all add: reg, simp_all add: hub_disconnect_def Let_def)
  next
    case True
    have d: "distinct (map fst (hb_conns h))" using wf by (simp add: hub_wf_def)
    have conns: "hb_conns ?h' = AList.delete (cn_peer ?c) (hb_conns h)"
      using True by (simp add: hub_disconnect_def Let_def)
    have "region_count ?h' r = sessions ?h' r" for r
    proof -
      have "sessions ?h' r = total_of (\<lambda>(p, j). in_region h r j) (AList.delete (cn_peer ?c) (hb_conns h))"
        by (simp add: sessions_def conns in_region_def reg)
      also have "\<dots> = sessions h r - in_region h r i"
        using total_alist_delete [OF d, of "in_region h r" "cn_peer ?c"] True by (simp add: sessions_def conn_of_def)
      finally have "sessions ?h' r = sessions h r - in_region h r i" .
      moreover have "region_count ?h' r = region_count (adjustRegionLocked (cn_region ?c) (-1) h) r"
        using True by (simp add: hub_disconnect_def Let_def)
      ultimately show ?thesis
        unfolding count_adjust using cnt [of r] sessions_nonneg [of h r] sessions_current [OF True refl]
        by (auto simp: in_region_def)
    qed
    with wf' show ?thesis by (simp add: regions_exact_def)
  qed
qed

lemma exact_send: "regions_exact h \<Longrightarrow> i < length (hb_all h) \<Longrightarrow> regions_exact (snd (send_frame i f h))"
proof (rule exact_same)
  assume "regions_exact h" "i < length (hb_all h)"
  then show "hub_wf (snd (send_frame i f h))" by (simp add: wf_send regions_exact_def)
  show "cn_region (hb_all (snd (send_frame i f h)) ! j) = cn_region (hb_all h ! j)" if "conn_of h p = Some j" for p j
    using \<open>i < length (hb_all h)\<close> by (cases "j = i") (simp_all add: send_frame_def Let_def nth_list_update)
qed (simp_all add: send_frame_def Let_def)

text \<open>
  Runs in which a connection that was replaced sends no further frame.
\<close>

inductive quiet_step :: "hub \<times> db \<Rightarrow> hub \<times> db \<Rightarrow> bool" where
  connect: "quiet_step (h, s) (hub_connect peer h, s)"
| received: "current h peer i \<Longrightarrow> quiet_step (h, s) (hub_frame now i m (h, s))"
| stopped: "i < length (hb_all h) \<Longrightarrow> quiet_step (h, s) (hub_disconnect now i (h, s))"
| command: "quiet_step (h, s) (snd (SendCommand peer action args req h), s)"
| written: "i < length (hb_all h) \<Longrightarrow> quiet_step (h, s) (pop_frame i h, s)"
| elsewhere: "quiet_step (h, s) (h, s')"

lemma exact_frame:
  assumes ex: "regions_exact h" and cur: "conn_of h p = Some i"
  shows "regions_exact (fst (hub_frame now i m (h, s)))"
proof (cases m)
  case (Hello x)
  let ?h = "setRegion i (he_region x) h"
  have wf: "hub_wf ?h" and ex1: "regions_exact ?h"
    using exact_setRegion [OF ex cur] by (simp_all add: regions_exact_def)
  have "conn_of ?h p = Some i" using cur by simp
  from wfD(1,3) [OF wf this] have "i < length (hb_all ?h)" "\<not> cn_closed (hb_all ?h ! i)" .
  moreover from this have "fst (send_frame i (HelloAck heartbeatIntervalSec) ?h) \<noteq> Panic"
    by (simp add: send_frame_def Let_def)
  ultimately show ?thesis
    using exact_send [OF ex1, of i "HelloAck heartbeatIntervalSec"]
    by (auto simp: hub_frame_def hub_handle_def Hello onHello_def split: prod.splits send_outcome.splits)
qed (use ex in \<open>simp_all add: hub_frame_def hub_handle_def\<close>)

lemma exact_pop: "regions_exact h \<Longrightarrow> i < length (hb_all h) \<Longrightarrow> regions_exact (pop_frame i h)"
proof (rule exact_same)
  assume "regions_exact h" "i < length (hb_all h)"
  then show "hub_wf (pop_frame i h)" by (simp add: wf_pop regions_exact_def)
  show "cn_region (hb_all (pop_frame i h) ! j) = cn_region (hb_all h ! j)" for j
    using \<open>i < length (hb_all h)\<close> by (cases "j = i") (simp_all add: pop_frame_def nth_list_update)
qed (simp_all add: pop_frame_def)

lemma quiet_exact: "quiet_step a b \<Longrightarrow> regions_exact (fst a) \<Longrightarrow> regions_exact (fst b)"
proof (induction rule: quiet_step.induct)
  case (command h s peer action args req)
  then have wf: "hub_wf h" by (simp add: regions_exact_def)
  from command show ?case by (auto simp: SendCommand_def exact_send wfD(1) [OF wf] split: option.splits)
qed (simp_all add: exact_connect exact_frame exact_disconnect exact_pop current_def)

text \<open>
  C14. The session count of each region is exact.  In every run in which replaced connections fall
  silent, the count kept for a region is the number of current connections that last reported it,
  through connections, replacements, changes of region and disconnections in any order.
\<close>

theorem session_counts_exact:
  assumes "quiet_step\<^sup>*\<^sup>* (new_hub, s0) (h, s)"
  shows "region_count h r = sessions h r"
proof -
  have "regions_exact (fst b)" if "quiet_step\<^sup>*\<^sup>* (new_hub, s0) b" for b
    using that
  proof (induction rule: rtranclp_induct)
    case base
    show ?case by (simp add: new_hub_def regions_exact_def hub_wf_def conn_of_def region_count_def sessions_def)
  qed (auto dest: quiet_exact)
  with assms show ?thesis by (fastforce simp: regions_exact_def)
qed

section \<open>A small world\<close>

definition hub_hello :: "string \<Rightarrow> hello" where
  "hub_hello region = \<lparr>he_version = ''1'', he_ip_hash = '''', he_region = region, he_zone = '''', he_ip = '''',
     he_access_mode = '''', he_drop = None,
     he_endpoints = \<lparr>ep_wireguard_port = 51820, ep_vless_reality_port = 0, ep_hysteria2_port = 0\<rparr>,
     he_deployment_profile = '''', he_services = [], he_spec_json = ''{}'', he_capabilities_json = ''{}'',
     he_endpoints_json = ''{}''\<rparr>"

definition hub_db :: db where
  "hub_db = empty_db\<lparr>nodes := [new_node 0 ''i1'' ''p1'' ''d'']\<rparr>"

text \<open>The node connects, says hello, connects again before the first connection has ended, and says hello.\<close>

definition hub_online :: "time \<Rightarrow> db" where
  "hub_online t = empty_db\<lparr>nodes := [(new_node 0 ''i1'' ''p1'' ''d'')\<lparr>n_version := ''1'', n_region := ''eu'',
     n_protocols := [''wireguard''], n_status := ''online'', n_last_heartbeat := Some t\<rparr>]\<rparr>"

definition hub1 :: "hub \<times> db" where
  "hub1 = (\<lparr>hb_conns = [(''p1'', 0)],
      hb_all = [\<lparr>cn_peer = ''p1'', cn_region = ''eu'', cn_send = [HelloAck 30], cn_closed = False, cn_reading = True\<rparr>],
      hb_regions = [(''eu'', 1)]\<rparr>, hub_online 1)"

lemma hub1_eq: "hub_frame 1 0 (Hello (hub_hello ''eu'')) (hub_connect ''p1'' new_hub, hub_db) = hub1"
  by code_simp

definition hub2 :: "hub \<times> db" where "hub2 = (hub_connect ''p1'' (fst hub1), snd hub1)"

definition hub3 :: "hub \<times> db" where
  "hub3 = (\<lparr>hb_conns = [(''p1'', 1)],
      hb_all = [\<lparr>cn_peer = ''p1'', cn_region = ''eu'', cn_send = [HelloAck 30], cn_closed = True, cn_reading = True\<rparr>,
                \<lparr>cn_peer = ''p1'', cn_region = ''eu'', cn_send = [HelloAck 30], cn_closed = False, cn_reading = True\<rparr>],
      hb_regions = [(''eu'', 1)]\<rparr>, hub_online 2)"

lemma hub3_eq: "hub_frame 2 1 (Hello (hub_hello ''eu'')) hub2 = hub3"
  by code_simp

lemma hub3_quiet: "quiet_step\<^sup>*\<^sup>* (new_hub, hub_db) (fst hub3, snd hub3)"
proof -
  have 1: "quiet_step (new_hub, hub_db) (hub_connect ''p1'' new_hub, hub_db)" by (rule quiet_step.connect)
  have "current (hub_connect ''p1'' new_hub) ''p1'' 0" by code_simp
  then have 2: "quiet_step (hub_connect ''p1'' new_hub, hub_db) hub1" unfolding hub1_eq [symmetric] by (rule quiet_step.received)
  have 3: "quiet_step hub1 hub2" unfolding hub2_def by (subst prod.collapse [symmetric]) (rule quiet_step.connect)
  have "current (fst hub2) ''p1'' 1" by code_simp
  then have 4: "quiet_step hub2 hub3"
    unfolding hub3_eq [symmetric] by (subst (1 2) prod.collapse [of hub2, symmetric]) (rule quiet_step.received)
  from 1 2 3 4 show ?thesis by (simp add: converse_rtranclp_into_rtranclp)
qed

theorem session_counts_exact_witness: "region_count (fst hub3) ''eu'' = 1"
proof -
  have "sessions (fst hub3) ''eu'' = 1" by code_simp
  with session_counts_exact [OF hub3_quiet, of "''eu''"] show ?thesis by simp
qed

lemma hub3_reach: "hub_step\<^sup>*\<^sup>* (new_hub, hub_db) (fst hub3, snd hub3)"
proof -
  have 1: "hub_step (new_hub, hub_db) (hub_connect ''p1'' new_hub, hub_db)" by (rule hub_step.connect)
  have "0 < length (hb_all (hub_connect ''p1'' new_hub))" "cn_reading (hb_all (hub_connect ''p1'' new_hub) ! 0)" by code_simp+
  then have 2: "hub_step (hub_connect ''p1'' new_hub, hub_db) hub1" unfolding hub1_eq [symmetric] by (rule hub_step.received)
  have 3: "hub_step hub1 hub2" unfolding hub2_def by (subst prod.collapse [symmetric]) (rule hub_step.connect)
  have "1 < length (hb_all (fst hub2))" "cn_reading (hb_all (fst hub2) ! 1)" by code_simp+
  then have 4: "hub_step hub2 hub3"
    unfolding hub3_eq [symmetric] by (subst (1 2) prod.collapse [of hub2, symmetric]) (rule hub_step.received)
  from 1 2 3 4 show ?thesis by (simp add: converse_rtranclp_into_rtranclp)
qed


section \<open>What a replaced connection still does\<close>

text \<open>
  The end of a replaced connection takes the node offline.  A node reconnects before its old
  connection has ended; when the old connection ends, the node is recorded offline although its new
  connection is current, and discovery no longer offers it.
\<close>

theorem stale_disconnect_marks_offline:
  "current (fst hub3) ''p1'' 1 \<and> map n_status (nodes (snd hub3)) = [''online'']
   \<and> current (fst (hub_disconnect 3 0 hub3)) ''p1'' 1 \<and> Online (fst (hub_disconnect 3 0 hub3)) = 1
   \<and> map n_status (nodes (snd (hub_disconnect 3 0 hub3))) = [''offline'']
   \<and> ListDiscoverableNodes (snd (hub_disconnect 3 0 hub3)) ''online'' '''' '''' 0 = []"
  by (intro conjI; code_simp)

text \<open>
  A late \<open>hello\<close> of a replaced connection falsifies the counts: the region of the old connection is
  given back a second time, and a region without a session is counted.
\<close>

theorem stale_hello_corrupts_counts:
  "sessions (fst (hub_frame 3 0 (Hello (hub_hello ''us'')) hub3)) ''eu'' = 1
   \<and> region_count (fst (hub_frame 3 0 (Hello (hub_hello ''us'')) hub3)) ''eu'' = 0
   \<and> sessions (fst (hub_frame 3 0 (Hello (hub_hello ''us'')) hub3)) ''us'' = 0
   \<and> region_count (fst (hub_frame 3 0 (Hello (hub_hello ''us'')) hub3)) ''us'' = 1"
  by (intro conjI; code_simp)

end
