(* ===== verification/FirewallApi.thy ===== *)
theory FirewallApi
  imports Hub
begin

text \<open>
  The firewall handlers: \<open>internal/api/firewall.go\<close> and \<open>firewall_credentials.go\<close>.  They push commands to
  the node through the hub; the answer carries whether the command was queued.  \<open>json.Marshal\<close> of a
  policy or a credential and the secret box are parameters.  The activity log is left out.
\<close>

record crypt =
  cy_enabled :: bool
  cy_seal :: "string \<Rightarrow> string option"
  cy_open :: "string \<Rightarrow> string option"

definition firewall_or_fail :: "string \<Rightarrow> db \<Rightarrow> id \<Rightarrow> string \<Rightarrow> failure + firewall_service" where
  "firewall_or_fail msg s orgID nodeID =
    (case GetFirewallService s orgID nodeID of
       Inl e \<Rightarrow> if e = ErrNotFound then Inl (404, ''firewall service not found'') else Inl (500, msg)
     | Inr fw \<Rightarrow> Inr fw)"

definition handleGetFirewall :: "caller \<Rightarrow> id \<Rightarrow> string \<Rightarrow> db \<Rightarrow> firewall_service resp" where
  "handleGetFirewall cl orgID nodeID s =
    (case orgMember s cl orgID of Inl f \<Rightarrow> refuse f
     | Inr _ \<Rightarrow> (case firewall_or_fail ''failed to load firewall'' s orgID nodeID of Inl f \<Rightarrow> refuse f | Inr fw \<Rightarrow> Ok 200 fw))"

text \<open>Status, kind, access URL and configuration reference.\<close>

definition handleGetFirewallStatus :: "caller \<Rightarrow> id \<Rightarrow> string \<Rightarrow> db \<Rightarrow> (string \<times> string \<times> string \<times> string) resp" where
  "handleGetFirewallStatus cl orgID nodeID s =
    (case orgMember s cl orgID of Inl f \<Rightarrow> refuse f
     | Inr _ \<Rightarrow> (case firewall_or_fail ''failed to load firewall status'' s orgID nodeID of Inl f \<Rightarrow> refuse f
        | Inr fw \<Rightarrow> Ok 200 (sv_service_status (fw_service fw), fw_kind fw, sv_access_url (fw_service fw),
                          sv_config_ref (fw_service fw))))"

text \<open>Send a command, then record the service active: the tail of restart, sync and reset.\<close>

definition command_and_activate :: "time \<Rightarrow> string \<Rightarrow> string \<Rightarrow> string \<Rightarrow> string \<Rightarrow> string option \<Rightarrow> id \<Rightarrow> string \<Rightarrow> hub \<times> db
    \<Rightarrow> (org_node_service \<times> bool) resp \<times> hub \<times> db" where
  "command_and_activate now requestID action args msg cleared orgID nodeID hs =
    (let (h, s) = hs; (r, h) = SendCommand nodeID action args requestID h
     in case UpdateFirewallServiceStatus now orgID nodeID ServiceStatusActive cleared cleared s of
          (Inl _, s) \<Rightarrow> (Fail 500 msg, h, s)
        | (Inr v, s) \<Rightarrow> (Ok 202 (v, r = Sent), h, s))"

definition handleFirewallRestart :: "time \<Rightarrow> string \<Rightarrow> caller \<Rightarrow> id \<Rightarrow> string \<Rightarrow> hub \<times> db
    \<Rightarrow> (org_node_service \<times> bool) resp \<times> hub \<times> db" where
  "handleFirewallRestart now requestID cl orgID nodeID hs =
    (case requireNodeOperator (snd hs) cl orgID of Inl f \<Rightarrow> (refuse f, hs)
     | Inr _ \<Rightarrow> (case firewall_or_fail ''failed to load firewall'' (snd hs) orgID nodeID of Inl f \<Rightarrow> (refuse f, hs)
        | Inr _ \<Rightarrow> command_and_activate now requestID ActionRestartFirewall '''' ''failed to restart firewall'' None orgID nodeID hs))"

definition handleFirewallSync :: "(sync_payload \<Rightarrow> string) \<Rightarrow> time \<Rightarrow> string \<Rightarrow> caller \<Rightarrow> id \<Rightarrow> string \<Rightarrow> hub \<times> db
    \<Rightarrow> (org_node_service \<times> bool) resp \<times> hub \<times> db" where
  "handleFirewallSync encode now requestID cl orgID nodeID hs =
    (case requireNodeOperator (snd hs) cl orgID of Inl f \<Rightarrow> (refuse f, hs)
     | Inr _ \<Rightarrow> (case firewall_or_fail ''failed to load firewall'' (snd hs) orgID nodeID of Inl f \<Rightarrow> (refuse f, hs)
        | Inr fw \<Rightarrow>
          (let rules = ListFirewallRules (snd hs) orgID nodeID (sv_id (fw_service fw))
           in command_and_activate now requestID ActionSyncFirewall (encode (BuildFirewallSyncPayload orgID nodeID fw rules))
                ''failed to sync firewall'' None orgID nodeID hs)))"

definition handleFirewallResetCredentials :: "time \<Rightarrow> string \<Rightarrow> caller \<Rightarrow> id \<Rightarrow> string \<Rightarrow> hub \<times> db
    \<Rightarrow> (org_node_service \<times> bool) resp \<times> hub \<times> db" where
  "handleFirewallResetCredentials now requestID cl orgID nodeID hs =
    (case requireNodeOperator (snd hs) cl orgID of Inl f \<Rightarrow> (refuse f, hs)
     | Inr _ \<Rightarrow> (case firewall_or_fail ''failed to load firewall'' (snd hs) orgID nodeID of Inl f \<Rightarrow> (refuse f, hs)
        | Inr _ \<Rightarrow> command_and_activate now requestID ActionResetFirewallCredentials '''' ''failed to reset credentials''
            (Some '''') orgID nodeID hs))"

section \<open>Rules\<close>

definition sentinel_or_fail :: "db \<Rightarrow> id \<Rightarrow> string \<Rightarrow> failure + firewall_service" where
  "sentinel_or_fail s orgID nodeID =
    (case firewall_or_fail ''failed to load firewall'' s orgID nodeID of Inl f \<Rightarrow> Inl f
     | Inr fw \<Rightarrow> if fw_kind fw \<noteq> ''sentinel'' then Inl (400, ''rule management requires Sentinel firewall'') else Inr fw)"

definition handleListFirewallRules :: "caller \<Rightarrow> id \<Rightarrow> string \<Rightarrow> db \<Rightarrow> firewall_rule list resp" where
  "handleListFirewallRules cl orgID nodeID s =
    (case orgMember s cl orgID of Inl f \<Rightarrow> refuse f
     | Inr _ \<Rightarrow> (case sentinel_or_fail s orgID nodeID of Inl f \<Rightarrow> refuse f
        | Inr fw \<Rightarrow> Ok 200 (ListFirewallRules s orgID nodeID (sv_id (fw_service fw)))))"

record rule_req =
  rq_rule_type :: string
  rq_target :: string
  rq_action :: string
  rq_scope :: string
  rq_enabled :: "bool option"

definition handleCreateFirewallRule :: "time \<Rightarrow> id \<Rightarrow> caller \<Rightarrow> id \<Rightarrow> string \<Rightarrow> rule_req option \<Rightarrow> db
    \<Rightarrow> firewall_rule resp \<times> db" where
  "handleCreateFirewallRule now newID cl orgID nodeID body s =
    (case requireNodeOperator s cl orgID of Inl f \<Rightarrow> (refuse f, s)
     | Inr _ \<Rightarrow>
       (case body of None \<Rightarrow> (Fail 400 ''rule_type and target are required'', s)
        | Some req \<Rightarrow>
          if rq_rule_type req = '''' \<or> rq_target req = '''' then (Fail 400 ''rule_type and target are required'', s)
          else (case sentinel_or_fail s orgID nodeID of Inl f \<Rightarrow> (refuse f, s)
           | Inr fw \<Rightarrow>
             (case CreateFirewallRule now newID \<lparr>cr_org_id = orgID, cr_node_id = nodeID,
                     cr_firewall_service_id = sv_id (fw_service fw), cr_rule_type = rq_rule_type req,
                     cr_target = rq_target req, cr_action = (if rq_action req = '''' then ''apply'' else rq_action req),
                     cr_scope = (if rq_scope req = '''' then ''node'' else rq_scope req),
                     cr_enabled = (case rq_enabled req of None \<Rightarrow> True | Some b \<Rightarrow> b), cr_created_by = cl_user_id cl\<rparr> s of
                (Inl e, s) \<Rightarrow> (Fail 400 (error_text e), s)
              | (Inr r, s) \<Rightarrow> (Ok 201 r, s)))))"

definition handlePatchFirewallRule :: "time \<Rightarrow> caller \<Rightarrow> id \<Rightarrow> string \<Rightarrow> id \<Rightarrow> update_rule_input option \<Rightarrow> db
    \<Rightarrow> firewall_rule resp \<times> db" where
  "handlePatchFirewallRule now cl orgID nodeID ruleID body s =
    (case requireNodeOperator s cl orgID of Inl f \<Rightarrow> (refuse f, s)
     | Inr _ \<Rightarrow>
       (case body of None \<Rightarrow> (Fail 400 ''invalid body'', s)
        | Some req \<Rightarrow>
          (case UpdateFirewallRule now orgID nodeID ruleID req s of
             (Inl e, s) \<Rightarrow> (if e = ErrNotFound then Fail 404 ''rule not found'' else Fail 500 ''failed to update rule'', s)
           | (Inr r, s) \<Rightarrow> (Ok 200 r, s))))"

definition handleDeleteFirewallRule :: "caller \<Rightarrow> id \<Rightarrow> string \<Rightarrow> id \<Rightarrow> db \<Rightarrow> unit resp \<times> db" where
  "handleDeleteFirewallRule cl orgID nodeID ruleID s =
    (case requireNodeOperator s cl orgID of Inl f \<Rightarrow> (refuse f, s)
     | Inr _ \<Rightarrow>
       (case DeleteFirewallRule orgID nodeID ruleID s of
          (Inl e, s) \<Rightarrow> (if e = ErrNotFound then Fail 404 ''rule not found'' else Fail 500 ''failed to delete rule'', s)
        | (Inr _, s) \<Rightarrow> (Ok 204 (), s)))"

section \<open>Shield credentials\<close>

definition orgPaidSeat :: "caller \<Rightarrow> id \<Rightarrow> db \<Rightarrow> failure option" where
  "orgPaidSeat cl orgID s =
    (if UserHasOrgSeat s orgID (cl_user_id cl) then None else Some (403, ''a paid seat in this org is required''))"

definition orgNode_at :: "db \<Rightarrow> id \<Rightarrow> string \<Rightarrow> failure + node" where
  "orgNode_at s orgID nodeID =
    (case GetNode s nodeID of
       Inl e \<Rightarrow> if e = ErrNotFound then Inl (404, ''node not found in this org'') else Inl (500, ''failed to resolve node'')
     | Inr n \<Rightarrow> if n_org_id n \<noteq> orgID then Inl (404, ''node not found in this org'') else Inr n)"

record credential_req =
  cq_admin_user :: string
  cq_admin_password :: string
  cq_admin_url :: string

definition handleNodeReportFirewallCredentials :: "crypt \<Rightarrow> time \<Rightarrow> claims option \<Rightarrow> string \<Rightarrow> credential_req option \<Rightarrow> db
    \<Rightarrow> unit resp \<times> db" where
  "handleNodeReportFirewallCredentials cy now verified param body s =
    (let peerID = nodeTokenPeerID verified
     in if (case verified of None \<Rightarrow> True | Some c \<Rightarrow> ca_role c \<noteq> ''node'') \<or> peerID = ''''
        then (Fail 401 ''valid node token required'', s)
        else if param \<noteq> '''' \<and> param \<noteq> peerID then (Fail 403 ''node id mismatch'', s)
        else if \<not> cy_enabled cy then (Fail 503 ''credential encryption not configured'', s)
        else (case body of None \<Rightarrow> (Fail 400 ''admin_password is required'', s)
          | Some req \<Rightarrow>
            if TrimSpace (cq_admin_password req) = '''' then (Fail 400 ''admin_password is required'', s)
            else (case cy_seal cy (cq_admin_password req) of None \<Rightarrow> (Fail 500 ''failed to encrypt credential'', s)
              | Some sealed \<Rightarrow>
                (case UpsertFirewallCredential now peerID (TrimSpace (cq_admin_user req)) sealed (TrimSpace (cq_admin_url req)) s of
                   (Inl _, s) \<Rightarrow> (Fail 500 ''failed to store credential'', s)
                 | (Inr _, s) \<Rightarrow> (Ok 204 (), s)))))"

text \<open>Admin user, password and URL.\<close>

definition handleGetFirewallCredentials :: "crypt \<Rightarrow> caller \<Rightarrow> id \<Rightarrow> string \<Rightarrow> db \<Rightarrow> (string \<times> string \<times> string) resp" where
  "handleGetFirewallCredentials cy cl orgID nodeID s =
    (case orgPaidSeat cl orgID s of Some f \<Rightarrow> refuse f
     | None \<Rightarrow>
       (case orgNode_at s orgID nodeID of Inl f \<Rightarrow> refuse f
        | Inr n \<Rightarrow>
          (case GetFirewallCredential s (n_peer_id n) of
             Inl e \<Rightarrow> if e = ErrNotFound then Fail 404 ''no firewall credential reported for this node yet''
                      else Fail 500 ''failed to load credential''
           | Inr c \<Rightarrow>
             (case cy_open cy (fc_secret c) of None \<Rightarrow> Fail 500 ''failed to decrypt credential''
              | Some pw \<Rightarrow> Ok 200 (fc_admin_user c, pw, fc_admin_url c)))))"

definition handleUpdateFirewallCredentials :: "crypt \<Rightarrow> (string \<times> string \<Rightarrow> string) \<Rightarrow> time \<Rightarrow> string \<Rightarrow> caller \<Rightarrow> id \<Rightarrow> string
    \<Rightarrow> credential_req option \<Rightarrow> hub \<times> db \<Rightarrow> (string \<times> string \<times> bool) resp \<times> hub \<times> db" where
  "handleUpdateFirewallCredentials cy encode now requestID cl orgID nodeID body hs =
    (let (h, s) = hs in
     case orgPaidSeat cl orgID s of Some f \<Rightarrow> (refuse f, h, s)
     | None \<Rightarrow>
       (case orgNode_at s orgID nodeID of Inl f \<Rightarrow> (refuse f, h, s)
        | Inr n \<Rightarrow>
          if \<not> cy_enabled cy then (Fail 503 ''credential encryption not configured'', h, s)
          else (case body of None \<Rightarrow> (Fail 400 ''admin_password is required'', h, s)
           | Some req \<Rightarrow>
             if TrimSpace (cq_admin_password req) = '''' then (Fail 400 ''admin_password is required'', h, s)
             else
               (let cur = GetFirewallCredential s (n_peer_id n);
                    user = (case cur of Inl _ \<Rightarrow> TrimSpace (cq_admin_user req)
                            | Inr c \<Rightarrow> if TrimSpace (cq_admin_user req) = '''' then fc_admin_user c else TrimSpace (cq_admin_user req));
                    url = (case cur of Inl _ \<Rightarrow> '''' | Inr c \<Rightarrow> fc_admin_url c)
                in case cy_seal cy (cq_admin_password req) of None \<Rightarrow> (Fail 500 ''failed to encrypt credential'', h, s)
                   | Some sealed \<Rightarrow>
                     (case UpsertFirewallCredential now (n_peer_id n) user sealed url s of
                        (Inl _, s) \<Rightarrow> (Fail 500 ''failed to store credential'', h, s)
                      | (Inr _, s) \<Rightarrow>
                        (let (r, h) = SendCommand (n_peer_id n) ''set_firewall_credentials''
                                        (encode (user, cq_admin_password req)) requestID h
                         in (Ok 200 (n_peer_id n, user, r = Sent), h, s)))))))"

end
