(* ===== verification/FirewallSafety.thy ===== *)
theory FirewallSafety
  imports FirewallApi
begin

text \<open>
  What the firewall component guarantees: the policy a node receives, who reads a Shield credential and
  that it is the one reported; and where commands falsify the recorded state.
\<close>

section \<open>The policy\<close>

text \<open>The policy as a translation of the rule list, without the loop.\<close>

definition node_rule_action :: "firewall_rule \<Rightarrow> string option" where
  "node_rule_action r =
    (if fr_rule_type r = FirewallRuleDNSRewrite then Some ''rewrite''
     else if fr_rule_type r = FirewallRuleDomainBlock \<or> fr_rule_type r = FirewallRuleWildcardDomainBlock then Some ''block''
     else if fr_rule_type r = FirewallRuleDomainAllow then Some ''allow'' else None)"

definition node_rule :: "firewall_rule \<Rightarrow> sync_rule option" where
  "node_rule r = (if \<not> fr_enabled r then None else map_option (\<lambda>a. \<lparr>sr_rule_type = fr_rule_type r, sr_target = fr_target r,
     sr_action = a, sr_value = (if a = ''rewrite'' then TrimSpace (fr_action r) else ''''), sr_enabled = True\<rparr>)
     (node_rule_action r))"

definition node_upstream :: "firewall_rule \<Rightarrow> string option" where
  "node_upstream r = (if fr_enabled r \<and> fr_rule_type r = FirewallRuleUpstreamResolverConfig
     then Some (TrimSpace (fr_target r)) else None)"

lemma add_sync_rule_eq: "add_sync_rule out r = out\<lparr>
    fp_rules := fp_rules out @ (case node_rule r of None \<Rightarrow> [] | Some x \<Rightarrow> [x]),
    fp_upstreams := fp_upstreams out @ (case node_upstream r of None \<Rightarrow> [] | Some u \<Rightarrow> [u])\<rparr>"
  by (cases out) (simp add: add_sync_rule_def node_rule_def node_rule_action_def node_upstream_def Let_def)

lemma sync_loop: "foldl add_sync_rule out rules = out\<lparr>
    fp_rules := fp_rules out @ List.map_filter node_rule rules,
    fp_upstreams := fp_upstreams out @ List.map_filter node_upstream rules\<rparr>"
proof (induction rules arbitrary: out)
  case Nil
  then show ?case by (simp add: map_filter_simps)
next
  case (Cons r rules)
  then show ?case by (simp add: add_sync_rule_eq map_filter_simps split: option.splits)
qed


section \<open>Credentials\<close>

lemma upsert_credential_find:
  assumes "UpsertFirewallCredential now p user secret url s = (Inr (), s')"
  shows "\<exists>c. find (\<lambda>c. fc_node_id c = p) (node_firewall_credentials s') = Some c \<and> fc_secret c = secret
    \<and> fc_admin_user c = (if user = '''' then ''admin'' else user)"
proof (cases "find (\<lambda>c. fc_node_id c = p) (node_firewall_credentials s)")
  case None
  then have "\<not> has_row (\<lambda>c. fc_node_id c = p) (node_firewall_credentials s)" by (auto simp: has_row_iff find_None_iff)
  with assms None show ?thesis by (auto simp: UpsertFirewallCredential_def Let_def find_append split: if_splits)
next
  case (Some c)
  then have "has_row (\<lambda>c. fc_node_id c = p) (node_firewall_credentials s)" by (auto simp: has_row_iff dest: find_SomeD)
  with assms Some show ?thesis by (auto simp: UpsertFirewallCredential_def Let_def find_upd_same)
qed

text \<open>
  A Shield credential is read back as the node reported it, by managers of the node's organization
  only: after an accepted report, a caller gets the reported password if the node belongs to the
  organization and the caller is an active owner, manager or paid seat of it; anyone else gets an error.
\<close>

theorem credential_roundtrip:
  assumes box: "\<And>x y. cy_seal cy x = Some y \<Longrightarrow> cy_open cy y = Some x"
    and ok: "handleNodeReportFirewallCredentials cy now (Some c) param (Some req) s = (Ok 204 (), s')"
    and node: "GetNode s' (nodeTokenPeerID (Some c)) = Inr n"
  shows "if n_org_id n = orgID \<and> UserHasOrgSeat s' orgID (cl_user_id cl)
    then (\<exists>user url. handleGetFirewallCredentials cy cl orgID (nodeTokenPeerID (Some c)) s' = Ok 200 (user, cq_admin_password req, url))
    else (\<exists>code msg. handleGetFirewallCredentials cy cl orgID (nodeTokenPeerID (Some c)) s' = Fail code msg)"
proof -
  let ?p = "nodeTokenPeerID (Some c)"
  from ok obtain sealed where seal: "cy_seal cy (cq_admin_password req) = Some sealed"
    and up: "UpsertFirewallCredential now ?p (TrimSpace (cq_admin_user req)) sealed (TrimSpace (cq_admin_url req)) s = (Inr (), s')"
    by (auto simp: handleNodeReportFirewallCredentials_def Let_def split: if_splits option.splits prod.splits sum.splits)
  from node have p: "n_peer_id n = ?p" by (auto simp: GetNode_def split: option.splits dest: find_SomeD)
  from upsert_credential_find [OF up] obtain k where
    "find (\<lambda>c. fc_node_id c = ?p) (node_firewall_credentials s') = Some k" "fc_secret k = sealed" by blast
  then show ?thesis
    using box [OF seal] node p
    by (auto simp: handleGetFirewallCredentials_def orgPaidSeat_def orgNode_at_def GetFirewallCredential_def refuse_def)
qed

section \<open>Departures\<close>

text \<open>
  Resetting the credentials clears nothing: an empty configuration reference or access URL keeps the
  stored one.
\<close>

theorem reset_keeps_references:
  assumes "UpdateFirewallServiceStatus now orgID nodeID st (Some '''') (Some '''') s = (Inr v, s')"
    and "GetFirewallService s orgID nodeID = Inr fw"
  shows "sv_config_ref v = sv_config_ref (fw_service fw) \<and> sv_access_url v = sv_access_url (fw_service fw)"
proof -
  have "patched (Some '''') x = ''''" for x by (simp add: patched_def TrimSpace_def)
  with assms show ?thesis by (auto simp: UpdateFirewallServiceStatus_def Let_def keep_if_empty_def)
qed

definition fw_caller :: caller where "fw_caller = \<lparr>cl_user_id = ''u1'', cl_role = ''user''\<rparr>"

definition fw_sentinel :: org_node_service where
  "fw_sentinel = \<lparr>sv_id = ''v1'', sv_org_id = ''o1'', sv_node_id = ''p1'', sv_service_type = ServiceTypeErebrusFirewall,
     sv_service_name = ServiceNameErebrusSentinel, sv_service_provider = ServiceProviderUnboundErebrus,
     sv_service_status = ServiceStatusUnlicensed, sv_visibility = ServiceVisibilityVPNOnly, sv_config_ref = '''',
     sv_access_url = '''', sv_license_id = '''', sv_created_by = '''', sv_created_at = 0, sv_updated_at = 0\<rparr>"

definition fw_db :: db where
  "fw_db = empty_db\<lparr>nodes := [(new_node 0 ''i1'' ''p1'' ''d'')\<lparr>n_org_id := ''o1''\<rparr>],
     org_members := [\<lparr>m_id = ''m1'', m_org_id = ''o1'', m_user_id = ''u1'', m_role = OrgRoleOwner,
        m_seat_tier = SeatTierPro, m_status = MemberStatusActive, m_created_at = 0, m_updated_at = 0\<rparr>],
     org_node_services := [fw_sentinel]\<rparr>"

definition fw_hub :: hub where
  "fw_hub = \<lparr>hb_conns = [(''p1'', 0)],
     hb_all = [\<lparr>cn_peer = ''p1'', cn_region = ''eu'', cn_send = [], cn_closed = False, cn_reading = True\<rparr>], hb_regions = [(''eu'', 1)]\<rparr>"

definition license_text :: "sync_payload \<Rightarrow> string" where
  "license_text p = (if fp_licensed p then ''licensed'' else ''unlicensed'')"

text \<open>
  Synchronising an unlicensed Sentinel licenses it.  The first sync tells the node that it has no
  license and then records the service active, so the second sync, with no license attached in
  between, tells the node that it is licensed.
\<close>

theorem sync_licenses_sentinel:
  "case handleFirewallSync license_text 1 ''r1'' fw_caller ''o1'' ''p1'' (fw_hub, fw_db) of (_, hs1) \<Rightarrow>
     (case handleFirewallSync license_text 2 ''r2'' fw_caller ''o1'' ''p1'' hs1 of (_, h, s) \<Rightarrow>
       cn_send (hb_all h ! 0) = [Command ActionSyncFirewall ''r1'' ''unlicensed'', Command ActionSyncFirewall ''r2'' ''licensed''])"
  by code_simp

definition fw_crypt :: crypt where
  "fw_crypt = \<lparr>cy_enabled = True, cy_seal = (\<lambda>x. Some (rev x)), cy_open = (\<lambda>x. Some (rev x))\<rparr>"

theorem credential_roundtrip_witness:
  "\<exists>s' user url. handleNodeReportFirewallCredentials fw_crypt 5 (Some \<lparr>ca_role = ''node'', ca_node_id = ''p1'', ca_peer_id = ''''\<rparr>)
      '''' (Some \<lparr>cq_admin_user = '''', cq_admin_password = ''pw'', cq_admin_url = ''''\<rparr>) fw_db = (Ok 204 (), s')
    \<and> handleGetFirewallCredentials fw_crypt fw_caller ''o1'' ''p1'' s' = Ok 200 (user, ''pw'', url)"
proof -
  let ?c = "\<lparr>ca_role = ''node'', ca_node_id = ''p1'', ca_peer_id = ''''\<rparr>"
  let ?req = "\<lparr>cq_admin_user = '''', cq_admin_password = ''pw'', cq_admin_url = ''''\<rparr>"
  let ?s' = "snd (handleNodeReportFirewallCredentials fw_crypt 5 (Some ?c) '''' (Some ?req) fw_db)"
  have ok: "handleNodeReportFirewallCredentials fw_crypt 5 (Some ?c) '''' (Some ?req) fw_db = (Ok 204 (), ?s')" by code_simp
  have peer: "nodeTokenPeerID (Some ?c) = ''p1''" by code_simp
  have node: "GetNode ?s' (nodeTokenPeerID (Some ?c)) = Inr (hd (nodes fw_db))" by code_simp
  have mine: "n_org_id (hd (nodes fw_db)) = ''o1'' \<and> UserHasOrgSeat ?s' ''o1'' (cl_user_id fw_caller)" by code_simp
  have box: "cy_seal fw_crypt x = Some y \<Longrightarrow> cy_open fw_crypt y = Some x" for x y by (auto simp: fw_crypt_def)
  from credential_roundtrip [OF box ok node, of "''o1''" fw_caller] mine ok show ?thesis unfolding peer by auto
qed

end
