(* ===== verification/Users.thy ===== *)
theory Users
  imports Orgs
begin

text \<open>
  Accounts and the identities that lead to them: \<open>internal/store/users.go\<close>, \<open>email.go\<close>,
  \<open>identity.go\<close> and \<open>social.go\<close>.

  An empty wallet, chain, email, name or picture of a user is SQL NULL.  Row identifiers the
  database draws are arguments, as is the clock.
\<close>

section \<open>Users\<close>

definition eqFold :: "string \<Rightarrow> string \<Rightarrow> bool" where
  "eqFold a b \<longleftrightarrow> length a = length b \<and> ToLower a = ToLower b"

definition new_user :: "time \<Rightarrow> id \<Rightarrow> string \<Rightarrow> string \<Rightarrow> string \<Rightarrow> bool \<Rightarrow> string \<Rightarrow> user" where
  "new_user now newID wallet chain email verified role = \<lparr>us_id = newID, us_wallet_address = wallet,
     us_chain = chain, us_role = role, us_email = email, us_email_verified = verified, us_name = '''',
     us_profile_picture = '''', us_xp_earned = 0, us_xp_claimed = 0, us_tier = 0, us_referral_code = '''',
     us_referred_by = '''', us_created_at = now\<rparr>"

lemma new_user_sel [simp]:
  "us_id (new_user now i w c e v r) = i" "us_wallet_address (new_user now i w c e v r) = w"
  "us_email (new_user now i w c e v r) = e" "us_email_verified (new_user now i w c e v r) = v"
  "us_role (new_user now i w c e v r) = r" "us_chain (new_user now i w c e v r) = c"
  "us_xp_earned (new_user now i w c e v r) = 0" "us_tier (new_user now i w c e v r) = 0"
  "us_referral_code (new_user now i w c e v r) = ''''" "us_referred_by (new_user now i w c e v r) = ''''"
  by (simp_all add: new_user_def)

text \<open>
  Both callers reject an empty wallet, so the conflict target is a wallet that is not NULL.  The
  conflict is on the exact text of the address.
\<close>

definition UpsertUserByWallet :: "time \<Rightarrow> id \<Rightarrow> string \<Rightarrow> string \<Rightarrow> string \<Rightarrow> db \<Rightarrow> user res \<times> db" where
  "UpsertUserByWallet now newID wallet chain adminWallet s =
    (let role = (if adminWallet \<noteq> '''' \<and> eqFold wallet adminWallet then ''admin'' else ''user'')
     in case find (\<lambda>u. us_wallet_address u = wallet) (users s) of
          Some old \<Rightarrow> (Inr (old\<lparr>us_role := role\<rparr>),
            s\<lparr>users := upd_rows (\<lambda>u. us_wallet_address u = wallet) (\<lambda>u. u\<lparr>us_role := role\<rparr>) (users s)\<rparr>)
        | None \<Rightarrow> (let u = new_user now newID wallet chain '''' False role
                  in seq (insert_user u s) (\<lambda>_ s. (Inr u, s))))"

definition UserIDByWallet :: "db \<Rightarrow> string \<Rightarrow> id res" where
  "UserIDByWallet s wallet =
    (case find (\<lambda>u. us_wallet_address u \<noteq> '''' \<and> ToLower (us_wallet_address u) = ToLower wallet) (users s) of
       None \<Rightarrow> Inl ErrNotFound | Some u \<Rightarrow> Inr (us_id u))"

definition GetUser :: "db \<Rightarrow> id \<Rightarrow> user res" where
  "GetUser s userID = (case find (\<lambda>u. us_id u = userID) (users s) of None \<Rightarrow> Inl ErrNotFound | Some u \<Rightarrow> Inr u)"

definition UpdateProfile :: "id \<Rightarrow> string option \<Rightarrow> string option \<Rightarrow> db \<Rightarrow> unit res \<times> db" where
  "UpdateProfile userID name picture s =
    (Inr (), s\<lparr>users := upd_rows (\<lambda>u. us_id u = userID)
       (\<lambda>u. u\<lparr>us_name := (case name of None \<Rightarrow> us_name u | Some n \<Rightarrow> n),
              us_profile_picture := (case picture of None \<Rightarrow> us_profile_picture u | Some p \<Rightarrow> p)\<rparr>) (users s)\<rparr>)"

definition CountUsers :: "db \<Rightarrow> int" where
  "CountUsers s = int (length (users s))"

definition ListUsers :: "db \<Rightarrow> int \<Rightarrow> int \<Rightarrow> user list" where
  "ListUsers s limit off = limit_rows limit (drop (nat off) (order_desc us_created_at (users s)))"

section \<open>Verified email\<close>

definition EmailOwner :: "db \<Rightarrow> string \<Rightarrow> id res" where
  "EmailOwner s email =
    (case find (\<lambda>u. us_email u \<noteq> '''' \<and> ToLower (us_email u) = ToLower email) (users s) of
       None \<Rightarrow> Inl ErrNotFound | Some u \<Rightarrow> Inr (us_id u))"

definition CreateEmailOTP :: "time \<Rightarrow> id \<Rightarrow> id \<Rightarrow> string \<Rightarrow> string \<Rightarrow> int \<Rightarrow> db \<Rightarrow> unit res \<times> db" where
  "CreateEmailOTP now newID userID email codeHash ttl s =
    (if \<not> fk_user s userID then (Inl foreign_key_violation, s)
     else (Inr (), s\<lparr>email_otps := email_otps s @ [\<lparr>eo_id = newID, eo_user_id = userID, eo_email = ToLower email,
            eo_code_hash = codeHash, eo_attempts = 0, eo_expires_at = now + ttl, eo_created_at = now\<rparr>]\<rparr>))"

definition otp_for :: "id \<Rightarrow> string \<Rightarrow> email_otp \<Rightarrow> bool" where
  "otp_for userID email o1 \<longleftrightarrow> eo_user_id o1 = userID \<and> ToLower (eo_email o1) = ToLower email"

definition LatestEmailOTP :: "db \<Rightarrow> time \<Rightarrow> id \<Rightarrow> string \<Rightarrow> email_otp res" where
  "LatestEmailOTP s now userID email =
    (case first_row (order_desc eo_created_at
            (filter (\<lambda>o1. otp_for userID email o1 \<and> eo_expires_at o1 > now) (email_otps s))) of
       None \<Rightarrow> Inl ErrNotFound | Some o1 \<Rightarrow> Inr o1)"

text \<open>Without a row, \<open>Scan\<close> fails and the caller, which drops the error, sees 0.\<close>

definition BumpEmailOTPAttempts :: "id \<Rightarrow> db \<Rightarrow> int res \<times> db" where
  "BumpEmailOTPAttempts otpID s =
    (case find (\<lambda>o1. eo_id o1 = otpID) (email_otps s) of
       None \<Rightarrow> (Inl (ErrMsg ''sql: no rows in result set''), s)
     | Some o1 \<Rightarrow> (Inr (eo_attempts o1 + 1), s\<lparr>email_otps := upd_rows (\<lambda>o1. eo_id o1 = otpID)
          (\<lambda>o1. o1\<lparr>eo_attempts := eo_attempts o1 + 1\<rparr>) (email_otps s)\<rparr>))"

definition DeleteEmailOTPs :: "id \<Rightarrow> string \<Rightarrow> db \<Rightarrow> db" where
  "DeleteEmailOTPs userID email s = s\<lparr>email_otps := del_rows (otp_for userID email) (email_otps s)\<rparr>"

definition SetUserEmailVerified :: "id \<Rightarrow> string \<Rightarrow> db \<Rightarrow> unit res \<times> db" where
  "SetUserEmailVerified userID email s =
    (if fk_user s userID \<and> has_row (\<lambda>u. us_id u \<noteq> userID \<and> us_email u = ToLower email) (users s)
     then (Inl unique_violation, s)
     else (Inr (), s\<lparr>users := upd_rows (\<lambda>u. us_id u = userID)
            (\<lambda>u. u\<lparr>us_email := ToLower email, us_email_verified := True\<rparr>) (users s)\<rparr>))"

definition PurgeExpiredEmailOTPs :: "time \<Rightarrow> db \<Rightarrow> db" where
  "PurgeExpiredEmailOTPs now s = s\<lparr>email_otps := del_rows (\<lambda>o1. eo_expires_at o1 < now) (email_otps s)\<rparr>"

section \<open>Linked accounts of other providers\<close>

abbreviation ErrSocialTaken :: err where "ErrSocialTaken \<equiv> ErrMsg ''social account linked to another user''"
abbreviation ErrWalletTaken :: err where "ErrWalletTaken \<equiv> ErrMsg ''wallet already linked to another account''"

definition social_at :: "string \<Rightarrow> string \<Rightarrow> social_account \<Rightarrow> bool" where
  "social_at provider providerID a \<longleftrightarrow> sa_provider a = provider \<and> sa_provider_id a = providerID"

definition LinkSocialAccount :: "time \<Rightarrow> id \<Rightarrow> string \<Rightarrow> string \<Rightarrow> string \<Rightarrow> db \<Rightarrow> bool res \<times> db" where
  "LinkSocialAccount now userID provider providerID handle s =
    (case find (social_at provider providerID) (social_accounts s) of
       Some a \<Rightarrow>
         if sa_user_id a \<noteq> userID then (Inl ErrSocialTaken, s)
         else (Inr False, s\<lparr>social_accounts := upd_rows (social_at provider providerID)
                (\<lambda>a. a\<lparr>sa_handle := handle\<rparr>) (social_accounts s)\<rparr>)
     | None \<Rightarrow>
         if \<not> fk_user s userID then (Inl foreign_key_violation, s)
         else (Inr True, s\<lparr>social_accounts := social_accounts s @ [\<lparr>sa_user_id = userID, sa_provider = provider,
                sa_provider_id = providerID, sa_handle = handle, sa_verified_at = now\<rparr>]\<rparr>))"

definition ListSocialAccounts :: "db \<Rightarrow> id \<Rightarrow> social_account list" where
  "ListSocialAccounts s userID = order_asc sa_verified_at (filter (\<lambda>a. sa_user_id a = userID) (social_accounts s))"

section \<open>Resolving an identity to an account\<close>

definition insertUser :: "time \<Rightarrow> id \<Rightarrow> string \<Rightarrow> string \<Rightarrow> string \<Rightarrow> bool \<Rightarrow> string \<Rightarrow> db \<Rightarrow> user res \<times> db" where
  "insertUser now newID wallet chain email verified adminWallet s =
    (let role = (if adminWallet \<noteq> '''' \<and> wallet \<noteq> '''' \<and> eqFold wallet adminWallet then ''admin'' else ''user'');
         u = new_user now newID wallet chain email verified role
     in seq (insert_user u s) (\<lambda>_ s. (Inr u, s)))"

definition userIDByVerifiedEmail :: "db \<Rightarrow> string \<Rightarrow> id res" where
  "userIDByVerifiedEmail s email =
    (case find (\<lambda>u. us_email u \<noteq> '''' \<and> ToLower (us_email u) = ToLower email \<and> us_email_verified u) (users s) of
       None \<Rightarrow> Inl ErrNotFound | Some u \<Rightarrow> Inr (us_id u))"

definition ResolveOrCreateUserByEmail :: "time \<Rightarrow> id \<Rightarrow> string \<Rightarrow> db \<Rightarrow> (user \<times> bool) res \<times> db" where
  "ResolveOrCreateUserByEmail now newID email s =
    (case userIDByVerifiedEmail s email of
       Inr i \<Rightarrow> (map_sum id (\<lambda>u. (u, False)) (GetUser s i), s)
     | Inl _ \<Rightarrow> seq (insertUser now newID '''' '''' email True '''' s) (\<lambda>u s. (Inr (u, True), s)))"

definition ResolveOrCreateUserBySocial ::
  "time \<Rightarrow> id \<Rightarrow> string \<Rightarrow> string \<Rightarrow> string \<Rightarrow> string \<Rightarrow> db \<Rightarrow> (user \<times> bool) res \<times> db" where
  "ResolveOrCreateUserBySocial now newID provider providerID email handle s =
    (case find (social_at provider providerID) (social_accounts s) of
       Some a \<Rightarrow> (map_sum id (\<lambda>u. (u, False)) (GetUser s (sa_user_id a)), s)
     | None \<Rightarrow>
       (case (if email \<noteq> '''' then userIDByVerifiedEmail s email else Inl ErrNotFound) of
          Inr i \<Rightarrow>
            (case LinkSocialAccount now i provider providerID handle s of
               (Inl e, s) \<Rightarrow> if e \<noteq> ErrSocialTaken then (Inl e, s)
                             else (map_sum id (\<lambda>u. (u, False)) (GetUser s i), s)
             | (Inr _, s) \<Rightarrow> (map_sum id (\<lambda>u. (u, False)) (GetUser s i), s))
        | Inl _ \<Rightarrow>
            seq (insertUser now newID '''' '''' email (email \<noteq> '''') '''' s) (\<lambda>u s.
            (case LinkSocialAccount now (us_id u) provider providerID handle s of
               (Inl e, s) \<Rightarrow> if e \<noteq> ErrSocialTaken then (Inl e, s) else (Inr (u, True), s)
             | (Inr _, s) \<Rightarrow> (Inr (u, True), s)))))"

definition set_wallet :: "id \<Rightarrow> string \<Rightarrow> string \<Rightarrow> db \<Rightarrow> unit res \<times> db" where
  "set_wallet userID wallet chain s =
    (if fk_user s userID \<and> has_row (\<lambda>u. us_id u \<noteq> userID \<and> us_wallet_address u = wallet) (users s)
     then (Inl unique_violation, s)
     else (Inr (), s\<lparr>users := upd_rows (\<lambda>u. us_id u = userID)
            (\<lambda>u. u\<lparr>us_wallet_address := wallet, us_chain := chain\<rparr>) (users s)\<rparr>))"

definition AttachWalletToUser :: "id \<Rightarrow> string \<Rightarrow> string \<Rightarrow> db \<Rightarrow> unit res \<times> db" where
  "AttachWalletToUser userID wallet chain s =
    (case UserIDByWallet s wallet of
       Inr owner \<Rightarrow> if owner \<noteq> userID then (Inl ErrWalletTaken, s) else set_wallet userID wallet chain s
     | Inl _ \<Rightarrow> set_wallet userID wallet chain s)"

section \<open>Login codes\<close>

definition UpsertLoginOTP :: "time \<Rightarrow> string \<Rightarrow> string \<Rightarrow> int \<Rightarrow> db \<Rightarrow> db" where
  "UpsertLoginOTP now email codeHash ttl s =
    (let row = \<lparr>lo_email = email, lo_code_hash = codeHash, lo_attempts = 0, lo_expires_at = now + ttl,
                lo_created_at = now\<rparr>;
         rows = (if has_row (\<lambda>x. lo_email x = email) (email_login_otps s)
                 then upd_rows (\<lambda>x. lo_email x = email) (\<lambda>_. row) (email_login_otps s)
                 else email_login_otps s @ [row])
     in s\<lparr>email_login_otps := del_rows (\<lambda>x. lo_expires_at x < now) rows\<rparr>)"

definition GetLoginOTP :: "db \<Rightarrow> time \<Rightarrow> string \<Rightarrow> login_otp res" where
  "GetLoginOTP s now email =
    (case find (\<lambda>x. lo_email x = email \<and> lo_expires_at x > now) (email_login_otps s) of
       None \<Rightarrow> Inl ErrNotFound | Some x \<Rightarrow> Inr x)"

definition BumpLoginOTPAttempts :: "string \<Rightarrow> db \<Rightarrow> int res \<times> db" where
  "BumpLoginOTPAttempts email s =
    (case find (\<lambda>x. lo_email x = email) (email_login_otps s) of
       None \<Rightarrow> (Inl (ErrMsg ''sql: no rows in result set''), s)
     | Some x \<Rightarrow> (Inr (lo_attempts x + 1), s\<lparr>email_login_otps := upd_rows (\<lambda>x. lo_email x = email)
          (\<lambda>x. x\<lparr>lo_attempts := lo_attempts x + 1\<rparr>) (email_login_otps s)\<rparr>))"

definition DeleteLoginOTP :: "string \<Rightarrow> db \<Rightarrow> db" where
  "DeleteLoginOTP email s = s\<lparr>email_login_otps := del_rows (\<lambda>x. lo_email x = email) (email_login_otps s)\<rparr>"

end
