(* ===== verification/Rewards.thy ===== *)
theory Rewards
  imports Users "HOL-Library.Char_ord" "HOL-Library.List_Lexorder" "HOL-Library.Product_Lexorder"
begin

text \<open>
  Referrals, experience points, perks, leaderboards and the activity log:
  \<open>internal/store/referrals.go\<close>, \<open>xp.go\<close>, \<open>perks.go\<close>, \<open>leaderboard.go\<close> and \<open>activity.go\<close>.

  Text is compared byte by byte where a query orders by it.  The day a job runs on is an
  argument, because it only goes into keys.
\<close>

section \<open>Referrals\<close>

definition referralAlphabet :: string where
  "referralAlphabet = ''0123456789ABCDEFGHJKMNPQRSTVWXYZ''"

text \<open>\<open>genReferralCode\<close> on the random bytes it draws.\<close>

definition genReferralCode :: "nat list \<Rightarrow> string" where
  "genReferralCode bytes = map (\<lambda>b. referralAlphabet ! (b mod length referralAlphabet)) bytes"

text \<open>
  The five attempts; \<open>codes k\<close> are the bytes drawn by attempt \<open>k\<close>.  Statements run one after the
  other, so the row that was read without a code still has none and the read-back of a code
  somebody else set meanwhile is not reached.
\<close>

fun referral_loop :: "id \<Rightarrow> (nat \<Rightarrow> nat list) \<Rightarrow> nat \<Rightarrow> nat \<Rightarrow> db \<Rightarrow> string res \<times> db" where
  "referral_loop userID codes k 0 s = (Inl (ErrMsg ''could not allocate referral code''), s)"
| "referral_loop userID codes k (Suc n) s =
    (let candidate = genReferralCode (codes k)
     in if has_row (\<lambda>u. us_id u \<noteq> userID \<and> us_referral_code u = candidate) (users s)
        then referral_loop userID codes (Suc k) n s
        else (Inr candidate, s\<lparr>users := upd_rows (\<lambda>u. us_id u = userID \<and> us_referral_code u = '''')
               (\<lambda>u. u\<lparr>us_referral_code := candidate\<rparr>) (users s)\<rparr>))"

definition EnsureReferralCode :: "id \<Rightarrow> (nat \<Rightarrow> nat list) \<Rightarrow> db \<Rightarrow> string res \<times> db" where
  "EnsureReferralCode userID codes s =
    (case GetUser s userID of
       Inl e \<Rightarrow> (Inl e, s)
     | Inr u \<Rightarrow> if us_referral_code u \<noteq> '''' then (Inr (us_referral_code u), s)
                else referral_loop userID codes 0 5 s)"

definition UserIDByReferralCode :: "db \<Rightarrow> string \<Rightarrow> id res" where
  "UserIDByReferralCode s code =
    (case find (\<lambda>u. us_referral_code u \<noteq> '''' \<and> us_referral_code u = code) (users s) of
       None \<Rightarrow> Inl ErrNotFound | Some u \<Rightarrow> Inr (us_id u))"

definition unreferred :: "id \<Rightarrow> user \<Rightarrow> bool" where
  "unreferred userID u \<longleftrightarrow> us_id u = userID \<and> us_referred_by u = ''''"

definition BindReferrer :: "id \<Rightarrow> id \<Rightarrow> db \<Rightarrow> bool res \<times> db" where
  "BindReferrer userID referrerUserID s =
    (if userID = referrerUserID then (Inr False, s)
     else if has_row (unreferred userID) (users s) \<and> \<not> fk_user s referrerUserID then (Inl foreign_key_violation, s)
     else (Inr (has_row (unreferred userID) (users s)),
           s\<lparr>users := upd_rows (unreferred userID) (\<lambda>u. u\<lparr>us_referred_by := referrerUserID\<rparr>) (users s)\<rparr>))"

definition ReferrerOf :: "db \<Rightarrow> id \<Rightarrow> string res" where
  "ReferrerOf s userID = map_sum id us_referred_by (GetUser s userID)"

record referral_recent =
  rr_wallet :: string
  rr_qualified :: bool
  rr_joined_at :: time

record referral_summary =
  rs_code :: string
  rs_referred_count :: int
  rs_referred_by :: string
  rs_recent :: "referral_recent list"

definition referral_facts :: "db \<Rightarrow> id \<Rightarrow> string \<Rightarrow> referral_summary" where
  "referral_facts s userID code =
    \<lparr>rs_code = code,
     rs_referred_count = row_count (\<lambda>u. us_referred_by u = userID) (users s),
     rs_referred_by = (case GetUser s userID of Inl _ \<Rightarrow> ''''
        | Inr me \<Rightarrow> (case GetUser s (us_referred_by me) of Inl _ \<Rightarrow> '''' | Inr u \<Rightarrow> us_wallet_address u)),
     rs_recent = map (\<lambda>u. \<lparr>rr_wallet = us_wallet_address u,
          rr_qualified = UserHasActiveOrgMembership s (us_id u), rr_joined_at = us_created_at u\<rparr>)
        (limit_rows 20 (order_desc us_created_at (filter (\<lambda>u. us_referred_by u = userID) (users s))))\<rparr>"

definition ReferralSummary :: "id \<Rightarrow> (nat \<Rightarrow> nat list) \<Rightarrow> db \<Rightarrow> referral_summary res \<times> db" where
  "ReferralSummary userID codes s =
    seq (EnsureReferralCode userID codes s) (\<lambda>code s. (Inr (referral_facts s userID code), s))"

section \<open>Experience points\<close>

definition defaultTierThresholds :: "int list" where
  "defaultTierThresholds = [0, 100, 500, 2000, 10000]"

text \<open>The cutoffs are a field of the store; these two operations read and replace it.\<close>

definition SetTierThresholds :: "int list \<Rightarrow> int list \<Rightarrow> int list" where
  "SetTierThresholds t cur = (if t \<noteq> [] then t else cur)"

definition TierThresholds :: "int list \<Rightarrow> int list" where
  "TierThresholds cur = (if cur = [] then defaultTierThresholds else cur)"

fun tier_loop :: "int \<Rightarrow> int \<Rightarrow> int \<Rightarrow> int list \<Rightarrow> int" where
  "tier_loop xp i tier [] = tier"
| "tier_loop xp i tier (t # ts) = tier_loop xp (i + 1) (if xp \<ge> t then i else tier) ts"

definition tierForXP :: "int \<Rightarrow> int list \<Rightarrow> int" where
  "tierForXP xp thresholds = tier_loop xp 0 0 thresholds"

text \<open>
  \<open>ON CONFLICT (dedup_key)\<close> needs a unique index on that column.  The only one the migrations
  create is partial (\<open>migrations/0006_xp_claims.sql:8\<close>, \<open>WHERE dedup_key IS NOT NULL\<close>), and a
  partial index serves only a conflict target that repeats its predicate, which the statement does
  not: Postgres answers 42P10.  The model of the award takes the presence of a usable index as an
  argument, so that the intended behaviour can be stated too.
\<close>

definition dedup_arbiter :: bool where
  "dedup_arbiter = False"

definition credit :: "int list \<Rightarrow> id \<Rightarrow> int \<Rightarrow> db \<Rightarrow> bool res \<times> db" where
  "credit thr userID points s =
    (case GetUser s userID of
       Inl e \<Rightarrow> (Inl (ErrMsg ''sql: no rows in result set''), s)
     | Inr u \<Rightarrow> (case pg_bigint (us_xp_earned u + points) of Inl e \<Rightarrow> (Inl e, s)
        | Inr earned \<Rightarrow> (Inr True, s\<lparr>users := upd_rows (\<lambda>u. us_id u = userID)
            (\<lambda>u. u\<lparr>us_xp_earned := earned, us_tier := tierForXP earned (TierThresholds thr)\<rparr>) (users s)\<rparr>)))"

definition insert_event :: "xp_event \<Rightarrow> db \<Rightarrow> unit res \<times> db" where
  "insert_event e s =
    (if \<not> fk_user s (xe_user_id e) then (Inl foreign_key_violation, s)
     else (Inr (), s\<lparr>xp_events := xp_events s @ [e]\<rparr>))"

definition awardXP_tx :: "bool \<Rightarrow> int list \<Rightarrow> xp_event \<Rightarrow> db \<Rightarrow> bool res \<times> db" where
  "awardXP_tx arbiter thr e s =
    (if xe_dedup_key e = '''' then seq (insert_event e s) (\<lambda>_. credit thr (xe_user_id e) (xe_points e))
     else if \<not> arbiter then (Inl (PgError ''42P10''), s)
     else if has_row (\<lambda>r. xe_dedup_key r = xe_dedup_key e) (xp_events s) then (Inr False, s)
     else seq (insert_event e s) (\<lambda>_. credit thr (xe_user_id e) (xe_points e)))"

definition awardXP :: "bool \<Rightarrow> int list \<Rightarrow> xp_event \<Rightarrow> db \<Rightarrow> bool res \<times> db" where
  "awardXP arbiter thr e s = in_tx (awardXP_tx arbiter thr e) s"

definition xp_of :: "time \<Rightarrow> id \<Rightarrow> string \<Rightarrow> int \<Rightarrow> (string \<times> string) list \<Rightarrow> string \<Rightarrow> xp_event" where
  "xp_of now userID kind points meta dedupKey = \<lparr>xe_user_id = userID, xe_kind = kind, xe_points = points,
     xe_meta = meta, xe_dedup_key = dedupKey, xe_created_at = now\<rparr>"

definition AwardXP :: "time \<Rightarrow> int list \<Rightarrow> id \<Rightarrow> string \<Rightarrow> int \<Rightarrow> (string \<times> string) list \<Rightarrow> db \<Rightarrow> unit res \<times> db" where
  "AwardXP now thr userID kind points meta s =
    seq (awardXP dedup_arbiter thr (xp_of now userID kind points meta '''') s) (\<lambda>_ s. (Inr (), s))"

definition AwardXPOnce ::
  "time \<Rightarrow> int list \<Rightarrow> id \<Rightarrow> string \<Rightarrow> int \<Rightarrow> (string \<times> string) list \<Rightarrow> string \<Rightarrow> db \<Rightarrow> bool res \<times> db" where
  "AwardXPOnce now thr userID kind points meta dedupKey s =
    awardXP dedup_arbiter thr (xp_of now userID kind points meta dedupKey) s"

definition XPBreakdown :: "db \<Rightarrow> id \<Rightarrow> (string \<times> int) list" where
  "XPBreakdown s userID =
    (let evs = filter (\<lambda>e. xe_user_id e = userID) (xp_events s)
     in map (\<lambda>k. (k, total_of (\<lambda>e. if xe_kind e = k then xe_points e else 0) evs)) (remdups (map xe_kind evs)))"

text \<open>The online nodes of each owner, the five that reported last.\<close>

definition healthy_nodes :: "time \<Rightarrow> db \<Rightarrow> (id \<times> id \<times> time) list" where
  "healthy_nodes now s =
    (let rows = [(n_id n, o_owner_user_id x, t). n \<leftarrow> nodes s, x \<leftarrow> orgs s,
                 t \<leftarrow> (case n_last_heartbeat n of None \<Rightarrow> [] | Some t \<Rightarrow> [t]),
                 o_id x = n_org_id n, n_org_id n \<noteq> '''', n_status n = ''online'', t > now - 3600]
     in concat (map (\<lambda>owner. take 5 (order_desc (\<lambda>(_, _, t). t) (filter (\<lambda>(_, w, _). w = owner) rows)))
          (remdups (map (\<lambda>(_, w, _). w) rows))))"

definition AwardOperatorUptimeXP :: "time \<Rightarrow> string \<Rightarrow> int list \<Rightarrow> int \<Rightarrow> db \<Rightarrow> db" where
  "AwardOperatorUptimeXP now day thr points s =
    foldl (\<lambda>s (node, owner, _). snd (AwardXPOnce now thr owner ''operator_uptime_day'' points
        [(''node_id'', node), (''day'', day)] (''uptime:'' @ node @ '':'' @ day) s)) s (healthy_nodes now s)"

section \<open>Perks\<close>

definition UpsertPerk :: "perk \<Rightarrow> db \<Rightarrow> db" where
  "UpsertPerk p s =
    (let p = p\<lparr>pk_meta := (if pk_meta p = '''' then ''{}'' else pk_meta p)\<rparr>
     in if has_row (\<lambda>r. pk_id r = pk_id p) (perks s)
        then s\<lparr>perks := upd_rows (\<lambda>r. pk_id r = pk_id p) (\<lambda>_. p) (perks s)\<rparr>
        else s\<lparr>perks := perks s @ [p]\<rparr>)"

definition ListPerks :: "db \<Rightarrow> bool \<Rightarrow> perk list" where
  "ListPerks s includeInactive =
    sort_key (\<lambda>p. (pk_min_tier p, pk_id p)) (filter (\<lambda>p. includeInactive \<or> pk_is_active p) (perks s))"

definition GrantPerk :: "time \<Rightarrow> id \<Rightarrow> id \<Rightarrow> string \<Rightarrow> db \<Rightarrow> unit res \<times> db" where
  "GrantPerk now userID perkID meta s =
    (let meta = (if meta = '''' then ''{}'' else meta)
     in if has_row (\<lambda>r. up_user_id r = userID \<and> up_perk_id r = perkID) (user_perks s) then (Inr (), s)
        else if \<not> fk_user s userID \<or> \<not> has_row (\<lambda>p. pk_id p = perkID) (perks s) then (Inl foreign_key_violation, s)
        else (Inr (), s\<lparr>user_perks := user_perks s @ [\<lparr>up_user_id = userID, up_perk_id = perkID,
               up_granted_at = now, up_meta = meta\<rparr>]\<rparr>))"

definition ListUserPerks :: "db \<Rightarrow> id \<Rightarrow> (user_perk \<times> perk) list" where
  "ListUserPerks s userID = order_desc (\<lambda>(g, _). up_granted_at g)
     [(g, p). g \<leftarrow> user_perks s, p \<leftarrow> perks s, pk_id p = up_perk_id g, up_user_id g = userID]"

definition GrantedPerkIDs :: "db \<Rightarrow> id \<Rightarrow> id list" where
  "GrantedPerkIDs s userID = map up_perk_id (filter (\<lambda>g. up_user_id g = userID) (user_perks s))"

section \<open>Leaderboards\<close>

record leader_entry =
  le_user_id :: id
  le_wallet :: string
  le_value :: int

datatype metric = ByXP | ByReferrals

definition in_window :: "time option \<Rightarrow> xp_event \<Rightarrow> bool" where
  "in_window since e \<longleftrightarrow> (case since of None \<Rightarrow> True | Some t \<Rightarrow> xe_created_at e \<ge> t)"

definition referred :: "xp_event \<Rightarrow> bool" where
  "referred e \<longleftrightarrow> xe_kind e = ''referral_qualified'' \<and> map_of (xe_meta e) ''role'' = Some ''referrer''"

text \<open>The value of a user, and whether the query has a row for the user at all.\<close>

definition score :: "db \<Rightarrow> metric \<Rightarrow> time option \<Rightarrow> id \<Rightarrow> int" where
  "score s m since userID =
    (case (m, since) of
       (ByReferrals, _) \<Rightarrow> row_count (\<lambda>e. xe_user_id e = userID \<and> referred e \<and> in_window since e) (xp_events s)
     | (ByXP, Some _) \<Rightarrow> total_of (\<lambda>e. if xe_user_id e = userID \<and> in_window since e then xe_points e else 0) (xp_events s)
     | (ByXP, None) \<Rightarrow> (case GetUser s userID of Inl _ \<Rightarrow> 0 | Inr u \<Rightarrow> us_xp_earned u))"

definition scored :: "db \<Rightarrow> metric \<Rightarrow> time option \<Rightarrow> id \<Rightarrow> bool" where
  "scored s m since userID =
    (case (m, since) of
       (ByReferrals, _) \<Rightarrow> has_row (\<lambda>e. xe_user_id e = userID \<and> referred e \<and> in_window since e) (xp_events s)
     | (ByXP, Some _) \<Rightarrow> has_row (\<lambda>e. xe_user_id e = userID \<and> in_window since e) (xp_events s)
     | (ByXP, None) \<Rightarrow> score s ByXP None userID > 0)"

definition Leaderboard :: "db \<Rightarrow> metric \<Rightarrow> time option \<Rightarrow> int \<Rightarrow> int \<Rightarrow> leader_entry list" where
  "Leaderboard s m since limit off =
    limit_rows limit (drop (nat off) (sort_key (\<lambda>e. (- le_value e, le_user_id e))
      (map (\<lambda>u. \<lparr>le_user_id = us_id u, le_wallet = us_wallet_address u, le_value = score s m since (us_id u)\<rparr>)
        (filter (\<lambda>u. scored s m since (us_id u)) (users s)))))"

text \<open>
  The groups \<open>MyRank\<close> counts are the users that occur in \<open>xp_events\<close>, or all users for the cached
  total; without a row of the caller the all-time query fails.
\<close>

definition MyRank :: "db \<Rightarrow> metric \<Rightarrow> time option \<Rightarrow> id \<Rightarrow> (int \<times> int) res" where
  "MyRank s m since userID =
    (if m = ByXP \<and> since = None then
       (case GetUser s userID of Inl _ \<Rightarrow> Inl (ErrMsg ''sql: no rows in result set'')
        | Inr u \<Rightarrow> Inr (row_count (\<lambda>x. us_xp_earned x > us_xp_earned u) (users s) + 1, us_xp_earned u))
     else (let value = score s m since userID
           in Inr (int (length (filter (\<lambda>i. scored s m since i \<and> score s m since i > value)
                     (remdups (map xe_user_id (xp_events s))))) + 1, value)))"

section \<open>Activity log\<close>

definition LogActivity :: "activity_entry \<Rightarrow> db \<Rightarrow> unit res \<times> db" where
  "LogActivity e s =
    (if ae_user_id e \<noteq> '''' \<and> \<not> fk_user s (ae_user_id e) then (Inl foreign_key_violation, s)
     else (Inr (), s\<lparr>activity_log := activity_log s @ [e]\<rparr>))"

text \<open>\<open>cursor\<close> is the time of the last row seen, absent for the first page.\<close>

definition ListUserActivity :: "db \<Rightarrow> id \<Rightarrow> time option \<Rightarrow> int \<Rightarrow> activity_entry list" where
  "ListUserActivity s userID cursor limit = limit_rows limit (order_desc ae_created_at
     (filter (\<lambda>e. ae_user_id e = userID \<and> (case cursor of None \<Rightarrow> True | Some t \<Rightarrow> ae_created_at e < t)) (activity_log s)))"

definition ListAllActivity :: "db \<Rightarrow> time option \<Rightarrow> int \<Rightarrow> (activity_entry \<times> string) list" where
  "ListAllActivity s cursor limit = limit_rows limit (order_desc (\<lambda>(e, _). ae_created_at e)
     (map (\<lambda>e. (e, case GetUser s (ae_user_id e) of Inl _ \<Rightarrow> '''' | Inr u \<Rightarrow> us_wallet_address u))
       (filter (\<lambda>e. case cursor of None \<Rightarrow> True | Some t \<Rightarrow> ae_created_at e < t) (activity_log s))))"

end
