(* ===== verification/Invites.thy ===== *)
theory Invites
  imports Users
begin

text \<open>
  Profiles of organizations and invitations to them: \<open>internal/store/org_profiles.go\<close>,
  \<open>org_invites.go\<close> and \<open>account_invites.go\<close>.

  An invitation is either a row of \<open>org_members\<close> in status \<open>invited\<close> (the account is known) or a
  pending row of \<open>org_invites\<close> (only the email is).  \<open>AcceptOrgInvitesForEmail\<close> is left out: nothing
  calls it, and it runs statements on a transaction whose result rows are still open, which the
  database driver refuses.
\<close>

section \<open>Profiles\<close>

definition GetOrgProfile :: "db \<Rightarrow> id \<Rightarrow> org_profile res" where
  "GetOrgProfile s orgID =
    (case find (\<lambda>p. op_org_id p = orgID) (org_profiles s) of None \<Rightarrow> Inl ErrNotFound | Some p \<Rightarrow> Inr p)"

definition GetOrgBySlug :: "db \<Rightarrow> string \<Rightarrow> org res" where
  "GetOrgBySlug s slug =
    (case find (\<lambda>x. o_slug x = TrimSpace slug) (orgs s) of None \<Rightarrow> Inl ErrNotFound | Some x \<Rightarrow> Inr x)"

record update_profile_input =
  pi_legal_name :: "string option"
  pi_display_name :: "string option"
  pi_description :: "string option"
  pi_logo_url :: "string option"
  pi_website_url :: "string option"
  pi_public_email :: "string option"
  pi_billing_email :: "string option"
  pi_support_email :: "string option"
  pi_country :: "string option"
  pi_timezone :: "string option"

definition applyStrPtr :: "string \<Rightarrow> string option \<Rightarrow> string" where
  "applyStrPtr dst src = (case src of None \<Rightarrow> dst | Some x \<Rightarrow> TrimSpace x)"

definition patched_profile :: "time \<Rightarrow> update_profile_input \<Rightarrow> org_profile \<Rightarrow> org_profile" where
  "patched_profile now inp p = p\<lparr>
     op_legal_name := applyStrPtr (op_legal_name p) (pi_legal_name inp),
     op_display_name := applyStrPtr (op_display_name p) (pi_display_name inp),
     op_description := applyStrPtr (op_description p) (pi_description inp),
     op_logo_url := applyStrPtr (op_logo_url p) (pi_logo_url inp),
     op_website_url := applyStrPtr (op_website_url p) (pi_website_url inp),
     op_public_email := applyStrPtr (op_public_email p) (pi_public_email inp),
     op_billing_email := applyStrPtr (op_billing_email p) (pi_billing_email inp),
     op_support_email := applyStrPtr (op_support_email p) (pi_support_email inp),
     op_country := applyStrPtr (op_country p) (pi_country inp),
     op_timezone := applyStrPtr (op_timezone p) (pi_timezone inp),
     op_updated_at := now\<rparr>"

definition UpdateOrgProfile :: "time \<Rightarrow> id \<Rightarrow> update_profile_input \<Rightarrow> db \<Rightarrow> org_profile res \<times> db" where
  "UpdateOrgProfile now orgID inp s =
    (case GetOrgProfile s orgID of Inl e \<Rightarrow> (Inl e, s)
     | Inr cur \<Rightarrow> (Inr (patched_profile now inp cur),
         s\<lparr>org_profiles := upd_rows (\<lambda>p. op_org_id p = orgID) (\<lambda>_. patched_profile now inp cur) (org_profiles s)\<rparr>))"

definition SetOrgPublicProfileEnabled :: "time \<Rightarrow> id \<Rightarrow> bool \<Rightarrow> db \<Rightarrow> unit res \<times> db" where
  "SetOrgPublicProfileEnabled now orgID enabled s =
    (if \<not> fk_org s orgID then (Inl ErrNotFound, s)
     else (Inr (), s\<lparr>orgs := upd_rows (\<lambda>x. o_id x = orgID)
            (\<lambda>x. x\<lparr>o_public_profile_enabled := enabled, o_updated_at := now\<rparr>) (orgs s)\<rparr>))"

record public_org_profile =
  po_slug :: string
  po_name :: string
  po_display_name :: string
  po_description :: string
  po_logo_url :: string
  po_website_url :: string
  po_public_email :: string
  po_country :: string

definition public_profile :: "org \<Rightarrow> org_profile \<Rightarrow> public_org_profile" where
  "public_profile x p = \<lparr>po_slug = o_slug x, po_name = o_name x, po_display_name = op_display_name p,
     po_description = op_description p, po_logo_url = op_logo_url p, po_website_url = op_website_url p,
     po_public_email = op_public_email p, po_country = op_country p\<rparr>"

definition GetPublicOrgBySlug :: "db \<Rightarrow> string \<Rightarrow> public_org_profile res" where
  "GetPublicOrgBySlug s slug =
    (case find (\<lambda>(x, p). o_slug x = TrimSpace slug \<and> o_public_profile_enabled x)
            [(x, p). x \<leftarrow> orgs s, p \<leftarrow> org_profiles s, op_org_id p = o_id x] of
       None \<Rightarrow> Inl ErrNotFound | Some (x, p) \<Rightarrow> Inr (public_profile x p))"

record update_public_input =
  pp_display_name :: "string option"
  pp_description :: "string option"
  pp_logo_url :: "string option"
  pp_website_url :: "string option"
  pp_public_email :: "string option"
  pp_country :: "string option"

definition UpdatePublicOrgProfile :: "time \<Rightarrow> id \<Rightarrow> update_public_input \<Rightarrow> db \<Rightarrow> org_profile res \<times> db" where
  "UpdatePublicOrgProfile now orgID inp = UpdateOrgProfile now orgID
     \<lparr>pi_legal_name = None, pi_display_name = pp_display_name inp, pi_description = pp_description inp,
      pi_logo_url = pp_logo_url inp, pi_website_url = pp_website_url inp, pi_public_email = pp_public_email inp,
      pi_billing_email = None, pi_support_email = None, pi_country = pp_country inp, pi_timezone = None\<rparr>"

section \<open>Invitations by email\<close>

abbreviation OrgInviteStatusPending :: string where "OrgInviteStatusPending \<equiv> ''pending''"
abbreviation OrgInviteStatusAccepted :: string where "OrgInviteStatusAccepted \<equiv> ''accepted''"
abbreviation OrgInviteStatusRevoked :: string where "OrgInviteStatusRevoked \<equiv> ''revoked''"

definition CreateOrgInvite ::
  "time \<Rightarrow> id \<Rightarrow> id \<Rightarrow> string \<Rightarrow> string \<Rightarrow> string \<Rightarrow> string \<Rightarrow> db \<Rightarrow> org_invite res \<times> db" where
  "CreateOrgInvite now newID orgID email role seatTier invitedBy s =
    (let email = ToLower (TrimSpace email);
         role = normalizeOrgRole role;
         seatTier = (case normalizeSeatTier seatTier of Inl _ \<Rightarrow> SeatTierFree | Inr t \<Rightarrow> t);
         at = (\<lambda>i. oi_org_id i = orgID \<and> oi_email i = email)
     in if \<not> fk_org s orgID \<or> (invitedBy \<noteq> '''' \<and> \<not> fk_user s invitedBy) then (Inl foreign_key_violation, s)
        else case find at (org_invites s) of
          Some old \<Rightarrow>
            (let upd = (\<lambda>i. i\<lparr>oi_role := role, oi_seat_tier := seatTier,
                   oi_invited_by := (if invitedBy = '''' then oi_invited_by i else invitedBy),
                   oi_status := (if oi_status i = OrgInviteStatusRevoked then OrgInviteStatusPending else oi_status i)\<rparr>)
             in (Inr (upd old), s\<lparr>org_invites := upd_rows at upd (org_invites s)\<rparr>))
        | None \<Rightarrow>
            (let new = \<lparr>oi_id = newID, oi_org_id = orgID, oi_email = email, oi_role = role, oi_seat_tier = seatTier,
                        oi_invited_by = invitedBy, oi_status = OrgInviteStatusPending, oi_created_at = now\<rparr>
             in (Inr new, s\<lparr>org_invites := org_invites s @ [new]\<rparr>)))"

definition ActivateInvitedMemberships :: "time \<Rightarrow> id \<Rightarrow> db \<Rightarrow> db" where
  "ActivateInvitedMemberships now userID s = s\<lparr>org_members :=
     upd_rows (\<lambda>m. m_user_id m = userID \<and> m_status m = MemberStatusInvited)
       (\<lambda>m. m\<lparr>m_status := MemberStatusActive, m_updated_at := now\<rparr>) (org_members s)\<rparr>"

definition pending_for :: "string \<Rightarrow> org_invite \<Rightarrow> bool" where
  "pending_for email i \<longleftrightarrow> ToLower (oi_email i) = ToLower email \<and> oi_status i = OrgInviteStatusPending"

definition PendingOrgInviteCount :: "db \<Rightarrow> string \<Rightarrow> int" where
  "PendingOrgInviteCount s email = row_count (pending_for email) (org_invites s)"

definition OrgNameForInvite :: "db \<Rightarrow> id \<Rightarrow> string res" where
  "OrgNameForInvite s orgID = map_sum id o_name (GetOrg s orgID)"

definition RevokeOrgInvite :: "id \<Rightarrow> id \<Rightarrow> db \<Rightarrow> unit res \<times> db" where
  "RevokeOrgInvite orgID inviteID s =
    (let p = (\<lambda>i. oi_id i = inviteID \<and> oi_org_id i = orgID \<and> oi_status i = OrgInviteStatusPending)
     in if row_count p (org_invites s) = 0 then (Inl ErrNotFound, s)
        else (Inr (), s\<lparr>org_invites := upd_rows p (\<lambda>i. i\<lparr>oi_status := OrgInviteStatusRevoked\<rparr>) (org_invites s)\<rparr>))"

definition ListPendingOrgInvites :: "db \<Rightarrow> id \<Rightarrow> org_invite list" where
  "ListPendingOrgInvites s orgID = order_asc oi_created_at
     (filter (\<lambda>i. oi_org_id i = orgID \<and> oi_status i = OrgInviteStatusPending) (org_invites s))"

section \<open>The invitations of an account\<close>

record user_org_invite =
  ui_id :: id
  ui_org_id :: id
  ui_org_name :: string
  ui_org_slug :: string
  ui_org_display_name :: string
  ui_org_plan :: string
  ui_org_description :: string
  ui_org_logo_url :: string
  ui_member_count :: int
  ui_node_count :: int
  ui_role :: string
  ui_seat_tier :: string
  ui_source :: string
  ui_invite_channel :: string
  ui_invited_by_id :: string
  ui_invited_by_name :: string
  ui_invited_by_email :: string
  ui_created_at :: time

definition short_wallet :: "string \<Rightarrow> string" where
  "short_wallet w = (if length w > 10 then take 6 w @ ellipsis @ drop (length w - 4) w else w)"

definition applyInviter :: "db \<Rightarrow> id \<Rightarrow> user_org_invite \<Rightarrow> user_org_invite" where
  "applyInviter s userID iv =
    (case GetUser s userID of Inl _ \<Rightarrow> iv
     | Inr u \<Rightarrow>
       (let n = TrimSpace (us_name u); w = TrimSpace (us_wallet_address u);
            iv = (if n \<noteq> '''' then iv\<lparr>ui_invited_by_name := n\<rparr>
                   else if us_email_verified u \<and> TrimSpace (us_email u) \<noteq> ''''
                   then iv\<lparr>ui_invited_by_name := us_email u\<rparr>
                   else if w \<noteq> '''' then iv\<lparr>ui_invited_by_name := short_wallet w\<rparr> else iv)
        in if us_email_verified u then iv\<lparr>ui_invited_by_email := TrimSpace (us_email u)\<rparr> else iv))"

definition enrichUserOrgInvite :: "db \<Rightarrow> string \<Rightarrow> user_org_invite \<Rightarrow> user_org_invite res" where
  "enrichUserOrgInvite s userEmail iv =
    (case GetOrg s (ui_org_id iv) of Inl e \<Rightarrow> Inl e
     | Inr x \<Rightarrow>
       (let iv = iv\<lparr>ui_org_plan := o_plan x\<rparr>;
            iv = (case GetOrgProfile s (ui_org_id iv) of Inl _ \<Rightarrow> iv
              | Inr p \<Rightarrow> iv\<lparr>ui_org_display_name := TrimSpace (op_display_name p),
                              ui_org_description := TrimSpace (op_description p),
                              ui_org_logo_url := TrimSpace (op_logo_url p)\<rparr>);
            iv = (if ui_org_display_name iv = '''' then iv\<lparr>ui_org_display_name := o_name x\<rparr> else iv);
            iv = iv\<lparr>ui_member_count := row_count (\<lambda>m. m_org_id m = ui_org_id iv
                     \<and> (m_status m = ''active'' \<or> m_status m = ''invited'')) (org_members s),
                   ui_node_count := row_count (\<lambda>n. n_org_id n = ui_org_id iv) (nodes s)\<rparr>
        in if ui_invited_by_name iv \<noteq> '''' then Inr iv
           else (let iv = (if ui_source iv = ''email'' \<and> userEmail \<noteq> ''''
                   then (case find (\<lambda>i. oi_org_id i = ui_org_id iv \<and> pending_for userEmail i) (org_invites s) of
                           None \<Rightarrow> iv
                         | Some i \<Rightarrow> if oi_invited_by i = '''' then iv
                             else applyInviter s (oi_invited_by i) (iv\<lparr>ui_invited_by_id := oi_invited_by i\<rparr>))
                   else iv)
                 in Inr (if ui_invited_by_name iv = '''' \<and> o_owner_user_id x \<noteq> ''''
                    then applyInviter s (o_owner_user_id x) (iv\<lparr>ui_invited_by_id := o_owner_user_id x\<rparr>)
                    else iv))))"

definition bare_invite :: "id \<Rightarrow> org \<Rightarrow> string \<Rightarrow> string \<Rightarrow> string \<Rightarrow> string \<Rightarrow> time \<Rightarrow> user_org_invite" where
  "bare_invite i x role seatTier src channel t = \<lparr>ui_id = i, ui_org_id = o_id x, ui_org_name = o_name x,
     ui_org_slug = o_slug x, ui_org_display_name = '''', ui_org_plan = '''', ui_org_description = '''',
     ui_org_logo_url = '''', ui_member_count = 0, ui_node_count = 0, ui_role = role, ui_seat_tier = seatTier,
     ui_source = src, ui_invite_channel = channel, ui_invited_by_id = '''', ui_invited_by_name = '''',
     ui_invited_by_email = '''', ui_created_at = t\<rparr>"

fun all_ok :: "'a res list \<Rightarrow> 'a list res" where
  "all_ok [] = Inr []"
| "all_ok (Inl e # rs) = Inl e"
| "all_ok (Inr x # rs) = map_sum id ((#) x) (all_ok rs)"

definition membership_invites :: "db \<Rightarrow> id \<Rightarrow> string \<Rightarrow> user_org_invite list res" where
  "membership_invites s userID email =
    all_ok (map (\<lambda>(m, x). enrichUserOrgInvite s email
              (bare_invite (m_id m) x (m_role m) (m_seat_tier m) ''membership'' ''wallet'' (m_created_at m)))
      (order_desc (\<lambda>(m, _). m_created_at m)
        [(m, x). m \<leftarrow> org_members s, x \<leftarrow> orgs s, o_id x = m_org_id m, m_user_id m = userID,
           m_status m = MemberStatusInvited]))"

definition email_invites :: "db \<Rightarrow> string \<Rightarrow> id list \<Rightarrow> user_org_invite list res" where
  "email_invites s email seen =
    all_ok (map (\<lambda>(i, x). map_sum id
              (\<lambda>iv. if oi_invited_by i = '''' then iv
                     else applyInviter s (oi_invited_by i) (iv\<lparr>ui_invited_by_id := oi_invited_by i\<rparr>))
              (enrichUserOrgInvite s email
                (bare_invite (oi_id i) x (oi_role i) (oi_seat_tier i) ''email'' ''email'' (oi_created_at i))))
      (filter (\<lambda>(_, x). o_id x \<notin> set seen) (order_desc (\<lambda>(i, _). oi_created_at i)
        [(i, x). i \<leftarrow> org_invites s, x \<leftarrow> orgs s, o_id x = oi_org_id i, pending_for email i])))"

definition ListUserOrgInvites :: "db \<Rightarrow> id \<Rightarrow> string \<Rightarrow> user_org_invite list res" where
  "ListUserOrgInvites s userID email =
    (case membership_invites s userID email of Inl e \<Rightarrow> Inl e
     | Inr invs \<Rightarrow>
       (let email = ToLower (TrimSpace email)
        in if email = '''' then Inr invs
           else map_sum id ((@) invs) (email_invites s email (map ui_org_id invs))))"

definition GetUserOrgInvite :: "db \<Rightarrow> id \<Rightarrow> id \<Rightarrow> string \<Rightarrow> user_org_invite res" where
  "GetUserOrgInvite s userID orgID email =
    (case ListUserOrgInvites s userID email of Inl e \<Rightarrow> Inl e
     | Inr invs \<Rightarrow> (case find (\<lambda>iv. ui_org_id iv = orgID) invs of None \<Rightarrow> Inl ErrNotFound | Some iv \<Rightarrow> Inr iv))"

record invite_notification =
  nc_org_id :: id
  nc_org_name :: string
  nc_org_display_name :: string
  nc_org_slug :: string
  nc_role :: string
  nc_seat_tier :: string
  nc_invitee_name :: string
  nc_invitee_email :: string
  nc_inviter_id :: string
  nc_inviter_name :: string
  nc_inviter_email :: string
  nc_owner_id :: string
  nc_owner_email :: string

definition InviteNotificationContextForUser :: "db \<Rightarrow> id \<Rightarrow> id \<Rightarrow> string \<Rightarrow> invite_notification res" where
  "InviteNotificationContextForUser s userID orgID email =
    (case GetUserOrgInvite s userID orgID email of Inl e \<Rightarrow> Inl e
     | Inr iv \<Rightarrow>
       (case GetOrg s orgID of Inl e \<Rightarrow> Inl e
        | Inr x \<Rightarrow>
          (case GetUser s userID of Inl e \<Rightarrow> Inl e
           | Inr u \<Rightarrow>
             (let inviteeEmail = TrimSpace email; n = TrimSpace (us_name u); w = TrimSpace (us_wallet_address u);
                  inviter = (if ui_invited_by_id iv = '''' then Inl ErrNotFound else GetUser s (ui_invited_by_id iv));
                  known = (case inviter of Inl _ \<Rightarrow> False | Inr i \<Rightarrow> us_email_verified i)
              in Inr \<lparr>nc_org_id = orgID, nc_org_name = o_name x,
                   nc_org_display_name = (if ui_org_display_name iv = '''' then o_name x else ui_org_display_name iv),
                   nc_org_slug = o_slug x, nc_role = ui_role iv, nc_seat_tier = ui_seat_tier iv,
                   nc_invitee_name = (if n \<noteq> '''' then n else if inviteeEmail \<noteq> '''' then inviteeEmail else w),
                   nc_invitee_email = inviteeEmail, nc_inviter_id = ui_invited_by_id iv,
                   nc_inviter_name = (case inviter of
                       Inr i \<Rightarrow> if known \<and> ui_invited_by_name iv = '''' then TrimSpace (us_name i)
                                 else ui_invited_by_name iv
                     | Inl _ \<Rightarrow> ui_invited_by_name iv),
                   nc_inviter_email = (case inviter of
                       Inr i \<Rightarrow> if known then TrimSpace (us_email i) else ui_invited_by_email iv
                     | Inl _ \<Rightarrow> ui_invited_by_email iv),
                   nc_owner_id = o_owner_user_id x,
                   nc_owner_email = (case GetUser s (o_owner_user_id x) of
                       Inr w \<Rightarrow> if us_email_verified w then TrimSpace (us_email w) else ''''
                     | Inl _ \<Rightarrow> '''')\<rparr>))))"

section \<open>Accepting and declining\<close>

definition invited_at :: "id \<Rightarrow> id \<Rightarrow> member \<Rightarrow> bool" where
  "invited_at orgID userID m \<longleftrightarrow> member_at orgID userID m \<and> m_status m = MemberStatusInvited"

definition email_invite_at :: "id \<Rightarrow> string \<Rightarrow> org_invite \<Rightarrow> bool" where
  "email_invite_at orgID email i \<longleftrightarrow> oi_org_id i = orgID \<and> pending_for email i"

text \<open>The role and seat of the pending invitation, and the email the later statement uses.\<close>

definition pending_invite :: "db \<Rightarrow> id \<Rightarrow> id \<Rightarrow> string \<Rightarrow> (string \<times> string \<times> string) res" where
  "pending_invite s userID orgID email =
    (case find (invited_at orgID userID) (org_members s) of
       Some m \<Rightarrow> Inr (m_role m, m_seat_tier m, email)
     | None \<Rightarrow>
       (let email = ToLower (TrimSpace email)
        in if email = '''' then Inl ErrNotFound
           else case find (email_invite_at orgID email) (org_invites s) of
             None \<Rightarrow> Inl ErrNotFound | Some i \<Rightarrow> Inr (oi_role i, oi_seat_tier i, email)))"

definition AcceptUserOrgInvite_tx :: "time \<Rightarrow> id \<Rightarrow> id \<Rightarrow> id \<Rightarrow> string \<Rightarrow> db \<Rightarrow> unit res \<times> db" where
  "AcceptUserOrgInvite_tx now newID userID orgID email s =
    (case pending_invite s userID orgID email of Inl e \<Rightarrow> (Inl e, s)
     | Inr (role, seatTier, email) \<Rightarrow>
       seq (upsert_member now (\<lambda>_. ''active'')
          \<lparr>m_id = newID, m_org_id = orgID, m_user_id = userID, m_role = role, m_seat_tier = seatTier,
           m_status = MemberStatusActive, m_created_at = now, m_updated_at = now\<rparr> s) (\<lambda>_ s.
       (Inr (), if email = '''' then s
                else s\<lparr>org_invites := upd_rows (email_invite_at orgID email)
                       (\<lambda>i. i\<lparr>oi_status := OrgInviteStatusAccepted\<rparr>) (org_invites s)\<rparr>)))"

definition AcceptUserOrgInvite :: "time \<Rightarrow> id \<Rightarrow> id \<Rightarrow> id \<Rightarrow> string \<Rightarrow> db \<Rightarrow> unit res \<times> db" where
  "AcceptUserOrgInvite now newID userID orgID email s = in_tx (AcceptUserOrgInvite_tx now newID userID orgID email) s"

definition DeclineUserOrgInvite :: "time \<Rightarrow> id \<Rightarrow> id \<Rightarrow> string \<Rightarrow> db \<Rightarrow> unit res \<times> db" where
  "DeclineUserOrgInvite now userID orgID email s =
    (let email = ToLower (TrimSpace email);
         mem = row_count (invited_at orgID userID) (org_members s);
         iv = (if email = '''' then 0 else row_count (email_invite_at orgID email) (org_invites s));
         ms = upd_rows (invited_at orgID userID) (\<lambda>m. m\<lparr>m_status := MemberStatusRemoved, m_updated_at := now\<rparr>) (org_members s);
         rows = (if email = '''' then org_invites s
               else upd_rows (email_invite_at orgID email) (\<lambda>i. i\<lparr>oi_status := OrgInviteStatusRevoked\<rparr>) (org_invites s))
     in if mem = 0 \<and> iv = 0 then (Inl ErrNotFound, s)
        else (Inr (), s\<lparr>org_members := ms, org_invites := rows\<rparr>))"

text \<open>
  \<open>AcceptOrgInvitesForEmail\<close> writes a membership while the rows of the pending invitations are still being read.
  Whether the driver runs a statement on a connection with open rows is the parameter \<open>interleaves\<close>; one that does not
  fails at the first row.
\<close>

fun accept_rows :: "bool \<Rightarrow> time \<Rightarrow> (db \<Rightarrow> id) \<Rightarrow> id \<Rightarrow> org_invite list \<Rightarrow> db \<Rightarrow> int res \<times> db" where
  "accept_rows interleaves now newID userID [] s = (Inr 0, s)"
| "accept_rows interleaves now newID userID (i # is) s =
    (if \<not> interleaves then (Inl (ErrMsg ''connection busy''), s)
     else seq (upsert_member now (\<lambda>_. ''active'')
          \<lparr>m_id = newID s, m_org_id = oi_org_id i, m_user_id = userID, m_role = oi_role i, m_seat_tier = oi_seat_tier i,
           m_status = MemberStatusActive, m_created_at = now, m_updated_at = now\<rparr> s) (\<lambda>_ s.
       seq (accept_rows interleaves now newID userID is s) (\<lambda>n s. (Inr (n + 1), s))))"

definition AcceptOrgInvitesForEmail :: "bool \<Rightarrow> time \<Rightarrow> (db \<Rightarrow> id) \<Rightarrow> id \<Rightarrow> string \<Rightarrow> db \<Rightarrow> int res \<times> db" where
  "AcceptOrgInvitesForEmail interleaves now newID userID email = in_tx (\<lambda>s.
    let email = ToLower (TrimSpace email)
    in seq (accept_rows interleaves now newID userID (filter (pending_for email) (org_invites s)) s) (\<lambda>accepted s.
       (Inr accepted, if accepted > 0
          then s\<lparr>org_invites := upd_rows (pending_for email) (\<lambda>i. i\<lparr>oi_status := OrgInviteStatusAccepted\<rparr>) (org_invites s)\<rparr>
          else s)))"

end
