(* ===== verification/Accounts.thy ===== *)
theory Accounts
  imports Rewards Vpn
begin

text \<open>
  Deletion requests (\<open>internal/store/deletion_requests.go\<close>), the legacy subscriptions
  (\<open>subscriptions.go\<close>), API keys (\<open>apikeys.go\<close>) and the usage counters of organizations
  (end of \<open>orgs.go\<close>).
\<close>

section \<open>Deleting a user\<close>

text \<open>
  \<open>DELETE FROM users\<close>: the organizations the user owns go with everything they hold; rows that
  belong to the user go; rows that merely mention the user lose the reference.
\<close>

definition drop_author :: "id \<Rightarrow> db \<Rightarrow> db" where
  "drop_author userID s = s\<lparr>
     org_nodes := map (\<lambda>x. x\<lparr>on_created_by := unlink userID (on_created_by x)\<rparr>) (org_nodes s),
     org_node_services := map (\<lambda>x. x\<lparr>sv_created_by := unlink userID (sv_created_by x)\<rparr>) (org_node_services s),
     org_invites := map (\<lambda>x. x\<lparr>oi_invited_by := unlink userID (oi_invited_by x)\<rparr>) (org_invites s),
     deletion_requests := map (\<lambda>x. x\<lparr>dr_user_id := unlink userID (dr_user_id x)\<rparr>) (deletion_requests s),
     users := map (\<lambda>x. x\<lparr>us_referred_by := unlink userID (us_referred_by x)\<rparr>) (users s)\<rparr>"

definition drop_owned :: "id \<Rightarrow> db \<Rightarrow> db" where
  "drop_owned userID s =
    (let s = delete_clients (\<lambda>c. wc_user_id c = userID) s;
         gone = (\<lambda>f. has_row (\<lambda>g. df_id g = f \<and> df_owner_user_id g = userID) (drop_files s));
         up = (\<lambda>u. has_row (\<lambda>g. up_id g = u \<and> up_owner_user_id g = userID) (drop_uploads s))
     in s\<lparr>
       org_members := del_rows (\<lambda>x. m_user_id x = userID) (org_members s),
       node_registration_tokens := del_rows (\<lambda>x. rt_created_by x = userID) (node_registration_tokens s),
       firewall_rules := del_rows (\<lambda>x. fr_created_by x = userID) (firewall_rules s),
       social_accounts := del_rows (\<lambda>x. sa_user_id x = userID) (social_accounts s),
       email_otps := del_rows (\<lambda>x. eo_user_id x = userID) (email_otps s),
       xp_events := del_rows (\<lambda>x. xe_user_id x = userID) (xp_events s),
       user_perks := del_rows (\<lambda>x. up_user_id x = userID) (user_perks s),
       activity_log := del_rows (\<lambda>x. ae_user_id x = userID) (activity_log s),
       subscriptions := del_rows (\<lambda>x. sb_user_id x = userID) (subscriptions s),
       drop_pins := del_rows (\<lambda>x. gone (dp_file_id x)) (drop_pins s),
       drop_files := map (\<lambda>f. if up (df_upload_id f) then f\<lparr>df_upload_id := ''''\<rparr> else f)
          (del_rows (\<lambda>x. df_owner_user_id x = userID) (drop_files s)),
       drop_uploads := del_rows (\<lambda>x. up_owner_user_id x = userID) (drop_uploads s),
       drop_crypto_profiles := del_rows (\<lambda>x. cp_user_id x = userID) (drop_crypto_profiles s)\<rparr>)"

definition owned_orgs :: "db \<Rightarrow> id \<Rightarrow> id list" where
  "owned_orgs s userID = map o_id (filter (\<lambda>x. o_owner_user_id x = userID) (orgs s))"

definition delete_user_cascade :: "id \<Rightarrow> db \<Rightarrow> db" where
  "delete_user_cascade userID s =
    (let s = foldl (\<lambda>s orgID. delete_org_cascade orgID s) s (owned_orgs s userID);
         s = drop_author userID (drop_owned userID s)
     in s\<lparr>users := del_rows (\<lambda>u. us_id u = userID) (users s)\<rparr>)"

section \<open>Deletion requests\<close>

definition pending_request :: "id \<Rightarrow> deletion_request \<Rightarrow> bool" where
  "pending_request userID r \<longleftrightarrow> dr_user_id r = userID \<and> dr_user_id r \<noteq> '''' \<and> dr_status r = ''pending''"

definition CreateDeletionRequest :: "time \<Rightarrow> id \<Rightarrow> id \<Rightarrow> string \<Rightarrow> string \<Rightarrow> string \<Rightarrow> db \<Rightarrow> id res \<times> db" where
  "CreateDeletionRequest now newID userID wallet email name s =
    (case find (pending_request userID) (deletion_requests s) of
       Some r \<Rightarrow> (Inr (dr_id r), s)
     | None \<Rightarrow>
         if \<not> fk_user s userID then (Inl foreign_key_violation, s)
         else (Inr newID, s\<lparr>deletion_requests := deletion_requests s @ [\<lparr>dr_id = newID, dr_user_id = userID,
                dr_wallet_address = wallet, dr_email = email, dr_name = name, dr_status = ''pending'',
                dr_requested_at = now, dr_fulfilled_at = None, dr_created_at = now\<rparr>]\<rparr>))"

definition ListDeletionRequests :: "db \<Rightarrow> int \<Rightarrow> int \<Rightarrow> deletion_request list \<times> int" where
  "ListDeletionRequests s limit off =
    (limit_rows limit (drop (nat off) (order_desc dr_requested_at (deletion_requests s))),
     int (length (deletion_requests s)))"

definition HasPendingDeletionRequest :: "db \<Rightarrow> id \<Rightarrow> bool" where
  "HasPendingDeletionRequest s userID = has_row (pending_request userID) (deletion_requests s)"

definition GetDeletionRequestByUserID :: "db \<Rightarrow> id \<Rightarrow> deletion_request option" where
  "GetDeletionRequestByUserID s userID = find (pending_request userID) (deletion_requests s)"

definition GetDeletionRequest :: "db \<Rightarrow> id \<Rightarrow> deletion_request res" where
  "GetDeletionRequest s i =
    (case find (\<lambda>r. dr_id r = i) (deletion_requests s) of None \<Rightarrow> Inl ErrNotFound | Some r \<Rightarrow> Inr r)"

text \<open>A pending request whose user is gone has a NULL user, which does not scan into a string.\<close>

definition FulfillDeletionRequest_tx :: "time \<Rightarrow> id \<Rightarrow> db \<Rightarrow> string res \<times> db" where
  "FulfillDeletionRequest_tx now i s =
    (case find (\<lambda>r. dr_id r = i \<and> dr_status r = ''pending'') (deletion_requests s) of
       None \<Rightarrow> (Inl ErrNotFound, s)
     | Some r \<Rightarrow>
         if dr_user_id r = '''' then (Inl (ErrMsg ''sql: Scan error on column index 0''), s)
         else (let s = delete_user_cascade (dr_user_id r) s
               in (Inr (dr_email r), s\<lparr>deletion_requests := upd_rows (\<lambda>r. dr_id r = i)
                     (\<lambda>r. r\<lparr>dr_status := ''fulfilled'', dr_fulfilled_at := Some now\<rparr>) (deletion_requests s)\<rparr>)))"

definition FulfillDeletionRequest :: "time \<Rightarrow> id \<Rightarrow> db \<Rightarrow> string res \<times> db" where
  "FulfillDeletionRequest now i s = in_tx (FulfillDeletionRequest_tx now i) s"

section \<open>Legacy subscriptions\<close>

definition ListPlans :: "db \<Rightarrow> plan list" where
  "ListPlans s = order_asc pl_sort_order (filter pl_is_active (plans s))"

definition GetPlan :: "db \<Rightarrow> id \<Rightarrow> plan res" where
  "GetPlan s i = (case find (\<lambda>p. pl_id p = i) (plans s) of None \<Rightarrow> Inl ErrNotFound | Some p \<Rightarrow> Inr p)"

definition HasConsumedTrial :: "db \<Rightarrow> id \<Rightarrow> bool" where
  "HasConsumedTrial s userID = has_row (\<lambda>b. sb_user_id b = userID \<and> sb_source b = ''trial'') (subscriptions s)"

text \<open>\<open>ORDER BY current_period_end DESC NULLS LAST\<close>.\<close>

definition end_rank :: "time option \<Rightarrow> int \<times> int" where
  "end_rank t = (case t of None \<Rightarrow> (1, 0) | Some t \<Rightarrow> (0, - t))"

definition LastSubscription :: "db \<Rightarrow> id \<Rightarrow> subscription res" where
  "LastSubscription s userID =
    (case first_row (sort_key (\<lambda>b. (end_rank (sb_current_period_end b), - sb_created_at b))
            (filter (\<lambda>b. sb_user_id b = userID) (subscriptions s))) of
       None \<Rightarrow> Inl ErrNotFound | Some b \<Rightarrow> Inr b)"

definition running :: "time \<Rightarrow> subscription \<Rightarrow> bool" where
  "running now b \<longleftrightarrow> sb_status b = ''active''
     \<and> (case sb_current_period_end b of None \<Rightarrow> True | Some t \<Rightarrow> t > now)"

definition ActiveSubscription :: "db \<Rightarrow> time \<Rightarrow> id \<Rightarrow> subscription res" where
  "ActiveSubscription s now userID =
    (case first_row (sort_key (\<lambda>b. end_rank (sb_current_period_end b))
            (filter (\<lambda>b. sb_user_id b = userID \<and> running now b) (subscriptions s))) of
       None \<Rightarrow> Inl ErrNotFound | Some b \<Rightarrow> Inr b)"

definition new_subscription :: "time \<Rightarrow> id \<Rightarrow> id \<Rightarrow> id \<Rightarrow> string \<Rightarrow> int \<Rightarrow> subscription" where
  "new_subscription now newID userID planID src period = \<lparr>sb_id = newID, sb_user_id = userID, sb_plan_id = planID,
     sb_source = src, sb_status = ''active'', sb_current_period_end = Some (now + period), sb_created_at = now\<rparr>"

abbreviation ErrTrialUsed :: err where "ErrTrialUsed \<equiv> ErrMsg ''trial already used''"

definition StartTrial :: "time \<Rightarrow> id \<Rightarrow> id \<Rightarrow> id \<Rightarrow> int \<Rightarrow> db \<Rightarrow> subscription res \<times> db" where
  "StartTrial now newID userID planID period s =
    (if has_row (\<lambda>b. sb_user_id b = userID \<and> sb_source b = ''trial'') (subscriptions s) then (Inl ErrTrialUsed, s)
     else if \<not> fk_user s userID \<or> \<not> has_row (\<lambda>p. pl_id p = planID) (plans s) then (Inl foreign_key_violation, s)
     else (let b = new_subscription now newID userID planID ''trial'' period
           in (Inr b, s\<lparr>subscriptions := subscriptions s @ [b]\<rparr>)))"

definition GrantNFTSubscription :: "time \<Rightarrow> id \<Rightarrow> id \<Rightarrow> id \<Rightarrow> int \<Rightarrow> db \<Rightarrow> subscription res \<times> db" where
  "GrantNFTSubscription now newID userID planID period s =
    (let nft = (\<lambda>b. sb_user_id b = userID \<and> sb_source b = ''nft'');
         upd = (\<lambda>b. b\<lparr>sb_status := ''active'', sb_plan_id := planID, sb_current_period_end := Some (now + period)\<rparr>)
     in if \<not> fk_user s userID \<or> \<not> has_row (\<lambda>p. pl_id p = planID) (plans s) then (Inl foreign_key_violation, s)
        else case find nft (subscriptions s) of
          Some b \<Rightarrow> (Inr (upd b), s\<lparr>subscriptions := upd_rows nft upd (subscriptions s)\<rparr>)
        | None \<Rightarrow> (let b = new_subscription now newID userID planID ''nft'' period
                  in (Inr b, s\<lparr>subscriptions := subscriptions s @ [b]\<rparr>)))"

definition GetUserPlan :: "db \<Rightarrow> time \<Rightarrow> id \<Rightarrow> string res" where
  "GetUserPlan s now userID =
    (if UserOrgVPNPlan s userID \<noteq> '''' then Inr (UserOrgVPNPlan s userID)
     else map_sum id sb_plan_id (ActiveSubscription s now userID))"

text \<open>The update it starts with names a column \<open>updated_at\<close> the table does not have.\<close>

definition SetUserPlan :: "id \<Rightarrow> id \<Rightarrow> db \<Rightarrow> subscription res \<times> db" where
  "SetUserPlan userID planID s = (Inl (PgError ''42703''), s)"

definition CountLegacyActiveSubscriptionsByPlan :: "db \<Rightarrow> time \<Rightarrow> (string \<times> int) list" where
  "CountLegacyActiveSubscriptionsByPlan s now =
    (let act = filter (running now) (subscriptions s)
     in map (\<lambda>p. (p, row_count (\<lambda>b. sb_plan_id b = p) act)) (remdups (map sb_plan_id act)))"

section \<open>API keys\<close>

definition APIKeyPrefix :: string where "APIKeyPrefix = ''erebrus_sk_''"

text \<open>
  \<open>secret\<close> is the hexadecimal text of the 24 random bytes, \<open>sha\<close> the SHA-256 digest in hexadecimal.
\<close>

definition CreateAPIKey :: "(string \<Rightarrow> string) \<Rightarrow> time \<Rightarrow> id \<Rightarrow> string \<Rightarrow> id \<Rightarrow> string \<Rightarrow> db \<Rightarrow> (string \<times> api_key) res \<times> db" where
  "CreateAPIKey sha now newID raw orgID name s =
    (let secret = APIKeyPrefix @ raw;
         k = \<lparr>ak_id = newID, ak_org_id = orgID, ak_name = name,
              ak_prefix = take (length APIKeyPrefix + 6) secret, ak_key_hash = sha secret, ak_created_at = now,
              ak_last_used_at = None, ak_revoked_at = None\<rparr>
     in if has_row (\<lambda>r. ak_id r = newID \<or> ak_key_hash r = sha secret) (api_keys s) then (Inl unique_violation, s)
        else if \<not> fk_org s orgID then (Inl foreign_key_violation, s)
        else (Inr (secret, k), s\<lparr>api_keys := api_keys s @ [k]\<rparr>))"

definition ListAPIKeys :: "db \<Rightarrow> id \<Rightarrow> api_key list" where
  "ListAPIKeys s orgID = order_desc ak_created_at (filter (\<lambda>k. ak_org_id k = orgID) (api_keys s))"

definition RevokeAPIKey :: "time \<Rightarrow> id \<Rightarrow> id \<Rightarrow> db \<Rightarrow> unit res \<times> db" where
  "RevokeAPIKey now orgID keyID s =
    (let p = (\<lambda>k. ak_id k = keyID \<and> ak_org_id k = orgID \<and> ak_revoked_at k = None)
     in if row_count p (api_keys s) = 0 then (Inl ErrNotFound, s)
        else (Inr (), s\<lparr>api_keys := upd_rows p (\<lambda>k. k\<lparr>ak_revoked_at := Some now\<rparr>) (api_keys s)\<rparr>))"

definition LookupAPIKey :: "(string \<Rightarrow> string) \<Rightarrow> time \<Rightarrow> string \<Rightarrow> db \<Rightarrow> id res \<times> db" where
  "LookupAPIKey sha now secret s =
    (let p = (\<lambda>k. ak_key_hash k = sha secret \<and> ak_revoked_at k = None)
     in case find p (api_keys s) of
          None \<Rightarrow> (Inl ErrNotFound, s)
        | Some k \<Rightarrow> (Inr (ak_org_id k),
            s\<lparr>api_keys := upd_rows p (\<lambda>k. k\<lparr>ak_last_used_at := Some now\<rparr>) (api_keys s)\<rparr>))"

section \<open>Usage of organizations\<close>

text \<open>The query reads a table \<open>vpn_usage_daily\<close> that does not exist.\<close>

definition OrgBandwidth :: "db \<Rightarrow> id \<Rightarrow> time \<Rightarrow> (int \<times> int) res" where
  "OrgBandwidth s orgID since = Inl (PgError ''42P01'')"

definition OrgAPICalls :: "db \<Rightarrow> id \<Rightarrow> time \<Rightarrow> int" where
  "OrgAPICalls s orgID since =
    total_of (\<lambda>r. if au_org_id r = orgID \<and> au_day r \<ge> day_of since then au_calls r else 0) (api_usage_daily s)"

definition IncrAPICall :: "time \<Rightarrow> id \<Rightarrow> db \<Rightarrow> db" where
  "IncrAPICall now orgID s =
    (let p = (\<lambda>r. au_org_id r = orgID \<and> au_day r = day_of now)
     in if \<not> fk_org s orgID then s
        else if has_row p (api_usage_daily s)
        then s\<lparr>api_usage_daily := upd_rows p (\<lambda>r. r\<lparr>au_calls := au_calls r + 1\<rparr>) (api_usage_daily s)\<rparr>
        else s\<lparr>api_usage_daily := api_usage_daily s @ [\<lparr>au_org_id = orgID, au_day = day_of now, au_calls = 1\<rparr>]\<rparr>)"

end
