(* ===== verification/Settings.thy ===== *)
theory Settings
  imports Complex_Main Rewards GoText
begin

text \<open>
  The platform settings: parsing in \<open>internal/config/platform.go\<close> and the table behind them in
  \<open>internal/store/settings.go\<close>.

  \<open>strconv.ParseInt\<close> and \<open>time.ParseDuration\<close> are modelled; a duration is a number of
  nanoseconds, with the fraction of a unit rounded down exactly instead of in floating point.
  Floating-point settings are rationals read by the argument \<open>parse_float\<close>.  The text of a wrapped
  parse error is left out, the key in front of it is kept.
\<close>

section \<open>Numbers and durations\<close>

definition digits_val :: "string \<Rightarrow> int" where
  "digits_val ds = foldl (\<lambda>n c. 10 * n + (int (byte c) - 48)) 0 ds"

definition signed :: "string \<Rightarrow> bool \<times> string" where
  "signed s = (case s of [] \<Rightarrow> (False, [])
     | c # cs \<Rightarrow> if c = CHR ''-'' then (True, cs) else if c = CHR ''+'' then (False, cs) else (False, s))"

definition ParseInt :: "string \<Rightarrow> int option" where
  "ParseInt s =
    (let (neg, ds) = signed s
     in if ds = '''' \<or> \<not> list_all is_digit ds then None
        else let n = (if neg then - digits_val ds else digits_val ds) in if in_i64 n then Some n else None)"

definition unit_ns :: "string \<Rightarrow> int option" where
  "unit_ns u = map_of [(''ns'', 1), (''us'', 1000), ([char_of (194::nat), char_of (181::nat), CHR ''s''], 1000),
     ([char_of (206::nat), char_of (188::nat), CHR ''s''], 1000), (''ms'', 1000000), (''s'', 1000000000),
     (''m'', 60000000000), (''h'', 3600000000000)] u"

definition dot_or_digit :: "char \<Rightarrow> bool" where
  "dot_or_digit c \<longleftrightarrow> c = CHR ''.'' \<or> is_digit c"

text \<open>One \<open>number unit\<close> group: its length in nanoseconds and what follows it.\<close>

definition duration_group :: "string \<Rightarrow> (int \<times> string) option" where
  "duration_group s =
    (let whole = takeWhile is_digit s; r = dropWhile is_digit s;
         pointed = (case r of [] \<Rightarrow> False | c # _ \<Rightarrow> c = CHR ''.'');
         frac = (if pointed then takeWhile is_digit (tl r) else '''');
         r = (if pointed then dropWhile is_digit (tl r) else r);
         u = takeWhile (\<lambda>c. \<not> dot_or_digit c) r
     in if whole = '''' \<and> frac = '''' then None
        else case unit_ns u of None \<Rightarrow> None
        | Some ns \<Rightarrow>
          (let v = digits_val whole * ns + digits_val frac * ns div 10 ^ length frac
           in if digits_val whole > 2 ^ 63 \<or> v > 2 ^ 63 then None
              else Some (v, dropWhile (\<lambda>c. \<not> dot_or_digit c) r)))"

text \<open>One group after another; every group takes at least one character.\<close>

primrec duration_groups :: "nat \<Rightarrow> string \<Rightarrow> int \<Rightarrow> int option" where
  "duration_groups 0 s d = (if s = [] then Some d else None)"
| "duration_groups (Suc n) s d =
    (if s = [] then Some d
     else case duration_group s of None \<Rightarrow> None
     | Some (v, rest) \<Rightarrow> if d + v > 2 ^ 63 then None else duration_groups n rest (d + v))"

definition ParseDuration :: "string \<Rightarrow> int option" where
  "ParseDuration s =
    (let (neg, r) = signed s
     in if r = ''0'' then Some 0
        else if r = '''' then None
        else case duration_groups (length r) r 0 of None \<Rightarrow> None
          | Some d \<Rightarrow> if neg then Some (- d) else if d > 2 ^ 63 - 1 then None else Some d)"

fun split_comma :: "string \<Rightarrow> string \<Rightarrow> string list" where
  "split_comma [] acc = [rev acc]"
| "split_comma (c # cs) acc = (if c = CHR '','' then rev acc # split_comma cs [] else split_comma cs (c # acc))"

fun parse_parts :: "string list \<Rightarrow> int list option" where
  "parse_parts [] = Some []"
| "parse_parts (p # ps) =
    (let p = TrimSpace p
     in if p = '''' then parse_parts ps
        else case ParseInt p of None \<Rightarrow> None | Some n \<Rightarrow> map_option ((#) n) (parse_parts ps))"

definition parseInt64CSV :: "string \<Rightarrow> int list option" where
  "parseInt64CSV s = (case parse_parts (split_comma s []) of None \<Rightarrow> None | Some ns \<Rightarrow> if ns = [] then None else Some ns)"

section \<open>Values\<close>

record platform_values =
  pv_TrialPeriod :: int
  pv_NFTGatePeriod :: int
  pv_NFTGatePlanID :: string
  pv_NodeMetricsRetention :: int
  pv_XPReferrerPoints :: int
  pv_XPRefereePoints :: int
  pv_XPEmailVerified :: int
  pv_XPNFTHeld :: int
  pv_XPUptimeDay :: int
  pv_XPTierThresholds :: "int list"
  pv_XPSocialVerified :: int
  pv_XPFreeDaysCost :: int
  pv_XPFreeDaysGrant :: int
  pv_RateLimitAuthPerMin :: int
  pv_RateLimitRegisterPerMin :: int
  pv_RateLimitDropWritePerMin :: int
  pv_RateLimitDropReadPerMin :: int
  pv_NodeCPUMax :: rat
  pv_NodeCPUSoft :: rat
  pv_NodePeerRatioMax :: rat
  pv_NodePeerConnectedSoft :: int
  pv_PasetoExpiration :: int
  pv_PasetoSignedBy :: string
  pv_AuthEULA :: string
  pv_MagicLinkExpiration :: int
  pv_XAPIBaseURL :: string

definition hour_ns :: int where "hour_ns = 3600000000000"

definition DefaultPlatformValues :: platform_values where
  "DefaultPlatformValues = \<lparr>pv_TrialPeriod = 168 * hour_ns, pv_NFTGatePeriod = 720 * hour_ns,
     pv_NFTGatePlanID = ''pro'', pv_NodeMetricsRetention = 720 * hour_ns, pv_XPReferrerPoints = 100,
     pv_XPRefereePoints = 25, pv_XPEmailVerified = 25, pv_XPNFTHeld = 50, pv_XPUptimeDay = 20,
     pv_XPTierThresholds = [0, 100, 500, 2000, 10000], pv_XPSocialVerified = 75, pv_XPFreeDaysCost = 500,
     pv_XPFreeDaysGrant = 7, pv_RateLimitAuthPerMin = 30, pv_RateLimitRegisterPerMin = 10,
     pv_RateLimitDropWritePerMin = 60, pv_RateLimitDropReadPerMin = 120, pv_NodeCPUMax = 80, pv_NodeCPUSoft = 60,
     pv_NodePeerRatioMax = 9 / 10, pv_NodePeerConnectedSoft = 80, pv_PasetoExpiration = 24 * hour_ns,
     pv_PasetoSignedBy = ''Erebrus'',
     pv_AuthEULA = ''I accept the Erebrus Terms of Service https://erebrus.io/terms.'',
     pv_MagicLinkExpiration = 15 * 60000000000, pv_XAPIBaseURL = ''https://api.twitter.com''\<rparr>"

type_synonym setting_step = "(string \<rightharpoonup> string) \<Rightarrow> platform_values \<Rightarrow> platform_values res"

text \<open>A setting that has a value which does not parse stops the parse with the key in the error.\<close>

definition parsed :: "(string \<Rightarrow> 'a option) \<Rightarrow> string \<Rightarrow> ('a \<Rightarrow> platform_values \<Rightarrow> platform_values) \<Rightarrow> setting_step" where
  "parsed parse key put raw v =
    (case raw key of None \<Rightarrow> Inr v
     | Some x \<Rightarrow> (case parse x of None \<Rightarrow> Inl (ErrMsg key) | Some y \<Rightarrow> Inr (put y v)))"

definition texted :: "string \<Rightarrow> (string \<Rightarrow> platform_values \<Rightarrow> platform_values) \<Rightarrow> setting_step" where
  "texted key put raw v = (case raw key of None \<Rightarrow> Inr v | Some x \<Rightarrow> Inr (if x \<noteq> '''' then put x v else v))"

fun run_steps :: "setting_step list \<Rightarrow> setting_step" where
  "run_steps [] raw v = Inr v"
| "run_steps (f # fs) raw v = (case f raw v of Inl e \<Rightarrow> Inl e | Inr v \<Rightarrow> run_steps fs raw v)"

definition setting_steps :: "(string \<Rightarrow> rat option) \<Rightarrow> setting_step list" where
  "setting_steps parse_float =
    [parsed ParseDuration ''trial_period'' (\<lambda>x v. v\<lparr>pv_TrialPeriod := x\<rparr>),
     parsed ParseDuration ''nft_gate_period'' (\<lambda>x v. v\<lparr>pv_NFTGatePeriod := x\<rparr>),
     texted ''nft_gate_plan_id'' (\<lambda>x v. v\<lparr>pv_NFTGatePlanID := x\<rparr>),
     parsed ParseDuration ''node_metrics_retention'' (\<lambda>x v. v\<lparr>pv_NodeMetricsRetention := x\<rparr>),
     parsed ParseInt ''xp_referrer_points'' (\<lambda>x v. v\<lparr>pv_XPReferrerPoints := x\<rparr>),
     parsed ParseInt ''xp_referee_points'' (\<lambda>x v. v\<lparr>pv_XPRefereePoints := x\<rparr>),
     parsed ParseInt ''xp_email_verified'' (\<lambda>x v. v\<lparr>pv_XPEmailVerified := x\<rparr>),
     parsed ParseInt ''xp_nft_held'' (\<lambda>x v. v\<lparr>pv_XPNFTHeld := x\<rparr>),
     parsed ParseInt ''xp_uptime_day'' (\<lambda>x v. v\<lparr>pv_XPUptimeDay := x\<rparr>),
     parsed parseInt64CSV ''xp_tier_thresholds'' (\<lambda>x v. v\<lparr>pv_XPTierThresholds := x\<rparr>),
     parsed ParseInt ''xp_social_verified'' (\<lambda>x v. v\<lparr>pv_XPSocialVerified := x\<rparr>),
     parsed ParseInt ''xp_free_days_cost'' (\<lambda>x v. v\<lparr>pv_XPFreeDaysCost := x\<rparr>),
     parsed ParseInt ''xp_free_days_grant'' (\<lambda>x v. v\<lparr>pv_XPFreeDaysGrant := x\<rparr>),
     parsed ParseInt ''rate_limit_auth_per_min'' (\<lambda>x v. v\<lparr>pv_RateLimitAuthPerMin := x\<rparr>),
     parsed ParseInt ''rate_limit_register_per_min'' (\<lambda>x v. v\<lparr>pv_RateLimitRegisterPerMin := x\<rparr>),
     parsed ParseInt ''rate_limit_drop_write_per_min'' (\<lambda>x v. v\<lparr>pv_RateLimitDropWritePerMin := x\<rparr>),
     parsed ParseInt ''rate_limit_drop_read_per_min'' (\<lambda>x v. v\<lparr>pv_RateLimitDropReadPerMin := x\<rparr>),
     parsed ParseDuration ''paseto_expiration'' (\<lambda>x v. v\<lparr>pv_PasetoExpiration := x\<rparr>),
     texted ''paseto_signed_by'' (\<lambda>x v. v\<lparr>pv_PasetoSignedBy := x\<rparr>),
     texted ''auth_eula'' (\<lambda>x v. v\<lparr>pv_AuthEULA := x\<rparr>),
     parsed ParseDuration ''magic_link_expiration'' (\<lambda>x v. v\<lparr>pv_MagicLinkExpiration := x\<rparr>),
     texted ''x_api_base_url'' (\<lambda>x v. v\<lparr>pv_XAPIBaseURL := x\<rparr>),
     parsed parse_float ''node_cpu_max'' (\<lambda>x v. v\<lparr>pv_NodeCPUMax := x\<rparr>),
     parsed parse_float ''node_cpu_soft'' (\<lambda>x v. v\<lparr>pv_NodeCPUSoft := x\<rparr>),
     parsed parse_float ''node_peer_ratio_max'' (\<lambda>x v. v\<lparr>pv_NodePeerRatioMax := x\<rparr>),
     parsed ParseInt ''node_peer_connected_soft'' (\<lambda>x v. v\<lparr>pv_NodePeerConnectedSoft := x\<rparr>)]"

text \<open>An empty map gives the defaults, as the steps do too.\<close>

definition ParsePlatformSettings :: "(string \<Rightarrow> rat option) \<Rightarrow> (string \<rightharpoonup> string) \<Rightarrow> platform_values res" where
  "ParsePlatformSettings parse_float raw = run_steps (setting_steps parse_float) raw DefaultPlatformValues"

definition KnownPlatformKeys :: "string list" where
  "KnownPlatformKeys =
    [''trial_period'', ''nft_gate_period'', ''nft_gate_plan_id'', ''node_metrics_retention'',
     ''xp_referrer_points'', ''xp_referee_points'', ''xp_email_verified'', ''xp_nft_held'',
     ''xp_uptime_day'', ''xp_tier_thresholds'', ''xp_social_verified'',
     ''xp_free_days_cost'', ''xp_free_days_grant'',
     ''rate_limit_auth_per_min'', ''rate_limit_register_per_min'',
     ''rate_limit_drop_write_per_min'', ''rate_limit_drop_read_per_min'',
     ''node_cpu_max'', ''node_cpu_soft'', ''node_peer_ratio_max'', ''node_peer_connected_soft'',
     ''paseto_expiration'', ''paseto_signed_by'', ''auth_eula'',
     ''magic_link_expiration'', ''x_api_base_url'']"

section \<open>The table\<close>

definition raw_settings :: "db \<Rightarrow> (string \<rightharpoonup> string)" where
  "raw_settings s = map_of (map (\<lambda>p. (ps_key p, ps_value p)) (platform_settings s))"

definition LoadPlatformSettings :: "(string \<Rightarrow> rat option) \<Rightarrow> db \<Rightarrow> platform_values res" where
  "LoadPlatformSettings parse_float s = ParsePlatformSettings parse_float (raw_settings s)"

definition ListPlatformSettings :: "db \<Rightarrow> platform_setting list" where
  "ListPlatformSettings s = sort_key ps_key (platform_settings s)"

text \<open>The updates in the order Go iterates over the map.\<close>

fun put_settings :: "(string \<times> string) list \<Rightarrow> db \<Rightarrow> unit res \<times> db" where
  "put_settings [] s = (Inr (), s)"
| "put_settings ((key, val) # kvs) s =
    (let val = TrimSpace val
     in if val = '''' then (Inl (ErrMsg (''setting '' @ key @ '' cannot be empty'')), s)
        else if row_count (\<lambda>p. ps_key p = key) (platform_settings s) = 0
        then (Inl (ErrMsg (''setting '' @ key @ '' not found'')), s)
        else put_settings kvs (s\<lparr>platform_settings := upd_rows (\<lambda>p. ps_key p = key) (\<lambda>p. p\<lparr>ps_value := val\<rparr>)
               (platform_settings s)\<rparr>))"

text \<open>
  The second component of the state is the field \<open>tierThresholds\<close> of the store.
\<close>

definition UpdatePlatformSettings ::
  "(string \<Rightarrow> rat option) \<Rightarrow> (string \<times> string) list \<Rightarrow> db \<times> int list \<Rightarrow> platform_values res \<times> db \<times> int list" where
  "UpdatePlatformSettings parse_float updates st =
    (let (s, thr) = st
     in if updates = [] then (LoadPlatformSettings parse_float s, s, thr)
        else if \<not> list_all (\<lambda>(k, _). k \<in> set KnownPlatformKeys) updates
        then (Inl (ErrMsg ''unknown setting''), s, thr)
        else case in_tx (put_settings updates) s of
          (Inl e, s) \<Rightarrow> (Inl e, s, thr)
        | (Inr _, s) \<Rightarrow> (case LoadPlatformSettings parse_float s of
             Inl e \<Rightarrow> (Inl e, s, thr)
           | Inr v \<Rightarrow> (Inr v, s, SetTierThresholds (pv_XPTierThresholds v) thr)))"

end
