(* ===== verification/OAuth.thy ===== *)
theory OAuth
  imports GoText
begin

text \<open>
  OpenID Connect ID tokens: \<open>internal/oauth/oauth.go\<close>.  JSON and base64 decoding, RSA verification,
  SHA-256 and the HTTP fetch of the key set are arguments (\<open>oidc_lib\<close>); the order of the checks, the
  key cache and the Apple nonce and code hash are modelled.  Text is trimmed and lowered on the ASCII
  range.
\<close>

datatype aud = AudMissing | AudOne string | AudMany "string list" | AudOther

record oidc_payload =
  ip_iss :: string
  ip_aud :: aud
  ip_exp :: int
  ip_sub :: string
  ip_email :: string
  ip_email_verified :: "bool + string option"  \<comment> \<open>a JSON boolean, or another value: its text if a string\<close>
  ip_nonce :: string
  ip_nonce_supported :: bool
  ip_c_hash :: string

record oauth_claims =
  oc_subject :: string
  oc_email :: string
  oc_email_verified :: bool
  oc_issuer :: string
  oc_aud :: string
  oc_nonce :: string
  oc_nonce_supported :: bool
  oc_c_hash :: string

text \<open>
  \<open>ol_fetch\<close> is the key set at the URL (an error when it cannot be fetched or has no usable key);
  \<open>ol_rsa\<close> checks the signature of a text with a key.
\<close>

record oidc_lib =
  ol_header :: "string \<Rightarrow> (string \<times> string) option"
  ol_payload :: "string \<Rightarrow> oidc_payload option"
  ol_signature :: "string \<Rightarrow> string option"
  ol_rsa :: "string \<Rightarrow> string \<Rightarrow> string \<Rightarrow> bool"
  ol_fetch :: "string \<Rightarrow> (string \<times> string) list option"
  ol_sha_b64 :: "string \<Rightarrow> string"
  ol_sha_hex :: "string \<Rightarrow> string"
  ol_sha_b64_half :: "string \<Rightarrow> string"

record verifier =
  vf_issuers :: "string list"
  vf_audiences :: "string list"
  vf_jwks_url :: string
  vf_keys :: "(string \<times> string) list"
  vf_fetched_at :: int
  vf_ttl :: int

definition toSet :: "string list \<Rightarrow> string list" where
  "toSet items = filter (\<lambda>x. x \<noteq> '''') (map TrimSpace items)"

text \<open>The zero time of \<open>fetchedAt\<close> lies before any key; with no keys it is never looked at.\<close>

definition oauth_New :: "string \<Rightarrow> string list \<Rightarrow> string list \<Rightarrow> verifier" where
  "oauth_New jwksURL issuers audiences = \<lparr>vf_issuers = toSet issuers, vf_audiences = toSet audiences,
     vf_jwks_url = jwksURL, vf_keys = [], vf_fetched_at = 0, vf_ttl = 3600\<rparr>"

definition NewGoogle :: "string list \<Rightarrow> verifier" where
  "NewGoogle audiences = oauth_New ''https://www.googleapis.com/oauth2/v3/certs''
     [''https://accounts.google.com'', ''accounts.google.com''] audiences"

definition NewApple :: "string list \<Rightarrow> verifier" where
  "NewApple audiences = oauth_New ''https://appleid.apple.com/auth/keys'' [''https://appleid.apple.com''] audiences"

definition verifier_Enabled :: "verifier option \<Rightarrow> bool" where
  "verifier_Enabled v \<longleftrightarrow> (case v of None \<Rightarrow> False | Some v \<Rightarrow> vf_audiences v \<noteq> [])"

definition audienceOK :: "verifier \<Rightarrow> aud \<Rightarrow> bool" where
  "audienceOK v a = (case a of AudMissing \<Rightarrow> False | AudOne x \<Rightarrow> x \<in> set (vf_audiences v)
     | AudMany xs \<Rightarrow> list_ex (\<lambda>x. x \<in> set (vf_audiences v)) xs | AudOther \<Rightarrow> False)"

definition firstStringFromRaw :: "aud \<Rightarrow> string" where
  "firstStringFromRaw a = (case a of AudOne x \<Rightarrow> x | AudMany (x # _) \<Rightarrow> x | _ \<Rightarrow> '''')"

definition parseFlexBool :: "bool + string option \<Rightarrow> bool" where
  "parseFlexBool raw = (case raw of Inl b \<Rightarrow> b | Inr (Some x) \<Rightarrow> ToLower x = ''true'' | Inr None \<Rightarrow> False)"

definition verifier_key :: "oidc_lib \<Rightarrow> int \<Rightarrow> string \<Rightarrow> verifier \<Rightarrow> (string + string) \<times> verifier" where
  "verifier_key lib now kid v =
    (case (if now - vf_fetched_at v < vf_ttl v then map_of (vf_keys v) kid else None) of
       Some k \<Rightarrow> (Inr k, v)
     | None \<Rightarrow>
       (case ol_fetch lib (vf_jwks_url v) of
          None \<Rightarrow> (Inl ''jwks fetch'', v)
        | Some ks \<Rightarrow>
          (let v = v\<lparr>vf_keys := ks, vf_fetched_at := now\<rparr>
           in case map_of ks kid of None \<Rightarrow> (Inl ''unknown signing key'', v) | Some k \<Rightarrow> (Inr k, v))))"

fun split_dots :: "string \<Rightarrow> string \<Rightarrow> string list" where
  "split_dots [] acc = [rev acc]"
| "split_dots (c # cs) acc = (if c = CHR ''.'' then rev acc # split_dots cs [] else split_dots cs (c # acc))"

text \<open>The checks on the payload, in the order of the code.\<close>

definition payload_fault :: "int \<Rightarrow> verifier \<Rightarrow> oidc_payload \<Rightarrow> string option" where
  "payload_fault now v p =
    (if ip_iss p \<notin> set (vf_issuers v) then Some ''untrusted issuer''
     else if \<not> audienceOK v (ip_aud p) then Some ''audience mismatch''
     else if ip_exp p = 0 \<or> now > ip_exp p + 30 then Some ''token expired''
     else if ip_sub p = '''' then Some ''token missing subject''
     else None)"

definition oauth_claims_of :: "oidc_payload \<Rightarrow> oauth_claims" where
  "oauth_claims_of p = \<lparr>oc_subject = ip_sub p, oc_email = ToLower (TrimSpace (ip_email p)),
     oc_email_verified = parseFlexBool (ip_email_verified p), oc_issuer = ip_iss p,
     oc_aud = firstStringFromRaw (ip_aud p), oc_nonce = ip_nonce p, oc_nonce_supported = ip_nonce_supported p,
     oc_c_hash = ip_c_hash p\<rparr>"

definition oauth_Verify :: "oidc_lib \<Rightarrow> int \<Rightarrow> string \<Rightarrow> verifier \<Rightarrow> (string + oauth_claims) \<times> verifier" where
  "oauth_Verify lib now idToken v =
    (case split_dots (TrimSpace idToken) '''' of
       [h, p, sg] \<Rightarrow>
         (case ol_header lib h of None \<Rightarrow> (Inl ''bad header'', v)
          | Some (alg, kid) \<Rightarrow>
            if alg \<noteq> ''RS256'' then (Inl ''unexpected alg'', v)
            else case ol_payload lib p of None \<Rightarrow> (Inl ''bad payload'', v)
            | Some pl \<Rightarrow>
              (case payload_fault now v pl of Some e \<Rightarrow> (Inl e, v)
               | None \<Rightarrow>
                 (case verifier_key lib now kid v of
                    (Inl e, v) \<Rightarrow> (Inl e, v)
                  | (Inr k, v) \<Rightarrow>
                    (case ol_signature lib sg of None \<Rightarrow> (Inl ''bad signature encoding'', v)
                     | Some b \<Rightarrow> if \<not> ol_rsa lib k (h @ ''.'' @ p) b then (Inl ''signature verification failed'', v)
                                 else (Inr (oauth_claims_of pl), v)))))
     | _ \<Rightarrow> (Inl ''malformed token'', v))"

definition AppleNonceOK :: "oidc_lib \<Rightarrow> string \<Rightarrow> string \<Rightarrow> bool" where
  "AppleNonceOK lib rawNonce tokenNonce =
    (if tokenNonce = '''' then rawNonce = ''''
     else if rawNonce = '''' then False
     else rawNonce = tokenNonce \<or> ol_sha_b64 lib rawNonce = tokenNonce \<or> ol_sha_hex lib rawNonce = tokenNonce)"

definition AppleCHashOK :: "oidc_lib \<Rightarrow> string \<Rightarrow> string \<Rightarrow> bool" where
  "AppleCHashOK lib code cHash =
    (if cHash = '''' \<or> code = '''' then cHash = code else ol_sha_b64_half lib code = cHash)"

end
