(* ===== verification/Session.thy ===== *)
theory Session
  imports NodeApi Accounts Settings
begin

text \<open>
  Tokens and the request middleware: \<open>internal/token/token.go\<close> and \<open>internal/api/middleware.go\<close>.

  Signing and verifying a PASETO document is a parameter (\<open>tk_sign\<close>, \<open>tk_verify\<close>); what goes into the
  document is modelled.  Durations are nanoseconds, as in Go, and instants whole seconds, so a lifetime is
  rounded down to seconds when it is added to an instant.  The claims extend those of a node token.
\<close>

section \<open>Issuing tokens\<close>

abbreviation RoleUser :: string where "RoleUser \<equiv> ''user''"
abbreviation RoleAdmin :: string where "RoleAdmin \<equiv> ''admin''"
abbreviation RoleNode :: string where "RoleNode \<equiv> ''node''"
abbreviation RoleGatewayCall :: string where "RoleGatewayCall \<equiv> ''gateway_call''"

definition second_ns :: int where "second_ns = 1000000000"

definition in_seconds :: "int \<Rightarrow> int" where "in_seconds d = d div second_ns"

definition DefaultNodeTokenTTL :: int where "DefaultNodeTokenTTL = 365 * 24 * hour_ns"

record token_claims = claims +
  tc_user_id :: string
  tc_wallet :: string
  tc_chain :: string
  tc_purpose :: string
  tc_signed_by :: string
  tc_issuer :: string
  tc_issued_at :: time
  tc_not_before :: time
  tc_expiration :: "time option"

record manager =
  mg_signed_by :: string
  mg_ttl :: int
  mg_node_ttl :: int

record token_lib =
  tk_sign :: "token_claims \<Rightarrow> string option"
  tk_verify :: "time \<Rightarrow> string \<Rightarrow> token_claims option"

definition PrivateKeySize :: nat where "PrivateKeySize = 64"

text \<open>The key material itself stays inside \<open>tk_sign\<close>.\<close>

definition token_New :: "string \<Rightarrow> string \<Rightarrow> int \<Rightarrow> manager option" where
  "token_New hexKey signedBy ttl =
    (case hex_decode (trim_0x hexKey) of None \<Rightarrow> None
     | Some raw \<Rightarrow>
       if length raw \<noteq> PrivateKeySize then None
       else Some \<lparr>mg_signed_by = signedBy, mg_ttl = (if ttl \<le> 0 then 24 * hour_ns else ttl),
                  mg_node_ttl = DefaultNodeTokenTTL\<rparr>)"

definition token_issue :: "token_lib \<Rightarrow> manager \<Rightarrow> time \<Rightarrow> token_claims \<Rightarrow> int \<Rightarrow> string option" where
  "token_issue lib m now c ttl =
    tk_sign lib (c\<lparr>tc_signed_by := mg_signed_by m, tc_issuer := mg_signed_by m, tc_issued_at := now,
                  tc_not_before := now,
                  tc_expiration := (if ttl > 0 then Some (now + in_seconds ttl) else None)\<rparr>)"

definition no_claims :: token_claims where
  "no_claims = \<lparr>ca_role = '''', ca_node_id = '''', ca_peer_id = '''', tc_user_id = '''', tc_wallet = '''',
     tc_chain = '''', tc_purpose = '''', tc_signed_by = '''', tc_issuer = '''', tc_issued_at = 0,
     tc_not_before = 0, tc_expiration = None\<rparr>"

definition IssueUser :: "token_lib \<Rightarrow> manager \<Rightarrow> time \<Rightarrow> id \<Rightarrow> string \<Rightarrow> string \<Rightarrow> string \<Rightarrow> string option" where
  "IssueUser lib m now userID wallet chain role =
    token_issue lib m now (no_claims\<lparr>tc_user_id := userID, tc_wallet := wallet, tc_chain := chain,
      ca_role := (if role = '''' then RoleUser else role)\<rparr>) (mg_ttl m)"

definition IssueNode :: "token_lib \<Rightarrow> manager \<Rightarrow> time \<Rightarrow> string \<Rightarrow> string option" where
  "IssueNode lib m now peerID =
    token_issue lib m now (no_claims\<lparr>ca_node_id := peerID, ca_peer_id := peerID, ca_role := RoleNode\<rparr>)
      (if mg_node_ttl m \<le> 0 then DefaultNodeTokenTTL else mg_node_ttl m)"

definition IssueGatewayCall :: "token_lib \<Rightarrow> manager \<Rightarrow> time \<Rightarrow> string \<Rightarrow> string \<Rightarrow> string option" where
  "IssueGatewayCall lib m now peerID purpose =
    token_issue lib m now (no_claims\<lparr>ca_node_id := peerID, ca_peer_id := peerID, ca_role := RoleGatewayCall,
      tc_purpose := (if purpose = '''' then ''node_api'' else purpose)\<rparr>) (60 * second_ns)"

definition Reconfigure :: "string \<Rightarrow> int \<Rightarrow> manager \<Rightarrow> manager" where
  "Reconfigure signedBy ttl m =
    m\<lparr>mg_signed_by := (if signedBy \<noteq> '''' then signedBy else mg_signed_by m),
      mg_ttl := (if ttl > 0 then ttl else mg_ttl m)\<rparr>"

section \<open>Middleware\<close>

definition has_prefix :: "string \<Rightarrow> string \<Rightarrow> bool" where
  "has_prefix p s \<longleftrightarrow> take (length p) s = p"

definition bearer :: "string \<Rightarrow> string" where
  "bearer h = (if \<not> has_prefix ''Bearer '' h then '''' else TrimSpace (drop 7 h))"

text \<open>The identity \<open>authUser\<close> leaves in the context, besides the wallet no modelled handler reads.\<close>

definition authUser :: "token_lib \<Rightarrow> time \<Rightarrow> string \<Rightarrow> failure + caller" where
  "authUser lib now authorization =
    (let tok = bearer authorization
     in if tok = '''' then Inl (401, ''authorization bearer token required'')
        else case tk_verify lib now tok of None \<Rightarrow> Inl (401, ''invalid or expired token'')
        | Some c \<Rightarrow>
          if ca_role c = RoleNode then Inl (403, ''node token not valid for user routes'')
          else if tc_user_id c = '''' then Inl (401, ''token missing subject'')
          else Inr \<lparr>cl_user_id = tc_user_id c, cl_role = ca_role c\<rparr>)"

definition requireAdmin :: "caller \<Rightarrow> failure option" where
  "requireAdmin cl = (if cl_role cl \<noteq> RoleAdmin then Some (403, ''admin role required'') else None)"

definition authAPIKey :: "(string \<Rightarrow> string) \<Rightarrow> time \<Rightarrow> string \<Rightarrow> db \<Rightarrow> (failure + id) \<times> db" where
  "authAPIKey sha now header s =
    (let key = TrimSpace header
     in if key = '''' then (Inl (401, ''X-Api-Key header required''), s)
        else case LookupAPIKey sha now key s of
          (Inl _, s) \<Rightarrow> (Inl (401, ''invalid or revoked API key''), s)
        | (Inr orgID, s) \<Rightarrow> (Inr orgID, IncrAPICall now orgID s))"

definition tierAdmin :: int where "tierAdmin = 2 ^ 30"

definition callerTier :: "token_lib \<Rightarrow> time \<Rightarrow> string \<Rightarrow> db \<Rightarrow> int" where
  "callerTier lib now authorization s =
    (let tok = bearer authorization
     in if tok = '''' then 0
        else case tk_verify lib now tok of None \<Rightarrow> 0
        | Some c \<Rightarrow>
          if tc_user_id c = '''' \<or> ca_role c = RoleNode then 0
          else if ca_role c = RoleAdmin then tierAdmin
          else (case UserXP s (tc_user_id c) of Inl _ \<Rightarrow> 0 | Inr (_, _, tier) \<Rightarrow> tier))"

end
