(* ===== verification/Verifiers.thy ===== *)
theory Verifiers
  imports Settings Wallet
begin

text \<open>
  Proofs of ownership of accounts elsewhere: \<open>internal/socialverify\<close> (Telegram, X) and
  \<open>internal/nftgate\<close> (NFT collections).  HMAC-SHA256, the HTTP round trips and the decoding of their
  answers are parameters.
\<close>

section \<open>Telegram\<close>

fun join_lines :: "string list \<Rightarrow> string" where
  "join_lines [] = []"
| "join_lines [x] = x"
| "join_lines (x # xs) = x @ char_of (10::nat) # join_lines xs"

definition data_check_string :: "(string \<times> string) list \<Rightarrow> string" where
  "data_check_string kvs =
    join_lines (map (\<lambda>(k, v). k @ ''='' @ v) (sort_key fst (filter (\<lambda>(k, _). k \<noteq> ''hash'') kvs)))"

definition payload_field :: "(string \<times> string) list \<Rightarrow> string \<Rightarrow> string" where
  "payload_field kvs k = (case map_of kvs k of None \<Rightarrow> '''' | Some v \<Rightarrow> v)"

text \<open>
  \<open>kvs\<close> is a Go map: one entry for each key, in any order.  \<open>hmac\<close> is the hexadecimal
  HMAC-SHA256 keyed with the SHA-256 of the bot token; \<open>maxAge\<close> is in seconds.
\<close>

definition VerifyTelegram :: "(string \<Rightarrow> string \<Rightarrow> string) \<Rightarrow> time \<Rightarrow> string \<Rightarrow> (string \<times> string) list \<Rightarrow> int
    \<Rightarrow> (string \<times> string) option" where
  "VerifyTelegram hmac now botToken kvs maxAge =
    (let hash = ToLower (TrimSpace (payload_field kvs ''hash'')); i = payload_field kvs ''id''
     in if botToken = '''' \<or> hash = '''' \<or> i = '''' then None
        else if hmac botToken (data_check_string kvs) \<noteq> hash then None
        else if maxAge > 0 \<and> (case ParseInt (payload_field kvs ''auth_date'') of None \<Rightarrow> False
                              | Some ts \<Rightarrow> now - ts > maxAge) then None
        else Some (i, payload_field kvs ''username''))"

section \<open>X\<close>

text \<open>The answer of the API: status, and the id and user name of the body when it decodes.\<close>

type_synonym x_answer = "int \<times> (string \<times> string) option"

definition x_base_url :: "string \<Rightarrow> string" where
  "x_base_url baseURL = (if baseURL = '''' then ''https://api.twitter.com'' else baseURL)"

definition XVerify :: "(string \<Rightarrow> string \<Rightarrow> x_answer option) \<Rightarrow> string \<Rightarrow> string \<Rightarrow> (string \<times> string) option" where
  "XVerify get baseURL accessToken =
    (if accessToken = '''' then None
     else case get (x_base_url baseURL @ ''/2/users/me'') (''Bearer '' @ accessToken) of None \<Rightarrow> None
     | Some (status, body) \<Rightarrow>
       if status div 100 \<noteq> 2 then None
       else (case body of None \<Rightarrow> None | Some (i, name) \<Rightarrow> if i = '''' then None else Some (i, name)))"

section \<open>NFT collections\<close>

datatype checker =
    Disabled
  | EVMChecker string string  \<comment> \<open>RPC URL, contract\<close>
  | SolanaCore string string  \<comment> \<open>RPC URL, collection\<close>
  | Multi "checker list"

text \<open>
  \<open>nl_balance\<close> is the \<open>result\<close> of \<open>eth_call\<close> (URL, contract, call data), \<open>nl_assets\<close> the \<open>total\<close>
  and the number of \<open>items\<close> of \<open>searchAssets\<close> (URL, collection, owner); each is absent when the call or
  the decoding fails or the answer is an RPC error.
\<close>

record nft_lib =
  nl_balance :: "string \<Rightarrow> string \<Rightarrow> string \<Rightarrow> string option"
  nl_assets :: "string \<Rightarrow> string \<Rightarrow> string \<Rightarrow> (int \<times> nat) option"

definition normalizeChain :: "string \<Rightarrow> string" where
  "normalizeChain chain = (let c = ToLower (TrimSpace chain) in if c = ''sol'' then ''solana'' else c)"

definition NewChecker :: "string \<Rightarrow> string \<Rightarrow> string \<Rightarrow> checker" where
  "NewChecker chain rpcURL contract =
    (if contract = '''' \<or> rpcURL = '''' then Disabled
     else if chain = ''solana'' \<or> chain = ''sol'' then SolanaCore rpcURL contract
     else if chain = ''evm'' then EVMChecker rpcURL contract
     else Disabled)"

definition contract_checkers :: "string \<Rightarrow> string \<Rightarrow> (string \<times> string) list \<Rightarrow> checker list" where
  "contract_checkers solanaRPC evmRPC contracts = concat (map (\<lambda>(chain, address).
     (let chain = normalizeChain chain; addr = TrimSpace address
      in if addr = '''' then []
         else if chain = ''solana'' then (if solanaRPC = '''' then [] else [SolanaCore solanaRPC addr])
         else if chain = ''evm'' then (if evmRPC = '''' then [] else [EVMChecker evmRPC addr])
         else [])) contracts)"

definition NewFromContracts :: "string \<Rightarrow> string \<Rightarrow> (string \<times> string) list \<Rightarrow> checker" where
  "NewFromContracts solanaRPC evmRPC contracts =
    (case contract_checkers solanaRPC evmRPC contracts of [] \<Rightarrow> Disabled | [c] \<Rightarrow> c | cs \<Rightarrow> Multi cs)"

definition checker_Enabled :: "checker \<Rightarrow> bool" where
  "checker_Enabled c = (case c of Disabled \<Rightarrow> False | Multi cs \<Rightarrow> cs \<noteq> [] | _ \<Rightarrow> True)"

text \<open>The balance is \<open>SetString\<close> in base 16: an optional sign and at least one hex digit; only the sign of
  the number counts.\<close>

definition hex_positive :: "string \<Rightarrow> bool" where
  "hex_positive t =
    (let (neg, ds) = signed t
     in ds \<noteq> '''' \<and> list_all is_hex ds \<and> \<not> neg \<and> list_ex (\<lambda>c. c \<noteq> CHR ''0'') ds)"

definition evm_Owns :: "nft_lib \<Rightarrow> string \<Rightarrow> string \<Rightarrow> string \<Rightarrow> bool option" where
  "evm_Owns lib rpcURL contract wallet =
    (let addr = trim_0x (ToLower wallet)
     in if length addr \<noteq> 40 then None
        else map_option (\<lambda>r. hex_positive (trim_0x r))
          (nl_balance lib rpcURL contract (''0x70a08231'' @ replicate 24 CHR ''0'' @ addr)))"

definition solana_Owns :: "nft_lib \<Rightarrow> string \<Rightarrow> string \<Rightarrow> string \<Rightarrow> bool option" where
  "solana_Owns lib rpcURL collection wallet =
    map_option (\<lambda>(total, items). total > 0 \<or> items > 0) (nl_assets lib rpcURL collection wallet)"

fun checker_Owns :: "nft_lib \<Rightarrow> checker \<Rightarrow> string \<Rightarrow> bool option"
  and multi_Owns :: "nft_lib \<Rightarrow> checker list \<Rightarrow> string \<Rightarrow> bool option" where
  "checker_Owns lib Disabled wallet = Some False"
| "checker_Owns lib (EVMChecker url a) wallet = evm_Owns lib url a wallet"
| "checker_Owns lib (SolanaCore url a) wallet = solana_Owns lib url a wallet"
| "checker_Owns lib (Multi cs) wallet = multi_Owns lib cs wallet"
| "multi_Owns lib [] wallet = Some False"
| "multi_Owns lib (c # cs) wallet =
    (case checker_Owns lib c wallet of None \<Rightarrow> None
     | Some owns \<Rightarrow> if owns then Some True else multi_Owns lib cs wallet)"

end
