(* ===== verification/SignIn.thy ===== *)
theory SignIn
  imports Session OAuth Verifiers
begin

text \<open>
  Signing in and linking identities: \<open>internal/api/auth.go\<close>, \<open>auth_identity.go\<close>, \<open>email.go\<close>,
  \<open>apple_callback.go\<close>, \<open>social.go\<close>, \<open>referrals.go\<close>, \<open>account.go\<close> and \<open>awardReferralXP\<close> of
  \<open>subscriptions.go\<close>.

  The server's configuration, its snapshot of the platform settings and the outside world are one
  environment (\<open>auth_env\<close>); what a request draws at random is another argument (\<open>draws\<close>).  The
  verifiers of ID tokens are state, because they cache signing keys.  Audit records are left out.
\<close>

record auth_env =
  au_wallet :: wallet_lib
  au_oidc :: oidc_lib
  au_token :: token_lib
  au_manager :: manager
  au_hash :: "string \<Rightarrow> string"  \<comment> \<open>hex SHA-256\<close>
  au_platform :: platform_values
  au_thresholds :: "int list"
  au_admin_wallet :: string
  au_mailer :: bool
  au_send :: "string \<Rightarrow> string \<Rightarrow> string \<Rightarrow> bool"  \<comment> \<open>\<open>SendOTP\<close>: recipient, code, product\<close>
  au_public_base :: string

record draws =
  dw_user :: id
  dw_row :: id
  dw_org :: fresh_ids
  dw_otp :: "nat option"
  dw_codes :: "nat \<Rightarrow> nat list"

type_synonym login = "string \<times> id \<times> string"  \<comment> \<open>token, user id, role\<close>

section \<open>Referral rewards\<close>

definition award :: "auth_env \<Rightarrow> time \<Rightarrow> id \<Rightarrow> string \<Rightarrow> int \<Rightarrow> (string \<times> string) list \<Rightarrow> string \<Rightarrow> db \<Rightarrow> db" where
  "award env now userID kind points meta key s =
    snd (AwardXPOnce now (au_thresholds env) userID kind points meta key s)"

definition awardReferralXP :: "auth_env \<Rightarrow> time \<Rightarrow> id \<Rightarrow> db \<Rightarrow> db" where
  "awardReferralXP env now refereeID s =
    (case ReferrerOf s refereeID of Inl _ \<Rightarrow> s
     | Inr referrerID \<Rightarrow>
       if referrerID = '''' then s
       else (let plat = au_platform env;
                 s = award env now refereeID ''referral_qualified'' (pv_XPRefereePoints plat)
                   [(''role'', ''referee''), (''referrer_id'', referrerID)] (''referral:'' @ refereeID @ '':referee'') s
             in award env now referrerID ''referral_qualified'' (pv_XPReferrerPoints plat)
                  [(''role'', ''referrer''), (''referee_id'', refereeID)] (''referral:'' @ refereeID @ '':referrer'') s))"

text \<open>The rewards are due as soon as the referee belongs to an organization.\<close>

definition reward_if_qualified :: "auth_env \<Rightarrow> time \<Rightarrow> id \<Rightarrow> db \<Rightarrow> db" where
  "reward_if_qualified env now userID s =
    (if UserHasActiveOrgMembership s userID then awardReferralXP env now userID s else s)"

definition bindReferralCode :: "auth_env \<Rightarrow> time \<Rightarrow> id \<Rightarrow> string \<Rightarrow> db \<Rightarrow> db" where
  "bindReferralCode env now userID ref s =
    (let code = ToUpper (TrimSpace ref)
     in if code = '''' then s
        else case UserIDByReferralCode s code of Inl _ \<Rightarrow> s
        | Inr referrerID \<Rightarrow>
          (case BindReferrer userID referrerID s of
             (Inl _, s) \<Rightarrow> s
           | (Inr bound, s) \<Rightarrow> if \<not> bound then s else reward_if_qualified env now userID s))"

definition truncWallet :: "string \<Rightarrow> string" where
  "truncWallet w = (if length w \<le> 12 then w else take 6 w @ ellipsis @ drop (length w - 4) w)"

definition trunc_summary :: "referral_summary \<Rightarrow> referral_summary" where
  "trunc_summary r = r\<lparr>rs_referred_by := truncWallet (rs_referred_by r),
     rs_recent := map (\<lambda>x. x\<lparr>Rewards.rr_wallet := truncWallet (Rewards.rr_wallet x)\<rparr>) (rs_recent r)\<rparr>"

definition handleReferralsMe :: "draws \<Rightarrow> caller \<Rightarrow> db \<Rightarrow> referral_summary resp \<times> db" where
  "handleReferralsMe dw cl s =
    (case ReferralSummary (cl_user_id cl) (dw_codes dw) s of
       (Inl _, s) \<Rightarrow> (Fail 500 ''failed to load referrals'', s)
     | (Inr r, s) \<Rightarrow> (Ok 200 (trunc_summary r), s))"

text \<open>The body of the last response: the summary, or only \<open>bound\<close> when it cannot be loaded.\<close>

definition handleReferralRedeem :: "auth_env \<Rightarrow> time \<Rightarrow> draws \<Rightarrow> caller \<Rightarrow> string option \<Rightarrow> db
    \<Rightarrow> referral_summary option resp \<times> db" where
  "handleReferralRedeem env now dw cl body s =
    (case body of None \<Rightarrow> (Fail 400 ''code is required'', s)
     | Some raw \<Rightarrow>
       if TrimSpace raw = '''' then (Fail 400 ''code is required'', s)
       else (let uid = cl_user_id cl; code = ToUpper (TrimSpace raw)
             in case UserIDByReferralCode s code of
                  Inl _ \<Rightarrow> (Fail 404 ''invite code not found'', s)
                | Inr referrerID \<Rightarrow>
                  if referrerID = uid then (Fail 400 ''you can't redeem your own invite code'', s)
                  else (case BindReferrer uid referrerID s of
                     (Inl _, s) \<Rightarrow> (Fail 500 ''failed to apply invite code'', s)
                   | (Inr bound, s) \<Rightarrow>
                     if \<not> bound then (Fail 409 ''an invite code is already applied to this account'', s)
                     else (case ReferralSummary uid (dw_codes dw) (reward_if_qualified env now uid s) of
                        (Inl _, s) \<Rightarrow> (Ok 200 None, s)
                      | (Inr r, s) \<Rightarrow> (Ok 200 (Some (trunc_summary r)), s)))))"

section \<open>Wallet login\<close>

definition challengeMessage :: "auth_env \<Rightarrow> id \<Rightarrow> string" where
  "challengeMessage env flowID = pv_AuthEULA (au_platform env) @ '' Challenge: '' @ flowID"

definition handleAuthChallenge :: "auth_env \<Rightarrow> time \<Rightarrow> id \<Rightarrow> string \<Rightarrow> string \<Rightarrow> db \<Rightarrow> (id \<times> string) resp \<times> db" where
  "handleAuthChallenge env now flowID walletQuery chainQuery s =
    (let walletAddr = TrimSpace walletQuery; chain = TrimSpace chainQuery
     in if walletAddr = '''' \<or> chain = '''' then (Fail 400 ''wallet_address and chain are required'', s)
        else if chain \<noteq> ChainEVM \<and> chain \<noteq> ChainSOL
        then (Fail 400 ''unsupported chain (expected evm or sol)'', s)
        else (case CreateFlowID now flowID walletAddr chain flowIDTTL s of
                (Inl _, s) \<Rightarrow> (Fail 500 ''failed to create flow id'', s)
              | (Inr _, s) \<Rightarrow> (Ok 200 (flowID, challengeMessage env flowID), s)))"

record auth_req =
  aq_flow_id :: id
  aq_signature :: string
  aq_public_key :: string
  aq_ref :: string

definition bootstrapUser :: "auth_env \<Rightarrow> time \<Rightarrow> draws \<Rightarrow> user \<Rightarrow> db \<Rightarrow> db" where
  "bootstrapUser env now dw u s =
    (case EnsurePersonalOrg now (dw_org dw) (us_id u) (us_wallet_address u) s of
       (Inr (_, True), s) \<Rightarrow> awardReferralXP env now (us_id u) s
     | (_, s) \<Rightarrow> s)"

definition issueAndRespond :: "auth_env \<Rightarrow> time \<Rightarrow> user \<Rightarrow> login resp" where
  "issueAndRespond env now u =
    (case IssueUser (au_token env) (au_manager env) now (us_id u) (us_wallet_address u) (us_chain u) (us_role u) of
       None \<Rightarrow> Fail 500 ''failed to issue token''
     | Some tok \<Rightarrow> Ok 200 (tok, us_id u, us_role u))"

text \<open>The signed proof that the caller holds the wallet of a flow.\<close>

definition proves_wallet :: "auth_env \<Rightarrow> flow_id \<Rightarrow> string \<Rightarrow> string \<Rightarrow> bool" where
  "proves_wallet env flow signature publicKey =
    (case wallet_Verify (au_wallet env) (fl_chain flow) (challengeMessage env (fl_flow_id flow)) signature publicKey of
       None \<Rightarrow> False
     | Some recovered \<Rightarrow> EqualFold (TrimSpace recovered) (TrimSpace (fl_wallet_address flow)))"

definition complete_login :: "auth_env \<Rightarrow> time \<Rightarrow> draws \<Rightarrow> flow_id \<Rightarrow> string \<Rightarrow> db \<Rightarrow> login resp \<times> db" where
  "complete_login env now dw flow ref s =
    (case UpsertUserByWallet now (dw_user dw) (fl_wallet_address flow) (fl_chain flow) (au_admin_wallet env) s of
       (Inl _, s) \<Rightarrow> (Fail 500 ''failed to load user'', s)
     | (Inr u, s) \<Rightarrow>
       (issueAndRespond env now u, bootstrapUser env now dw u (bindReferralCode env now (us_id u) ref s)))"

definition handleAuthComplete :: "auth_env \<Rightarrow> time \<Rightarrow> draws \<Rightarrow> auth_req option \<Rightarrow> db \<Rightarrow> login resp \<times> db" where
  "handleAuthComplete env now dw body s =
    (case body of None \<Rightarrow> (Fail 400 ''flow_id and signature are required'', s)
     | Some req \<Rightarrow>
       if aq_flow_id req = '''' \<or> aq_signature req = '''' then (Fail 400 ''flow_id and signature are required'', s)
       else (case GetFlowID now (aq_flow_id req) s of
          (Inl _, s) \<Rightarrow> (Fail 401 ''flow id not found or expired'', s)
        | (Inr flow, s) \<Rightarrow>
          if wallet_Verify (au_wallet env) (fl_chain flow) (challengeMessage env (fl_flow_id flow))
               (aq_signature req) (aq_public_key req) = None
          then (Fail 401 ''signature verification failed'', s)
          else if \<not> proves_wallet env flow (aq_signature req) (aq_public_key req)
          then (Fail 401 ''signature does not match wallet'', s)
          else complete_login env now dw flow (aq_ref req) (DeleteFlowID (aq_flow_id req) s)))"

definition handleLinkWallet :: "auth_env \<Rightarrow> time \<Rightarrow> caller \<Rightarrow> auth_req option \<Rightarrow> db \<Rightarrow> (string \<times> string) resp \<times> db" where
  "handleLinkWallet env now cl body s =
    (case body of None \<Rightarrow> (Fail 400 ''flow_id and signature are required'', s)
     | Some req \<Rightarrow>
       if aq_flow_id req = '''' \<or> aq_signature req = '''' then (Fail 400 ''flow_id and signature are required'', s)
       else (case GetFlowID now (aq_flow_id req) s of
          (Inl _, s) \<Rightarrow> (Fail 401 ''flow id not found or expired'', s)
        | (Inr flow, s) \<Rightarrow>
          if \<not> proves_wallet env flow (aq_signature req) (aq_public_key req)
          then (Fail 401 ''signature does not match wallet'', s)
          else (case AttachWalletToUser (cl_user_id cl) (fl_wallet_address flow) (fl_chain flow)
                       (DeleteFlowID (aq_flow_id req) s) of
             (Inl e, s) \<Rightarrow> (if e = ErrWalletTaken then Fail 409 ''wallet already linked to another account''
                           else Fail 500 ''failed to link wallet'', s)
           | (Inr _, s) \<Rightarrow> (Ok 200 (fl_wallet_address flow, fl_chain flow), s))))"

section \<open>Email addresses and one-time codes\<close>

definition otpMaxAttempts :: int where "otpMaxAttempts = 5"

definition otpResendCooldown :: int where "otpResendCooldown = 60"

definition normalizeEmail :: "string \<Rightarrow> string option" where
  "normalizeEmail raw =
    (let e = ToLower (TrimSpace raw); local = takeWhile (\<lambda>c. c \<noteq> CHR ''@'') e; rest = drop (length local) e
     in if length e < 3 \<or> length e > 254 \<or> list_ex (\<lambda>c. byte c \<in> {32, 9, 13, 10}) e then None
        else if local = '''' \<or> length rest \<le> 1 then None
        else if CHR ''.'' \<notin> set (tl rest) then None
        else Some e)"

definition generateOTP :: "nat option \<Rightarrow> string option" where
  "generateOTP n = map_option (\<lambda>n. let d = dec_nat (n mod 1000000) in replicate (6 - length d) CHR ''0'' @ d) n"

definition otp_lifetime :: "auth_env \<Rightarrow> int" where
  "otp_lifetime env = in_seconds (pv_MagicLinkExpiration (au_platform env))"

text \<open>The message of a wrong code; \<open>n\<close> is what the counter update returned, 0 when it failed.\<close>

definition wrong_code :: "int res \<Rightarrow> 'a resp" where
  "wrong_code n =
    (let remaining = otpMaxAttempts - (case n of Inl _ \<Rightarrow> 0 | Inr n \<Rightarrow> n);
         remaining = (if remaining < 0 then 0 else remaining)
     in Fail 401 (''invalid code ('' @ dec_int remaining @ '' attempts left)''))"

record otp_req =
  ot_email :: string
  ot_app :: string

record verify_req =
  vq_email :: string
  vq_code :: string
  vq_ref :: string

text \<open>Send a fresh code and answer with its lifetime; \<open>store_code\<close> keeps the hash.\<close>

definition send_code :: "auth_env \<Rightarrow> draws \<Rightarrow> string \<Rightarrow> string \<Rightarrow> (string \<Rightarrow> db \<Rightarrow> unit res \<times> db) \<Rightarrow> db \<Rightarrow> int resp \<times> db" where
  "send_code env dw email product store_code s =
    (case generateOTP (dw_otp dw) of None \<Rightarrow> (Fail 500 ''failed to generate code'', s)
     | Some code \<Rightarrow>
       (case store_code (au_hash env code) s of
          (Inl _, s) \<Rightarrow> (Fail 500 ''failed to store code'', s)
        | (Inr _, s) \<Rightarrow>
          if \<not> au_send env email code product then (Fail 502 ''failed to send email'', s)
          else (Ok 200 (otp_lifetime env), s)))"

section \<open>Linking an email\<close>

definition email_taken :: "db \<Rightarrow> string \<Rightarrow> id \<Rightarrow> bool" where
  "email_taken s email uid = (case EmailOwner s email of Inl _ \<Rightarrow> False | Inr owner \<Rightarrow> owner \<noteq> uid)"

definition handleEmailOTPStart :: "auth_env \<Rightarrow> time \<Rightarrow> draws \<Rightarrow> caller \<Rightarrow> otp_req option \<Rightarrow> db \<Rightarrow> int resp \<times> db" where
  "handleEmailOTPStart env now dw cl body s =
    (if \<not> au_mailer env then (Fail 503 ''email is not configured'', s)
     else case body of None \<Rightarrow> (Fail 400 ''email is required'', s)
     | Some req \<Rightarrow>
       (case normalizeEmail (ot_email req) of None \<Rightarrow> (Fail 400 ''invalid email address'', s)
        | Some email \<Rightarrow>
          let uid = cl_user_id cl
          in if email_taken s email uid then (Fail 409 ''email already linked to another account'', s)
             else if (case LatestEmailOTP s now uid email of Inl _ \<Rightarrow> False
                      | Inr latest \<Rightarrow> now - eo_created_at latest < otpResendCooldown)
             then (Fail 429 ''please wait before requesting another code'', s)
             else send_code env dw email (ot_app req)
                    (\<lambda>h. CreateEmailOTP now (dw_row dw) uid email h (otp_lifetime env)) s))"

definition link_email :: "auth_env \<Rightarrow> time \<Rightarrow> id \<Rightarrow> string \<Rightarrow> db \<Rightarrow> user option resp \<times> db" where
  "link_email env now uid email s =
    (case SetUserEmailVerified uid email s of
       (Inl _, s) \<Rightarrow> (Fail 500 ''failed to link email'', s)
     | (Inr _, s) \<Rightarrow>
       (let s = DeleteEmailOTPs uid email s;
            s = award env now uid ''email_verified'' (pv_XPEmailVerified (au_platform env)) [] (''email_verified:'' @ uid) s;
            s = snd (LinkSocialAccount now uid ''email'' email '''' s)
        in (Ok 200 (case GetUser s uid of Inl _ \<Rightarrow> None | Inr u \<Rightarrow> Some u), s)))"

definition handleEmailOTPVerify :: "auth_env \<Rightarrow> time \<Rightarrow> caller \<Rightarrow> verify_req option \<Rightarrow> db \<Rightarrow> user option resp \<times> db" where
  "handleEmailOTPVerify env now cl body s =
    (case body of None \<Rightarrow> (Fail 400 ''email and code are required'', s)
     | Some req \<Rightarrow>
       if TrimSpace (vq_code req) = '''' then (Fail 400 ''email and code are required'', s)
       else (case normalizeEmail (vq_email req) of None \<Rightarrow> (Fail 400 ''invalid email address'', s)
        | Some email \<Rightarrow>
          let uid = cl_user_id cl
          in if email_taken s email uid then (Fail 409 ''email already linked to another account'', s)
             else case LatestEmailOTP s now uid email of
               Inl _ \<Rightarrow> (Fail 401 ''no pending code; request a new one'', s)
             | Inr otp \<Rightarrow>
               if eo_attempts otp \<ge> otpMaxAttempts
               then (Fail 429 ''too many attempts; request a new code'', DeleteEmailOTPs uid email s)
               else if eo_code_hash otp \<noteq> au_hash env (TrimSpace (vq_code req))
               then (let (n, s) = BumpEmailOTPAttempts (eo_id otp) s in (wrong_code n, s))
               else link_email env now uid email s))"

section \<open>Login by email\<close>

text \<open>With the referral code its callers bind right before it.\<close>

definition finishIdentityLogin :: "auth_env \<Rightarrow> time \<Rightarrow> draws \<Rightarrow> user \<Rightarrow> string \<Rightarrow> db \<Rightarrow> login resp \<times> db" where
  "finishIdentityLogin env now dw u ref s =
    (issueAndRespond env now u, bootstrapUser env now dw u (bindReferralCode env now (us_id u) ref s))"

definition handleEmailLoginStart :: "auth_env \<Rightarrow> time \<Rightarrow> draws \<Rightarrow> otp_req option \<Rightarrow> db \<Rightarrow> int resp \<times> db" where
  "handleEmailLoginStart env now dw body s =
    (if \<not> au_mailer env then (Fail 503 ''email is not configured'', s)
     else case body of None \<Rightarrow> (Fail 400 ''email is required'', s)
     | Some req \<Rightarrow>
       (case normalizeEmail (ot_email req) of None \<Rightarrow> (Fail 400 ''invalid email address'', s)
        | Some email \<Rightarrow>
          if (case GetLoginOTP s now email of Inl _ \<Rightarrow> False | Inr otp \<Rightarrow> now - lo_created_at otp < otpResendCooldown)
          then (Fail 429 ''please wait before requesting another code'', s)
          else send_code env dw email (ot_app req)
                 (\<lambda>h s. (Inr (), UpsertLoginOTP now email h (otp_lifetime env) s)) s))"

definition email_login :: "auth_env \<Rightarrow> time \<Rightarrow> draws \<Rightarrow> string \<Rightarrow> string \<Rightarrow> db \<Rightarrow> login resp \<times> db" where
  "email_login env now dw email ref s =
    (case ResolveOrCreateUserByEmail now (dw_user dw) email s of
       (Inl _, s) \<Rightarrow> (Fail 500 ''failed to resolve account'', s)
     | (Inr (u, _), s) \<Rightarrow> finishIdentityLogin env now dw u ref s)"

definition handleEmailLoginVerify :: "auth_env \<Rightarrow> time \<Rightarrow> draws \<Rightarrow> verify_req option \<Rightarrow> db \<Rightarrow> login resp \<times> db" where
  "handleEmailLoginVerify env now dw body s =
    (case body of None \<Rightarrow> (Fail 400 ''email and code are required'', s)
     | Some req \<Rightarrow>
       if TrimSpace (vq_code req) = '''' then (Fail 400 ''email and code are required'', s)
       else (case normalizeEmail (vq_email req) of None \<Rightarrow> (Fail 400 ''invalid email address'', s)
        | Some email \<Rightarrow>
          (case GetLoginOTP s now email of
             Inl _ \<Rightarrow> (Fail 401 ''no pending code; request a new one'', s)
           | Inr otp \<Rightarrow>
             if lo_attempts otp \<ge> otpMaxAttempts
             then (Fail 429 ''too many attempts; request a new code'', DeleteLoginOTP email s)
             else if lo_code_hash otp \<noteq> au_hash env (TrimSpace (vq_code req))
             then (let (n, s) = BumpLoginOTPAttempts email s in (wrong_code n, s))
             else email_login env now dw email (vq_ref req) (DeleteLoginOTP email s))))"

section \<open>Google and Apple\<close>

record verifiers =
  vs_google :: "verifier option"
  vs_apple :: "verifier option"
  vs_apple_apps :: "(string \<times> verifier) list"

text \<open>Which verifier a request uses, and how a used one is put back with its key cache.\<close>

datatype slot = Google | Apple | AppleApp string

definition slot_verifier :: "verifiers \<Rightarrow> slot \<Rightarrow> verifier option" where
  "slot_verifier vs k = (case k of Google \<Rightarrow> vs_google vs | Apple \<Rightarrow> vs_apple vs | AppleApp a \<Rightarrow> map_of (vs_apple_apps vs) a)"

definition slot_put :: "slot \<Rightarrow> verifier \<Rightarrow> verifiers \<Rightarrow> verifiers" where
  "slot_put k v vs = (case k of Google \<Rightarrow> vs\<lparr>vs_google := Some v\<rparr> | Apple \<Rightarrow> vs\<lparr>vs_apple := Some v\<rparr>
     | AppleApp a \<Rightarrow> vs\<lparr>vs_apple_apps := map (\<lambda>(b, w). (b, if b = a then v else w)) (vs_apple_apps vs)\<rparr>)"

definition verify_with :: "auth_env \<Rightarrow> time \<Rightarrow> slot \<Rightarrow> string \<Rightarrow> verifiers \<Rightarrow> (string + oauth_claims) \<times> verifiers" where
  "verify_with env now k tok vs =
    (case slot_verifier vs k of None \<Rightarrow> (Inl '''', vs)
     | Some v \<Rightarrow> (case oauth_Verify (au_oidc env) now tok v of (r, v) \<Rightarrow> (r, slot_put k v vs)))"

definition appleEnabled :: "verifiers \<Rightarrow> bool" where
  "appleEnabled vs \<longleftrightarrow> verifier_Enabled (vs_apple vs) \<or> vs_apple_apps vs \<noteq> []"

definition handleAuthMethods :: "auth_env \<Rightarrow> verifiers \<Rightarrow> (string \<times> bool) list resp" where
  "handleAuthMethods env vs = Ok 200 [(''wallet'', True), (''email'', au_mailer env),
     (''google'', verifier_Enabled (vs_google vs)), (''apple'', appleEnabled vs)]"

text \<open>Only an address the provider vouches for is used to find an account.\<close>

definition trusted_email :: "oauth_claims \<Rightarrow> string" where
  "trusted_email c = (if oc_email c \<noteq> '''' \<and> \<not> oc_email_verified c then '''' else oc_email c)"

definition social_login :: "auth_env \<Rightarrow> time \<Rightarrow> draws \<Rightarrow> string \<Rightarrow> oauth_claims \<Rightarrow> string \<Rightarrow> db \<Rightarrow> login resp \<times> db" where
  "social_login env now dw provider c ref s =
    (let email = trusted_email c
     in case ResolveOrCreateUserBySocial now (dw_user dw) provider (oc_subject c) email email s of
          (Inl _, s) \<Rightarrow> (Fail 500 ''failed to resolve account'', s)
        | (Inr (u, _), s) \<Rightarrow> finishIdentityLogin env now dw u ref s)"

record oidc_req =
  oq_id_token :: string
  oq_code :: string
  oq_nonce :: string
  oq_state :: string
  oq_ref :: string

definition oidcLogin :: "auth_env \<Rightarrow> time \<Rightarrow> draws \<Rightarrow> string \<Rightarrow> slot \<Rightarrow> oidc_req option \<Rightarrow> db \<times> verifiers
    \<Rightarrow> login resp \<times> db \<times> verifiers" where
  "oidcLogin env now dw provider k body st =
    (let (s, vs) = st
     in if \<not> verifier_Enabled (slot_verifier vs k) then (Fail 503 (provider @ '' login is not configured''), st)
        else case body of None \<Rightarrow> (Fail 400 ''id_token is required'', st)
        | Some req \<Rightarrow>
          if TrimSpace (oq_id_token req) = '''' then (Fail 400 ''id_token is required'', st)
          else (case verify_with env now k (oq_id_token req) vs of
             (Inl _, vs) \<Rightarrow> (Fail 401 (''invalid '' @ provider @ '' token''), s, vs)
           | (Inr c, vs) \<Rightarrow>
             (let (r, s) = social_login env now dw provider c (oq_ref req) s in (r, s, vs))))"

definition handleGoogleAuth where "handleGoogleAuth env now dw = oidcLogin env now dw ''google'' Google"

text \<open>A state \<open>app.random\<close> names the app; without a verifier for it the general one is used.\<close>

definition state_app :: "verifiers \<Rightarrow> string \<Rightarrow> string option" where
  "state_app vs state =
    (let app = takeWhile (\<lambda>c. c \<noteq> CHR ''.'') state
     in if app \<noteq> '''' \<and> CHR ''.'' \<in> set state \<and> map_of (vs_apple_apps vs) app \<noteq> None then Some app else None)"

definition appleVerifierForState :: "verifiers \<Rightarrow> string \<Rightarrow> slot \<times> string \<times> bool" where
  "appleVerifierForState vs state =
    (case state_app vs state of Some app \<Rightarrow> (AppleApp app, app, True)
     | None \<Rightarrow> (Apple, ''legacy'', verifier_Enabled (vs_apple vs)))"

definition validateAppleClaims :: "auth_env \<Rightarrow> oauth_claims \<Rightarrow> string \<Rightarrow> string \<Rightarrow> string option" where
  "validateAppleClaims env c rawNonce code =
    (if (if oc_nonce c \<noteq> '''' then \<not> AppleNonceOK (au_oidc env) rawNonce (oc_nonce c) else rawNonce \<noteq> '''')
     then Some ''apple nonce mismatch''
     else if oc_c_hash c \<noteq> '''' \<and> code = '''' then Some ''apple authorization code required''
     else if oc_c_hash c \<noteq> '''' \<and> \<not> AppleCHashOK (au_oidc env) code (oc_c_hash c)
     then Some ''apple authorization code mismatch''
     else None)"

text \<open>
  Tokens of native iOS clients name the bundle as their audience, so a token the verifier of the app
  rejects for its audience is tried with the general verifier.
\<close>

definition verify_apple :: "auth_env \<Rightarrow> time \<Rightarrow> slot \<Rightarrow> string \<Rightarrow> verifiers \<Rightarrow> (string + oauth_claims) \<times> verifiers" where
  "verify_apple env now k tok vs =
    (case verify_with env now k tok vs of
       (Inl e, vs) \<Rightarrow> if e = ''audience mismatch'' \<and> verifier_Enabled (vs_apple vs)
                      then verify_with env now Apple tok vs else (Inl e, vs)
     | (Inr c, vs) \<Rightarrow> (Inr c, vs))"

definition handleAppleAuth :: "auth_env \<Rightarrow> time \<Rightarrow> draws \<Rightarrow> oidc_req option \<Rightarrow> db \<times> verifiers
    \<Rightarrow> login resp \<times> db \<times> verifiers" where
  "handleAppleAuth env now dw body st =
    (let (s, vs) = st
     in if \<not> appleEnabled vs then (Fail 503 ''apple login is not configured'', st)
        else case body of None \<Rightarrow> (Fail 400 ''id_token is required'', st)
        | Some req \<Rightarrow>
          if TrimSpace (oq_id_token req) = '''' then (Fail 400 ''id_token is required'', st)
          else (let (k, app, known) = appleVerifierForState vs (oq_state req)
            in if \<not> known then (Fail 503 ''apple login is not configured for this app'', st)
               else case verify_apple env now k (oq_id_token req) vs of
                 (Inl _, vs) \<Rightarrow> (Fail 401 ''invalid apple token'', s, vs)
               | (Inr c, vs) \<Rightarrow>
                 if oq_state req \<noteq> '''' \<and> \<not> has_prefix (app @ ''.'') (oq_state req)
                 then (Fail 401 ''invalid apple state'', s, vs)
                 else (case validateAppleClaims env c (oq_nonce req) (oq_code req) of
                    Some e \<Rightarrow> (Fail 401 e, s, vs)
                  | None \<Rightarrow> (let (r, s) = social_login env now dw ''apple'' c (oq_ref req) s in (r, s, vs)))))"

section \<open>Linking other accounts\<close>

definition linkSocial :: "auth_env \<Rightarrow> time \<Rightarrow> caller \<Rightarrow> string \<Rightarrow> string \<Rightarrow> string \<Rightarrow> db
    \<Rightarrow> (string \<times> string \<times> bool) resp \<times> db" where
  "linkSocial env now cl provider providerID handle s =
    (let uid = cl_user_id cl
     in case LinkSocialAccount now uid provider providerID handle s of
          (Inl e, s) \<Rightarrow> (if e = ErrSocialTaken then Fail 409 ''already linked to another account''
                        else Fail 500 ''failed to link account'', s)
        | (Inr created, s) \<Rightarrow>
            (Ok 200 (provider, handle, created),
             if created
             then award env now uid ''social_verified'' (pv_XPSocialVerified (au_platform env)) [(''provider'', provider)]
                    (''social_verified:'' @ uid @ '':'' @ provider) s
             else s))"

definition oidcLink :: "auth_env \<Rightarrow> time \<Rightarrow> caller \<Rightarrow> string \<Rightarrow> slot \<Rightarrow> oidc_req option \<Rightarrow> db \<times> verifiers
    \<Rightarrow> (string \<times> string \<times> bool) resp \<times> db \<times> verifiers" where
  "oidcLink env now cl provider k body st =
    (let (s, vs) = st
     in if \<not> verifier_Enabled (slot_verifier vs k) then (Fail 503 (provider @ '' linking is not configured''), st)
        else case body of None \<Rightarrow> (Fail 400 ''id_token is required'', st)
        | Some req \<Rightarrow>
          if TrimSpace (oq_id_token req) = '''' then (Fail 400 ''id_token is required'', st)
          else (case verify_with env now k (oq_id_token req) vs of
             (Inl _, vs) \<Rightarrow> (Fail 401 (''invalid '' @ provider @ '' token''), s, vs)
           | (Inr c, vs) \<Rightarrow>
             (let (r, s) = linkSocial env now cl provider (oc_subject c) (oc_email c) s in (r, s, vs))))"

definition handleLinkGoogle where "handleLinkGoogle env now cl = oidcLink env now cl ''google'' Google"

definition handleLinkApple where "handleLinkApple env now cl = oidcLink env now cl ''apple'' Apple"

definition handleSocialAccounts :: "caller \<Rightarrow> db \<Rightarrow> social_account list resp" where
  "handleSocialAccounts cl s = Ok 200 (ListSocialAccounts s (cl_user_id cl))"

definition telegramAuthMaxAge :: int where "telegramAuthMaxAge = 24 * 3600"

definition handleVerifyTelegram :: "auth_env \<Rightarrow> (string \<Rightarrow> string \<Rightarrow> string) \<Rightarrow> string \<Rightarrow> time \<Rightarrow> caller
    \<Rightarrow> (string \<times> string) list option \<Rightarrow> db \<Rightarrow> (string \<times> string \<times> bool) resp \<times> db" where
  "handleVerifyTelegram env hmac botToken now cl body s =
    (if botToken = '''' then (Fail 503 ''telegram verification not configured'', s)
     else case body of None \<Rightarrow> (Fail 400 ''telegram widget payload required'', s)
     | Some kvs \<Rightarrow>
       if kvs = [] then (Fail 400 ''telegram widget payload required'', s)
       else (case VerifyTelegram hmac now botToken kvs telegramAuthMaxAge of
          None \<Rightarrow> (Fail 401 ''telegram verification failed'', s)
        | Some (pid, handle) \<Rightarrow> linkSocial env now cl ''telegram'' pid handle s))"

definition handleVerifyX :: "auth_env \<Rightarrow> (string \<Rightarrow> string \<Rightarrow> x_answer option) \<Rightarrow> string \<Rightarrow> time \<Rightarrow> caller \<Rightarrow> string option
    \<Rightarrow> db \<Rightarrow> (string \<times> string \<times> bool) resp \<times> db" where
  "handleVerifyX env get xBase now cl body s =
    (case body of None \<Rightarrow> (Fail 400 ''access_token required'', s)
     | Some accessToken \<Rightarrow>
       if accessToken = '''' then (Fail 400 ''access_token required'', s)
       else (case XVerify get xBase accessToken of
          None \<Rightarrow> (Fail 401 ''x verification failed'', s)
        | Some (pid, handle) \<Rightarrow> linkSocial env now cl ''x'' pid handle s))"

section \<open>The account\<close>

definition handleGetProfile :: "caller \<Rightarrow> db \<Rightarrow> user resp" where
  "handleGetProfile cl s =
    (case GetUser s (cl_user_id cl) of
       Inl e \<Rightarrow> if e = ErrNotFound then Fail 404 ''user not found'' else Fail 500 ''failed to load profile''
     | Inr u \<Rightarrow> Ok 200 u)"

definition handlePatchProfile :: "caller \<Rightarrow> (string option \<times> string option) option \<Rightarrow> db \<Rightarrow> user option resp \<times> db" where
  "handlePatchProfile cl body s =
    (case body of None \<Rightarrow> (Fail 400 ''invalid body'', s)
     | Some (name, picture) \<Rightarrow>
       (case UpdateProfile (cl_user_id cl) name picture s of
          (Inl _, s) \<Rightarrow> (Fail 500 ''failed to update profile'', s)
        | (Inr _, s) \<Rightarrow> (Ok 200 (case GetUser s (cl_user_id cl) of Inl _ \<Rightarrow> None | Inr u \<Rightarrow> Some u), s)))"

definition handleAccountDeletionRequest :: "time \<Rightarrow> id \<Rightarrow> caller \<Rightarrow> db \<Rightarrow> id resp \<times> db" where
  "handleAccountDeletionRequest now newID cl s =
    (let uid = cl_user_id cl
     in case GetUser s uid of Inl _ \<Rightarrow> (Fail 500 ''failed to load profile'', s)
        | Inr u \<Rightarrow>
          if us_email u = '''' \<or> \<not> us_email_verified u
          then (Fail 400 ''Please add and verify an email in your profile before requesting deletion.'', s)
          else if UserOwnsOrgs s uid
          then (Fail 400 ''You still own organizations. Transfer ownership or delete them first.'', s)
          else if UserHasActiveOrgMembership s uid
          then (Fail 400 ''You are still a member of organizations. Leave them first.'', s)
          else (case CreateDeletionRequest now newID uid (us_wallet_address u) (us_email u) (us_name u) s of
                  (Inl _, s) \<Rightarrow> (Fail 500 ''failed to register deletion request'', s)
                | (Inr i, s) \<Rightarrow> (Ok 201 i, s)))"

end
