(* ===== verification/AppleRelay.thy ===== *)
theory AppleRelay
  imports SignIn
begin

text \<open>
  Sign in with Apple behind a redirect: \<open>internal/api/apple_callback.go\<close> and the client-id tables
  \<open>internal/api/server.go\<close> builds for it.  A redirect is its target and the query parameters; percent
  encoding is left to \<open>net/url\<close>.
\<close>

section \<open>Client ids\<close>

text \<open>The split of a comma separated list on characters, dropping blanks and empty items.\<close>

fun csv_items :: "string \<Rightarrow> string \<Rightarrow> string list" where
  "csv_items [] cur = (if cur = '''' then [] else [rev cur])"
| "csv_items (c # cs) cur =
    (if c = CHR '','' then (if cur = '''' then csv_items cs '''' else rev cur # csv_items cs '''')
     else if c = CHR '' '' then csv_items cs cur
     else csv_items cs (c # cur))"

definition splitCSVRaw :: "string \<Rightarrow> string list" where
  "splitCSVRaw s = csv_items s ''''"

definition splitCSV :: "string \<Rightarrow> string list" where
  "splitCSV s = (if csv_items s '''' = [] then [''*''] else csv_items s '''')"

definition trim_login :: "string \<Rightarrow> string" where
  "trim_login i = (if 6 \<le> length i \<and> drop (length i - 6) i = ''.login'' then take (length i - 6) i else i)"

definition applePackage :: "string \<Rightarrow> string" where
  "applePackage i = trim_login i"

text \<open>What follows the last dot.\<close>

definition appleAppKey :: "string \<Rightarrow> string" where
  "appleAppKey i = rev (takeWhile (\<lambda>c. c \<noteq> CHR ''.'') (rev (trim_login i)))"

definition trimmed_ids :: "string list \<Rightarrow> string list" where
  "trimmed_ids ids = filter (\<lambda>i. i \<noteq> '''') (map TrimSpace ids)"

definition appleAppAudiences :: "string list \<Rightarrow> (string \<times> string list) list" where
  "appleAppAudiences ids =
    (let ids = trimmed_ids ids
     in map (\<lambda>app. (app, filter (\<lambda>i. appleAppKey i = app) ids)) (remdups (map appleAppKey ids)))"

text \<open>The first client id of an app decides its package.\<close>

definition appleAppPackages :: "string list \<Rightarrow> (string \<times> string) list" where
  "appleAppPackages ids = map (\<lambda>i. (appleAppKey i, applePackage i)) (trimmed_ids ids)"

definition appleRelayIDs :: "string list \<Rightarrow> string list" where
  "appleRelayIDs ids = map appleAppKey (trimmed_ids ids)"

section \<open>The callback\<close>

record relay_cfg =
  ry_packages :: "(string \<times> string) list"
  ry_relay :: "string list"
  ry_base_url :: string

datatype target = Intent string | WebApp string

type_synonym redirect = "target \<times> (string \<times> string) list"

datatype callback_reply = Refused int string | Redirected redirect

record apple_form =
  af_state :: string
  af_code :: string
  af_id_token :: string
  af_user :: string
  af_error :: string
  af_error_description :: string

definition appleRedirect :: "relay_cfg \<Rightarrow> string \<Rightarrow> string \<Rightarrow> string \<Rightarrow> string \<Rightarrow> (string \<times> string) list \<Rightarrow> redirect" where
  "appleRedirect cfg app state errCode errDesc extra =
    (let q = (if state \<noteq> '''' then [(''state'', state)] else []);
         q = q @ (if errCode \<noteq> ''''
                  then (''error'', errCode) # (if errDesc \<noteq> '''' then [(''error_description'', errDesc)] else [])
                  else filter (\<lambda>(k, v). v \<noteq> '''') extra)
     in if app \<in> set (ry_relay cfg)
        then (Intent (case map_of (ry_packages cfg) app of None \<Rightarrow> '''' | Some p \<Rightarrow> p), q)
        else (WebApp (trim_slashes (ry_base_url cfg) @ ''/auth/apple/callback''), q))"

text \<open>A form that does not parse still yields the state \<open>ParseForm\<close> has read; \<open>param\<close> is the app of the path.\<close>

definition handleAppleCallback :: "auth_env \<Rightarrow> relay_cfg \<Rightarrow> time \<Rightarrow> string \<Rightarrow> string + apple_form \<Rightarrow> verifiers
    \<Rightarrow> callback_reply \<times> verifiers" where
  "handleAppleCallback env cfg now param form vs =
    (case form of
       Inl state \<Rightarrow> (Redirected (appleRedirect cfg ''auth'' state ''parse_error'' ''failed to parse callback form'' []), vs)
     | Inr f \<Rightarrow>
       (let app = (if param = '''' then ''auth'' else param);
            bounce = (\<lambda>code desc. Redirected (appleRedirect cfg app (af_state f) code desc []))
        in if (case map_of (ry_packages cfg) app of None \<Rightarrow> True | Some p \<Rightarrow> p = '''')
           then (Refused 503 (''apple callback not configured for '' @ app), vs)
           else if af_error f \<noteq> '''' then (bounce (af_error f) (af_error_description f), vs)
           else if af_state f = '''' then (bounce ''missing_state'' '''', vs)
           else if \<not> has_prefix (app @ ''.'') (af_state f) then (bounce ''invalid_state'' '''', vs)
           else if af_id_token f = '''' then (bounce ''missing_id_token'' '''', vs)
           else if map_of (vs_apple_apps vs) app = None then (bounce ''not_configured'' ''no verifier for app'', vs)
           else case verify_with env now (AppleApp app) (af_id_token f) vs of
             (Inl e, vs) \<Rightarrow> (bounce ''invalid_token'' e, vs)
           | (Inr c, vs) \<Rightarrow>
             if af_code f = '''' then (bounce ''missing_code'' '''', vs)
             else if oc_c_hash c \<noteq> '''' \<and> \<not> AppleCHashOK (au_oidc env) (af_code f) (oc_c_hash c)
             then (bounce ''code_mismatch'' '''', vs)
             else if oc_nonce_supported c \<and> oc_nonce c = '''' then (bounce ''missing_nonce'' '''', vs)
             else (Redirected (appleRedirect cfg app (af_state f) '''' ''''
                     [(''code'', af_code f), (''id_token'', af_id_token f), (''user'', af_user f),
                      (''state'', af_state f)]), vs)))"

end
