(* ===== verification/OrgApi.thy ===== *)
theory OrgApi
  imports SignIn Invites Provisioning
begin

text \<open>
  The HTTP handlers of organizations, members, invitations and API keys: \<open>internal/api/orgs.go\<close>,
  \<open>org_views.go\<close>, \<open>public_orgs.go\<close> and \<open>account_invites.go\<close>.  The membership guards are in \<open>Api\<close>, the
  provisioning routes in \<open>Vpn\<close>.

  JSON objects are records whose optional keys are options.  Mail goes to the parameter \<open>me_invite\<close> and, for
  the outcome of an invitation, into a list of sent messages.  Audit records are left out.
\<close>

section \<open>Views\<close>

record org_view =
  ov_name :: string
  ov_slug :: string
  ov_plan :: string
  ov_billing_status :: string
  ov_verification_status :: string
  ov_public_profile_enabled :: bool
  ov_created_at :: time
  ov_updated_at :: time
  ov_id :: "id option"
  ov_owner_user_id :: "id option"
  ov_role :: "string option"
  ov_seat_tier :: "string option"
  ov_has_paid_seat :: "bool option"

definition nonempty :: "string \<Rightarrow> string option" where
  "nonempty x = (if x \<noteq> '''' then Some x else None)"

definition orgResponse :: "org \<Rightarrow> string \<Rightarrow> string \<Rightarrow> bool \<Rightarrow> org_view" where
  "orgResponse x role seatTier privileged = \<lparr>ov_name = o_name x, ov_slug = o_slug x, ov_plan = o_plan x,
     ov_billing_status = o_billing_status x, ov_verification_status = o_verification_status x,
     ov_public_profile_enabled = o_public_profile_enabled x, ov_created_at = o_created_at x,
     ov_updated_at = o_updated_at x,
     ov_id = (if privileged \<or> role \<noteq> '''' then Some (o_id x) else None),
     ov_owner_user_id = (if privileged then Some (o_owner_user_id x) else None),
     ov_role = nonempty role, ov_seat_tier = nonempty seatTier,
     ov_has_paid_seat = (if role \<noteq> '''' then Some (MemberHasPaidSeat role seatTier) else None)\<rparr>"

record org_summary =
  os_id :: "id option"
  os_name :: string
  os_slug :: string
  os_plan :: string
  os_verification_status :: string
  os_public_profile_enabled :: bool
  os_display_name :: string
  os_description :: string
  os_website_url :: string

definition orgSummaryFor :: "db \<Rightarrow> id \<Rightarrow> string \<Rightarrow> bool \<Rightarrow> org_summary option" where
  "orgSummaryFor s orgID callerRole privileged =
    (if orgID = '''' then None
     else case GetOrg s orgID of Inl _ \<Rightarrow> None
     | Inr x \<Rightarrow>
       (let (d, desc, web) = (case GetOrgProfile s orgID of Inl _ \<Rightarrow> ('''', '''', '''')
              | Inr p \<Rightarrow> (op_display_name p, op_description p, op_website_url p))
        in Some \<lparr>os_id = (if privileged \<or> callerRole \<noteq> '''' \<or> IsOrgPrivileged callerRole then Some (o_id x) else None),
             os_name = o_name x, os_slug = o_slug x, os_plan = o_plan x,
             os_verification_status = o_verification_status x,
             os_public_profile_enabled = o_public_profile_enabled x,
             os_display_name = d, os_description = desc, os_website_url = web\<rparr>))"

section \<open>Organizations\<close>

definition handleCreateOrg :: "time \<Rightarrow> fresh_ids \<Rightarrow> caller \<Rightarrow> (string \<times> string) option \<Rightarrow> db \<Rightarrow> org_view resp \<times> db" where
  "handleCreateOrg now fi cl body s =
    (case body of None \<Rightarrow> (Fail 400 ''name is required'', s)
     | Some (name, slug) \<Rightarrow>
       if name = '''' then (Fail 400 ''name is required'', s)
       else (case CreateOrgForUser now fi (cl_user_id cl) name slug s of
          (Inl _, s) \<Rightarrow> (Fail 500 ''failed to create org'', s)
        | (Inr x, s) \<Rightarrow> (Ok 201 (orgResponse x '''' '''' True), s)))"

definition handleListOrgs :: "caller \<Rightarrow> db \<Rightarrow> org_view list resp" where
  "handleListOrgs cl s = Ok 200 (map (\<lambda>(x, role, seat). orgResponse x role seat (IsOrgPrivileged role))
     (ListOrgsForUser s (cl_user_id cl)))"

definition handleGetOrg :: "caller \<Rightarrow> id \<Rightarrow> db \<Rightarrow> org_view resp" where
  "handleGetOrg cl orgID s =
    (case orgMemberWithSeat s cl orgID of Inl f \<Rightarrow> refuse f
     | Inr (role, seat) \<Rightarrow>
       (case GetOrg s orgID of Inl _ \<Rightarrow> Fail 404 ''org not found''
        | Inr x \<Rightarrow> Ok 200 (orgResponse x role seat (IsOrgPrivileged role))))"

definition handlePatchOrg :: "time \<Rightarrow> (nat \<Rightarrow> string) \<Rightarrow> caller \<Rightarrow> id \<Rightarrow> (string option \<times> string option \<times> bool option) option
    \<Rightarrow> db \<Rightarrow> org_view resp \<times> db" where
  "handlePatchOrg now suffix cl orgID body s =
    (case orgPrivileged s cl orgID of Inl f \<Rightarrow> (refuse f, s)
     | Inr _ \<Rightarrow>
       (case body of None \<Rightarrow> (Fail 400 ''invalid body'', s)
        | Some (name, slug, pub) \<Rightarrow>
          (case UpdateOrg now suffix orgID \<lparr>uo_name = name, uo_slug = slug, uo_billing_status = None,
                  uo_public_profile_enabled = pub\<rparr> s of
             (Inl _, s) \<Rightarrow> (Fail 500 ''failed to update org'', s)
           | (Inr x, s) \<Rightarrow>
             (let role = (case MemberRole s (o_id x) (cl_user_id cl) of Inl _ \<Rightarrow> '''' | Inr r \<Rightarrow> r)
              in (Ok 200 (orgResponse x role '''' (IsOrgPrivileged role)), s)))))"

definition handleDeleteOrg :: "caller \<Rightarrow> id \<Rightarrow> db \<Rightarrow> unit resp \<times> db" where
  "handleDeleteOrg cl orgID s =
    (case orgOwner s cl orgID of Some f \<Rightarrow> (refuse f, s)
     | None \<Rightarrow>
       (case DeleteOrg orgID s of
          (Inl e, s) \<Rightarrow> (if e = ErrNotFound then Fail 404 ''org not found'' else Fail 500 ''failed to delete org'', s)
        | (Inr _, s) \<Rightarrow> (Ok 204 (), s)))"

definition handleTransferOwnership :: "time \<Rightarrow> caller \<Rightarrow> id \<Rightarrow> id option \<Rightarrow> db \<Rightarrow> (id \<times> id) resp \<times> db" where
  "handleTransferOwnership now cl orgID body s =
    (case orgOwner s cl orgID of Some f \<Rightarrow> (refuse f, s)
     | None \<Rightarrow>
       (case body of None \<Rightarrow> (Fail 400 ''user_id is required'', s)
        | Some target \<Rightarrow>
          if target = '''' then (Fail 400 ''user_id is required'', s)
          else (case TransferOrgOwnership now orgID (cl_user_id cl) target s of
             (Inl e, s) \<Rightarrow> (if e = ErrNotFound then Fail 400 ''target must be an existing manager''
                           else Fail 500 ''failed to transfer ownership'', s)
           | (Inr _, s) \<Rightarrow> (Ok 200 (orgID, target), s))))"

section \<open>Members\<close>

definition normalizeMemberRole :: "string \<Rightarrow> string" where
  "normalizeMemberRole role =
    (let r = ToLower (TrimSpace role)
     in if r = OrgRoleOwner then OrgRoleOwner
        else if r = OrgRoleNodeOperator \<or> r = ''manager'' then OrgRoleNodeOperator
        else OrgRoleMember)"

fun contains :: "string \<Rightarrow> string \<Rightarrow> bool" where
  "contains [] p = (p = [])"
| "contains (c # cs) p = (has_prefix p (c # cs) \<or> contains cs p)"

definition isManagerSeatErr :: "err \<Rightarrow> bool" where
  "isManagerSeatErr e \<longleftrightarrow> contains (error_text e) ''no manager seats'' \<or> contains (error_text e) ''manager requires''"

definition seat_failure :: "string \<Rightarrow> err \<Rightarrow> 'a resp" where
  "seat_failure msg e = (if isManagerSeatErr e then Fail 400 (error_text e) else Fail 500 msg)"

definition handleListMembers :: "caller \<Rightarrow> id \<Rightarrow> db \<Rightarrow> (member \<times> user) list resp" where
  "handleListMembers cl orgID s =
    (case orgMember s cl orgID of Inl f \<Rightarrow> refuse f | Inr _ \<Rightarrow> Ok 200 (ListMembers s orgID))"

definition handleAddMember :: "time \<Rightarrow> id \<Rightarrow> id \<Rightarrow> caller \<Rightarrow> id \<Rightarrow> (string \<times> string \<times> string) option \<Rightarrow> db
    \<Rightarrow> (id \<times> string \<times> string) resp \<times> db" where
  "handleAddMember now newUser newMember cl orgID body s =
    (case orgPrivileged s cl orgID of Inl f \<Rightarrow> (refuse f, s)
     | Inr _ \<Rightarrow>
       (case body of None \<Rightarrow> (Fail 400 ''wallet_address is required'', s)
        | Some (wallet, chain, reqRole) \<Rightarrow>
          if wallet = '''' then (Fail 400 ''wallet_address is required'', s)
          else if normalizeMemberRole reqRole = OrgRoleOwner
          then (Fail 400 ''use transfer-ownership to change owner'', s)
          else (case UpsertUserByWallet now newUser wallet chain '''' s of
             (Inl _, s) \<Rightarrow> (Fail 500 ''failed to resolve user'', s)
           | (Inr u, s) \<Rightarrow>
             (case AddMember now newMember orgID (us_id u) (normalizeMemberRole reqRole) s of
                (Inl e, s) \<Rightarrow> (seat_failure ''failed to add member'' e, s)
              | (Inr _, s) \<Rightarrow> (Ok 201 (us_id u, us_wallet_address u, normalizeMemberRole reqRole), s)))))"

text \<open>The reply: the changed row, or the user id and role of the route that addresses members by user.\<close>

definition patch_by_user :: "time \<Rightarrow> id \<Rightarrow> id \<Rightarrow> id \<Rightarrow> string \<Rightarrow> db \<Rightarrow> (member + id \<times> string) resp \<times> db" where
  "patch_by_user now newMember orgID memberKey role s =
    (case MemberRole s orgID memberKey of
       Inl e \<Rightarrow> (if e = ErrNotFound then Fail 404 ''member not found'' else Fail 500 ''membership check failed'', s)
     | Inr curRole \<Rightarrow>
       if curRole = OrgRoleOwner then (Fail 403 ''cannot change owner role here'', s)
       else (case AddMember now newMember orgID memberKey role s of
          (Inl e, s) \<Rightarrow> (seat_failure ''failed to update member'' e, s)
        | (Inr _, s) \<Rightarrow> (Ok 200 (Inr (memberKey, role)), s)))"

definition handlePatchMember :: "time \<Rightarrow> id \<Rightarrow> caller \<Rightarrow> id \<Rightarrow> id \<Rightarrow> (string \<times> string) option \<Rightarrow> db
    \<Rightarrow> (member + id \<times> string) resp \<times> db" where
  "handlePatchMember now newMember cl orgID memberKey body s =
    (case orgPrivileged s cl orgID of Inl f \<Rightarrow> (refuse f, s)
     | Inr _ \<Rightarrow>
       (case body of None \<Rightarrow> (Fail 400 ''invalid body'', s)
        | Some (reqRole, seatTier) \<Rightarrow>
          if reqRole = '''' \<and> seatTier = '''' then (Fail 400 ''role or seat_tier is required'', s)
          else if reqRole = OrgRoleOwner then (Fail 400 ''use transfer-ownership to change owner'', s)
          else (case PatchMember now orgID memberKey reqRole seatTier s of
             (Inr m, s) \<Rightarrow> (Ok 200 (Inl m), s)
           | (Inl e, s) \<Rightarrow>
             if isManagerSeatErr e then (Fail 400 (error_text e), s)
             else if seatTier \<noteq> '''' then (Fail 400 ''seat_tier updates require member id'', s)
             else patch_by_user now newMember orgID memberKey (normalizeMemberRole reqRole) s)))"

definition handleRemoveMember :: "time \<Rightarrow> caller \<Rightarrow> id \<Rightarrow> id \<Rightarrow> db \<Rightarrow> unit resp \<times> db" where
  "handleRemoveMember now cl orgID memberKey s =
    (case orgPrivileged s cl orgID of Inl f \<Rightarrow> (refuse f, s)
     | Inr _ \<Rightarrow>
       (case RemoveMemberByID now orgID memberKey s of
          (Inr _, s) \<Rightarrow> (Ok 204 (), s)
        | (Inl _, s) \<Rightarrow>
          (case RemoveMember now orgID memberKey s of
             (Inl e, s) \<Rightarrow> (if e = ErrNotFound then Fail 404 ''member not found'' else Fail 500 ''failed to remove member'', s)
           | (Inr _, s) \<Rightarrow> (Ok 204 (), s))))"

section \<open>Seats\<close>

definition handleAssignSeat :: "time \<Rightarrow> caller \<Rightarrow> id \<Rightarrow> (id \<times> string) option \<Rightarrow> db \<Rightarrow> (id \<times> string) resp \<times> db" where
  "handleAssignSeat now cl orgID body s =
    (case orgPrivileged s cl orgID of Inl f \<Rightarrow> (refuse f, s)
     | Inr _ \<Rightarrow>
       (case body of None \<Rightarrow> (Fail 400 ''user_id and seat_tier are required'', s)
        | Some (uid, seatTier) \<Rightarrow>
          if uid = '''' \<or> seatTier = '''' then (Fail 400 ''user_id and seat_tier are required'', s)
          else (case AssignSeat now orgID uid seatTier s of
             (Inl e, s) \<Rightarrow> (if e = ErrNotFound then Fail 404 ''member not found'' else Fail 400 (error_text e), s)
           | (Inr _, s) \<Rightarrow> (Ok 200 (uid, seatTier), s))))"

definition handleRevokeSeat :: "time \<Rightarrow> caller \<Rightarrow> id \<Rightarrow> id option \<Rightarrow> db \<Rightarrow> (id \<times> string) resp \<times> db" where
  "handleRevokeSeat now cl orgID body s =
    (case orgPrivileged s cl orgID of Inl f \<Rightarrow> (refuse f, s)
     | Inr _ \<Rightarrow>
       (case body of None \<Rightarrow> (Fail 400 ''user_id is required'', s)
        | Some uid \<Rightarrow>
          if uid = '''' then (Fail 400 ''user_id is required'', s)
          else (case RevokeSeat now orgID uid s of
             (Inl e, s) \<Rightarrow> (if e = ErrNotFound then Fail 404 ''member not found'' else Fail 400 (error_text e), s)
           | (Inr _, s) \<Rightarrow> (Ok 200 (uid, SeatTierFree), s))))"

definition handleListSeats :: "caller \<Rightarrow> id \<Rightarrow> db \<Rightarrow> ((member \<times> user) list \<times> int \<times> int option) resp" where
  "handleListSeats cl orgID s =
    (case orgMember s cl orgID of Inl f \<Rightarrow> refuse f
     | Inr _ \<Rightarrow> Ok 200 (ListMembers s orgID, CountPaidSeatsUsed s orgID,
         case GetOrgEntitlements s orgID of Inl _ \<Rightarrow> None | Inr e \<Rightarrow> Some (oe_paid_seats_included e)))"

section \<open>Inviting\<close>

text \<open>The mail of an invitation: name of the organization, inviter, role, link and logo.\<close>

record invite_mail =
  im_org_name :: string
  im_inviter :: string
  im_role :: string
  im_url :: string
  im_logo :: string

record mail_env =
  me_enabled :: bool
  me_invite :: "string \<Rightarrow> invite_mail \<Rightarrow> bool"
  me_base_url :: string

definition humanRole :: "string \<Rightarrow> string" where
  "humanRole role =
    (let r = ToLower (TrimSpace role)
     in if r = OrgRoleNodeOperator then ''Manager'' else if r = OrgRoleMember then ''Member''
        else if role = '''' then ''Member'' else role)"

definition userDisplayLabel :: "db \<Rightarrow> id \<Rightarrow> string" where
  "userDisplayLabel s userID =
    (case (if userID = '''' then Inl ErrNotFound else GetUser s userID) of Inl _ \<Rightarrow> ''''
     | Inr u \<Rightarrow>
       (let n = TrimSpace (us_name u); w = TrimSpace (us_wallet_address u)
        in if n \<noteq> '''' then n
           else if us_email_verified u \<and> TrimSpace (us_email u) \<noteq> '''' then TrimSpace (us_email u)
           else short_wallet w))"

record invite_req =
  iq_wallet :: string
  iq_email :: string
  iq_chain :: string
  iq_role :: string
  iq_seat_tier :: string

record invite_ids =
  ii_member_email :: id
  ii_invite :: id
  ii_user :: id
  ii_member_wallet :: id

text \<open>The wallet shown with a member, and the reply: the row with email and name, or the invited address.\<close>

datatype invite_reply =
    InvitedMember member string string string bool  \<comment> \<open>wallet, email, name, mail sent\<close>
  | InvitedEmail string bool

definition invite_by_email :: "time \<Rightarrow> invite_ids \<Rightarrow> id \<Rightarrow> string \<Rightarrow> string \<Rightarrow> string \<Rightarrow> id \<Rightarrow> db
    \<Rightarrow> (invite_reply resp + (member \<times> string) option) \<times> db" where
  "invite_by_email now ids orgID email role seatTier inviterID s =
    (case EmailOwner s email of
       Inr ownerID \<Rightarrow>
         (case InviteMember now (ii_member_email ids) orgID ownerID role seatTier s of
            (Inl e, s) \<Rightarrow> (Inl (seat_failure ''failed to invite member'' e), s)
          | (Inr m, s) \<Rightarrow> (Inr (Some (m, '''')), s))
     | Inl e \<Rightarrow>
         if e \<noteq> ErrNotFound then (Inl (Fail 500 ''failed to resolve invitee''), s)
         else (case CreateOrgInvite now (ii_invite ids) orgID email role seatTier inviterID s of
            (Inl _, s) \<Rightarrow> (Inl (Fail 500 ''failed to create invite''), s)
          | (Inr _, s) \<Rightarrow> (Inr None, s)))"

definition invite_by_wallet :: "time \<Rightarrow> invite_ids \<Rightarrow> id \<Rightarrow> string \<Rightarrow> string \<Rightarrow> string \<Rightarrow> string \<Rightarrow> db
    \<Rightarrow> (invite_reply resp + member \<times> user) \<times> db" where
  "invite_by_wallet now ids orgID wallet chain role seatTier s =
    (case UpsertUserByWallet now (ii_user ids) wallet chain '''' s of
       (Inl _, s) \<Rightarrow> (Inl (Fail 500 ''failed to resolve user''), s)
     | (Inr u, s) \<Rightarrow>
       (case InviteMember now (ii_member_wallet ids) orgID (us_id u) role seatTier s of
          (Inl e, s) \<Rightarrow> (Inl (seat_failure ''failed to invite member'' e), s)
        | (Inr m, s) \<Rightarrow> (Inr (m, u), s)))"

definition invite_answer :: "mail_env \<Rightarrow> id \<Rightarrow> string \<Rightarrow> string \<Rightarrow> id \<Rightarrow> string \<Rightarrow> (member \<times> string) option \<Rightarrow> db
    \<Rightarrow> invite_reply resp" where
  "invite_answer me orgID orgName role inviterID inviteEmail mem s =
    (let mail = inviteEmail \<noteq> '''' \<and> me_enabled me;
         logo = (case GetOrgProfile s orgID of Inl _ \<Rightarrow> '''' | Inr p \<Rightarrow> TrimSpace (op_logo_url p))
     in if mail \<and> \<not> me_invite me inviteEmail \<lparr>im_org_name = orgName, im_inviter = userDisplayLabel s inviterID,
             im_role = humanRole role, im_url = trim_slashes (me_base_url me) @ ''/notifications/invite/'' @ orgID,
             im_logo = logo\<rparr>
        then Fail 502 ''failed to send invite email''
        else case mem of None \<Rightarrow> Ok 201 (InvitedEmail inviteEmail mail)
        | Some (m, w) \<Rightarrow>
          (case GetUser s (m_user_id m) of
             Inl _ \<Rightarrow> Ok 201 (InvitedMember m w '''' '''' mail)
           | Inr u \<Rightarrow> Ok 201 (InvitedMember m (if w = '''' then us_wallet_address u else w) (us_email u) (us_name u) mail)))"

definition invite_both :: "time \<Rightarrow> invite_ids \<Rightarrow> mail_env \<Rightarrow> id \<Rightarrow> id \<Rightarrow> invite_req \<Rightarrow> string option \<Rightarrow> string \<Rightarrow> string
    \<Rightarrow> db \<Rightarrow> invite_reply resp \<times> db" where
  "invite_both now ids me orgID inviterID req email role orgName s =
    (let wallet = TrimSpace (iq_wallet req)
     in case (case email of None \<Rightarrow> (Inr None, s)
              | Some e \<Rightarrow> invite_by_email now ids orgID e role (iq_seat_tier req) inviterID s) of
          (Inl r, s) \<Rightarrow> (r, s)
        | (Inr mem, s) \<Rightarrow>
          (let inviteEmail = (case email of None \<Rightarrow> '''' | Some e \<Rightarrow> e)
           in if wallet = '''' then (invite_answer me orgID orgName role inviterID inviteEmail mem s, s)
              else case invite_by_wallet now ids orgID wallet (iq_chain req) role (iq_seat_tier req) s of
                (Inl r, s) \<Rightarrow> (r, s)
              | (Inr (m, u), s) \<Rightarrow>
                (let inviteEmail = (if us_email_verified u \<and> us_email u \<noteq> '''' then us_email u else inviteEmail)
                 in (invite_answer me orgID orgName role inviterID inviteEmail (Some (m, us_wallet_address u)) s, s))))"

definition handleInviteMember :: "time \<Rightarrow> invite_ids \<Rightarrow> mail_env \<Rightarrow> caller \<Rightarrow> id \<Rightarrow> invite_req option \<Rightarrow> db
    \<Rightarrow> invite_reply resp \<times> db" where
  "handleInviteMember now ids me cl orgID body s =
    (case orgPrivileged s cl orgID of Inl f \<Rightarrow> (refuse f, s)
     | Inr _ \<Rightarrow>
       (case body of None \<Rightarrow> (Fail 400 ''invalid body'', s)
        | Some req \<Rightarrow>
          (let email = normalizeEmail (iq_email req); role = normalizeMemberRole (iq_role req)
           in if TrimSpace (iq_wallet req) = '''' \<and> email = None
              then (Fail 400 ''wallet_address or email is required'', s)
              else if role = OrgRoleOwner then (Fail 400 ''use transfer-ownership to change owner'', s)
              else (case OrgNameForInvite s orgID of
                 Inl _ \<Rightarrow> (Fail 500 ''failed to load org'', s)
               | Inr orgName \<Rightarrow> invite_both now ids me orgID (cl_user_id cl) req email role orgName s))))"

definition handleListOrgInvites :: "caller \<Rightarrow> id \<Rightarrow> db \<Rightarrow> org_invite list resp" where
  "handleListOrgInvites cl orgID s =
    (case orgPrivileged s cl orgID of Inl f \<Rightarrow> refuse f | Inr _ \<Rightarrow> Ok 200 (ListPendingOrgInvites s orgID))"

definition handleRevokeOrgInvite :: "caller \<Rightarrow> id \<Rightarrow> id \<Rightarrow> db \<Rightarrow> unit resp \<times> db" where
  "handleRevokeOrgInvite cl orgID inviteID s =
    (case orgPrivileged s cl orgID of Inl f \<Rightarrow> (refuse f, s)
     | Inr _ \<Rightarrow>
       (case RevokeOrgInvite orgID inviteID s of
          (Inl e, s) \<Rightarrow> (if e = ErrNotFound then Fail 404 ''invite not found'' else Fail 500 ''failed to revoke invite'', s)
        | (Inr _, s) \<Rightarrow> (Ok 204 (), s)))"

section \<open>The invitations of the caller\<close>

definition verifiedEmail :: "user \<Rightarrow> string" where
  "verifiedEmail u = (if us_email_verified u then TrimSpace (us_email u) else '''')"

definition account :: "caller \<Rightarrow> db \<Rightarrow> failure + user" where
  "account cl s =
    (case GetUser s (cl_user_id cl) of
       Inl e \<Rightarrow> Inl (if e = ErrNotFound then (404, ''user not found'') else (500, ''failed to load user''))
     | Inr u \<Rightarrow> Inr u)"

definition handleListAccountOrgInvites :: "caller \<Rightarrow> db \<Rightarrow> user_org_invite list resp" where
  "handleListAccountOrgInvites cl s =
    (case account cl s of Inl f \<Rightarrow> refuse f
     | Inr u \<Rightarrow> (case ListUserOrgInvites s (us_id u) (verifiedEmail u) of
          Inl _ \<Rightarrow> Fail 500 ''failed to list invites'' | Inr ivs \<Rightarrow> Ok 200 ivs))"

definition handleGetAccountOrgInvite :: "caller \<Rightarrow> id \<Rightarrow> db \<Rightarrow> user_org_invite resp" where
  "handleGetAccountOrgInvite cl orgID s =
    (case account cl s of Inl f \<Rightarrow> refuse f
     | Inr u \<Rightarrow> (case GetUserOrgInvite s (us_id u) orgID (verifiedEmail u) of
          Inl e \<Rightarrow> if e = ErrNotFound then Fail 404 ''invite not found'' else Fail 500 ''failed to load invite''
        | Inr iv \<Rightarrow> Ok 200 iv))"

text \<open>Who hears of the outcome: the invitee, the inviter and the owner, each address once.\<close>

definition outcome_mails :: "mail_env \<Rightarrow> invite_notification \<Rightarrow> (string \<times> bool) list" where
  "outcome_mails me c =
    (if \<not> me_enabled me then []
     else (if nc_invitee_email c \<noteq> '''' then [(nc_invitee_email c, False)] else [])
       @ (if nc_inviter_email c \<noteq> '''' \<and> \<not> EqualFold (nc_inviter_email c) (nc_invitee_email c)
          then [(nc_inviter_email c, True)] else [])
       @ (if nc_owner_email c \<noteq> '''' \<and> \<not> EqualFold (nc_owner_email c) (nc_invitee_email c)
             \<and> \<not> EqualFold (nc_owner_email c) (nc_inviter_email c)
          then [(nc_owner_email c, True)] else []))"

type_synonym mails = "(string \<times> bool) list"

definition settle_invite :: "mail_env \<Rightarrow> string \<Rightarrow> (user \<Rightarrow> db \<Rightarrow> unit res \<times> db) \<Rightarrow> 'a resp \<Rightarrow> caller \<Rightarrow> id \<Rightarrow> db
    \<Rightarrow> 'a resp \<times> db \<times> mails" where
  "settle_invite me failed act reply cl orgID s =
    (case account cl s of Inl f \<Rightarrow> (refuse f, s, [])
     | Inr u \<Rightarrow>
       (case InviteNotificationContextForUser s (us_id u) orgID (verifiedEmail u) of
          Inl e \<Rightarrow> (if e = ErrNotFound then Fail 404 ''invite not found'' else Fail 500 ''failed to load invite'', s, [])
        | Inr c \<Rightarrow>
          (case act u s of (Inl _, s) \<Rightarrow> (Fail 500 failed, s, [])
           | (Inr _, s) \<Rightarrow> (reply, s, outcome_mails me c))))"

definition handleAcceptAccountOrgInvite :: "mail_env \<Rightarrow> time \<Rightarrow> id \<Rightarrow> caller \<Rightarrow> id \<Rightarrow> db \<Rightarrow> (string \<times> id) resp \<times> db \<times> mails" where
  "handleAcceptAccountOrgInvite me now newID cl orgID s =
    settle_invite me ''failed to accept invite''
      (\<lambda>u. AcceptUserOrgInvite now newID (us_id u) orgID (verifiedEmail u)) (Ok 200 (''active'', orgID)) cl orgID s"

definition handleDeclineAccountOrgInvite :: "mail_env \<Rightarrow> time \<Rightarrow> caller \<Rightarrow> id \<Rightarrow> db \<Rightarrow> unit resp \<times> db \<times> mails" where
  "handleDeclineAccountOrgInvite me now cl orgID s =
    settle_invite me ''failed to decline invite''
      (\<lambda>u. DeclineUserOrgInvite now (us_id u) orgID (verifiedEmail u)) (Ok 204 ()) cl orgID s"

section \<open>API keys\<close>

definition handleListAPIKeys :: "caller \<Rightarrow> id \<Rightarrow> db \<Rightarrow> api_key list resp" where
  "handleListAPIKeys cl orgID s =
    (case orgPrivileged s cl orgID of Inl f \<Rightarrow> refuse f | Inr _ \<Rightarrow> Ok 200 (ListAPIKeys s orgID))"

definition handleCreateAPIKey :: "(string \<Rightarrow> string) \<Rightarrow> time \<Rightarrow> id \<Rightarrow> string \<Rightarrow> caller \<Rightarrow> id \<Rightarrow> string option \<Rightarrow> db
    \<Rightarrow> (string \<times> api_key) resp \<times> db" where
  "handleCreateAPIKey sha now newID raw cl orgID body s =
    (case orgOwner s cl orgID of Some f \<Rightarrow> (refuse f, s)
     | None \<Rightarrow>
       (case CreateAPIKey sha now newID raw orgID (case body of None \<Rightarrow> '''' | Some n \<Rightarrow> n) s of
          (Inl _, s) \<Rightarrow> (Fail 500 ''failed to create key'', s)
        | (Inr k, s) \<Rightarrow> (Ok 201 k, s)))"

definition handleRevokeAPIKey :: "time \<Rightarrow> caller \<Rightarrow> id \<Rightarrow> id \<Rightarrow> db \<Rightarrow> unit resp \<times> db" where
  "handleRevokeAPIKey now cl orgID keyID s =
    (case orgOwner s cl orgID of Some f \<Rightarrow> (refuse f, s)
     | None \<Rightarrow>
       (case RevokeAPIKey now orgID keyID s of
          (Inl e, s) \<Rightarrow> (if e = ErrNotFound then Fail 404 ''key not found'' else Fail 500 ''failed to revoke key'', s)
        | (Inr _, s) \<Rightarrow> (Ok 204 (), s)))"

section \<open>Usage, entitlements and profiles\<close>

record usage_payload =
  up_window_days :: int
  up_clients :: int
  up_api_calls :: int
  up_bandwidth_rx :: int
  up_bandwidth_tx :: int
  up_bandwidth_total :: int
  up_org :: "id option"

definition usage_days :: "string \<Rightarrow> int" where
  "usage_days query = (case ParseInt query of None \<Rightarrow> 30 | Some v \<Rightarrow> if v > 0 \<and> v \<le> 365 then v else 30)"

definition orgUsagePayload :: "time \<Rightarrow> db \<Rightarrow> id \<Rightarrow> string \<Rightarrow> string \<Rightarrow> usage_payload" where
  "orgUsagePayload now s orgID role query =
    (let days = usage_days query; since = now - days * 86400;
         (rx, tx) = (case OrgBandwidth s orgID since of Inl _ \<Rightarrow> (0, 0) | Inr b \<Rightarrow> b)
     in \<lparr>up_window_days = days, up_clients = int (length (OrgClients s orgID)),
         up_api_calls = OrgAPICalls s orgID since, up_bandwidth_rx = rx, up_bandwidth_tx = tx,
         up_bandwidth_total = rx + tx, up_org = (if IsOrgPrivileged role then Some orgID else None)\<rparr>)"

definition handleOrgUsage :: "time \<Rightarrow> caller \<Rightarrow> id \<Rightarrow> string \<Rightarrow> db \<Rightarrow> usage_payload resp" where
  "handleOrgUsage now cl orgID query s =
    (case orgMember s cl orgID of Inl f \<Rightarrow> refuse f | Inr role \<Rightarrow> Ok 200 (orgUsagePayload now s orgID role query))"

text \<open>On the API-key routes no user is in the context.\<close>

definition handleOrgListClients :: "id \<Rightarrow> db \<Rightarrow> client list resp" where
  "handleOrgListClients orgID s = Ok 200 (OrgClients s orgID)"

definition handleOrgSelfUsage :: "time \<Rightarrow> id \<Rightarrow> string \<Rightarrow> db \<Rightarrow> usage_payload resp" where
  "handleOrgSelfUsage now orgID query s =
    (let role = (case MemberRole s orgID '''' of Inl _ \<Rightarrow> '''' | Inr r \<Rightarrow> r)
     in Ok 200 (orgUsagePayload now s orgID role query))"

definition handleGetOrgEntitlements :: "caller \<Rightarrow> id \<Rightarrow> db \<Rightarrow> org_entitlement resp" where
  "handleGetOrgEntitlements cl orgID s =
    (case orgMember s cl orgID of Inl f \<Rightarrow> refuse f
     | Inr _ \<Rightarrow> (case GetOrgEntitlements s orgID of
          Inl e \<Rightarrow> if e = ErrNotFound then Fail 404 ''entitlements not found'' else Fail 500 ''failed to load entitlements''
        | Inr x \<Rightarrow> Ok 200 x))"

definition setIfNonEmpty :: "string \<Rightarrow> string \<Rightarrow> (string \<times> string) list" where
  "setIfNonEmpty key val = (if val \<noteq> '''' then [(key, val)] else [])"

text \<open>The row, its times, and the keys whose column is not empty.\<close>

definition orgProfileResponse :: "org_profile \<Rightarrow> id \<times> time \<times> time \<times> (string \<times> string) list" where
  "orgProfileResponse p = (op_org_id p, op_created_at p, op_updated_at p,
     setIfNonEmpty ''legal_name'' (op_legal_name p) @ setIfNonEmpty ''display_name'' (op_display_name p)
     @ setIfNonEmpty ''description'' (op_description p) @ setIfNonEmpty ''logo_url'' (op_logo_url p)
     @ setIfNonEmpty ''website_url'' (op_website_url p) @ setIfNonEmpty ''public_email'' (op_public_email p)
     @ setIfNonEmpty ''billing_email'' (op_billing_email p) @ setIfNonEmpty ''support_email'' (op_support_email p)
     @ setIfNonEmpty ''country'' (op_country p) @ setIfNonEmpty ''timezone'' (op_timezone p))"

definition handleGetOrgProfile :: "caller \<Rightarrow> id \<Rightarrow> db \<Rightarrow> (id \<times> time \<times> time \<times> (string \<times> string) list) resp" where
  "handleGetOrgProfile cl orgID s =
    (case orgMember s cl orgID of Inl f \<Rightarrow> refuse f
     | Inr _ \<Rightarrow> (case GetOrgProfile s orgID of
          Inl e \<Rightarrow> if e = ErrNotFound then Fail 404 ''profile not found'' else Fail 500 ''failed to load profile''
        | Inr p \<Rightarrow> Ok 200 (orgProfileResponse p)))"

definition handlePatchOrgProfile :: "time \<Rightarrow> caller \<Rightarrow> id \<Rightarrow> update_profile_input option \<Rightarrow> db
    \<Rightarrow> (id \<times> time \<times> time \<times> (string \<times> string) list) resp \<times> db" where
  "handlePatchOrgProfile now cl orgID body s =
    (case orgPrivileged s cl orgID of Inl f \<Rightarrow> (refuse f, s)
     | Inr _ \<Rightarrow>
       (case body of None \<Rightarrow> (Fail 400 ''invalid body'', s)
        | Some req \<Rightarrow>
          (case UpdateOrgProfile now orgID req s of
             (Inl e, s) \<Rightarrow> (if e = ErrNotFound then Fail 404 ''profile not found'' else Fail 500 ''failed to update profile'', s)
           | (Inr p, s) \<Rightarrow> (Ok 200 (orgProfileResponse p), s))))"

section \<open>Public profiles\<close>

definition handlePublicOrgBySlug :: "string \<Rightarrow> db \<Rightarrow> public_org_profile resp" where
  "handlePublicOrgBySlug slug s =
    (case GetPublicOrgBySlug s slug of
       Inl e \<Rightarrow> if e = ErrNotFound then Fail 404 ''public org not found'' else Fail 500 ''failed to load public org''
     | Inr p \<Rightarrow> Ok 200 p)"

definition handleOrgInviteBySlug :: "string \<Rightarrow> db \<Rightarrow> (id \<times> string \<times> string) resp" where
  "handleOrgInviteBySlug slug s =
    (case GetOrgBySlug s slug of
       Inl e \<Rightarrow> if e = ErrNotFound then Fail 404 ''org not found'' else Fail 500 ''failed to load org''
     | Inr x \<Rightarrow> Ok 200 (o_id x, o_name x, o_slug x))"

definition handleGetOrgPublicProfile :: "id \<Rightarrow> db \<Rightarrow> public_org_profile resp" where
  "handleGetOrgPublicProfile orgID s =
    (case GetOrg s orgID of
       Inl e \<Rightarrow> if e = ErrNotFound then Fail 404 ''org not found'' else Fail 500 ''failed to load org''
     | Inr x \<Rightarrow>
       if \<not> o_public_profile_enabled x then Fail 404 ''public profile disabled''
       else (case GetOrgProfile s orgID of
          Inl e \<Rightarrow> if e = ErrNotFound then Fail 404 ''profile not found'' else Fail 500 ''failed to load profile''
        | Inr p \<Rightarrow> Ok 200 (public_profile x p)))"

text \<open>Only the public columns are shown.\<close>

definition public_columns :: "org_profile \<Rightarrow> (string \<times> string) list" where
  "public_columns p = [(''display_name'', op_display_name p), (''description'', op_description p),
     (''logo_url'', op_logo_url p), (''website_url'', op_website_url p), (''public_email'', op_public_email p),
     (''country'', op_country p)]"

definition handlePatchOrgPublicProfile :: "time \<Rightarrow> caller \<Rightarrow> id \<Rightarrow> update_public_input option \<Rightarrow> db
    \<Rightarrow> (string \<times> string) list resp \<times> db" where
  "handlePatchOrgPublicProfile now cl orgID body s =
    (case orgPrivileged s cl orgID of Inl f \<Rightarrow> (refuse f, s)
     | Inr _ \<Rightarrow>
       (case body of None \<Rightarrow> (Fail 400 ''invalid body'', s)
        | Some req \<Rightarrow>
          (case UpdatePublicOrgProfile now orgID req s of
             (Inl e, s) \<Rightarrow> (if e = ErrNotFound then Fail 404 ''profile not found''
                           else Fail 500 ''failed to update public profile'', s)
           | (Inr p, s) \<Rightarrow>
             (case SetOrgPublicProfileEnabled now orgID True s of
                (Inl _, s) \<Rightarrow> (Fail 500 ''failed to enable public profile'', s)
              | (Inr _, s) \<Rightarrow> (Ok 200 (public_columns p), s)))))"

section \<open>Administration\<close>

definition pagination :: "string \<Rightarrow> string \<Rightarrow> int \<times> int" where
  "pagination limitQuery offsetQuery =
    ((case ParseInt limitQuery of None \<Rightarrow> 50 | Some v \<Rightarrow> if v > 0 \<and> v \<le> 200 then v else 50),
     (case ParseInt offsetQuery of None \<Rightarrow> 0 | Some v \<Rightarrow> if v \<ge> 0 then v else 0))"

definition handleAdminOrgs :: "string \<Rightarrow> string \<Rightarrow> db \<Rightarrow> (org_view list \<times> int \<times> int) resp" where
  "handleAdminOrgs limitQuery offsetQuery s =
    (let (limit, off) = pagination limitQuery offsetQuery
     in Ok 200 (map (\<lambda>x. orgResponse x '''' '''' True) (ListOrgs s limit off), limit, off))"

definition handleAdminOrgUsage :: "time \<Rightarrow> id \<Rightarrow> string \<Rightarrow> db \<Rightarrow> usage_payload resp" where
  "handleAdminOrgUsage now orgID query s = Ok 200 (orgUsagePayload now s orgID OrgRoleOwner query)"

definition admin_verify :: "time \<Rightarrow> id \<Rightarrow> string option \<Rightarrow> db \<Rightarrow> failure option \<times> db" where
  "admin_verify now orgID st s =
    (case st of None \<Rightarrow> (None, s)
     | Some st \<Rightarrow>
       (case SetOrgVerificationStatus now orgID st s of
          (Inl e, s) \<Rightarrow> (Some (if e = ErrNotFound then (404, ''org not found'') else (400, error_text e)), s)
        | (Inr _, s) \<Rightarrow> (None, s)))"

definition admin_plan :: "time \<Rightarrow> (db \<Rightarrow> id) \<Rightarrow> (db \<Rightarrow> string) \<Rightarrow> provisioning_config \<Rightarrow> id \<Rightarrow> string option \<Rightarrow> db
    \<Rightarrow> failure option \<times> db" where
  "admin_plan now uuid nodeName cfg orgID plan s =
    (case plan of None \<Rightarrow> (None, s)
     | Some plan \<Rightarrow>
       (case SetOrgPlanAndProvision now uuid nodeName orgID plan cfg s of
          (Inl e, s) \<Rightarrow> (Some (if e = ErrNotFound then (404, ''org not found'') else (400, error_text e)), s)
        | (Inr _, s) \<Rightarrow> (None, s)))"

text \<open>The body: verification status and plan.\<close>

definition handleAdminPatchOrg :: "time \<Rightarrow> (db \<Rightarrow> id) \<Rightarrow> (db \<Rightarrow> string) \<Rightarrow> provisioning_config \<Rightarrow> id
    \<Rightarrow> (string option \<times> string option) option \<Rightarrow> db \<Rightarrow> org_view resp \<times> db" where
  "handleAdminPatchOrg now uuid nodeName cfg orgID body s =
    (case body of None \<Rightarrow> (Fail 400 ''invalid body'', s)
     | Some (st, plan) \<Rightarrow>
       if st = None \<and> plan = None then (Fail 400 ''verification_status or plan is required'', s)
       else (case admin_verify now orgID st s of (Some f, s) \<Rightarrow> (refuse f, s)
        | (None, s) \<Rightarrow>
          (case admin_plan now uuid nodeName cfg orgID plan s of (Some f, s) \<Rightarrow> (refuse f, s)
           | (None, s) \<Rightarrow>
             (case GetOrg s orgID of Inl _ \<Rightarrow> (Fail 500 ''failed to load org'', s)
              | Inr x \<Rightarrow> (Ok 200 (orgResponse x '''' '''' True), s)))))"

end
