(* ===== verification/AdminApi.thy ===== *)
theory AdminApi
  imports OrgApi
begin

text \<open>
  The remaining handlers: rank, perks, leaderboard and activity (\<open>rank.go\<close>, \<open>perks.go\<close>, \<open>leaderboard.go\<close>,
  \<open>activity.go\<close>), the entitlement view of the retired subscriptions (\<open>subscriptions.go\<close>), administration
  (\<open>admin.go\<close>, \<open>settings.go\<close>) and the node views (\<open>nodes.go\<close>, \<open>operator.go\<close>), all in \<open>internal/api\<close>.

  Response caches are left out, and so are metrics.
\<close>

section \<open>Rank\<close>

definition tierNames :: "string list" where
  "tierNames = [''Newcomer'', ''Connected'', ''Contributor'', ''Guardian'', ''Architect'']"

definition tierName :: "int \<Rightarrow> string" where
  "tierName tier = (if tier \<ge> 0 \<and> tier < int (length tierNames) then tierNames ! nat tier
     else ''Tier '' @ dec_int tier)"

record rank_view =
  rk_xp_earned :: int
  rk_xp_claimed :: int
  rk_xp_claimable :: int
  rk_tier :: int
  rk_tier_name :: string
  rk_breakdown :: "(string \<times> int) list"
  rk_next_tier_at :: "int option"

definition max64 :: "int \<Rightarrow> int \<Rightarrow> int" where "max64 a b = (if a > b then a else b)"

text \<open>The first threshold above the points earned, in the order they are configured.\<close>

definition next_tier_at :: "int \<Rightarrow> int list \<Rightarrow> int option" where
  "next_tier_at earned thresholds = find (\<lambda>t. t > earned) thresholds"

definition handleRankMe :: "int list \<Rightarrow> caller \<Rightarrow> db \<Rightarrow> rank_view resp" where
  "handleRankMe thr cl s =
    (case UserXP s (cl_user_id cl) of Inl _ \<Rightarrow> Fail 500 ''failed to load rank''
     | Inr (earned, claimed, tier) \<Rightarrow>
       Ok 200 \<lparr>rk_xp_earned = earned, rk_xp_claimed = claimed,
         rk_xp_claimable = max64 (wrap64 (earned - claimed)) 0, rk_tier = tier, rk_tier_name = tierName tier,
         rk_breakdown = XPBreakdown s (cl_user_id cl), rk_next_tier_at = next_tier_at earned (TierThresholds thr)\<rparr>)"

section \<open>Perks\<close>

definition validPerkTypes :: "string list" where
  "validPerkTypes = [''nft'', ''xp'', ''free_days'', ''node_pool'']"

definition handleListPerks :: "caller \<Rightarrow> db \<Rightarrow> (int \<times> (perk \<times> bool \<times> bool) list) resp" where
  "handleListPerks cl s =
    (let tier = (case UserXP s (cl_user_id cl) of Inl _ \<Rightarrow> 0 | Inr (_, _, t) \<Rightarrow> t);
         granted = GrantedPerkIDs s (cl_user_id cl)
     in Ok 200 (tier, map (\<lambda>p. (p, tier \<ge> pk_min_tier p, pk_id p \<in> set granted)) (ListPerks s False)))"

definition handleMyPerks :: "caller \<Rightarrow> db \<Rightarrow> (user_perk \<times> perk) list resp" where
  "handleMyPerks cl s = Ok 200 (ListUserPerks s (cl_user_id cl))"

record perk_req =
  pq_id :: string
  pq_name :: string
  pq_type :: string
  pq_min_tier :: int
  pq_meta :: string
  pq_is_active :: "bool option"

definition handleAdminUpsertPerk :: "perk_req option \<Rightarrow> db \<Rightarrow> id resp \<times> db" where
  "handleAdminUpsertPerk body s =
    (case body of None \<Rightarrow> (Fail 400 ''id and name are required'', s)
     | Some req \<Rightarrow>
       if TrimSpace (pq_id req) = '''' \<or> pq_name req = '''' then (Fail 400 ''id and name are required'', s)
       else if pq_type req \<notin> set validPerkTypes then (Fail 400 ''type must be nft|xp|free_days|node_pool'', s)
       else if pq_min_tier req < 0 then (Fail 400 ''min_tier must be >= 0'', s)
       else (Ok 200 (pq_id req), UpsertPerk \<lparr>pk_id = pq_id req, pk_name = pq_name req, pk_type = pq_type req,
               pk_min_tier = pq_min_tier req, pk_meta = pq_meta req,
               pk_is_active = (case pq_is_active req of None \<Rightarrow> True | Some b \<Rightarrow> b)\<rparr> s))"

text \<open>The body names the user by id or by wallet.\<close>

definition grantee :: "string \<Rightarrow> string \<Rightarrow> db \<Rightarrow> failure + id" where
  "grantee userID wallet s =
    (let uid = TrimSpace userID
     in if uid = '''' \<and> wallet \<noteq> ''''
        then (case UserIDByWallet s wallet of
                Inl e \<Rightarrow> Inl (if e = ErrNotFound then (404, ''no user for that wallet'') else (500, ''failed to resolve user''))
              | Inr i \<Rightarrow> if i = '''' then Inl (400, ''user_id or wallet is required'') else Inr i)
        else if uid = '''' then Inl (400, ''user_id or wallet is required'') else Inr uid)"

definition handleAdminGrantPerk :: "time \<Rightarrow> id \<Rightarrow> (string \<times> string) option \<Rightarrow> db \<Rightarrow> (id \<times> id) resp \<times> db" where
  "handleAdminGrantPerk now perkID body s =
    (case body of None \<Rightarrow> (Fail 400 ''invalid body'', s)
     | Some (userID, wallet) \<Rightarrow>
       (case grantee userID wallet s of Inl f \<Rightarrow> (refuse f, s)
        | Inr uid \<Rightarrow>
          (case GrantPerk now uid perkID '''' s of
             (Inl _, s) \<Rightarrow> (Fail 500 ''failed to grant perk'', s)
           | (Inr _, s) \<Rightarrow> (Ok 200 (uid, perkID), s))))"

section \<open>Leaderboard\<close>

definition clampInt :: "string \<Rightarrow> int \<Rightarrow> int \<Rightarrow> int \<Rightarrow> int" where
  "clampInt q dflt lo hi =
    (if q = '''' then dflt
     else case ParseInt q of None \<Rightarrow> dflt | Some n \<Rightarrow> if n < lo then lo else if n > hi then hi else n)"

record board_view =
  bv_metric :: string
  bv_period :: string
  bv_entries :: "(int \<times> string \<times> int) list"  \<comment> \<open>rank, wallet, value\<close>
  bv_mine :: "(int \<times> int) option"

text \<open>Absent query parameters are \<open>None\<close>.\<close>

definition handleLeaderboard :: "time \<Rightarrow> caller \<Rightarrow> string option \<Rightarrow> string option \<Rightarrow> string \<Rightarrow> string \<Rightarrow> db \<Rightarrow> board_view resp" where
  "handleLeaderboard now cl metricQ periodQ limitQ offsetQ s =
    (let met = (case metricQ of None \<Rightarrow> ''xp'' | Some m \<Rightarrow> m);
         period = (case periodQ of None \<Rightarrow> ''all'' | Some p \<Rightarrow> p)
     in if met \<noteq> ''xp'' \<and> met \<noteq> ''referrals'' then Fail 400 ''metric must be xp or referrals''
        else if period \<noteq> ''all'' \<and> period \<noteq> ''30d'' then Fail 400 ''period must be all or 30d''
        else (let since = (if period = ''all'' then None else Some (now - 30 * 86400));
                  m = (if met = ''xp'' then ByXP else ByReferrals);
                  limit = clampInt limitQ 50 1 100; off = clampInt offsetQ 0 0 1000000;
                  es = Leaderboard s m since limit off
              in Ok 200 \<lparr>bv_metric = met, bv_period = period,
                   bv_entries = map (\<lambda>(i, e). (off + int i + 1, truncWallet (le_wallet e), le_value e)) (enumerate 0 es),
                   bv_mine = (case MyRank s m since (cl_user_id cl) of Inl _ \<Rightarrow> None | Inr r \<Rightarrow> Some r)\<rparr>))"

definition handleRankClaim :: "string option \<Rightarrow> unit resp" where
  "handleRankClaim body =
    (case body of None \<Rightarrow> Fail 400 ''reward is required''
     | Some reward \<Rightarrow> if reward = '''' then Fail 400 ''reward is required''
         else Fail 410 ''personal entitlement rewards are retired; access is managed by organization plans and seats'')"

section \<open>Activity\<close>

text \<open>The platform of the caller, from the client header, then from the user agent.\<close>

definition clientApp :: "string \<Rightarrow> string \<Rightarrow> string" where
  "clientApp client agent =
    (let hint = ToLower client; ua = ToLower agent
     in if contains hint ''ios'' then ''ios''
        else if contains hint ''android'' then ''android''
        else if contains hint ''desktop'' then ''desktop''
        else if contains hint ''web'' then ''web''
        else if contains ua ''android'' then ''android''
        else if contains ua ''iphone'' \<or> contains ua ''ios'' then ''ios''
        else if contains ua ''mozilla'' then ''web''
        else '''')"

definition logActivity :: "time \<Rightarrow> id \<Rightarrow> string \<Rightarrow> string \<Rightarrow> string \<Rightarrow> id \<Rightarrow> string \<Rightarrow> string \<Rightarrow> db \<Rightarrow> db" where
  "logActivity now newID ip agent client userID action target s =
    snd (LogActivity \<lparr>ae_id = newID, ae_user_id = userID, ae_action = action, ae_target = target, ae_ip = ip,
      ae_user_agent = agent, ae_device = client, ae_app = clientApp client agent, ae_created_at = now\<rparr> s)"

text \<open>The page and the time the next page continues from.\<close>

definition activityPage :: "(activity_entry \<times> string) list \<Rightarrow> int \<Rightarrow> bool
    \<Rightarrow> (activity_entry \<times> string) list \<times> time option" where
  "activityPage entries limit admin =
    (let es = (if admin then map (\<lambda>(e, w). (e, truncWallet w)) entries else entries)
     in (es, if int (length es) = limit \<and> limit > 0 then Some (ae_created_at (fst (last es))) else None))"

text \<open>\<open>cursor\<close> is the parsed time of the query, absent when it is empty.\<close>

definition handleAccountActivity where
  "handleAccountActivity cl limitQ cursor s =
    (let limit = clampInt limitQ 50 1 200
     in Ok 200 (activityPage (map (\<lambda>e. (e, '''')) (ListUserActivity s (cl_user_id cl) cursor limit)) limit False))"

definition handleAdminActivity where
  "handleAdminActivity limitQ cursor s =
    (let limit = clampInt limitQ 50 1 200 in Ok 200 (activityPage (ListAllActivity s cursor limit) limit True))"

section \<open>The retired subscriptions\<close>

record entitlement_view =
  ev_status :: string
  ev_entitled :: bool
  ev_plan_id :: string
  ev_source :: string
  ev_org_member :: bool
  ev_drop_tier :: string
  ev_drop_public_storage_bytes :: int
  ev_entitlement_org_id :: string
  ev_trial_consumed :: bool
  ev_nft_gating :: bool

text \<open>Its queries fail only with the database.\<close>

definition orgEntitlementResponse :: "bool \<Rightarrow> db \<Rightarrow> id \<Rightarrow> entitlement_view" where
  "orgEntitlementResponse nftEnabled s uid =
    (let ent = ResolveDropEntitlement s uid; orgPlan = UserOrgVPNPlan s uid; entitled = orgPlan \<noteq> ''''
     in \<lparr>ev_status = (if entitled then ''active'' else ''inactive''), ev_entitled = entitled,
             ev_plan_id = (if entitled then orgPlan else DropTierFree), ev_source = ''org'',
             ev_org_member = UserHasActiveOrgMembership s uid, ev_drop_tier = de_tier ent,
             ev_drop_public_storage_bytes = de_public_storage_bytes ent,
             ev_entitlement_org_id = de_entitlement_org_id ent, ev_trial_consumed = HasConsumedTrial s uid,
             ev_nft_gating = nftEnabled\<rparr>)"

text \<open>An admin gets a fixed answer without the fields about organizations and Drop.\<close>

definition handleMySubscription :: "bool \<Rightarrow> caller \<Rightarrow> db \<Rightarrow> entitlement_view resp" where
  "handleMySubscription nftEnabled cl s =
    (if cl_role cl = RoleAdmin
     then Ok 200 \<lparr>ev_status = ''active'', ev_entitled = True, ev_plan_id = ''pro'', ev_source = ''admin'',
            ev_org_member = False, ev_drop_tier = '''', ev_drop_public_storage_bytes = 0,
            ev_entitlement_org_id = '''', ev_trial_consumed = False, ev_nft_gating = nftEnabled\<rparr>
     else Ok 200 (orgEntitlementResponse nftEnabled s (cl_user_id cl)))"

definition handleStartTrial :: "bool \<Rightarrow> caller \<Rightarrow> db \<Rightarrow> entitlement_view resp" where
  "handleStartTrial nftEnabled cl s =
    Ok 200 (orgEntitlementResponse nftEnabled s (cl_user_id cl))"

definition handlePlans :: "db \<Rightarrow> plan list resp" where
  "handlePlans s = Ok 200 (ListPlans s)"

text \<open>\<open>month\<close> is the current month as text.\<close>

definition handleNFTRefresh :: "auth_env \<Rightarrow> nft_lib \<Rightarrow> checker \<Rightarrow> time \<Rightarrow> string \<Rightarrow> caller \<Rightarrow> db
    \<Rightarrow> entitlement_view resp \<times> db" where
  "handleNFTRefresh env lib nft now month cl s =
    (if \<not> checker_Enabled nft then (Fail 503 ''NFT gating is not configured'', s)
     else case GetUser s (cl_user_id cl) of Inl _ \<Rightarrow> (Fail 500 ''failed to load user'', s)
     | Inr u \<Rightarrow>
       if us_wallet_address u = '''' then (Fail 400 ''no wallet on account'', s)
       else (case checker_Owns lib nft (us_wallet_address u) of
          None \<Rightarrow> (Fail 502 ''NFT ownership check failed'', s)
        | Some owns \<Rightarrow>
          if \<not> owns then (Fail 403 ''wallet does not hold the required NFT'', s)
          else (let s = award env now (us_id u) ''nft_held'' (pv_XPNFTHeld (au_platform env)) [(''month'', month)]
                      (''nft_held:'' @ us_id u @ '':'' @ month) s
                in (Ok 200 (orgEntitlementResponse (checker_Enabled nft) s (us_id u)), s))))"

section \<open>Administration\<close>

record stats_view =
  st_nodes_by_status :: "string \<Rightarrow> int option"
  st_connected :: int
  st_users :: int
  st_orgs :: int
  st_by_plan :: "(string \<times> int) list"
  st_traffic_30d :: "int \<times> int"

definition handleAdminStats :: "int \<Rightarrow> time \<Rightarrow> db \<Rightarrow> stats_view resp" where
  "handleAdminStats sessions now s = Ok 200 \<lparr>st_nodes_by_status = CountNodesByStatus s, st_connected = sessions,
     st_users = CountUsers s, st_orgs = CountOrgs s, st_by_plan = CountLegacyActiveSubscriptionsByPlan s now,
     st_traffic_30d = TotalBandwidth s (day_of (now - 30 * 86400))\<rparr>"

definition handleAdminUsers :: "string \<Rightarrow> string \<Rightarrow> db \<Rightarrow> (user list \<times> int \<times> int) resp" where
  "handleAdminUsers limitQuery offsetQuery s =
    (let (limit, off) = pagination limitQuery offsetQuery in Ok 200 (ListUsers s limit off, limit, off))"

definition handleAdminSubscriptions :: "time \<Rightarrow> db \<Rightarrow> (string \<times> int) list resp" where
  "handleAdminSubscriptions now s = Ok 200 (CountLegacyActiveSubscriptionsByPlan s now)"

definition handleAdminUser :: "time \<Rightarrow> id \<Rightarrow> db \<Rightarrow> (user \<times> string \<times> deletion_request option) resp" where
  "handleAdminUser now userID s =
    (case GetUser s userID of
       Inl e \<Rightarrow> if e = ErrNotFound then Fail 404 ''user not found'' else Fail 500 ''failed to load user''
     | Inr u \<Rightarrow> Ok 200 (u, case GetUserPlan s now userID of Inl _ \<Rightarrow> '''' | Inr p \<Rightarrow> p,
                          GetDeletionRequestByUserID s userID))"

definition handleAdminUserOrgs :: "id \<Rightarrow> db \<Rightarrow> (org \<times> string \<times> string) list resp" where
  "handleAdminUserOrgs userID s = Ok 200 (ListOrgsForUser s userID)"

definition handleAdminUserPlan :: "id \<Rightarrow> id option \<Rightarrow> db \<Rightarrow> unit resp \<times> db" where
  "handleAdminUserPlan userID body s =
    (case body of None \<Rightarrow> (Fail 400 ''plan_id required'', s)
     | Some planID \<Rightarrow>
       if planID = '''' then (Fail 400 ''plan_id required'', s)
       else (case GetPlan s planID of
          Inl e \<Rightarrow> (if e = ErrNotFound then Fail 400 ''unknown plan'' else Fail 500 ''failed to validate plan'', s)
        | Inr _ \<Rightarrow>
          (case SetUserPlan userID planID s of
             (Inl _, s) \<Rightarrow> (Fail 500 ''failed to set plan'', s)
           | (Inr _, s) \<Rightarrow> (Ok 200 (), s))))"

definition handleAdminDeletionRequests where
  "handleAdminDeletionRequests limitQuery offsetQuery s =
    (let (limit, off) = pagination limitQuery offsetQuery in Ok 200 (ListDeletionRequests s limit off, limit, off))"

text \<open>Also returned: the address that is told, when there is one and mail is configured.\<close>

definition handleAdminFulfillDeletionRequest :: "bool \<Rightarrow> time \<Rightarrow> id \<Rightarrow> db \<Rightarrow> unit resp \<times> db \<times> string option" where
  "handleAdminFulfillDeletionRequest mailer now requestID s =
    (case FulfillDeletionRequest now requestID s of
       (Inl e, s) \<Rightarrow> (if e = ErrNotFound then Fail 404 ''request not found or already fulfilled''
                     else Fail 500 ''failed to fulfill deletion request'', s, None)
     | (Inr email, s) \<Rightarrow> (Ok 200 (), s, if email \<noteq> '''' \<and> mailer then Some email else None))"

definition handleAdminListSettings :: "db \<Rightarrow> platform_setting list resp" where
  "handleAdminListSettings s = Ok 200 (ListPlatformSettings s)"

text \<open>
  The part of the server the settings drive: the snapshot, the token manager and the base URL of the X
  verifier.
\<close>

record tuned =
  tu_platform :: platform_values
  tu_manager :: manager
  tu_x_base :: string

definition handleAdminPatchSettings :: "(string \<Rightarrow> rat option) \<Rightarrow> (string \<times> string) list option
    \<Rightarrow> (db \<times> int list) \<times> tuned \<Rightarrow> unit resp \<times> (db \<times> int list) \<times> tuned" where
  "handleAdminPatchSettings parse_float body st =
    (let (ds, tu) = st
     in case body of None \<Rightarrow> (Fail 400 ''settings object required'', st)
        | Some updates \<Rightarrow>
          if updates = [] then (Fail 400 ''settings object required'', st)
          else (case UpdatePlatformSettings parse_float updates ds of
             (Inl e, ds) \<Rightarrow> (Fail 400 (error_text e), ds, tu)
           | (Inr plat, ds) \<Rightarrow>
               (Ok 200 (), ds, \<lparr>tu_platform = plat,
                  tu_manager = Reconfigure (pv_PasetoSignedBy plat) (pv_PasetoExpiration plat) (tu_manager tu),
                  tu_x_base = (case map_of updates ''x_api_base_url'' of
                      None \<Rightarrow> tu_x_base tu | Some v \<Rightarrow> if v \<noteq> '''' then x_base_url v else tu_x_base tu)\<rparr>)))"

section \<open>Views of nodes\<close>

definition admission_of :: "platform_values \<Rightarrow> platform" where
  "admission_of v = \<lparr>pv_node_cpu_max = pv_NodeCPUMax v, pv_node_cpu_soft = pv_NodeCPUSoft v,
     pv_node_peer_ratio_max = pv_NodePeerRatioMax v, pv_node_peer_connected_soft = pv_NodePeerConnectedSoft v\<rparr>"

text \<open>
  \<open>nv_row\<close> is the row with the columns a view does not copy emptied.  Both views hide the internal id, the
  organization id, the address, the raw load, the endpoint of the private API and its key; the public one also the
  specification, the operator one the address hash, the version and the last handshake.
\<close>

record node_view =
  nv_row :: node
  nv_org :: "org_summary option"
  nv_load_pct :: rat
  nv_registered :: int
  nv_connected :: int
  nv_accepting :: bool

definition without_secrets :: "node \<Rightarrow> node" where
  "without_secrets n = n\<lparr>n_id := '''', n_org_id := '''', n_ip := '''', n_load := '''', n_api_base_url := '''',
     n_node_key := ''''\<rparr>"

definition nodePublicFrom :: "(string \<Rightarrow> (rat \<times> int \<times> int \<times> int) option) \<Rightarrow> platform_values \<Rightarrow> node
    \<Rightarrow> org_summary option \<Rightarrow> node_view" where
  "nodePublicFrom decode cfg n x =
    (let load = parseLoad decode (n_load n)
     in \<lparr>nv_row = (without_secrets n)\<lparr>n_spec := ''''\<rparr>, nv_org = x, nv_load_pct = pl_cpu_pct load,
         nv_registered = pl_registered load, nv_connected = pl_connected load,
         nv_accepting = acceptingClients (admission_of cfg) (pl_registered load) (pl_connected load) (pl_cpu_pct load)\<rparr>)"

definition handleListNodes_view :: "auth_env \<Rightarrow> (string \<Rightarrow> (rat \<times> int \<times> int \<times> int) option) \<Rightarrow> time \<Rightarrow> string
    \<Rightarrow> string option \<Rightarrow> string \<Rightarrow> string \<Rightarrow> db \<Rightarrow> node_view list resp" where
  "handleListNodes_view env decode now authorization status region zone s =
    (case handleListNodes s status region zone (callerTier (au_token env) now authorization s) of
       Fail c m \<Rightarrow> Fail c m
     | Ok c ns \<Rightarrow> Ok c (map (\<lambda>n. nodePublicFrom decode (au_platform env) n (orgSummaryFor s (n_org_id n) '''' False)) ns))"

text \<open>\<open>enrich\<close> is \<open>enrichEndpointsForDiscovery\<close>, a change of a JSON document.\<close>

definition buildNodeOperatorView :: "(string \<Rightarrow> string \<Rightarrow> string) \<Rightarrow> (string \<Rightarrow> (rat \<times> int \<times> int \<times> int) option)
    \<Rightarrow> platform_values \<Rightarrow> db \<Rightarrow> node \<Rightarrow> string \<Rightarrow> node_view" where
  "buildNodeOperatorView enrich decode cfg s n callerRole =
    (let load = parseLoad decode (n_load n)
     in \<lparr>nv_row = (without_secrets n)\<lparr>n_endpoints := enrich (n_endpoints n) (n_ip n), n_ip_hash := '''',
           n_version := '''', n_last_peer_handshake := None\<rparr>,
         nv_org = orgSummaryFor s (n_org_id n) callerRole (IsOrgPrivileged callerRole),
         nv_load_pct = pl_cpu_pct load, nv_registered = pl_registered load, nv_connected = pl_connected load,
         nv_accepting = acceptingClients (admission_of cfg) (pl_registered load) (pl_connected load) (pl_cpu_pct load)\<rparr>)"

definition handleOperatorNodes where
  "handleOperatorNodes enrich decode cfg cl s = Ok 200 (map (\<lambda>n.
     (let role = (case MemberRole s (n_org_id n) (cl_user_id cl) of Inl _ \<Rightarrow> '''' | Inr r \<Rightarrow> r)
      in buildNodeOperatorView enrich decode cfg s n role)) (OrgNodes s (cl_user_id cl)))"

definition handleOrgNodes where
  "handleOrgNodes enrich decode cfg cl orgID s =
    (case orgMember s cl orgID of Inl f \<Rightarrow> refuse f
     | Inr role \<Rightarrow> Ok 200 (map (\<lambda>n. buildNodeOperatorView enrich decode cfg s n role) (NodesByOrg s orgID)))"

definition handleAdminNodes :: "int \<Rightarrow> string \<Rightarrow> string \<Rightarrow> string \<Rightarrow> db \<Rightarrow> (int \<times> node list) resp" where
  "handleAdminNodes sessions status region zone s = Ok 200 (sessions, ListNodes s status region zone)"

end
