(* ===== verification/Telemetry.thy ===== *)
theory Telemetry
  imports AdminApi
begin

text \<open>
  Samples and labels: \<open>internal/store/node_metrics.go\<close> with the handlers that read it (\<open>internal/api/operator.go\<close>),
  the label normalisation of \<open>internal/metrics\<close> and \<open>internal/middleware\<close>, and \<open>telemetry.go\<close>.

  The table \<open>node_metrics\<close> is a list of its own: no other modelled operation reads it.  Percentages are
  rationals.
\<close>

section \<open>Samples\<close>

record metric_row =
  mr_node_id :: string
  mr_bucket :: time
  mr_wg_peers :: int
  mr_wg_peers_connected :: int
  mr_proxy_sessions :: int
  mr_rx_bytes :: int
  mr_tx_bytes :: int
  mr_cpu_pct :: rat
  mr_mem_pct :: rat

definition RecordNodeMetrics :: "metric_row \<Rightarrow> metric_row list \<Rightarrow> metric_row list" where
  "RecordNodeMetrics row tab =
    (let row = row\<lparr>mr_bucket := mr_bucket row - mr_bucket row mod 60\<rparr>;
         same = (\<lambda>r. mr_node_id r = mr_node_id row \<and> mr_bucket r = mr_bucket row)
     in if has_row same tab then upd_rows same (\<lambda>_. row) tab else tab @ [row])"

definition max_of :: "('r \<Rightarrow> int) \<Rightarrow> 'r list \<Rightarrow> int" where
  "max_of f rows = (case map f rows of [] \<Rightarrow> 0 | x # xs \<Rightarrow> fold max xs x)"

definition avg_of :: "('r \<Rightarrow> rat) \<Rightarrow> 'r list \<Rightarrow> rat" where
  "avg_of f rows = sum_list (map f rows) / of_nat (length rows)"

definition down_bucket :: "int \<Rightarrow> metric_row \<Rightarrow> time" where
  "down_bucket step r = mr_bucket r div step * step"

text \<open>
  The column \<open>node_id\<close> is a uuid.  Postgres reads one from sixteen pairs of hexadecimal digits, with an optional
  hyphen after each group of four and optional braces around all; other text is an error.
\<close>

fun uuid_bytes :: "nat \<Rightarrow> string \<Rightarrow> (string \<times> string) option" where
  "uuid_bytes 0 s = Some ([], s)"
| "uuid_bytes (Suc k) (a # b # s) =
    (if is_hex a \<and> is_hex b
     then (let s = (if s \<noteq> '''' \<and> hd s = CHR ''-'' \<and> k > 0 \<and> k mod 2 = 0 then tl s else s)
           in map_option (\<lambda>(ds, rest). (ToLower [a, b] @ ds, rest)) (uuid_bytes k s))
     else None)"
| "uuid_bytes (Suc k) s = None"

definition uuid_value :: "string \<Rightarrow> string option" where
  "uuid_value s =
    (let braces = (s \<noteq> '''' \<and> hd s = CHR ''{'')
     in case uuid_bytes 16 (if braces then tl s else s) of None \<Rightarrow> None
        | Some (ds, rest) \<Rightarrow> if rest = (if braces then ''}'' else '''') then Some ds else None)"

text \<open>\<open>step\<close> is in seconds; a step below a minute is a minute.\<close>

definition NodeMetrics :: "metric_row list \<Rightarrow> string \<Rightarrow> time \<Rightarrow> int \<Rightarrow> metric_row list res" where
  "NodeMetrics tab nodeID since step =
    (let step = (if step < 60 then 60 else step);
         rows = filter (\<lambda>r. uuid_value (mr_node_id r) = uuid_value nodeID \<and> mr_bucket r \<ge> since) tab
     in if uuid_value nodeID = None then Inl invalid_text
        else Inr (map (\<lambda>b. let g = filter (\<lambda>r. down_bucket step r = b) rows
              in \<lparr>mr_node_id = nodeID, mr_bucket = b, mr_wg_peers = max_of mr_wg_peers g,
                  mr_wg_peers_connected = max_of mr_wg_peers_connected g,
                  mr_proxy_sessions = max_of mr_proxy_sessions g, mr_rx_bytes = max_of mr_rx_bytes g,
                  mr_tx_bytes = max_of mr_tx_bytes g, mr_cpu_pct = avg_of mr_cpu_pct g, mr_mem_pct = avg_of mr_mem_pct g\<rparr>)
          (sort (remdups (map (down_bucket step) rows)))))"

text \<open>\<open>retention\<close> is in seconds.\<close>

definition PurgeOldNodeMetrics :: "time \<Rightarrow> int \<Rightarrow> metric_row list \<Rightarrow> metric_row list" where
  "PurgeOldNodeMetrics now retention tab = del_rows (\<lambda>r. mr_bucket r < now - retention) tab"

section \<open>Charts\<close>

definition parseDuration :: "string \<Rightarrow> int \<Rightarrow> int \<Rightarrow> int" where
  "parseDuration s dflt mx =
    (if s = '''' then dflt
     else case ParseDuration s of None \<Rightarrow> dflt | Some d \<Rightarrow> if d \<le> 0 then dflt else if d > mx then mx else d)"

definition writeNodeMetrics :: "time \<Rightarrow> string \<Rightarrow> string \<Rightarrow> string \<Rightarrow> metric_row list \<Rightarrow> (int \<times> int \<times> metric_row list) resp" where
  "writeNodeMetrics now rangeQ stepQ nodeID tab =
    (let rng = parseDuration rangeQ (24 * hour_ns) (90 * 24 * hour_ns);
         step = parseDuration stepQ (300 * second_ns) (24 * hour_ns)
     in case NodeMetrics tab nodeID (now - in_seconds rng) (in_seconds step) of
          Inl _ \<Rightarrow> Fail 500 ''failed to load metrics''
        | Inr points \<Rightarrow> Ok 200 (rng, step, points))"

definition handleOperatorNodeMetrics where
  "handleOperatorNodeMetrics now cl nodeID rangeQ stepQ tab s =
    (if \<not> NodeOperatedBy s nodeID (cl_user_id cl) then Fail 403 ''not your org's node''
     else writeNodeMetrics now rangeQ stepQ nodeID tab)"

definition handleAdminNodeMetrics where
  "handleAdminNodeMetrics now nodeID rangeQ stepQ tab = writeNodeMetrics now rangeQ stepQ nodeID tab"

section \<open>Labels\<close>

definition bounded_label :: "string list \<Rightarrow> string \<Rightarrow> string" where
  "bounded_label known x = (let l = ToLower (TrimSpace x) in if l \<in> set known then l else ''unknown'')"

definition NormalizePlatform :: "string \<Rightarrow> string" where
  "NormalizePlatform = bounded_label [''android'', ''ios'', ''webapp'']"

definition NormalizeStatus :: "string \<Rightarrow> string" where
  "NormalizeStatus = bounded_label [''success'', ''failed'', ''attempted'']"

definition NormalizeEvent :: "string \<Rightarrow> string" where
  "NormalizeEvent = bounded_label [''vpn_connect_attempt'', ''vpn_connect_success'', ''vpn_connect_failure'',
     ''vpn_disconnect'', ''region_selected'', ''node_selected'', ''drop_room_created'', ''file_transfer_success'',
     ''file_transfer_failure'']"

definition DetectClient :: "string \<Rightarrow> string" where
  "DetectClient = bounded_label [''webapp'', ''android'', ''ios'', ''node'']"

text \<open>The counter one event increments: platform, event, status.\<close>

definition handleTelemetryEvent :: "(string \<times> string \<times> string) option \<Rightarrow> unit resp \<times> (string \<times> string \<times> string) option" where
  "handleTelemetryEvent body =
    (case body of None \<Rightarrow> (Fail 400 ''invalid payload'', None)
     | Some (p, e, st) \<Rightarrow> (Ok 204 (), Some (NormalizePlatform p, NormalizeEvent e, NormalizeStatus st)))"

end
