(* ===== verification/Routes.thy ===== *)
theory Routes
  imports Rewards
begin

text \<open>
  The routing table and the audit trail: \<open>Router\<close> of \<open>internal/api/server.go\<close>, \<open>activityActions\<close> and the
  \<open>activityLog\<close> middleware of \<open>activity.go\<close>.

  A route is its method, its pattern, the middleware in front of it and the name of its handler.
\<close>

datatype guard = AuthUser | RequireAdmin | ActivityLog | AuthAPIKey | RateLimit string | DropRateLimit string bool

type_synonym route = "string \<times> string \<times> guard list \<times> string"

definition route_group :: "string \<Rightarrow> guard list \<Rightarrow> route list \<Rightarrow> route list" where
  "route_group prefix gs rs = map (\<lambda>(m, p, g, h). (m, prefix @ p, gs @ g, h)) rs"

definition root_routes :: "route list" where
  "root_routes =
    [(''GET'', ''/healthz'', [], ''handleHealthz''),
     (''GET'', ''/readyz'', [], ''handleReadyz''),
     (''GET'', ''/version'', [], ''handleVersion''),
     (''GET'', ''/metrics'', [], ''promhttp''),
     (''POST'', ''/telemetry/event'', [], ''handleTelemetryEvent'')]"

definition auth_routes :: "route list" where
  "auth_routes =
    [(''GET'', '''', [], ''handleAuthChallenge''),
     (''POST'', '''', [], ''handleAuthComplete''),
     (''GET'', ''/methods'', [], ''handleAuthMethods''),
     (''POST'', ''/email'', [AuthUser], ''handleEmailOTPStart''),
     (''POST'', ''/email/verify'', [AuthUser], ''handleEmailOTPVerify''),
     (''POST'', ''/email/login/start'', [], ''handleEmailLoginStart''),
     (''POST'', ''/email/login/verify'', [], ''handleEmailLoginVerify''),
     (''POST'', ''/google'', [], ''handleGoogleAuth''),
     (''POST'', ''/apple'', [], ''handleAppleAuth''),
     (''POST'', ''/apple/callback'', [], ''handleAppleCallback''),
     (''POST'', ''/apple/callback/:app'', [], ''handleAppleCallback'')]"

definition v2_routes :: "route list" where
  "v2_routes =
    [(''GET'', ''/nodes'', [], ''handleListNodes''),
     (''POST'', ''/nodes/register'', [RateLimit ''register''], ''handleNodeRegister''),
     (''POST'', ''/nodes/token/refresh'', [], ''handleNodeTokenRefresh''),
     (''GET'', ''/nodes/ws'', [], ''handleNodeWS''),
     (''GET'', ''/subscriptions/plans'', [], ''handlePlans''),
     (''GET'', ''/public/orgs/:slug'', [], ''handlePublicOrgBySlug''),
     (''GET'', ''/public/orgs/:slug/invite'', [], ''handleOrgInviteBySlug''),
     (''GET'', ''/drop/public/:fileId'', [RateLimit ''drop_public''], ''handleDropPublicGet''),
     (''GET'', ''/drop/public/:fileId/content'', [RateLimit ''drop_public_content''], ''handleDropPublicContent''),
     (''Any'', ''/drop/webui/:sessionId/*proxyPath'', [], ''handleDropWebUIProxy''),
     (''POST'', ''/nodes/:nodeId/heartbeat'', [], ''handleNodeHeartbeat''),
     (''POST'', ''/nodes/:nodeId/firewall/credentials'', [], ''handleNodeReportFirewallCredentials'')]"

definition user_routes :: "route list" where
  "user_routes =
    [(''GET'', ''/account/profile'', [], ''handleGetProfile''),
     (''PATCH'', ''/account/profile'', [], ''handlePatchProfile''),
     (''POST'', ''/account/deletion-request'', [], ''handleAccountDeletionRequest''),
     (''GET'', ''/account/org-invites'', [], ''handleListAccountOrgInvites''),
     (''GET'', ''/account/org-invites/:orgId'', [], ''handleGetAccountOrgInvite''),
     (''POST'', ''/account/org-invites/:orgId/accept'', [], ''handleAcceptAccountOrgInvite''),
     (''POST'', ''/account/org-invites/:orgId/decline'', [], ''handleDeclineAccountOrgInvite''),
     (''GET'', ''/account/activity'', [], ''handleAccountActivity''),
     (''POST'', ''/account/wallet'', [], ''handleLinkWallet''),
     (''GET'', ''/vpn/clients'', [], ''handleListClients''),
     (''POST'', ''/vpn/clients'', [], ''handleProvisionClient''),
     (''DELETE'', ''/vpn/clients/:id'', [], ''handleDeleteClient''),
     (''GET'', ''/vpn/clients/:id/config'', [], ''handleClientConfig''),
     (''GET'', ''/operator/nodes'', [], ''handleOperatorNodes''),
     (''PATCH'', ''/operator/nodes/:id'', [], ''handlePatchOperatorNode''),
     (''GET'', ''/operator/nodes/:id/metrics'', [], ''handleOperatorNodeMetrics''),
     (''GET'', ''/referrals/me'', [], ''handleReferralsMe''),
     (''POST'', ''/referrals/redeem'', [], ''handleReferralRedeem''),
     (''GET'', ''/rank/me'', [], ''handleRankMe''),
     (''POST'', ''/rank/claim'', [], ''handleRankClaim''),
     (''GET'', ''/leaderboard'', [], ''handleLeaderboard''),
     (''GET'', ''/social/accounts'', [], ''handleSocialAccounts''),
     (''POST'', ''/social/telegram'', [], ''handleVerifyTelegram''),
     (''POST'', ''/social/x'', [], ''handleVerifyX''),
     (''POST'', ''/social/google'', [], ''handleLinkGoogle''),
     (''POST'', ''/social/apple'', [], ''handleLinkApple''),
     (''GET'', ''/perks'', [], ''handleListPerks''),
     (''GET'', ''/perks/me'', [], ''handleMyPerks''),
     (''GET'', ''/subscriptions'', [], ''handleMySubscription''),
     (''POST'', ''/subscriptions/trial'', [], ''handleStartTrial''),
     (''POST'', ''/subscriptions/nft/refresh'', [], ''handleNFTRefresh''),
     (''POST'', ''/orgs'', [], ''handleCreateOrg''),
     (''GET'', ''/orgs'', [], ''handleListOrgs''),
     (''GET'', ''/orgs/:id'', [], ''handleGetOrg''),
     (''PATCH'', ''/orgs/:id'', [], ''handlePatchOrg''),
     (''DELETE'', ''/orgs/:id'', [], ''handleDeleteOrg''),
     (''GET'', ''/orgs/:id/entitlements'', [], ''handleGetOrgEntitlements''),
     (''GET'', ''/orgs/:id/profile'', [], ''handleGetOrgProfile''),
     (''PATCH'', ''/orgs/:id/profile'', [], ''handlePatchOrgProfile''),
     (''GET'', ''/orgs/:id/profile/public'', [], ''handleGetOrgPublicProfile''),
     (''PATCH'', ''/orgs/:id/profile/public'', [], ''handlePatchOrgPublicProfile''),
     (''GET'', ''/orgs/:id/seats'', [], ''handleListSeats''),
     (''POST'', ''/orgs/:id/seats/assign'', [], ''handleAssignSeat''),
     (''POST'', ''/orgs/:id/seats/revoke'', [], ''handleRevokeSeat''),
     (''GET'', ''/orgs/:id/members'', [], ''handleListMembers''),
     (''GET'', ''/orgs/:id/invites'', [], ''handleListOrgInvites''),
     (''DELETE'', ''/orgs/:id/invites/:inviteId'', [], ''handleRevokeOrgInvite''),
     (''POST'', ''/orgs/:id/members/invite'', [], ''handleInviteMember''),
     (''POST'', ''/orgs/:id/members'', [], ''handleAddMember''),
     (''PATCH'', ''/orgs/:id/members/:memberId'', [], ''handlePatchMember''),
     (''DELETE'', ''/orgs/:id/members/:memberId'', [], ''handleRemoveMember''),
     (''POST'', ''/orgs/:id/transfer-ownership'', [], ''handleTransferOwnership''),
     (''GET'', ''/orgs/:id/nodes'', [], ''handleListOrgNodes''),
     (''POST'', ''/orgs/:id/nodes/register'', [], ''handleOrgNodeRegister''),
     (''GET'', ''/orgs/:id/nodes/:nodeId'', [], ''handleGetOrgNode''),
     (''PATCH'', ''/orgs/:id/nodes/:nodeId'', [], ''handlePatchOrgNode''),
     (''POST'', ''/orgs/:id/node-registration-tokens'', [], ''handleCreateNodeRegistrationToken''),
     (''GET'', ''/orgs/:id/nodes/:nodeId/services'', [], ''handleListOrgNodeServices''),
     (''POST'', ''/orgs/:id/nodes/:nodeId/services'', [], ''handleAttachOrgNodeService''),
     (''PATCH'', ''/orgs/:id/nodes/:nodeId/services/:serviceId'', [], ''handlePatchOrgNodeService''),
     (''DELETE'', ''/orgs/:id/nodes/:nodeId/services/:serviceId'', [], ''handleDeleteOrgNodeService''),
     (''GET'', ''/orgs/:id/nodes/:nodeId/firewall'', [], ''handleGetFirewall''),
     (''GET'', ''/orgs/:id/nodes/:nodeId/firewall/status'', [], ''handleGetFirewallStatus''),
     (''POST'', ''/orgs/:id/nodes/:nodeId/firewall/restart'', [], ''handleFirewallRestart''),
     (''POST'', ''/orgs/:id/nodes/:nodeId/firewall/sync'', [], ''handleFirewallSync''),
     (''POST'', ''/orgs/:id/nodes/:nodeId/firewall/reset-credentials'', [], ''handleFirewallResetCredentials''),
     (''GET'', ''/orgs/:id/nodes/:nodeId/firewall/credentials'', [], ''handleGetFirewallCredentials''),
     (''POST'', ''/orgs/:id/nodes/:nodeId/firewall/credentials'', [], ''handleUpdateFirewallCredentials''),
     (''GET'', ''/orgs/:id/nodes/:nodeId/firewall/rules'', [], ''handleListFirewallRules''),
     (''POST'', ''/orgs/:id/nodes/:nodeId/firewall/rules'', [], ''handleCreateFirewallRule''),
     (''PATCH'', ''/orgs/:id/nodes/:nodeId/firewall/rules/:ruleId'', [], ''handlePatchFirewallRule''),
     (''DELETE'', ''/orgs/:id/nodes/:nodeId/firewall/rules/:ruleId'', [], ''handleDeleteFirewallRule''),
     (''GET'', ''/orgs/:id/runtime-nodes'', [], ''handleOrgNodes''),
     (''GET'', ''/orgs/:id/apikeys'', [], ''handleListAPIKeys''),
     (''POST'', ''/orgs/:id/apikeys'', [], ''handleCreateAPIKey''),
     (''DELETE'', ''/orgs/:id/apikeys/:keyId'', [], ''handleRevokeAPIKey''),
     (''GET'', ''/orgs/:id/usage'', [], ''handleOrgUsage''),
     (''GET'', ''/orgs/:id/clients'', [], ''handleOrgClients''),
     (''POST'', ''/orgs/:id/vpn/clients'', [], ''handleUserOrgProvisionClient''),
     (''GET'', ''/orgs/:id/drop/files'', [], ''handleOrgDropFiles''),
     (''GET'', ''/orgs/:id/drop/usage'', [], ''handleOrgDropUsage''),
     (''POST'', ''/orgs/:id/nodes/:nodeId/drop/webui/session'', [], ''handleDropWebUISession''),
     (''GET'', ''/drop/nodes'', [], ''handleDropNodes''),
     (''POST'', ''/drop/uploads'', [DropRateLimit ''drop_create'' True], ''handleDropReserveUpload''),
     (''PUT'', ''/drop/uploads/:uploadId/content'', [DropRateLimit ''drop_content'' True], ''handleDropUploadContent''),
     (''GET'', ''/drop/uploads/:uploadId'', [], ''handleDropUploadStatus''),
     (''GET'', ''/drop/files'', [], ''handleDropListFiles''),
     (''GET'', ''/drop/files/:fileId'', [], ''handleDropGetFile''),
     (''GET'', ''/drop/files/:fileId/content'', [DropRateLimit ''drop_read'' False], ''handleDropFileContent''),
     (''PATCH'', ''/drop/files/:fileId'', [], ''handleDropPatchFile''),
     (''DELETE'', ''/drop/files/:fileId'', [], ''handleDropDeleteFile''),
     (''GET'', ''/drop/usage'', [], ''handleDropUsage''),
     (''GET'', ''/drop/crypto/vault'', [], ''handleDropGetVault''),
     (''PUT'', ''/drop/crypto/vault'', [], ''handleDropPutVault'')]"

definition orgapi_routes :: "route list" where
  "orgapi_routes =
    [(''POST'', ''/vpn/clients'', [], ''handleOrgProvisionClient''),
     (''GET'', ''/vpn/clients'', [], ''handleOrgListClients''),
     (''GET'', ''/usage'', [], ''handleOrgSelfUsage'')]"

definition admin_routes :: "route list" where
  "admin_routes =
    [(''GET'', ''/stats'', [], ''handleAdminStats''),
     (''GET'', ''/activity'', [], ''handleAdminActivity''),
     (''GET'', ''/nodes'', [], ''handleAdminNodes''),
     (''GET'', ''/users'', [], ''handleAdminUsers''),
     (''GET'', ''/users/:id'', [], ''handleAdminUser''),
     (''GET'', ''/users/:id/orgs'', [], ''handleAdminUserOrgs''),
     (''POST'', ''/users/:id/plan'', [], ''handleAdminUserPlan''),
     (''GET'', ''/subscriptions'', [], ''handleAdminSubscriptions''),
     (''GET'', ''/orgs'', [], ''handleAdminOrgs''),
     (''PATCH'', ''/orgs/:id'', [], ''handleAdminPatchOrg''),
     (''GET'', ''/orgs/:id/usage'', [], ''handleAdminOrgUsage''),
     (''GET'', ''/nodes/:id/metrics'', [], ''handleAdminNodeMetrics''),
     (''POST'', ''/nodes/:id/command'', [], ''handleAdminNodeCommand''),
     (''POST'', ''/nodes/:id/min_tier'', [], ''handleAdminSetNodeMinTier''),
     (''POST'', ''/perks'', [], ''handleAdminUpsertPerk''),
     (''POST'', ''/perks/:id/grant'', [], ''handleAdminGrantPerk''),
     (''GET'', ''/deletion-requests'', [], ''handleAdminDeletionRequests''),
     (''POST'', ''/deletion-requests/:id/fulfill'', [], ''handleAdminFulfillDeletionRequest''),
     (''GET'', ''/settings'', [], ''handleAdminListSettings''),
     (''PATCH'', ''/settings'', [], ''handleAdminPatchSettings'')]"

definition Router :: "route list" where
  "Router = root_routes
     @ route_group ''/api/v2/auth'' [RateLimit ''auth''] auth_routes
     @ route_group ''/api/v2'' [] v2_routes
     @ route_group ''/api/v2'' [AuthUser, ActivityLog] user_routes
     @ route_group ''/api/v2/org'' [AuthAPIKey] orgapi_routes
     @ route_group ''/api/v2/admin'' [AuthUser, RequireAdmin, ActivityLog] admin_routes"

section \<open>The audit trail\<close>

definition activityActions :: "(string \<times> string) list" where
  "activityActions =
    [(''PATCH /api/v2/account/profile'', ''profile.update''),
     (''POST /api/v2/vpn/clients'', ''vpn.client.provision''),
     (''DELETE /api/v2/vpn/clients/:id'', ''vpn.client.delete''),
     (''POST /api/v2/subscriptions/trial'', ''subscription.trial_retired''),
     (''POST /api/v2/subscriptions/nft/refresh'', ''subscription.nft_verify''),
     (''POST /api/v2/orgs'', ''org.create''),
     (''PATCH /api/v2/orgs/:id'', ''org.update''),
     (''PATCH /api/v2/orgs/:id/profile'', ''org.profile.update''),
     (''PATCH /api/v2/orgs/:id/profile/public'', ''org.profile.public.update''),
     (''POST /api/v2/orgs/:id/members'', ''org.member.add''),
     (''POST /api/v2/orgs/:id/members/invite'', ''org.member.invite''),
     (''PATCH /api/v2/orgs/:id/members/:memberId'', ''org.member.update''),
     (''DELETE /api/v2/orgs/:id/members/:memberId'', ''org.member.remove''),
     (''POST /api/v2/orgs/:id/seats/assign'', ''org.seat.assign''),
     (''POST /api/v2/orgs/:id/seats/revoke'', ''org.seat.revoke''),
     (''POST /api/v2/orgs/:id/node-registration-tokens'', ''org.registration_token.create''),
     (''POST /api/v2/orgs/:id/nodes/register'', ''org.node.register''),
     (''PATCH /api/v2/orgs/:id/nodes/:nodeId'', ''org.node.update''),
     (''POST /api/v2/orgs/:id/nodes/:nodeId/services'', ''org.service.attach''),
     (''PATCH /api/v2/orgs/:id/nodes/:nodeId/services/:serviceId'', ''org.service.update''),
     (''DELETE /api/v2/orgs/:id/nodes/:nodeId/services/:serviceId'', ''org.service.detach''),
     (''POST /api/v2/orgs/:id/nodes/:nodeId/firewall/restart'', ''org.firewall.restart''),
     (''POST /api/v2/orgs/:id/nodes/:nodeId/firewall/sync'', ''org.firewall.sync''),
     (''POST /api/v2/orgs/:id/nodes/:nodeId/firewall/reset-credentials'', ''org.firewall.reset_credentials''),
     (''POST /api/v2/orgs/:id/nodes/:nodeId/firewall/rules'', ''org.firewall.rule.create''),
     (''PATCH /api/v2/orgs/:id/nodes/:nodeId/firewall/rules/:ruleId'', ''org.firewall.rule.update''),
     (''DELETE /api/v2/orgs/:id/nodes/:nodeId/firewall/rules/:ruleId'', ''org.firewall.rule.delete''),
     (''POST /api/v2/orgs/:id/apikeys'', ''apikey.create''),
     (''DELETE /api/v2/orgs/:id/apikeys/:keyId'', ''apikey.revoke''),
     (''POST /api/v2/referrals/redeem'', ''referral.redeem''),
     (''POST /api/v2/rank/claim'', ''rank.claim''),
     (''POST /api/v2/social/telegram'', ''social.verify.telegram''),
     (''POST /api/v2/social/x'', ''social.verify.x''),
     (''POST /api/v2/admin/nodes/:id/command'', ''admin.node.command''),
     (''POST /api/v2/admin/nodes/:id/min_tier'', ''admin.node.min_tier''),
     (''POST /api/v2/drop/uploads'', ''drop.upload.reserve''),
     (''PUT /api/v2/drop/uploads/:uploadId/content'', ''drop.upload''),
     (''PATCH /api/v2/drop/files/:fileId'', ''drop.visibility.change''),
     (''DELETE /api/v2/drop/files/:fileId'', ''drop.delete''),
     (''POST /api/v2/orgs/:id/nodes/:nodeId/drop/webui/session'', ''drop.webui.session''),
     (''POST /api/v2/admin/perks'', ''admin.perk.upsert''),
     (''POST /api/v2/admin/perks/:id/grant'', ''admin.perk.grant''),
     (''PATCH /api/v2/admin/settings'', ''admin.settings.update'')]"

definition action_of :: "string \<Rightarrow> string \<Rightarrow> string" where
  "action_of meth path = (case map_of activityActions (meth @ '' '' @ path) of None \<Rightarrow> '''' | Some a \<Rightarrow> a)"

text \<open>
  What the middleware records once the handlers are done: action and target.  \<open>uid\<close> is the user in the context,
  \<open>keyId\<close> and \<open>idp\<close> are the path parameters of these names.
\<close>

definition activityLog :: "string \<Rightarrow> string \<Rightarrow> int \<Rightarrow> string \<Rightarrow> string \<Rightarrow> string \<Rightarrow> (string \<times> string) option" where
  "activityLog meth path status uid keyId idp =
    (if meth = ''GET'' \<or> status div 100 \<noteq> 2 then None
     else if action_of meth path = '''' \<or> uid = '''' then None
     else Some (action_of meth path, if keyId = '''' then idp else keyId))"

end
