(* ===== verification/Gateway.thy ===== *)
theory Gateway
  imports AppleRelay Telemetry DropApi FirewallApi Routes
begin

text \<open>
  How the parts are put together: \<open>cmd/gateway/main.go\<close>, \<open>New\<close> of \<open>internal/api/server.go\<close> and
  \<open>internal/config/validate.go\<close>.
\<close>

section \<open>Start\<close>

record config =
  cf_gin_mode :: string
  cf_mnemonic :: string
  cf_db_password :: string
  cf_google_client_ids :: string
  cf_apple_client_ids :: string
  cf_apple_relay_ids :: string
  cf_public_base_url :: string
  cf_solana_rpc_url :: string
  cf_evm_rpc_url :: string
  cf_nft_gate_chain :: string
  cf_nft_gate_contract :: string
  cf_nft_gate_rpc_url :: string

definition Validate :: "config \<Rightarrow> err option" where
  "Validate c =
    (if cf_gin_mode c \<noteq> ''release'' then None
     else if TrimSpace (cf_mnemonic c) = '''' then Some (ErrMsg ''MNEMONIC is required when GIN_MODE=release'')
     else if cf_db_password c = '''' then Some (ErrMsg ''DB_PASSWORD is required when GIN_MODE=release'')
     else None)"

definition ResolveSolanaRPC :: "config \<Rightarrow> string" where
  "ResolveSolanaRPC c =
    (if TrimSpace (cf_solana_rpc_url c) \<noteq> '''' then TrimSpace (cf_solana_rpc_url c)
     else TrimSpace (cf_nft_gate_rpc_url c))"

text \<open>The collections of the database, or the single one of the environment.\<close>

definition nft_checker :: "config \<Rightarrow> (string \<times> string) list \<Rightarrow> checker" where
  "nft_checker c contracts =
    (let nft = NewFromContracts (ResolveSolanaRPC c) (cf_evm_rpc_url c) contracts
     in if \<not> checker_Enabled nft \<and> cf_nft_gate_contract c \<noteq> ''''
        then NewChecker (cf_nft_gate_chain c) (ResolveSolanaRPC c) (cf_nft_gate_contract c) else nft)"

text \<open>\<open>derive\<close> is \<open>PasetoKeyFromMnemonic\<close>, \<open>fresh\<close> the key generated without a mnemonic.\<close>

definition resolvePasetoKey :: "(string \<Rightarrow> string option) \<Rightarrow> string \<Rightarrow> config \<Rightarrow> string res" where
  "resolvePasetoKey derive fresh c =
    (case derive (cf_mnemonic c) of Some k \<Rightarrow> Inr k
     | None \<Rightarrow> if cf_mnemonic c \<noteq> '''' then Inl (ErrMsg ''paseto key from mnemonic'') else Inr fresh)"

text \<open>
  The steps of \<open>run\<close> that can refuse to start: the configuration, the stored settings and the signing key.
  Success is what the server works with, and the tier thresholds of the store.
\<close>

definition boot :: "(string \<Rightarrow> rat option) \<Rightarrow> (string \<Rightarrow> string option) \<Rightarrow> string \<Rightarrow> config \<Rightarrow> db \<Rightarrow> (tuned \<times> int list) res" where
  "boot parse_float derive fresh c s =
    (case Validate c of Some e \<Rightarrow> Inl e
     | None \<Rightarrow>
       (case LoadPlatformSettings parse_float s of Inl e \<Rightarrow> Inl e
        | Inr plat \<Rightarrow>
          (case resolvePasetoKey derive fresh c of Inl e \<Rightarrow> Inl e
           | Inr key \<Rightarrow>
             (case token_New key (pv_PasetoSignedBy plat) (pv_PasetoExpiration plat) of
                None \<Rightarrow> Inl (ErrMsg ''decode paseto key'')
              | Some m \<Rightarrow> Inr (\<lparr>tu_platform = plat, tu_manager = m, tu_x_base = x_base_url (pv_XAPIBaseURL plat)\<rparr>,
                              SetTierThresholds (pv_XPTierThresholds plat) [])))))"

text \<open>The verifiers and the tables of the Apple callback, from the client ids of the configuration.\<close>

definition server_verifiers :: "config \<Rightarrow> verifiers" where
  "server_verifiers c =
    (let ids = splitCSVRaw (cf_apple_client_ids c)
     in \<lparr>vs_google = Some (NewGoogle (splitCSVRaw (cf_google_client_ids c))), vs_apple = Some (NewApple ids),
         vs_apple_apps = map (\<lambda>(app, auds). (app, NewApple auds)) (appleAppAudiences ids)\<rparr>)"

definition server_relay :: "config \<Rightarrow> relay_cfg" where
  "server_relay c = \<lparr>ry_packages = appleAppPackages (splitCSVRaw (cf_apple_client_ids c)),
     ry_relay = appleRelayIDs (splitCSVRaw (cf_apple_relay_ids c)), ry_base_url = cf_public_base_url c\<rparr>"

section \<open>Maintenance\<close>

text \<open>
  One tick: the nodes, the purges, the daily reward of operators, expired reservations, pins.  \<open>day\<close> is the
  current day as text; the result of the second component is the metrics table, of the third the unpin calls.
\<close>

definition maintenance :: "node_env \<Rightarrow> (db \<Rightarrow> db) \<Rightarrow> time \<Rightarrow> string \<Rightarrow> platform_values \<Rightarrow> int list \<Rightarrow> db \<times> metric_row list
    \<Rightarrow> db \<times> metric_row list \<times> (string \<times> string) list" where
  "maintenance env during now day plat thr st =
    (let (s, tab) = st;
         s = snd (MarkStaleNodesOffline now 95 s);
         s = PurgeExpiredFlowIDs now s;
         s = PurgeExpiredEmailOTPs now s;
         tab = PurgeOldNodeMetrics now (in_seconds (pv_NodeMetricsRetention plat)) tab;
         s = AwardOperatorUptimeXP now day thr (pv_XPUptimeDay plat) s;
         s = snd (ExpireDropReservations now 200 s);
         (s, calls) = reconcileDropPins env during now s
     in (s, tab, calls))"

section \<open>Rate limits\<close>

text \<open>
  The fixed window of \<open>internal/cache\<close>: Redis counts a key up and forgets it at the end of its window.  A
  counter is its value and the end of the window; without Redis (\<open>None\<close>) every request passes.
\<close>

type_synonym counters = "(string \<rightharpoonup> int \<times> time) option"

definition Allow :: "time \<Rightarrow> string \<Rightarrow> int \<Rightarrow> int \<Rightarrow> counters \<Rightarrow> bool \<times> counters" where
  "Allow now key limit window c =
    (case c of None \<Rightarrow> (True, c)
     | Some m \<Rightarrow>
       if limit \<le> 0 then (True, c)
       else (let (n, end_at) = (case m key of Some (n, t) \<Rightarrow> if now < t then (n + 1, t) else (1, now + window)
                                | None \<Rightarrow> (1, now + window))
             in (n \<le> limit, Some (m(key \<mapsto> (n, end_at))))))"

definition rateLimit :: "time \<Rightarrow> string \<Rightarrow> int \<Rightarrow> string \<Rightarrow> counters \<Rightarrow> failure option \<times> counters" where
  "rateLimit now scope perMinute clientIP c =
    (if perMinute \<le> 0 then (None, c)
     else case Allow now (''rl:'' @ scope @ '':'' @ clientIP) perMinute 60 c of
       (True, c) \<Rightarrow> (None, c)
     | (False, c) \<Rightarrow> (Some (429, ''rate limit exceeded; slow down''), c))"

definition dropRateLimit :: "time \<Rightarrow> string \<Rightarrow> bool \<Rightarrow> platform_values \<Rightarrow> id \<Rightarrow> string \<Rightarrow> counters
    \<Rightarrow> failure option \<times> counters" where
  "dropRateLimit now scope write plat userID clientIP c =
    (let perMin = (if write then pv_RateLimitDropWritePerMin plat else pv_RateLimitDropReadPerMin plat);
         key = (if userID = '''' then clientIP else userID)
     in if perMin \<le> 0 then (None, c)
        else case Allow now (''rl:'' @ scope @ '':'' @ key) perMin 60 c of
          (True, c) \<Rightarrow> (None, c)
        | (False, c) \<Rightarrow> (Some (429, ''rate limit exceeded; slow down''), c))"

end
