(* ===== verification/AccountFrames.thy ===== *)
theory AccountFrames
  imports SignIn
begin

text \<open>
  What signing in leaves alone.  Referral codes, rewards and the personal workspace are bookkeeping beside a login:
  they touch neither the identities of an account nor any code, challenge or linked account.
\<close>

text \<open>The columns of a user that identify the account.\<close>

definition ident :: "user \<Rightarrow> id \<times> string \<times> string \<times> bool \<times> string" where
  "ident u = (us_id u, us_wallet_address u, us_email u, us_email_verified u, us_role u)"

definition bookkeeping :: "db \<Rightarrow> db \<Rightarrow> bool" where
  "bookkeeping s s' \<longleftrightarrow> (\<exists>u x g p e m. map ident u = map ident (users s) \<and>
     s' = s\<lparr>users := u, xp_events := x, orgs := g, org_profiles := p, org_entitlements := e, org_members := m\<rparr>)"

lemma bookkeepingI:
  "map ident u = map ident (users s) \<Longrightarrow>
   bookkeeping s (s\<lparr>users := u, xp_events := x, orgs := g, org_profiles := p, org_entitlements := e, org_members := m\<rparr>)"
  unfolding bookkeeping_def by blast

lemma bookkeeping_refl [simp]: "bookkeeping s s"
  unfolding bookkeeping_def
  by (rule exI [of _ "users s"], rule exI [of _ "xp_events s"], rule exI [of _ "orgs s"], rule exI [of _ "org_profiles s"],
      rule exI [of _ "org_entitlements s"], rule exI [of _ "org_members s"]) simp

lemma bookkeeping_trans: "bookkeeping s t \<Longrightarrow> bookkeeping t u \<Longrightarrow> bookkeeping s u"
  by (auto simp: bookkeeping_def) metis

lemma bookkeeping_kept:
  assumes "bookkeeping s s'"
  shows "flow_ids s' = flow_ids s" "email_login_otps s' = email_login_otps s" "email_otps s' = email_otps s"
    "social_accounts s' = social_accounts s" "map ident (users s') = map ident (users s)"
  using assms by (auto simp: bookkeeping_def)

lemma ident_upd_rows: "(\<And>u. ident (f u) = ident u) \<Longrightarrow> map ident (upd_rows p f t) = map ident t"
  by (induction t) (auto simp: upd_rows_def)

lemma bookkeeping_users:
  "map ident u = map ident (users s) \<Longrightarrow> bookkeeping s (s\<lparr>users := u\<rparr>)"
  using bookkeepingI [where u = u and s = s
      and x = "xp_events s" and g = "orgs s" and p = "org_profiles s" and e = "org_entitlements s" and m = "org_members s"] by simp

lemma bookkeeping_events: "bookkeeping s (s\<lparr>xp_events := x\<rparr>)"
  using bookkeepingI [where u = "users s" and s = s
      and x = x and g = "orgs s" and p = "org_profiles s" and e = "org_entitlements s" and m = "org_members s"] by simp

lemma bookkeeping_orgs: "bookkeeping s (s\<lparr>orgs := g\<rparr>)"
  using bookkeepingI [where u = "users s" and s = s
      and x = "xp_events s" and g = g and p = "org_profiles s" and e = "org_entitlements s" and m = "org_members s"] by simp

lemma bookkeeping_profiles: "bookkeeping s (s\<lparr>org_profiles := p\<rparr>)"
  using bookkeepingI [where u = "users s" and s = s
      and x = "xp_events s" and g = "orgs s" and p = p and e = "org_entitlements s" and m = "org_members s"] by simp

lemma bookkeeping_entitlements: "bookkeeping s (s\<lparr>org_entitlements := e\<rparr>)"
  using bookkeepingI [where u = "users s" and s = s
      and x = "xp_events s" and g = "orgs s" and p = "org_profiles s" and e = e and m = "org_members s"] by simp

lemma bookkeeping_members: "bookkeeping s (s\<lparr>org_members := m\<rparr>)"
  using bookkeepingI [where u = "users s" and s = s
      and x = "xp_events s" and g = "orgs s" and p = "org_profiles s" and e = "org_entitlements s" and m = m] by simp

lemmas bookkeeping_row = bookkeeping_events bookkeeping_orgs bookkeeping_profiles bookkeeping_entitlements bookkeeping_members

lemma bookkeeping_seq:
  "bookkeeping s (snd r) \<Longrightarrow> (\<And>x t. bookkeeping t (snd (k x t))) \<Longrightarrow> bookkeeping s (snd (seq r k))"
  by (auto simp: seq_def split: prod.splits sum.splits intro: bookkeeping_trans)

lemma bookkeeping_tx: "(\<And>s. bookkeeping s (snd (body s))) \<Longrightarrow> bookkeeping s (snd (in_tx body s))"
  by (rule in_tx_inv [where J = "bookkeeping s"]) (simp, metis snd_conv)

section \<open>Rewards\<close>

lemma credit_bookkeeping: "bookkeeping s (snd (credit thr userID points s))"
  by (auto simp: credit_def ident_def intro!: bookkeeping_users ident_upd_rows split: sum.splits)

lemma insert_event_bookkeeping: "bookkeeping s (snd (insert_event e s))"
  by (auto simp: insert_event_def intro: bookkeeping_events)

lemma award_bookkeeping: "bookkeeping s (award env now userID kind points meta key s)"
  unfolding award_def AwardXPOnce_def awardXP_def
  by (rule bookkeeping_tx)
    (auto simp: awardXP_tx_def intro!: bookkeeping_seq insert_event_bookkeeping credit_bookkeeping)

lemma referral_bookkeeping: "bookkeeping s (awardReferralXP env now uid s)"
  by (auto simp: awardReferralXP_def Let_def split: sum.splits intro: bookkeeping_trans award_bookkeeping)

lemma bind_bookkeeping: "bookkeeping s (bindReferralCode env now uid ref s)"
proof -
  have "bookkeeping s (snd (BindReferrer uid referrerID s))" for referrerID
    by (auto simp: BindReferrer_def ident_def intro!: bookkeeping_users ident_upd_rows)
  moreover have "bookkeeping t (reward_if_qualified env now uid t)" for t
    by (simp add: reward_if_qualified_def referral_bookkeeping)
  ultimately show ?thesis
    by (auto simp: bindReferralCode_def Let_def split: sum.splits prod.splits) (metis bookkeeping_trans snd_conv)+
qed

section \<open>The personal workspace\<close>

lemma createOrg_bookkeeping: "bookkeeping s (snd (createOrg now fi uid inName inSlug plan s))"
proof -
  have "bookkeeping s (snd (insert_org x s))" "bookkeeping s (snd (insert_profile p s))"
    "bookkeeping s (snd (insert_entitlement e s))" "bookkeeping s (snd (insert_member m s))" for x p e m s
    by (auto simp: insert_org_def insert_profile_def insert_entitlement_def insert_member_def intro: bookkeeping_row)
  then have "bookkeeping s (snd (createOrg_tx now fi uid name slug plan s))" for name slug s
    unfolding createOrg_tx_def Let_def by (intro bookkeeping_seq) simp_all
  then show ?thesis by (auto simp: createOrg_def Let_def split: sum.splits intro: bookkeeping_tx)
qed

lemma EnsurePersonalOrg_bookkeeping: "bookkeeping s (snd (EnsurePersonalOrg now fi uid w s))"
  by (auto simp: EnsurePersonalOrg_def intro!: bookkeeping_seq createOrg_bookkeeping split: option.splits)

lemma bootstrap_bookkeeping: "bookkeeping s (bootstrapUser env now dw u s)"
  using EnsurePersonalOrg_bookkeeping [of s now "dw_org dw" "us_id u" "us_wallet_address u"]
  by (auto simp: bootstrapUser_def split: prod.splits sum.splits bool.splits
      intro: bookkeeping_trans referral_bookkeeping)

lemma login_bookkeeping: "bookkeeping s (bootstrapUser env now dw u (bindReferralCode env now uid ref s))"
  by (rule bookkeeping_trans [OF bind_bookkeeping bootstrap_bookkeeping])

end
