(* ===== verification/AccountSafety.thy ===== *)
theory AccountSafety
  imports AccountFrames NodeSafety
begin

text \<open>
  What signing in guarantees: wallet logins are authentic and their challenges single-use, one-time codes bear
  few guesses, ID tokens are checked before an account is touched.
\<close>

section \<open>One-time codes\<close>

text \<open>
  The interface of a book of one-time codes: \<open>code\<close> is the hash and the number of wrong guesses of the code that is
  pending at a time, \<open>bump\<close> counts a wrong guess, \<open>clear\<close> forgets the code; \<open>ok\<close> is what the book keeps.  A code
  may expire, but no other one takes its place then.
\<close>

locale code_book =
  fixes code :: "time \<Rightarrow> 's \<Rightarrow> (string \<times> int) option"
    and bump :: "time \<Rightarrow> 's \<Rightarrow> 's"
    and clear :: "'s \<Rightarrow> 's"
    and ok :: "'s \<Rightarrow> bool"
  assumes bump_code: "code now s = Some (h, n) \<Longrightarrow> code now (bump now s) = Some (h, n + 1)"
    and clear_code: "code now (clear s) = None"
    and expires: "ok s \<Longrightarrow> now \<le> later \<Longrightarrow> code later s = None \<or> code later s = code now s"
    and bump_ok: "ok s \<Longrightarrow> ok (bump now s)"
    and clear_ok: "ok s \<Longrightarrow> ok (clear s)"
begin

definition spent :: "string \<Rightarrow> int \<Rightarrow> time \<Rightarrow> 's \<Rightarrow> bool" where
  "spent h k now s \<longleftrightarrow> (case code now s of None \<Rightarrow> True | Some (h', n) \<Rightarrow> h' = h \<and> k \<le> n)"

definition guess :: "time \<Rightarrow> string \<Rightarrow> 's \<Rightarrow> bool \<times> 's" where
  "guess now h s = (case code now s of None \<Rightarrow> (False, s)
     | Some (h', n) \<Rightarrow> if n \<ge> otpMaxAttempts then (False, clear s) else if h' \<noteq> h then (False, bump now s)
         else (True, clear s))"

definition guesses :: "(time \<times> string) list \<Rightarrow> 's \<Rightarrow> 's" where
  "guesses = fold (\<lambda>(t, h) s. snd (guess t h s))"

lemma guess_ok: "ok s \<Longrightarrow> ok (snd (guess now h s))"
  by (auto simp: guess_def bump_ok clear_ok split: option.splits)

lemma spent_later: "ok s \<Longrightarrow> now \<le> later \<Longrightarrow> spent h k now s \<Longrightarrow> spent h k later s"
  using expires [of s now later] by (auto simp: spent_def split: option.splits)

lemma wrong_guess:
  "spent h k now s \<Longrightarrow> h' \<noteq> h \<Longrightarrow> spent h (k + 1) now (snd (guess now h' s)) \<and> \<not> fst (guess now h' s)"
  by (auto simp: spent_def guess_def clear_code bump_code split: option.splits)

lemma wrong_guesses:
  assumes "ok s" and "spent h k now s" and "h \<notin> snd ` set hs" and "sorted (now # map fst hs @ [later])"
  shows "spent h (k + int (length hs)) later (guesses hs s)"
  using assms
proof (induction hs arbitrary: k now s)
  case Nil
  then show ?case by (simp add: guesses_def spent_later)
next
  case (Cons th hs)
  obtain t h' where th: "th = (t, h')" by (cases th)
  from Cons.prems th have "spent h k t s" by (auto intro: spent_later)
  with Cons.prems(3) th have "spent h (k + 1) t (snd (guess t h' s))" using wrong_guess by auto
  then have "spent h (k + 1 + int (length hs)) later (guesses hs (snd (guess t h' s)))"
    using Cons.prems th by (intro Cons.IH [where now = t]) (auto intro: guess_ok)
  then show ?case by (simp add: guesses_def th ac_simps)
qed

lemma exhausted: "spent h otpMaxAttempts now s \<Longrightarrow> \<not> fst (guess now h' s)"
  by (auto simp: spent_def guess_def split: option.splits)

lemma five_guesses:
  assumes "ok s" and "spent h 0 now s" and "h \<notin> snd ` set hs" and "otpMaxAttempts \<le> int (length hs)"
    and "sorted (now # map fst hs @ [later])"
  shows "\<not> fst (guess later h' (guesses hs s))"
proof -
  have "spent h (int (length hs)) later (guesses hs s)" using wrong_guesses [OF assms(1,2,3,5)] by simp
  with assms(4) have "spent h otpMaxAttempts later (guesses hs s)" by (auto simp: spent_def split: option.splits)
  then show ?thesis by (rule exhausted)
qed

end

text \<open>Both kinds of codes are such books.\<close>

definition login_code :: "time \<Rightarrow> string \<Rightarrow> db \<Rightarrow> (string \<times> int) option" where
  "login_code now email s = (case GetLoginOTP s now email of Inl _ \<Rightarrow> None | Inr x \<Rightarrow> Some (lo_code_hash x, lo_attempts x))"

definition link_code :: "time \<Rightarrow> id \<Rightarrow> string \<Rightarrow> db \<Rightarrow> (string \<times> int) option" where
  "link_code now uid email s =
    (case LatestEmailOTP s now uid email of Inl _ \<Rightarrow> None | Inr x \<Rightarrow> Some (eo_code_hash x, eo_attempts x))"

definition bump_link :: "time \<Rightarrow> id \<Rightarrow> string \<Rightarrow> db \<Rightarrow> db" where
  "bump_link now uid email s =
    (case LatestEmailOTP s now uid email of Inl _ \<Rightarrow> s | Inr x \<Rightarrow> snd (BumpEmailOTPAttempts (eo_id x) s))"

lemma find_upd_key_other:
  assumes "\<And>r. q (f r) = q r" and "\<And>r. q r \<Longrightarrow> p r"
  shows "find q (upd_rows p f t) = map_option f (find q t)"
  using assms by (induction t) (auto simp: upd_rows_def)

lemma login_bump:
  assumes "login_code now email s = Some (h, n)"
  shows "login_code now email (snd (BumpLoginOTPAttempts email s)) = Some (h, n + 1)"
proof -
  let ?q = "\<lambda>x. lo_email x = email \<and> lo_expires_at x > now"
  from assms obtain x where x: "find ?q (email_login_otps s) = Some x" "h = lo_code_hash x" "n = lo_attempts x"
    by (auto simp: login_code_def GetLoginOTP_def split: option.splits)
  have "find (\<lambda>x. lo_email x = email) (email_login_otps s) \<noteq> None"
    using find_SomeD [OF x(1)] by (auto simp: find_None_iff)
  moreover have "find ?q (upd_rows (\<lambda>x. lo_email x = email) (\<lambda>x. x\<lparr>lo_attempts := lo_attempts x + 1\<rparr>) (email_login_otps s))
      = map_option (\<lambda>x. x\<lparr>lo_attempts := lo_attempts x + 1\<rparr>) (find ?q (email_login_otps s))"
    by (rule find_upd_key_other) simp_all
  ultimately show ?thesis using x by (auto simp: login_code_def GetLoginOTP_def BumpLoginOTPAttempts_def)
qed

lemma login_clear: "login_code now email (DeleteLoginOTP email s) = None"
  by (auto simp: login_code_def GetLoginOTP_def DeleteLoginOTP_def del_rows_def find_None_iff split: option.splits dest!: find_SomeD)

definition login_ok :: "db \<Rightarrow> bool" where "login_ok s = distinct (map lo_email (email_login_otps s))"

lemma map_upd_rows: "(\<And>r. k (f r) = k r) \<Longrightarrow> map k (upd_rows p f t) = map k t"
  by (induction t) (auto simp: upd_rows_def)

lemma distinct_del_rows: "distinct (map k t) \<Longrightarrow> distinct (map k (del_rows p t))"
  by (induction t) (auto simp: del_rows_def)

lemma find_unique:
  assumes "distinct (map k t)" and "r \<in> set t" and "k r = v"
  shows "find (\<lambda>x. k x = v \<and> q x) t = (if q r then Some r else None)"
  using assms by (induction t) (auto simp: find_None_iff image_iff)

lemma login_expires:
  assumes "login_ok s" and "now \<le> later"
  shows "login_code later email s = None \<or> login_code later email s = login_code now email s"
proof (cases "\<exists>x \<in> set (email_login_otps s). lo_email x = email")
  case True
  then obtain x where x: "x \<in> set (email_login_otps s)" "lo_email x = email" by blast
  have "find (\<lambda>y. lo_email y = email \<and> lo_expires_at y > t) (email_login_otps s)
      = (if lo_expires_at x > t then Some x else None)" for t
    using assms(1) x by (intro find_unique) (simp_all add: login_ok_def)
  then show ?thesis using assms(2) by (simp add: login_code_def GetLoginOTP_def)
next
  case False
  then show ?thesis by (auto simp: login_code_def GetLoginOTP_def find_None_iff split: option.splits dest!: find_SomeD)
qed

interpretation login_codes: code_book "\<lambda>now. login_code now email" "\<lambda>_ s. snd (BumpLoginOTPAttempts email s)"
    "DeleteLoginOTP email" login_ok
  for email
proof unfold_locales
  fix s :: db
  assume "login_ok s"
  then show "login_ok (snd (BumpLoginOTPAttempts email s))" "login_ok (DeleteLoginOTP email s)"
    by (auto simp: login_ok_def BumpLoginOTPAttempts_def DeleteLoginOTP_def map_upd_rows distinct_del_rows
        split: option.splits)
qed (simp_all add: login_bump login_clear login_expires)

lemma sort_upd_rows:
  assumes "\<And>r. k (f r) = k r"
  shows "sort_key k (upd_rows p f t) = upd_rows p f (sort_key k t)"
proof (induction t)
  case Nil
  then show ?case by (simp add: upd_rows_def)
next
  case (Cons x t)
  have ins: "insort_key k (if p y then f y else y) (upd_rows p f u) = upd_rows p f (insort_key k y u)" for y u
    by (induction u) (auto simp: upd_rows_def assms)
  show ?case using Cons ins [of x "sort_key k t"] by (simp add: upd_rows_def)
qed

lemma filter_upd_rows:
  assumes "\<And>r. q (f r) = q r"
  shows "filter q (upd_rows p f t) = upd_rows p f (filter q t)"
  using assms by (induction t) (auto simp: upd_rows_def)

lemma link_bump:
  assumes "link_code now uid email s = Some (h, n)"
  shows "link_code now uid email (bump_link now uid email s) = Some (h, n + 1)"
proof -
  let ?q = "\<lambda>x. otp_for uid email x \<and> eo_expires_at x > now"
  let ?f = "\<lambda>x. x\<lparr>eo_attempts := eo_attempts x + 1\<rparr>"
  obtain x xs where x: "order_desc eo_created_at (filter ?q (email_otps s)) = x # xs" "h = eo_code_hash x" "n = eo_attempts x"
    using assms by (auto simp: link_code_def LatestEmailOTP_def first_row_def split: option.splits list.splits)
  have "x \<in> set (email_otps s)"
  proof -
    have "x \<in> set (order_desc eo_created_at (filter ?q (email_otps s)))" by (simp add: x(1))
    then show ?thesis by (simp add: order_desc_def)
  qed
  then have "find (\<lambda>r. eo_id r = eo_id x) (email_otps s) \<noteq> None" by (auto simp: find_None_iff)
  then have b: "email_otps (bump_link now uid email s) = upd_rows (\<lambda>r. eo_id r = eo_id x) ?f (email_otps s)"
    using x(1) by (auto simp: bump_link_def LatestEmailOTP_def first_row_def BumpEmailOTPAttempts_def)
  have "filter ?q (upd_rows (\<lambda>r. eo_id r = eo_id x) ?f (email_otps s)) = upd_rows (\<lambda>r. eo_id r = eo_id x) ?f (filter ?q (email_otps s))"
    by (rule filter_upd_rows) (simp add: otp_for_def)
  then have "order_desc eo_created_at (filter ?q (email_otps (bump_link now uid email s)))
      = upd_rows (\<lambda>r. eo_id r = eo_id x) ?f (x # xs)"
    unfolding b x(1) [symmetric] order_desc_def by (simp add: sort_upd_rows)
  with x show ?thesis by (simp add: link_code_def LatestEmailOTP_def first_row_def upd_rows_def)
qed

lemma link_clear: "link_code now uid email (DeleteEmailOTPs uid email s) = None"
proof -
  have "filter (\<lambda>x. otp_for uid email x \<and> eo_expires_at x > now) (del_rows (otp_for uid email) (email_otps s)) = []"
    by (auto simp: del_rows_def filter_empty_conv)
  then show ?thesis by (simp add: link_code_def LatestEmailOTP_def DeleteEmailOTPs_def first_row_def order_desc_def)
qed

text \<open>Codes of one address expire in the order they were sent.\<close>

definition link_ok :: "id \<Rightarrow> string \<Rightarrow> db \<Rightarrow> bool" where
  "link_ok uid email s \<longleftrightarrow> (\<forall>x\<in>set (email_otps s). \<forall>y\<in>set (email_otps s). otp_for uid email x \<and> otp_for uid email y \<and>
     eo_created_at x \<le> eo_created_at y \<longrightarrow> eo_expires_at x \<le> eo_expires_at y)"

lemma link_expires:
  assumes "link_ok uid email s" and "now \<le> later"
  shows "link_code later uid email s = None \<or> link_code later uid email s = link_code now uid email s"
proof -
  define S where "S t = order_desc eo_created_at (filter (\<lambda>x. otp_for uid email x \<and> eo_expires_at x > t) (email_otps s))" for t
  have S_later: "S later = filter (\<lambda>x. eo_expires_at x > later) (S now)"
    using assms(2) by (simp add: S_def order_desc_def filter_sort) (rule arg_cong [where f = "sort_key _"], auto intro: filter_cong)
  have code: "link_code t uid email s = (case S t of [] \<Rightarrow> None | x # _ \<Rightarrow> Some (eo_code_hash x, eo_attempts x))" for t
    by (simp add: link_code_def LatestEmailOTP_def first_row_def S_def split: list.splits)
  show ?thesis
  proof (cases "S later")
    case Nil
    then show ?thesis by (simp add: code)
  next
    case (Cons y ys)
    then have "y \<in> set (S later)" by simp
    then have y: "y \<in> set (S now)" "eo_expires_at y > later" unfolding S_later by simp_all
    then obtain x xs where x: "S now = x # xs" by (cases "S now") auto
    have "sorted (map (\<lambda>r. - eo_created_at r) (S now))" by (simp add: S_def order_desc_def)
    with x y have "eo_created_at y \<le> eo_created_at x" by auto
    moreover have "set (S now) \<subseteq> {r \<in> set (email_otps s). otp_for uid email r}" by (auto simp: S_def order_desc_def)
    ultimately have "eo_expires_at x > later" using assms(1) x y unfolding link_ok_def by fastforce
    with S_later x show ?thesis by (simp add: code)
  qed
qed

lemma link_ok_bump: "link_ok uid email s \<Longrightarrow> link_ok uid email (bump_link now uid email s)"
  by (auto simp: link_ok_def bump_link_def BumpEmailOTPAttempts_def upd_rows_def otp_for_def split: sum.splits option.splits)

interpretation link_codes: code_book "\<lambda>now. link_code now uid email" "\<lambda>now. bump_link now uid email"
    "DeleteEmailOTPs uid email" "link_ok uid email"
  for uid email
proof unfold_locales
  fix s :: db
  assume "link_ok uid email s"
  then show "link_ok uid email (DeleteEmailOTPs uid email s)"
    by (auto simp: link_ok_def DeleteEmailOTPs_def del_rows_def)
qed (simp_all add: link_bump link_clear link_expires link_ok_bump)

section \<open>Guessing a login code\<close>

definition tries_at :: "auth_env \<Rightarrow> string \<Rightarrow> string \<Rightarrow> verify_req \<Rightarrow> bool" where
  "tries_at env email h r \<longleftrightarrow> normalizeEmail (vq_email r) = Some email \<and> TrimSpace (vq_code r) \<noteq> '''' \<and>
     au_hash env (TrimSpace (vq_code r)) \<noteq> h"

definition verify_all :: "auth_env \<Rightarrow> (time \<times> draws \<times> verify_req) list \<Rightarrow> db \<Rightarrow> db" where
  "verify_all env = fold (\<lambda>(t, dw, r) s. snd (handleEmailLoginVerify env t dw (Some r) s))"

lemma verify_failed:
  assumes "normalizeEmail (vq_email r) = Some email" and "TrimSpace (vq_code r) \<noteq> ''''"
    and "\<not> fst (login_codes.guess email now (au_hash env (TrimSpace (vq_code r))) s)"
  shows "snd (handleEmailLoginVerify env now dw (Some r) s)
           = snd (login_codes.guess email now (au_hash env (TrimSpace (vq_code r))) s)"
    and "\<exists>c m. fst (handleEmailLoginVerify env now dw (Some r) s) = Fail c m"
  using assms
  by (auto simp: handleEmailLoginVerify_def login_codes.guess_def login_code_def wrong_code_def Let_def
      split: sum.splits if_splits prod.splits)

lemma tries_guesses:
  assumes "list_all (\<lambda>(t, dw, r). tries_at env email h r) tries" and "login_ok s" and "login_codes.spent email h k now s"
    and "sorted (now # map fst tries)"
  shows "verify_all env tries s
    = login_codes.guesses email (map (\<lambda>(t, dw, r). (t, au_hash env (TrimSpace (vq_code r)))) tries) s"
  using assms
proof (induction tries arbitrary: k now s)
  case Nil
  then show ?case by (simp add: verify_all_def login_codes.guesses_def)
next
  case (Cons x tries)
  obtain t dw r where x: "x = (t, dw, r)" by (cases x)
  let ?h = "au_hash env (TrimSpace (vq_code r))" let ?s = "snd (login_codes.guess email t ?h s)"
  have r: "normalizeEmail (vq_email r) = Some email" "TrimSpace (vq_code r) \<noteq> ''''" "?h \<noteq> h"
    using Cons.prems(1) by (simp_all add: x tries_at_def)
  have "login_codes.spent email h k t s" using Cons.prems x by (auto intro: login_codes.spent_later)
  then have g: "login_codes.spent email h (k + 1) t ?s" "\<not> fst (login_codes.guess email t ?h s)"
    using login_codes.wrong_guess r(3) by blast+
  have "verify_all env tries ?s
      = login_codes.guesses email (map (\<lambda>(t, dw, r). (t, au_hash env (TrimSpace (vq_code r)))) tries) ?s"
    using Cons.prems x g(1) by (intro Cons.IH [where now = t]) (auto intro: login_codes.guess_ok)
  then show ?case
    using verify_failed(1) [OF r(1,2) g(2), of dw] by (simp add: verify_all_def login_codes.guesses_def x)
qed

text \<open>
  C12. Five wrong guesses burn a login code. Let a code be pending for an address, and let any requests with wrong
  codes for that address follow one another, five or more of them: whatever is asked afterwards for the address, the
  right code included, the handler refuses and issues no token, until a new code is requested.  The requests may come
  at any times and spell the address in any way that normalises to it.\<close>

theorem login_code_bounded:
  assumes "login_code now email s = Some (h, n)" and "0 \<le> n" and "login_ok s"
    and "list_all (\<lambda>(t, dw, r). tries_at env email h r) tries" and "otpMaxAttempts \<le> int (length tries)"
    and "sorted (now # map fst tries @ [later])" and "normalizeEmail (vq_email r) = Some email"
  shows "\<exists>c m. fst (handleEmailLoginVerify env later dw (Some r) (verify_all env tries s)) = Fail c m"
proof (cases "TrimSpace (vq_code r) = ''''")
  case True
  then show ?thesis by (simp add: handleEmailLoginVerify_def)
next
  case False
  let ?hs = "map (\<lambda>(t, dw, r). (t, au_hash env (TrimSpace (vq_code r)))) tries"
  have spent: "login_codes.spent email h 0 now s" using assms(1,2) by (simp add: login_codes.spent_def)
  have times: "map fst ?hs = map fst tries" by (simp add: case_prod_beta comp_def)
  have "h \<notin> snd ` set ?hs" using assms(4) by (fastforce simp: tries_at_def list_all_iff)
  with assms(3,5,6) spent
  have "\<not> fst (login_codes.guess email later (au_hash env (TrimSpace (vq_code r))) (login_codes.guesses email ?hs s))"
    by (intro login_codes.five_guesses [where h = h and now = now]) (simp_all only: times length_map not_False_eq_True)
  moreover have "verify_all env tries s = login_codes.guesses email ?hs s"
    using assms(3,4,6) spent by (intro tries_guesses) (auto simp: sorted_append)
  ultimately show ?thesis using verify_failed(2) [OF assms(7) False] by simp
qed

section \<open>Logging in with a wallet\<close>

lemma ident_in:
  assumes "map ident us = map ident vs" and "u \<in> set us"
  shows "\<exists>v\<in>set vs. ident v = ident u"
proof -
  have "ident u \<in> set (map ident us)" using assms(2) by simp
  then show ?thesis unfolding assms(1) by auto
qed

lemma Upsert_okD:
  assumes "UpsertUserByWallet now i wallet chain admin s = (Inr u, s')"
  shows "u \<in> set (users s')" "us_wallet_address u = wallet"
    "us_role u = (if admin \<noteq> '''' \<and> eqFold wallet admin then ''admin'' else ''user'')" "flow_ids s' = flow_ids s"
  using assms
  by (auto simp: UpsertUserByWallet_def Let_def upd_rows_def seq_def insert_user_def split: option.splits if_splits
      dest: find_SomeD)

lemma issue_okD:
  assumes "issueAndRespond env now u = Ok c (tok, uid, role)"
  shows "c = 200" "uid = us_id u" "role = us_role u"
    "IssueUser (au_token env) (au_manager env) now (us_id u) (us_wallet_address u) (us_chain u) (us_role u) = Some tok"
  using assms by (auto simp: issueAndRespond_def split: option.splits)

lemma flow_gone: "\<not> has_row (\<lambda>f. fl_flow_id f = i) (flow_ids s) \<Longrightarrow> GetFlowID now i s = (Inl ErrNotFound, s)"
  by (auto simp: GetFlowID_def has_row_iff find_None_iff split: option.splits dest!: find_SomeD)

text \<open>
  C6. A wallet login is authentic and its challenge single-use. A completed login names a challenge that was issued
  and has not expired, and carries a signature of its text that recovers to the wallet it was issued for; the token
  is for an account with exactly that wallet, and its role is admin only for the configured administrator's wallet.
  The challenge is gone afterwards: the same request, and any other that names it, is refused with 401, whether to
  log in or to link a wallet.\<close>

theorem sign_in_authentic:
  assumes "handleAuthComplete env now dw (Some req) s = (Ok c (tok, uid, role), s')"
  shows "\<exists>flow\<in>set (flow_ids s). fl_flow_id flow = aq_flow_id req \<and> now \<le> fl_expires_at flow \<and>
      proves_wallet env flow (aq_signature req) (aq_public_key req) \<and>
      (\<exists>u\<in>set (users s'). us_id u = uid \<and> us_wallet_address u = fl_wallet_address flow \<and> us_role u = role) \<and>
      (role = ''admin'' \<longrightarrow> au_admin_wallet env \<noteq> '''' \<and> eqFold (fl_wallet_address flow) (au_admin_wallet env)) \<and>
      (\<exists>chain. IssueUser (au_token env) (au_manager env) now uid (fl_wallet_address flow) chain role = Some tok) \<and>
      (\<forall>again later dw' cl. aq_flow_id again = aq_flow_id req \<and> aq_signature again \<noteq> '''' \<longrightarrow>
        fst (handleAuthComplete env later dw' (Some again) s') = Fail 401 ''flow id not found or expired'' \<and>
        fst (handleLinkWallet env later cl (Some again) s') = Fail 401 ''flow id not found or expired'')"
proof -
  obtain flow where f: "flow \<in> set (flow_ids s)" "fl_flow_id flow = aq_flow_id req" "now \<le> fl_expires_at flow"
    and p: "proves_wallet env flow (aq_signature req) (aq_public_key req)" and nonempty: "aq_flow_id req \<noteq> ''''"
    and l: "complete_login env now dw flow (aq_ref req) (DeleteFlowID (aq_flow_id req) s) = (Ok c (tok, uid, role), s')"
    using assms
    by (auto simp: handleAuthComplete_def split: if_splits prod.splits sum.splits dest!: GetFlowID_okD)
  then obtain u t where u: "UpsertUserByWallet now (dw_user dw) (fl_wallet_address flow) (fl_chain flow)
        (au_admin_wallet env) (DeleteFlowID (aq_flow_id req) s) = (Inr u, t)"
    and i: "issueAndRespond env now u = Ok c (tok, uid, role)"
    and s': "s' = bootstrapUser env now dw u (bindReferralCode env now (us_id u) (aq_ref req) t)"
    by (auto simp: complete_login_def split: prod.splits sum.splits)
  have k: "map ident (users t) = map ident (users s')" "flow_ids s' = flow_ids t"
    using bookkeeping_kept [OF login_bookkeeping [of t env now dw u "us_id u" "aq_ref req"]] by (simp_all add: s')
  obtain v where "v \<in> set (users s')" "ident v = ident u" using ident_in [OF k(1) Upsert_okD(1) [OF u]] by blast
  then have v: "\<exists>v\<in>set (users s'). us_id v = uid \<and> us_wallet_address v = fl_wallet_address flow \<and> us_role v = role"
    using issue_okD [OF i] Upsert_okD [OF u] by (intro bexI [of _ v]) (simp_all add: ident_def)
  have "\<not> has_row (\<lambda>f. fl_flow_id f = aq_flow_id req) (flow_ids s')"
    using k(2) Upsert_okD(4) [OF u] by (auto simp: DeleteFlowID_def del_rows_def has_row_iff)
  then have replay: "fst (handleAuthComplete env later dw' (Some again) s') = Fail 401 ''flow id not found or expired'' \<and>
      fst (handleLinkWallet env later cl (Some again) s') = Fail 401 ''flow id not found or expired''"
    if "aq_flow_id again = aq_flow_id req" "aq_signature again \<noteq> ''''" for again later dw' cl
    using that nonempty by (simp add: handleAuthComplete_def handleLinkWallet_def flow_gone)
  show ?thesis
    using f p v issue_okD [OF i] Upsert_okD [OF u] replay by (intro bexI [of _ flow]) (auto split: if_splits)
qed

section \<open>Logging in with an ID token\<close>

text \<open>What has to hold of an ID token: three parts, RS256, a payload from a trusted issuer for this app, unexpired and
  with a subject, signed with a key of the provider.\<close>

definition genuine :: "oidc_lib \<Rightarrow> time \<Rightarrow> verifier \<Rightarrow> string \<Rightarrow> oidc_payload \<Rightarrow> bool" where
  "genuine lib now v idToken pl \<longleftrightarrow>
    (\<exists>h p sg kid k b. split_dots (TrimSpace idToken) '''' = [h, p, sg] \<and> ol_header lib h = Some (''RS256'', kid) \<and>
       ol_payload lib p = Some pl \<and> ip_iss pl \<in> set (vf_issuers v) \<and> audienceOK v (ip_aud pl) \<and>
       ip_exp pl \<noteq> 0 \<and> now \<le> ip_exp pl + 30 \<and> ip_sub pl \<noteq> '''' \<and>
       (map_of (vf_keys v) kid = Some k \<or> (\<exists>ks. ol_fetch lib (vf_jwks_url v) = Some ks \<and> map_of ks kid = Some k)) \<and>
       ol_signature lib sg = Some b \<and> ol_rsa lib k (h @ ''.'' @ p) b)"

lemma verifier_key_okD:
  assumes "verifier_key lib now kid v = (Inr k, v')"
  shows "map_of (vf_keys v) kid = Some k \<or> (\<exists>ks. ol_fetch lib (vf_jwks_url v) = Some ks \<and> map_of ks kid = Some k)"
  using assms by (auto simp: verifier_key_def Let_def split: option.splits if_splits)

lemma payload_fault_None:
  "payload_fault now v pl = None \<longleftrightarrow> ip_iss pl \<in> set (vf_issuers v) \<and> audienceOK v (ip_aud pl) \<and> ip_exp pl \<noteq> 0 \<and>
     now \<le> ip_exp pl + 30 \<and> ip_sub pl \<noteq> ''''"
  by (auto simp: payload_fault_def)

lemma oauth_Verify_okD:
  assumes "oauth_Verify lib now tok v = (Inr c, v')"
  shows "\<exists>pl. genuine lib now v tok pl \<and> c = oauth_claims_of pl"
proof -
  obtain h p sg where parts: "split_dots (TrimSpace tok) '''' = [h, p, sg]"
    using assms by (auto simp: oauth_Verify_def split: list.splits)
  obtain kid pl k v1 b where "ol_header lib h = Some (''RS256'', kid)" "ol_payload lib p = Some pl"
    "payload_fault now v pl = None" "verifier_key lib now kid v = (Inr k, v1)" "ol_signature lib sg = Some b"
    "ol_rsa lib k (h @ ''.'' @ p) b" "c = oauth_claims_of pl"
    using assms by (auto simp: oauth_Verify_def parts split: option.splits if_splits prod.splits sum.splits)
  with parts verifier_key_okD [of lib now kid v k v1] show ?thesis
    unfolding genuine_def payload_fault_None by blast
qed

text \<open>Which account a login through a provider reaches.\<close>

lemma LinkSocial_new:
  assumes "find (social_at p i) (social_accounts s) = None"
  shows "LinkSocialAccount now uid p i handle s =
    (if fk_user s uid then (Inr True, s\<lparr>social_accounts := social_accounts s @ [\<lparr>sa_user_id = uid, sa_provider = p,
       sa_provider_id = i, sa_handle = handle, sa_verified_at = now\<rparr>]\<rparr>) else (Inl foreign_key_violation, s))"
  using assms by (simp add: LinkSocialAccount_def)

definition account_of :: "db \<Rightarrow> id \<Rightarrow> string \<Rightarrow> string \<Rightarrow> string \<Rightarrow> id \<Rightarrow> bool" where
  "account_of s newID p i email uid \<longleftrightarrow>
    (case find (social_at p i) (social_accounts s) of
       Some a \<Rightarrow> uid = sa_user_id a
     | None \<Rightarrow> (if email \<noteq> '''' \<and> (\<exists>x. userIDByVerifiedEmail s email = Inr x)
                then userIDByVerifiedEmail s email = Inr uid else uid = newID \<and> \<not> fk_user s newID))"

lemma GetUser_okD: "GetUser s i = Inr u \<Longrightarrow> us_id u = i \<and> u \<in> set (users s)"
  by (auto simp: GetUser_def split: option.splits dest: find_SomeD)

lemma Resolve_okD:
  assumes "ResolveOrCreateUserBySocial now newID p i email handle s = (Inr (u, created), s')"
  shows "account_of s newID p i email (us_id u)"
    and "\<exists>a\<in>set (social_accounts s'). social_at p i a \<and> sa_user_id a = us_id u"
proof -
  have found [simp]: "map_sum id (\<lambda>u. (u, False)) r = Inr (u, c) \<longleftrightarrow> r = Inr u \<and> \<not> c" for r :: "user res" and c
    by (cases r) auto
  have "account_of s newID p i email (us_id u) \<and> (\<exists>a\<in>set (social_accounts s'). social_at p i a \<and> sa_user_id a = us_id u)"
  proof (cases "find (social_at p i) (social_accounts s)")
    case (Some a)
    then show ?thesis using assms find_SomeD [OF Some]
      by (auto simp: ResolveOrCreateUserBySocial_def account_of_def dest!: GetUser_okD)
  next
    case None
    show ?thesis
    proof (cases "if email \<noteq> '''' then userIDByVerifiedEmail s email else Inl ErrNotFound")
      case (Inr x)
      then show ?thesis using assms None
        by (auto simp: ResolveOrCreateUserBySocial_def account_of_def LinkSocial_new social_at_def
            split: if_splits dest!: GetUser_okD)
    next
      case (Inl e)
      then show ?thesis using assms None
        by (auto simp: ResolveOrCreateUserBySocial_def account_of_def LinkSocial_new social_at_def seq_def
            insertUser_def insert_user_def Let_def fk_user_def has_row_iff split: if_splits)
    qed
  qed
  then show "account_of s newID p i email (us_id u)"
    and "\<exists>a\<in>set (social_accounts s'). social_at p i a \<and> sa_user_id a = us_id u" by simp_all
qed

lemma social_login_okD:
  assumes "social_login env now dw provider cl ref s = (Ok c (tok, uid, role), s')"
  shows "account_of s (dw_user dw) provider (oc_subject cl) (trusted_email cl) uid"
    and "\<exists>a\<in>set (social_accounts s'). social_at provider (oc_subject cl) a \<and> sa_user_id a = uid"
proof -
  obtain u created t where r: "ResolveOrCreateUserBySocial now (dw_user dw) provider (oc_subject cl) (trusted_email cl)
      (trusted_email cl) s = (Inr (u, created), t)"
    and i: "issueAndRespond env now u = Ok c (tok, uid, role)"
    and s': "s' = bootstrapUser env now dw u (bindReferralCode env now (us_id u) ref t)"
    using assms by (auto simp: social_login_def finishIdentityLogin_def Let_def split: prod.splits sum.splits)
  have "social_accounts s' = social_accounts t"
    using bookkeeping_kept [OF login_bookkeeping [of t env now dw u "us_id u" ref]] by (simp add: s')
  with Resolve_okD [OF r] issue_okD [OF i]
  show "account_of s (dw_user dw) provider (oc_subject cl) (trusted_email cl) uid"
    and "\<exists>a\<in>set (social_accounts s'). social_at provider (oc_subject cl) a \<and> sa_user_id a = uid" by simp_all
qed

text \<open>
  C11. A login with a Google ID token rests on a genuine token. When the handler issues a session, the token has three
  parts and is signed with RS256 by a key the provider publishes (or the cached one), its issuer and audience are
  among the configured ones, it has a subject and has not expired by more than 30 seconds; the account is the one
  this subject was linked to before, or else the one whose verified email the provider vouches for, or else a fresh
  one; and afterwards the subject is linked to it.\<close>

theorem oidc_login_authentic:
  assumes "handleGoogleAuth env now dw (Some req) (s, vs) = (Ok c (tok, uid, role), s', vs')"
  shows "\<exists>v pl. vs_google vs = Some v \<and> genuine (au_oidc env) now v (oq_id_token req) pl \<and>
    (case find (social_at ''google'' (ip_sub pl)) (social_accounts s) of
       Some a \<Rightarrow> uid = sa_user_id a
     | None \<Rightarrow> (parseFlexBool (ip_email_verified pl) \<and> (\<exists>u\<in>set (users s). us_id u = uid \<and> us_email_verified u \<and>
          us_email u \<noteq> '''' \<and> ToLower (us_email u) = ToLower (TrimSpace (ip_email pl)))) \<or> (uid = dw_user dw \<and> \<not> fk_user s uid)) \<and>
    (\<exists>a\<in>set (social_accounts s'). social_at ''google'' (ip_sub pl) a \<and> sa_user_id a = uid)"
proof -
  from assms obtain v cl v' where v: "vs_google vs = Some v" "oauth_Verify (au_oidc env) now (oq_id_token req) v = (Inr cl, v')"
    and l: "social_login env now dw ''google'' cl (oq_ref req) s = (Ok c (tok, uid, role), s')"
    by (auto simp: handleGoogleAuth_def oidcLogin_def verify_with_def slot_verifier_def Let_def
        split: if_splits prod.splits sum.splits option.splits)
  from oauth_Verify_okD [OF v(2)] obtain pl where pl: "genuine (au_oidc env) now v (oq_id_token req) pl" "cl = oauth_claims_of pl"
    by blast
  have sub: "oc_subject cl = ip_sub pl" by (simp add: pl oauth_claims_of_def)
  have mail: "parseFlexBool (ip_email_verified pl) \<and> (\<exists>u\<in>set (users s). us_id u = x \<and> us_email_verified u \<and>
      us_email u \<noteq> '''' \<and> ToLower (us_email u) = ToLower (TrimSpace (ip_email pl)))"
    if "trusted_email cl \<noteq> ''''" "userIDByVerifiedEmail s (trusted_email cl) = Inr x" for x
    using that by (auto simp: pl trusted_email_def oauth_claims_of_def userIDByVerifiedEmail_def ToLower_idem
        split: if_splits option.splits dest!: find_SomeD)
  show ?thesis
    using social_login_okD [OF l] mail v(1) pl(1) unfolding sub account_of_def
    by (intro exI [of _ v] exI [of _ pl]) (auto split: option.splits if_splits)
qed

section \<open>A small world\<close>

definition sign_env :: auth_env where
  "sign_env = \<lparr>au_wallet = \<lparr>wl_recover = (\<lambda>_ _. None), wl_base58 = (\<lambda>s. Some (replicate 32 CHR ''k'')),
       wl_ed25519 = (\<lambda>_ _ _. True)\<rparr>,
     au_oidc = \<lparr>ol_header = (\<lambda>h. Some (''RS256'', ''k1'')),
       ol_payload = (\<lambda>p. Some \<lparr>ip_iss = ''accounts.google.com'', ip_aud = AudOne ''app'', ip_exp = 500, ip_sub = p,
         ip_email = ''Ann@x.io'', ip_email_verified = Inl True, ip_nonce = '''', ip_nonce_supported = False, ip_c_hash = ''''\<rparr>),
       ol_signature = Some, ol_rsa = (\<lambda>k t b. True), ol_fetch = (\<lambda>_. Some [(''k1'', ''key'')]),
       ol_sha_b64 = (\<lambda>x. x), ol_sha_hex = (\<lambda>x. x), ol_sha_b64_half = (\<lambda>x. x)\<rparr>,
     au_token = \<lparr>tk_sign = (\<lambda>c. Some (''tok:'' @ tc_user_id c)), tk_verify = (\<lambda>_ _. None)\<rparr>,
     au_manager = \<lparr>mg_signed_by = '''', mg_ttl = 3600 * second_ns, mg_node_ttl = 0\<rparr>,
     au_hash = (\<lambda>x. ''h'' @ x), au_platform = DefaultPlatformValues, au_thresholds = [], au_admin_wallet = ''boss'',
     au_mailer = True, au_send = (\<lambda>_ _ _. True), au_public_base = ''''\<rparr>"

definition sign_draws :: draws where
  "sign_draws = \<lparr>dw_user = ''u1'', dw_row = ''r1'', dw_org = \<lparr>fi_org = ''o1'', fi_member = ''m1'', fi_suffix = (\<lambda>_. ''ab'')\<rparr>,
     dw_otp = Some 7, dw_codes = (\<lambda>_. [1, 2])\<rparr>"

definition sign_world :: db where
  "sign_world = empty_db\<lparr>
     flow_ids := [\<lparr>fl_flow_id = ''f1'', fl_wallet_address = ''boss'', fl_chain = ''sol'', fl_created_at = 0, fl_expires_at = 300\<rparr>],
     email_login_otps := [\<lparr>lo_email = ''ann@x.io'', lo_code_hash = ''h000007'', lo_attempts = 0, lo_expires_at = 900,
       lo_created_at = 0\<rparr>]\<rparr>"

definition sign_req :: auth_req where
  "sign_req = \<lparr>aq_flow_id = ''f1'', aq_signature = ''00'', aq_public_key = ''boss'', aq_ref = ''''\<rparr>"

lemma signed_in:
  "fst (handleAuthComplete sign_env 10 sign_draws (Some sign_req) sign_world) = Ok 200 (''tok:u1'', ''u1'', ''admin'')"
  by code_simp

theorem sign_in_authentic_witness:
  "\<exists>u. has_row (\<lambda>r. r = u \<and> us_wallet_address r = ''boss'' \<and> us_role r = ''admin'')
     (users (snd (handleAuthComplete sign_env 10 sign_draws (Some sign_req) sign_world)))"
proof -
  have "handleAuthComplete sign_env 10 sign_draws (Some sign_req) sign_world
      = (Ok 200 (''tok:u1'', ''u1'', ''admin''), snd (handleAuthComplete sign_env 10 sign_draws (Some sign_req) sign_world))"
    using signed_in by (metis prod.collapse)
  from sign_in_authentic [OF this] obtain flow u where "flow \<in> set (flow_ids sign_world)"
    "u \<in> set (users (snd (handleAuthComplete sign_env 10 sign_draws (Some sign_req) sign_world)))"
    "us_wallet_address u = fl_wallet_address flow" "us_role u = ''admin''" by blast
  then show ?thesis by (intro exI [of _ u]) (auto simp: has_row_iff sign_world_def)
qed

definition wrong_tries :: "(time \<times> draws \<times> verify_req) list" where
  "wrong_tries = map (\<lambda>t. (t, sign_draws, \<lparr>vq_email = '' Ann@X.io '', vq_code = ''123456'', vq_ref = ''''\<rparr>)) [1, 2, 3, 4, 5]"

theorem login_code_bounded_witness:
  "\<exists>c m. fst (handleEmailLoginVerify sign_env 6 sign_draws
      (Some \<lparr>vq_email = ''ann@x.io'', vq_code = ''000007'', vq_ref = ''''\<rparr>) (verify_all sign_env wrong_tries sign_world)) = Fail c m"
proof (rule login_code_bounded [where now = "0" and h = "''h000007''" and n = "0" and email = "''ann@x.io''"])
  show "login_code 0 ''ann@x.io'' sign_world = Some (''h000007'', 0)" by code_simp
  show "(0::int) \<le> 0" by simp
  show "login_ok sign_world" by code_simp
  show "list_all (\<lambda>(t, dw, r). tries_at sign_env ''ann@x.io'' ''h000007'' r) wrong_tries" by code_simp
  show "otpMaxAttempts \<le> int (length wrong_tries)" by (simp add: otpMaxAttempts_def wrong_tries_def)
  show "sorted (0 # map fst wrong_tries @ [6])" by (simp add: wrong_tries_def)
  show "normalizeEmail (vq_email \<lparr>vq_email = ''ann@x.io'', vq_code = ''000007'', vq_ref = ''''\<rparr>) = Some ''ann@x.io''" by code_simp
qed

definition sign_verifiers :: verifiers where
  "sign_verifiers = \<lparr>vs_google = Some (NewGoogle [''app'']), vs_apple = None, vs_apple_apps = []\<rparr>"

definition google_req :: oidc_req where
  "google_req = \<lparr>oq_id_token = ''h.sub1.s'', oq_code = '''', oq_nonce = '''', oq_state = '''', oq_ref = ''''\<rparr>"

lemma google_signed_in:
  "fst (handleGoogleAuth sign_env 10 sign_draws (Some google_req) (sign_world, sign_verifiers))
     = Ok 200 (''tok:u1'', ''u1'', ''user'')"
  by code_simp

theorem oidc_login_authentic_witness:
  "has_row (\<lambda>a. sa_provider a = ''google'' \<and> sa_user_id a = ''u1'')
     (social_accounts (fst (snd (handleGoogleAuth sign_env 10 sign_draws (Some google_req) (sign_world, sign_verifiers)))))"
proof -
  let ?r = "handleGoogleAuth sign_env 10 sign_draws (Some google_req) (sign_world, sign_verifiers)"
  have "?r = (Ok 200 (''tok:u1'', ''u1'', ''user''), fst (snd ?r), snd (snd ?r))"
    using google_signed_in by (metis prod.collapse)
  from oidc_login_authentic [OF this] show ?thesis by (auto simp: has_row_iff social_at_def)
qed

end
