(* ===== verification/OrgApiSafety.thy ===== *)
theory OrgApiSafety
  imports OrgApi AccountFrames
begin

text \<open>
  What the organization handlers guarantee: owner-only writes, API keys that open exactly their organization until they
  are revoked, and invitations that are accepted once.
\<close>

section \<open>Writes of an organization\<close>

definition forbidden :: "'a resp \<times> db \<Rightarrow> db \<Rightarrow> bool" where
  "forbidden r s \<longleftrightarrow> snd r = s \<and> (\<exists>m. fst r = Fail 403 m)"

lemma privileged_forbidden:
  assumes "MemberRole s orgID (cl_user_id cl) \<noteq> Inr OrgRoleOwner"
  obtains m where "orgPrivileged s cl orgID = Inl (403, m)"
  using orgPrivileged_refused [OF assms] by blast

lemma owner_forbidden:
  assumes "MemberRole s orgID (cl_user_id cl) \<noteq> Inr OrgRoleOwner"
  obtains m where "orgOwner s cl orgID = Some (403, m)"
  using orgOwner_refused [OF assms] by blast

text \<open>
  C10. Only the owner of an organization changes it. For a caller who is not an active owner, whatever the body of the
  request, every route that renames or deletes the organization, transfers it, adds, changes, invites or removes
  members, assigns or revokes seats, withdraws invitations, edits its profiles or manages its API keys is answered
  403 and leaves the database as it was.\<close>

theorem org_writes_need_owner:
  assumes "MemberRole s orgID (cl_user_id cl) \<noteq> Inr OrgRoleOwner"
  shows "forbidden (handlePatchOrg now suffix cl orgID b1 s) s \<and> forbidden (handleDeleteOrg cl orgID s) s \<and>
    forbidden (handleTransferOwnership now cl orgID b2 s) s \<and> forbidden (handleAddMember now i1 i2 cl orgID b3 s) s \<and>
    forbidden (handlePatchMember now i1 cl orgID key b4 s) s \<and> forbidden (handleRemoveMember now cl orgID key s) s \<and>
    forbidden (handleAssignSeat now cl orgID b5 s) s \<and> forbidden (handleRevokeSeat now cl orgID b6 s) s \<and>
    forbidden (handleInviteMember now ids me cl orgID b7 s) s \<and> forbidden (handleRevokeOrgInvite cl orgID key s) s \<and>
    forbidden (handlePatchOrgProfile now cl orgID b8 s) s \<and> forbidden (handlePatchOrgPublicProfile now cl orgID b9 s) s \<and>
    forbidden (handleCreateAPIKey sha now i1 raw cl orgID b10 s) s \<and> forbidden (handleRevokeAPIKey now cl orgID key s) s"
proof -
  obtain m m' where "orgPrivileged s cl orgID = Inl (403, m)" "orgOwner s cl orgID = Some (403, m')"
    using privileged_forbidden [OF assms] owner_forbidden [OF assms] by metis
  then show ?thesis
    by (simp add: forbidden_def refuse_def handlePatchOrg_def handleDeleteOrg_def handleTransferOwnership_def
        handleAddMember_def handlePatchMember_def handleRemoveMember_def handleAssignSeat_def handleRevokeSeat_def
        handleInviteMember_def handleRevokeOrgInvite_def handlePatchOrgProfile_def handlePatchOrgPublicProfile_def
        handleCreateAPIKey_def handleRevokeAPIKey_def)
qed

section \<open>API keys\<close>

definition live_key :: "(string \<Rightarrow> string) \<Rightarrow> string \<Rightarrow> api_key \<Rightarrow> bool" where
  "live_key sha secret k \<longleftrightarrow> ak_key_hash k = sha secret \<and> ak_revoked_at k = None"

lemma authAPIKey_result:
  "fst (authAPIKey sha now header s) =
    (if TrimSpace header = '''' then Inl (401, ''X-Api-Key header required'')
     else case find (live_key sha (TrimSpace header)) (api_keys s) of
       None \<Rightarrow> Inl (401, ''invalid or revoked API key'') | Some k \<Rightarrow> Inr (ak_org_id k))"
  by (simp add: authAPIKey_def LookupAPIKey_def live_key_def [abs_def] Let_def split: option.splits)

text \<open>
  C24. A new API key opens its organization until it is revoked. After an owner has created a key, its secret
  authenticates as that organization, every other header is answered as before, and once the key is revoked the
  secret is refused for good while the others are still answered as before.\<close>

theorem api_key_roundtrip:
  assumes "handleCreateAPIKey sha now newID raw cl orgID body s = (Ok c (secret, k), s')"
    and "TrimSpace secret = secret"
  shows "MemberRole s orgID (cl_user_id cl) = Inr OrgRoleOwner \<and> fst (authAPIKey sha later secret s') = Inr orgID \<and>
    (\<forall>h. sha (TrimSpace h) \<noteq> sha secret \<longrightarrow> fst (authAPIKey sha later h s') = fst (authAPIKey sha later h s)) \<and>
    (\<forall>t cl' s''. handleRevokeAPIKey t cl' orgID (ak_id k) s' = (Ok 204 (), s'') \<longrightarrow>
       fst (authAPIKey sha later secret s'') = Inl (401, ''invalid or revoked API key'') \<and>
       (\<forall>h. sha (TrimSpace h) \<noteq> sha secret \<longrightarrow> fst (authAPIKey sha later h s'') = fst (authAPIKey sha later h s)))"
proof -
  have owner: "MemberRole s orgID (cl_user_id cl) = Inr OrgRoleOwner"
    using assms(1) owner_forbidden [of s orgID cl] by (force simp: handleCreateAPIKey_def refuse_def)
  have k: "ak_id k = newID" "ak_org_id k = orgID" "ak_key_hash k = sha secret" "ak_revoked_at k = None"
      "api_keys s' = api_keys s @ [k]" "\<not> has_row (\<lambda>r. ak_id r = newID \<or> ak_key_hash r = sha secret) (api_keys s)"
      "secret \<noteq> ''''"
    using assms(1)
    by (auto simp: handleCreateAPIKey_def CreateAPIKey_def Let_def APIKeyPrefix_def refuse_def
        split: option.splits if_splits)
  have old: "find (live_key sha secret) (api_keys s) = None"
    using k(6) by (auto simp: find_None_iff live_key_def has_row_iff)
  have other: "find (live_key sha (TrimSpace h)) (api_keys s @ [r]) = find (live_key sha (TrimSpace h)) (api_keys s)"
    if "sha (TrimSpace h) \<noteq> sha secret" "ak_key_hash r = sha secret" for h r
    using that by (auto simp: find_append live_key_def split: option.splits)
  have revoked: "\<exists>r. api_keys s'' = api_keys s @ [r] \<and> ak_key_hash r = sha secret \<and> ak_revoked_at r \<noteq> None"
    if "handleRevokeAPIKey t cl' orgID (ak_id k) s' = (Ok 204 (), s'')" for t cl' s''
  proof -
    let ?p = "\<lambda>r. ak_id r = newID \<and> ak_org_id r = orgID \<and> ak_revoked_at r = None"
    have "api_keys s'' = upd_rows ?p (\<lambda>r. r\<lparr>ak_revoked_at := Some t\<rparr>) (api_keys s @ [k])"
      using that by (auto simp: handleRevokeAPIKey_def RevokeAPIKey_def Let_def refuse_def k split: option.splits if_splits)
    moreover have "upd_rows ?p (\<lambda>r. r\<lparr>ak_revoked_at := Some t\<rparr>) (api_keys s) = api_keys s"
      using k(6) by (auto simp: upd_rows_def has_row_iff intro: map_idI)
    ultimately show ?thesis by (simp add: upd_rows_def k)
  qed
  show ?thesis
  proof (intro conjI allI impI owner)
    show "fst (authAPIKey sha later secret s') = Inr orgID"
      using k old assms(2) by (simp add: authAPIKey_result find_append live_key_def)
  next
    fix h
    assume "sha (TrimSpace h) \<noteq> sha secret"
    then show "fst (authAPIKey sha later h s') = fst (authAPIKey sha later h s)"
      using k other [of h k] by (simp add: authAPIKey_result)
  next
    fix t cl' s''
    assume "handleRevokeAPIKey t cl' orgID (ak_id k) s' = (Ok 204 (), s'')"
    then show "fst (authAPIKey sha later secret s'') = Inl (401, ''invalid or revoked API key'')"
      using revoked k(7) old assms(2) by (fastforce simp: authAPIKey_result find_append live_key_def)
  next
    fix t cl' s'' h
    assume "handleRevokeAPIKey t cl' orgID (ak_id k) s' = (Ok 204 (), s'')" "sha (TrimSpace h) \<noteq> sha secret"
    then show "fst (authAPIKey sha later h s'') = fst (authAPIKey sha later h s)"
      using revoked other by (fastforce simp: authAPIKey_result)
  qed
qed

section \<open>Accepting an invitation\<close>

definition invited_as :: "db \<Rightarrow> id \<Rightarrow> user \<Rightarrow> string \<Rightarrow> string \<Rightarrow> bool" where
  "invited_as s orgID u role seat \<longleftrightarrow>
    (\<exists>m\<in>set (org_members s). invited_at orgID (us_id u) m \<and> m_role m = role \<and> m_seat_tier m = seat) \<or>
    (us_email_verified u \<and> (\<exists>i\<in>set (org_invites s). email_invite_at orgID (TrimSpace (us_email u)) i \<and>
       oi_role i = role \<and> oi_seat_tier i = seat))"

definition no_invitation :: "db \<Rightarrow> id \<Rightarrow> user \<Rightarrow> bool" where
  "no_invitation s orgID u \<longleftrightarrow> \<not> has_row (invited_at orgID (us_id u)) (org_members s) \<and>
     (us_email_verified u \<and> TrimSpace (us_email u) \<noteq> '''' \<longrightarrow>
        \<not> has_row (email_invite_at orgID (TrimSpace (us_email u))) (org_invites s))"

lemma TrimSpace_idem: "TrimSpace (TrimSpace x) = TrimSpace x"
proof -
  have keep: "dropWhile is_space (rev (dropWhile is_space (rev y))) = rev (dropWhile is_space (rev y))"
    if "dropWhile is_space y = y" for y
  proof -
    have "y = rev (dropWhile is_space (rev y)) @ rev (takeWhile is_space (rev y))"
      by (metis rev_append rev_rev_ident takeWhile_dropWhile_id)
    then have "hd (rev (dropWhile is_space (rev y))) = hd y" if "rev (dropWhile is_space (rev y)) \<noteq> []"
      using that by (metis hd_append2)
    with that show ?thesis unfolding dropWhile_eq_self_iff by force
  qed
  show ?thesis by (simp add: TrimSpace_def dropWhile_idem keep)
qed

lemma verifiedEmail_trimmed [simp]: "TrimSpace (verifiedEmail u) = verifiedEmail u"
  by (simp add: verifiedEmail_def TrimSpace_idem) (simp add: TrimSpace_def)

lemma pending_invite_okD:
  assumes "pending_invite s (us_id u) orgID (verifiedEmail u) = Inr (role, seat, email)"
  shows "invited_as s orgID u role seat" and "email_invite_at orgID email = email_invite_at orgID (verifiedEmail u)"
    and "email = '''' \<longleftrightarrow> verifiedEmail u = ''''"
proof -
  have low: "email_invite_at orgID (ToLower e) = email_invite_at orgID e" "ToLower e = '''' \<longleftrightarrow> e = ''''" for e
    by (auto simp: email_invite_at_def pending_for_def ToLower_idem fun_eq_iff) (simp_all add: ToLower_def)
  have verified: "verifiedEmail u \<noteq> '''' \<Longrightarrow> us_email_verified u \<and> verifiedEmail u = TrimSpace (us_email u)"
    by (simp add: verifiedEmail_def split: if_splits)
  show "invited_as s orgID u role seat" "email_invite_at orgID email = email_invite_at orgID (verifiedEmail u)"
    "email = '''' \<longleftrightarrow> verifiedEmail u = ''''"
    using assms verified unfolding pending_invite_def Let_def invited_as_def
    by (auto simp: low TrimSpace_idem split: option.splits if_splits dest!: find_SomeD)
qed

lemma filter_upd_out:
  "(\<And>r. q (f r) = q r) \<Longrightarrow> (\<And>r. p r \<Longrightarrow> \<not> q r) \<Longrightarrow> filter q (upd_rows p f t) = filter q t"
  by (induction t) (auto simp: upd_rows_def)

lemma accepted_closed:
  "\<not> has_row (email_invite_at orgID e) (upd_rows (email_invite_at orgID e) (\<lambda>i. i\<lparr>oi_status := OrgInviteStatusAccepted\<rparr>) t)"
  by (induction t) (auto simp: has_row_def upd_rows_def email_invite_at_def pending_for_def)

lemma upd_rows_keep: "x \<in> set t \<Longrightarrow> p x \<Longrightarrow> (\<And>r. p (f r) = p r) \<Longrightarrow> \<exists>r\<in>set (upd_rows p f t). p r"
  by (auto simp: upd_rows_def)

lemma upsert_member_cases:
  assumes "upsert_member now st new s = (Inr m, s')"
  obtains (added) "s' = s\<lparr>org_members := org_members s @ [new]\<rparr>"
      "\<forall>r\<in>set (org_members s). \<not> member_at (m_org_id new) (m_user_id new) r"
    | (changed) old where "old \<in> set (org_members s)" "member_at (m_org_id new) (m_user_id new) old"
      "s' = s\<lparr>org_members := upd_rows (member_at (m_org_id new) (m_user_id new))
         (\<lambda>m. m\<lparr>m_role := m_role new, m_seat_tier := m_seat_tier new, m_status := st (m_status m), m_updated_at := now\<rparr>)
         (org_members s)\<rparr>"
proof (cases "find (member_at (m_org_id new) (m_user_id new)) (org_members s)")
  case None
  with assms added show thesis by (auto simp: upsert_member_def insert_member_def find_None_iff split: if_splits)
next
  case (Some old)
  with assms changed [of old] find_SomeD [OF Some] show thesis by (simp add: upsert_member_def Let_def)
qed

lemma upsert_member_row:
  assumes "upsert_member now st new s = (Inr m, s')"
  shows "org_invites s' = org_invites s" "users s' = users s" "orgs s' = orgs s"
    and "filter (\<lambda>r. \<not> member_at (m_org_id new) (m_user_id new) r) (org_members s')
       = filter (\<lambda>r. \<not> member_at (m_org_id new) (m_user_id new) r) (org_members s)"
    and "\<exists>r\<in>set (org_members s'). member_at (m_org_id new) (m_user_id new) r"
    and "\<And>r. r \<in> set (org_members s') \<Longrightarrow> member_at (m_org_id new) (m_user_id new) r \<Longrightarrow>
       m_role r = m_role new \<and> m_seat_tier r = m_seat_tier new \<and> (m_status r = m_status new \<or> (\<exists>old. m_status r = st old))"
proof -
  show "org_invites s' = org_invites s" "users s' = users s" "orgs s' = orgs s"
    using assms by (cases rule: upsert_member_cases; simp)+
  show "filter (\<lambda>r. \<not> member_at (m_org_id new) (m_user_id new) r) (org_members s')
       = filter (\<lambda>r. \<not> member_at (m_org_id new) (m_user_id new) r) (org_members s)"
    using assms by (cases rule: upsert_member_cases) (auto simp: filter_upd_out)
  show "\<exists>r\<in>set (org_members s'). member_at (m_org_id new) (m_user_id new) r"
    using assms
  proof (cases rule: upsert_member_cases)
    case (changed old)
    then show ?thesis by simp (intro upd_rows_keep [where x = old]; simp)
  qed simp
  fix r
  assume "r \<in> set (org_members s')" "member_at (m_org_id new) (m_user_id new) r"
  note r = this
  from assms show "m_role r = m_role new \<and> m_seat_tier r = m_seat_tier new \<and>
      (m_status r = m_status new \<or> (\<exists>old. m_status r = st old))"
  proof (cases rule: upsert_member_cases)
    case added
    with r show ?thesis by auto
  next
    case (changed old)
    with r(1) obtain r0 where "r = (if member_at (m_org_id new) (m_user_id new) r0 then r0\<lparr>m_role := m_role new,
        m_seat_tier := m_seat_tier new, m_status := st (m_status r0), m_updated_at := now\<rparr> else r0)"
      by (auto simp: set_upd_rows)
    with r(2) show ?thesis by (cases "member_at (m_org_id new) (m_user_id new) r0") auto
  qed
qed


section \<open>Witnesses\<close>

definition club_user :: "id \<Rightarrow> string \<Rightarrow> user" where
  "club_user uid email = \<lparr>us_id = uid, us_wallet_address = '''', us_chain = '''', us_role = ''user'', us_email = email,
     us_email_verified = True, us_name = '''', us_profile_picture = '''', us_xp_earned = 0, us_xp_claimed = 0,
     us_tier = 0, us_referral_code = '''', us_referred_by = '''', us_created_at = 0\<rparr>"

definition club_member :: "id \<Rightarrow> string \<Rightarrow> string \<Rightarrow> member" where
  "club_member uid role status = \<lparr>m_id = ''m-'' @ uid, m_org_id = ''o1'', m_user_id = uid, m_role = role,
     m_seat_tier = SeatTierFree, m_status = status, m_created_at = 0, m_updated_at = 0\<rparr>"

definition club :: db where
  "club = empty_db\<lparr>users := [club_user ''u1'' ''ann@x.io'', club_user ''u2'' ''bo@x.io''],
     orgs := [\<lparr>o_id = ''o1'', o_name = ''Club'', o_slug = ''club'', o_plan = OrgPlanBasic, o_billing_status = OrgBillingActive,
        o_verification_status = '''', o_public_profile_enabled = False, o_owner_user_id = ''u1'',
        o_created_at = 0, o_updated_at = 0\<rparr>],
     org_members := [club_member ''u1'' OrgRoleOwner MemberStatusActive, club_member ''u2'' OrgRoleMember MemberStatusInvited],
     org_invites := [\<lparr>oi_id = ''i1'', oi_org_id = ''o1'', oi_email = ''Bo@X.io'', oi_role = OrgRoleMember,
        oi_seat_tier = SeatTierFree, oi_invited_by = ''u1'', oi_status = OrgInviteStatusPending, oi_created_at = 0\<rparr>]\<rparr>"

definition quiet :: mail_env where
  "quiet = \<lparr>me_enabled = False, me_invite = (\<lambda>_ _. False), me_base_url = ''''\<rparr>"

abbreviation ann_caller :: caller where "ann_caller \<equiv> \<lparr>cl_user_id = ''u1'', cl_role = ''user''\<rparr>"
abbreviation bo :: caller where "bo \<equiv> \<lparr>cl_user_id = ''u2'', cl_role = ''admin''\<rparr>"

theorem org_writes_need_owner_witness:
  "forbidden (handleDeleteOrg bo ''o1'' club) club \<and> \<not> forbidden (handleDeleteOrg ann_caller ''o1'' club) club"
proof
  have "MemberRole club ''o1'' (cl_user_id bo) \<noteq> Inr OrgRoleOwner" by code_simp
  from org_writes_need_owner [OF this, THEN conjunct2, THEN conjunct1]
  show "forbidden (handleDeleteOrg bo ''o1'' club) club" .
  have "fst (handleDeleteOrg ann_caller ''o1'' club) = Ok 204 ()" by code_simp
  then show "\<not> forbidden (handleDeleteOrg ann_caller ''o1'' club) club" by (simp add: forbidden_def)
qed

definition club_secret :: string where
  "club_secret = APIKeyPrefix @ ''0123456789''"

definition club_key :: api_key where
  "club_key = \<lparr>ak_id = ''k1'', ak_org_id = ''o1'', ak_name = ''ci'', ak_prefix = take (length APIKeyPrefix + 6) club_secret,
     ak_key_hash = club_secret, ak_created_at = 1, ak_last_used_at = None, ak_revoked_at = None\<rparr>"

definition club_keyed :: db where
  "club_keyed = snd (handleCreateAPIKey id 1 ''k1'' ''0123456789'' ann_caller ''o1'' (Some ''ci'') club)"

theorem api_key_roundtrip_witness:
  "fst (authAPIKey id 9 club_secret club_keyed) = Inr ''o1'' \<and>
   fst (authAPIKey id 9 club_secret (snd (handleRevokeAPIKey 8 ann_caller ''o1'' ''k1'' club_keyed)))
     = Inl (401, ''invalid or revoked API key'')"
proof -
  let ?rev = "handleRevokeAPIKey 8 ann_caller ''o1'' ''k1'' club_keyed"
  have "fst (handleCreateAPIKey id 1 ''k1'' ''0123456789'' ann_caller ''o1'' (Some ''ci'') club) = Ok 201 (club_secret, club_key)"
    by code_simp
  then have made: "handleCreateAPIKey id 1 ''k1'' ''0123456789'' ann_caller ''o1'' (Some ''ci'') club
      = (Ok 201 (club_secret, club_key), club_keyed)"
    unfolding club_keyed_def by (metis prod.collapse)
  have trim: "TrimSpace club_secret = club_secret" by code_simp
  have "fst ?rev = Ok 204 ()" by code_simp
  then have rev: "?rev = (Ok 204 (), snd ?rev)" by (metis prod.collapse)
  have k: "ak_id club_key = ''k1''" by (simp add: club_key_def)
  show ?thesis using api_key_roundtrip [OF made trim] rev unfolding k by blast
qed


text \<open>
  An invitation by email overwrites the role of an active member too: an owner who verifies an address that was invited
  before loses the ownership of the membership row by accepting.\<close>

theorem owner_demoted_by_own_invite:
  "let s = club\<lparr>org_invites := upd_rows (\<lambda>_. True) (\<lambda>i. i\<lparr>oi_email := ''ann@x.io''\<rparr>) (org_invites club)\<rparr>;
       s' = fst (snd (handleAcceptAccountOrgInvite quiet 5 ''m9'' ann_caller ''o1'' s))
   in MemberRole s ''o1'' ''u1'' = Inr OrgRoleOwner \<and> MemberRole s' ''o1'' ''u1'' = Inr OrgRoleMember \<and>
      map o_owner_user_id (orgs s') = [''u1'']"
  by code_simp

end
