(* ===== verification/RewardSafety.thy ===== *)
theory RewardSafety
  imports Gateway AccountFrames
begin

text \<open>
  What referrals and experience points guarantee: the allocation of a code takes at most five draws, the ledger of
  events and the totals of the accounts agree, and what the missing index of \<open>xp_events.dedup_key\<close> costs.
\<close>

section \<open>Referral codes\<close>

definition code_free :: "db \<Rightarrow> id \<Rightarrow> string \<Rightarrow> bool" where
  "code_free s userID c \<longleftrightarrow> \<not> has_row (\<lambda>u. us_id u \<noteq> userID \<and> us_referral_code u = c) (users s)"

definition give_code :: "id \<Rightarrow> string \<Rightarrow> db \<Rightarrow> db" where
  "give_code userID c s = s\<lparr>users := upd_rows (\<lambda>u. us_id u = userID \<and> us_referral_code u = '''')
     (\<lambda>u. u\<lparr>us_referral_code := c\<rparr>) (users s)\<rparr>"

lemma referral_loop_find:
  "referral_loop userID codes k n s =
    (case find (code_free s userID) (map (\<lambda>i. genReferralCode (codes i)) [k..<k + n]) of
       None \<Rightarrow> (Inl (ErrMsg ''could not allocate referral code''), s)
     | Some c \<Rightarrow> (Inr c, give_code userID c s))"
proof (induction n arbitrary: k)
  case (Suc n)
  have "[k..<k + Suc n] = k # [Suc k..<Suc k + n]" by (simp add: upt_conv_Cons)
  then show ?case by (simp add: Suc Let_def code_free_def give_code_def)
qed simp

lemma EnsureReferralCode_draws:
  assumes "GetUser s userID = Inr u" "us_referral_code u = ''''"
  shows "EnsureReferralCode userID codes s =
    (case find (code_free s userID) (map (\<lambda>i. genReferralCode (codes i)) [0..<5]) of
       None \<Rightarrow> (Inl (ErrMsg ''could not allocate referral code''), s)
     | Some c \<Rightarrow> (Inr c, give_code userID c s))"
  using assms by (simp add: EnsureReferralCode_def referral_loop_find)

lemma give_code_found:
  assumes "code_free s userID c" "c \<noteq> ''''" "GetUser s userID = Inr u" "us_referral_code u = ''''"
  shows "UserIDByReferralCode (give_code userID c s) c = Inr userID"
    and "GetUser (give_code userID c s) userID = Inr (u\<lparr>us_referral_code := c\<rparr>)"
proof -
  let ?f = "\<lambda>u. if us_id u = userID \<and> us_referral_code u = '''' then u\<lparr>us_referral_code := c\<rparr> else u"
  let ?q = "\<lambda>u. us_referral_code u \<noteq> '''' \<and> us_referral_code u = c"
  have u: "u \<in> set (users s)" "us_id u = userID" "us_referral_code u = ''''"
    using assms(3,4) by (auto simp: GetUser_def split: option.splits dest!: find_SomeD)
  have "?q (?f u)" "?f u \<in> set (map ?f (users s))" using u assms(2) by auto
  then have "find ?q (map ?f (users s)) \<noteq> None" unfolding find_None_iff by blast
  then obtain v where v: "find ?q (map ?f (users s)) = Some v" by blast
  then obtain w where "w \<in> set (users s)" "v = ?f w" "us_referral_code v = c" by (auto dest!: find_SomeD)
  then have "us_id v = userID" using assms(1) by (auto simp: code_free_def has_row_iff split: if_splits)
  with v show "UserIDByReferralCode (give_code userID c s) c = Inr userID"
    by (simp add: UserIDByReferralCode_def give_code_def upd_rows_def)
  have mapped: "find (\<lambda>u. us_id u = userID) (map ?f t) = map_option ?f (find (\<lambda>u. us_id u = userID) t)" for t
    by (induction t) auto
  have row: "find (\<lambda>u. us_id u = userID) (users s) = Some u"
    using assms(3) by (simp add: GetUser_def split: option.splits)
  have "find (\<lambda>u. us_id u = userID) (map ?f (users s)) = Some (u\<lparr>us_referral_code := c\<rparr>)"
    unfolding mapped row using u by simp
  then show "GetUser (give_code userID c s) userID = Inr (u\<lparr>us_referral_code := c\<rparr>)"
    by (simp add: GetUser_def give_code_def upd_rows_def)
qed

lemma genReferralCode_nonempty: "genReferralCode b = '''' \<longleftrightarrow> b = []"
  by (simp add: genReferralCode_def)

text \<open>
  C34. Allocating a referral code ends after at most five draws. For an account without a code, only the first five
  draws matter, it succeeds exactly when one of them is free, and the code it returns is then found under the account
  and stays the account's code, whatever is drawn afterwards; when all five are taken nothing changes.\<close>

theorem referral_code_allocated:
  assumes "GetUser s userID = Inr u" "us_referral_code u = ''''" "\<forall>k<5. codes k \<noteq> []"
  shows "((\<exists>k<5. code_free s userID (genReferralCode (codes k))) \<longrightarrow>
      (\<exists>c s'. EnsureReferralCode userID codes s = (Inr c, s') \<and> UserIDByReferralCode s' c = Inr userID \<and>
         (\<forall>draws. EnsureReferralCode userID draws s' = (Inr c, s')))) \<and>
    ((\<forall>k<5. \<not> code_free s userID (genReferralCode (codes k))) \<longrightarrow>
      EnsureReferralCode userID codes s = (Inl (ErrMsg ''could not allocate referral code''), s)) \<and>
    (\<forall>draws. (\<forall>k<5. draws k = codes k) \<longrightarrow> EnsureReferralCode userID draws s = EnsureReferralCode userID codes s)"
proof (intro conjI impI allI)
  let ?cs = "map (\<lambda>i. genReferralCode (codes i)) [0..<5]"
  assume "\<exists>k<5. code_free s userID (genReferralCode (codes k))"
  then have "find (code_free s userID) ?cs \<noteq> None" by (auto simp: find_None_iff)
  then obtain c where c: "find (code_free s userID) ?cs = Some c" by blast
  have free: "code_free s userID c" and "c \<in> set ?cs" using find_SomeD [OF c] by auto
  then have "c \<noteq> ''''" using assms(3) by (auto simp: genReferralCode_nonempty)
  note found = give_code_found [OF free this assms(1,2)]
  have "EnsureReferralCode userID codes s = (Inr c, give_code userID c s)"
    using c by (simp add: EnsureReferralCode_draws [OF assms(1,2)])
  moreover have "EnsureReferralCode userID draws (give_code userID c s) = (Inr c, give_code userID c s)" for draws
    using found(2) \<open>c \<noteq> ''''\<close> by (simp add: EnsureReferralCode_def)
  ultimately show "\<exists>c s'. EnsureReferralCode userID codes s = (Inr c, s') \<and> UserIDByReferralCode s' c = Inr userID \<and>
         (\<forall>draws. EnsureReferralCode userID draws s' = (Inr c, s'))" using found(1) by blast
next
  assume "\<forall>k<5. \<not> code_free s userID (genReferralCode (codes k))"
  then have "find (code_free s userID) (map (\<lambda>i. genReferralCode (codes i)) [0..<5]) = None" by (auto simp: find_None_iff)
  then show "EnsureReferralCode userID codes s = (Inl (ErrMsg ''could not allocate referral code''), s)"
    by (simp add: EnsureReferralCode_draws [OF assms(1,2)])
next
  fix draws :: "nat \<Rightarrow> nat list"
  assume "\<forall>k<5. draws k = codes k"
  then have "map (\<lambda>i. genReferralCode (draws i)) [0..<5] = map (\<lambda>i. genReferralCode (codes i)) [0..<5]" by simp
  then show "EnsureReferralCode userID draws s = EnsureReferralCode userID codes s"
    unfolding EnsureReferralCode_draws [OF assms(1,2)] by (rule arg_cong)
qed

section \<open>The ledger of experience points\<close>

definition events_of :: "db \<Rightarrow> id \<Rightarrow> int" where
  "events_of s userID = total_of (\<lambda>e. if xe_user_id e = userID then xe_points e else 0) (xp_events s)"

definition award_keys :: "db \<Rightarrow> string list" where
  "award_keys s = filter (\<lambda>k. k \<noteq> '''') (map xe_dedup_key (xp_events s))"

definition xp_ledger :: "db \<Rightarrow> bool" where
  "xp_ledger s \<longleftrightarrow> (\<forall>u\<in>set (users s). us_xp_earned u = events_of s (us_id u)) \<and> distinct (award_keys s)"

definition add_award :: "int list \<Rightarrow> xp_event \<Rightarrow> db \<Rightarrow> db" where
  "add_award thr e s = s\<lparr>xp_events := xp_events s @ [e],
     users := upd_rows (\<lambda>u. us_id u = xe_user_id e)
       (\<lambda>u. u\<lparr>us_xp_earned := us_xp_earned u + xe_points e,
              us_tier := tierForXP (us_xp_earned u + xe_points e) (TierThresholds thr)\<rparr>) (users s)\<rparr>"

lemma upd_rows_cong: "(\<And>r. r \<in> set t \<Longrightarrow> p r \<Longrightarrow> f r = g r) \<Longrightarrow> upd_rows p f t = upd_rows p g t"
  by (simp add: upd_rows_def)

lemma has_key: "has_row (\<lambda>r. k r = x) t \<longleftrightarrow> x \<in> k ` set t"
  by (auto simp: has_row_iff)

lemma awardXP_cases:
  assumes "xp_ledger s"
  shows "(\<exists>e'. awardXP arbiter thr e s = (Inl e', s)) \<or>
    awardXP arbiter thr e s = (Inr False, s) \<and> xe_dedup_key e \<in> set (award_keys s) \<or>
    awardXP arbiter thr e s = (Inr True, add_award thr e s) \<and> xe_dedup_key e \<notin> set (award_keys s)"
proof (cases "xe_dedup_key e = '''' \<or> arbiter \<and> \<not> has_row (\<lambda>r. xe_dedup_key r = xe_dedup_key e) (xp_events s)")
  case False
  then show ?thesis
    by (cases arbiter) (simp_all add: awardXP_def awardXP_tx_def in_tx_def award_keys_def has_key)
next
  case True
  then have fresh: "xe_dedup_key e \<notin> set (award_keys s)" by (auto simp: award_keys_def has_key)
  have run: "awardXP arbiter thr e s = in_tx (\<lambda>s. seq (insert_event e s) (\<lambda>_. credit thr (xe_user_id e) (xe_points e))) s"
    using True by (auto simp: awardXP_def awardXP_tx_def in_tx_def)
  show ?thesis
  proof (cases "awardXP arbiter thr e s")
    case (Pair r s')
    show ?thesis
    proof (cases r)
      case (Inl x)
      with Pair run show ?thesis by (auto simp: in_tx_def split: sum.splits prod.splits)
    next
      case (Inr b)
      with Pair run obtain u where u: "GetUser s (xe_user_id e) = Inr u" "b = True"
        "s' = s\<lparr>xp_events := xp_events s @ [e],
           users := upd_rows (\<lambda>v. us_id v = xe_user_id e)
             (\<lambda>v. v\<lparr>us_xp_earned := us_xp_earned u + xe_points e,
                    us_tier := tierForXP (us_xp_earned u + xe_points e) (TierThresholds thr)\<rparr>) (users s)\<rparr>"
        by (auto simp: in_tx_def insert_event_def credit_def GetUser_def dest!: pg_bigint_okD
            split: sum.splits prod.splits if_splits option.splits)
      have "us_xp_earned v = us_xp_earned u" if "v \<in> set (users s)" "us_id v = xe_user_id e" for v
        using assms u(1) that by (auto simp: xp_ledger_def GetUser_def split: option.splits dest!: find_SomeD)
      then have "s' = add_award thr e s" unfolding u(3) add_award_def by (simp cong: upd_rows_cong)
      with Pair Inr u(2) fresh show ?thesis by simp
    qed
  qed
qed

lemma events_of_add: "events_of (add_award thr e s) uid = events_of s uid + (if xe_user_id e = uid then xe_points e else 0)"
  by (simp add: events_of_def add_award_def)

lemma add_award_ledger:
  assumes "xp_ledger s" "xe_dedup_key e \<notin> set (award_keys s)"
  shows "xp_ledger (add_award thr e s)"
proof -
  have "us_xp_earned v = events_of (add_award thr e s) (us_id v)" if v: "v \<in> set (users (add_award thr e s))" for v
  proof -
    obtain w where w: "w \<in> set (users s)" "v = (if us_id w = xe_user_id e then w\<lparr>us_xp_earned := us_xp_earned w + xe_points e,
        us_tier := tierForXP (us_xp_earned w + xe_points e) (TierThresholds thr)\<rparr> else w)"
      using v by (auto simp: add_award_def set_upd_rows)
    moreover have "us_xp_earned w = events_of s (us_id w)" using assms(1) w(1) by (simp add: xp_ledger_def)
    ultimately show ?thesis by (auto simp: events_of_add)
  qed
  moreover have "distinct (award_keys (add_award thr e s))"
    using assms by (auto simp: xp_ledger_def award_keys_def add_award_def)
  ultimately show ?thesis by (simp add: xp_ledger_def)
qed

text \<open>
  C33. Experience points are booked once. The points an account has earned are the sum of its events and no award key
  is used twice: with or without a usable index an award keeps this, a refused one and a repeated one change nothing,
  and one that is granted under a key is a no-op from then on.\<close>

theorem xp_awarded_once:
  assumes "xp_ledger s"
  shows "xp_ledger (snd (awardXP arbiter thr e s)) \<and>
    (fst (awardXP arbiter thr e s) \<noteq> Inr True \<longrightarrow> snd (awardXP arbiter thr e s) = s) \<and>
    (fst (awardXP arbiter thr e s) = Inr True \<longrightarrow> snd (awardXP arbiter thr e s) = add_award thr e s \<and>
       (xe_dedup_key e \<noteq> '''' \<longrightarrow> awardXP arbiter thr' e (add_award thr e s) = (Inr False, add_award thr e s)))"
proof -
  have again: "awardXP arbiter thr' e (add_award thr e s) = (Inr False, add_award thr e s)"
    if "awardXP arbiter thr e s = (Inr True, add_award thr e s)" "xe_dedup_key e \<noteq> ''''"
  proof -
    have arbiter using that by (auto simp: awardXP_def awardXP_tx_def in_tx_def split: if_splits)
    with that(2) show ?thesis
      by (simp add: awardXP_def awardXP_tx_def in_tx_def) (simp add: add_award_def has_key)
  qed
  from awardXP_cases [OF assms, of arbiter thr e] show ?thesis
  proof (elim disjE exE conjE)
    assume "awardXP arbiter thr e s = (Inr True, add_award thr e s)" "xe_dedup_key e \<notin> set (award_keys s)"
    with again add_award_ledger [OF assms] show ?thesis by simp
  qed (simp_all add: assms)
qed

section \<open>The missing index\<close>

lemma keyed_award_fails:
  assumes "xe_dedup_key e \<noteq> ''''"
  shows "awardXP dedup_arbiter thr e s = (Inl (PgError ''42P10''), s)"
  using assms by (simp add: awardXP_def awardXP_tx_def in_tx_def dedup_arbiter_def)

lemma award_fails: "key \<noteq> '''' \<Longrightarrow> award env now uid kind points meta key s = s"
  by (simp add: award_def AwardXPOnce_def keyed_award_fails xp_of_def)

lemma uptime_fails: "AwardOperatorUptimeXP now day thr points s = s"
proof -
  have "foldl (\<lambda>s (node, owner, _). snd (AwardXPOnce now thr owner ''operator_uptime_day'' points
        [(''node_id'', node), (''day'', day)] (''uptime:'' @ node @ '':'' @ day) s)) s t = s" for t
    by (induction t) (auto simp: AwardXPOnce_def keyed_award_fails xp_of_def)
  then show ?thesis by (simp add: AwardOperatorUptimeXP_def)
qed

lemma referral_reward_fails: "awardReferralXP env now uid s = s"
  by (simp add: awardReferralXP_def award_fails Let_def split: sum.split)

definition xp_kept :: "db \<Rightarrow> db \<Rightarrow> bool" where
  "xp_kept s s' \<longleftrightarrow> xp_events s' = xp_events s \<and> map us_xp_earned (users s') = map us_xp_earned (users s)"

lemma xp_kept_refl [simp]: "xp_kept s s"
  by (simp add: xp_kept_def)

lemma xp_kept_trans: "xp_kept s t \<Longrightarrow> xp_kept t u \<Longrightarrow> xp_kept s u"
  by (simp add: xp_kept_def)

lemma xp_kept_users: "(\<And>u. us_xp_earned (f u) = us_xp_earned u) \<Longrightarrow> xp_kept s (s\<lparr>users := upd_rows p f (users s)\<rparr>)"
  by (simp add: xp_kept_def upd_rows_def)

lemma EnsureReferralCode_xp: "xp_kept s (snd (EnsureReferralCode userID codes s))"
  by (auto simp: EnsureReferralCode_def referral_loop_find give_code_def intro!: xp_kept_users
      split: sum.splits option.splits)

lemma ReferralSummary_xp: "ReferralSummary userID codes s = (r, s') \<Longrightarrow> xp_kept s s'"
  using EnsureReferralCode_xp [of s userID codes] by (auto simp: ReferralSummary_def seq_def split: sum.splits prod.splits)

lemma BindReferrer_xp: "BindReferrer userID referrer s = (r, s') \<Longrightarrow> xp_kept s s'"
  by (auto simp: BindReferrer_def intro: xp_kept_users split: if_splits)

lemma reward_if_qualified_same: "reward_if_qualified env now uid s = s"
  by (simp add: reward_if_qualified_def referral_reward_fails)

lemma redeem_xp: "xp_kept s (snd (handleReferralRedeem env now dw cl body s))"
  unfolding handleReferralRedeem_def reward_if_qualified_same
  by (auto simp: Let_def split: option.split sum.split prod.split dest: BindReferrer_xp ReferralSummary_xp intro: xp_kept_trans)


section \<open>Witnesses\<close>

definition fan :: "id \<Rightarrow> string \<Rightarrow> int \<Rightarrow> user" where
  "fan uid code xp = \<lparr>us_id = uid, us_wallet_address = '''', us_chain = '''', us_role = ''user'', us_email = '''',
     us_email_verified = False, us_name = '''', us_profile_picture = '''', us_xp_earned = xp, us_xp_claimed = 0,
     us_tier = 0, us_referral_code = code, us_referred_by = '''', us_created_at = 0\<rparr>"

definition fans :: db where
  "fans = empty_db\<lparr>users := [fan ''u1'' ''01'' 0, fan ''u2'' '''' 30],
     xp_events := [xp_of 1 ''u2'' ''email_verified'' 30 [] ''email:u2'']\<rparr>"

definition fan_draws :: "nat \<Rightarrow> nat list" where
  "fan_draws k = (if k < 2 then [32, 33] else [k, k])"

theorem referral_code_allocated_witness:
  "\<exists>s'. EnsureReferralCode ''u2'' fan_draws fans = (Inr ''22'', s') \<and> UserIDByReferralCode s' ''22'' = Inr ''u2'' \<and>
     (\<forall>draws. EnsureReferralCode ''u2'' draws s' = (Inr ''22'', s'))"
proof -
  have u: "GetUser fans ''u2'' = Inr (fan ''u2'' '''' 30)" "us_referral_code (fan ''u2'' '''' 30) = ''''" by code_simp+
  have draws: "\<forall>k<5. fan_draws k \<noteq> []" by (simp add: fan_draws_def)
  have "code_free fans ''u2'' (genReferralCode (fan_draws 2))" by code_simp
  then have "\<exists>k<5. code_free fans ''u2'' (genReferralCode (fan_draws k))" by (intro exI [of _ 2]) simp
  with referral_code_allocated [OF u draws] obtain c s' where c: "EnsureReferralCode ''u2'' fan_draws fans = (Inr c, s')"
    "UserIDByReferralCode s' c = Inr ''u2''" "\<forall>draws. EnsureReferralCode ''u2'' draws s' = (Inr c, s')" by blast
  have "fst (EnsureReferralCode ''u2'' fan_draws fans) = Inr ''22''" by code_simp
  with c show ?thesis by auto
qed

theorem xp_awarded_once_witness:
  "\<exists>s'. awardXP True [] (xp_of 5 ''u2'' ''nft_held'' 70 [] ''nft:u2'') fans = (Inr True, s') \<and> xp_ledger s' \<and>
     awardXP True [] (xp_of 5 ''u2'' ''nft_held'' 70 [] ''nft:u2'') s' = (Inr False, s') \<and> map us_tier (users s') = [0, 1]"
proof -
  let ?e = "xp_of 5 ''u2'' ''nft_held'' 70 [] ''nft:u2''"
  have led: "xp_ledger fans" by code_simp
  have "fst (awardXP True [] ?e fans) = Inr True" by code_simp
  moreover have "map us_tier (users (add_award [] ?e fans)) = [0, 1]" by code_simp
  moreover have "xe_dedup_key ?e \<noteq> ''''" by (simp add: xp_of_def)
  ultimately show ?thesis
    using xp_awarded_once [OF led, of True "[]" ?e "[]"] by (intro exI [of _ "add_award [] ?e fans"]) (auto intro: prod_eqI)
qed

end
