(* ===== verification/GatewaySafety.thy ===== *)
theory GatewaySafety
  imports Gateway
begin

text \<open>
  What the glue guarantees: the updates of the settings and the next start, the rate limits, and the guards of the
  routing table.
\<close>

section \<open>Settings and the next start\<close>

lemma raw_settings_upd:
  assumes "row_count (\<lambda>p. ps_key p = key) (platform_settings s) \<noteq> 0"
  shows "raw_settings (s\<lparr>platform_settings := upd_rows (\<lambda>p. ps_key p = key) (\<lambda>p. p\<lparr>ps_value := val\<rparr>)
      (platform_settings s)\<rparr>) = (raw_settings s)(key \<mapsto> val)"
proof
  fix k
  let ?u = "upd_rows (\<lambda>p. ps_key p = key) (\<lambda>p. p\<lparr>ps_value := val\<rparr>)"
  let ?m = "\<lambda>t. map_of (map (\<lambda>p. (ps_key p, ps_value p)) t)"
  have hit: "\<exists>p\<in>set t. ps_key p = key \<Longrightarrow> ?m (?u t) key = Some val" for t
    by (induction t) (simp_all add: upd_rows_def, blast)
  have miss: "k \<noteq> key \<Longrightarrow> ?m (?u t) k = ?m t k" for t
    by (induction t) (simp_all add: upd_rows_def)
  have "\<exists>p\<in>set (platform_settings s). ps_key p = key" using assms by (auto simp: row_count_0)
  then show "raw_settings (s\<lparr>platform_settings := ?u (platform_settings s)\<rparr>) k = ((raw_settings s)(key \<mapsto> val)) k"
    by (cases "k = key") (simp_all add: raw_settings_def hit miss)
qed

text \<open>The settings after the updates, the later one of a key winning.\<close>

definition patched_settings :: "(string \<times> string) list \<Rightarrow> (string \<rightharpoonup> string) \<Rightarrow> (string \<rightharpoonup> string)" where
  "patched_settings ups m = foldl (\<lambda>m (k, v). m(k \<mapsto> TrimSpace v)) m ups"

definition updatable :: "db \<Rightarrow> string \<times> string \<Rightarrow> bool" where
  "updatable s = (\<lambda>(k, v). TrimSpace v \<noteq> '''' \<and> k \<in> dom (raw_settings s))"

lemma dom_raw: "k \<in> dom (raw_settings s) \<longleftrightarrow> row_count (\<lambda>p. ps_key p = k) (platform_settings s) \<noteq> 0"
proof -
  have "k \<in> dom (map_of (map (\<lambda>p. (ps_key p, ps_value p)) t)) \<longleftrightarrow> (\<exists>p\<in>set t. ps_key p = k)" for t
    by (induction t) auto
  then show ?thesis by (simp add: raw_settings_def row_count_0)
qed

lemma put_settings_result:
  "if list_all (updatable s) ups
   then \<exists>t. put_settings ups s = (Inr (), s\<lparr>platform_settings := t\<rparr>) \<and>
     raw_settings (s\<lparr>platform_settings := t\<rparr>) = patched_settings ups (raw_settings s)
   else \<exists>e s'. put_settings ups s = (Inl e, s')"
proof (induction ups arbitrary: s)
  case Nil
  show ?case by (auto simp: patched_settings_def intro: exI [of _ "platform_settings s"])
next
  case (Cons x ups)
  obtain k v where x: "x = (k, v)" by (cases x)
  show ?case
  proof (cases "updatable s x")
    case False
    then show ?thesis by (auto simp: x updatable_def dom_raw [symmetric] Let_def dom_def)
  next
    case True
    let ?t = "upd_rows (\<lambda>p. ps_key p = k) (\<lambda>p. p\<lparr>ps_value := TrimSpace v\<rparr>) (platform_settings s)"
    let ?s = "s\<lparr>platform_settings := ?t\<rparr>"
    have ok: "TrimSpace v \<noteq> ''''" "row_count (\<lambda>p. ps_key p = k) (platform_settings s) \<noteq> 0"
      using True by (auto simp: x updatable_def dom_raw)
    note raw = raw_settings_upd [OF ok(2), of "TrimSpace v"]
    have step: "put_settings (x # ups) s = put_settings ups ?s" using ok by (simp add: x Let_def)
    have "k \<in> dom (raw_settings s)" using ok(2) by (simp add: dom_raw)
    then have same: "updatable ?s = updatable s" by (auto simp: updatable_def raw fun_eq_iff)
    show ?thesis
      using Cons.IH [of ?s] True unfolding step same raw by (cases "list_all (updatable s) ups") (auto simp: x patched_settings_def)
  qed
qed

text \<open>
  C35. An update of the settings is all or nothing, and what it stores decides the next start. Unless every key is
  known, has a row and gets a value, nothing changes; otherwise every value is stored. If the update succeeds the next
  start loads exactly its result. If it fails after storing, which happens for a value that does not parse, the value
  stays and every later start of a valid configuration fails with the same error.\<close>

theorem settings_update_durable:
  assumes "UpdatePlatformSettings parse_float ups (s, thr) = (r, s', thr')" and "ups \<noteq> []"
  shows "(if list_all (\<lambda>(k, _). k \<in> set KnownPlatformKeys) ups \<and> list_all (updatable s) ups
          then raw_settings s' = patched_settings ups (raw_settings s) \<and> LoadPlatformSettings parse_float s' = r
          else s' = s \<and> thr' = thr \<and> (\<exists>e. r = Inl e)) \<and>
    (\<forall>v. r = Inr v \<longrightarrow> thr' = SetTierThresholds (pv_XPTierThresholds v) thr) \<and>
    (\<forall>e derive fresh c. r = Inl e \<and> s' \<noteq> s \<and> Validate c = None \<longrightarrow> boot parse_float derive fresh c s' = Inl e)"
proof -
  note put = put_settings_result [of s ups]
  show ?thesis
  proof (cases "list_all (\<lambda>(k, _). k \<in> set KnownPlatformKeys) ups")
    case False
    with assms show ?thesis by (auto simp: UpdatePlatformSettings_def)
  next
    case known: True
    show ?thesis
    proof (cases "list_all (updatable s) ups")
      case False
      with put obtain e s1 where "put_settings ups s = (Inl e, s1)" by auto
      then have "in_tx (put_settings ups) s = (Inl e, s)" by (rule in_tx_err)
      with assms known False show ?thesis by (auto simp: UpdatePlatformSettings_def)
    next
      case True
      with put obtain t where t: "put_settings ups s = (Inr (), s\<lparr>platform_settings := t\<rparr>)"
        "raw_settings (s\<lparr>platform_settings := t\<rparr>) = patched_settings ups (raw_settings s)" by auto
      note in_tx_ok [of "put_settings ups", OF t(1)]
      with assms known have "s' = s\<lparr>platform_settings := t\<rparr>" "LoadPlatformSettings parse_float s' = r"
        "\<And>v. r = Inr v \<Longrightarrow> thr' = SetTierThresholds (pv_XPTierThresholds v) thr"
        by (auto simp: UpdatePlatformSettings_def split: sum.splits)
      with t(2) known True show ?thesis by (auto simp: boot_def)
    qed
  qed
qed

section \<open>Rate limits\<close>

text \<open>The requests of one client at the given times: which of them pass, and the counters afterwards.\<close>

fun passes :: "string \<Rightarrow> int \<Rightarrow> string \<Rightarrow> time list \<Rightarrow> counters \<Rightarrow> bool list \<times> counters" where
  "passes scope n ip [] c = ([], c)"
| "passes scope n ip (t # ts) c =
    (let (f, c) = rateLimit t scope n ip c; (bs, c) = passes scope n ip ts c in ((f = None) # bs, c))"

lemma passes_Cons: "fst (passes scope n ip (t # ts) c)
    = (fst (rateLimit t scope n ip c) = None) # fst (passes scope n ip ts (snd (rateLimit t scope n ip c)))"
  by (simp split: prod.split)

lemma passes_Cons_snd: "snd (passes scope n ip (t # ts) c) = snd (passes scope n ip ts (snd (rateLimit t scope n ip c)))"
  by (simp split: prod.split)

definition rl_key :: "string \<Rightarrow> string \<Rightarrow> string" where
  "rl_key scope ip = ''rl:'' @ scope @ '':'' @ ip"

lemma rateLimit_step:
  assumes "0 < n"
  shows "rateLimit t scope n ip (Some m) =
    (let (k, e) = (case m (rl_key scope ip) of Some (k, e) \<Rightarrow> if t < e then (k + 1, e) else (1, t + 60) | None \<Rightarrow> (1, t + 60))
     in (if k \<le> n then None else Some (429, ''rate limit exceeded; slow down''), Some (m(rl_key scope ip \<mapsto> (k, e)))))"
  using assms by (simp add: rateLimit_def Allow_def Let_def rl_key_def split: prod.split bool.split option.split)

text \<open>Within one window the first requests pass and the rest do not.\<close>

lemma one_window:
  assumes "0 < n" "m (rl_key scope ip) = Some (k, e)" "\<forall>t\<in>set ts. t < e"
  shows "fst (passes scope n ip ts (Some m)) = map (\<lambda>i. k + int i < n) [0..<length ts]"
  using assms
proof (induction ts arbitrary: m k)
  case (Cons t ts)
  have step: "rateLimit t scope n ip (Some m) = (if k + 1 \<le> n then None else Some (429, ''rate limit exceeded; slow down''),
      Some (m(rl_key scope ip \<mapsto> (k + 1, e))))"
    using Cons.prems by (simp add: rateLimit_step Let_def)
  have "fst (passes scope n ip ts (Some (m(rl_key scope ip \<mapsto> (k + 1, e))))) = map (\<lambda>i. k + 1 + int i < n) [0..<length ts]"
    using Cons.prems by (intro Cons.IH) auto
  moreover have "map (\<lambda>i. k + int i < n) [0..<length (t # ts)] = (k < n) # map (\<lambda>i. k + 1 + int i < n) [0..<length ts]"
    by (simp add: upt_conv_Cons map_Suc_upt [symmetric] del: upt_Suc map_Suc_upt) (simp add: add.commute add.left_commute)
  ultimately show ?case unfolding passes_Cons step by simp
qed simp

lemma passed_bound: "length (filter id (map (\<lambda>i. k + int i < n) [0..<l])) = min l (nat (n - k))" if "0 \<le> k"
proof (induction l)
  case (Suc l)
  then show ?case using that by (auto simp: min_def)
qed simp

lemma fresh_window:
  assumes "0 < n" "case m (rl_key scope ip) of None \<Rightarrow> True | Some (k, e) \<Rightarrow> e \<le> t" "\<forall>u\<in>set ts. u < t + 60"
  shows "fst (passes scope n ip (t # ts) (Some m)) = map (\<lambda>i. int i < n) [0..<length (t # ts)]"
proof -
  let ?m = "m(rl_key scope ip \<mapsto> (1, t + 60))"
  have step: "rateLimit t scope n ip (Some m) = (None, Some ?m)"
    using assms(1,2) by (auto simp: rateLimit_step Let_def split: option.splits)
  have "fst (passes scope n ip ts (Some ?m)) = map (\<lambda>i. 1 + int i < n) [0..<length ts]"
    using assms by (intro one_window) auto
  moreover have "map (\<lambda>i. int i < n) [0..<length (t # ts)] = (0 < n) # map (\<lambda>i. 1 + int i < n) [0..<length ts]"
    by (simp add: upt_conv_Cons map_Suc_upt [symmetric] del: upt_Suc map_Suc_upt)
  ultimately show ?thesis using assms(1) unfolding passes_Cons step by simp
qed

lemma passes_append:
  "fst (passes scope n ip (ts @ us) c) = fst (passes scope n ip ts c) @ fst (passes scope n ip us (snd (passes scope n ip ts c)))"
  by (induction ts arbitrary: c) (simp_all add: passes_Cons passes_Cons_snd del: passes.simps(2))

text \<open>A counter lives on until the first request after its end.\<close>

lemma window_kept:
  assumes "0 < n" "m (rl_key scope ip) = Some (k, e)" "\<forall>t\<in>set ts. t < e"
  shows "\<exists>m' k'. snd (passes scope n ip ts (Some m)) = Some m' \<and> m' (rl_key scope ip) = Some (k', e)"
  using assms
proof (induction ts arbitrary: m k)
  case (Cons t ts)
  then have "rateLimit t scope n ip (Some m) = (if k + 1 \<le> n then None else Some (429, ''rate limit exceeded; slow down''),
      Some (m(rl_key scope ip \<mapsto> (k + 1, e))))"
    by (simp add: rateLimit_step Let_def)
  moreover have "\<exists>m' k'. snd (passes scope n ip ts (Some (m(rl_key scope ip \<mapsto> (k + 1, e))))) = Some m' \<and> m' (rl_key scope ip) = Some (k', e)"
    using Cons.prems by (intro Cons.IH) auto
  ultimately show ?case by (auto split: prod.splits)
qed simp

definition counts_ok :: "(string \<rightharpoonup> int \<times> time) \<Rightarrow> bool" where
  "counts_ok m \<longleftrightarrow> (\<forall>k n e. m k = Some (n, e) \<longrightarrow> 0 \<le> n)"

text \<open>
  C37. A rate limit holds. With Redis, however the requests of a client fall into any span of a minute, at most twice the
  limit of them pass; and from a fresh window exactly the first \<open>n\<close> pass and the others are answered 429.\<close>

theorem rate_limit_window:
  assumes "0 < n" "\<forall>u\<in>set ts. hd ts \<le> u \<and> u < hd ts + 60" "counts_ok m"
  shows "length (filter id (fst (passes scope n ip ts (Some m)))) \<le> 2 * nat n \<and>
    ((case m (rl_key scope ip) of None \<Rightarrow> True | Some (k, e) \<Rightarrow> e \<le> hd ts) \<longrightarrow>
       fst (passes scope n ip ts (Some m)) = map (\<lambda>i. int i < n) [0..<length ts])"
proof (cases ts)
  case (Cons t us)
  have bound: "length (filter id (map (\<lambda>i. int i < n) [0..<l])) \<le> nat n" for l
    using passed_bound [of 0 n l] by simp
  have fresh: "fst (passes scope n ip (w # ws) (Some m')) = map (\<lambda>i. int i < n) [0..<length (w # ws)]"
    if "case m' (rl_key scope ip) of None \<Rightarrow> True | Some (k, e) \<Rightarrow> e \<le> w" "set (w # ws) \<subseteq> set ts" for w ws m'
  proof (intro fresh_window assms(1) ballI that(1))
    fix u
    assume "u \<in> set ws"
    with that(2) have "u \<in> set ts" "w \<in> set ts" by auto
    with assms(2) have "u < hd ts + 60" "hd ts \<le> w" by auto
    then show "u < w + 60" by simp
  qed
  show ?thesis
  proof (cases "case m (rl_key scope ip) of None \<Rightarrow> True | Some (k, e) \<Rightarrow> e \<le> t")
    case True
    then show ?thesis using fresh [where m' = m and w = t and ws = us] bound [of "length ts"] Cons by simp
  next
    case False
    then obtain k e where ke: "m (rl_key scope ip) = Some (k, e)" "t < e" by (auto split: option.splits)
    with assms(3) have k: "0 \<le> k" by (auto simp: counts_ok_def)
    let ?a = "takeWhile (\<lambda>u. u < e) ts" and ?b = "dropWhile (\<lambda>u. u < e) ts"
    have early: "\<forall>u\<in>set ?a. u < e" by (auto dest: set_takeWhileD)
    have "fst (passes scope n ip ?a (Some m)) = map (\<lambda>i. k + int i < n) [0..<length ?a]"
      using one_window [where m = m and scope = scope and ip = ip and k = k and e = e and ts = ?a] assms(1) ke(1) early by blast
    then have a: "length (filter id (fst (passes scope n ip ?a (Some m)))) \<le> nat n"
      using passed_bound [OF k, of n "length ?a"] k by simp
    obtain m' k' where m': "snd (passes scope n ip ?a (Some m)) = Some m'" "m' (rl_key scope ip) = Some (k', e)"
      using window_kept [where m = m and scope = scope and ip = ip and k = k and e = e and ts = ?a] assms(1) ke(1) early by blast
    have b: "length (filter id (fst (passes scope n ip ?b (Some m')))) \<le> nat n"
    proof (cases ?b)
      case (Cons w ws)
      then have "\<not> w < e" by (simp add: dropWhile_eq_Cons_conv)
      moreover have "set (w # ws) \<subseteq> set ts" using Cons by (metis set_dropWhileD subsetI)
      ultimately have "fst (passes scope n ip (w # ws) (Some m')) = map (\<lambda>i. int i < n) [0..<length (w # ws)]"
        using m'(2) by (intro fresh) simp_all
      then show ?thesis unfolding Cons by (simp only: bound)
    next
      case Nil
      show ?thesis unfolding Nil by simp
    qed
    have "fst (passes scope n ip ts (Some m)) = fst (passes scope n ip ?a (Some m)) @ fst (passes scope n ip ?b (Some m'))"
      using passes_append [of scope n ip ?a ?b "Some m"] m'(1) by simp
    with a b have "length (filter id (fst (passes scope n ip ts (Some m)))) \<le> 2 * nat n"
      unfolding \<open>fst (passes scope n ip ts (Some m)) = _\<close> by simp
    with ke Cons show ?thesis by simp
  qed
qed simp

section \<open>The routing table\<close>

definition guarded_by :: "guard \<Rightarrow> route \<Rightarrow> bool" where
  "guarded_by g = (\<lambda>(_, _, gs, _). g \<in> set gs)"

definition route_names :: "route list \<Rightarrow> (string \<times> string) list" where
  "route_names rs = map (\<lambda>(m, p, _, _). (m, p)) rs"

definition changes :: "route \<Rightarrow> bool" where
  "changes = (\<lambda>(m, _, _, _). m \<notin> {''GET''})"

definition audited :: "route \<Rightarrow> bool" where
  "audited = (\<lambda>(m, p, gs, _). ActivityLog \<in> set gs \<and> action_of m p \<noteq> '''')"

definition is_admin_path :: "route \<Rightarrow> bool" where
  "is_admin_path = (\<lambda>(_, p, _, _). take 13 p = ''/api/v2/admin'')"

definition public_routes :: "(string \<times> string) list" where
  "public_routes =
    [(''GET'', ''/healthz''),
     (''GET'', ''/readyz''),
     (''GET'', ''/version''),
     (''GET'', ''/metrics''),
     (''POST'', ''/telemetry/event''),
     (''GET'', ''/api/v2/auth''),
     (''POST'', ''/api/v2/auth''),
     (''GET'', ''/api/v2/auth/methods''),
     (''POST'', ''/api/v2/auth/email/login/start''),
     (''POST'', ''/api/v2/auth/email/login/verify''),
     (''POST'', ''/api/v2/auth/google''),
     (''POST'', ''/api/v2/auth/apple''),
     (''POST'', ''/api/v2/auth/apple/callback''),
     (''POST'', ''/api/v2/auth/apple/callback/:app''),
     (''GET'', ''/api/v2/nodes''),
     (''POST'', ''/api/v2/nodes/register''),
     (''POST'', ''/api/v2/nodes/token/refresh''),
     (''GET'', ''/api/v2/nodes/ws''),
     (''GET'', ''/api/v2/subscriptions/plans''),
     (''GET'', ''/api/v2/public/orgs/:slug''),
     (''GET'', ''/api/v2/public/orgs/:slug/invite''),
     (''GET'', ''/api/v2/drop/public/:fileId''),
     (''GET'', ''/api/v2/drop/public/:fileId/content''),
     (''Any'', ''/api/v2/drop/webui/:sessionId/*proxyPath''),
     (''POST'', ''/api/v2/nodes/:nodeId/heartbeat''),
     (''POST'', ''/api/v2/nodes/:nodeId/firewall/credentials'')]"

definition unlogged_routes :: "(string \<times> string) list" where
  "unlogged_routes =
    [(''POST'', ''/api/v2/auth/email''),
     (''POST'', ''/api/v2/auth/email/verify''),
     (''POST'', ''/api/v2/account/deletion-request''),
     (''POST'', ''/api/v2/account/org-invites/:orgId/accept''),
     (''POST'', ''/api/v2/account/org-invites/:orgId/decline''),
     (''POST'', ''/api/v2/account/wallet''),
     (''PATCH'', ''/api/v2/operator/nodes/:id''),
     (''POST'', ''/api/v2/social/google''),
     (''POST'', ''/api/v2/social/apple''),
     (''DELETE'', ''/api/v2/orgs/:id''),
     (''DELETE'', ''/api/v2/orgs/:id/invites/:inviteId''),
     (''POST'', ''/api/v2/orgs/:id/transfer-ownership''),
     (''POST'', ''/api/v2/orgs/:id/nodes/:nodeId/firewall/credentials''),
     (''POST'', ''/api/v2/orgs/:id/vpn/clients''),
     (''PUT'', ''/api/v2/drop/crypto/vault''),
     (''POST'', ''/api/v2/admin/users/:id/plan''),
     (''PATCH'', ''/api/v2/admin/orgs/:id''),
     (''POST'', ''/api/v2/admin/deletion-requests/:id/fulfill'')]"

lemma admin_guard: "filter (\<lambda>r. is_admin_path r \<and> \<not> (guarded_by AuthUser r \<and> guarded_by RequireAdmin r)) Router = []"
  by code_simp

lemma public_list: "route_names (filter (\<lambda>r. \<not> guarded_by AuthUser r \<and> \<not> guarded_by AuthAPIKey r) Router) = public_routes"
  by code_simp

lemma unlogged_list: "route_names (filter (\<lambda>r. changes r \<and> guarded_by AuthUser r \<and> \<not> audited r) Router) = unlogged_routes"
  by code_simp



section \<open>Witnesses\<close>

definition tuned_world :: db where
  "tuned_world = empty_db\<lparr>platform_settings :=
     [\<lparr>ps_key = ''trial_period'', ps_value = ''168h'', ps_description = ''''\<rparr>]\<rparr>"

definition bad_patch :: "(string \<times> string) list" where
  "bad_patch = [(''trial_period'', '' a week '')]"

definition release :: config where
  "release = \<lparr>cf_gin_mode = ''debug'', cf_mnemonic = '''', cf_db_password = '''', cf_google_client_ids = '''',
     cf_apple_client_ids = '''', cf_apple_relay_ids = '''', cf_public_base_url = '''', cf_solana_rpc_url = '''',
     cf_evm_rpc_url = '''', cf_nft_gate_chain = '''', cf_nft_gate_contract = '''', cf_nft_gate_rpc_url = ''''\<rparr>"

theorem settings_update_durable_witness:
  "\<exists>s' thr'. UpdatePlatformSettings (\<lambda>_. None) bad_patch (tuned_world, []) = (Inl (ErrMsg ''trial_period''), s', thr') \<and>
     raw_settings s' ''trial_period'' = Some ''a week'' \<and>
     boot (\<lambda>_. None) (\<lambda>_. None) ''k'' release s' = Inl (ErrMsg ''trial_period'')"
proof -
  let ?r = "UpdatePlatformSettings (\<lambda>_. None) bad_patch (tuned_world, [])"
  have "fst ?r = Inl (ErrMsg ''trial_period'')" by code_simp
  then have r: "?r = (Inl (ErrMsg ''trial_period''), fst (snd ?r), snd (snd ?r))" by (metis prod.collapse)
  have ne: "bad_patch \<noteq> []" by (simp add: bad_patch_def)
  have ok: "list_all (\<lambda>(k, _). k \<in> set KnownPlatformKeys) bad_patch \<and> list_all (updatable tuned_world) bad_patch"
    by code_simp
  note result = settings_update_durable [OF r ne]
  have p: "patched_settings bad_patch (raw_settings tuned_world) ''trial_period'' = Some ''a week''" by code_simp
  then have stored: "raw_settings (fst (snd ?r)) ''trial_period'' = Some ''a week''" using result ok by simp
  moreover have "raw_settings tuned_world ''trial_period'' \<noteq> Some ''a week''" by code_simp
  ultimately have "fst (snd ?r) \<noteq> tuned_world" by auto
  moreover have "Validate release = None" by (simp add: Validate_def release_def)
  ultimately have "boot (\<lambda>_. None) (\<lambda>_. None) ''k'' release (fst (snd ?r)) = Inl (ErrMsg ''trial_period'')"
    using result [THEN conjunct2, THEN conjunct2] by simp
  with r stored show ?thesis by (intro exI conjI)
qed

theorem rate_limit_window_witness:
  "fst (passes ''auth'' 2 ''1.2.3.4'' [5, 6, 7, 64] (Some Map.empty)) = [True, True, False, False]"
proof -
  have "fst (passes ''auth'' 2 ''1.2.3.4'' [5, 6, 7, 64] (Some Map.empty)) = map (\<lambda>i. int i < 2) [0..<length [5, 6, 7, 64::int]]"
    using rate_limit_window [of 2 "[5, 6, 7, 64]" Map.empty "''auth''" "''1.2.3.4''"] by (simp add: counts_ok_def)
  also have "\<dots> = [True, True, False, False]" by (simp add: upt_rec)
  finally show ?thesis .
qed

end
