(* ===== verification/IdentitySafety.thy ===== *)
theory IdentitySafety
  imports AccountSafety AdminApi
begin

text \<open>
  One identity, one account.  The store keeps wallets, email addresses and linked accounts unique; every handler that
  creates, links or deletes an account keeps it so, in any order of the requests.
\<close>

section \<open>The invariant\<close>

definition filled :: "string list \<Rightarrow> string list" where
  "filled xs = filter (\<lambda>x. x \<noteq> '''') xs"

definition one_account :: "db \<Rightarrow> bool" where
  "one_account s \<longleftrightarrow> distinct (map us_id (users s)) \<and> distinct (filled (map us_wallet_address (users s))) \<and>
     distinct (filled (map us_email (users s))) \<and> list_all (\<lambda>u. ToLower (us_email u) = us_email u) (users s) \<and>
     distinct (map (\<lambda>a. (sa_provider a, sa_provider_id a)) (social_accounts s)) \<and>
     list_all (\<lambda>a. fk_user s (sa_user_id a)) (social_accounts s)"

lemma fk_user_ids: "fk_user s i \<longleftrightarrow> i \<in> us_id ` set (users s)"
  by (auto simp: fk_user_def has_row_iff)

text \<open>The invariant looks at the identities only.\<close>

lemma ident_columns:
  "map us_id us = map fst (map ident us)" "map us_wallet_address us = map (fst \<circ> snd) (map ident us)"
  "map us_email us = map (fst \<circ> snd \<circ> snd) (map ident us)"
  by (simp_all add: ident_def)

lemma one_account_same:
  assumes "map ident (users s') = map ident (users s)" "social_accounts s' = social_accounts s"
  shows "one_account s' = one_account s"
proof -
  have cols: "map us_id (users s') = map us_id (users s)" "map us_wallet_address (users s') = map us_wallet_address (users s)"
    "map us_email (users s') = map us_email (users s)"
    unfolding ident_columns assms(1) by simp_all
  have ids: "us_id ` set (users s') = us_id ` set (users s)" using cols(1) by (metis list.set_map)
  have low: "list_all (\<lambda>u. ToLower (us_email u) = us_email u) us = list_all (\<lambda>e. ToLower e = e) (map us_email us)" for us
    by (simp add: list.pred_map comp_def)
  show ?thesis unfolding one_account_def low fk_user_ids cols ids assms(2) by (rule refl)
qed

lemma one_account_bookkeeping: "bookkeeping s s' \<Longrightarrow> one_account s \<Longrightarrow> one_account s'"
  using one_account_same [of s' s] bookkeeping_kept(4,5) by blast

section \<open>The operations of the store\<close>

lemma filled_append: "filled (xs @ ys) = filled xs @ filled ys" "filled [] = []"
    "filled (x # xs) = (if x = '''' then filled xs else x # filled xs)" "set (filled xs) = set xs - {''''}"
  by (auto simp: filled_def)

lemma one_account_insert:
  assumes "one_account s" "insert_user u s = (Inr x, s')" "ToLower (us_email u) = us_email u"
  shows "one_account s'" and "fk_user s' (us_id u)"
proof -
  have s': "s' = s\<lparr>users := users s @ [u]\<rparr>" and new: "us_id u \<notin> us_id ` set (users s)"
    "us_wallet_address u = '''' \<or> us_wallet_address u \<notin> us_wallet_address ` set (users s)"
    "us_email u = '''' \<or> us_email u \<notin> us_email ` set (users s)"
    using assms(2) by (auto simp: insert_user_def has_row_iff split: if_splits)
  show "one_account s'" "fk_user s' (us_id u)"
    using assms(1,3) new by (auto simp: s' one_account_def fk_user_ids filled_append list.pred_set)
qed

text \<open>Overwriting a unique column of one row keeps it unique when nobody else has the value.\<close>

lemma distinct_set_column:
  assumes "distinct (map us_id t)" "distinct (filled (map k t))"
    and "\<And>u. k (f u) = v" "\<And>u. u \<in> set t \<Longrightarrow> us_id u \<noteq> i \<Longrightarrow> k u \<noteq> v"
  shows "distinct (filled (map k (upd_rows (\<lambda>u. us_id u = i) f t)))"
  using assms(1,2,4)
proof (induction t)
  case (Cons a t)
  have rest: "distinct (filled (map k (upd_rows (\<lambda>u. us_id u = i) f t)))" (is "distinct (filled (map k ?t))")
    using Cons.prems by (intro Cons.IH) (auto simp: filled_append split: if_splits)
  show ?case
  proof (cases "us_id a = i")
    case True
    with Cons.prems(1) have others: "\<forall>u\<in>set t. us_id u \<noteq> i" by (auto simp: image_iff)
    then have "?t = t" by (intro upd_rows_id) simp
    moreover have "v \<notin> k ` set t" using Cons.prems(3) others by auto
    moreover have "upd_rows (\<lambda>u. us_id u = i) f (a # t) = f a # ?t" using True by (simp add: upd_rows_def)
    ultimately show ?thesis using rest by (auto simp: filled_append assms(3))
  next
    case False
    have "k a \<notin> set (filled (map k ?t))"
    proof
      assume "k a \<in> set (filled (map k ?t))"
      moreover have "map k ?t = map (\<lambda>r. if us_id r = i then v else k r) t" by (simp add: upd_rows_def assms(3))
      ultimately obtain r where "r \<in> set t" "k a = (if us_id r = i then v else k r)" "k a \<noteq> ''''"
        by (auto simp: filled_append(4))
      then show False using Cons.prems(2) Cons.prems(3) [of a] False
        by (cases "us_id r = i") (auto simp: filled_append)
    qed
    with rest False show ?thesis by (auto simp: filled_append upd_rows_def)
  qed
qed (simp add: upd_rows_def filled_append)

lemma map_upd_rows_same: "(\<And>u. k (f u) = k u) \<Longrightarrow> map k (upd_rows p f t) = map k t"
  by (simp add: upd_rows_def)

lemma set_upd_same: "(\<And>u. k (f u) = k u) \<Longrightarrow> k ` set (upd_rows p f t) = k ` set t"
  by (metis list.set_map map_upd_rows_same)

lemma one_account_wallet: "one_account s \<Longrightarrow> one_account (snd (set_wallet userID wallet chain s))"
proof -
  assume inv: "one_account s"
  let ?f = "\<lambda>u. u\<lparr>us_wallet_address := wallet, us_chain := chain\<rparr>"
  let ?t = "upd_rows (\<lambda>u. us_id u = userID) ?f (users s)"
  show ?thesis
  proof (cases "has_row (\<lambda>u. us_id u \<noteq> userID \<and> us_wallet_address u = wallet) (users s)")
    case True
    have "?t = users s" if "\<not> fk_user s userID"
      using that by (intro upd_rows_id) (auto simp: fk_user_ids)
    with True inv show ?thesis by (cases "fk_user s userID") (auto simp: set_wallet_def)
  next
    case False
    then have "distinct (filled (map us_wallet_address ?t))"
      using inv by (intro distinct_set_column [where v = wallet]) (auto simp: one_account_def has_row_iff)
    moreover have "list_all (\<lambda>u. ToLower (us_email u) = us_email u) ?t"
      using inv by (auto simp: one_account_def list.pred_set set_upd_rows)
    ultimately have "one_account (s\<lparr>users := ?t\<rparr>)"
      using inv by (simp add: one_account_def fk_user_ids map_upd_rows_same set_upd_same)
    with False inv show ?thesis by (simp add: set_wallet_def)
  qed
qed

lemma one_account_attach: "one_account s \<Longrightarrow> one_account (snd (AttachWalletToUser userID wallet chain s))"
  by (auto simp: AttachWalletToUser_def one_account_wallet split: sum.split)

lemma one_account_email: "one_account s \<Longrightarrow> one_account (snd (SetUserEmailVerified userID email s))"
proof -
  assume inv: "one_account s"
  let ?f = "\<lambda>u. u\<lparr>us_email := ToLower email, us_email_verified := True\<rparr>"
  let ?t = "upd_rows (\<lambda>u. us_id u = userID) ?f (users s)"
  show ?thesis
  proof (cases "has_row (\<lambda>u. us_id u \<noteq> userID \<and> us_email u = ToLower email) (users s)")
    case True
    have "?t = users s" if "\<not> fk_user s userID"
      using that by (intro upd_rows_id) (auto simp: fk_user_ids)
    with True inv show ?thesis by (cases "fk_user s userID") (auto simp: SetUserEmailVerified_def)
  next
    case False
    then have "distinct (filled (map us_email ?t))"
      using inv by (intro distinct_set_column [where v = "ToLower email"]) (auto simp: one_account_def has_row_iff)
    moreover have "list_all (\<lambda>u. ToLower (us_email u) = us_email u) ?t"
      using inv by (auto simp: one_account_def list.pred_set set_upd_rows ToLower_idem)
    ultimately have "one_account (s\<lparr>users := ?t\<rparr>)"
      using inv by (simp add: one_account_def fk_user_ids map_upd_rows_same set_upd_same)
    with False inv show ?thesis by (simp add: SetUserEmailVerified_def)
  qed
qed

lemma one_account_link:
  "one_account s \<Longrightarrow> one_account (snd (LinkSocialAccount now userID provider providerID handle s))"
  by (auto simp: LinkSocialAccount_def one_account_def fk_user_ids map_upd_rows_same list.pred_set set_upd_rows find_None_iff
      social_at_def split: option.splits)

lemma one_account_seq:
  assumes "one_account s" "\<And>x s1. insert_user u s = (Inr x, s1) \<Longrightarrow> one_account (snd (k x s1))"
  shows "one_account (snd (seq (insert_user u s) k))"
  using assms by (auto simp: seq_def insert_user_def split: sum.splits prod.splits)

lemma one_account_role:
  assumes "one_account s"
  shows "one_account (s\<lparr>users := upd_rows p (\<lambda>u. u\<lparr>us_role := role\<rparr>) (users s)\<rparr>)"
proof -
  have "list_all (\<lambda>u. ToLower (us_email u) = us_email u) (upd_rows p (\<lambda>u. u\<lparr>us_role := role\<rparr>) (users s))"
    using assms by (auto simp: one_account_def list.pred_set set_upd_rows)
  with assms show ?thesis by (simp add: one_account_def fk_user_ids map_upd_rows_same set_upd_same)
qed

lemma one_account_upsert: "one_account s \<Longrightarrow> one_account (snd (UpsertUserByWallet now newID wallet chain admin s))"
  by (auto simp: UpsertUserByWallet_def Let_def ToLower_def intro!: one_account_role one_account_seq
      intro: one_account_insert(1) split: option.split)

lemma one_account_insertUser:
  assumes "one_account s" "ToLower email = email"
  shows "one_account (snd (insertUser now newID wallet chain email verified admin s))"
  using assms by (auto simp: insertUser_def Let_def intro!: one_account_seq intro: one_account_insert(1))

lemma one_account_by_email:
  assumes "one_account s" "ToLower email = email"
  shows "one_account (snd (ResolveOrCreateUserByEmail now newID email s))"
  using one_account_insertUser [OF assms, of now newID "''''" "''''" True "''''"] assms(1)
  by (auto simp: ResolveOrCreateUserByEmail_def seq_def split: sum.splits prod.splits)

lemma one_account_by_social:
  assumes "one_account s" "ToLower email = email"
  shows "one_account (snd (ResolveOrCreateUserBySocial now newID provider providerID email handle s))"
proof -
  have link: "one_account s1" if "LinkSocialAccount now uid provider providerID handle t = (r, s1)" "one_account t" for uid t r s1
    using one_account_link [OF that(2), of now uid provider providerID handle] that(1) by simp
  have made: "one_account s1" if "insertUser now newID '''' '''' email v '''' s = (r, s1)" for v r s1
    using one_account_insertUser [OF assms, of now newID "''''" "''''" v "''''"] that by simp
  show ?thesis
  proof (cases "find (social_at provider providerID) (social_accounts s)")
    case (Some a)
    with assms(1) show ?thesis by (simp add: ResolveOrCreateUserBySocial_def)
  next
    case none: None
    show ?thesis
    proof (cases "if email \<noteq> '''' then userIDByVerifiedEmail s email else Inl ErrNotFound")
      case (Inr i)
      obtain q s1 where q: "LinkSocialAccount now i provider providerID handle s = (q, s1)" by (metis surj_pair)
      from link [OF this assms(1)] none Inr q show ?thesis
        by (cases q) (simp_all add: ResolveOrCreateUserBySocial_def)
    next
      case (Inl e)
      obtain q s1 where q: "insertUser now newID '''' '''' email (email \<noteq> '''') '''' s = (q, s1)" by (metis surj_pair)
      note inv = made [OF q]
      show ?thesis
      proof (cases q)
        case (Inr u)
        obtain p s2 where p: "LinkSocialAccount now (us_id u) provider providerID handle s1 = (p, s2)" by (metis surj_pair)
        from link [OF p inv] none Inl Inr q p show ?thesis by (cases p) (simp_all add: ResolveOrCreateUserBySocial_def)
      qed (use none Inl q inv in \<open>simp add: ResolveOrCreateUserBySocial_def\<close>)
    qed
  qed
qed

section \<open>The handlers\<close>

lemma one_account_other:
  "users s' = users s \<Longrightarrow> social_accounts s' = social_accounts s \<Longrightarrow> one_account s' = one_account s"
  by (rule one_account_same) simp_all

lemma one_account_frames [simp]:
  "one_account (DeleteFlowID i s) = one_account s" "one_account (DeleteLoginOTP e s) = one_account s"
  "one_account (DeleteEmailOTPs u e s) = one_account s" "one_account (UpsertLoginOTP now e h ttl s) = one_account s"
  "one_account (snd (BumpLoginOTPAttempts e s)) = one_account s"
  "one_account (snd (BumpEmailOTPAttempts i s)) = one_account s"
  "one_account (snd (CreateFlowID now i w c ttl s)) = one_account s"
  "one_account (snd (GetFlowID now i s)) = one_account s"
  "one_account (snd (CreateEmailOTP now r u e h ttl s)) = one_account s"
  "one_account (snd (CreateDeletionRequest now i u w e n s)) = one_account s"
  by (rule one_account_other; simp add: DeleteFlowID_def DeleteLoginOTP_def DeleteEmailOTPs_def UpsertLoginOTP_def Let_def
      BumpLoginOTPAttempts_def BumpEmailOTPAttempts_def CreateFlowID_def GetFlowID_def CreateEmailOTP_def
      CreateDeletionRequest_def split: option.split)+

lemma one_account_award [simp]: "one_account s \<Longrightarrow> one_account (award env now uid kind points meta key s)"
  using one_account_bookkeeping [OF award_bookkeeping] by blast

lemma one_account_login [simp]:
  "one_account s \<Longrightarrow> one_account (bootstrapUser env now dw u (bindReferralCode env now uid ref s))"
  using one_account_bookkeeping [OF login_bookkeeping] by blast

lemma challenge_keeps: "one_account s \<Longrightarrow> one_account (snd (handleAuthChallenge env now flowID w c s))"
proof -
  assume inv: "one_account s"
  have "one_account t" if "CreateFlowID now flowID a b flowIDTTL s = (r, t)" for a b r t
    using one_account_frames(7) [of now flowID a b flowIDTTL s] inv that by simp
  with inv show ?thesis by (auto simp: handleAuthChallenge_def Let_def split: prod.split sum.split)
qed

lemma complete_keeps: "one_account s \<Longrightarrow> one_account (snd (handleAuthComplete env now dw body s))"
proof -
  assume inv: "one_account s"
  have login: "one_account (snd (complete_login env now dw flow ref t))" if "one_account t" for flow ref t
    using one_account_upsert [OF that, of now "dw_user dw" "fl_wallet_address flow" "fl_chain flow" "au_admin_wallet env"]
    by (auto simp: complete_login_def split: prod.split sum.split)
  have "one_account t" if "GetFlowID now i s = (r, t)" for i r t
    using one_account_frames(8) [of now i s] inv that by simp
  with inv login show ?thesis by (auto simp: handleAuthComplete_def split: option.split prod.split sum.split)
qed

lemma wallet_keeps: "one_account s \<Longrightarrow> one_account (snd (handleLinkWallet env now cl body s))"
proof -
  assume inv: "one_account s"
  have link: "one_account t'" if "AttachWalletToUser u w c (DeleteFlowID i t) = (r, t')" "one_account t" for u w c i t r t'
    using one_account_attach [of "DeleteFlowID i t" u w c] that by simp
  have "one_account t" if "GetFlowID now i s = (r, t)" for i r t
    using one_account_frames(8) [of now i s] inv that by simp
  with inv link show ?thesis
    by (auto simp: handleLinkWallet_def split: option.split prod.split sum.split)
qed

lemma send_code_keeps:
  assumes "one_account s" "\<And>h. one_account (snd (store_code h s))"
  shows "one_account (snd (send_code env dw email product store_code s))"
  using assms by (auto simp: send_code_def split: option.split prod.split sum.split) (metis snd_conv)+

lemma login_start_keeps: "one_account s \<Longrightarrow> one_account (snd (handleEmailLoginStart env now dw body s))"
  by (auto simp: handleEmailLoginStart_def intro!: send_code_keeps split: option.split)

lemma otp_start_keeps: "one_account s \<Longrightarrow> one_account (snd (handleEmailOTPStart env now dw cl body s))"
  by (auto simp: handleEmailOTPStart_def Let_def intro!: send_code_keeps split: option.split)

lemma login_verify_keeps: "one_account s \<Longrightarrow> one_account (snd (handleEmailLoginVerify env now dw body s))"
proof -
  assume inv: "one_account s"
  have bump: "one_account t" if "BumpLoginOTPAttempts e s = (r, t)" for e r t
    using one_account_frames(5) [of e s] inv that by simp
  have resolve: "one_account t'" if "ResolveOrCreateUserByEmail now i e t = (r, t')" "one_account t" "ToLower e = e" for i e t r t'
    using one_account_by_email [OF that(2,3), of now i] that(1) by simp
  have lower: "ToLower e = e" if "normalizeEmail raw = Some e" for raw e
    using that by (auto simp: normalizeEmail_def Let_def ToLower_idem split: if_splits)
  show ?thesis using inv bump resolve lower
    by (auto simp: handleEmailLoginVerify_def email_login_def finishIdentityLogin_def Let_def
        split: option.split prod.split sum.split)
qed

lemma otp_verify_keeps: "one_account s \<Longrightarrow> one_account (snd (handleEmailOTPVerify env now cl body s))"
proof -
  assume inv: "one_account s"
  have bump: "one_account t" if "BumpEmailOTPAttempts i s = (r, t)" for i r t
    using one_account_frames(6) [of i s] inv that by simp
  have "one_account (snd (link_email env now uid email s))" for uid email
    using one_account_email [OF inv, of uid email]
    by (auto simp: link_email_def Let_def split: prod.split sum.split intro!: one_account_link)
  with inv bump show ?thesis by (auto simp: handleEmailOTPVerify_def Let_def split: option.split prod.split sum.split)
qed

lemma verified_email_lower:
  assumes "verify_with env now k tok vs = (Inr c, vs')"
  shows "ToLower (oc_email c) = oc_email c"
proof -
  obtain v r v' where "oauth_Verify (au_oidc env) now tok v = (Inr c, v')"
    using assms by (auto simp: verify_with_def split: option.splits prod.splits)
  from oauth_Verify_okD [OF this] show ?thesis by (auto simp: oauth_claims_of_def ToLower_idem)
qed

lemma social_login_keeps:
  assumes "one_account s" "ToLower (oc_email c) = oc_email c"
  shows "one_account (snd (social_login env now dw provider c ref s))"
proof -
  have "ToLower (trusted_email c) = trusted_email c" using assms(2) by (simp add: trusted_email_def ToLower_def)
  from one_account_by_social [OF assms(1) this, of now "dw_user dw" provider "oc_subject c" "trusted_email c"]
  show ?thesis by (auto simp: social_login_def finishIdentityLogin_def Let_def split: prod.split sum.split)
qed

lemma oidc_keeps: "one_account s \<Longrightarrow> one_account (fst (snd (oidcLogin env now dw provider k body (s, vs))))"
proof -
  assume inv: "one_account s"
  have "one_account t" if "social_login env now dw provider c ref s = (r, t)" "verify_with env now k tok vs = (Inr c, vs')"
    for c ref r t tok vs'
    using social_login_keeps [OF inv verified_email_lower [OF that(2)], of env now dw provider ref] that(1) by simp
  with inv show ?thesis by (auto simp: oidcLogin_def Let_def split: option.split prod.split sum.split)
qed

lemma verify_apple_lower: "verify_apple env now k tok vs = (Inr c, vs') \<Longrightarrow> ToLower (oc_email c) = oc_email c"
  by (auto simp: verify_apple_def dest: verified_email_lower split: prod.splits sum.splits if_splits)

lemma apple_keeps: "one_account s \<Longrightarrow> one_account (fst (snd (handleAppleAuth env now dw body (s, vs))))"
proof -
  assume inv: "one_account s"
  have "one_account t" if "social_login env now dw ''apple'' c ref s = (r, t)" "verify_apple env now k tok vs = (Inr c, vs')"
    for c ref r t tok vs' k
    using social_login_keeps [OF inv verify_apple_lower [OF that(2)], of env now dw "''apple''" ref] that(1) by simp
  with inv show ?thesis by (auto simp: handleAppleAuth_def Let_def split: option.split prod.split sum.split)
qed

lemma linkSocial_keeps: "one_account s \<Longrightarrow> one_account (snd (linkSocial env now cl provider pid handle s))"
  using one_account_link [of s now "cl_user_id cl" provider pid handle]
  by (auto simp: linkSocial_def Let_def split: prod.split sum.split)

lemma oidcLink_keeps: "one_account s \<Longrightarrow> one_account (fst (snd (oidcLink env now cl provider k body (s, vs))))"
  using linkSocial_keeps [of s env now cl provider]
  by (auto simp: oidcLink_def Let_def split: option.split prod.split sum.split) (metis snd_conv)+

lemma telegram_keeps: "one_account s \<Longrightarrow> one_account (snd (handleVerifyTelegram env hmac bot now cl body s))"
  by (auto simp: handleVerifyTelegram_def linkSocial_keeps split: option.split prod.split)

lemma x_keeps: "one_account s \<Longrightarrow> one_account (snd (handleVerifyX env get base now cl body s))"
  by (auto simp: handleVerifyX_def linkSocial_keeps split: option.split prod.split)

lemma one_account_profile: "one_account (snd (UpdateProfile uid name picture s)) = one_account s"
  by (rule one_account_same) (simp_all add: UpdateProfile_def ident_upd_rows ident_def)

lemma profile_keeps: "one_account s \<Longrightarrow> one_account (snd (handlePatchProfile cl body s))"
proof -
  assume inv: "one_account s"
  have "one_account t" if "UpdateProfile uid n p s = (r, t)" for uid n p r t
    using one_account_profile [of uid n p s] inv that by simp
  with inv show ?thesis by (auto simp: handlePatchProfile_def split: option.split prod.split sum.split)
qed

lemma request_keeps: "one_account s \<Longrightarrow> one_account (snd (handleAccountDeletionRequest now i cl s))"
proof -
  assume inv: "one_account s"
  have "one_account t" if "CreateDeletionRequest now i u w e n s = (r, t)" for u w e n r t
    using one_account_frames(10) [of now i u w e n s] inv that by simp
  with inv show ?thesis by (auto simp: handleAccountDeletionRequest_def Let_def split: prod.split sum.split)
qed

text \<open>Inviting and adding members resolve wallets, and create accounts for unknown ones.\<close>

lemma upsert_member_accounts:
  "users (snd (upsert_member now st new s)) = users s \<and> social_accounts (snd (upsert_member now st new s)) = social_accounts s"
  by (simp add: upsert_member_def insert_member_def seq_def Let_def split: option.split)

lemma one_account_upsert_member: "one_account (snd (upsert_member now st new s)) = one_account s"
  using upsert_member_accounts [of now st new s] by (intro one_account_other) simp_all

lemma one_account_AddMember: "one_account (snd (AddMember now i orgID uid role s)) = one_account s"
proof -
  have "one_account (snd (seq (upsert_member now st new s) (\<lambda>_ s. (Inr (), s)))) = one_account s" for st new
    using one_account_upsert_member [of now st new s] by (auto simp: seq_def split: prod.split sum.split)
  then show ?thesis by (simp add: AddMember_def Let_def split: sum.split prod.split)
qed

lemma one_account_InviteMember: "one_account (snd (InviteMember now i orgID uid role seat s)) = one_account s"
  by (simp add: InviteMember_def Let_def one_account_upsert_member split: sum.split)

lemma one_account_CreateOrgInvite: "one_account (snd (CreateOrgInvite now i orgID e role seat by_id s)) = one_account s"
  by (rule one_account_other; simp add: CreateOrgInvite_def Let_def split: option.split)

lemma add_member_keeps: "one_account s \<Longrightarrow> one_account (snd (handleAddMember now nu nm cl orgID body s))"
proof -
  assume inv: "one_account s"
  have up: "one_account t" if "UpsertUserByWallet now nu w c '''' s = (r, t)" for w c r t
    using one_account_upsert [OF inv, of now nu w c "''''"] that by simp
  have add: "one_account t'" if "AddMember now nm orgID uid role t = (r, t')" "one_account t" for uid role t r t'
    using one_account_AddMember [of now nm orgID uid role t] that by simp
  show ?thesis using inv up add
    by (auto simp: handleAddMember_def split: option.split prod.split sum.split)
qed

lemma invite_keeps: "one_account s \<Longrightarrow> one_account (snd (handleInviteMember now ids me cl orgID body s))"
proof -
  assume inv: "one_account s"
  have member: "one_account t'" if "InviteMember now i orgID uid role seat t = (r, t')" "one_account t" for i uid role seat t r t'
    using one_account_InviteMember [of now i orgID uid role seat t] that by simp
  have invite: "one_account t'" if "CreateOrgInvite now i orgID e role seat who t = (r, t')" "one_account t" for i e role seat who t r t'
    using one_account_CreateOrgInvite [of now i orgID e role seat who t] that by simp
  have up: "one_account t'" if "UpsertUserByWallet now i w c '''' t = (r, t')" "one_account t" for i w c t r t'
    using one_account_upsert [OF that(2), of now i w c "''''"] that by simp
  have by_email: "one_account t'" if "invite_by_email now ids orgID e role seat who t = (r, t')" "one_account t" for e role seat who t r t'
    using that member invite by (auto simp: invite_by_email_def split: sum.splits prod.splits if_splits)
  have by_wallet: "one_account t'" if "invite_by_wallet now ids orgID w c role seat t = (r, t')" "one_account t" for w c role seat t r t'
    using that up member by (auto simp: invite_by_wallet_def split: sum.splits prod.splits)
  have both: "one_account (snd (invite_both now ids me orgID who req email role orgName s))" for who req email role orgName
    using inv by_email by_wallet by (auto simp: invite_both_def Let_def split: option.split sum.split prod.split)
  show ?thesis using inv both by (auto simp: handleInviteMember_def Let_def split: option.split sum.split)
qed

text \<open>Deleting an account takes its linked accounts with it.\<close>

lemma delete_org_accounts:
  "users (foldl (\<lambda>s orgID. delete_org_cascade orgID s) s os) = users s \<and>
   social_accounts (foldl (\<lambda>s orgID. delete_org_cascade orgID s) s os) = social_accounts s"
  by (induction os arbitrary: s) (simp_all add: delete_org_cascade_def)

lemma delete_user_accounts:
  "users (delete_user_cascade uid s) = del_rows (\<lambda>u. us_id u = uid) (map (\<lambda>x. x\<lparr>us_referred_by := unlink uid (us_referred_by x)\<rparr>) (users s))"
  "social_accounts (delete_user_cascade uid s) = del_rows (\<lambda>a. sa_user_id a = uid) (social_accounts s)"
  using delete_org_accounts [of s "owned_orgs s uid"]
  by (simp_all add: delete_user_cascade_def drop_author_def drop_owned_def delete_clients_def Let_def)

lemma distinct_filled_filter: "distinct (filled (map k t)) \<Longrightarrow> distinct (filled (map k (filter p t)))"
  by (induction t) (auto simp: filled_append split: if_splits)

lemma del_ids: "us_id ` set (del_rows (\<lambda>u. us_id u = uid) t) = us_id ` set t - {uid}"
  by (auto simp: del_rows_def)

lemma one_account_delete:
  assumes "one_account s"
  shows "one_account (delete_user_cascade uid s)"
proof -
  let ?t = "map (\<lambda>x. x\<lparr>us_referred_by := unlink uid (us_referred_by x)\<rparr>) (users s)"
  have cols: "map us_id ?t = map us_id (users s)" "map us_wallet_address ?t = map us_wallet_address (users s)"
    "map us_email ?t = map us_email (users s)" by simp_all
  have "distinct (map us_id (del_rows p ?t))" "distinct (filled (map us_wallet_address (del_rows p ?t)))"
    "distinct (filled (map us_email (del_rows p ?t)))" for p
    using assms cols by (auto simp: one_account_def del_rows_def distinct_map_filter intro!: distinct_filled_filter simp del: map_map)
  moreover have "list_all (\<lambda>u. ToLower (us_email u) = us_email u) (del_rows p ?t)" for p
    using assms by (auto simp: one_account_def list.pred_set del_rows_def)
  moreover have "us_id ` set ?t = us_id ` set (users s)" by (simp add: image_image)
  then have "list_all (\<lambda>a. fk_user (delete_user_cascade uid s) (sa_user_id a)) (del_rows (\<lambda>a. sa_user_id a = uid) (social_accounts s))"
    using assms by (auto simp: one_account_def fk_user_ids delete_user_accounts(1) del_ids list.pred_set del_rows_def simp del: set_map)
  moreover have "distinct (map (\<lambda>a. (sa_provider a, sa_provider_id a)) (del_rows p (social_accounts s)))" for p
    using assms by (simp add: one_account_def del_rows_def distinct_map_filter)
  ultimately show ?thesis unfolding one_account_def delete_user_accounts by blast
qed

lemma fulfill_keeps: "one_account s \<Longrightarrow> one_account (fst (snd (handleAdminFulfillDeletionRequest mailer now i s)))"
proof -
  assume inv: "one_account s"
  have "one_account t" if fulfilled: "FulfillDeletionRequest_tx now i s = (Inr e, t)" for e t
  proof -
    obtain uid rs where "t = (delete_user_cascade uid s)\<lparr>deletion_requests := rs\<rparr>"
      using fulfilled by (auto simp: FulfillDeletionRequest_tx_def Let_def split: option.splits if_splits)
    then show ?thesis using one_account_delete [OF inv, of uid] one_account_other [of t "delete_user_cascade uid s"] by simp
  qed
  then have "one_account t" if "FulfillDeletionRequest now i s = (r, t)" for r t
    using inv that by (auto simp: FulfillDeletionRequest_def in_tx_def split: prod.splits sum.splits)
  with inv show ?thesis by (auto simp: handleAdminFulfillDeletionRequest_def split: prod.split sum.split)
qed

section \<open>Every order of requests\<close>

text \<open>
  One request, or the tick of a background task, on the database and the key caches of the verifiers.  \<open>elsewhere\<close>
  stands for everything that leaves the identities of the accounts and the linked accounts alone.
\<close>

inductive identity_step :: "db \<times> verifiers \<Rightarrow> db \<times> verifiers \<Rightarrow> bool" where
  challenge: "identity_step (s, vs) (snd (handleAuthChallenge env now flowID w c s), vs)"
| wallet_login: "identity_step (s, vs) (snd (handleAuthComplete env now dw areq s), vs)"
| wallet_link: "identity_step (s, vs) (snd (handleLinkWallet env now cl areq s), vs)"
| code_start: "identity_step (s, vs) (snd (handleEmailLoginStart env now dw oreq s), vs)"
| code_login: "identity_step (s, vs) (snd (handleEmailLoginVerify env now dw vreq s), vs)"
| email_start: "identity_step (s, vs) (snd (handleEmailOTPStart env now dw cl oreq s), vs)"
| email_link: "identity_step (s, vs) (snd (handleEmailOTPVerify env now cl vreq s), vs)"
| google_login: "identity_step (s, vs) (snd (handleGoogleAuth env now dw ireq (s, vs)))"
| apple_login: "identity_step (s, vs) (snd (handleAppleAuth env now dw ireq (s, vs)))"
| google_link: "identity_step (s, vs) (snd (handleLinkGoogle env now cl ireq (s, vs)))"
| apple_link: "identity_step (s, vs) (snd (handleLinkApple env now cl ireq (s, vs)))"
| telegram_link: "identity_step (s, vs) (snd (handleVerifyTelegram env hmac bot now cl kvs s), vs)"
| x_link: "identity_step (s, vs) (snd (handleVerifyX env get xBase now cl tok s), vs)"
| profile: "identity_step (s, vs) (snd (handlePatchProfile cl preq s), vs)"
| add_member: "identity_step (s, vs) (snd (handleAddMember now nu nm cl orgID mreq s), vs)"
| invite: "identity_step (s, vs) (snd (handleInviteMember now ids me cl orgID nreq s), vs)"
| ask_deletion: "identity_step (s, vs) (snd (handleAccountDeletionRequest now i cl s), vs)"
| delete: "identity_step (s, vs) (fst (snd (handleAdminFulfillDeletionRequest mailer now i s)), vs)"
| elsewhere: "map ident (users s') = map ident (users s) \<Longrightarrow> social_accounts s' = social_accounts s \<Longrightarrow>
    identity_step (s, vs) (s', vs')"

lemmas login_keeps = challenge_keeps complete_keeps wallet_keeps login_start_keeps login_verify_keeps otp_start_keeps
  otp_verify_keeps oidc_keeps apple_keeps oidcLink_keeps telegram_keeps x_keeps profile_keeps add_member_keeps
  invite_keeps request_keeps fulfill_keeps

lemma identity_step_keeps:
  assumes "identity_step st st'" "one_account (fst st)"
  shows "one_account (fst st')"
  using assms
proof (induction rule: identity_step.induct)
  case (elsewhere s' s vs vs')
  then show ?case using one_account_same [of s' s] unfolding fst_conv by blast
qed (simp_all only: fst_conv handleGoogleAuth_def handleLinkGoogle_def handleLinkApple_def login_keeps)

lemma reachable_one_account: "identity_step\<^sup>*\<^sup>* (empty_db, vs) st \<Longrightarrow> one_account (fst st)"
proof (induction rule: rtranclp_induct)
  case base
  show ?case by (simp add: one_account_def empty_db_def filled_def)
next
  case (step y z)
  then show ?case using identity_step_keeps by blast
qed

lemma filled_unique:
  assumes "distinct (filled (map k t))" "x \<in> set t" "y \<in> set t" "k x = k y" "k x \<noteq> ''''"
  shows "x = y"
  using assms by (induction t) (auto simp: filled_append image_iff split: if_splits)

text \<open>
  C2. One identity, one account. However logins by wallet, email, Google and Apple, links of wallets, addresses and
  social accounts, invitations by wallet and deletions are ordered, starting from the empty database, no two accounts
  share an id, a wallet or an email address, not even in another spelling of the address, and every external account is
  linked to exactly one account, which exists.\<close>

theorem one_account_per_identity:
  assumes "identity_step\<^sup>*\<^sup>* (empty_db, vs) st" "u \<in> set (users (fst st))" "v \<in> set (users (fst st))"
  shows "(us_id u = us_id v \<longrightarrow> u = v) \<and>
    (us_wallet_address u \<noteq> '''' \<and> us_wallet_address u = us_wallet_address v \<longrightarrow> u = v) \<and>
    (us_email u \<noteq> '''' \<and> ToLower (us_email u) = ToLower (us_email v) \<longrightarrow> u = v) \<and>
    distinct (map (\<lambda>a. (sa_provider a, sa_provider_id a)) (social_accounts (fst st))) \<and>
    list_all (\<lambda>a. fk_user (fst st) (sa_user_id a)) (social_accounts (fst st))"
proof -
  have inv: "one_account (fst st)" by (rule reachable_one_account [OF assms(1)])
  then have "ToLower (us_email u) = us_email u" "ToLower (us_email v) = us_email v"
    using assms(2,3) by (auto simp: one_account_def list.pred_set)
  moreover have "us_id u = us_id v \<Longrightarrow> u = v"
    using inv assms(2,3) by (auto simp: one_account_def distinct_map dest: inj_onD)
  ultimately show ?thesis
    using inv assms(2,3) filled_unique [of us_wallet_address "users (fst st)" u v] filled_unique [of us_email "users (fst st)" u v]
    by (auto simp: one_account_def)
qed

section \<open>Witnesses\<close>

definition asked :: db where
  "asked = snd (handleAuthChallenge sign_env 0 ''f1'' ''boss'' ''sol'' empty_db)"

definition arrived :: db where
  "arrived = snd (handleAuthComplete sign_env 10 sign_draws (Some sign_req) asked)"

theorem one_account_per_identity_witness:
  "\<exists>u. u \<in> set (users arrived) \<and> us_wallet_address u = ''boss'' \<and>
     (\<forall>v\<in>set (users arrived). us_wallet_address v = ''boss'' \<longrightarrow> v = u)"
proof -
  have "identity_step\<^sup>*\<^sup>* (empty_db, sign_verifiers) (arrived, sign_verifiers)"
    unfolding arrived_def asked_def
    by (rule rtranclp.rtrancl_into_rtrancl [OF r_into_rtranclp], rule identity_step.challenge, rule identity_step.wallet_login)
  note one = one_account_per_identity [OF this, unfolded fst_conv]
  have "map us_wallet_address (users arrived) = [''boss'']" by code_simp
  then obtain u where u: "u \<in> set (users arrived)" "us_wallet_address u = ''boss''" by (cases "users arrived") auto
  have "v = u" if v: "v \<in> set (users arrived)" "us_wallet_address v = ''boss''" for v
    using one [OF v(1) u(1), THEN conjunct2, THEN conjunct1] u(2) v(2) by simp
  with u show ?thesis by blast
qed

end
