(* ===== verification/DeletionSafety.thy ===== *)
theory DeletionSafety
  imports AdminApi
begin

text \<open>
  What fulfilling a deletion request leaves behind: no row belongs to the user or mentions the user, and the other
  accounts stay.
\<close>

section \<open>References to a user\<close>

definition owns_rows :: "id \<Rightarrow> db \<Rightarrow> bool" where
  "owns_rows uid s \<longleftrightarrow> has_row (\<lambda>x. us_id x = uid) (users s) \<or> has_row (\<lambda>x. o_owner_user_id x = uid) (orgs s) \<or>
     has_row (\<lambda>x. m_user_id x = uid) (org_members s) \<or> has_row (\<lambda>x. rt_created_by x = uid) (node_registration_tokens s) \<or>
     has_row (\<lambda>x. fr_created_by x = uid) (firewall_rules s) \<or> has_row (\<lambda>x. sa_user_id x = uid) (social_accounts s) \<or>
     has_row (\<lambda>x. eo_user_id x = uid) (email_otps s) \<or> has_row (\<lambda>x. xe_user_id x = uid) (xp_events s) \<or>
     has_row (\<lambda>x. up_user_id x = uid) (user_perks s) \<or> has_row (\<lambda>x. ae_user_id x = uid) (activity_log s) \<or>
     has_row (\<lambda>x. sb_user_id x = uid) (subscriptions s) \<or> has_row (\<lambda>x. df_owner_user_id x = uid) (drop_files s) \<or>
     has_row (\<lambda>x. up_owner_user_id x = uid) (drop_uploads s) \<or> has_row (\<lambda>x. cp_user_id x = uid) (drop_crypto_profiles s) \<or>
     has_row (\<lambda>x. wc_user_id x = uid) (vpn_clients s)"

definition mentioned :: "id \<Rightarrow> db \<Rightarrow> bool" where
  "mentioned uid s \<longleftrightarrow> has_row (\<lambda>x. us_referred_by x = uid) (users s) \<or> has_row (\<lambda>x. on_created_by x = uid) (org_nodes s) \<or>
     has_row (\<lambda>x. sv_created_by x = uid) (org_node_services s) \<or> has_row (\<lambda>x. oi_invited_by x = uid) (org_invites s) \<or>
     has_row (\<lambda>x. dr_user_id x = uid) (deletion_requests s)"

lemma no_row_del [simp]: "\<not> has_row p (del_rows p t)"
  by (auto simp: has_row_iff del_rows_def)

lemma no_row_unlink: "uid \<noteq> '''' \<Longrightarrow> (\<And>x. k (f x) = unlink uid (k x)) \<Longrightarrow> \<not> has_row (\<lambda>x. k x = uid) (map f t)"
  by (auto simp: has_row_iff unlink_def split: if_splits)

lemma foldl_orgs: "orgs (foldl (\<lambda>s orgID. delete_org_cascade orgID s) s os) = filter (\<lambda>x. o_id x \<notin> set os) (orgs s)"
proof (induction os arbitrary: s)
  case (Cons i os)
  have "orgs (delete_org_cascade i s) = filter (\<lambda>x. o_id x \<noteq> i) (orgs s)"
    by (simp add: delete_org_cascade_def del_rows_def)
  then show ?case using Cons by (simp add: conj_commute)
qed simp

lemma cascade_owns_nothing: "\<not> owns_rows uid (delete_user_cascade uid s)"
proof -
  let ?s = "foldl (\<lambda>s orgID. delete_org_cascade orgID s) s (owned_orgs s uid)"
  have "\<not> has_row (\<lambda>x. o_owner_user_id x = uid) (orgs ?s)"
    by (auto simp: foldl_orgs owned_orgs_def has_row_iff)
  moreover have "\<not> has_row (\<lambda>f. df_owner_user_id f = uid)
      (map (\<lambda>f. if p f then f\<lparr>df_upload_id := ''''\<rparr> else f) (del_rows (\<lambda>f. df_owner_user_id f = uid) t))" for p t
    by (auto simp: has_row_iff del_rows_def)
  ultimately show ?thesis
    by (simp add: owns_rows_def delete_user_cascade_def drop_author_def drop_owned_def delete_clients_def Let_def)
qed

lemma cascade_mentions_nothing: "uid \<noteq> '''' \<Longrightarrow> \<not> mentioned uid (delete_user_cascade uid s)"
proof -
  assume uid: "uid \<noteq> ''''"
  have users: "\<not> has_row (\<lambda>x. us_referred_by x = uid) (del_rows p (map (\<lambda>x. x\<lparr>us_referred_by := unlink uid (us_referred_by x)\<rparr>) t))" for p t
    using uid by (auto simp: has_row_iff del_rows_def unlink_def split: if_splits)
  show ?thesis
    using uid by (simp add: mentioned_def delete_user_cascade_def drop_author_def Let_def users no_row_unlink)
qed

lemma cascade_users: "map us_id (users (delete_user_cascade uid s)) = filter (\<lambda>i. i \<noteq> uid) (map us_id (users s))"
proof -
  have "users (foldl (\<lambda>s orgID. delete_org_cascade orgID s) s os) = users s" for os
    by (induction os arbitrary: s) (simp_all add: delete_org_cascade_def)
  then show ?thesis
    by (simp add: delete_user_cascade_def drop_author_def drop_owned_def delete_clients_def Let_def del_rows_def filter_map comp_def)
qed


section \<open>Witness\<close>

definition leaver :: "id \<Rightarrow> string \<Rightarrow> user" where
  "leaver uid ref = \<lparr>us_id = uid, us_wallet_address = '''', us_chain = '''', us_role = ''user'', us_email = uid @ ''@x.io'',
     us_email_verified = True, us_name = '''', us_profile_picture = '''', us_xp_earned = 0, us_xp_claimed = 0,
     us_tier = 0, us_referral_code = '''', us_referred_by = ref, us_created_at = 0\<rparr>"

definition leaving :: db where
  "leaving = empty_db\<lparr>users := [leaver ''u1'' '''', leaver ''u2'' ''u1''],
     social_accounts := [\<lparr>sa_user_id = ''u1'', sa_provider = ''x'', sa_provider_id = ''7'', sa_handle = ''h'', sa_verified_at = 0\<rparr>],
     deletion_requests := [\<lparr>dr_id = ''d1'', dr_user_id = ''u1'', dr_wallet_address = '''', dr_email = ''u1@x.io'', dr_name = '''',
        dr_status = ''pending'', dr_requested_at = 0, dr_fulfilled_at = None, dr_created_at = 0\<rparr>]\<rparr>"


end
