(* ===== verification/Mailer.thy ===== *)
theory Mailer
  imports OrgApi
begin

text \<open>
  Outgoing mail: \<open>internal/mailer/mailer.go\<close> and the texts of \<open>internal/mailer/templates.go\<close>.

  A message is the JSON object that is posted to the provider; the post is a parameter that answers a status, or
  nothing when the transport fails.  The current year is an argument.  The body of a refused request only goes into
  the error text.
\<close>

section \<open>Markup\<close>

text \<open>\<open>html.EscapeString\<close>.\<close>

definition escape_char :: "char \<Rightarrow> string" where
  "escape_char c = (if c = CHR ''&'' then ''&amp;'' else if byte c = 39 then ''&#39;'' else if c = CHR ''<'' then ''&lt;''
     else if c = CHR ''>'' then ''&gt;'' else if byte c = 34 then ''&#34;'' else [c])"

definition EscapeString :: "string \<Rightarrow> string" where
  "EscapeString s = concat (map escape_char s)"

definition brandBg :: string where "brandBg = ''#0A0A0C''"
definition brandSurface :: string where "brandSurface = ''#141418''"
definition brandAccent :: string where "brandAccent = ''#FF6B35''"
definition brandAccentHi :: string where "brandAccentHi = ''#FF8C5A''"
definition brandText :: string where "brandText = ''#F4F3F0''"
definition brandText2 :: string where "brandText2 = ''#9B9A97''"
definition brandText3 :: string where "brandText3 = ''#5C5B58''"

definition strong :: "string \<Rightarrow> string" where
  "strong s = ''<strong>'' @ s @ ''</strong>''"

definition strong_bright :: "string \<Rightarrow> string" where
  "strong_bright s = ''<strong style=\"color:'' @ brandText @ '';\">'' @ s @ ''</strong>''"

definition inviterLine :: "invite_mail \<Rightarrow> string" where
  "inviterLine d =
    (let inviter = TrimSpace (im_inviter d); role = TrimSpace (im_role d)
     in if inviter \<noteq> '''' \<and> role \<noteq> ''''
        then strong (EscapeString inviter) @ '' invited you to join as '' @ strong (EscapeString role) @ ''.''
        else if inviter \<noteq> '''' then strong (EscapeString inviter) @ '' invited you to join their workspace.''
        else if role \<noteq> '''' then ''You have been invited to join as '' @ strong (EscapeString role) @ ''.''
        else ''You have been invited to join a workspace on Erebrus.'')"

definition brandURLs :: "string \<Rightarrow> string \<times> string" where
  "brandURLs product =
    (let p = ToLower (TrimSpace product)
     in if p = ''erebrus ai'' \<or> p = ''ai'' then (''https://erebrus.io/ai/logo.png'', ''https://erebrus.io/ai'')
        else if p = ''erebrus drop'' \<or> p = ''drop'' then (''https://erebrus.io/drop/logo.png'', ''https://erebrus.io/drop'')
        else if p = ''erebrus vpn'' \<or> p = ''vpn'' then (''https://erebrus.io/vpn/logo.png'', ''https://erebrus.io/vpn'')
        else (''https://erebrus.io/favicon.ico'', ''https://erebrus.io''))"

text \<open>The page around a body, line by line.\<close>

definition branded_page :: "int \<Rightarrow> string \<Rightarrow> string \<Rightarrow> string \<Rightarrow> string \<Rightarrow> string \<times> string \<Rightarrow> string" where
  "branded_page year preheader title bodyHTML product urls = (let (logoURL, siteURL) = urls in join_lines
     [''<!DOCTYPE html>'',
      ''<html lang=\"en\">'',
      ''<head>'',
      ''<meta charset=\"utf-8\">'',
      ''<meta name=\"viewport\" content=\"width=device-width, initial-scale=1\">'',
      ''<meta name=\"color-scheme\" content=\"dark\">'',
      ''<title>'' @ title @ ''</title>'',
      ''</head>'',
      ''<body style=\"margin:0;padding:0;background:'' @ brandBg @ '';font-family:-apple-system,BlinkMacSystemFont,'Segoe UI',Roboto,Helvetica,Arial,sans-serif;\">'',
      ''<span style=\"display:none!important;visibility:hidden;opacity:0;height:0;width:0;overflow:hidden;\">'' @ preheader @ ''</span>'',
      ''<table role=\"presentation\" width=\"100%\" cellpadding=\"0\" cellspacing=\"0\" style=\"background:'' @ brandBg @ '';padding:32px 16px;\">'',
      ''<tr><td align=\"center\">'',
      ''<table role=\"presentation\" width=\"100%\" cellpadding=\"0\" cellspacing=\"0\" style=\"max-width:560px;background:'' @ brandSurface @ '';border:1px solid rgba(255,255,255,0.08);border-radius:16px;overflow:hidden;\">'',
      ''<tr><td style=\"padding:28px 32px 20px;text-align:center;border-bottom:1px solid rgba(255,255,255,0.06);\">'',
      ''<a href=\"'' @ siteURL @ ''\" style=\"text-decoration:none;\">'',
      ''<img src=\"'' @ logoURL @ ''\" alt=\"'' @ product @ ''\" width=\"48\" height=\"48\" style=\"display:block;margin:0 auto 12px;border-radius:12px;\">'',
      ''</a>'',
      ''<div style=\"font-size:11px;letter-spacing:0.14em;text-transform:uppercase;color:'' @ brandText3 @ '';font-weight:600;\">'' @ product @ ''</div>'',
      ''</td></tr>'',
      ''<tr><td style=\"padding:32px;\">'',
      ''<h1 style=\"margin:0 0 16px;font-size:22px;line-height:1.3;font-weight:700;color:'' @ brandText @ '';\">'' @ title @ ''</h1>'',
      bodyHTML,
      ''</td></tr>'',
      ''<tr><td style=\"padding:24px 32px 28px;border-top:1px solid rgba(255,255,255,0.06);background:rgba(0,0,0,0.2);\">'',
      ''<table role=\"presentation\" width=\"100%\" cellpadding=\"0\" cellspacing=\"0\">'',
      ''<tr><td style=\"font-size:12px;line-height:1.6;color:'' @ brandText2 @ '';text-align:center;\">'',
      ''<div style=\"margin-bottom:8px;\">Erebrus &copy; '' @ dec_int year @ '' NetSepio LLC</div>'',
      ''<div>'',
      ''<a href=\"https://erebrus.io/privacy\" style=\"color:'' @ brandAccentHi @ '';text-decoration:none;\">Privacy</a>'',
      ''&nbsp;&middot;&nbsp;'',
      ''<a href=\"https://erebrus.io/terms\" style=\"color:'' @ brandAccentHi @ '';text-decoration:none;\">Terms</a>'',
      ''&nbsp;&middot;&nbsp;'',
      ''<a href=\"mailto:support@netsepio.com\" style=\"color:'' @ brandAccentHi @ '';text-decoration:none;\">Contact</a>'',
      ''</div>'',
      ''<div style=\"margin-top:8px;color:'' @ brandText3 @ '';\">support@netsepio.com</div>'',
      ''</td></tr>'',
      ''</table>'',
      ''</td></tr>'',
      ''</table>'',
      ''</td></tr>'',
      ''</table>'',
      ''</body>'',
      ''</html>''])"

definition renderBrandedEmail :: "int \<Rightarrow> string \<Rightarrow> string \<Rightarrow> string \<Rightarrow> string \<Rightarrow> string" where
  "renderBrandedEmail year preheader title bodyHTML product =
    (let preheader = EscapeString (TrimSpace preheader); title = EscapeString (TrimSpace title);
         product = EscapeString (TrimSpace product); product = (if product = '''' then ''Erebrus'' else product)
     in branded_page year preheader title bodyHTML product (brandURLs product))"

definition ctaButton :: "string \<Rightarrow> string \<Rightarrow> string" where
  "ctaButton href label =
    (let href = EscapeString (TrimSpace href); label = EscapeString (TrimSpace label)
     in join_lines
          [''<table role=\"presentation\" cellpadding=\"0\" cellspacing=\"0\" style=\"margin:24px 0 8px;\">'',
           ''<tr><td style=\"border-radius:10px;background:'' @ brandAccent @ '';\">'',
           ''<a href=\"'' @ href @ ''\" style=\"display:inline-block;padding:14px 28px;font-size:15px;font-weight:600;color:#0A0A0C;text-decoration:none;\">'' @ label @ ''</a>'',
           ''</td></tr>'',
           ''</table>''])"

definition bodyParagraph :: "string \<Rightarrow> string" where
  "bodyParagraph t = ''<p style=\"margin:0 0 14px;font-size:15px;line-height:1.65;color:'' @ brandText2 @ '';\">'' @ t @ ''</p>''"

section \<open>The messages\<close>

definition apostrophe :: string where "apostrophe = [char_of (39::nat)]"

definition renderOrgInviteHTML :: "int \<Rightarrow> invite_mail \<Rightarrow> string" where
  "renderOrgInviteHTML year d =
    (let org = EscapeString (TrimSpace (im_org_name d)); url = TrimSpace (im_url d);
         body = bodyParagraph (inviterLine d)
           @ bodyParagraph (''Join '' @ strong_bright org @ '' on Erebrus '' @ em_dash @ '' your private network for devices, teams, and nodes.'')
           @ ctaButton url ''Accept invitation''
           @ bodyParagraph (''Or copy this link:<br><a href=\"'' @ EscapeString url @ ''\" style=\"color:'' @ brandAccentHi
               @ '';word-break:break-all;\">'' @ EscapeString url @ ''</a>'')
           @ bodyParagraph (''If you didn'' @ apostrophe @ ''t expect this invitation, you can safely ignore this email.'')
     in renderBrandedEmail year (''Join '' @ im_org_name d @ '' on Erebrus'') (''Join '' @ im_org_name d) body ''Erebrus'')"

text \<open>Subject, text and page of a message.\<close>

type_synonym rendered = "string \<times> string \<times> string"

definition renderOrgInviteAcceptedHTML :: "int \<Rightarrow> string \<Rightarrow> string \<Rightarrow> string \<Rightarrow> string \<Rightarrow> bool \<Rightarrow> rendered" where
  "renderOrgInviteAcceptedHTML year org invitee role workspaceURL toInviter =
    (let org = TrimSpace org; invitee = TrimSpace invitee; role = TrimSpace role;
         invitee = (if invitee = '''' then ''A user'' else invitee); role = (if role = '''' then ''Member'' else role);
         url = TrimSpace workspaceURL
     in if toInviter
        then (let subject = invitee @ '' accepted your '' @ org @ '' workspace invite'';
                  body = bodyParagraph (strong_bright (EscapeString invitee) @ '' accepted your invitation to join ''
                           @ strong_bright (EscapeString org) @ '' as '' @ strong (EscapeString role) @ ''.'')
                         @ ctaButton url ''Open workspace''
              in (subject,
                  join_lines [invitee @ '' accepted the invitation to join '' @ org @ '' as '' @ role @ ''.'', '''',
                    ''Open workspace: '' @ url],
                  renderBrandedEmail year subject ''Invitation accepted'' body ''Erebrus''))
        else (let subject = ''You'' @ apostrophe @ ''re now a member of '' @ org;
                  body = bodyParagraph (''Welcome to '' @ strong_bright (EscapeString org) @ ''. You joined as ''
                           @ strong (EscapeString role) @ ''.'')
                         @ bodyParagraph ''You can now access workspace nodes, manage services, and collaborate with your team.''
                         @ ctaButton url ''Open workspace''
              in (subject,
                  join_lines [''Welcome to '' @ org @ '' '' @ em_dash @ '' you joined as '' @ role @ ''.'', '''',
                    ''Open your workspace: '' @ url],
                  renderBrandedEmail year subject (''Welcome to '' @ org) body ''Erebrus'')))"

definition renderOrgInviteDeclinedHTML :: "int \<Rightarrow> string \<Rightarrow> string \<Rightarrow> string \<Rightarrow> bool \<Rightarrow> rendered" where
  "renderOrgInviteDeclinedHTML year org invitee role toInviter =
    (let org = TrimSpace org; invitee = TrimSpace invitee; role = TrimSpace role;
         invitee = (if invitee = '''' then ''A user'' else invitee); role = (if role = '''' then ''Member'' else role)
     in if toInviter
        then (let subject = invitee @ '' declined your '' @ org @ '' workspace invite'';
                  body = bodyParagraph (strong_bright (EscapeString invitee) @ '' declined the invitation to join ''
                           @ strong_bright (EscapeString org) @ '' as '' @ strong (EscapeString role) @ ''.'')
                         @ bodyParagraph ''No further action is required on your part.''
              in (subject, invitee @ '' declined the invitation to join '' @ org @ '' as '' @ role @ ''.'',
                  renderBrandedEmail year subject ''Invitation declined'' body ''Erebrus''))
        else (let subject = ''You declined the '' @ org @ '' workspace invite'';
                  body = bodyParagraph (''You declined the invitation to join '' @ strong_bright (EscapeString org) @ '' as ''
                           @ strong (EscapeString role) @ ''.'')
                         @ bodyParagraph ''No further action is needed.''
              in (subject,
                  ''You declined the invitation to join '' @ org @ '' as '' @ role @ ''. No further action is needed.'',
                  renderBrandedEmail year subject ''Invitation declined'' body ''Erebrus'')))"

definition otpProductName :: "string \<Rightarrow> string" where
  "otpProductName app =
    (let app = TrimSpace app; a = ToLower app
     in if app = '''' then ''Erebrus''
        else if a = ''drop'' \<or> a = ''erebrus-drop'' \<or> a = ''erebrus drop'' then ''Erebrus Drop''
        else if a = ''ai'' \<or> a = ''erebrus-ai'' \<or> a = ''erebrus ai'' then ''Erebrus AI''
        else if a = ''vpn'' \<or> a = ''erebrus-vpn'' \<or> a = ''erebrus vpn'' then ''Erebrus VPN''
        else ''Erebrus'')"

definition renderOTPHTML :: "int \<Rightarrow> string \<Rightarrow> string \<Rightarrow> string" where
  "renderOTPHTML year code product =
    (let product = TrimSpace product; product = (if product = '''' then ''Erebrus'' else product);
         code = EscapeString (TrimSpace code);
         body = bodyParagraph (''Enter this verification code to sign in to '' @ EscapeString product @ '':'')
           @ ''<p style=\"margin:20px 0;font-size:32px;font-weight:700;letter-spacing:0.35em;color:'' @ brandAccent
           @ '';text-align:center;\">'' @ code @ ''</p>''
           @ bodyParagraph (''This code expires shortly. If you didn'' @ apostrophe @ ''t request it, you can ignore this email.'')
     in renderBrandedEmail year (''Your '' @ product @ '' verification code'') ''Verification code'' body product)"

section \<open>Sending\<close>

record mailer =
  ml_api_key :: string
  ml_from :: string
  ml_base_url :: string

record mail =
  mg_from :: string
  mg_to :: "string list"
  mg_subject :: string
  mg_text :: string
  mg_html :: string

text \<open>The transport: URL, bearer and message; the status of the answer.\<close>

type_synonym post = "string \<Rightarrow> string \<Rightarrow> mail \<Rightarrow> int option"

abbreviation ErrDisabled :: err where "ErrDisabled \<equiv> ErrMsg ''email is not configured''"

definition NewMailer :: "string \<Rightarrow> string \<Rightarrow> mailer" where
  "NewMailer apiKey sender = \<lparr>ml_api_key = TrimSpace apiKey,
     ml_from = (if TrimSpace sender = '''' then ''Erebrus <no-reply@info.erebrus.io>'' else sender),
     ml_base_url = ''https://api.resend.com''\<rparr>"

definition mailer_Enabled :: "mailer option \<Rightarrow> bool" where
  "mailer_Enabled m \<longleftrightarrow> (case m of None \<Rightarrow> False | Some m \<Rightarrow> ml_api_key m \<noteq> '''')"

definition send_mail :: "post \<Rightarrow> mailer option \<Rightarrow> string \<Rightarrow> rendered \<Rightarrow> unit res" where
  "send_mail transport mo to_addr r =
    (case mo of None \<Rightarrow> Inl ErrDisabled
     | Some m \<Rightarrow>
       if \<not> mailer_Enabled mo then Inl ErrDisabled
       else (let (subject, txt, html) = r in
         case transport (ml_base_url m @ ''/emails'') (''Bearer '' @ ml_api_key m)
              \<lparr>mg_from = ml_from m, mg_to = [to_addr], mg_subject = subject, mg_text = txt, mg_html = html\<rparr> of
           None \<Rightarrow> Inl (ErrMsg ''resend request'')
         | Some status \<Rightarrow> if status div 100 \<noteq> 2 then Inl (ErrMsg (''resend status '' @ dec_int status)) else Inr ()))"

definition SendOrgInvite :: "post \<Rightarrow> int \<Rightarrow> mailer option \<Rightarrow> string \<Rightarrow> invite_mail \<Rightarrow> unit res" where
  "SendOrgInvite transport year m to_addr d =
    (let orgName = TrimSpace (im_org_name d); url = TrimSpace (im_url d); inviter = TrimSpace (im_inviter d);
         role = TrimSpace (im_role d)
     in send_mail transport m to_addr
          (''You'' @ apostrophe @ ''ve been invited to '' @ orgName @ '' on Erebrus'',
           join_lines ([''You'' @ apostrophe @ ''ve been invited to join '' @ orgName @ '' on Erebrus.'', '''']
             @ (if inviter \<noteq> '''' \<and> role \<noteq> '''' then [inviter @ '' invited you as '' @ role @ ''.'', ''''] else [])
             @ [''Accept your invitation:'', url, '''',
                ''If you didn'' @ apostrophe @ ''t expect this invitation, you can ignore this email.'']),
           renderOrgInviteHTML year d))"

definition SendOrgInviteAccepted :: "post \<Rightarrow> int \<Rightarrow> mailer option \<Rightarrow> string \<Rightarrow> string \<Rightarrow> string \<Rightarrow> string \<Rightarrow> string \<Rightarrow> bool \<Rightarrow> unit res" where
  "SendOrgInviteAccepted transport year m to_addr org invitee role workspaceURL toInviter =
    send_mail transport m to_addr (renderOrgInviteAcceptedHTML year org invitee role workspaceURL toInviter)"

definition SendOrgInviteDeclined :: "post \<Rightarrow> int \<Rightarrow> mailer option \<Rightarrow> string \<Rightarrow> string \<Rightarrow> string \<Rightarrow> string \<Rightarrow> bool \<Rightarrow> unit res" where
  "SendOrgInviteDeclined transport year m to_addr org invitee role toInviter =
    send_mail transport m to_addr (renderOrgInviteDeclinedHTML year org invitee role toInviter)"

definition SendDeletionProcessed :: "post \<Rightarrow> mailer option \<Rightarrow> string \<Rightarrow> unit res" where
  "SendDeletionProcessed transport m to_addr = send_mail transport m to_addr
     (''Your Erebrus account has been deleted'',
      ''Your account deletion request has been processed and your personal information has been removed. Your wallet address has been retained for our records. If you did not request this deletion, please contact support immediately.'',
      '''')"

definition SendOTP :: "post \<Rightarrow> int \<Rightarrow> mailer option \<Rightarrow> string \<Rightarrow> string \<Rightarrow> string \<Rightarrow> unit res" where
  "SendOTP transport year m to_addr code app =
    (let product = otpProductName app
     in send_mail transport m to_addr
          (''Your '' @ product @ '' verification code'',
           join_lines [''Your '' @ product @ '' verification code is '' @ code @ ''.'', '''',
             ''It expires shortly. If you didn'' @ apostrophe @ ''t request this, you can ignore this email.''],
           renderOTPHTML year code product))"

end
