(* ===== verification/MailSafety.thy ===== *)
theory MailSafety
  imports Mailer
begin

text \<open>
  The pages of the mails: whatever the names, roles, links and codes in them contain, the markup is the markup of the
  template.
\<close>

section \<open>Markup\<close>

text \<open>The characters that open, close or quote markup.\<close>

definition markup :: "string \<Rightarrow> string" where
  "markup s = filter (\<lambda>c. c = CHR ''<'' \<or> c = CHR ''>'' \<or> byte c = 34 \<or> byte c = 39) s"

lemma markup_append: "markup (s @ t) = markup s @ markup t"
  by (simp add: markup_def)

lemma markup_escape: "markup (EscapeString s) = ''''"
proof -
  have "markup (escape_char c) = ''''" for c
    by (simp add: escape_char_def) (simp add: markup_def)
  then show ?thesis by (induction s) (simp_all add: EscapeString_def markup_append, simp add: markup_def)
qed

lemma markup_join: "markup (join_lines ls) = concat (map markup ls)"
proof (induction ls rule: join_lines.induct)
  case (3 x y zs)
  have "char_of (10::nat) = CHR 0x0A" by code_simp
  then have "markup (char_of (10::nat) # s) = markup s" for s by (simp add: markup_def)
  with 3 show ?case by (simp add: markup_append)
qed (simp_all add: markup_def)

text \<open>A function of text whose markup does not depend on the text.\<close>

lemma markup_page:
  assumes "markup pre = markup pre'" "markup title = markup title'" "markup body = markup body'"
    "markup product = markup product'" "markup logo = markup logo'" "markup site = markup site'"
  shows "markup (branded_page year pre title body product (logo, site)) = markup (branded_page year pre' title' body' product' (logo', site'))"
  by (simp only: branded_page_def Let_def prod.case markup_join list.map concat.simps markup_append assms)

lemma markup_urls: "markup (fst (brandURLs p)) = '''' \<and> markup (snd (brandURLs p)) = ''''"
proof -
  have "brandURLs p \<in> {(''https://erebrus.io/ai/logo.png'', ''https://erebrus.io/ai''),
      (''https://erebrus.io/drop/logo.png'', ''https://erebrus.io/drop''), (''https://erebrus.io/vpn/logo.png'', ''https://erebrus.io/vpn''),
      (''https://erebrus.io/favicon.ico'', ''https://erebrus.io'')}"
    by (simp add: brandURLs_def Let_def)
  then show ?thesis by (elim insertE emptyE) (simp_all only: fst_conv snd_conv, code_simp+)
qed

lemma markup_branded:
  assumes "markup body = markup body'"
  shows "markup (renderBrandedEmail year pre title body product) = markup (renderBrandedEmail year pre' title' body' product')"
proof -
  have e: "markup ''Erebrus'' = ''''" by code_simp
  have p: "markup (if EscapeString x = '''' then ''Erebrus'' else EscapeString x) = ''''" for x
    by (simp add: e markup_escape)
  show ?thesis
    unfolding renderBrandedEmail_def Let_def
    by (subst (1 2) prod.collapse [symmetric], rule markup_page) (simp_all add: markup_escape p assms markup_urls)
qed

lemma markup_paragraph: "markup t = markup t' \<Longrightarrow> markup (bodyParagraph t) = markup (bodyParagraph t')"
  by (simp only: bodyParagraph_def markup_append)

definition button_marks :: string where
  "button_marks = markup (ctaButton '''' '''')"

lemma markup_button: "markup (ctaButton href label) = button_marks"
  by (simp only: button_marks_def ctaButton_def Let_def markup_join list.map concat.simps markup_append markup_escape)

lemmas markup_parts = markup_append markup_escape strong_def strong_bright_def append_Nil append_Nil2

lemma invite_markup:
  assumes "TrimSpace (im_inviter d) = '''' \<longleftrightarrow> TrimSpace (im_inviter d') = ''''"
    and "TrimSpace (im_role d) = '''' \<longleftrightarrow> TrimSpace (im_role d') = ''''"
  shows "markup (renderOrgInviteHTML year d) = markup (renderOrgInviteHTML year d')"
proof -
  have line: "markup (inviterLine d) = markup (inviterLine d')"
    unfolding inviterLine_def Let_def assms by (simp only: if_distrib [of markup] markup_parts)
  show ?thesis
    unfolding renderOrgInviteHTML_def Let_def
    by (rule markup_branded)
      (simp only: markup_append markup_paragraph [OF line] markup_button,
       simp only: bodyParagraph_def markup_parts)
qed

lemma accepted_markup:
  "markup (snd (snd (renderOrgInviteAcceptedHTML year org invitee role url b)))
     = markup (snd (snd (renderOrgInviteAcceptedHTML year org' invitee' role' url' b)))"
proof (cases b)
  case True
  show ?thesis unfolding renderOrgInviteAcceptedHTML_def Let_def if_P [OF True] snd_conv
    by (rule markup_branded) (simp only: markup_append markup_button, simp only: bodyParagraph_def markup_parts)
next
  case False
  show ?thesis unfolding renderOrgInviteAcceptedHTML_def Let_def if_not_P [OF False] snd_conv
    by (rule markup_branded) (simp only: markup_append markup_button, simp only: bodyParagraph_def markup_parts)
qed

lemma declined_markup:
  "markup (snd (snd (renderOrgInviteDeclinedHTML year org invitee role b)))
     = markup (snd (snd (renderOrgInviteDeclinedHTML year org' invitee' role' b)))"
proof (cases b)
  case True
  show ?thesis unfolding renderOrgInviteDeclinedHTML_def Let_def if_P [OF True] snd_conv
    by (rule markup_branded) (simp only: bodyParagraph_def markup_parts)
next
  case False
  show ?thesis unfolding renderOrgInviteDeclinedHTML_def Let_def if_not_P [OF False] snd_conv
    by (rule markup_branded) (simp only: bodyParagraph_def markup_parts)
qed

lemma code_markup: "markup (renderOTPHTML year code product) = markup (renderOTPHTML year code' product')"
  unfolding renderOTPHTML_def Let_def by (rule markup_branded) (simp only: bodyParagraph_def markup_parts)

text \<open>
  C18. Nothing a user types can inject markup into a mail. The characters that open, close or quote markup in the page of
  an invitation, of its acceptance or refusal, and of a login code are those of the template: two messages of the same
  kind have the same ones in the same order, whatever names, roles, links and codes they carry.\<close>

theorem mail_markup_inert:
  assumes "TrimSpace (im_inviter d) = '''' \<longleftrightarrow> TrimSpace (im_inviter d') = ''''"
    and "TrimSpace (im_role d) = '''' \<longleftrightarrow> TrimSpace (im_role d') = ''''"
  shows "markup (renderOrgInviteHTML year d) = markup (renderOrgInviteHTML year d') \<and>
    markup (snd (snd (renderOrgInviteAcceptedHTML year org invitee role url b)))
      = markup (snd (snd (renderOrgInviteAcceptedHTML year org' invitee' role' url' b))) \<and>
    markup (snd (snd (renderOrgInviteDeclinedHTML year org invitee role b)))
      = markup (snd (snd (renderOrgInviteDeclinedHTML year org' invitee' role' b))) \<and>
    markup (renderOTPHTML year code product) = markup (renderOTPHTML year code' product')"
  by (intro conjI invite_markup [OF assms] accepted_markup declined_markup code_markup)

definition plain_invite :: invite_mail where
  "plain_invite = \<lparr>im_org_name = ''Club'', im_inviter = ''Ann'', im_role = ''Member'', im_url = ''https://erebrus.io/x'', im_logo = ''''\<rparr>"

definition rogue_invite :: invite_mail where
  "rogue_invite = \<lparr>im_org_name = ''<script>'', im_inviter = ''<b>Eve</b>'', im_role = ''>'', im_url = ''javascript:<x>'', im_logo = ''''\<rparr>"

theorem mail_markup_inert_witness:
  "markup (renderOrgInviteHTML 2025 rogue_invite) = markup (renderOrgInviteHTML 2025 plain_invite) \<and>
   markup (im_org_name rogue_invite) = ''<>''"
proof
  have "TrimSpace (im_inviter rogue_invite) = '''' \<longleftrightarrow> TrimSpace (im_inviter plain_invite) = ''''"
    "TrimSpace (im_role rogue_invite) = '''' \<longleftrightarrow> TrimSpace (im_role plain_invite) = ''''" by code_simp+
  from mail_markup_inert [OF this, THEN conjunct1]
  show "markup (renderOrgInviteHTML 2025 rogue_invite) = markup (renderOrgInviteHTML 2025 plain_invite)" .
  show "markup (im_org_name rogue_invite) = ''<>''" by code_simp
qed

end
