(* ===== verification/Secrets.thy ===== *)
theory Secrets
  imports Gateway
begin

text \<open>
  Secrets the gateway derives or draws: the signing key of \<open>internal/identity/paseto.go\<close>, the tokens of
  \<open>internal/secrets/enrollment.go\<close> and the box of \<open>internal/secretbox/secretbox.go\<close>.

  BIP-39, BIP-32, Ed25519, HKDF and AES-GCM are parameters; bytes are characters.
\<close>

section \<open>Hexadecimal text\<close>

text \<open>\<open>hex.EncodeToString\<close>.\<close>

definition hex_nibble :: "nat \<Rightarrow> char" where
  "hex_nibble n = (if n < 10 then char_of (48 + n) else char_of (87 + n))"

definition hex_encode :: "string \<Rightarrow> string" where
  "hex_encode s = concat (map (\<lambda>c. [hex_nibble (byte c div 16), hex_nibble (byte c mod 16)]) s)"

section \<open>The signing key\<close>

record hd_key =
  hk_key :: string
  hk_chain :: string

record hd_lib =
  wb_valid :: "string \<Rightarrow> bool"
  wb_seed :: "string \<Rightarrow> string"
  wb_master :: "string \<Rightarrow> hd_key option"
  wb_child :: "int \<Rightarrow> hd_key \<Rightarrow> hd_key option"
  wb_private :: "string \<Rightarrow> string"

definition FirstHardenedChild :: int where "FirstHardenedChild = 2147483648"

definition SeedSize :: nat where "SeedSize = 32"

definition paseto_path :: "int list" where
  "paseto_path = [FirstHardenedChild + 44, FirstHardenedChild + 501, FirstHardenedChild + 1, 0]"

fun derive_path :: "hd_lib \<Rightarrow> int list \<Rightarrow> hd_key \<Rightarrow> hd_key option" where
  "derive_path lib [] k = Some k"
| "derive_path lib (i # is) k = (case wb_child lib i k of None \<Rightarrow> None | Some k \<Rightarrow> derive_path lib is k)"

definition PasetoKeyFromMnemonic :: "hd_lib \<Rightarrow> string \<Rightarrow> string res" where
  "PasetoKeyFromMnemonic lib mnemonic =
    (let m = TrimSpace mnemonic
     in if m = '''' then Inl (ErrMsg ''mnemonic is empty'')
        else if \<not> wb_valid lib m then Inl (ErrMsg ''invalid mnemonic'')
        else case wb_master lib (wb_seed lib m) of None \<Rightarrow> Inl (ErrMsg ''master key'')
        | Some k \<Rightarrow>
          (case derive_path lib paseto_path k of None \<Rightarrow> Inl (ErrMsg ''derive'')
           | Some k \<Rightarrow> if length (hk_key k) < SeedSize then Inl (ErrMsg ''derived seed too short'')
                       else Inr (hex_encode (wb_private lib (take SeedSize (hk_key k))))))"

section \<open>Drawn tokens\<close>

text \<open>\<open>draw n\<close> are \<open>n\<close> bytes of the system's random source, or nothing when it fails.\<close>

definition NodeRegistrationPrefix :: string where "NodeRegistrationPrefix = ''ere_reg_''"

definition NewNodeRegistrationToken :: "(nat \<Rightarrow> string option) \<Rightarrow> string res" where
  "NewNodeRegistrationToken draw =
    (case draw 24 of None \<Rightarrow> Inl (ErrMsg ''rand'') | Some raw \<Rightarrow> Inr (NodeRegistrationPrefix @ hex_encode raw))"

definition NewNodeKey :: "(nat \<Rightarrow> string option) \<Rightarrow> string res" where
  "NewNodeKey draw =
    (case draw 32 of None \<Rightarrow> Inl (ErrMsg ''rand'') | Some raw \<Rightarrow> Inr (''ere_node_'' @ hex_encode raw))"

section \<open>The box\<close>

record aead_lib =
  al_hkdf :: "string \<Rightarrow> string \<Rightarrow> string \<Rightarrow> string option"
  al_gcm :: "string \<Rightarrow> bool"
  al_nonce_size :: nat
  al_seal :: "string \<Rightarrow> string \<Rightarrow> string \<Rightarrow> string"
  al_open :: "string \<Rightarrow> string \<Rightarrow> string \<Rightarrow> string option"

definition kdfSalt :: string where "kdfSalt = ''erebrus-firewall-cred-v1''"
definition kdfInfo :: string where "kdfInfo = ''aes-256-gcm-key''"

text \<open>A box is its key; \<open>None\<close> is the nil box.\<close>

type_synonym box = "string option"

definition NewBox :: "aead_lib \<Rightarrow> string \<Rightarrow> box" where
  "NewBox lib passphrase =
    (if passphrase = '''' then None
     else case al_hkdf lib passphrase kdfSalt kdfInfo of None \<Rightarrow> None
     | Some key \<Rightarrow> if al_gcm lib key then Some key else None)"

definition box_Enabled :: "box \<Rightarrow> bool" where
  "box_Enabled b \<longleftrightarrow> b \<noteq> None"

definition box_Seal :: "aead_lib \<Rightarrow> (nat \<Rightarrow> string option) \<Rightarrow> box \<Rightarrow> string \<Rightarrow> string res" where
  "box_Seal lib draw b plaintext =
    (case b of None \<Rightarrow> Inl (ErrMsg ''secretbox not configured'')
     | Some key \<Rightarrow>
       (case draw (al_nonce_size lib) of None \<Rightarrow> Inl (ErrMsg ''rand'')
        | Some nonce \<Rightarrow> Inr (nonce @ al_seal lib key nonce plaintext)))"

definition box_Open :: "aead_lib \<Rightarrow> box \<Rightarrow> string \<Rightarrow> string res" where
  "box_Open lib b blob =
    (case b of None \<Rightarrow> Inl (ErrMsg ''secretbox not configured'')
     | Some key \<Rightarrow>
       (let ns = al_nonce_size lib
        in if length blob < ns then Inl (ErrMsg ''ciphertext too short'')
           else case al_open lib key (take ns blob) (drop ns blob) of
             None \<Rightarrow> Inl (ErrMsg ''decryption failed'') | Some p \<Rightarrow> Inr p))"

text \<open>What the firewall handlers use of the box.\<close>

definition ok_of :: "'a res \<Rightarrow> 'a option" where
  "ok_of r = (case r of Inl _ \<Rightarrow> None | Inr x \<Rightarrow> Some x)"

definition crypt_of :: "aead_lib \<Rightarrow> (nat \<Rightarrow> string option) \<Rightarrow> box \<Rightarrow> crypt" where
  "crypt_of lib draw b = \<lparr>cy_enabled = box_Enabled b, cy_seal = (\<lambda>p. ok_of (box_Seal lib draw b p)),
     cy_open = (\<lambda>c. ok_of (box_Open lib b c))\<rparr>"

end
