(* ===== verification/SecretsSafety.thy ===== *)
theory SecretsSafety
  imports Secrets FirewallSafety
begin

text \<open>
  What the derived secrets guarantee: the key a mnemonic gives is one the token manager takes, and a Shield
  password survives sealing, storage and opening, also across a restart of the gateway.
\<close>

section \<open>The signing key\<close>

lemma hex_val_nibble: "n < 16 \<Longrightarrow> hex_val (hex_nibble n) = Some n"
  by (auto simp: hex_val_def hex_nibble_def is_digit_def)

lemma byte_split: "char_of (16 * (byte c div 16) + byte c mod 16) = c"
  by (simp only: mult_div_mod_eq char_of_char)

lemma hex_decode_encode: "hex_decode (hex_encode s) = Some s"
proof (induction s)
  case (Cons c s)
  have "byte c < 256" by simp
  then have "byte c div 16 < 16" by (simp add: less_mult_imp_div_less)
  moreover have "hex_encode (c # s) = hex_nibble (byte c div 16) # hex_nibble (byte c mod 16) # hex_encode s"
    by (simp add: hex_encode_def)
  ultimately show ?case using Cons by (simp add: hex_val_nibble byte_split)
qed (simp add: hex_encode_def)

lemma nibble_not_x: "n < 16 \<Longrightarrow> hex_nibble n \<noteq> CHR ''x''"
  using hex_val_nibble [of n] by (auto simp: hex_val_def is_digit_def)

lemma trim_hex: "trim_0x (hex_encode s) = hex_encode s"
proof (cases s)
  case (Cons c s)
  have "byte c mod 16 < 16" by simp
  then have "hex_nibble (byte c mod 16) \<noteq> CHR ''x''" by (rule nibble_not_x)
  with Cons show ?thesis by (simp add: hex_encode_def trim_0x_def)
qed (simp add: hex_encode_def trim_0x_def)

text \<open>
  A gateway whose mnemonic gives a key starts with it: the token manager takes every derived key, because an
  Ed25519 private key has 64 bytes.
\<close>

theorem derived_key_accepted:
  assumes "\<And>seed. length (wb_private lib seed) = PrivateKeySize" and "PasetoKeyFromMnemonic lib mnemonic = Inr key"
  shows "token_New key signedBy ttl \<noteq> None"
  using assms by (auto simp: PasetoKeyFromMnemonic_def token_New_def trim_hex hex_decode_encode Let_def
      split: if_splits option.splits)

section \<open>Sealed credentials\<close>

lemma open_seal:
  assumes "\<And>k n p. al_open lib k n (al_seal lib k n p) = Some p" and "\<And>m r. draw m = Some r \<Longrightarrow> length r = m"
    and "box_Seal lib draw b p = Inr c"
  shows "box_Open lib b c = Inr p"
  using assms(3) by (auto simp: box_Seal_def box_Open_def Let_def assms(1) dest!: assms(2) split: option.splits)

text \<open>
  C31. A Shield password is read back as the node reported it, by members with a paid seat only.  The password is
  sealed with the key of the mnemonic under a drawn nonce and stored; a gateway restarted with the same mnemonic
  opens it for an active owner, manager or paid seat of the organization of the node and refuses everybody else,
  also when the node belongs to another organization.
\<close>

theorem sealed_credential_roundtrip:
  assumes aead: "\<And>k n p. al_open lib k n (al_seal lib k n p) = Some p"
    and drawn: "\<And>m r. draw m = Some r \<Longrightarrow> length r = m"
    and ok: "handleNodeReportFirewallCredentials (crypt_of lib draw (NewBox lib mnemonic)) now (Some c) param (Some req) s = (Ok 204 (), s')"
    and node: "GetNode s' (nodeTokenPeerID (Some c)) = Inr n"
  shows "if n_org_id n = orgID \<and> UserHasOrgSeat s' orgID (cl_user_id cl)
    then (\<exists>user url. handleGetFirewallCredentials (crypt_of lib draw' (NewBox lib mnemonic)) cl orgID (nodeTokenPeerID (Some c)) s'
      = Ok 200 (user, cq_admin_password req, url))
    else (\<exists>code msg. handleGetFirewallCredentials (crypt_of lib draw' (NewBox lib mnemonic)) cl orgID (nodeTokenPeerID (Some c)) s'
      = Fail code msg)"
proof -
  let ?cy = "\<lambda>d. crypt_of lib d (NewBox lib mnemonic)"
  have "cy_open (?cy draw') = cy_open (?cy draw)" by (simp add: crypt_of_def)
  then have reads: "handleGetFirewallCredentials (?cy draw') = handleGetFirewallCredentials (?cy draw)"
    by (simp only: fun_eq_iff handleGetFirewallCredentials_def) simp
  have "cy_open (?cy draw) y = Some x" if "cy_seal (?cy draw) x = Some y" for x y
    using that open_seal [of lib draw] aead drawn by (auto simp: crypt_of_def ok_of_def split: sum.splits)
  from credential_roundtrip [OF this ok node] show ?thesis unfolding reads .
qed

section \<open>Witness\<close>

definition toy_aead :: aead_lib where
  "toy_aead = \<lparr>al_hkdf = (\<lambda>p s i. Some (p @ s @ i)), al_gcm = (\<lambda>k. True), al_nonce_size = 2,
     al_seal = (\<lambda>k n p. rev p), al_open = (\<lambda>k n c. Some (rev c))\<rparr>"

definition toy_draw :: "nat \<Rightarrow> string option" where
  "toy_draw n = Some (replicate n (CHR ''n''))"

theorem sealed_credential_roundtrip_witness:
  "\<exists>s' user url. handleNodeReportFirewallCredentials (crypt_of toy_aead toy_draw (NewBox toy_aead ''seed words'')) 5
      (Some \<lparr>ca_role = ''node'', ca_node_id = ''p1'', ca_peer_id = ''''\<rparr>) ''''
      (Some \<lparr>cq_admin_user = '''', cq_admin_password = ''pw'', cq_admin_url = ''''\<rparr>) fw_db = (Ok 204 (), s')
    \<and> handleGetFirewallCredentials (crypt_of toy_aead (\<lambda>n. None) (NewBox toy_aead ''seed words'')) fw_caller ''o1'' ''p1'' s'
      = Ok 200 (user, ''pw'', url)"
proof -
  let ?c = "\<lparr>ca_role = ''node'', ca_node_id = ''p1'', ca_peer_id = ''''\<rparr>"
  let ?req = "\<lparr>cq_admin_user = '''', cq_admin_password = ''pw'', cq_admin_url = ''''\<rparr>"
  let ?cy = "crypt_of toy_aead toy_draw (NewBox toy_aead ''seed words'')"
  let ?s' = "snd (handleNodeReportFirewallCredentials ?cy 5 (Some ?c) '''' (Some ?req) fw_db)"
  have ok: "handleNodeReportFirewallCredentials ?cy 5 (Some ?c) '''' (Some ?req) fw_db = (Ok 204 (), ?s')" by code_simp
  have peer: "nodeTokenPeerID (Some ?c) = ''p1''" by code_simp
  have node: "GetNode ?s' (nodeTokenPeerID (Some ?c)) = Inr (hd (nodes fw_db))" by code_simp
  have mine: "n_org_id (hd (nodes fw_db)) = ''o1'' \<and> UserHasOrgSeat ?s' ''o1'' (cl_user_id fw_caller)" by code_simp
  have aead: "al_open toy_aead k n (al_seal toy_aead k n p) = Some p" for k n p by (simp add: toy_aead_def)
  have drawn: "toy_draw m = Some r \<Longrightarrow> length r = m" for m r by (auto simp: toy_draw_def)
  from sealed_credential_roundtrip [OF aead drawn ok node, of "''o1''" fw_caller "\<lambda>n. None"] mine ok
  show ?thesis unfolding peer by auto
qed

end
