(* ===== verification/Runtime.thy ===== *)
theory Runtime
  imports Gateway
begin

text \<open>
  The surroundings of the handlers: the cache of \<open>internal/cache/cache.go\<close>, the migration runner of
  \<open>internal/store/store.go\<close>, the collections of \<open>nftgate_contracts.go\<close> and the health routes of
  \<open>internal/api/observability.go\<close>.
\<close>

section \<open>The cache\<close>

text \<open>
  Redis maps a key to a text and the end of its life; without Redis the cache is \<open>None\<close>.  The JSON codec is
  a pair of parameters.  A scan for a prefix is the set of keys that start with it.
\<close>

type_synonym cache = "(string \<rightharpoonup> string \<times> time option) option"

definition alive :: "time \<Rightarrow> time option \<Rightarrow> bool" where
  "alive now e \<longleftrightarrow> (case e of None \<Rightarrow> True | Some t \<Rightarrow> now < t)"

definition GetJSON :: "(string \<Rightarrow> 'a option) \<Rightarrow> time \<Rightarrow> string \<Rightarrow> cache \<Rightarrow> 'a option res" where
  "GetJSON dec now key c =
    (case c of None \<Rightarrow> Inr None
     | Some m \<Rightarrow>
       (case m key of None \<Rightarrow> Inr None
        | Some (b, e) \<Rightarrow>
          if \<not> alive now e then Inr None
          else case dec b of None \<Rightarrow> Inl (ErrMsg ''unmarshal'') | Some x \<Rightarrow> Inr (Some x)))"

definition SetJSON :: "('a \<Rightarrow> string option) \<Rightarrow> time \<Rightarrow> string \<Rightarrow> 'a \<Rightarrow> int \<Rightarrow> cache \<Rightarrow> unit res \<times> cache" where
  "SetJSON enc now key val ttl c =
    (case c of None \<Rightarrow> (Inr (), c)
     | Some m \<Rightarrow>
       (case enc val of None \<Rightarrow> (Inl (ErrMsg ''marshal''), c)
        | Some b \<Rightarrow> (Inr (), Some (m(key \<mapsto> (b, if ttl > 0 then Some (now + ttl) else None))))))"

definition DelKeys :: "string list \<Rightarrow> cache \<Rightarrow> cache" where
  "DelKeys keys c = map_option (\<lambda>m k. if k \<in> set keys then None else m k) c"

definition DelPrefix :: "string \<Rightarrow> cache \<Rightarrow> cache" where
  "DelPrefix pre c = map_option (\<lambda>m k. if has_prefix pre k then None else m k) c"

definition cache_Ping :: "bool \<Rightarrow> cache \<Rightarrow> bool" where
  "cache_Ping reachable c \<longleftrightarrow> c \<noteq> None \<and> reachable"

section \<open>Migrations\<close>

text \<open>
  The database is the recorded versions and the data; \<open>exec name\<close> is the effect of the body of a migration,
  or nothing when a statement fails.  A failed transaction leaves both as they were.
\<close>

fun migrate_loop :: "(string \<Rightarrow> 'd \<Rightarrow> 'd option) \<Rightarrow> string list \<Rightarrow> string list \<Rightarrow> string list \<times> 'd \<Rightarrow> unit res \<times> string list \<times> 'd" where
  "migrate_loop exec applied [] s = (Inr (), s)"
| "migrate_loop exec applied (name # names) (vs, d) =
    (if name \<in> set applied then migrate_loop exec applied names (vs, d)
     else case exec name d of None \<Rightarrow> (Inl (ErrMsg (''migration '' @ name)), vs, d)
     | Some d' \<Rightarrow>
       if name \<in> set vs then (Inl (ErrMsg (''record migration '' @ name)), vs, d)
       else migrate_loop exec applied names (vs @ [name], d'))"

definition has_suffix :: "string \<Rightarrow> string \<Rightarrow> bool" where
  "has_suffix suf s \<longleftrightarrow> length suf \<le> length s \<and> drop (length s - length suf) s = suf"

definition migrate :: "(string \<Rightarrow> 'd \<Rightarrow> 'd option) \<Rightarrow> string list \<Rightarrow> string list \<times> 'd \<Rightarrow> unit res \<times> string list \<times> 'd" where
  "migrate exec files s = migrate_loop exec (fst s) (sort (filter (has_suffix ''.sql'') files)) s"

section \<open>Collections\<close>

record gate_contract =
  gc_id :: id
  gc_chain :: string
  gc_address :: string
  gc_label :: string
  gc_enabled :: bool

definition ListNFTGateContracts :: "gate_contract list \<Rightarrow> gate_contract list" where
  "ListNFTGateContracts t = sort_key (\<lambda>c. (gc_chain c, gc_address c)) (filter gc_enabled t)"

section \<open>Health\<close>

type_synonym fields = "(string \<times> string) list"

definition handleHealthz :: "int \<times> string" where
  "handleHealthz = (200, ''ok'')"

definition handleVersion :: "string \<Rightarrow> string \<Rightarrow> string \<Rightarrow> int \<times> fields" where
  "handleVersion environment version tag = (200, [(''product'', ''erebrus''), (''service'', ''gateway''),
     (''environment'', environment), (''version'', version), (''tag'', tag)])"

definition handleReadyz :: "bool \<Rightarrow> bool \<Rightarrow> cache \<Rightarrow> int \<times> fields" where
  "handleReadyz dbUp redisUp c =
    (if \<not> dbUp then (503, [(''status'', ''not_ready''), (''db'', ''down'')])
     else (200, [(''status'', ''ready''), (''db'', ''up''), (''redis'', if cache_Ping redisUp c then ''up'' else ''disabled'')]))"

end
