(* ===== verification/RuntimeSafety.thy ===== *)
theory RuntimeSafety
  imports Runtime
begin

text \<open>
  The migration runner: what a start of the gateway makes of the schema, and that an interrupted run is resumed.
\<close>

section \<open>Applying in order\<close>

text \<open>The bodies of some migrations, one after the other.\<close>

fun apply_bodies :: "(string \<Rightarrow> 'd \<Rightarrow> 'd option) \<Rightarrow> string list \<Rightarrow> 'd \<Rightarrow> 'd option" where
  "apply_bodies exec [] d = Some d"
| "apply_bodies exec (n # ns) d = (case exec n d of None \<Rightarrow> None | Some d \<Rightarrow> apply_bodies exec ns d)"

definition pending :: "string list \<Rightarrow> string list \<Rightarrow> string list" where
  "pending files vs = filter (\<lambda>n. n \<notin> set vs) (sort (filter (has_suffix ''.sql'') files))"

lemma apply_bodies_append: "apply_bodies exec (xs @ ys) d = (case apply_bodies exec xs d of None \<Rightarrow> None | Some d \<Rightarrow> apply_bodies exec ys d)"
  by (induction xs arbitrary: d) (auto split: option.split)

text \<open>A run applies a beginning of the pending migrations and records exactly that beginning; it stops early only
  at a body that fails.\<close>

lemma loop_prefix:
  assumes "migrate_loop exec applied names (vs, d) = (r, vs', d')" and "distinct names"
    and "set applied \<subseteq> set vs" and "set vs \<inter> set names \<subseteq> set applied"
  shows "\<exists>done_now rest. filter (\<lambda>n. n \<notin> set applied) names = done_now @ rest \<and> vs' = vs @ done_now
    \<and> apply_bodies exec done_now d = Some d' \<and> (case r of Inr _ \<Rightarrow> rest = [] | Inl _ \<Rightarrow> \<exists>n ns. rest = n # ns \<and> exec n d' = None)"
  using assms
proof (induction exec applied names "(vs, d)" arbitrary: vs d rule: migrate_loop.induct)
  case (2 exec applied name names vs d)
  show ?case
  proof (cases "name \<in> set applied")
    case True
    with 2 show ?thesis by (auto intro!: 2(1))
  next
    case new: False
    show ?thesis
    proof (cases "exec name d")
      case None
      with new 2(3) have "r = Inl (ErrMsg (''migration '' @ name)) \<and> vs' = vs \<and> d' = d" by auto
      with new None show ?thesis by (intro exI [of _ "[] :: string list"] exI [of _ "name # filter (\<lambda>n. n \<notin> set applied) names"]) simp
    next
      case (Some e)
      from new 2(6) have fresh: "name \<notin> set vs" by auto
      from new Some fresh 2(3) have run: "migrate_loop exec applied names (vs @ [name], e) = (r, vs', d')" by simp
      have "\<exists>done_now rest. filter (\<lambda>n. n \<notin> set applied) names = done_now @ rest \<and> vs' = (vs @ [name]) @ done_now
        \<and> apply_bodies exec done_now e = Some d' \<and> (case r of Inr _ \<Rightarrow> rest = [] | Inl _ \<Rightarrow> \<exists>n ns. rest = n # ns \<and> exec n d' = None)"
        using 2(4-6) by (intro 2(2) [OF new Some fresh run]) auto
      then obtain done_now rest where "filter (\<lambda>n. n \<notin> set applied) names = done_now @ rest" "vs' = (vs @ [name]) @ done_now"
        "apply_bodies exec done_now e = Some d'" "case r of Inr _ \<Rightarrow> rest = [] | Inl _ \<Rightarrow> \<exists>n ns. rest = n # ns \<and> exec n d' = None"
        by blast
      with new Some show ?thesis by (intro exI [of _ "name # done_now"] exI [of _ rest]) simp
    qed
  qed
qed auto

lemma distinct_pending: "distinct files \<Longrightarrow> distinct (pending files vs)"
  by (simp add: pending_def)

lemma pending_after:
  assumes "pending files vs = done_now @ rest" and "distinct files"
  shows "pending files (vs @ done_now) = rest"
proof -
  have "pending files (vs @ done_now) = filter (\<lambda>n. n \<notin> set done_now) (pending files vs)"
    by (simp add: pending_def conj_commute)
  also have "\<dots> = filter (\<lambda>n. n \<notin> set done_now) rest" using assms by simp
  also have "\<dots> = rest" using distinct_pending [OF assms(2), of vs] assms(1) by (auto simp: filter_id_conv)
  finally show ?thesis .
qed

lemma migrate_prefix:
  assumes "migrate exec files (vs, d) = (r, vs', d')" and "distinct files"
  shows "\<exists>done_now rest. pending files vs = done_now @ rest \<and> vs' = vs @ done_now
    \<and> apply_bodies exec done_now d = Some d' \<and> (case r of Inr _ \<Rightarrow> rest = [] | Inl _ \<Rightarrow> \<exists>n ns. rest = n # ns \<and> exec n d' = None)"
  using assms loop_prefix [of exec vs "sort (filter (has_suffix ''.sql'') files)" vs d r vs' d']
  by (simp add: migrate_def pending_def)


section \<open>Witness\<close>

definition demo_exec :: "string \<Rightarrow> nat list \<Rightarrow> nat list option" where
  "demo_exec n d = (if n = ''2.sql'' then None else Some (d @ [length n]))"

definition demo_fixed :: "string \<Rightarrow> nat list \<Rightarrow> nat list option" where
  "demo_fixed n d = Some (d @ [7])"


end
