(* ===== verification/Channels.thy ===== *)
theory Channels
  imports Runtime
begin

text \<open>
  The two channels the gateway keeps open for others: the WebSocket of a node (\<open>handleNodeWS\<close> of
  \<open>internal/api/nodes.go\<close>) and the Drop WebUI relayed to a browser (\<open>handleDropWebUISession\<close> and
  \<open>handleDropWebUIProxy\<close> of \<open>internal/api/drop.go\<close>).
\<close>

section \<open>Node connections\<close>

text \<open>The upgrade to a WebSocket is taken to succeed; a connection then lives in the hub.\<close>

definition handleNodeWS :: "token_lib \<Rightarrow> time \<Rightarrow> string \<Rightarrow> hub \<Rightarrow> unit resp \<times> hub" where
  "handleNodeWS lib now authorization h =
    (case tk_verify lib now (bearer authorization) of
       None \<Rightarrow> (Fail 401 ''valid node token required'', h)
     | Some c \<Rightarrow>
       (let peerID = nodeTokenPeerID (Some (claims.truncate c))
        in if ca_role c \<noteq> RoleNode \<or> peerID = '''' then (Fail 401 ''valid node token required'', h)
           else (Ok 101 (), hub_connect peerID h)))"

section \<open>WebUI sessions\<close>

record webui_session =
  ws_peer_id :: string
  ws_org_id :: id
  ws_user_id :: id

text \<open>
  \<open>sid\<close> is the random token, if one could be drawn; \<open>enc\<close> and \<open>dec\<close> are the JSON of a session.  Redis
  answers.
\<close>

definition webui_key :: "string \<Rightarrow> string" where
  "webui_key sid = ''drop:webui:'' @ sid"

definition webui_root :: "string \<Rightarrow> string" where
  "webui_root sid = ''/api/v2/drop/webui/'' @ sid @ ''/''"

definition webui_seconds :: int where "webui_seconds = 5 * 60"

definition handleDropWebUISession :: "(webui_session \<Rightarrow> string option) \<Rightarrow> time \<Rightarrow> caller \<Rightarrow> id \<Rightarrow> string \<Rightarrow> string option
    \<Rightarrow> db \<Rightarrow> cache \<Rightarrow> (string \<times> int) resp \<times> cache" where
  "handleDropWebUISession enc now cl orgID nodeParam sid s cache =
    (case requireNodeOperator s cl orgID of Inl f \<Rightarrow> (refuse f, cache)
     | Inr _ \<Rightarrow>
       (case GetNodePeerID s nodeParam of
          Inl e \<Rightarrow> (if e = ErrNotFound then Fail 404 ''node not found'' else Fail 500 ''failed to resolve node'', cache)
        | Inr peerID \<Rightarrow>
          (case GetNode s peerID of Inl _ \<Rightarrow> (Fail 403 ''node does not belong to this org'', cache)
           | Inr n \<Rightarrow>
             if n_org_id n \<noteq> orgID then (Fail 403 ''node does not belong to this org'', cache)
             else if n_status n \<noteq> ''online'' then (Fail 503 ''node is offline'', cache)
             else if (case GetNodeDropStatus s peerID of Inl _ \<Rightarrow> True
                      | Inr st \<Rightarrow> \<not> ns_enabled st \<or> \<not> ns_webui_available st \<or>
                          (ns_state st \<noteq> DropStateActive \<and> ns_state st \<noteq> DropStateDegraded \<and> ns_state st \<noteq> DropStateFull))
             then (Fail 409 ''webui not available on node'', cache)
             else (case sid of None \<Rightarrow> (Fail 500 ''failed to open session'', cache)
                   | Some sid \<Rightarrow>
                     (case SetJSON enc now (webui_key sid) \<lparr>ws_peer_id = peerID, ws_org_id = orgID, ws_user_id = cl_user_id cl\<rparr>
                         webui_seconds cache of
                        (Inl _, cache) \<Rightarrow> (Fail 500 ''failed to open session'', cache)
                      | (Inr _, cache) \<Rightarrow> (Ok 200 (webui_root sid, 300), cache))))))"

section \<open>The relay\<close>

text \<open>\<open>url.Parse\<close> is a parameter: the scheme, the host, the decoded path and the raw query of a URL.\<close>

record go_url =
  gu_scheme :: string
  gu_host :: string
  gu_path :: string
  gu_query :: string

text \<open>The request the node gets and its answer, without the body and the headers the relay leaves alone.\<close>

record relayed_req =
  rl_method :: string
  rl_scheme :: string
  rl_host :: string
  rl_path :: string
  rl_query :: string
  rl_authorization :: string
  rl_node_key :: string

record relayed_resp =
  rs_status :: int
  rs_location :: string
  rs_cache_control :: string
  rs_referrer_policy :: string

text \<open>\<open>strings.TrimPrefix\<close>.\<close>

definition trim_prefix :: "string \<Rightarrow> string \<Rightarrow> string" where
  "trim_prefix s p = (if has_prefix p s then drop (length p) s else s)"

definition redirect_suffix :: "(string \<Rightarrow> go_url option) \<Rightarrow> string \<Rightarrow> string" where
  "redirect_suffix parse loc =
    (case parse loc of None \<Rightarrow> ''''
     | Some u \<Rightarrow>
       if gu_scheme u \<noteq> '''' then ''''
       else (let suffix = trim_prefix (gu_path u) ''/api/v2/drop/webui/'';
                 suffix = (if suffix = gu_path u then trim_prefix (gu_path u) ''/'' else suffix)
             in if gu_query u \<noteq> '''' then suffix @ ''?'' @ gu_query u else suffix))"

definition modify_response :: "(string \<Rightarrow> go_url option) \<Rightarrow> string \<Rightarrow> relayed_resp \<Rightarrow> relayed_resp" where
  "modify_response parse sid r = r\<lparr>
     rs_location := (if rs_location r \<noteq> '''' then webui_root sid @ redirect_suffix parse (rs_location r) else ''''),
     rs_cache_control := ''no-store'', rs_referrer_policy := ''no-referrer''\<rparr>"

definition bad_gateway :: relayed_resp where
  "bad_gateway = \<lparr>rs_status = 502, rs_location = '''', rs_cache_control = '''', rs_referrer_policy = ''''\<rparr>"

text \<open>The answer to the browser and the request that was sent to a node, if one was.  \<open>node\<close> answers a request,
  or nothing when it cannot be reached.\<close>

definition handleDropWebUIProxy :: "(string \<Rightarrow> go_url option) \<Rightarrow> (string \<Rightarrow> webui_session option) \<Rightarrow> token_lib \<Rightarrow> manager
    \<Rightarrow> (relayed_req \<Rightarrow> relayed_resp option) \<Rightarrow> time \<Rightarrow> string \<Rightarrow> string \<Rightarrow> string \<Rightarrow> string \<Rightarrow> db \<Rightarrow> cache
    \<Rightarrow> relayed_resp resp \<times> relayed_req option" where
  "handleDropWebUIProxy parse dec lib m node now sid method proxyPath query s cache =
    (case GetJSON dec now (webui_key sid) cache of
       Inl _ \<Rightarrow> (Fail 404 ''session not found or expired'', None)
     | Inr None \<Rightarrow> (Fail 404 ''session not found or expired'', None)
     | Inr (Some sess) \<Rightarrow>
       (case NodeAPI s (ws_peer_id sess) of
          Inl _ \<Rightarrow> (Fail 503 ''drop node unavailable'', None)
        | Inr (baseURL, nodeKey, _) \<Rightarrow>
          if baseURL = '''' then (Fail 503 ''drop node unavailable'', None)
          else (case IssueGatewayCall lib m now (ws_peer_id sess) PurposeWebUI of
                  None \<Rightarrow> (Fail 500 ''failed to authorize session'', None)
                | Some tok \<Rightarrow>
                  (case parse baseURL of
                     None \<Rightarrow> (Fail 503 ''drop node unavailable'', None)
                   | Some target \<Rightarrow>
                     (let r = \<lparr>rl_method = method, rl_scheme = gu_scheme target, rl_host = gu_host target,
                                rl_path = trim_slashes (gu_path target) @ ''/api/v2/drop/webui'' @ proxyPath, rl_query = query,
                                rl_authorization = ''Bearer '' @ tok, rl_node_key = nodeKey\<rparr>;
                          a = (case node r of None \<Rightarrow> bad_gateway | Some a \<Rightarrow> modify_response parse sid a)
                      in (Ok (rs_status a) a, Some r))))))"

section \<open>Samples of a heartbeat\<close>

text \<open>
  The last step of \<open>onHeartbeat\<close> of \<open>internal/nodehub/hub.go\<close>: a heartbeat that was applied leaves a sample under
  the internal id of the node.
\<close>

record load_sample =
  ls_wg_registered :: int
  ls_wg_connected :: int
  ls_proxy_sessions :: int
  ls_cpu_pct :: rat
  ls_mem_pct :: rat

definition record_sample :: "time \<Rightarrow> string \<Rightarrow> heartbeat \<Rightarrow> load_sample \<Rightarrow> db \<times> metric_row list \<Rightarrow> db \<times> metric_row list" where
  "record_sample now peer m l st =
    (let (s, tab) = st;
         applied = (case fst (ApplyHeartbeat now peer (if hbt_status m = '''' then ''online'' else hbt_status m) (hbt_load_json m)
             (hbt_speedtest_json m) (hbt_rx_bytes m) (hbt_tx_bytes m) (version_of (hbt_versions m) ''node'') s) of Inl _ \<Rightarrow> False | Inr _ \<Rightarrow> True);
         s = onHeartbeat now peer m s
     in if \<not> applied then (s, tab)
        else case NodeInternalID s peer of Inl _ \<Rightarrow> (s, tab)
        | Inr internalID \<Rightarrow> (s, RecordNodeMetrics \<lparr>mr_node_id = internalID, mr_bucket = now, mr_wg_peers = ls_wg_registered l,
            mr_wg_peers_connected = ls_wg_connected l, mr_proxy_sessions = ls_proxy_sessions l, mr_rx_bytes = hbt_rx_bytes m,
            mr_tx_bytes = hbt_tx_bytes m, mr_cpu_pct = ls_cpu_pct l, mr_mem_pct = ls_mem_pct l\<rparr> tab))"

end
