(* ===== verification/ChannelSafety.thy ===== *)
theory ChannelSafety
  imports Channels
begin

text \<open>
  What a WebUI session allows: who can open one, which node it reaches, for how long, and what a browser learns of the
  node behind it.
\<close>

section \<open>Sessions and the relay\<close>

lemma session_opened:
  assumes "handleDropWebUISession enc now cl orgID nodeParam (Some sid) s (Some c) = (Ok code v, cache)"
  shows "\<exists>f p n b. requireNodeOperator s cl orgID = Inr f \<and> GetNodePeerID s nodeParam = Inr p \<and> GetNode s p = Inr n \<and> n_org_id n = orgID
    \<and> enc \<lparr>ws_peer_id = p, ws_org_id = orgID, ws_user_id = cl_user_id cl\<rparr> = Some b
    \<and> cache = Some (c(webui_key sid \<mapsto> (b, Some (now + 300))))"
  using assms by (auto simp: handleDropWebUISession_def SetJSON_def webui_seconds_def refuse_def split: sum.splits option.splits if_splits)

lemma proxy_dead:
  "GetJSON dec now (webui_key sid) cache = Inr None \<Longrightarrow>
    handleDropWebUIProxy parse dec lib m node now sid method proxyPath query s cache = (Fail 404 ''session not found or expired'', None)"
  by (simp add: handleDropWebUIProxy_def)

lemma location_inside:
  "rs_location (modify_response parse sid a) \<noteq> '''' \<Longrightarrow> \<exists>rest. rs_location (modify_response parse sid a) = webui_root sid @ rest"
  by (auto simp: modify_response_def)


section \<open>Witness and departures\<close>

definition ui_op :: caller where "ui_op = \<lparr>cl_user_id = ''u1'', cl_role = ''user''\<rparr>"

definition ui_db :: db where
  "ui_db = empty_db\<lparr>
     nodes := [(new_node 0 ''i1'' ''p1'' ''d'')\<lparr>n_org_id := ''o1'', n_status := ''online'', n_api_base_url := ''https://n/'', n_node_key := ''nk''\<rparr>],
     org_members := [\<lparr>m_id = ''m1'', m_org_id = ''o1'', m_user_id = ''u1'', m_role = OrgRoleOwner,
        m_seat_tier = SeatTierPro, m_status = MemberStatusActive, m_created_at = 0, m_updated_at = 0\<rparr>],
     node_drop_statuses := [\<lparr>ns_node_id = ''p1'', ns_enabled = True, ns_accepts_public_uploads = True, ns_webui_available = True,
        ns_state = DropStateActive, ns_kubo_version = '''', ns_repo_size_bytes = 0, ns_storage_max_bytes = 10, ns_num_objects = 0,
        ns_reserved_bytes = 0, ns_last_reported_at = Some 0\<rparr>]\<rparr>"

definition ui_enc :: "webui_session \<Rightarrow> string option" where
  "ui_enc w = (if ws_org_id w = ''o1'' \<and> ws_user_id w = ''u1'' then Some (ws_peer_id w) else None)"

definition ui_dec :: "string \<Rightarrow> webui_session option" where
  "ui_dec b = Some \<lparr>ws_peer_id = b, ws_org_id = ''o1'', ws_user_id = ''u1''\<rparr>"

definition ui_tokens :: token_lib where
  "ui_tokens = \<lparr>tk_sign = (\<lambda>c. Some (tc_purpose c @ '':'' @ ca_peer_id c)), tk_verify = (\<lambda>now t. None)\<rparr>"

definition ui_manager :: manager where
  "ui_manager = \<lparr>mg_signed_by = ''gw'', mg_ttl = 1, mg_node_ttl = 1\<rparr>"

definition ui_parse :: "string \<Rightarrow> go_url option" where
  "ui_parse u = (if has_prefix ''https://'' u then Some \<lparr>gu_scheme = ''https'', gu_host = ''n'', gu_path = ''/'', gu_query = ''''\<rparr>
     else Some \<lparr>gu_scheme = '''', gu_host = '''', gu_path = u, gu_query = ''''\<rparr>)"

definition ui_node :: "relayed_req \<Rightarrow> relayed_resp option" where
  "ui_node r = Some \<lparr>rs_status = 302, rs_location = ''/api/v2/drop/webui/files'', rs_cache_control = '''', rs_referrer_policy = ''''\<rparr>"

lemmas ui_defs = ui_op_def ui_db_def ui_enc_def ui_dec_def ui_tokens_def ui_manager_def ui_parse_def ui_node_def


text \<open>
  The path of the browser is not cleaned: with dot segments it names routes of the node outside its WebUI.
\<close>

theorem webui_path_not_cleaned:
  "map_option rl_path (snd (handleDropWebUIProxy ui_parse ui_dec ui_tokens ui_manager ui_node 399 ''S'' ''POST'' ''/../pins'' '''' ui_db
      (snd (handleDropWebUISession ui_enc 100 ui_op ''o1'' ''p1'' (Some ''S'') ui_db (Some Map.empty)))))
    = Some ''/api/v2/drop/webui/../pins''"
  by code_simp

text \<open>A session goes on after its user lost the role, and without Redis a session is opened that no request finds.\<close>

theorem webui_session_outlives_role:
  "(case handleDropWebUISession ui_enc 100 ui_op ''o1'' ''p1'' (Some ''S'') ui_db (Some Map.empty) of (_, cache) \<Rightarrow>
     snd (handleDropWebUIProxy ui_parse ui_dec ui_tokens ui_manager ui_node 200 ''S'' ''GET'' ''/'' '''' (ui_db\<lparr>org_members := []\<rparr>) cache) \<noteq> None)
   \<and> (case handleDropWebUISession ui_enc 100 ui_op ''o1'' ''p1'' (Some ''S'') ui_db None of (a, cache) \<Rightarrow>
     a = Ok 200 (webui_root ''S'', 300) \<and>
     handleDropWebUIProxy ui_parse ui_dec ui_tokens ui_manager ui_node 101 ''S'' ''GET'' ''/'' '''' ui_db cache
       = (Fail 404 ''session not found or expired'', None))"
  by code_simp

section \<open>Charts\<close>

text \<open>
  The charts of a node never load by its peer id, the only id under which its operators may ask: it is no uuid, and every
  request is answered with an error, whatever was sampled.
\<close>

theorem charts_never_load:
  assumes "uuid_value peer = None"
  shows "handleAdminNodeMetrics now peer rangeQ stepQ tab = Fail 500 ''failed to load metrics''
    \<and> (\<exists>code msg. handleOperatorNodeMetrics now cl peer rangeQ stepQ tab s = Fail code msg)"
  using assms by (simp add: handleAdminNodeMetrics_def handleOperatorNodeMetrics_def writeNodeMetrics_def NodeMetrics_def Let_def)

theorem charts_never_load_witness:
  "uuid_value ''12D3KooWPeer'' = None
   \<and> handleAdminNodeMetrics 0 ''12D3KooWPeer'' '''' '''' [] = Fail 500 ''failed to load metrics''
   \<and> uuid_value ''1B4e28ba-2fa1-11d2-883f-0016d3cca427'' = Some ''1b4e28ba2fa111d2883f0016d3cca427''"
proof (intro conjI)
  show no: "uuid_value ''12D3KooWPeer'' = None" by code_simp
  from charts_never_load [OF no] show "handleAdminNodeMetrics 0 ''12D3KooWPeer'' '''' '''' [] = Fail 500 ''failed to load metrics''" by blast
  show "uuid_value ''1B4e28ba-2fa1-11d2-883f-0016d3cca427'' = Some ''1b4e28ba2fa111d2883f0016d3cca427''" by code_simp
qed

end
