(* ===== verification/Metrics.thy ===== *)
theory Metrics
  imports Gateway
begin

text \<open>
  The Prometheus vectors of \<open>internal/metrics/metrics.go\<close>, the middleware of \<open>internal/middleware/metrics.go\<close>, and
  what the enrollment and provisioning handlers record.

  A vector maps the values of its labels to a number; a series exists once it was written.  A histogram keeps its
  observations.  Values are kept exact.
\<close>

section \<open>Vectors\<close>

type_synonym counter_vec = "string list \<rightharpoonup> int"
type_synonym gauge_vec = "string list \<rightharpoonup> int"
type_synonym histogram_vec = "string list \<rightharpoonup> rat list"

record metrics =
  GatewayUp :: gauge_vec
  BuildInfo :: gauge_vec
  HTTPRequestsTotal :: counter_vec
  HTTPErrorsTotal :: counter_vec
  HTTPRequestDuration :: histogram_vec
  NodeRegistrationsTotal :: counter_vec
  NodeHeartbeatsTotal :: counter_vec
  VPNConfigsGeneratedTotal :: counter_vec
  AppEventsTotal :: counter_vec
  ActiveNodeSessions :: gauge_vec
  DropUploadsTotal :: counter_vec
  DropUploadBytesTotal :: counter_vec
  DropDownloadBytesTotal :: counter_vec
  DropQuotaRejectionsTotal :: counter_vec
  DropNodeOperationsTotal :: counter_vec
  DropReconciliationJobsTotal :: counter_vec

definition Register :: metrics where
  "Register = \<lparr>GatewayUp = Map.empty, BuildInfo = Map.empty, HTTPRequestsTotal = Map.empty, HTTPErrorsTotal = Map.empty,
     HTTPRequestDuration = Map.empty, NodeRegistrationsTotal = Map.empty, NodeHeartbeatsTotal = Map.empty,
     VPNConfigsGeneratedTotal = Map.empty, AppEventsTotal = Map.empty, ActiveNodeSessions = Map.empty,
     DropUploadsTotal = Map.empty, DropUploadBytesTotal = Map.empty, DropDownloadBytesTotal = Map.empty,
     DropQuotaRejectionsTotal = Map.empty, DropNodeOperationsTotal = Map.empty, DropReconciliationJobsTotal = Map.empty\<rparr>"

text \<open>\<open>WithLabelValues(...).Add(n)\<close>, \<open>Inc\<close>, \<open>Set\<close> and \<open>Observe\<close>.\<close>

definition vec_add :: "string list \<Rightarrow> int \<Rightarrow> counter_vec \<Rightarrow> counter_vec" where
  "vec_add ls n v = v(ls \<mapsto> (case v ls of None \<Rightarrow> n | Some k \<Rightarrow> k + n))"

definition vec_inc :: "string list \<Rightarrow> counter_vec \<Rightarrow> counter_vec" where
  "vec_inc ls v = vec_add ls 1 v"

definition vec_set :: "string list \<Rightarrow> int \<Rightarrow> gauge_vec \<Rightarrow> gauge_vec" where
  "vec_set ls n v = v(ls \<mapsto> n)"

definition vec_observe :: "string list \<Rightarrow> rat \<Rightarrow> histogram_vec \<Rightarrow> histogram_vec" where
  "vec_observe ls x v = v(ls \<mapsto> (case v ls of None \<Rightarrow> [x] | Some xs \<Rightarrow> xs @ [x]))"

section \<open>Recording\<close>

definition SetGatewayInfo :: "string \<Rightarrow> string \<Rightarrow> string \<Rightarrow> metrics \<Rightarrow> metrics" where
  "SetGatewayInfo environment version tag m = m\<lparr>
     GatewayUp := vec_set [environment, version, tag] 1 (GatewayUp m),
     BuildInfo := vec_set [environment, version, tag] 1 (BuildInfo m)\<rparr>"

definition ObserveHTTPRequest :: "string \<Rightarrow> string \<Rightarrow> int \<Rightarrow> string \<Rightarrow> string \<Rightarrow> rat \<Rightarrow> metrics \<Rightarrow> metrics" where
  "ObserveHTTPRequest method route statusCode client environment duration m =
    (let code = dec_int statusCode;
         m = m\<lparr>HTTPRequestsTotal := vec_inc [method, route, code, client, environment] (HTTPRequestsTotal m),
               HTTPRequestDuration := vec_observe [method, route, client, environment] duration (HTTPRequestDuration m)\<rparr>
     in if statusCode \<ge> 400
        then m\<lparr>HTTPErrorsTotal := vec_inc [method, route, code, client, environment] (HTTPErrorsTotal m)\<rparr> else m)"

text \<open>The middleware, after the handler: \<open>fullPath\<close> is the pattern of the route, empty when none matched.\<close>

definition metrics_middleware :: "string \<Rightarrow> string \<Rightarrow> string \<Rightarrow> string \<Rightarrow> int \<Rightarrow> rat \<Rightarrow> metrics \<Rightarrow> metrics" where
  "metrics_middleware environment method fullPath clientHeader status duration m =
    (let route = (if fullPath = '''' then ''unknown'' else fullPath)
     in ObserveHTTPRequest method route status (DetectClient clientHeader) environment duration m)"

definition UpdateActiveNodeSessions :: "string \<Rightarrow> int \<Rightarrow> string \<Rightarrow> metrics \<Rightarrow> metrics" where
  "UpdateActiveNodeSessions region count environment m =
    m\<lparr>ActiveNodeSessions := vec_set [NormalizeRegion region, environment] count (ActiveNodeSessions m)\<rparr>"

text \<open>\<open>handleTelemetryEvent\<close> with its counter.\<close>

definition telemetry_recorded :: "string \<Rightarrow> (string \<times> string \<times> string) option \<Rightarrow> metrics \<Rightarrow> unit resp \<times> metrics" where
  "telemetry_recorded environment body m =
    (case handleTelemetryEvent body of (r, None) \<Rightarrow> (r, m)
     | (r, Some (p, e, st)) \<Rightarrow> (r, m\<lparr>AppEventsTotal := vec_inc [p, e, st, environment] (AppEventsTotal m)\<rparr>))"

text \<open>
  \<open>doProvision\<close> records on every path, before it answers: a bundle as a success, any other answer as a failure.  The
  region is that of the node when it can be read.
\<close>

definition vpnRegion :: "db \<Rightarrow> string \<Rightarrow> string" where
  "vpnRegion s nodeID = (case GetNode s nodeID of Inl _ \<Rightarrow> ''unknown'' | Inr n \<Rightarrow> NormalizeRegion (n_region n))"

definition recordVPN :: "string \<Rightarrow> string \<Rightarrow> string \<Rightarrow> string \<Rightarrow> metrics \<Rightarrow> metrics" where
  "recordVPN client region environment status m =
    m\<lparr>VPNConfigsGeneratedTotal := vec_inc [client, region, status, environment] (VPNConfigsGeneratedTotal m)\<rparr>"

definition doProvision_recorded :: "string \<Rightarrow> string \<Rightarrow> vpn_env \<Rightarrow> (db \<Rightarrow> db) \<Rightarrow> time \<Rightarrow> id \<Rightarrow> id \<Rightarrow> string \<Rightarrow> string \<Rightarrow> provision_req
    \<Rightarrow> db \<times> metrics \<Rightarrow> string resp \<times> db \<times> metrics" where
  "doProvision_recorded environment clientHeader env during now newID uid org nodeID req st =
    (let (s, m) = st; region = vpnRegion s nodeID;
         (r, s) = doProvision env during now newID uid org nodeID req s
     in (r, s, recordVPN (DetectClient clientHeader) region environment
           (case r of Ok _ _ \<Rightarrow> ''success'' | Fail _ _ \<Rightarrow> ''failed'') m))"

text \<open>
  The step of the enrollment that registers the node records its outcome; a token bound to another node is refused
  before it and records nothing.
\<close>

definition enroll_recorded :: "string \<Rightarrow> enroll_env \<Rightarrow> time \<Rightarrow> (db \<Rightarrow> id) \<Rightarrow> string option \<Rightarrow> id \<Rightarrow> id \<Rightarrow> string \<Rightarrow> register_req
    \<Rightarrow> string \<Rightarrow> db \<times> metrics \<Rightarrow> enroll_reply resp \<times> db \<times> metrics" where
  "enroll_recorded environment env now uuid freshKey orgID tokenID tokenPeerID req nodeChain st =
    (let (s, m) = st; (r, s) = enroll_register env now uuid freshKey orgID tokenID tokenPeerID req nodeChain s
     in (r, s, if tokenPeerID \<noteq> '''' \<and> tokenPeerID \<noteq> TrimSpace (rr_peer_id req) then m
               else m\<lparr>NodeRegistrationsTotal := vec_inc [case r of Ok _ _ \<Rightarrow> ''success'' | Fail _ _ \<Rightarrow> ''failed'', environment]
                      (NodeRegistrationsTotal m)\<rparr>))"

text \<open>A heartbeat over the connection of a node.\<close>

definition heartbeat_recorded :: "string \<Rightarrow> time \<Rightarrow> string \<Rightarrow> heartbeat \<Rightarrow> db \<times> metrics \<Rightarrow> db \<times> metrics" where
  "heartbeat_recorded environment now peer hb st =
    (let (s, m) = st;
         status = (case fst (ApplyHeartbeat now peer (if hbt_status hb = '''' then ''online'' else hbt_status hb) (hbt_load_json hb)
             (hbt_speedtest_json hb) (hbt_rx_bytes hb) (hbt_tx_bytes hb) (version_of (hbt_versions hb) ''node'') s)
           of Inl _ \<Rightarrow> ''failed'' | Inr _ \<Rightarrow> ''success'')
     in (onHeartbeat now peer hb s, m\<lparr>NodeHeartbeatsTotal := vec_inc [status, environment] (NodeHeartbeatsTotal m)\<rparr>))"

section \<open>Consistency\<close>

text \<open>What was observed: method, pattern of the route, client header, status and duration of each request.\<close>

type_synonym observed = "string \<times> string \<times> string \<times> int \<times> rat"

definition observe_all :: "string \<Rightarrow> observed list \<Rightarrow> metrics \<Rightarrow> metrics" where
  "observe_all environment reqs m =
    foldl (\<lambda>m (method, path, client, status, d). metrics_middleware environment method path client status d m) m reqs"

definition request_labels :: "string \<Rightarrow> observed \<Rightarrow> string list" where
  "request_labels environment = (\<lambda>(method, path, client, status, d).
     [method, if path = '''' then ''unknown'' else path, dec_int status, DetectClient client, environment])"

definition duration_labels :: "string \<Rightarrow> observed \<Rightarrow> string list" where
  "duration_labels environment = (\<lambda>(method, path, client, status, d).
     [method, if path = '''' then ''unknown'' else path, DetectClient client, environment])"

definition counted :: "nat \<Rightarrow> int option" where
  "counted n = (if n = 0 then None else Some (int n))"

lemma observe_all_snoc:
  "observe_all e (rs @ [r]) m = (case r of (method, path, client, status, d) \<Rightarrow> metrics_middleware e method path client status d (observe_all e rs m))"
  by (simp add: observe_all_def)

lemma counted_inc: "vec_inc ls v x = (if x = ls then (case v x of None \<Rightarrow> Some 1 | Some n \<Rightarrow> Some (n + 1)) else v x)"
  by (simp add: vec_inc_def vec_add_def split: option.split)

lemma counted_Suc: "counted (Suc n) = (case counted n of None \<Rightarrow> Some 1 | Some k \<Rightarrow> Some (k + 1))"
  by (simp add: counted_def)

lemma middleware_fields:
  "HTTPRequestsTotal (metrics_middleware e me p c st d m) = vec_inc (request_labels e (me, p, c, st, d)) (HTTPRequestsTotal m)"
  "HTTPErrorsTotal (metrics_middleware e me p c st d m) =
    (if st \<ge> 400 then vec_inc (request_labels e (me, p, c, st, d)) (HTTPErrorsTotal m) else HTTPErrorsTotal m)"
  "HTTPRequestDuration (metrics_middleware e me p c st d m) = vec_observe (duration_labels e (me, p, c, st, d)) d (HTTPRequestDuration m)"
  by (simp_all add: metrics_middleware_def ObserveHTTPRequest_def request_labels_def duration_labels_def Let_def)

lemma requests_counted: "HTTPRequestsTotal (observe_all e rs Register) ls = counted (length (filter (\<lambda>r. request_labels e r = ls) rs))"
proof (induction rs rule: rev_induct)
  case (snoc r rs)
  then show ?case by (cases r) (auto simp: observe_all_snoc middleware_fields counted_inc counted_Suc)
qed (simp add: observe_all_def Register_def counted_def)

definition failed_request :: "observed \<Rightarrow> bool" where
  "failed_request = (\<lambda>(_, _, _, status, _). status \<ge> 400)"

definition duration_of :: "observed \<Rightarrow> rat" where
  "duration_of = (\<lambda>(_, _, _, _, d). d)"

lemma errors_counted:
  "HTTPErrorsTotal (observe_all e rs Register) ls = counted (length (filter (\<lambda>r. failed_request r \<and> request_labels e r = ls) rs))"
proof (induction rs rule: rev_induct)
  case (snoc r rs)
  then show ?case by (cases r) (auto simp: observe_all_snoc middleware_fields counted_inc counted_Suc failed_request_def)
qed (simp add: observe_all_def Register_def counted_def)

lemma durations_kept:
  "HTTPRequestDuration (observe_all e rs Register) ls =
    (case map duration_of (filter (\<lambda>r. duration_labels e r = ls) rs) of [] \<Rightarrow> None | xs \<Rightarrow> Some xs)"
proof (induction rs rule: rev_induct)
  case (snoc r rs)
  then show ?case
    by (cases r) (auto simp: observe_all_snoc middleware_fields vec_observe_def duration_of_def split: list.splits)
qed (simp add: observe_all_def Register_def)

lemma bounded_label_in: "bounded_label known x \<in> insert ''unknown'' (set known)"
  by (simp add: bounded_label_def Let_def)

lemma detected_client: "DetectClient c \<in> {''unknown'', ''webapp'', ''android'', ''ios'', ''node''}"
  using bounded_label_in [of "[''webapp'', ''android'', ''ios'', ''node'']" c] by (simp add: DetectClient_def)

text \<open>
  The request metrics tell what happened.  After any sequence of requests every series of the request counter is the
  number of requests with its labels, every series of the error counter the number of those answered with 400 or above, so
  that errors never exceed requests, and every duration series holds exactly the durations of its requests in order.  The
  client label takes one of five values, whatever the header says.
\<close>

theorem metrics_consistent:
  "HTTPRequestsTotal (observe_all environment rs Register) ls = counted (length (filter (\<lambda>r. request_labels environment r = ls) rs))
    \<and> HTTPErrorsTotal (observe_all environment rs Register) ls =
      counted (length (filter (\<lambda>r. failed_request r \<and> request_labels environment r = ls) rs))
    \<and> HTTPRequestDuration (observe_all environment rs Register) ls =
      (case map duration_of (filter (\<lambda>r. duration_labels environment r = ls) rs) of [] \<Rightarrow> None | xs \<Rightarrow> Some xs)
    \<and> (\<lambda>ls. ls ! 3) ` dom (HTTPRequestsTotal (observe_all environment rs Register))
      \<subseteq> {''unknown'', ''webapp'', ''android'', ''ios'', ''node''}"
proof -
  have "ls ! 3 \<in> {''unknown'', ''webapp'', ''android'', ''ios'', ''node''}"
    if "ls \<in> dom (HTTPRequestsTotal (observe_all environment rs Register))" for ls
  proof -
    from that obtain r where "request_labels environment r = ls"
      by (auto simp: requests_counted counted_def filter_empty_conv split: if_splits)
    then obtain c where "ls ! 3 = DetectClient c" by (cases r) (auto simp: request_labels_def)
    then show ?thesis by (simp only: detected_client)
  qed
  then show ?thesis by (auto simp only: requests_counted errors_counted durations_kept image_subset_iff)
qed

end
