(* ===== verification/Endpoints.thy ===== *)
theory Endpoints
  imports AdminApi "HOL-Library.AList"
begin

text \<open>
  \<open>enrichEndpointsForDiscovery\<close> of \<open>internal/api/nodes.go\<close>: the endpoints an operator sees of a node, with the
  address of the node where it advertised no host.

  A JSON document is a value; an object is an association list with distinct keys.  Decoding and encoding are parameters.
\<close>

datatype json = JNull | JBool bool | JNum string | JStr string | JArr "json list" | JObj "(string \<times> json) list"

record json_lib =
  js_dec :: "string \<Rightarrow> json option"
  js_enc :: "json \<Rightarrow> string option"

text \<open>
  The map the document decodes to.  Text that is no object leaves a fresh map; \<open>null\<close> leaves no map at all
  (\<open>None\<close>), and writing to it panics.
\<close>

definition endpoint_map :: "json_lib \<Rightarrow> string \<Rightarrow> (string \<times> json) list option" where
  "endpoint_map lib raw =
    (if raw = '''' then Some []
     else case js_dec lib raw of None \<Rightarrow> Some []
     | Some v \<Rightarrow> (case v of JObj m \<Rightarrow> Some m | JNull \<Rightarrow> None | _ \<Rightarrow> Some []))"

definition wireguard_of :: "(string \<times> json) list \<Rightarrow> (string \<times> json) list" where
  "wireguard_of m = (case map_of m ''wireguard'' of Some (JObj w) \<Rightarrow> w | _ \<Rightarrow> [])"

definition with_host :: "string \<Rightarrow> (string \<times> json) list \<Rightarrow> (string \<times> json) list" where
  "with_host ip w = (if map_of w ''host'' = None then AList.update ''host'' (JStr ip) w else w)"

text \<open>\<open>None\<close> is a panic.\<close>

definition enrichEndpointsForDiscovery :: "json_lib \<Rightarrow> string \<Rightarrow> string \<Rightarrow> string option" where
  "enrichEndpointsForDiscovery lib raw ip =
    (if TrimSpace ip = '''' then Some raw
     else case endpoint_map lib raw of None \<Rightarrow> None
     | Some m \<Rightarrow>
       (case js_enc lib (JObj (AList.update ''wireguard'' (JObj (with_host ip (wireguard_of m))) m)) of
          None \<Rightarrow> Some raw | Some out \<Rightarrow> Some out))"

text \<open>
  The document an operator sees: a host the node advertised stays, a missing one is the address of the node, and nothing
  else of the document changes.
\<close>

theorem enrich_effect:
  assumes codec: "\<And>v t. js_enc lib v = Some t \<Longrightarrow> js_dec lib t = Some v" and total: "\<And>v. js_enc lib v \<noteq> None"
    and doc: "endpoint_map lib raw = Some m" and ip: "TrimSpace ip \<noteq> ''''"
  shows "\<exists>out m'. enrichEndpointsForDiscovery lib raw ip = Some out \<and> js_dec lib out = Some (JObj m')
    \<and> map_of (wireguard_of m') ''host'' = Some (case map_of (wireguard_of m) ''host'' of None \<Rightarrow> JStr ip | Some h \<Rightarrow> h)
    \<and> map_of (wireguard_of m') |` (- {''host''}) = map_of (wireguard_of m) |` (- {''host''})
    \<and> map_of m' |` (- {''wireguard''}) = map_of m |` (- {''wireguard''})"
proof -
  let ?m = "AList.update ''wireguard'' (JObj (with_host ip (wireguard_of m))) m"
  obtain out where out: "js_enc lib (JObj ?m) = Some out" using total by blast
  have wg: "wireguard_of ?m = with_host ip (wireguard_of m)" by (simp add: wireguard_of_def [of ?m] AList.update_conv')
  have "enrichEndpointsForDiscovery lib raw ip = Some out" using out doc ip by (simp add: enrichEndpointsForDiscovery_def)
  moreover have "map_of (wireguard_of ?m) ''host'' = Some (case map_of (wireguard_of m) ''host'' of None \<Rightarrow> JStr ip | Some h \<Rightarrow> h)"
    unfolding wg by (auto simp: with_host_def AList.update_conv' split: option.split)
  moreover have "map_of (wireguard_of ?m) |` (- {''host''}) = map_of (wireguard_of m) |` (- {''host''})"
    unfolding wg by (auto simp: with_host_def AList.update_conv' restrict_map_def)
  moreover have "map_of ?m |` (- {''wireguard''}) = map_of m |` (- {''wireguard''})"
    by (auto simp: AList.update_conv' restrict_map_def)
  ultimately show ?thesis using codec [OF out] by blast
qed

end
