(* ===== verification/Start.thy ===== *)
theory Start
  imports Metrics Mailer Secrets Runtime
begin

text \<open>
  A start of the gateway: \<open>internal/config/config.go\<close>, \<open>Open\<close> of \<open>internal/store/store.go\<close> and \<open>run\<close> of
  \<open>cmd/gateway/main.go\<close> up to the moment the server listens.
\<close>

section \<open>Configuration\<close>

text \<open>The fields \<open>config\<close> leaves out.\<close>

record full_config = config +
  cf_app_port :: string
  cf_environment :: string
  cf_allowed_origin :: string
  cf_trusted_proxies :: string
  cf_admin_wallet :: string
  cf_db_host :: string
  cf_db_port :: string
  cf_db_username :: string
  cf_db_name :: string
  cf_db_sslmode :: string
  cf_redis_host :: string
  cf_redis_password :: string
  cf_telegram_bot_token :: string
  cf_resend_api_key :: string
  cf_resend_from :: string
  cf_managed_provisioning :: bool
  cf_managed_region :: string
  cf_managed_image :: string
  cf_sentinel_image :: string
  cf_ssh_user :: string
  cf_ssh_key_path :: string
  cf_gateway_base_url :: string

text \<open>
  The library that reads the environment is a parameter: the value of a variable, given the default of its tag, if it has
  one; and the truth value of a text.
\<close>

record env_lib =
  ev_get :: "string \<Rightarrow> string option \<Rightarrow> string"
  ev_bool :: "string \<Rightarrow> bool option"

definition parseEnv :: "env_lib \<Rightarrow> full_config res" where
  "parseEnv env =
    (let get = (\<lambda>v. ev_get env v None); get_or = (\<lambda>v d. ev_get env v (Some d))
     in case ev_bool env (get_or ''MANAGED_NODE_PROVISIONING_ENABLED'' ''false'') of
       None \<Rightarrow> Inl (ErrMsg ''parse config'')
     | Some managed \<Rightarrow> Inr \<lparr>
         cf_gin_mode = get_or ''GIN_MODE'' ''release'',
         cf_mnemonic = get ''MNEMONIC'',
         cf_db_password = get ''DB_PASSWORD'',
         cf_google_client_ids = get ''GOOGLE_CLIENT_IDS'',
         cf_apple_client_ids = get ''APPLE_CLIENT_IDS'',
         cf_apple_relay_ids = get ''APPLE_ANDROID_RELAY_IDS'',
         cf_public_base_url = get_or ''EREBRUS_PUBLIC_BASE_URL'' ''https://erebrus.io'',
         cf_solana_rpc_url = get_or ''SOLANA_RPC_URL'' ''https://api.mainnet-beta.solana.com'',
         cf_evm_rpc_url = get ''EVM_RPC_URL'',
         cf_nft_gate_chain = get_or ''NFT_GATE_CHAIN'' ''solana'',
         cf_nft_gate_contract = get ''NFT_GATE_CONTRACT'',
         cf_nft_gate_rpc_url = get ''NFT_GATE_RPC_URL'',
         cf_app_port = get_or ''APP_PORT'' ''8080'',
         cf_environment = get_or ''ENVIRONMENT'' ''dev'',
         cf_allowed_origin = get_or ''ALLOWED_ORIGIN'' ''https://erebrus.io,https://dev.erebrus.io,http://localhost:3000'',
         cf_trusted_proxies = get ''TRUSTED_PROXIES'',
         cf_admin_wallet = get ''ADMIN_WALLET_ADDRESS'',
         cf_db_host = get_or ''DB_HOST'' ''localhost'',
         cf_db_port = get_or ''DB_PORT'' ''5432'',
         cf_db_username = get_or ''DB_USERNAME'' ''erebrus'',
         cf_db_name = get_or ''DB_NAME'' ''erebrus'',
         cf_db_sslmode = get_or ''DB_SSLMODE'' ''require'',
         cf_redis_host = get_or ''REDIS_HOST'' ''localhost:6379'',
         cf_redis_password = get ''REDIS_PASSWORD'',
         cf_telegram_bot_token = get ''TELEGRAM_BOT_TOKEN'',
         cf_resend_api_key = get ''RESEND_API_KEY'',
         cf_resend_from = get_or ''RESEND_FROM'' ''Erebrus <no-reply@info.erebrus.io>'',
         cf_managed_provisioning = managed,
         cf_managed_region = get_or ''MANAGED_NODE_DEFAULT_REGION'' ''unknown'',
         cf_managed_image = get_or ''MANAGED_NODE_DEFAULT_IMAGE'' ''ghcr.io/netsepio/erebrus:latest'',
         cf_sentinel_image = get_or ''SENTINEL_IMAGE'' ''ghcr.io/netsepio/erebrus-sentinel:latest'',
         cf_ssh_user = get ''NODE_PROVISION_SSH_USER'',
         cf_ssh_key_path = get ''NODE_PROVISION_SSH_KEY_PATH'',
         cf_gateway_base_url = get_or ''GATEWAY_PUBLIC_BASE_URL'' ''https://gateway.erebrus.io''\<rparr>)"

definition ProvisioningConfig :: "full_config \<Rightarrow> bool \<times> string" where
  "ProvisioningConfig c = (cf_managed_provisioning c, cf_managed_region c)"

definition DSN :: "full_config \<Rightarrow> string" where
  "DSN c = ''host='' @ cf_db_host c @ '' port='' @ cf_db_port c @ '' user='' @ cf_db_username c @ '' password='' @ cf_db_password c
     @ '' dbname='' @ cf_db_name c @ '' sslmode='' @ cf_db_sslmode c"

section \<open>Start\<close>

text \<open>
  What surrounds a start: the environment, whether the database answers under a connection string, the effect of the body
  of a migration, the embedded files, whether Redis answers, the collections of the database, and the libraries of the keys.
  \<open>fresh\<close> is the key generated when there is no mnemonic.
\<close>

record world =
  wo_env :: env_lib
  wo_connects :: "string \<Rightarrow> bool"
  wo_exec :: "string \<Rightarrow> db \<Rightarrow> db option"
  wo_files :: "string list"
  wo_redis :: cache
  wo_collections :: "gate_contract list"
  wo_parse_float :: "string \<Rightarrow> rat option"
  wo_hd :: hd_lib
  wo_aead :: aead_lib
  wo_fresh :: string
  wo_version :: string
  wo_tag :: string

definition Open :: "world \<Rightarrow> string \<Rightarrow> string list \<times> db \<Rightarrow> unit res \<times> string list \<times> db" where
  "Open w dsn st =
    (if \<not> wo_connects w dsn then (Inl (ErrMsg ''ping postgres''), st)
     else migrate (wo_exec w) (wo_files w) st)"

text \<open>The objects the server is built from.\<close>

record running =
  rn_config :: full_config
  rn_key :: string
  rn_tuned :: tuned
  rn_thresholds :: "int list"
  rn_cache :: cache
  rn_metrics :: metrics
  rn_nft :: checker
  rn_mailer :: mailer
  rn_box :: box
  rn_verifiers :: verifiers
  rn_relay :: relay_cfg
  rn_addr :: string

definition signing_key :: "world \<Rightarrow> full_config \<Rightarrow> string res" where
  "signing_key w c = resolvePasetoKey (\<lambda>m. ok_of (PasetoKeyFromMnemonic (wo_hd w) m)) (wo_fresh w) (config.truncate c)"

definition assemble :: "world \<Rightarrow> full_config \<Rightarrow> string \<Rightarrow> tuned \<Rightarrow> int list \<Rightarrow> running" where
  "assemble w c key tuned thr =
    (let base = config.truncate c;
         contracts = map (\<lambda>g. (gc_chain g, gc_address g)) (ListNFTGateContracts (wo_collections w))
     in \<lparr>rn_config = c, rn_key = key, rn_tuned = tuned, rn_thresholds = thr,
         rn_cache = wo_redis w,
         rn_metrics = SetGatewayInfo (cf_environment c) (wo_version w) (wo_tag w) Register,
         rn_nft = nft_checker base contracts,
         rn_mailer = NewMailer (cf_resend_api_key c) (cf_resend_from c),
         rn_box = NewBox (wo_aead w) (cf_mnemonic c),
         rn_verifiers = server_verifiers base, rn_relay = server_relay base,
         rn_addr = '':'' @ cf_app_port c\<rparr>)"

definition run :: "world \<Rightarrow> string list \<times> db \<Rightarrow> running res \<times> string list \<times> db" where
  "run w st =
    (case parseEnv (wo_env w) of Inl e \<Rightarrow> (Inl e, st)
     | Inr c \<Rightarrow>
       (case Validate (config.truncate c) of Some e \<Rightarrow> (Inl e, st)
        | None \<Rightarrow>
          (case Open w (DSN c) st of
             (Inl e, st) \<Rightarrow> (Inl e, st)
           | (Inr _, st) \<Rightarrow>
             (case boot (wo_parse_float w) (\<lambda>m. ok_of (PasetoKeyFromMnemonic (wo_hd w) m)) (wo_fresh w) (config.truncate c) (snd st) of
                Inl e \<Rightarrow> (Inl e, st)
              | Inr (tuned, thr) \<Rightarrow>
                (case signing_key w c of Inl e \<Rightarrow> (Inl e, st) | Inr key \<Rightarrow> (Inr (assemble w c key tuned thr), st))))))"

end
