(* ===== verification/StartSafety.thy ===== *)
theory StartSafety
  imports Start RuntimeSafety SecretsSafety
begin

text \<open>
  What a start guarantees before the server listens, and that a restart brings back the same gateway.
\<close>

section \<open>Steps\<close>

lemma run_steps:
  assumes "run w st = (Inr g, st')"
  obtains c tuned thr key where "parseEnv (wo_env w) = Inr c" and "Validate (config.truncate c) = None" and "Open w (DSN c) st = (Inr (), st')"
    and "boot (wo_parse_float w) (\<lambda>m. ok_of (PasetoKeyFromMnemonic (wo_hd w) m)) (wo_fresh w) (config.truncate c) (snd st') = Inr (tuned, thr)"
    and "signing_key w c = Inr key" and "g = assemble w c key tuned thr"
  using assms by (auto simp: run_def split: sum.splits option.splits prod.splits)

lemma run_ok:
  assumes "parseEnv (wo_env w) = Inr c" and "Validate (config.truncate c) = None" and "Open w (DSN c) st = (Inr (), st')"
    and "boot (wo_parse_float w) (\<lambda>m. ok_of (PasetoKeyFromMnemonic (wo_hd w) m)) (wo_fresh w) (config.truncate c) (snd st') = Inr (tuned, thr)"
    and "signing_key w c = Inr key"
  shows "run w st = (Inr (assemble w c key tuned thr), st')"
  using assms by (simp add: run_def)

lemma migrate_done:
  assumes "migrate exec files (vs, d) = (Inr (), vs', d')" and "distinct files"
  shows "vs' = vs @ pending files vs \<and> apply_bodies exec (pending files vs) d = Some d'"
  using migrate_prefix [OF assms] by auto

lemma migrate_again:
  assumes "distinct files" and "pending files vs = []"
  shows "migrate exec files (vs, d) = (Inr (), vs, d)"
proof (cases "migrate exec files (vs, d)")
  case (fields r vs' d')
  from migrate_prefix [OF fields assms(1)] assms(2) have "r = Inr () \<and> vs' = vs \<and> d' = d" by (cases r) auto
  with fields show ?thesis by simp
qed

lemma boot_facts:
  assumes "boot pf derive fresh c s = Inr (tuned, thr)"
  shows "LoadPlatformSettings pf s = Inr (tu_platform tuned) \<and> (\<exists>key. resolvePasetoKey derive fresh c = Inr key
    \<and> token_New key (pv_PasetoSignedBy (tu_platform tuned)) (pv_PasetoExpiration (tu_platform tuned)) = Some (tu_manager tuned))"
  using assms by (auto simp: boot_def split: option.splits sum.splits)

lemma key_fresh: "cf_mnemonic c \<noteq> '''' \<Longrightarrow> resolvePasetoKey derive fresh c = resolvePasetoKey derive fresh' c"
  by (simp add: resolvePasetoKey_def)

lemma boot_fresh: "cf_mnemonic c \<noteq> '''' \<Longrightarrow> boot pf derive fresh c s = boot pf derive fresh' c s"
  unfolding boot_def by (subst key_fresh) simp_all

lemma signing_fresh: "cf_mnemonic c \<noteq> '''' \<Longrightarrow> signing_key (w\<lparr>wo_fresh := f\<rparr>) c = signing_key w c"
  using key_fresh [of "config.truncate c" _ f "wo_fresh w"] by (simp add: signing_key_def config.truncate_def)

text \<open>
  C19. A gateway serves only when everything it rests on is in place, and a restart brings back the same one.  When a start
  succeeds, the database answered, every pending migration has been applied once in order, a release has a mnemonic and a
  database password, the settings in force are those of the migrated database, and the token manager took the signing key,
  which is the derived one whenever a mnemonic is set; without a mnemonic the box for credentials is off.  A restart in the
  same environment on the database it left applies nothing and ends in the same server; with a mnemonic this does not depend
  on the key that would be drawn.
\<close>

theorem start_gates:
  assumes start: "run w (vs, d) = (Inr g, vs', d')" and files: "distinct (wo_files w)"
  shows "parseEnv (wo_env w) = Inr (rn_config g) \<and> wo_connects w (DSN (rn_config g))
    \<and> vs' = vs @ pending (wo_files w) vs \<and> apply_bodies (wo_exec w) (pending (wo_files w) vs) d = Some d'
    \<and> (cf_gin_mode (rn_config g) = ''release'' \<longrightarrow> TrimSpace (cf_mnemonic (rn_config g)) \<noteq> '''' \<and> cf_db_password (rn_config g) \<noteq> '''')
    \<and> LoadPlatformSettings (wo_parse_float w) d' = Inr (tu_platform (rn_tuned g))
    \<and> token_New (rn_key g) (pv_PasetoSignedBy (tu_platform (rn_tuned g))) (pv_PasetoExpiration (tu_platform (rn_tuned g)))
        = Some (tu_manager (rn_tuned g))
    \<and> (if cf_mnemonic (rn_config g) = '''' then rn_key g = wo_fresh w \<and> rn_box g = None
       else PasetoKeyFromMnemonic (wo_hd w) (cf_mnemonic (rn_config g)) = Inr (rn_key g))
    \<and> run w (vs', d') = (Inr g, vs', d')
    \<and> (cf_mnemonic (rn_config g) \<noteq> '''' \<longrightarrow> (\<forall>f. run (w\<lparr>wo_fresh := f\<rparr>) (vs', d') = (Inr g, vs', d')))"
proof -
  let ?derive = "\<lambda>m. ok_of (PasetoKeyFromMnemonic (wo_hd w) m)"
  from run_steps [OF start] obtain c tuned thr key where c: "parseEnv (wo_env w) = Inr c" and valid: "Validate (config.truncate c) = None"
    and open_db: "Open w (DSN c) (vs, d) = (Inr (), vs', d')" and booted: "boot (wo_parse_float w) ?derive (wo_fresh w) (config.truncate c) d' = Inr (tuned, thr)"
    and key: "signing_key w c = Inr key" and g: "g = assemble w c key tuned thr" by (metis snd_conv)
  have parts: "rn_config g = c" "rn_key g = key" "rn_tuned g = tuned" "rn_box g = NewBox (wo_aead w) (cf_mnemonic c)"
    by (simp_all add: g assemble_def Let_def)
  from open_db have up: "wo_connects w (DSN c)" and migrated: "migrate (wo_exec w) (wo_files w) (vs, d) = (Inr (), vs', d')"
    by (auto simp: Open_def split: if_splits)
  note schema = migrate_done [OF migrated files]
  have left: "pending (wo_files w) vs' = []" using pending_after [of "wo_files w" vs "pending (wo_files w) vs" "[]"] files schema by simp
  have again: "Open (w\<lparr>wo_fresh := f\<rparr>) (DSN c) (vs', d') = (Inr (), vs', d')" for f
    using up migrate_again [OF files left] by (simp add: Open_def)
  from booted have settings: "LoadPlatformSettings (wo_parse_float w) d' = Inr (tu_platform tuned)" and
    manager: "token_New key (pv_PasetoSignedBy (tu_platform tuned)) (pv_PasetoExpiration (tu_platform tuned)) = Some (tu_manager tuned)"
    using boot_facts [OF booted] key by (auto simp: signing_key_def)
  have same: "assemble (w\<lparr>wo_fresh := f\<rparr>) c key tuned thr = g" for f by (simp add: g assemble_def Let_def)
  have rerun: "run (w\<lparr>wo_fresh := f\<rparr>) (vs', d') = (Inr g, vs', d')" if "cf_mnemonic c \<noteq> '''' \<or> f = wo_fresh w" for f
  proof -
    have "cf_mnemonic (config.truncate c) = cf_mnemonic c" by (simp add: config.truncate_def)
    with that boot_fresh [of "config.truncate c" "wo_parse_float w" ?derive f d' "wo_fresh w"]
    have "boot (wo_parse_float w) ?derive f (config.truncate c) d' = Inr (tuned, thr)" by (elim disjE) (simp_all only: booted not_False_eq_True simp_thms)
    moreover from that have "signing_key (w\<lparr>wo_fresh := f\<rparr>) c = Inr key" by (elim disjE) (simp_all add: key signing_fresh)
    ultimately show ?thesis using run_ok [of "w\<lparr>wo_fresh := f\<rparr>" c "(vs', d')" "(vs', d')" tuned thr key] c valid again [of f] same [of f] by simp
  qed
  have derived: "if cf_mnemonic c = '''' then key = wo_fresh w \<and> rn_box g = None
      else PasetoKeyFromMnemonic (wo_hd w) (cf_mnemonic c) = Inr key"
  proof -
    have "ok_of (PasetoKeyFromMnemonic (wo_hd w) '''') = None" by (simp add: PasetoKeyFromMnemonic_def TrimSpace_def ok_of_def)
    with key parts show ?thesis
      by (auto simp: signing_key_def resolvePasetoKey_def config.truncate_def ok_of_def NewBox_def split: option.splits sum.splits if_splits)
  qed
  have release: "cf_gin_mode c = ''release'' \<longrightarrow> TrimSpace (cf_mnemonic c) \<noteq> '''' \<and> cf_db_password c \<noteq> ''''"
    using valid by (auto simp: Validate_def config.truncate_def split: if_splits)
  show ?thesis
    using c up schema release settings manager derived rerun [of "wo_fresh w"] rerun by (simp add: parts(1-3))
qed

section \<open>Witness\<close>

definition demo_env :: env_lib where
  "demo_env = \<lparr>ev_get = (\<lambda>v d. if v = ''MNEMONIC'' then ''seed words'' else if v = ''DB_PASSWORD'' then ''pw''
       else case d of None \<Rightarrow> '''' | Some x \<Rightarrow> x), ev_bool = (\<lambda>t. Some (t = ''true''))\<rparr>"

definition demo_hd :: hd_lib where
  "demo_hd = \<lparr>wb_valid = (\<lambda>m. True), wb_seed = (\<lambda>m. m), wb_master = (\<lambda>s. Some \<lparr>hk_key = replicate 32 (CHR ''k''), hk_chain = s\<rparr>),
     wb_child = (\<lambda>i k. Some k), wb_private = (\<lambda>s. s @ s)\<rparr>"

definition demo_world :: world where
  "demo_world = \<lparr>wo_env = demo_env, wo_connects = (\<lambda>dsn. True), wo_exec = (\<lambda>n d. Some d),
     wo_files = [''2.sql'', ''1.sql''], wo_redis = None, wo_collections = [], wo_parse_float = (\<lambda>t. None), wo_hd = demo_hd,
     wo_aead = \<lparr>al_hkdf = (\<lambda>p s i. Some p), al_gcm = (\<lambda>k. True), al_nonce_size = 2, al_seal = (\<lambda>k n p. p), al_open = (\<lambda>k n c. Some c)\<rparr>,
     wo_fresh = ''fresh'', wo_version = ''1'', wo_tag = ''t''\<rparr>"

lemma demo_open: "Open demo_world dsn ([], empty_db) = (Inr (), [''1.sql'', ''2.sql''], empty_db)"
proof -
  have "sort (filter (has_suffix ''.sql'') [''2.sql'', ''1.sql'']) = [''1.sql'', ''2.sql'']" by code_simp
  then show ?thesis by (simp add: Open_def migrate_def demo_world_def)
qed

lemma demo_key: "PasetoKeyFromMnemonic demo_hd ''seed words'' = Inr (hex_encode (replicate 64 (CHR ''k'')))"
proof -
  have "TrimSpace ''seed words'' = ''seed words''" by code_simp
  then show ?thesis
    by (simp add: PasetoKeyFromMnemonic_def demo_hd_def paseto_path_def SeedSize_def flip: replicate_add)
qed

lemma demo_manager: "\<exists>m. token_New (hex_encode (replicate 64 (CHR ''k''))) a b = Some m"
  by (simp add: token_New_def trim_hex hex_decode_encode PrivateKeySize_def)

lemma demo_config: "\<exists>c. parseEnv demo_env = Inr c \<and> Validate (config.truncate c) = None \<and> cf_gin_mode c = ''release'' \<and>
    cf_app_port c = ''8080'' \<and> cf_mnemonic c = ''seed words''"
proof -
  have "case parseEnv demo_env of Inl _ \<Rightarrow> False | Inr c \<Rightarrow> Validate (config.truncate c) = None \<and> cf_gin_mode c = ''release'' \<and>
    cf_app_port c = ''8080'' \<and> cf_mnemonic c = ''seed words''" by code_simp
  then show ?thesis by (auto split: sum.splits)
qed

lemma demo_start: "\<exists>g. run demo_world ([], empty_db) = (Inr g, [''1.sql'', ''2.sql''], empty_db) \<and>
    cf_gin_mode (rn_config g) = ''release'' \<and> rn_addr g = '':8080'' \<and> cf_mnemonic (rn_config g) = ''seed words''"
proof -
  from demo_config obtain c where c: "parseEnv demo_env = Inr c" "Validate (config.truncate c) = None" "cf_gin_mode c = ''release''"
    "cf_app_port c = ''8080''" "cf_mnemonic c = ''seed words''" by blast
  have "case LoadPlatformSettings (\<lambda>t. None) empty_db of Inl _ \<Rightarrow> False | Inr _ \<Rightarrow> True" by code_simp
  then obtain plat where plat: "LoadPlatformSettings (\<lambda>t. None) empty_db = Inr plat" by (auto split: sum.splits)
  obtain m where m: "token_New (hex_encode (replicate 64 (CHR ''k''))) (pv_PasetoSignedBy plat) (pv_PasetoExpiration plat) = Some m"
    using demo_manager by blast
  let ?derive = "\<lambda>m. ok_of (PasetoKeyFromMnemonic (wo_hd demo_world) m)"
  have key: "resolvePasetoKey ?derive (wo_fresh demo_world) (config.truncate c) = Inr (hex_encode (replicate 64 (CHR ''k'')))"
    using c(5) demo_key by (simp add: resolvePasetoKey_def config.truncate_def demo_world_def ok_of_def)
  have parts: "wo_env demo_world = demo_env" "wo_parse_float demo_world = (\<lambda>t. None)" by (simp_all add: demo_world_def)
  from c(2) plat key m obtain tuned thr where
    "boot (wo_parse_float demo_world) ?derive (wo_fresh demo_world) (config.truncate c) empty_db = Inr (tuned, thr)"
    unfolding parts by (simp add: boot_def)
  then have "run demo_world ([], empty_db) = (Inr (assemble demo_world c (hex_encode (replicate 64 (CHR ''k''))) tuned thr), [''1.sql'', ''2.sql''], empty_db)"
    using c(1,2) key by (intro run_ok) (simp_all add: demo_open signing_key_def parts)
  moreover have "rn_config (assemble demo_world c k tuned thr) = c" "rn_addr (assemble demo_world c k tuned thr) = '':'' @ cf_app_port c" for k
    by (simp_all add: assemble_def Let_def)
  ultimately show ?thesis using c(3-5) by (intro exI [of _ "assemble demo_world c (hex_encode (replicate 64 (CHR ''k''))) tuned thr"]) simp
qed

theorem start_gates_witness:
  "\<exists>g. run demo_world ([], empty_db) = (Inr g, [''1.sql'', ''2.sql''], empty_db)
    \<and> cf_gin_mode (rn_config g) = ''release'' \<and> rn_addr g = '':8080''
    \<and> PasetoKeyFromMnemonic demo_hd ''seed words'' = Inr (rn_key g)
    \<and> run demo_world ([''1.sql'', ''2.sql''], empty_db) = (Inr g, [''1.sql'', ''2.sql''], empty_db)"
proof -
  from demo_start obtain g where g: "run demo_world ([], empty_db) = (Inr g, [''1.sql'', ''2.sql''], empty_db)"
    "cf_gin_mode (rn_config g) = ''release''" "rn_addr g = '':8080''" "cf_mnemonic (rn_config g) = ''seed words''" by blast
  have files: "distinct (wo_files demo_world)" by code_simp
  have hd: "wo_hd demo_world = demo_hd" by (simp add: demo_world_def)
  note all = start_gates [OF g(1) files]
  from all g(4) hd have key: "PasetoKeyFromMnemonic demo_hd ''seed words'' = Inr (rn_key g)" by (simp split: if_splits)
  from all have "run demo_world ([''1.sql'', ''2.sql''], empty_db) = (Inr g, [''1.sql'', ''2.sql''], empty_db)" by blast
  with g key show ?thesis by blast
qed

text \<open>
  The signing key comes from the trimmed mnemonic, the box from the mnemonic as it is written: with a trailing line break
  the gateway keeps its signing key and loses the credentials it had sealed.
\<close>

theorem box_sees_white_space:
  "PasetoKeyFromMnemonic lib (''seed words'' @ [char_of (10::nat)]) = PasetoKeyFromMnemonic lib ''seed words''
   \<and> NewBox (wo_aead demo_world) (''seed words'' @ [char_of (10::nat)]) \<noteq> NewBox (wo_aead demo_world) ''seed words''"
proof
  have "TrimSpace (''seed words'' @ [char_of (10::nat)]) = TrimSpace ''seed words''" by code_simp
  then show "PasetoKeyFromMnemonic lib (''seed words'' @ [char_of (10::nat)]) = PasetoKeyFromMnemonic lib ''seed words''"
    by (simp only: PasetoKeyFromMnemonic_def)
qed code_simp

end
