(* ===== verification/Spec2Isabelle.thy ===== *)
theory Spec2Isabelle
  imports Prelude Contracts Model Entitlements Orgs DropStore DropInv DropSafety DropLife DropTiers OrgSafety
    GoText DropClient Api DropApi DropApiSafety Nodes OrgNodes Wallet Enrollment NodeApi NodeSafety Vpn VpnSafety
    Provisioning Firewall Hub HubSafety FirewallApi FirewallSafety
    Users Rewards Invites Accounts Settings OAuth Session Verifiers SignIn AppleRelay OrgApi AdminApi Telemetry
    Routes Gateway AccountFrames AccountSafety OrgApiSafety RewardSafety GatewaySafety IdentitySafety DeletionSafety
    Mailer MailSafety Secrets SecretsSafety Runtime RuntimeSafety Channels ChannelSafety Metrics Endpoints
    Start StartSafety
begin

text \<open>
  A model of the Erebrus gateway: the Go service that signs users in, keeps their organizations, enrolls VPN and
  storage nodes, hands out VPN clients, brokers file storage (Drop) and the Sentinel and Shield firewalls, and talks to the
  nodes over HTTP and WebSockets.  Its state is a Postgres database; handlers read it, change it in transactions and
  call nodes and providers.

  \<^bold>\<open>The database and its operations.\<close>
  \<^item> \<open>Prelude\<close>: results (\<open>'a res\<close>: an error or a value), transactions (\<open>in_tx\<close>: a failed body changes
    nothing), sequencing (\<open>seq\<close>), lists of rows as tables, 64-bit arithmetic (\<open>wrap64\<close> is Go's \<open>int64\<close>,
    which wraps; \<open>pg_bigint\<close> is Postgres, which fails), white space and case.  \<open>GoText\<close>: runes, UTF-8,
    printing and escaping.
  \<^item> \<open>Model\<close>: one record per row type of \<open>internal/store/models.go\<close> and the migrations, the database record
    \<open>db\<close>, and insertions that check the keys, foreign keys and checks of the migrations.
  \<^item> \<open>Entitlements\<close>, \<open>Orgs\<close>: plans, seats, organizations, members (\<open>entitlements.go\<close>, \<open>orgs.go\<close>).
  \<^item> \<open>Users\<close>, \<open>Rewards\<close>, \<open>Invites\<close>, \<open>Accounts\<close>, \<open>Settings\<close>: accounts and identities, referrals
    and experience points, profiles and invitations, deletion with its cascade, API keys and subscriptions, and the
    platform settings with their parsers (the files of \<open>internal/store\<close> of these names, \<open>config/platform.go\<close>).
  \<^item> \<open>DropStore\<close>: reservations, files, pins, vault, node health (\<open>drop.go\<close>, \<open>drop_files.go\<close>,
    \<open>drop_node.go\<close>).
  \<^item> \<open>Nodes\<close>, \<open>OrgNodes\<close>, \<open>Enrollment\<close>, \<open>Provisioning\<close>, \<open>Vpn\<close>, \<open>Firewall\<close>: the runtime and the
    control-plane rows of a node, registration tokens and the registration transaction, what a plan brings, VPN
    clients with their metering, firewall services, rules and credentials.

  \<^bold>\<open>Identity.\<close>  \<open>Wallet\<close> (signatures of both chains), \<open>Session\<close> (tokens and middleware), \<open>OAuth\<close>
  (ID tokens and the cache of keys), \<open>Verifiers\<close> (Telegram, X, collections of tokens), \<open>SignIn\<close> (every way to
  log in or link an identity), \<open>AppleRelay\<close> (the form-post callback), \<open>Secrets\<close> (the signing key of the mnemonic,
  drawn tokens, the sealed box).

  \<^bold>\<open>Handlers.\<close>  \<open>Api\<close> (guards), \<open>DropApi\<close>, \<open>NodeApi\<close>, \<open>FirewallApi\<close>, \<open>OrgApi\<close>, \<open>AdminApi\<close>,
  \<open>Endpoints\<close>, the handlers of \<open>Vpn\<close> and \<open>SignIn\<close>, \<open>Channels\<close> (the WebSocket guard and the relayed
  WebUI).  A handler is a function from the caller, the decoded request (\<open>None\<close> when it does not decode) and the
  state to a response (\<open>Ok\<close> or \<open>Fail\<close> with its status) and the new state, with the checks in the order of the code.
  \<open>Routes\<close> holds the routing table with the middleware of each route and the table of audited routes.

  \<^bold>\<open>Around them.\<close>  \<open>Hub\<close> (connections of nodes, their queues, frames and commands), \<open>DropClient\<close> and the node
  client in \<open>Vpn\<close> (requests and retries), \<open>Mailer\<close>, \<open>Telemetry\<close> and \<open>Metrics\<close>, \<open>Runtime\<close> (cache,
  migrations, health), \<open>Gateway\<close> (the objects of a server, the maintenance tick, rate limits) and \<open>Start\<close> (the
  configuration and \<open>run\<close> up to the moment the server listens).

  \<^bold>\<open>Interfaces.\<close>  \<open>Contracts\<close> states them as locales.  An \<open>invariant_system\<close> is a step relation with an invariant
  of every step, and gives reachability; it is interpreted by the Drop operations (\<open>drops\<close>, \<open>links\<close>) and the organization
  operations (\<open>owners\<close>).  An \<open>ordered_system\<close> adds a measure that never falls (the version of a vault).  A \<open>ledger\<close> is a
  counter per key under one update; the quota and the node counters of Drop interpret it five times.  \<open>code_book\<close> in
  \<open>AccountSafety\<close> is a book of one-time codes, interpreted by the login codes and the linking codes.

  \<^bold>\<open>What is shown.\<close>
  \<^item> \<open>DropInv\<close>, \<open>DropSafety\<close>, \<open>DropLife\<close>, \<open>DropTiers\<close>: in every reachable state the books of Drop balance
    (the counters of a user and of a node are the sums over its live uploads and files); reservations stay within quota and
    capacity; commits are idempotent; a physical unpin happens exactly at the last reference; expiry releases
    everything due; the vault is written under optimistic versions.  \<open>DropApiSafety\<close>: who reads a file, what the
    reconciler may remove, and that the handlers refine the store, whatever other requests do during a call to a node.
  \<^item> \<open>OrgSafety\<close>, \<open>OrgApiSafety\<close>: one owner per organization in every reachable state, seats within the plan,
    owner-only writes, API keys, invitations.
  \<^item> \<open>AccountFrames\<close>, \<open>AccountSafety\<close>, \<open>IdentitySafety\<close>, \<open>DeletionSafety\<close>, \<open>RewardSafety\<close>: logins only
    on proof, bounded guesses of a code, no identity on two accounts along any run, complete deletion, rewards paid once.
  \<^item> \<open>NodeSafety\<close>, \<open>VpnSafety\<close>, \<open>HubSafety\<close>, \<open>FirewallSafety\<close>, \<open>ChannelSafety\<close>: authentic enrollment, no
    takeover of a node, access to nodes, balanced metering, one client per device, commands only on the current
    connection and exact session counts, policies and credentials, confinement of a WebUI session.
  \<^item> \<open>GatewaySafety\<close>, \<open>SecretsSafety\<close>, \<open>RuntimeSafety\<close>, \<open>StartSafety\<close>, \<open>MailSafety\<close>: settings updates, rate
    limits, the guards of the routes, sealed credentials, migrations, what a start checks and that a restart changes
    nothing, no markup from users in mails.

  These theories also hold the departures that modelling showed, as theorems on concrete states: among them rewards with
  a key that are never paid, an owner demoted by an own invitation, a reconnect failure that deletes a working
  client, a license granted by synchronising, charts that never load.

  \<^bold>\<open>Bounds.\<close>  Loops of the code that are bounded keep their bound: 5 slugs, 5 referral codes, 3 calls of a node for a
  peer, 16 frames in a queue, 5 attempts at a code, 200 reservations a tick.  The only fuel is that of \<open>duration_groups\<close>,
  the length of the text, of which every group takes at least one character.  Everything else recurses on its data.

  \<^bold>\<open>Parameters.\<close>  Code that is not of the repository is an argument: JSON and URL codecs, HTTP transports, PASETO,
  SHA-256, HMAC, RSA, Keccak, secp256k1, Ed25519, BIP-32 and BIP-39, HKDF and AES-GCM, the reader of the environment, Redis
  and the connection to Postgres.  What a proof needs of one is a named hypothesis (opening a seal, decoding an
  encoding), and a witness instantiates it.  Random identifiers, random draws and the time of a call are arguments as
  well; \<open>during\<close> is what other requests do to the database while a handler waits for a node.

  \<^bold>\<open>Simplifications.\<close>  A \<open>float64\<close> is a rational, and printing or parsing one is a parameter.  Case is folded and
  white space trimmed in ASCII.  A query without an order answers in the order of insertion.  Timeouts, cancellation,
  connection loss and serialization failures of Postgres are left out, as are log lines, the records of the activity log
  inside handlers, the counters inside the Drop handlers and the deletion of cached discovery pages.  \<open>EXPIRE\<close> of Redis
  is taken to succeed.

  \<^bold>\<open>Not modelled.\<close>  Scanning of rows and JSON tags, which carry no decision; the connection pool, WebSocket deadlines and
  pings, CORS, the trusted proxies, signals and the HTTP listener, which configure libraries; the wire types of
  \<open>internal/nodehub/messages.go\<close> beyond the fields the hub reads.
\<close>

end
